(* ===== verification/Prelude.thy ===== *)
theory Prelude
  imports Main "HOL-Library.Char_ord" "HOL-Library.List_Lexorder"
begin

text \<open>
  The vocabulary every component of the development shares: Go errors and panics as values, the
  operations that talk to the outside world as state transformers over an arbitrary world, the
  control flow of Go functions (\<open>if err != nil\<close>, \<open>for range\<close>), weakest preconditions for them,
  and Go's \<open>map[string]string\<close> with its nil value.
\<close>

named_theorems io_defs \<open>the definitions of the control-flow combinators\<close>
named_theorems wp_simps \<open>weakest preconditions of the control-flow combinators\<close>
named_theorems ok_iff \<open>how a function that returned without an error got there\<close>
named_theorems keeps_intros \<open>a combinator keeps what its parts keep\<close>

text \<open>What the many texts of the program stand for, where it helps to say so.\<close>

type_synonym url = string
type_synonym path = string
type_synonym revision = string

section \<open>Errors and panics\<close>

text \<open>
  The error values of the program. \<open>Sentinel\<close> is a package variable made by \<open>errors.New\<close> or
  \<open>fmt.Errorf\<close> (its name is its identity, its text what it prints), \<open>ErrorText\<close> an error made on
  the spot, \<open>ErrorCtx\<close> a \<open>fmt.Errorf\<close> that prints another error after a text with \<open>%s\<close> and
  forgets it, \<open>ErrorWrap\<close> one that keeps it with \<open>%w\<close> between two texts.
  \<open>StatusError\<close> is an error of the Kubernetes API with its reason, \<open>GrpcStatus\<close> one of the
  ArgoCD API with its status code, \<open>NumError\<close> one of \<open>strconv\<close>.
\<close>

datatype status_reason = ReasonNotFound | ReasonAlreadyExists | ReasonOther string

datatype go_error =
    Sentinel string string
  | ErrorText string
  | ErrorCtx string go_error
  | ErrorWrap string go_error string
  | StatusError status_reason string
  | GrpcStatus nat string
  | NumError string string string

text \<open>What \<open>err.Error()\<close> prints. \<open>strconv\<close> quotes the text it could not parse.\<close>

definition quote_char :: "char \<Rightarrow> string" where
  "quote_char c =
     (if c = CHR 0x22 then [CHR 0x5C, CHR 0x22]
      else if c = CHR 0x5C then [CHR 0x5C, CHR 0x5C]
      else if c = CHR 0x0A then [CHR 0x5C, CHR ''n'']
      else if c = CHR 0x09 then [CHR 0x5C, CHR ''t'']
      else if c = CHR 0x0D then [CHR 0x5C, CHR ''r'']
      else [c])"

definition quote :: "string \<Rightarrow> string" where
  "quote s = [CHR 0x22] @ concat (map quote_char s) @ [CHR 0x22]"

fun error_string :: "go_error \<Rightarrow> string" where
  "error_string (Sentinel n t) = t"
| "error_string (ErrorText t) = t"
| "error_string (ErrorCtx t e) = t @ error_string e"
| "error_string (ErrorWrap t e u) = t @ error_string e @ u"
| "error_string (StatusError r t) = t"
| "error_string (GrpcStatus c t) = t"
| "error_string (NumError f n e) = ''strconv.'' @ f @ '': parsing '' @ quote n @ '': '' @ e"

text \<open>\<open>errors.Is\<close>: the error or one it wraps with \<open>%w\<close>.\<close>

fun errors_Is :: "go_error \<Rightarrow> go_error \<Rightarrow> bool" where
  "errors_Is (ErrorWrap t e u) target = (ErrorWrap t e u = target \<or> errors_Is e target)"
| "errors_Is e target = (e = target)"

text \<open>\<open>apierrors.IsNotFound\<close> and \<open>IsAlreadyExists\<close> look through \<open>%w\<close> as \<open>errors.As\<close> does.\<close>

fun IsNotFound :: "go_error \<Rightarrow> bool" where
  "IsNotFound (StatusError r t) = (r = ReasonNotFound)"
| "IsNotFound (ErrorWrap t e u) = IsNotFound e"
| "IsNotFound _ = False"

fun IsAlreadyExists :: "go_error \<Rightarrow> bool" where
  "IsAlreadyExists (StatusError r t) = (r = ReasonAlreadyExists)"
| "IsAlreadyExists (ErrorWrap t e u) = IsAlreadyExists e"
| "IsAlreadyExists _ = False"

text \<open>\<open>grpcstatus.FromError\<close>: the status code, or none for an error that carries no status.\<close>

fun grpc_code :: "go_error \<Rightarrow> nat option" where
  "grpc_code (GrpcStatus c t) = Some c"
| "grpc_code _ = None"

definition grpc_NotFound :: nat where
  "grpc_NotFound = 5"

section \<open>Operations on the world\<close>

text \<open>
  A function that may panic, may return an error, and may talk to the cluster, to ArgoCD, to git
  or to the file system: it takes the world and returns a result and the next world. The type of
  worlds is arbitrary; what the program relies on of the outside is stated where it is used.
\<close>

datatype fault = Panic string | Err go_error

type_synonym 'a result = "fault + 'a"
type_synonym ('w, 'a) io = "'w \<Rightarrow> 'a result \<times> 'w"

definition ret :: "'a \<Rightarrow> ('w, 'a) io" where
  [io_defs]: "ret x = (\<lambda>w. (Inr x, w))"

definition fail :: "go_error \<Rightarrow> ('w, 'a) io" where
  [io_defs]: "fail e = (\<lambda>w. (Inl (Err e), w))"

definition panic :: "string \<Rightarrow> ('w, 'a) io" where
  [io_defs]: "panic s = (\<lambda>w. (Inl (Panic s), w))"

text \<open>
  \<open>attempt m h k\<close> is \<open>x, err := m(); if err != nil { h(err) } else { k(x) }\<close>; a panic of \<open>m\<close> is not
  an error and ends the function. \<open>must m c k\<close> is the usual \<open>if err != nil { return c(err) }\<close>,
  \<open>andThen\<close> the one that returns the error as it is, \<open>ignoring\<close> the assignment to a blank.
\<close>

definition attempt ::
  "('w, 'a) io \<Rightarrow> (go_error \<Rightarrow> ('w, 'b) io) \<Rightarrow> ('a \<Rightarrow> ('w, 'b) io) \<Rightarrow> ('w, 'b) io" where
  [io_defs]: "attempt m h k = (\<lambda>w. case m w of
       (Inl (Panic s), w') \<Rightarrow> (Inl (Panic s), w')
     | (Inl (Err e), w') \<Rightarrow> h e w'
     | (Inr x, w') \<Rightarrow> k x w')"

definition must :: "('w, 'a) io \<Rightarrow> (go_error \<Rightarrow> go_error) \<Rightarrow> ('a \<Rightarrow> ('w, 'b) io) \<Rightarrow> ('w, 'b) io" where
  [io_defs]: "must m c k = attempt m (\<lambda>e. fail (c e)) k"

definition andThen :: "('w, 'a) io \<Rightarrow> ('a \<Rightarrow> ('w, 'b) io) \<Rightarrow> ('w, 'b) io" where
  [io_defs]: "andThen m k = attempt m fail k"

definition ignoring :: "('w, 'a) io \<Rightarrow> ('w, 'b) io \<Rightarrow> ('w, 'b) io" where
  [io_defs]: "ignoring m k = attempt m (\<lambda>_. k) (\<lambda>_. k)"

text \<open>A pure result used in a function that talks to the world.\<close>

definition lift :: "go_error + 'a \<Rightarrow> ('w, 'a) io" where
  [io_defs]: "lift r = (case r of Inl e \<Rightarrow> fail e | Inr x \<Rightarrow> ret x)"

text \<open>\<open>for _, x := range xs\<close> whose body updates the variables \<open>s\<close> and may return an error.\<close>

fun forM :: "('a \<Rightarrow> 's \<Rightarrow> ('w, 's) io) \<Rightarrow> 'a list \<Rightarrow> 's \<Rightarrow> ('w, 's) io" where
  "forM f [] s = ret s"
| "forM f (x # xs) s = andThen (f x s) (forM f xs)"

text \<open>\<open>if err := check(); err != nil { return err }\<close> for a check that returns only an error.\<close>

definition checked :: "go_error option \<Rightarrow> ('w, 'a) io \<Rightarrow> ('w, 'a) io" where
  [io_defs]: "checked e k = (case e of Some err \<Rightarrow> fail err | None \<Rightarrow> k)"

text \<open>\<open>defer c()\<close>: \<open>c\<close> runs after the rest of the function, whose result it does not change.\<close>

definition deferring :: "('w, unit) io \<Rightarrow> ('w, 'a) io \<Rightarrow> ('w, 'a) io" where
  [io_defs]: "deferring c m = (\<lambda>w. case m w of (r, w') \<Rightarrow> (r, snd (c w')))"

section \<open>Weakest preconditions\<close>

definition wp :: "('w, 'a) io \<Rightarrow> ('a result \<Rightarrow> 'w \<Rightarrow> bool) \<Rightarrow> 'w \<Rightarrow> bool" where
  "wp m Q w = (case m w of (r, w') \<Rightarrow> Q r w')"

lemma wpI: "(\<And>r w'. m w = (r, w') \<Longrightarrow> Q r w') \<Longrightarrow> wp m Q w"
  by (auto simp: wp_def split: prod.splits)

lemma wpD: "wp m Q w \<Longrightarrow> m w = (r, w') \<Longrightarrow> Q r w'"
  by (simp add: wp_def)

lemma wp_mono: "wp m Q w \<Longrightarrow> (\<And>r w'. Q r w' \<Longrightarrow> R r w') \<Longrightarrow> wp m R w"
  by (auto simp: wp_def split: prod.splits)

lemma wp_conj: "wp m Q w \<Longrightarrow> wp m R w \<Longrightarrow> wp m (\<lambda>r w'. Q r w' \<and> R r w') w"
  by (simp add: wp_def split: prod.splits)

lemma wp_ret [wp_simps]: "wp (ret x) Q w \<longleftrightarrow> Q (Inr x) w"
  by (simp add: wp_def ret_def)

lemma wp_fail [wp_simps]: "wp (fail e) Q w \<longleftrightarrow> Q (Inl (Err e)) w"
  by (simp add: wp_def fail_def)

lemma wp_panic [wp_simps]: "wp (panic s) Q w \<longleftrightarrow> Q (Inl (Panic s)) w"
  by (simp add: wp_def panic_def)

lemma wp_attempt [wp_simps]:
  "wp (attempt m h k) Q w \<longleftrightarrow>
     wp m (\<lambda>r w'. case r of Inl (Panic s) \<Rightarrow> Q (Inl (Panic s)) w'
                   | Inl (Err e) \<Rightarrow> wp (h e) Q w' | Inr x \<Rightarrow> wp (k x) Q w') w"
  by (simp add: wp_def attempt_def split: prod.splits sum.splits fault.splits)

lemma wp_must [wp_simps]:
  "wp (must m c k) Q w \<longleftrightarrow>
     wp m (\<lambda>r w'. case r of Inl (Panic s) \<Rightarrow> Q (Inl (Panic s)) w'
                   | Inl (Err e) \<Rightarrow> Q (Inl (Err (c e))) w' | Inr x \<Rightarrow> wp (k x) Q w') w"
  by (simp add: must_def wp_def attempt_def fail_def split: prod.splits sum.splits fault.splits)

lemma wp_andThen [wp_simps]:
  "wp (andThen m k) Q w \<longleftrightarrow>
     wp m (\<lambda>r w'. case r of Inl f \<Rightarrow> Q (Inl f) w' | Inr x \<Rightarrow> wp (k x) Q w') w"
  by (simp add: andThen_def wp_def attempt_def fail_def split: prod.splits sum.splits fault.splits)

lemma wp_ignoring [wp_simps]:
  "wp (ignoring m k) Q w \<longleftrightarrow>
     wp m (\<lambda>r w'. case r of Inl (Panic s) \<Rightarrow> Q (Inl (Panic s)) w' | _ \<Rightarrow> wp k Q w') w"
  by (simp add: ignoring_def wp_def attempt_def split: prod.splits sum.splits fault.splits)

lemma wp_lift [wp_simps]:
  "wp (lift r) Q w \<longleftrightarrow> (case r of Inl e \<Rightarrow> Q (Inl (Err e)) w | Inr x \<Rightarrow> Q (Inr x) w)"
  by (simp add: wp_def lift_def fail_def ret_def split: sum.splits)

lemma wp_checked [wp_simps]:
  "wp (checked c k) Q w \<longleftrightarrow> (case c of Some e \<Rightarrow> Q (Inl (Err e)) w | None \<Rightarrow> wp k Q w)"
  by (simp add: checked_def wp_fail split: option.splits)

lemma wp_deferring [wp_simps]:
  "wp (deferring c m) Q w \<longleftrightarrow> wp m (\<lambda>r w'. wp c (\<lambda>_ w''. Q r w'') w') w"
  by (simp add: wp_def deferring_def split: prod.splits)

lemma wp_if: "wp (if b then m else n) Q w \<longleftrightarrow> (if b then wp m Q w else wp n Q w)"
  by simp

text \<open>From what is known of the call to what follows it.\<close>

lemma wp_attemptI:
  assumes "wp m P w"
    and "\<And>s w'. P (Inl (Panic s)) w' \<Longrightarrow> Q (Inl (Panic s)) w'"
    and "\<And>e w'. P (Inl (Err e)) w' \<Longrightarrow> wp (h e) Q w'"
    and "\<And>x w'. P (Inr x) w' \<Longrightarrow> wp (k x) Q w'"
  shows "wp (attempt m h k) Q w"
proof (cases "m w")
  case (Pair r w')
  with assms(1) have "P r w'" by (rule wpD)
  show ?thesis
  proof (cases r)
    case (Inl f)
    with Pair \<open>P r w'\<close> assms(2,3) show ?thesis by (cases f) (simp_all add: wp_def attempt_def)
  next
    case (Inr x)
    with Pair \<open>P r w'\<close> assms(4) show ?thesis by (simp add: wp_def attempt_def)
  qed
qed

lemma wp_mustI:
  assumes "wp m P w"
    and "\<And>s w'. P (Inl (Panic s)) w' \<Longrightarrow> Q (Inl (Panic s)) w'"
    and "\<And>e w'. P (Inl (Err e)) w' \<Longrightarrow> Q (Inl (Err (c e))) w'"
    and "\<And>x w'. P (Inr x) w' \<Longrightarrow> wp (k x) Q w'"
  shows "wp (must m c k) Q w"
  unfolding must_def by (rule wp_attemptI [OF assms(1)]) (simp_all add: assms(2-4) wp_fail)

text \<open>
  The rule of the loop. The invariant speaks of the elements done so far, the variables and the
  world; the loop ends with all elements done, or with the fault of the element it stopped at.
\<close>

lemma wp_forM_prefix:
  assumes "I pre s w"
    and "\<And>ds x s w. x \<in> set xs \<Longrightarrow> I ds s w \<Longrightarrow>
      wp (f x s) (\<lambda>r w'. case r of Inl e \<Rightarrow> E e w' | Inr s' \<Rightarrow> I (ds @ [x]) s' w') w"
  shows "wp (forM f xs s) (\<lambda>r w'. case r of Inl e \<Rightarrow> E e w' | Inr s' \<Rightarrow> I (pre @ xs) s' w') w"
  using assms
proof (induction xs arbitrary: pre s w)
  case Nil
  then show ?case by (simp add: wp_ret)
next
  case (Cons x xs)
  have "wp (f x s) (\<lambda>r w'. case r of Inl e \<Rightarrow> E e w' | Inr s' \<Rightarrow> I (pre @ [x]) s' w') w"
    using Cons.prems by simp
  then show ?case
    unfolding forM.simps wp_andThen
  proof (rule wp_mono)
    fix r w'
    assume r: "case r of Inl e \<Rightarrow> E e w' | Inr s' \<Rightarrow> I (pre @ [x]) s' w'"
    show "case r of Inl f' \<Rightarrow> (case Inl f' of Inl e \<Rightarrow> E e w' | Inr s' \<Rightarrow> I (pre @ x # xs) s' w')
      | Inr s' \<Rightarrow> wp (forM f xs s') (\<lambda>r w'. case r of Inl e \<Rightarrow> E e w'
          | Inr s' \<Rightarrow> I (pre @ x # xs) s' w') w'"
    proof (cases r)
      case (Inl f')
      with r show ?thesis by simp
    next
      case (Inr s')
      with r have "I (pre @ [x]) s' w'" by simp
      then have "wp (forM f xs s') (\<lambda>r w'. case r of Inl e \<Rightarrow> E e w'
          | Inr s' \<Rightarrow> I ((pre @ [x]) @ xs) s' w') w'"
        by (rule Cons.IH) (simp add: Cons.prems(2))
      with Inr show ?thesis by (simp cong: sum.case_cong)
    qed
  qed
qed

lemma wp_forM_inv:
  assumes "I s w"
    and "\<And>x s w. x \<in> set xs \<Longrightarrow> I s w \<Longrightarrow>
      wp (f x s) (\<lambda>r w'. case r of Inl e \<Rightarrow> E e w' | Inr s' \<Rightarrow> I s' w') w"
  shows "wp (forM f xs s) (\<lambda>r w'. case r of Inl e \<Rightarrow> E e w' | Inr s' \<Rightarrow> I s' w') w"
  using wp_forM_prefix [where I = "\<lambda>_. I" and pre = "[]", OF assms] by simp

section \<open>What an operation keeps\<close>

definition keeps :: "('w \<Rightarrow> bool) \<Rightarrow> ('w, 'a) io \<Rightarrow> bool" where
  "keeps I m \<longleftrightarrow> (\<forall>w. I w \<longrightarrow> I (snd (m w)))"

text \<open>\<open>steady v m\<close>: the operation leaves the part of the world that \<open>v\<close> reads as it was.\<close>

definition steady :: "('w \<Rightarrow> 'v) \<Rightarrow> ('w, 'a) io \<Rightarrow> bool" where
  "steady v m \<longleftrightarrow> (\<forall>w. v (snd (m w)) = v w)"

lemma steadyD: "steady v m \<Longrightarrow> m w = (r, w') \<Longrightarrow> v w' = v w"
  by (auto simp: steady_def dest: spec [of _ w])

lemma steady_iff_keeps: "steady v m \<longleftrightarrow> (\<forall>x. keeps (\<lambda>w. v w = x) m)"
  by (auto simp: steady_def keeps_def)

lemma keeps_iff_wp: "keeps I m \<longleftrightarrow> (\<forall>w. I w \<longrightarrow> wp m (\<lambda>_ w'. I w') w)"
  by (simp add: keeps_def wp_def case_prod_beta)

text \<open>Calling an operation that leaves \<open>v\<close> alone.\<close>

lemma wp_steady:
  assumes "steady v m" "\<And>r w'. v w' = v w \<Longrightarrow> Q r w'"
  shows "wp m Q w"
  using assms by (auto simp: wp_def steady_def split: prod.splits dest: spec [of _ w])

lemma keeps_ret [keeps_intros]: "keeps I (ret x)"
  by (simp add: keeps_def ret_def)

lemma keeps_fail [keeps_intros]: "keeps I (fail e)"
  by (simp add: keeps_def fail_def)

lemma keeps_panic [keeps_intros]: "keeps I (panic s)"
  by (simp add: keeps_def panic_def)

lemma keeps_lift [keeps_intros]: "keeps I (lift r)"
  by (simp add: keeps_def lift_def ret_def fail_def split: sum.splits)

lemma keeps_attempt [keeps_intros]:
  assumes "keeps I m" "\<And>e. keeps I (h e)" "\<And>x. keeps I (k x)"
  shows "keeps I (attempt m h k)"
proof -
  have "I (snd (attempt m h k w))" if "I w" for w
  proof (cases "m w")
    case (Pair r w')
    with assms(1) that have "I w'" by (auto simp: keeps_def dest: spec [of _ w])
    with Pair assms(2,3) show ?thesis
      by (simp add: attempt_def keeps_def split: sum.splits fault.splits)
  qed
  then show ?thesis by (simp add: keeps_def)
qed

lemma keeps_must [keeps_intros]:
  "keeps I m \<Longrightarrow> (\<And>x. keeps I (k x)) \<Longrightarrow> keeps I (must m c k)"
  by (simp add: must_def keeps_attempt keeps_fail)

lemma keeps_andThen [keeps_intros]:
  "keeps I m \<Longrightarrow> (\<And>x. keeps I (k x)) \<Longrightarrow> keeps I (andThen m k)"
  by (simp add: andThen_def keeps_attempt keeps_fail)

lemma keeps_ignoring [keeps_intros]:
  "keeps I m \<Longrightarrow> keeps I k \<Longrightarrow> keeps I (ignoring m k)"
  by (simp add: ignoring_def keeps_attempt)

lemma keeps_checked [keeps_intros]: "keeps I k \<Longrightarrow> keeps I (checked c k)"
  by (simp add: checked_def keeps_fail split: option.splits)

lemma keeps_deferring [keeps_intros]:
  "keeps I c \<Longrightarrow> keeps I m \<Longrightarrow> keeps I (deferring c m)"
  by (simp add: keeps_def deferring_def case_prod_beta)

lemma keeps_forM [keeps_intros]:
  assumes "\<And>x s. x \<in> set xs \<Longrightarrow> keeps I (f x s)"
  shows "keeps I (forM f xs s)"
  using assms by (induction xs arbitrary: s) (auto intro!: keeps_intros)

lemma keeps_if [keeps_intros]:
  "(b \<Longrightarrow> keeps I m) \<Longrightarrow> (\<not> b \<Longrightarrow> keeps I n) \<Longrightarrow> keeps I (if b then m else n)"
  by simp

section \<open>Go maps\<close>

text \<open>
  \<open>map[string]string\<close>: \<open>None\<close> is the nil map. Reading a nil map or a missing key gives the empty
  string, deleting from a nil map does nothing, assigning to one panics.
\<close>

type_synonym gomap = "(string \<rightharpoonup> string) option"

definition mget :: "gomap \<Rightarrow> string \<Rightarrow> string" where
  "mget m k = (case m of None \<Rightarrow> '''' | Some f \<Rightarrow> (case f k of None \<Rightarrow> '''' | Some v \<Rightarrow> v))"

definition massign :: "gomap \<Rightarrow> string \<Rightarrow> string \<Rightarrow> gomap result" where
  "massign m k v = (case m of
       None \<Rightarrow> Inl (Panic ''assignment to entry in nil map'')
     | Some f \<Rightarrow> Inr (Some (f(k \<mapsto> v))))"

definition mdelete :: "gomap \<Rightarrow> string \<Rightarrow> gomap" where
  "mdelete m k = map_option (\<lambda>f. f(k := None)) m"

definition assigning :: "gomap \<Rightarrow> string \<Rightarrow> string \<Rightarrow> (gomap \<Rightarrow> ('w, 'a) io) \<Rightarrow> ('w, 'a) io" where
  [io_defs]: "assigning m k v c = (case m of
       None \<Rightarrow> panic ''assignment to entry in nil map''
     | Some f \<Rightarrow> c (Some (f(k \<mapsto> v))))"

text \<open>The literal \<open>map[string]string{...}\<close>.\<close>

definition mlit :: "(string \<times> string) list \<Rightarrow> gomap" where
  "mlit kvs = Some (map_of kvs)"

lemma mget_simps [simp]:
  "mget None k = ''''"
  "mget (Some (f(k' \<mapsto> v))) k = (if k = k' then v else mget (Some f) k)"
  "mget (Some (f(k' := None))) k = (if k = k' then '''' else mget (Some f) k)"
  "mget (Some Map.empty) k = ''''"
  by (simp_all add: mget_def)

lemma mget_mlit [simp]:
  "mget (mlit []) k = ''''"
  "mget (mlit ((k', v) # kvs)) k = (if k = k' then v else mget (mlit kvs) k)"
  by (simp_all add: mlit_def mget_def)

lemma mget_mdelete [simp]: "mget (mdelete m k') k = (if k = k' then '''' else mget m k)"
  by (cases m) (simp_all add: mdelete_def)

lemma massign_Some: "massign (Some f) k v = Inr (Some (f(k \<mapsto> v)))"
  by (simp add: massign_def)

lemma massign_mget: "massign m k v = Inr m' \<Longrightarrow> mget m' k' = (if k' = k then v else mget m k')"
  by (cases m) (auto simp: massign_def)

lemma wp_assigning [wp_simps]:
  "wp (assigning m k v c) Q w \<longleftrightarrow>
     (case m of None \<Rightarrow> Q (Inl (Panic ''assignment to entry in nil map'')) w
      | Some f \<Rightarrow> wp (c (Some (f(k \<mapsto> v)))) Q w)"
  by (simp add: assigning_def wp_panic split: option.splits)

lemma keeps_assigning [keeps_intros]:
  "(\<And>m'. keeps I (c m')) \<Longrightarrow> keeps I (assigning m k v c)"
  by (simp add: assigning_def keeps_panic split: option.splits)

section \<open>Successful runs\<close>

text \<open>How a function that returned without an error got there.\<close>

lemma ret_ok [ok_iff]: "ret x w = (Inr y, w') \<longleftrightarrow> y = x \<and> w' = w"
  by (auto simp: ret_def)

lemma fail_ok [ok_iff]: "fail e w \<noteq> (Inr y, w')"
  by (simp add: fail_def)

lemma panic_ok [ok_iff]: "panic s w \<noteq> (Inr y, w')"
  by (simp add: panic_def)

lemma attempt_ok:
  "attempt m h k w = (Inr y, w') \<longleftrightarrow>
     (\<exists>x w1. m w = (Inr x, w1) \<and> k x w1 = (Inr y, w'))
     \<or> (\<exists>e w1. m w = (Inl (Err e), w1) \<and> h e w1 = (Inr y, w'))"
  by (auto simp: attempt_def split: prod.splits sum.splits fault.splits)

lemma must_ok [ok_iff]:
  "must m c k w = (Inr y, w') \<longleftrightarrow> (\<exists>x w1. m w = (Inr x, w1) \<and> k x w1 = (Inr y, w'))"
  by (simp add: must_def attempt_ok fail_ok)

lemma andThen_ok [ok_iff]:
  "andThen m k w = (Inr y, w') \<longleftrightarrow> (\<exists>x w1. m w = (Inr x, w1) \<and> k x w1 = (Inr y, w'))"
  by (simp add: andThen_def attempt_ok fail_ok)

lemma lift_ok [ok_iff]: "lift r w = (Inr y, w') \<longleftrightarrow> r = Inr y \<and> w' = w"
  by (auto simp: lift_def ret_def fail_def split: sum.splits)

lemma assigning_ok [ok_iff]:
  "assigning m k v c w = (Inr y, w') \<longleftrightarrow>
     (\<exists>f. m = Some f \<and> c (Some (f(k \<mapsto> v))) w = (Inr y, w'))"
  by (cases m) (simp_all add: assigning_def panic_ok)

lemma deferring_ok [ok_iff]:
  "deferring c m w = (Inr y, w') \<longleftrightarrow> (\<exists>w1. m w = (Inr y, w1) \<and> w' = snd (c w1))"
  by (auto simp: deferring_def split: prod.splits)

lemma if_ok [ok_iff]:
  "(if b then m else n) w = (Inr y, w') \<longleftrightarrow> (if b then m w = (Inr y, w') else n w = (Inr y, w'))"
  by simp

lemma forM_ok_prefix:
  assumes "forM f xs s w = (Inr s', w')" "I pre s w"
    and "\<And>ds x s w s' w'. x \<in> set xs \<Longrightarrow> I ds s w \<Longrightarrow> f x s w = (Inr s', w') \<Longrightarrow> I (ds @ [x]) s' w'"
  shows "I (pre @ xs) s' w'"
  using assms
proof (induction xs arbitrary: pre s w)
  case Nil
  then show ?case by (simp add: ok_iff)
next
  case (Cons x xs)
  then obtain s1 w1 where x: "f x s w = (Inr s1, w1)" and rest: "forM f xs s1 w1 = (Inr s', w')"
    by (auto simp: ok_iff)
  from x Cons.prems have "I (pre @ [x]) s1 w1" by simp
  then have "I ((pre @ [x]) @ xs) s' w'"
    by (rule Cons.IH [OF rest]) (simp add: Cons.prems(3))
  then show ?case by simp
qed

lemma forM_ok_inv:
  assumes "forM f xs s w = (Inr s', w')" "I s w"
    and "\<And>x s w s' w'. x \<in> set xs \<Longrightarrow> I s w \<Longrightarrow> f x s w = (Inr s', w') \<Longrightarrow> I s' w'"
  shows "I s' w'"
  using forM_ok_prefix [where I = "\<lambda>_. I" and pre = "[]", OF assms] by simp

text \<open>A loop whose steps compute the variables the way \<open>g\<close> does.\<close>

lemma forM_ok_fold:
  assumes "forM f xs s w = (Inr s', w')"
    and "\<And>x s w s' w'. x \<in> set xs \<Longrightarrow> f x s w = (Inr s', w') \<Longrightarrow> s' = g x s"
  shows "s' = fold g xs s"
  using assms by (induction xs arbitrary: s w) (auto simp: ok_iff)

section \<open>Reconciling\<close>

text \<open>
  The contract of a reconciliation step on a state: it keeps what it relies on, leads to a settled
  state, and leaves a settled state alone. One step is then as good as any number of them.
\<close>

locale reconciler =
  fixes step :: "'s \<Rightarrow> 's" and ok :: "'s \<Rightarrow> bool" and settled :: "'s \<Rightarrow> bool"
  assumes keeps_ok: "ok s \<Longrightarrow> ok (step s)"
    and settles: "ok s \<Longrightarrow> settled (step s)"
    and rests: "ok s \<Longrightarrow> settled s \<Longrightarrow> step s = s"
begin

lemma idem: "ok s \<Longrightarrow> step (step s) = step s"
  by (simp add: keeps_ok settles rests)

lemma fixpoint_iff: "ok s \<Longrightarrow> step s = s \<longleftrightarrow> settled s"
  using settles [of s] rests [of s] by metis

lemma iterate: "ok s \<Longrightarrow> 0 < n \<Longrightarrow> (step ^^ n) s = step s"
proof (induction n)
  case (Suc n)
  then show ?case by (cases n) (simp_all add: idem)
qed simp

end

section \<open>First match\<close>

text \<open>Many loops of the program return the first element that satisfies a condition.\<close>

lemma find_Some_iff_first:
  "find P xs = Some x \<longleftrightarrow> (\<exists>ys zs. xs = ys @ x # zs \<and> P x \<and> (\<forall>y \<in> set ys. \<not> P y))"
proof (induction xs)
  case Nil
  then show ?case by simp
next
  case (Cons a xs)
  show ?case
  proof (cases "P a")
    case True
    then show ?thesis by (auto simp: Cons_eq_append_conv)
  next
    case False
    then have "(\<exists>ys zs. a # xs = ys @ x # zs \<and> P x \<and> (\<forall>y \<in> set ys. \<not> P y)) \<longleftrightarrow>
      (\<exists>ys zs. xs = ys @ x # zs \<and> P x \<and> (\<forall>y \<in> set ys. \<not> P y))"
      by (force simp: Cons_eq_append_conv intro: exI [of _ "a # _"])
    with Cons.IH False show ?thesis by simp
  qed
qed

lemma find_Some_sat: "find P xs = Some x \<Longrightarrow> P x \<and> x \<in> set xs"
  by (auto simp: find_Some_iff_first)

end
