(* ===== verification/Go_Std.thy ===== *)
theory Go_Std
  imports Prelude
begin

text \<open>
  What the program uses of Go's standard library: \<open>strconv\<close> (decimal integers and booleans),
  \<open>strings.Split\<close> and \<open>strings.Join\<close> on a one-character separator, \<open>path.Clean\<close> and
  \<open>path.Join\<close>, each with the laws its clients use. The two-way conversions share one interface,
  the locale \<open>codec\<close>.
\<close>

named_theorems path_simps \<open>how paths are put together and taken apart\<close>

section \<open>Codecs\<close>

text \<open>A printer and a parser that undoes it on the values of interest.\<close>

locale codec =
  fixes encode :: "'a \<Rightarrow> 'b" and decode :: "'b \<Rightarrow> 'e + 'a" and valid :: "'a \<Rightarrow> bool"
  assumes decode_encode: "valid x \<Longrightarrow> decode (encode x) = Inr x"
begin

lemma encode_inj: "valid x \<Longrightarrow> valid y \<Longrightarrow> encode x = encode y \<Longrightarrow> x = y"
  by (metis decode_encode sum.inject(2))

lemma decode_surj: "valid x \<Longrightarrow> \<exists>s. decode s = Inr x"
  by (rule exI [of _ "encode x"]) (rule decode_encode)

end

section \<open>Integers\<close>

text \<open>Go's \<open>int\<close> on the supported platforms.\<close>

definition int64 :: "int \<Rightarrow> bool" where
  "int64 i \<longleftrightarrow> - (2 ^ 63) \<le> i \<and> i < 2 ^ 63"

definition digit_char :: "nat \<Rightarrow> char" where
  "digit_char d = char_of (48 + d)"

fun nat_digits :: "nat \<Rightarrow> string" where
  "nat_digits n = (if n < 10 then [digit_char n] else nat_digits (n div 10) @ [digit_char (n mod 10)])"

declare nat_digits.simps [simp del]

definition Itoa :: "int \<Rightarrow> string" where
  "Itoa i = (if i < 0 then CHR ''-'' # nat_digits (nat (- i)) else nat_digits (nat i))"

definition is_digit :: "char \<Rightarrow> bool" where
  "is_digit c \<longleftrightarrow> 48 \<le> (of_char c :: nat) \<and> (of_char c :: nat) \<le> 57"

definition digit_value :: "char \<Rightarrow> nat" where
  "digit_value c = of_char c - 48"

definition digits_value :: "string \<Rightarrow> nat" where
  "digits_value s = foldl (\<lambda>n c. 10 * n + digit_value c) 0 s"

text \<open>The sign \<open>Atoi\<close> accepts in front of the digits, and the digits.\<close>

definition split_sign :: "string \<Rightarrow> int \<times> string" where
  "split_sign s = (case s of
       [] \<Rightarrow> (1, [])
     | c # cs \<Rightarrow> if c = CHR ''-'' then (-1, cs) else if c = CHR ''+'' then (1, cs) else (1, s))"

definition Atoi :: "string \<Rightarrow> go_error + int" where
  "Atoi s = (case split_sign s of (sg, ds) \<Rightarrow>
     if ds = [] \<or> \<not> list_all is_digit ds then Inl (NumError ''Atoi'' s ''invalid syntax'')
     else let i = sg * int (digits_value ds)
       in if int64 i then Inr i else Inl (NumError ''Atoi'' s ''value out of range''))"

lemma of_char_digit: "d < 10 \<Longrightarrow> (of_char (digit_char d) :: nat) = 48 + d"
  by (simp add: digit_char_def)

lemma digit_value_digit: "d < 10 \<Longrightarrow> digit_value (digit_char d) = d"
  by (simp add: digit_value_def of_char_digit)

lemma is_digit_digit: "d < 10 \<Longrightarrow> is_digit (digit_char d)"
  by (simp add: is_digit_def of_char_digit)

lemma nat_digits_all_digits: "list_all is_digit (nat_digits n)"
proof (induction n rule: nat_digits.induct)
  case (1 n)
  then show ?case
    by (cases "n < 10") (simp_all add: nat_digits.simps [of n] is_digit_digit)
qed

lemma nat_digits_Nil [simp]: "nat_digits n \<noteq> []"
  by (simp add: nat_digits.simps [of n])

lemma digits_value_nat_digits: "digits_value (nat_digits n) = n"
proof (induction n rule: nat_digits.induct)
  case (1 n)
  then show ?case
    by (cases "n < 10")
      (simp_all add: nat_digits.simps [of n] digits_value_def digit_value_digit)
qed

lemma hd_nat_digits_not_sign: "nat_digits n = c # cs \<Longrightarrow> c \<noteq> CHR ''-'' \<and> c \<noteq> CHR ''+''"
  using nat_digits_all_digits [of n] by (auto simp: is_digit_def)

lemma split_sign_nat_digits: "split_sign (nat_digits n) = (1, nat_digits n)"
proof (cases "nat_digits n")
  case Nil
  then show ?thesis by simp
next
  case (Cons c cs)
  then show ?thesis using hd_nat_digits_not_sign [OF Cons] by (simp add: split_sign_def)
qed

lemma split_sign_Itoa:
  "split_sign (Itoa i) = (if i < 0 then (-1, nat_digits (nat (- i))) else (1, nat_digits (nat i)))"
  by (simp add: Itoa_def split_sign_nat_digits) (simp add: split_sign_def)

lemma Atoi_Itoa: "int64 i \<Longrightarrow> Atoi (Itoa i) = Inr i"
  by (simp add: Atoi_def split_sign_Itoa nat_digits_all_digits digits_value_nat_digits)

interpretation int_codec: codec Itoa Atoi int64
  by unfold_locales (rule Atoi_Itoa)

lemma Atoi_int64: "Atoi s = Inr i \<Longrightarrow> int64 i"
  by (auto simp: Atoi_def Let_def split: prod.splits if_splits)

lemma Itoa_not_Nil [simp]: "Itoa i \<noteq> ''''"
  by (simp add: Itoa_def)

section \<open>Booleans\<close>

definition FormatBool :: "bool \<Rightarrow> string" where
  "FormatBool b = (if b then ''true'' else ''false'')"

definition ParseBool :: "string \<Rightarrow> go_error + bool" where
  "ParseBool s =
     (if s \<in> {''1'', ''t'', ''T'', ''TRUE'', ''true'', ''True''} then Inr True
      else if s \<in> {''0'', ''f'', ''F'', ''FALSE'', ''false'', ''False''} then Inr False
      else Inl (NumError ''ParseBool'' s ''invalid syntax''))"

interpretation bool_codec: codec FormatBool ParseBool "\<lambda>_. True"
  by unfold_locales (simp add: FormatBool_def ParseBool_def)

section \<open>Splitting and joining strings\<close>

fun split_on :: "char \<Rightarrow> string \<Rightarrow> string list" where
  "split_on c [] = [[]]"
| "split_on c (x # xs) =
     (if x = c then [] # split_on c xs
      else (case split_on c xs of [] \<Rightarrow> [[x]] | p # ps \<Rightarrow> (x # p) # ps))"

fun join_with :: "string \<Rightarrow> string list \<Rightarrow> string" where
  "join_with sep [] = []"
| "join_with sep [x] = x"
| "join_with sep (x # y # ys) = x @ sep @ join_with sep (y # ys)"

lemma split_on_not_Nil [simp]: "split_on c s \<noteq> []"
  by (induction s) (auto split: list.splits)

lemma split_on_no_sep: "p \<in> set (split_on c s) \<Longrightarrow> c \<notin> set p"
  by (induction s arbitrary: p) (auto split: list.splits if_splits)

lemma split_on_plain: "c \<notin> set s \<Longrightarrow> split_on c s = [s]"
  by (induction s) auto

lemma split_on_append_sep: "c \<notin> set x \<Longrightarrow> split_on c (x @ c # s) = x # split_on c s"
  by (induction x) auto

lemma join_split_on: "join_with [c] (split_on c s) = s"
proof (induction s)
  case Nil
  then show ?case by simp
next
  case (Cons x xs)
  then show ?case
    by (cases "split_on c xs" rule: remdups_adj.cases) (auto simp: neq_Nil_conv)
qed

lemma split_join:
  "xs \<noteq> [] \<Longrightarrow> \<forall>x \<in> set xs. c \<notin> set x \<Longrightarrow> split_on c (join_with [c] xs) = xs"
proof (induction xs rule: induct_list012)
  case (3 x y ys)
  then show ?case by (simp add: split_on_append_sep)
qed (auto simp: split_on_plain)

lemma set_join_with: "set (join_with [c] xs) \<subseteq> (\<Union>x \<in> set xs. set x) \<union> {c}"
  by (induction xs rule: induct_list012) auto

lemma join_with_Cons: "ys \<noteq> [] \<Longrightarrow> join_with sep (x # ys) = x @ sep @ join_with sep ys"
  by (cases ys) auto

lemma join_with_concat: "join_with sep (x # xs) = x @ concat (map (\<lambda>y. sep @ y) xs)"
  by (induction xs arbitrary: x) auto

lemma join_with_append:
  "xs \<noteq> [] \<Longrightarrow> ys \<noteq> [] \<Longrightarrow> join_with sep (xs @ ys) = join_with sep xs @ sep @ join_with sep ys"
  by (induction xs rule: induct_list012) (auto simp: join_with_Cons)

interpretation join_codec:
  codec "join_with [c]" "\<lambda>s. Inr (split_on c s) :: unit + string list"
    "\<lambda>xs. xs \<noteq> [] \<and> (\<forall>x \<in> set xs. c \<notin> set x)" for c
  by unfold_locales (simp add: split_join)

section \<open>Paths\<close>

text \<open>
  \<open>path.Clean\<close> walks the components of the path, here on a stack with the last one on top:
  empty components and \<open>.\<close> are dropped, \<open>..\<close> removes the component before it, is kept at the
  start of a relative path and dropped at the root.
\<close>

definition clean_step :: "bool \<Rightarrow> string list \<Rightarrow> string \<Rightarrow> string list" where
  "clean_step rooted st c =
     (if c = '''' \<or> c = ''.'' then st
      else if c = ''..'' then
        (case st of
           [] \<Rightarrow> if rooted then [] else [c]
         | d # ds \<Rightarrow> if d = ''..'' then c # st else ds)
      else c # st)"

definition slash :: char where
  "slash = CHR ''/''"

definition is_rooted :: "string \<Rightarrow> bool" where
  "is_rooted p \<longleftrightarrow> (case p of [] \<Rightarrow> False | c # _ \<Rightarrow> c = slash)"

definition clean_comps :: "string \<Rightarrow> string list" where
  "clean_comps p = rev (foldl (clean_step (is_rooted p)) [] (split_on slash p))"

definition path_Clean :: "string \<Rightarrow> string" where
  "path_Clean p =
     (let out = join_with [slash] (clean_comps p)
      in if is_rooted p then slash # out else if out = '''' then ''.'' else out)"

definition path_Join :: "string list \<Rightarrow> string" where
  "path_Join elems =
     (case filter (\<lambda>e. e \<noteq> '''') elems of [] \<Rightarrow> '''' | es \<Rightarrow> path_Clean (join_with [slash] es))"

text \<open>A component that \<open>path.Clean\<close> keeps as it is, and a path made of such components.\<close>

definition plain_comp :: "string \<Rightarrow> bool" where
  "plain_comp c \<longleftrightarrow> c \<noteq> '''' \<and> c \<noteq> ''.'' \<and> c \<noteq> ''..'' \<and> slash \<notin> set c"

lemma clean_step_plain: "plain_comp c \<Longrightarrow> clean_step r st c = c # st"
  by (simp add: clean_step_def plain_comp_def)

lemma clean_steps_plain:
  "list_all plain_comp cs \<Longrightarrow> foldl (clean_step r) st cs = rev cs @ st"
  by (induction cs arbitrary: st) (auto simp: clean_step_plain)

lemma plain_comps_no_slash: "list_all plain_comp cs \<Longrightarrow> \<forall>c \<in> set cs. slash \<notin> set c"
  by (auto simp: list_all_iff plain_comp_def)

lemma join_plain_not_Nil: "list_all plain_comp cs \<Longrightarrow> cs \<noteq> [] \<Longrightarrow> join_with [slash] cs \<noteq> ''''"
  by (cases cs rule: remdups_adj.cases) (auto simp: plain_comp_def)

lemma join_plain_not_rooted:
  "list_all plain_comp cs \<Longrightarrow> \<not> is_rooted (join_with [slash] cs)"
  by (cases cs rule: remdups_adj.cases)
    (auto simp: plain_comp_def is_rooted_def neq_Nil_conv)

lemma clean_comps_plain:
  assumes "list_all plain_comp cs" "cs \<noteq> []"
  shows "clean_comps (join_with [slash] cs) = cs"
  using assms by (simp add: clean_comps_def split_join plain_comps_no_slash clean_steps_plain)

lemma path_Clean_plain [path_simps]:
  assumes "list_all plain_comp cs" "cs \<noteq> []"
  shows "path_Clean (join_with [slash] cs) = join_with [slash] cs"
  using assms
  by (simp add: path_Clean_def clean_comps_plain join_plain_not_rooted join_plain_not_Nil)

text \<open>
  Joining a relative path of plain components with more plain components is putting the
  components in a row.
\<close>

lemma path_Join_plain [path_simps]:
  assumes "list_all plain_comp bs" "list_all plain_comp cs" "bs @ cs \<noteq> []"
  shows "path_Join (join_with [slash] bs # cs) = join_with [slash] (bs @ cs)"
proof (cases "bs = []")
  case True
  have "filter (\<lambda>e. e \<noteq> '''') cs = cs"
    using assms(2) by (auto simp: list_all_iff plain_comp_def filter_id_conv)
  with True assms show ?thesis
    by (cases cs) (simp_all add: path_Join_def path_Clean_plain)
next
  case False
  have f: "filter (\<lambda>e. e \<noteq> '''') cs = cs"
    using assms(2) by (auto simp: list_all_iff plain_comp_def filter_id_conv)
  have "join_with [slash] (join_with [slash] bs # cs) = join_with [slash] (bs @ cs)"
    using False by (cases "cs = []") (simp_all add: join_with_Cons join_with_append)
  with False assms f show ?thesis
    by (simp add: path_Join_def join_plain_not_Nil path_Clean_plain)
qed

lemma path_Join_two [path_simps]:
  assumes "list_all plain_comp bs" "plain_comp c"
  shows "path_Join [join_with [slash] bs, c] = join_with [slash] (bs @ [c])"
  using path_Join_plain [of bs "[c]"] assms by simp

end
