(* ===== verification/Kube.thy ===== *)
theory Kube
  imports Go_Std "HOL-Library.AList"
begin

text \<open>
  The Kubernetes API as the program sees it: object metadata, config maps and secrets, and a
  client for one kind of resource. The API server is not part of the program, so a client is a
  record of operations over an arbitrary world; the predicates \<open>lawful_get\<close> to \<open>lawful_list\<close> state
  what the documentation of the API promises of them, over a view of the stored objects. The
  store \<open>mem_api\<close> at the end is one client that keeps these promises.
\<close>

named_theorems api_rules \<open>weakest preconditions of the operations of a lawful client\<close>

section \<open>Objects\<close>

record object_meta =
  om_name :: string
  om_namespace :: string
  om_labels :: gomap
  om_annotations :: gomap
  om_finalizers :: "string list"
  om_deletion :: "string option"

record config_map =
  cm_meta :: object_meta
  cm_data :: gomap

text \<open>The values of a secret are byte strings; a missing key reads as the nil slice, here \<open>None\<close>.\<close>

record secret =
  secr_meta :: object_meta
  secr_data :: gomap

abbreviation cm_name :: "config_map \<Rightarrow> string" where
  "cm_name cm \<equiv> om_name (cm_meta cm)"

abbreviation secr_name :: "secret \<Rightarrow> string" where
  "secr_name s \<equiv> om_name (secr_meta s)"

definition bytes_get :: "gomap \<Rightarrow> string \<Rightarrow> string option" where
  "bytes_get m k = (case m of None \<Rightarrow> None | Some f \<Rightarrow> f k)"

lemma bytes_get_simps [simp]:
  "bytes_get None k = None" "bytes_get (Some f) k = f k"
  by (simp_all add: bytes_get_def)

lemma mget_bytes_get: "mget m k = (case bytes_get m k of None \<Rightarrow> '''' | Some v \<Rightarrow> v)"
  by (simp add: mget_def bytes_get_def split: option.splits)

definition named_meta :: "string \<Rightarrow> string \<Rightarrow> object_meta" where
  "named_meta n ns = \<lparr>om_name = n, om_namespace = ns, om_labels = None, om_annotations = None,
     om_finalizers = [], om_deletion = None\<rparr>"

text \<open>\<open>ContainsFinalizer\<close>, \<open>AddFinalizer\<close> and \<open>RemoveFinalizer\<close> on the metadata.\<close>

definition contains_finalizer :: "object_meta \<Rightarrow> string \<Rightarrow> bool" where
  "contains_finalizer m f \<longleftrightarrow> f \<in> set (om_finalizers m)"

definition add_finalizer :: "object_meta \<Rightarrow> string \<Rightarrow> object_meta" where
  "add_finalizer m f =
     (if contains_finalizer m f then m else m\<lparr>om_finalizers := om_finalizers m @ [f]\<rparr>)"

definition remove_finalizer :: "object_meta \<Rightarrow> string \<Rightarrow> object_meta" where
  "remove_finalizer m f = m\<lparr>om_finalizers := filter (\<lambda>x. x \<noteq> f) (om_finalizers m)\<rparr>"

lemma finalizer_simps [simp]:
  "contains_finalizer (add_finalizer m f) f"
  "\<not> contains_finalizer (remove_finalizer m f) f"
  "om_name (add_finalizer m f) = om_name m" "om_name (remove_finalizer m f) = om_name m"
  "om_namespace (add_finalizer m f) = om_namespace m" "om_namespace (remove_finalizer m f) = om_namespace m"
  "om_deletion (add_finalizer m f) = om_deletion m"
  "om_deletion (remove_finalizer m f) = om_deletion m"
  "om_annotations (add_finalizer m f) = om_annotations m"
  "om_annotations (remove_finalizer m f) = om_annotations m"
  by (simp_all add: contains_finalizer_def add_finalizer_def remove_finalizer_def)

section \<open>Label selectors\<close>

text \<open>The selectors the program writes: equalities separated by commas.\<close>

definition selector :: "(string \<times> string) list \<Rightarrow> string" where
  "selector kvs = join_with '','' (map (\<lambda>(k, v). k @ ''='' @ v) kvs)"

definition matches :: "(string \<times> string) list \<Rightarrow> gomap \<Rightarrow> bool" where
  "matches kvs m \<longleftrightarrow> list_all (\<lambda>(k, v). bytes_get m k = Some v) kvs"

section \<open>Clients\<close>

text \<open>
  A client of one kind of resource: get (namespace, name), list (namespace, label selector),
  create and update (namespace, object), update of the status, patch (the object before and
  after) and delete.
\<close>

record ('w, 'o) resource_api =
  api_get :: "string \<Rightarrow> string \<Rightarrow> ('w, 'o) io"
  api_list :: "string \<Rightarrow> string \<Rightarrow> ('w, 'o list) io"
  api_create :: "string \<Rightarrow> 'o \<Rightarrow> ('w, 'o) io"
  api_update :: "string \<Rightarrow> 'o \<Rightarrow> ('w, 'o) io"
  api_update_status :: "string \<Rightarrow> 'o \<Rightarrow> ('w, 'o) io"
  api_patch :: "string \<Rightarrow> 'o \<Rightarrow> 'o \<Rightarrow> ('w, unit) io"
  api_delete :: "string \<Rightarrow> string \<Rightarrow> ('w, unit) io"

text \<open>
  \<open>v\<close> reads the store: what is kept of the object under a namespace and a name; \<open>p\<close> is the part
  of an object that is kept and \<open>key\<close> its name. A get reads what is stored, and reports not-found
  only for an object that is not stored; a failed write may or may not have been carried out.
\<close>

definition lawful_get ::
  "('w \<Rightarrow> string \<Rightarrow> string \<Rightarrow> 'p option) \<Rightarrow> ('o \<Rightarrow> 'p) \<Rightarrow> ('w, 'o) resource_api \<Rightarrow> bool" where
  "lawful_get v p api \<longleftrightarrow> (\<forall>ns n w r w'. api_get api ns n w = (r, w') \<longrightarrow> v w' = v w \<and>
     (case r of Inr x \<Rightarrow> v w ns n = Some (p x)
      | Inl (Err e) \<Rightarrow> (IsNotFound e \<longrightarrow> v w ns n = None)
      | Inl (Panic s) \<Rightarrow> False))"

definition stored :: "(string \<Rightarrow> string \<Rightarrow> 'p option) \<Rightarrow> string \<Rightarrow> string \<Rightarrow> 'p option \<Rightarrow>
    (string \<Rightarrow> string \<Rightarrow> 'p option)" where
  "stored m ns n x = m(ns := (m ns)(n := x))"

lemma stored_apply [simp]: "stored m ns n x ns' n' = (if ns' = ns \<and> n' = n then x else m ns' n')"
  by (simp add: stored_def)

definition lawful_create ::
  "('w \<Rightarrow> string \<Rightarrow> string \<Rightarrow> 'p option) \<Rightarrow> ('o \<Rightarrow> 'p) \<Rightarrow> ('o \<Rightarrow> string) \<Rightarrow>
   ('w, 'o) resource_api \<Rightarrow> bool" where
  "lawful_create v p key api \<longleftrightarrow> (\<forall>ns x w r w'. api_create api ns x w = (r, w') \<longrightarrow>
     (case r of Inr y \<Rightarrow> v w ns (key x) = None \<and> v w' = stored (v w) ns (key x) (Some (p x))
      | Inl (Err e) \<Rightarrow> v w' = v w \<or>
          (v w ns (key x) = None \<and> v w' = stored (v w) ns (key x) (Some (p x)))
      | Inl (Panic s) \<Rightarrow> False))"

definition lawful_update ::
  "('w \<Rightarrow> string \<Rightarrow> string \<Rightarrow> 'p option) \<Rightarrow> ('o \<Rightarrow> 'p) \<Rightarrow> ('o \<Rightarrow> string) \<Rightarrow>
   ('w, 'o) resource_api \<Rightarrow> bool" where
  "lawful_update v p key api \<longleftrightarrow> (\<forall>ns x w r w'. api_update api ns x w = (r, w') \<longrightarrow>
     (case r of Inr y \<Rightarrow> v w ns (key x) \<noteq> None \<and> v w' = stored (v w) ns (key x) (Some (p x))
      | Inl (Err e) \<Rightarrow> v w' = v w \<or>
          (v w ns (key x) \<noteq> None \<and> v w' = stored (v w) ns (key x) (Some (p x)))
      | Inl (Panic s) \<Rightarrow> False))"

definition lawful_delete ::
  "('w \<Rightarrow> string \<Rightarrow> string \<Rightarrow> 'p option) \<Rightarrow> ('w, 'o) resource_api \<Rightarrow> bool" where
  "lawful_delete v api \<longleftrightarrow> (\<forall>ns n w r w'. api_delete api ns n w = (r, w') \<longrightarrow>
     (case r of Inr y \<Rightarrow> v w ns n \<noteq> None \<and> v w' = stored (v w) ns n None
      | Inl (Err e) \<Rightarrow> v w' = v w \<or> v w' = stored (v w) ns n None
      | Inl (Panic s) \<Rightarrow> False))"

text \<open>A list with an equality selector returns exactly the stored objects with these labels.\<close>

definition lawful_list ::
  "('w \<Rightarrow> string \<Rightarrow> string \<Rightarrow> 'p option) \<Rightarrow> ('o \<Rightarrow> 'p) \<Rightarrow> ('o \<Rightarrow> string) \<Rightarrow> ('p \<Rightarrow> gomap) \<Rightarrow>
   ('w, 'o) resource_api \<Rightarrow> bool" where
  "lawful_list v p key labels_of api \<longleftrightarrow>
     (\<forall>ns kvs w r w'. ns \<noteq> '''' \<longrightarrow> api_list api ns (selector kvs) w = (r, w') \<longrightarrow> v w' = v w \<and>
       (case r of Inr xs \<Rightarrow>
          {(key x, p x) |x. x \<in> set xs} = {(n, q). v w ns n = Some q \<and> matches kvs (labels_of q)}
        | Inl (Err e) \<Rightarrow> True
        | Inl (Panic s) \<Rightarrow> False))"

lemma wp_api_get [api_rules]:
  assumes "lawful_get v p api"
    and "\<And>x w'. v w' = v w \<Longrightarrow> v w ns n = Some (p x) \<Longrightarrow> Q (Inr x) w'"
    and "\<And>e w'. v w' = v w \<Longrightarrow> (IsNotFound e \<Longrightarrow> v w ns n = None) \<Longrightarrow> Q (Inl (Err e)) w'"
  shows "wp (api_get api ns n) Q w"
proof (rule wpI)
  fix r w'
  assume "api_get api ns n w = (r, w')"
  with assms(1) have "v w' = v w \<and> (case r of Inr x \<Rightarrow> v w ns n = Some (p x)
      | Inl (Err e) \<Rightarrow> (IsNotFound e \<longrightarrow> v w ns n = None) | Inl (Panic s) \<Rightarrow> False)"
    unfolding lawful_get_def by blast
  with assms(2,3) show "Q r w'" by (auto split: sum.splits fault.splits)
qed

lemma wp_api_create [api_rules]:
  assumes "lawful_create v p key api"
    and "\<And>y w'. v w ns (key x) = None \<Longrightarrow> v w' = stored (v w) ns (key x) (Some (p x)) \<Longrightarrow> Q (Inr y) w'"
    and "\<And>e w'. v w' = v w \<or>
      (v w ns (key x) = None \<and> v w' = stored (v w) ns (key x) (Some (p x))) \<Longrightarrow> Q (Inl (Err e)) w'"
  shows "wp (api_create api ns x) Q w"
proof (rule wpI)
  fix r w'
  assume "api_create api ns x w = (r, w')"
  with assms(1) have "case r of
        Inr y \<Rightarrow> v w ns (key x) = None \<and> v w' = stored (v w) ns (key x) (Some (p x))
      | Inl (Err e) \<Rightarrow> v w' = v w \<or>
          (v w ns (key x) = None \<and> v w' = stored (v w) ns (key x) (Some (p x)))
      | Inl (Panic s) \<Rightarrow> False"
    unfolding lawful_create_def by blast
  with assms(2,3) show "Q r w'" by (auto split: sum.splits fault.splits)
qed

lemma wp_api_update [api_rules]:
  assumes "lawful_update v p key api"
    and "\<And>y w'. v w ns (key x) \<noteq> None \<Longrightarrow> v w' = stored (v w) ns (key x) (Some (p x)) \<Longrightarrow> Q (Inr y) w'"
    and "\<And>e w'. v w' = v w \<or>
      (v w ns (key x) \<noteq> None \<and> v w' = stored (v w) ns (key x) (Some (p x))) \<Longrightarrow> Q (Inl (Err e)) w'"
  shows "wp (api_update api ns x) Q w"
proof (rule wpI)
  fix r w'
  assume "api_update api ns x w = (r, w')"
  with assms(1) have "case r of
        Inr y \<Rightarrow> v w ns (key x) \<noteq> None \<and> v w' = stored (v w) ns (key x) (Some (p x))
      | Inl (Err e) \<Rightarrow> v w' = v w \<or>
          (v w ns (key x) \<noteq> None \<and> v w' = stored (v w) ns (key x) (Some (p x)))
      | Inl (Panic s) \<Rightarrow> False"
    unfolding lawful_update_def by blast
  with assms(2,3) show "Q r w'" by (auto split: sum.splits fault.splits)
qed

lemma wp_api_delete [api_rules]:
  assumes "lawful_delete v api"
    and "\<And>y w'. v w ns n \<noteq> None \<Longrightarrow> v w' = stored (v w) ns n None \<Longrightarrow> Q (Inr y) w'"
    and "\<And>e w'. v w' = v w \<or> v w' = stored (v w) ns n None \<Longrightarrow> Q (Inl (Err e)) w'"
  shows "wp (api_delete api ns n) Q w"
proof (rule wpI)
  fix r w'
  assume "api_delete api ns n w = (r, w')"
  with assms(1) have "case r of
        Inr y \<Rightarrow> v w ns n \<noteq> None \<and> v w' = stored (v w) ns n None
      | Inl (Err e) \<Rightarrow> v w' = v w \<or> v w' = stored (v w) ns n None
      | Inl (Panic s) \<Rightarrow> False"
    unfolding lawful_delete_def by blast
  with assms(2,3) show "Q r w'" by (auto split: sum.splits fault.splits)
qed

text \<open>The same for the two ways the code handles the error of such a call.\<close>

lemma wp_attempt_get:
  assumes "lawful_get v p api"
    and "\<And>x w'. v w' = v w \<Longrightarrow> v w ns n = Some (p x) \<Longrightarrow> wp (k x) Q w'"
    and "\<And>e w'. v w' = v w \<Longrightarrow> (IsNotFound e \<Longrightarrow> v w ns n = None) \<Longrightarrow> wp (h e) Q w'"
  shows "wp (attempt (api_get api ns n) h k) Q w"
  unfolding wp_attempt by (rule wp_api_get [OF assms(1)]) (simp_all add: assms(2,3))

lemma wp_must_get:
  assumes "lawful_get v p api"
    and "\<And>x w'. v w' = v w \<Longrightarrow> v w ns n = Some (p x) \<Longrightarrow> wp (k x) Q w'"
    and "\<And>e w'. v w' = v w \<Longrightarrow> Q (Inl (Err e)) w'"
  shows "wp (must (api_get api ns n) cx k) Q w"
  unfolding wp_must by (rule wp_api_get [OF assms(1)]) (simp_all add: assms(2,3))

lemma wp_must_create:
  assumes "lawful_create v p key api"
    and "\<And>y w'. v w ns (key x) = None \<Longrightarrow> v w' = stored (v w) ns (key x) (Some (p x)) \<Longrightarrow> wp (k y) Q w'"
    and "\<And>e w'. v w' = v w \<or>
      (v w ns (key x) = None \<and> v w' = stored (v w) ns (key x) (Some (p x))) \<Longrightarrow> Q (Inl (Err e)) w'"
  shows "wp (must (api_create api ns x) cx k) Q w"
  unfolding wp_must by (rule wp_api_create [OF assms(1)]) (simp_all add: assms(2,3))

lemma wp_must_update:
  assumes "lawful_update v p key api"
    and "\<And>y w'. v w ns (key x) \<noteq> None \<Longrightarrow> v w' = stored (v w) ns (key x) (Some (p x)) \<Longrightarrow> wp (k y) Q w'"
    and "\<And>e w'. v w' = v w \<or>
      (v w ns (key x) \<noteq> None \<and> v w' = stored (v w) ns (key x) (Some (p x))) \<Longrightarrow> Q (Inl (Err e)) w'"
  shows "wp (must (api_update api ns x) cx k) Q w"
  unfolding wp_must by (rule wp_api_update [OF assms(1)]) (simp_all add: assms(2,3))

section \<open>A store in memory\<close>

text \<open>
  A client over a world that holds an association list of objects; \<open>get_store\<close> and \<open>put_store\<close>
  say where. It shows that the laws above can hold and gives the concrete runs their world.
\<close>

type_synonym 'o store = "((string \<times> string) \<times> 'o) list"

definition not_found :: "string \<Rightarrow> go_error" where
  "not_found n = StatusError ReasonNotFound (n @ '' not found'')"

definition mem_api ::
  "('w \<Rightarrow> 'o store) \<Rightarrow> ('o store \<Rightarrow> 'w \<Rightarrow> 'w) \<Rightarrow> ('o \<Rightarrow> string) \<Rightarrow>
   (string \<Rightarrow> 'o \<Rightarrow> bool) \<Rightarrow> ('w, 'o) resource_api" where
  "mem_api get_store put_store key sel = \<lparr>
     api_get = (\<lambda>ns n w. (case map_of (get_store w) (ns, n) of
        None \<Rightarrow> (Inl (Err (not_found n)), w) | Some x \<Rightarrow> (Inr x, w))),
     api_list = (\<lambda>ns s w.
        (Inr (map snd (filter (\<lambda>((ns', n), x). (ns = '''' \<or> ns' = ns) \<and> sel s x) (get_store w))), w)),
     api_create = (\<lambda>ns x w. (case map_of (get_store w) (ns, key x) of
        Some y \<Rightarrow> (Inl (Err (StatusError ReasonAlreadyExists (key x @ '' already exists''))), w)
      | None \<Rightarrow> (Inr x, put_store (get_store w @ [((ns, key x), x)]) w))),
     api_update = (\<lambda>ns x w. (case map_of (get_store w) (ns, key x) of
        None \<Rightarrow> (Inl (Err (not_found (key x))), w)
      | Some y \<Rightarrow> (Inr x, put_store (AList.update (ns, key x) x (get_store w)) w))),
     api_update_status = (\<lambda>ns x w. (case map_of (get_store w) (ns, key x) of
        None \<Rightarrow> (Inl (Err (not_found (key x))), w)
      | Some y \<Rightarrow> (Inr x, put_store (AList.update (ns, key x) x (get_store w)) w))),
     api_patch = (\<lambda>ns x y w. (case map_of (get_store w) (ns, key y) of
        None \<Rightarrow> (Inl (Err (not_found (key y))), w)
      | Some z \<Rightarrow> (Inr (), put_store (AList.update (ns, key y) y (get_store w)) w))),
     api_delete = (\<lambda>ns n w. (case map_of (get_store w) (ns, n) of
        None \<Rightarrow> (Inl (Err (not_found n)), w)
      | Some y \<Rightarrow> (Inr (), put_store (AList.delete (ns, n) (get_store w)) w)))\<rparr>"

definition store_view :: "('w \<Rightarrow> 'o store) \<Rightarrow> ('o \<Rightarrow> 'p) \<Rightarrow> 'w \<Rightarrow> string \<Rightarrow> string \<Rightarrow> 'p option" where
  "store_view get_store p w = (\<lambda>ns n. map_option p (map_of (get_store w) (ns, n)))"

lemma mem_lawful_get: "lawful_get (store_view g p) p (mem_api g u key sel)"
  by (simp add: lawful_get_def mem_api_def store_view_def split: option.splits)

lemma mem_lawful_create:
  "(\<And>s w. g (u s w) = s) \<Longrightarrow> lawful_create (store_view g p) p key (mem_api g u key sel)"
  by (auto simp: lawful_create_def mem_api_def store_view_def fun_eq_iff map_add_def
      split: option.splits)

lemma mem_lawful_update:
  "(\<And>s w. g (u s w) = s) \<Longrightarrow> lawful_update (store_view g p) p key (mem_api g u key sel)"
  by (auto simp: lawful_update_def mem_api_def store_view_def fun_eq_iff AList.update_conv'
      split: option.splits)

lemma mem_lawful_delete:
  "(\<And>s w. g (u s w) = s) \<Longrightarrow> lawful_delete (store_view g p) (mem_api g u key sel)"
  by (auto simp: lawful_delete_def mem_api_def store_view_def fun_eq_iff AList.delete_conv'
      split: option.splits)

text \<open>A client of a resource that a concrete world does not have.\<close>

definition failing :: "('w, 'a) io" where
  "failing = fail (ErrorText ''not served'')"

definition absent_api :: "('w, 'o) resource_api" where
  "absent_api = \<lparr>api_get = (\<lambda>_ _. failing), api_list = (\<lambda>_ _. failing), api_create = (\<lambda>_ _. failing),
     api_update = (\<lambda>_ _. failing), api_update_status = (\<lambda>_ _. failing), api_patch = (\<lambda>_ _ _. failing),
     api_delete = (\<lambda>_ _. failing)\<rparr>"

end
