(* ===== verification/Api.thy ===== *)
theory Api
  imports Kube
begin

text \<open>
  The resource types of the program (\<open>api/v1\<close>, \<open>pkg/common\<close>), the part of ArgoCD's \<open>Application\<close>,
  \<open>ApplicationSet\<close> and \<open>Cluster\<close> the program fills in or reads, and the clients it is handed: the
  core client of Kubernetes, the controller-runtime client and the ArgoCD client. The clients are
  services, so each is a record of operations over an arbitrary world.
\<close>

section \<open>Arlon resources\<close>

record override =
  ov_Bundle :: string
  ov_Key :: string
  ov_Value :: string

record profile_spec =
  pf_Description :: string
  pf_Tags :: "string list"
  pf_Bundles :: "string list option"
  pf_Overrides :: "override list"
  pf_RepoUrl :: string
  pf_RepoPath :: string
  pf_RepoRevision :: string

text \<open>\<open>pf_Bundles\<close> keeps the difference between a nil slice and an empty one, which
  \<open>GetBundlesFromProfile\<close> looks at.\<close>

record profile =
  prof_meta :: object_meta
  prof_spec :: profile_spec
  prof_state :: string

record app_profile =
  ap_meta :: object_meta
  ap_AppNames :: "string list"
  ap_Health :: string
  ap_InvalidAppNames :: "string list"

record repo_spec =
  rs_Url :: string
  rs_Path :: string
  rs_Revision :: string

record override_spec =
  os_Patch :: string
  os_Repo :: repo_spec

record autoscaler_spec =
  as_MgmtClusterHost :: string

record cluster_res_spec =
  cl_ClusterTemplate :: repo_spec
  cl_Override :: "override_spec option"
  cl_Autoscaler :: "autoscaler_spec option"
  cl_ArlonHelmChart :: "repo_spec option"

record cluster_status =
  cst_State :: string
  cst_InnerClusterName :: string
  cst_OverrideSuccessful :: bool
  cst_Message :: string

record cluster_res =
  cl_meta :: object_meta
  cl_spec :: cluster_res_spec
  cl_status :: cluster_status

definition ClusterFinalizer :: string where
  "ClusterFinalizer = ''cluster.core.arlon.io''"

record cluster_registration_spec =
  crs_ClusterName :: string
  crs_KubeconfigSecretName :: string
  crs_KubeconfigSecretKeyName :: string

record state_message =
  sm_State :: string
  sm_Message :: string

record cluster_registration =
  cr_meta :: object_meta
  cr_spec :: cluster_registration_spec
  cr_status :: state_message

definition ClusterRegistrationFinalizer :: string where
  "ClusterRegistrationFinalizer = ''clusterregistration.core.arlon.io''"

record call_home_config_spec =
  ch_ServiceAccountName :: string
  ch_KubeconfigSecretName :: string
  ch_KubeconfigSecretKeyName :: string
  ch_TargetNamespace :: string
  ch_TargetSecretName :: string
  ch_TargetSecretKeyName :: string
  ch_ManagementClusterUrl :: string

record call_home_config =
  ch_meta :: object_meta
  ch_spec :: call_home_config_spec
  ch_status :: state_message

section \<open>Annotation keys and pairs\<close>

definition RepoUrlAnnotationKey :: string where
  "RepoUrlAnnotationKey = ''arlon.io/repo-url''"

definition RepoPathAnnotationKey :: string where
  "RepoPathAnnotationKey = ''arlon.io/repo-path''"

definition RepoRevisionAnnotationKey :: string where
  "RepoRevisionAnnotationKey = ''arlon.io/repo-revision''"

definition SrcTypeAnnotationKey :: string where
  "SrcTypeAnnotationKey = ''arlon.io/srctype''"

definition ProfileAnnotationKey :: string where
  "ProfileAnnotationKey = ''arlon.io/profile''"

definition ProfileAppAnnotationKey :: string where
  "ProfileAppAnnotationKey = ''arlon.io/profile-app''"

definition ClusterSpecAnnotationKey :: string where
  "ClusterSpecAnnotationKey = ''arlon.io/clusterspec''"

definition ProfilesAnnotationKey :: string where
  "ProfilesAnnotationKey = ''arlon.io/profiles''"

record kv_pair =
  kv_Key :: string
  kv_Value :: string

text \<open>\<open>KVPairMap\<close>: the slices are appended to, so a missing key reads as the empty list; \<open>None\<close> is
  the nil map.\<close>

type_synonym kv_pair_map = "(string \<rightharpoonup> kv_pair list) option"

definition kvs_at :: "kv_pair_map \<Rightarrow> string \<Rightarrow> kv_pair list" where
  "kvs_at om b = (case om of None \<Rightarrow> [] | Some f \<Rightarrow> (case f b of None \<Rightarrow> [] | Some l \<Rightarrow> l))"

section \<open>ArgoCD resources\<close>

record helm_parameter =
  hp_Name :: string
  hp_Value :: string

record ignore_difference =
  igd_Group :: string
  igd_Kind :: string
  igd_JSONPointers :: "string list"

record sync_policy =
  sp_Automated_Prune :: "bool option"
  sp_SyncOptions :: "string list"

record application_source =
  src_RepoURL :: string
  src_Path :: string
  src_TargetRevision :: string
  src_Helm :: "helm_parameter list option"
  src_Kustomize_NamePrefix :: "string option"

record application_spec =
  app_Source :: application_source
  app_Destination_Server :: string
  app_Destination_Namespace :: string
  app_Project :: string
  app_SyncPolicy :: "sync_policy option"
  app_IgnoreDifferences :: "ignore_difference list"

record application =
  app_meta :: object_meta
  app_spec :: application_spec

abbreviation app_name :: "application \<Rightarrow> string" where
  "app_name a \<equiv> om_name (app_meta a)"

text \<open>The generators of an application set: a list generator with its raw JSON elements, or one of
  another kind.\<close>

datatype generator = ListGen "string list" | OtherGen

record application_set =
  aps_meta :: object_meta
  aps_Generators :: "generator list"
  aps_Template_Name :: string
  aps_Template_Spec :: application_spec

record argo_cluster =
  acl_Name :: string
  acl_Server :: string
  acl_Annotations :: gomap

section \<open>Clients\<close>

record 'w kube_client =
  kube_ConfigMaps :: "('w, config_map) resource_api"
  kube_Secrets :: "('w, secret) resource_api"

record 'w ctrl_client =
  cli_Profiles :: "('w, profile) resource_api"
  cli_AppProfiles :: "('w, app_profile) resource_api"
  cli_ApplicationSets :: "('w, application_set) resource_api"
  cli_Clusters :: "('w, cluster_res) resource_api"
  cli_Secrets :: "('w, secret) resource_api"

text \<open>What a REST configuration can be turned into; both constructors may fail.\<close>

record 'w rest_config =
  rc_NewForConfig :: "('w, 'w kube_client) io"
  rc_NewClient :: "('w, 'w ctrl_client) io"

record 'w application_client =
  appIf_Get :: "string \<Rightarrow> ('w, application) io"
  appIf_List :: "string \<Rightarrow> ('w, application list) io"
  appIf_Create :: "application \<Rightarrow> ('w, application) io"
  appIf_Update :: "application \<Rightarrow> ('w, application) io"
  appIf_Delete :: "string \<Rightarrow> bool \<Rightarrow> ('w, unit) io"

record 'w cluster_client =
  clIf_Get :: "string \<Rightarrow> ('w, argo_cluster) io"
  clIf_List :: "('w, argo_cluster list) io"
  clIf_Update :: "argo_cluster \<Rightarrow> string list \<Rightarrow> ('w, argo_cluster) io"
  clIf_Delete :: "string \<Rightarrow> string \<Rightarrow> ('w, unit) io"
  clIf_Create :: "argo_cluster \<Rightarrow> bool \<Rightarrow> ('w, argo_cluster) io"

record 'w argocd_client =
  argo_NewApplicationClient :: "('w, 'w application_client) io"
  argo_NewClusterClient :: "('w, 'w cluster_client) io"

text \<open>\<open>ctrlruntimeclient.NewClient\<close>.\<close>

definition ctrlruntimeclient_NewClient :: "'w rest_config \<Rightarrow> ('w, 'w ctrl_client) io" where
  "ctrlruntimeclient_NewClient config = rc_NewClient config"

text \<open>\<open>NewForConfigOrDie\<close> of the Kubernetes client panics with the error.\<close>

definition NewForConfigOrDie :: "'w rest_config \<Rightarrow> ('w, 'w kube_client) io" where
  "NewForConfigOrDie config =
     attempt (rc_NewForConfig config) (\<lambda>e. panic (error_string e)) ret"

section \<open>Results of a reconciliation\<close>

text \<open>\<open>ctrl.Result\<close>; the delay is in seconds. \<open>retryDelayAsResult\<close> is the one the controllers share.\<close>

record ctrl_result =
  res_Requeue :: bool
  res_RequeueAfter :: nat

definition no_result :: ctrl_result where
  "no_result = \<lparr>res_Requeue = False, res_RequeueAfter = 0\<rparr>"

definition requeue_result :: ctrl_result where
  "requeue_result = \<lparr>res_Requeue = True, res_RequeueAfter = 0\<rparr>"

definition retryDelayAsResult :: ctrl_result where
  "retryDelayAsResult = \<lparr>res_Requeue = False, res_RequeueAfter = 10\<rparr>"

end
