(* ===== verification/App.thy ===== *)
theory App
  imports Api
begin

text \<open>
  Arlon applications (\<open>pkg/app/app.go\<close>): application sets of ArgoCD that carry the label
  \<open>arlon-type=application\<close>, with a list generator that names the clusters they are deployed to.
\<close>

section \<open>Operations\<close>

text \<open>The requirement that the label is in a list of one value is the equality with it.\<close>

definition application_labels :: "(string \<times> string) list" where
  "application_labels = [(''arlon-type'', ''application'')]"

definition app_List :: "'w rest_config \<Rightarrow> string \<Rightarrow> ('w, application_set list) io" where
  "app_List config ns =
     must (ctrlruntimeclient_NewClient config) (ErrorCtx ''failed to get controller runtime client: '')
       (\<lambda>cli.
     must (api_list (cli_ApplicationSets cli) ns (selector application_labels))
       (ErrorCtx ''failed to list applicationsets: '') ret)"

definition app_Create ::
  "string \<Rightarrow> string \<Rightarrow> string \<Rightarrow> string \<Rightarrow> string \<Rightarrow> string \<Rightarrow> string \<Rightarrow> bool \<Rightarrow> bool \<Rightarrow> application_set"
where
  "app_Create ns name destNs project srcPath srcRepoUrl srcTargetRevision autoSync autoPrune =
     \<lparr>aps_meta =
        \<lparr>om_name = name,
         om_namespace = ns,
         om_labels = mlit [(''arlon-type'', ''application''), (''managed-by'', ''arlon'')],
         om_annotations = None,
         om_finalizers = [],
         om_deletion = None\<rparr>,
      aps_Generators = [ListGen []],
      aps_Template_Name = ''{{cluster_name}}-app-'' @ name,
      aps_Template_Spec =
        \<lparr>app_Source = \<lparr>src_RepoURL = srcRepoUrl, src_Path = srcPath,
           src_TargetRevision = srcTargetRevision, src_Helm = None, src_Kustomize_NamePrefix = None\<rparr>,
         app_Destination_Server = ''{{cluster_server}}'',
         app_Destination_Namespace = destNs,
         app_Project = project,
         app_SyncPolicy = Some \<lparr>sp_Automated_Prune = (if autoSync then Some autoPrune else None),
           sp_SyncOptions = []\<rparr>,
         app_IgnoreDifferences = []\<rparr>\<rparr>"

definition app_Delete :: "'w rest_config \<Rightarrow> string \<Rightarrow> string \<Rightarrow> ('w, unit) io" where
  "app_Delete config ns name =
     must (ctrlruntimeclient_NewClient config) (ErrorCtx ''failed to get controller runtime client: '')
       (\<lambda>cli.
     must (api_get (cli_ApplicationSets cli) ns name) (ErrorCtx ''failed to get applicationset: '')
       (\<lambda>app.
     if mget (om_labels (aps_meta app)) ''arlon-type'' \<noteq> ''application'' then
       fail (ErrorText (''applicationset '' @ name @ '' is not an arlon app''))
     else
       must (api_delete (cli_ApplicationSets cli) (om_namespace (aps_meta app)) (om_name (aps_meta app)))
         (ErrorCtx ''failed to delete applicationset: '') ret))"

abbreviation aps_name :: "application_set \<Rightarrow> string" where
  "aps_name a \<equiv> om_name (aps_meta a)"

lemma app_Create_listed: "matches application_labels (om_labels (aps_meta
    (app_Create ns n d pr sp su sr b c)))"
  by (simp add: app_Create_def matches_def application_labels_def mlit_def)

lemma app_Create_fields [simp]:
  "aps_name (app_Create ns n d pr sp su sr b c) = n"
  "om_namespace (aps_meta (app_Create ns n d pr sp su sr b c)) = ns"
  "aps_Generators (app_Create ns n d pr sp su sr b c) = [ListGen []]"
  by (simp_all add: app_Create_def)

lemma matches_application: "matches application_labels m \<longleftrightarrow> bytes_get m ''arlon-type'' = Some ''application''"
  by (simp add: matches_def application_labels_def)

end
