(* ===== verification/Clusterspec.thy ===== *)
theory Clusterspec
  imports Kube "HOL-Library.Multiset"
begin

text \<open>
  Cluster specifications (\<open>pkg/clusterspec\<close>): the record, its storage as a config map, the
  validation of providers, cluster types and regions, and the operations create, get, update and
  delete over a config-map client. The list of AWS regions comes from the AWS SDK and is the
  parameter \<open>aws_regions\<close>.
\<close>

section \<open>Data\<close>

record cluster_spec =
  cs_Name :: string
  cs_ApiProvider :: string
  cs_CloudProvider :: string
  cs_Type :: string
  cs_KubernetesVersion :: string
  cs_NodeType :: string
  cs_NodeCount :: int
  cs_MasterNodeCount :: int
  cs_Region :: string
  cs_PodCidrBlock :: string
  cs_SshKeyName :: string
  cs_Tags :: string
  cs_Description :: string
  cs_ClusterAutoscalerEnabled :: bool
  cs_ClusterAutoscalerMinNodes :: int
  cs_ClusterAutoscalerMaxNodes :: int

definition ValidHelmParamKeys :: "string list" where
  "ValidHelmParamKeys = [''region'', ''sshKeyName'', ''kubernetesVersion'', ''podCidrBlock'',
     ''nodeCount'', ''masterNodeCount'', ''nodeType'', ''clusterAutoscalerEnabled'',
     ''clusterAutoscalerMinNodes'', ''clusterAutoscalerMaxNodes'']"

definition default_on_error :: "'a \<Rightarrow> go_error + 'a \<Rightarrow> 'a" where
  "default_on_error d r = (case r of Inl e \<Rightarrow> d | Inr x \<Rightarrow> x)"

definition FromConfigMap :: "config_map \<Rightarrow> go_error + cluster_spec" where
  "FromConfigMap cm =
     (let get = mget (cm_data cm) in
      case Atoi (get ''nodeCount'') of
        Inl e \<Rightarrow> Inl (ErrorCtx ''could not parse clusterspec nodeCount: '' e)
      | Inr n \<Rightarrow> Inr
         \<lparr>cs_Name = cm_name cm,
          cs_ApiProvider = get ''apiProvider'',
          cs_CloudProvider = get ''cloudProvider'',
          cs_Type = get ''type'',
          cs_KubernetesVersion = get ''kubernetesVersion'',
          cs_NodeType = get ''nodeType'',
          cs_NodeCount = n,
          cs_MasterNodeCount = default_on_error 3 (Atoi (get ''masterNodeCount'')),
          cs_Region = get ''region'',
          cs_PodCidrBlock = get ''podCidrBlock'',
          cs_SshKeyName = get ''sshKeyName'',
          cs_Tags = get ''tags'',
          cs_Description = get ''description'',
          cs_ClusterAutoscalerEnabled =
            default_on_error False (ParseBool (get ''clusterAutoscalerEnabled'')),
          cs_ClusterAutoscalerMinNodes =
            default_on_error 1 (Atoi (get ''clusterAutoscalerMinNodes'')),
          cs_ClusterAutoscalerMaxNodes =
            default_on_error 9 (Atoi (get ''clusterAutoscalerMaxNodes''))\<rparr>)"

definition ToConfigMap ::
  "string \<Rightarrow> string \<Rightarrow> string \<Rightarrow> string \<Rightarrow> string \<Rightarrow> string \<Rightarrow> int \<Rightarrow> int \<Rightarrow> string \<Rightarrow> string \<Rightarrow>
   string \<Rightarrow> bool \<Rightarrow> int \<Rightarrow> int \<Rightarrow> string \<Rightarrow> string \<Rightarrow> config_map" where
  "ToConfigMap name apiProvider cloudProvider clusterType kubernetesVersion nodeType nodeCount
     masterNodeCount region podCidrBlock sshKeyName clusterAutoscalerEnabled
     clusterAutoscalerMinNodes clusterAutoscalerMaxNodes tags description =
     \<lparr>cm_meta = (named_meta name '''')
        \<lparr>om_labels := mlit [(''managed-by'', ''arlon''), (''arlon-type'', ''clusterspec'')]\<rparr>,
      cm_data = mlit
       [(''apiProvider'', apiProvider),
        (''cloudProvider'', cloudProvider),
        (''type'', clusterType),
        (''kubernetesVersion'', kubernetesVersion),
        (''nodeType'', nodeType),
        (''nodeCount'', Itoa nodeCount),
        (''masterNodeCount'', Itoa masterNodeCount),
        (''region'', region),
        (''podCidrBlock'', podCidrBlock),
        (''sshKeyName'', sshKeyName),
        (''clusterAutoscalerEnabled'', FormatBool clusterAutoscalerEnabled),
        (''clusterAutoscalerMinNodes'', Itoa clusterAutoscalerMinNodes),
        (''clusterAutoscalerMaxNodes'', Itoa clusterAutoscalerMaxNodes),
        (''tags'', tags),
        (''description'', description)]\<rparr>"

section \<open>Validation\<close>

definition ValidApiProviders :: "(string \<times> bool) list" where
  "ValidApiProviders = [(''capi'', True), (''xplane'', True)]"

definition ValidCloudProviders :: "(string \<times> bool) list" where
  "ValidCloudProviders = [(''aws'', True), (''gcp'', True), (''azure'', True)]"

definition ValidClusterTypesByCloud :: "(string \<times> (string \<times> bool) list) list" where
  "ValidClusterTypesByCloud =
     [(''aws'', [(''kubeadm'', True), (''eks'', True)]),
      (''gcp'', [(''kubeadm'', True), (''gke'', True)]),
      (''azure'', [(''kubeadm'', True), (''aks'', True)])]"

text \<open>Reading a missing key of a Go map gives the zero value of its element type.\<close>

definition bool_at :: "(string \<times> bool) list \<Rightarrow> string \<Rightarrow> bool" where
  "bool_at m k = (map_of m k = Some True)"

definition list_at :: "(string \<times> 'a list) list \<Rightarrow> string \<Rightarrow> 'a list" where
  "list_at m k = (case map_of m k of None \<Rightarrow> [] | Some xs \<Rightarrow> xs)"

definition KubeconfigSecretKeyNameByApiProvider :: gomap where
  "KubeconfigSecretKeyNameByApiProvider = mlit [(''capi'', ''value''), (''xplane'', ''kubeconfig'')]"

text \<open>
  \<open>ValidValues\<close> ranges over a map: its argument lists the entries in the order of the iteration,
  which Go leaves open. The loop runs over the sorted keys with the string and the counter \<open>i\<close>.
\<close>

definition valid_values_step :: "string \<times> int \<Rightarrow> string \<Rightarrow> string \<times> int" where
  "valid_values_step = (\<lambda>(r, i) val. (r @ (if i > 0 then ''|'' else '''') @ val, i + 1))"

definition ValidValues :: "(string \<times> 'a) list \<Rightarrow> string" where
  "ValidValues vals = fst (foldl valid_values_step ('''', 0) (sort (map fst vals)))"

definition ErrInvalidAPIProvider :: go_error where
  "ErrInvalidAPIProvider = Sentinel ''ErrInvalidAPIProvider''
     (''invalid api provider, the valid values are: '' @ ValidValues ValidApiProviders)"

definition ErrInvalidCloudProvider :: go_error where
  "ErrInvalidCloudProvider = Sentinel ''ErrInvalidCloudProvider''
     (''invalid cloud provider, the valid values are: '' @ ValidValues ValidCloudProviders)"

definition ValidApiProvider :: "string \<Rightarrow> go_error option" where
  "ValidApiProvider apiProvider =
     (if \<not> bool_at ValidApiProviders apiProvider then Some ErrInvalidAPIProvider else None)"

definition ValidCloudProviderAndClusterType :: "string \<Rightarrow> string \<Rightarrow> go_error option" where
  "ValidCloudProviderAndClusterType cloudProvider clusterType =
     (if \<not> bool_at ValidCloudProviders cloudProvider then Some ErrInvalidCloudProvider
      else if \<not> bool_at (list_at ValidClusterTypesByCloud cloudProvider) clusterType then
        Some (ErrorText (''invalid cluster type, the valid values are: ''
          @ ValidValues (list_at ValidClusterTypesByCloud cloudProvider)))
      else None)"

fun isOneOf :: "string \<Rightarrow> string list \<Rightarrow> bool" where
  "isOneOf val [] = False"
| "isOneOf val (value # possibleValues) = (if val = value then True else isOneOf val possibleValues)"

definition validRegionsByProvider :: "string list \<Rightarrow> (string \<times> string list) list" where
  "validRegionsByProvider aws_regions = [(''aws'', aws_regions)]"

text \<open>How \<open>%v\<close> prints a slice of strings.\<close>

definition print_slice :: "string list \<Rightarrow> string" where
  "print_slice xs = ''['' @ join_with '' '' xs @ '']''"

definition ValidateRegionByProvider :: "string list \<Rightarrow> string \<Rightarrow> string \<Rightarrow> go_error option" where
  "ValidateRegionByProvider aws_regions provider region =
     (let validRegions = list_at (validRegionsByProvider aws_regions) provider in
      if \<not> isOneOf region validRegions then
        Some (ErrorText (''invalid region '' @ region @ '' for '' @ provider
          @ '', valid values are: '' @ print_slice validRegions))
      else None)"

section \<open>Names of the sub-charts\<close>

definition SubchartNameFromClusterSpec :: "cluster_spec \<Rightarrow> go_error + string" where
  "SubchartNameFromClusterSpec cs =
     (case ValidApiProvider (cs_ApiProvider cs) of Some e \<Rightarrow> Inl e | None \<Rightarrow>
      case ValidCloudProviderAndClusterType (cs_CloudProvider cs) (cs_Type cs) of
        Some e \<Rightarrow> Inl e
      | None \<Rightarrow> Inr (cs_ApiProvider cs @ ''-'' @ cs_CloudProvider cs @ ''-'' @ cs_Type cs))"

definition SubchartName :: "config_map \<Rightarrow> go_error + string" where
  "SubchartName cm = (case FromConfigMap cm of Inl e \<Rightarrow> Inl e
     | Inr cs \<Rightarrow> SubchartNameFromClusterSpec cs)"

definition ClusterAutoscalerSubchartNameFromApiProvider :: "string \<Rightarrow> string" where
  "ClusterAutoscalerSubchartNameFromApiProvider apiProvider = apiProvider @ ''-cluster-autoscaler''"

definition ClusterAutoscalerSubchartNameFromClusterSpec :: "cluster_spec \<Rightarrow> go_error + string" where
  "ClusterAutoscalerSubchartNameFromClusterSpec cs =
     (case ValidApiProvider (cs_ApiProvider cs) of Some e \<Rightarrow> Inl e
      | None \<Rightarrow> Inr (ClusterAutoscalerSubchartNameFromApiProvider (cs_ApiProvider cs)))"

section \<open>Operations\<close>

definition clusterspec_Get ::
  "('w, config_map) resource_api \<Rightarrow> string \<Rightarrow> string \<Rightarrow> ('w, cluster_spec) io" where
  "clusterspec_Get configMaps arlonNs specName =
     andThen (api_get configMaps arlonNs specName) (\<lambda>cm. lift (FromConfigMap cm))"

definition clusterspec_Create ::
  "string list \<Rightarrow> ('w, config_map) resource_api \<Rightarrow> string \<Rightarrow> string \<Rightarrow> string \<Rightarrow> string \<Rightarrow> string \<Rightarrow>
   string \<Rightarrow> string \<Rightarrow> int \<Rightarrow> int \<Rightarrow> string \<Rightarrow> string \<Rightarrow> bool \<Rightarrow> int \<Rightarrow> int \<Rightarrow> string \<Rightarrow> string \<Rightarrow>
   ('w, unit) io" where
  "clusterspec_Create aws_regions configMaps arlonNs specName apiProvider cloudProvider clusterType
     kubernetesVersion nodeType nodeCount masterNodeCount sshKeyName region clusterAutoscalerEnabled
     clusterAutoscalerMinNodes clusterAutoscalerMaxNodes desc tags =
     checked (ValidApiProvider apiProvider) (
     checked (ValidCloudProviderAndClusterType cloudProvider clusterType) (
     checked (ValidateRegionByProvider aws_regions cloudProvider region) (
     attempt (clusterspec_Get configMaps arlonNs specName)
       (\<lambda>err. if \<not> IsNotFound err
          then fail (ErrorCtx ''failed to check for existence of clusterspec: '' err)
          else
            let cm = ToConfigMap specName apiProvider cloudProvider clusterType
              kubernetesVersion nodeType nodeCount masterNodeCount
              region '''' sshKeyName clusterAutoscalerEnabled
              clusterAutoscalerMinNodes clusterAutoscalerMaxNodes tags desc
            in must (api_create configMaps arlonNs cm)
                 (ErrorCtx ''failed to create clusterspec configmap: '') (\<lambda>_. ret ()))
       (\<lambda>_. fail (ErrorText ''a clusterspec with that name already exists'')))))"

text \<open>An argument left at its zero value keeps the field, any other value replaces it.\<close>

definition keep_or :: "'a \<Rightarrow> 'a \<Rightarrow> 'a \<Rightarrow> 'a" where
  "keep_or zero old arg = (if arg = zero then old else arg)"

definition clusterspec_Update ::
  "('w, config_map) resource_api \<Rightarrow> string \<Rightarrow> string \<Rightarrow> string \<Rightarrow> string \<Rightarrow> int \<Rightarrow> int \<Rightarrow>
   bool option \<Rightarrow> int \<Rightarrow> int \<Rightarrow> string \<Rightarrow> string \<Rightarrow> ('w, bool) io" where
  "clusterspec_Update configMaps arlonNs specName kubernetesVersion nodeType nodeCount
     masterNodeCount clusterAutoscalerEnabledPtr clusterAutoscalerMinNodes
     clusterAutoscalerMaxNodes desc tags =
     must (clusterspec_Get configMaps arlonNs specName) (ErrorCtx ''failed to get clusterspec: '')
     (\<lambda>cs.
       let dirty = (kubernetesVersion \<noteq> '''' \<or> nodeType \<noteq> '''' \<or> nodeCount \<noteq> 0
             \<or> masterNodeCount \<noteq> 0 \<or> clusterAutoscalerEnabledPtr \<noteq> None
             \<or> clusterAutoscalerMinNodes \<noteq> 0 \<or> clusterAutoscalerMaxNodes \<noteq> 0
             \<or> desc \<noteq> '''' \<or> tags \<noteq> '''');
           cm = ToConfigMap specName (cs_ApiProvider cs) (cs_CloudProvider cs) (cs_Type cs)
             (keep_or '''' (cs_KubernetesVersion cs) kubernetesVersion)
             (keep_or '''' (cs_NodeType cs) nodeType)
             (keep_or 0 (cs_NodeCount cs) nodeCount)
             (keep_or 0 (cs_MasterNodeCount cs) masterNodeCount)
             (cs_Region cs) (cs_PodCidrBlock cs) (cs_SshKeyName cs)
             (case clusterAutoscalerEnabledPtr of
                None \<Rightarrow> cs_ClusterAutoscalerEnabled cs | Some b \<Rightarrow> b)
             (keep_or 0 (cs_ClusterAutoscalerMinNodes cs) clusterAutoscalerMinNodes)
             (keep_or 0 (cs_ClusterAutoscalerMaxNodes cs) clusterAutoscalerMaxNodes)
             (keep_or '''' (cs_Tags cs) tags)
             (keep_or '''' (cs_Description cs) desc)
       in if \<not> dirty then ret False
          else must (api_update configMaps arlonNs cm)
            (ErrorCtx ''failed to update clusterspec configmap: '') (\<lambda>_. ret True))"

definition clusterspec_Delete ::
  "('w, config_map) resource_api \<Rightarrow> string \<Rightarrow> string \<Rightarrow> ('w, unit) io" where
  "clusterspec_Delete configMaps ns clusterspecName =
     must (api_delete configMaps ns clusterspecName) (ErrorCtx ''failed to delete clusterspec: '')
       (\<lambda>_. ret ())"

section \<open>Validation is membership\<close>

lemma isOneOf_iff [simp]: "isOneOf val vs \<longleftrightarrow> val \<in> set vs"
  by (induction vs) auto

lemma foldl_valid_values:
  "i > 0 \<Longrightarrow> fst (foldl valid_values_step (r, i) xs) = r @ concat (map (\<lambda>x. ''|'' @ x) xs)"
  by (induction xs arbitrary: r i) (auto simp: valid_values_step_def)

lemma ValidValues_join: "ValidValues vals = join_with ''|'' (sort (map fst vals))"
proof (cases "sort (map fst vals)")
  case Nil
  then show ?thesis by (simp add: ValidValues_def)
next
  case (Cons x xs)
  moreover have "valid_values_step ('''', 0) x = (x, 1)"
    by (simp add: valid_values_step_def)
  ultimately show ?thesis
    by (simp add: ValidValues_def join_with_concat foldl_valid_values)
qed

lemma ValidApiProvider_None: "ValidApiProvider p = None \<longleftrightarrow> p \<in> {''capi'', ''xplane''}"
  by (auto simp: ValidApiProvider_def bool_at_def ValidApiProviders_def)

definition cloud_types :: "(string \<times> string) set" where
  "cloud_types = {(''aws'', ''kubeadm''), (''aws'', ''eks''), (''gcp'', ''kubeadm''), (''gcp'', ''gke''),
     (''azure'', ''kubeadm''), (''azure'', ''aks'')}"

lemma ValidCloudProviderAndClusterType_None:
  "ValidCloudProviderAndClusterType c t = None \<longleftrightarrow> (c, t) \<in> cloud_types"
  by (auto simp: ValidCloudProviderAndClusterType_def bool_at_def list_at_def
      ValidCloudProviders_def ValidClusterTypesByCloud_def cloud_types_def)

lemma ValidateRegionByProvider_None:
  "ValidateRegionByProvider aws_regions c r = None \<longleftrightarrow> c = ''aws'' \<and> r \<in> set aws_regions"
  by (auto simp: ValidateRegionByProvider_def Let_def list_at_def validRegionsByProvider_def)

section \<open>The stored specifications\<close>

text \<open>
  A client that keeps the laws of a config-map client, read as a store of specifications: what is
  kept under a name is what \<open>FromConfigMap\<close> makes of the config map.
\<close>

type_synonym 'w spec_store = "'w \<Rightarrow> string \<Rightarrow> string \<Rightarrow> (go_error + cluster_spec) option"

definition spec_client :: "'w spec_store \<Rightarrow> ('w, config_map) resource_api \<Rightarrow> bool" where
  "spec_client v api \<longleftrightarrow> lawful_get v FromConfigMap api \<and> lawful_create v FromConfigMap cm_name api
     \<and> lawful_update v FromConfigMap cm_name api \<and> lawful_delete v api"

lemma cm_name_ToConfigMap [simp]:
  "cm_name (ToConfigMap n a c t k nt nc mc r p ssh e mi ma tg d) = n"
  by (simp add: ToConfigMap_def named_meta_def)

lemma FromConfigMap_ToConfigMap:
  assumes "int64 nc" "int64 mc" "int64 mi" "int64 ma"
  shows "FromConfigMap (ToConfigMap n a c t k nt nc mc r p ssh e mi ma tg d) = Inr
    \<lparr>cs_Name = n, cs_ApiProvider = a, cs_CloudProvider = c, cs_Type = t,
     cs_KubernetesVersion = k, cs_NodeType = nt, cs_NodeCount = nc, cs_MasterNodeCount = mc,
     cs_Region = r, cs_PodCidrBlock = p, cs_SshKeyName = ssh, cs_Tags = tg, cs_Description = d,
     cs_ClusterAutoscalerEnabled = e, cs_ClusterAutoscalerMinNodes = mi,
     cs_ClusterAutoscalerMaxNodes = ma\<rparr>"
  using assms
  by (simp add: FromConfigMap_def ToConfigMap_def Let_def int_codec.decode_encode
      bool_codec.decode_encode default_on_error_def named_meta_def)

definition in_range :: "cluster_spec \<Rightarrow> bool" where
  "in_range cs \<longleftrightarrow> int64 (cs_NodeCount cs) \<and> int64 (cs_MasterNodeCount cs)
     \<and> int64 (cs_ClusterAutoscalerMinNodes cs) \<and> int64 (cs_ClusterAutoscalerMaxNodes cs)"

lemma default_on_error_int64:
  "int64 d \<Longrightarrow> int64 (default_on_error d (Atoi s))"
  by (auto simp: default_on_error_def dest: Atoi_int64 split: sum.splits)

lemma int64_small: "int64 1" "int64 3" "int64 9"
  by (simp_all add: int64_def)

lemma FromConfigMap_in_range: "FromConfigMap cm = Inr cs \<Longrightarrow> in_range cs"
  by (auto simp: FromConfigMap_def Let_def in_range_def Atoi_int64 default_on_error_int64
      int64_small split: sum.splits)

lemma FromConfigMap_name: "FromConfigMap cm = Inr cs \<Longrightarrow> cs_Name cs = cm_name cm"
  by (auto simp: FromConfigMap_def Let_def split: sum.splits)

text \<open>What the arguments of an update make of a specification.\<close>

definition updated_spec :: "cluster_spec \<Rightarrow> string \<Rightarrow> string \<Rightarrow> int \<Rightarrow> int \<Rightarrow> bool option \<Rightarrow> int \<Rightarrow> int \<Rightarrow>
    string \<Rightarrow> string \<Rightarrow> cluster_spec" where
  "updated_spec cs k nt nc mc e mi ma d tg = cs
     \<lparr>cs_KubernetesVersion := keep_or '''' (cs_KubernetesVersion cs) k,
      cs_NodeType := keep_or '''' (cs_NodeType cs) nt,
      cs_NodeCount := keep_or 0 (cs_NodeCount cs) nc,
      cs_MasterNodeCount := keep_or 0 (cs_MasterNodeCount cs) mc,
      cs_ClusterAutoscalerEnabled := (case e of None \<Rightarrow> cs_ClusterAutoscalerEnabled cs | Some b \<Rightarrow> b),
      cs_ClusterAutoscalerMinNodes := keep_or 0 (cs_ClusterAutoscalerMinNodes cs) mi,
      cs_ClusterAutoscalerMaxNodes := keep_or 0 (cs_ClusterAutoscalerMaxNodes cs) ma,
      cs_Description := keep_or '''' (cs_Description cs) d,
      cs_Tags := keep_or '''' (cs_Tags cs) tg\<rparr>"

definition nothing_to_update :: "string \<Rightarrow> string \<Rightarrow> int \<Rightarrow> int \<Rightarrow> bool option \<Rightarrow> int \<Rightarrow> int \<Rightarrow>
    string \<Rightarrow> string \<Rightarrow> bool" where
  "nothing_to_update k nt nc mc e mi ma d tg \<longleftrightarrow> k = '''' \<and> nt = '''' \<and> nc = 0 \<and> mc = 0 \<and> e = None
     \<and> mi = 0 \<and> ma = 0 \<and> d = '''' \<and> tg = ''''"

lemma nothing_updated:
  "nothing_to_update k nt nc mc e mi ma d tg \<Longrightarrow> updated_spec cs k nt nc mc e mi ma d tg = cs"
  by (simp add: nothing_to_update_def updated_spec_def keep_or_def)

lemma int64_keep_or: "int64 old \<Longrightarrow> int64 x \<Longrightarrow> int64 (keep_or 0 old x)"
  by (simp add: keep_or_def)

lemma IsNotFound_FromConfigMap: "FromConfigMap cm = Inl e \<Longrightarrow> \<not> IsNotFound e"
  by (auto simp: FromConfigMap_def Let_def split: sum.splits)

lemma wp_clusterspec_Get:
  assumes "lawful_get v FromConfigMap api"
    and "\<And>cs w'. v w' = v w \<Longrightarrow> v w ns n = Some (Inr cs) \<Longrightarrow> in_range cs \<Longrightarrow> Q (Inr cs) w'"
    and "\<And>e w'. v w' = v w \<Longrightarrow> (IsNotFound e \<Longrightarrow> v w ns n = None) \<Longrightarrow> Q (Inl (Err e)) w'"
  shows "wp (clusterspec_Get api ns n) Q w"
  unfolding clusterspec_Get_def wp_andThen
proof (rule wp_api_get [OF assms(1)])
  fix cm w'
  assume v: "v w' = v w" "v w ns n = Some (FromConfigMap cm)"
  show "case Inr cm of Inl f \<Rightarrow> Q (Inl f) w' | Inr x \<Rightarrow> wp (lift (FromConfigMap x)) Q w'"
  proof (cases "FromConfigMap cm")
    case (Inl e)
    then show ?thesis
      by (simp add: wp_lift) (rule assms(3) [OF v(1)], simp add: IsNotFound_FromConfigMap)
  next
    case (Inr cs)
    with v FromConfigMap_in_range [OF Inr] show ?thesis
      by (simp add: wp_lift assms(2))
  qed
qed (simp add: assms(3))

section \<open>Properties\<close>

definition store_spec :: "cluster_spec \<Rightarrow> config_map" where
  "store_spec cs = ToConfigMap (cs_Name cs) (cs_ApiProvider cs) (cs_CloudProvider cs) (cs_Type cs)
     (cs_KubernetesVersion cs) (cs_NodeType cs) (cs_NodeCount cs) (cs_MasterNodeCount cs)
     (cs_Region cs) (cs_PodCidrBlock cs) (cs_SshKeyName cs) (cs_ClusterAutoscalerEnabled cs)
     (cs_ClusterAutoscalerMinNodes cs) (cs_ClusterAutoscalerMaxNodes cs) (cs_Tags cs)
     (cs_Description cs)"

lemma FromConfigMap_store_spec: "in_range cs \<Longrightarrow> FromConfigMap (store_spec cs) = Inr cs"
  by (simp add: store_spec_def in_range_def FromConfigMap_ToConfigMap)

text \<open>C15: Any config map that parses as a cluster specification, with its optional entries present,
  missing or malformed, can be written back and parses as the same specification; and a
  specification with counts in the range of Go's integers survives the trip through its config
  map.\<close>

theorem clusterspec_roundtrip:
  "FromConfigMap cm = Inr cs \<or> in_range cs \<Longrightarrow> FromConfigMap (store_spec cs) = Inr cs"
  using FromConfigMap_in_range FromConfigMap_store_spec by blast

theorem clusterspec_roundtrip_witness:
  "\<exists>cs. FromConfigMap \<lparr>cm_meta = named_meta ''old'' '''', cm_data = mlit [(''nodeCount'', ''4'')]\<rparr> = Inr cs
     \<and> FromConfigMap (store_spec cs) = Inr cs \<and> cs_MasterNodeCount cs = 3"
proof -
  let ?cm = "\<lparr>cm_meta = named_meta ''old'' '''', cm_data = mlit [(''nodeCount'', ''4'')]\<rparr>"
  have "\<exists>cs. FromConfigMap ?cm = Inr cs \<and> cs_MasterNodeCount cs = 3"
    by (simp add: FromConfigMap_def Atoi_def split_sign_def is_digit_def digits_value_def
        digit_value_def default_on_error_def int64_def)
  then obtain cs where "FromConfigMap ?cm = Inr cs" "cs_MasterNodeCount cs = 3" by blast
  then show ?thesis using clusterspec_roundtrip [of ?cm cs] by blast
qed

text \<open>The keys of a map of valid values are printed in the same order, sorted and separated by
  bars, in whatever order Go iterates over the map.\<close>

theorem ValidValues_canonical:
  assumes "mset vals = mset vals'"
  shows "ValidValues vals = ValidValues vals' \<and> ValidValues vals = join_with ''|'' (sort (map fst vals))"
proof -
  have "sort (map fst vals) = sort (map fst vals')"
    by (rule properties_for_sort) (simp_all add: assms)
  then show ?thesis by (simp add: ValidValues_join)
qed

theorem ValidValues_canonical_witness:
  "ValidValues [(''gcp'', True), (''azure'', True), (''aws'', True)] = ''aws|azure|gcp''"
proof -
  have perm: "mset [(''gcp'', True), (''azure'', True), (''aws'', True)] = mset ValidCloudProviders"
    by (simp add: ValidCloudProviders_def add_mset_commute)
  have "ValidValues [(''gcp'', True), (''azure'', True), (''aws'', True)] =
      join_with ''|'' (sort (map fst [(''gcp'', True), (''azure'', True), (''aws'', True)]))"
    using ValidValues_canonical [OF perm] by (rule conjunct2)
  then show ?thesis by simp
qed

text \<open>The name of the sub-chart of a valid specification determines its API provider, cloud
  provider and cluster type, and a name is returned exactly for the valid combinations.\<close>

theorem subchart_name_injective:
  assumes "SubchartNameFromClusterSpec x = Inr n" "SubchartNameFromClusterSpec y = Inr n"
  shows "cs_ApiProvider x = cs_ApiProvider y \<and> cs_CloudProvider x = cs_CloudProvider y
    \<and> cs_Type x = cs_Type y \<and> cs_ApiProvider x \<in> {''capi'', ''xplane''}
    \<and> (cs_CloudProvider x, cs_Type x) \<in> cloud_types"
proof -
  have valid: "cs_ApiProvider z \<in> {''capi'', ''xplane''} \<and> (cs_CloudProvider z, cs_Type z) \<in> cloud_types
      \<and> cs_ApiProvider z @ ''-'' @ cs_CloudProvider z @ ''-'' @ cs_Type z = n"
    if "SubchartNameFromClusterSpec z = Inr n" for z
    using that
    by (auto simp: SubchartNameFromClusterSpec_def ValidApiProvider_None
        ValidCloudProviderAndClusterType_None split: option.splits)
  have parts: "[cs_ApiProvider z, cs_CloudProvider z, cs_Type z] \<noteq> [] \<and>
      (\<forall>s \<in> set [cs_ApiProvider z, cs_CloudProvider z, cs_Type z]. CHR ''-'' \<notin> set s)"
    and joined: "join_with ''-'' [cs_ApiProvider z, cs_CloudProvider z, cs_Type z] = n"
    if "SubchartNameFromClusterSpec z = Inr n" for z
    using valid [OF that] by (auto simp: cloud_types_def)
  have "[cs_ApiProvider x, cs_CloudProvider x, cs_Type x] =
      [cs_ApiProvider y, cs_CloudProvider y, cs_Type y]"
    using parts [OF assms(1)] parts [OF assms(2)] joined [OF assms(1)] joined [OF assms(2)]
    by (intro join_codec.encode_inj [of _ "CHR ''-''"]) simp_all
  with valid [OF assms(1)] show ?thesis by simp
qed

theorem subchart_name_injective_witness:
  "\<exists>cs. SubchartNameFromClusterSpec cs = Inr ''capi-aws-eks''
    \<and> (cs_CloudProvider cs, cs_Type cs) \<in> cloud_types"
proof -
  obtain cs where cs: "SubchartNameFromClusterSpec cs = Inr ''capi-aws-eks''"
  proof
    show "SubchartNameFromClusterSpec (undefined\<lparr>cs_ApiProvider := ''capi'',
        cs_CloudProvider := ''aws'', cs_Type := ''eks''\<rparr>) = Inr ''capi-aws-eks''"
      by (simp add: SubchartNameFromClusterSpec_def ValidApiProvider_def bool_at_def
          ValidApiProviders_def ValidCloudProviderAndClusterType_def ValidCloudProviders_def
          list_at_def ValidClusterTypesByCloud_def)
  qed
  from subchart_name_injective [OF cs cs] cs show ?thesis by blast
qed

text \<open>C5: Creating a specification succeeds only with a valid provider, cloud, type and AWS region
  under a name not in use, and then exactly the given specification, with an empty pod CIDR, is
  stored under it and nothing else changes. With an invalid argument the world is not touched. Any
  other error leaves the stored specifications as they were, unless the failed write was carried
  out.\<close>

theorem clusterspec_Create_correct:
  fixes v :: "'w spec_store"
  assumes "spec_client v api" "int64 nc" "int64 mc" "int64 mi" "int64 ma"
    and run: "clusterspec_Create regions api ns n a c t k nt nc mc ssh r e mi ma d tg w = (res, w')"
  defines "valid \<equiv> a \<in> {''capi'', ''xplane''} \<and> (c, t) \<in> cloud_types \<and> c = ''aws'' \<and> r \<in> set regions"
  defines "after \<equiv> stored (v w) ns n (Some (Inr
    \<lparr>cs_Name = n, cs_ApiProvider = a, cs_CloudProvider = c, cs_Type = t,
     cs_KubernetesVersion = k, cs_NodeType = nt, cs_NodeCount = nc, cs_MasterNodeCount = mc,
     cs_Region = r, cs_PodCidrBlock = '''', cs_SshKeyName = ssh, cs_Tags = tg, cs_Description = d,
     cs_ClusterAutoscalerEnabled = e, cs_ClusterAutoscalerMinNodes = mi,
     cs_ClusterAutoscalerMaxNodes = ma\<rparr>))"
  shows "(case res of
      Inr _ \<Rightarrow> valid \<and> v w ns n = None \<and> v w' = after
    | Inl (Err _) \<Rightarrow> (\<not> valid \<longrightarrow> w' = w) \<and> (v w' = v w \<or> v w ns n = None \<and> v w' = after)
    | Inl (Panic _) \<Rightarrow> False)"
proof (cases "valid")
  case False
  then have "ValidApiProvider a \<noteq> None \<or> ValidCloudProviderAndClusterType c t \<noteq> None
      \<or> ValidateRegionByProvider regions c r \<noteq> None"
    unfolding valid_def ValidApiProvider_None ValidCloudProviderAndClusterType_None
      ValidateRegionByProvider_None by blast
  with run False show ?thesis
    by (auto simp: clusterspec_Create_def checked_def fail_def split: option.splits)
next
  case True
  then have ok: "ValidApiProvider a = None" "ValidCloudProviderAndClusterType c t = None"
      "ValidateRegionByProvider regions c r = None"
    unfolding valid_def ValidApiProvider_None ValidCloudProviderAndClusterType_None
      ValidateRegionByProvider_None by blast+
  have laws: "lawful_get v FromConfigMap api" "lawful_create v FromConfigMap cm_name api"
    using assms(1) by (simp_all add: spec_client_def)
  have "wp (clusterspec_Create regions api ns n a c t k nt nc mc ssh r e mi ma d tg)
    (\<lambda>res w'. case res of Inr _ \<Rightarrow> v w ns n = None \<and> v w' = after
      | Inl (Err _) \<Rightarrow> v w' = v w \<or> v w ns n = None \<and> v w' = after
      | Inl (Panic _) \<Rightarrow> False) w"
    unfolding clusterspec_Create_def Let_def wp_simps ok option.case
    by (rule wp_clusterspec_Get [OF laws(1)])
      (auto simp: wp_simps wp_if after_def FromConfigMap_ToConfigMap assms(2-5)
        intro!: wp_api_create [OF laws(2)])
  from wpD [OF this run] True show ?thesis by (auto split: sum.splits fault.splits)
qed

definition mem_configmaps :: "(config_map store, config_map) resource_api" where
  "mem_configmaps = mem_api (\<lambda>s. s) (\<lambda>s _. s) cm_name (\<lambda>_ _. True)"

lemma mem_spec_client: "spec_client (store_view (\<lambda>s. s) FromConfigMap) mem_configmaps"
  by (simp add: spec_client_def mem_configmaps_def mem_lawful_get mem_lawful_create
      mem_lawful_update mem_lawful_delete)

theorem clusterspec_Create_correct_witness:
  "\<exists>w'. clusterspec_Create [''us-west-2''] mem_configmaps ''arlon'' ''one'' ''capi'' ''aws'' ''eks''
      ''v1.21'' ''t2'' 3 3 ''key'' ''us-west-2'' False 1 9 '''' '''' [] = (Inr (), w')
    \<and> (\<exists>cs. store_view (\<lambda>s. s) FromConfigMap w' ''arlon'' ''one'' = Some (Inr cs) \<and> cs_NodeCount cs = 3)"
proof -
  obtain w' where run: "clusterspec_Create [''us-west-2''] mem_configmaps ''arlon'' ''one'' ''capi''
      ''aws'' ''eks'' ''v1.21'' ''t2'' 3 3 ''key'' ''us-west-2'' False 1 9 '''' '''' [] = (Inr (), w')"
    by (simp add: clusterspec_Create_def checked_def ValidApiProvider_def bool_at_def
        ValidApiProviders_def ValidCloudProviderAndClusterType_def ValidCloudProviders_def
        list_at_def ValidClusterTypesByCloud_def ValidateRegionByProvider_def
        validRegionsByProvider_def clusterspec_Get_def io_defs mem_configmaps_def mem_api_def
        not_found_def Let_def)
  from clusterspec_Create_correct [OF mem_spec_client _ _ _ _ run]
  have "\<exists>cs. store_view (\<lambda>s. s) FromConfigMap w' ''arlon'' ''one'' = Some (Inr cs) \<and> cs_NodeCount cs = 3"
    by (auto simp: int64_def)
  with run show ?thesis by blast
qed

lemma wp_clusterspec_Update:
  fixes v :: "'w spec_store" and k nt d tg :: string and e :: "bool option"
  assumes "spec_client v api" "int64 nc" "int64 mc" "int64 mi" "int64 ma"
    and old: "v w ns n = Some (Inr cs)" "cs_Name cs = n"
  defines "after \<equiv> stored (v w) ns n (Some (Inr (updated_spec cs k nt nc mc e mi ma d tg)))"
  shows "wp (clusterspec_Update api ns n k nt nc mc e mi ma d tg)
    (\<lambda>res w'. case res of
        Inr dirty \<Rightarrow> dirty = (\<not> nothing_to_update k nt nc mc e mi ma d tg) \<and> v w' = after
      | Inl (Err _) \<Rightarrow> v w' = v w \<or> v w' = after
      | Inl (Panic _) \<Rightarrow> False) w"
proof -
  have laws: "lawful_get v FromConfigMap api" "lawful_update v FromConfigMap cm_name api"
    using assms(1) by (simp_all add: spec_client_def)
  have same: "after = v w" if "nothing_to_update k nt nc mc e mi ma d tg"
    unfolding after_def nothing_updated [OF that] using old by (auto simp: fun_eq_iff)
  have new: "FromConfigMap (ToConfigMap n (cs_ApiProvider cs) (cs_CloudProvider cs) (cs_Type cs)
      (keep_or '''' (cs_KubernetesVersion cs) k) (keep_or '''' (cs_NodeType cs) nt)
      (keep_or 0 (cs_NodeCount cs) nc) (keep_or 0 (cs_MasterNodeCount cs) mc)
      (cs_Region cs) (cs_PodCidrBlock cs) (cs_SshKeyName cs)
      (case e of None \<Rightarrow> cs_ClusterAutoscalerEnabled cs | Some b \<Rightarrow> b)
      (keep_or 0 (cs_ClusterAutoscalerMinNodes cs) mi)
      (keep_or 0 (cs_ClusterAutoscalerMaxNodes cs) ma)
      (keep_or '''' (cs_Tags cs) tg) (keep_or '''' (cs_Description cs) d))
    = Inr (updated_spec cs k nt nc mc e mi ma d tg)" if "in_range cs"
    using that assms(2-5) old(2)
    by (simp add: FromConfigMap_ToConfigMap in_range_def int64_keep_or updated_spec_def)
  show ?thesis
    unfolding clusterspec_Update_def Let_def wp_simps
  proof (rule wp_clusterspec_Get [OF laws(1)], goal_cases)
    case (1 cs' w1)
    then have [simp]: "cs' = cs" and new': "in_range cs" using old by simp_all
    show ?case
      using 1(1) same new [OF new']
      by (auto simp: wp_simps nothing_to_update_def after_def intro!: wp_api_update [OF laws(2)])
  qed (simp)
qed

text \<open>C14: An update of a stored specification leaves its provider, cloud, type, region, pod CIDR
  and SSH key alone, replaces the other fields by the arguments that are given and keeps them where
  an argument is empty. It reports that something changed exactly when an argument was given, and
  writes only then; an error reports no change and leaves the stored specifications as they were,
  unless the failed write was carried out.\<close>

theorem clusterspec_Update_correct:
  fixes v :: "'w spec_store"
  assumes "spec_client v api" "int64 nc" "int64 mc" "int64 mi" "int64 ma"
    and old: "v w ns n = Some (Inr cs)" "cs_Name cs = n"
    and run: "clusterspec_Update api ns n k nt nc mc e mi ma d tg w = (res, w')"
  defines "after \<equiv> stored (v w) ns n (Some (Inr (updated_spec cs k nt nc mc e mi ma d tg)))"
  shows "(case res of
      Inr dirty \<Rightarrow> dirty = (\<not> nothing_to_update k nt nc mc e mi ma d tg) \<and> v w' = after
    | Inl (Err _) \<Rightarrow> v w' = v w \<or> v w' = after
    | Inl (Panic _) \<Rightarrow> False)"
  using wpD [OF wp_clusterspec_Update [OF assms(1-7)] run] unfolding after_def .

theorem clusterspec_Update_correct_witness:
  "\<exists>w'. clusterspec_Update mem_configmaps ''arlon'' ''one'' '''' ''t3'' 5 0 None 0 0 '''' ''''
      [((''arlon'', ''one''), ToConfigMap ''one'' ''capi'' ''aws'' ''eks'' ''v1.21'' ''t2'' 3 3
         ''us-west-2'' '''' ''key'' True 1 9 '''' ''demo'')] = (Inr True, w')
    \<and> (\<exists>cs. store_view (\<lambda>s. s) FromConfigMap w' ''arlon'' ''one'' = Some (Inr cs)
         \<and> cs_NodeCount cs = 5 \<and> cs_NodeType cs = ''t3'' \<and> cs_Region cs = ''us-west-2'')"
proof -
  let ?cm = "ToConfigMap ''one'' ''capi'' ''aws'' ''eks'' ''v1.21'' ''t2'' 3 3
         ''us-west-2'' '''' ''key'' True 1 9 '''' ''demo''"
  obtain cs where cs: "FromConfigMap ?cm = Inr cs" "cs_Name cs = ''one''" "cs_Region cs = ''us-west-2''"
    by (simp add: FromConfigMap_ToConfigMap int64_def)
  obtain w' where run: "clusterspec_Update mem_configmaps ''arlon'' ''one'' '''' ''t3'' 5 0 None 0 0
      '''' '''' [((''arlon'', ''one''), ?cm)] = (Inr True, w')"
    by (simp add: clusterspec_Update_def clusterspec_Get_def io_defs mem_configmaps_def mem_api_def
        cs Let_def)
  from clusterspec_Update_correct [OF mem_spec_client _ _ _ _ _ cs(2) run] cs
  have "\<exists>cs. store_view (\<lambda>s. s) FromConfigMap w' ''arlon'' ''one'' = Some (Inr cs)
         \<and> cs_NodeCount cs = 5 \<and> cs_NodeType cs = ''t3'' \<and> cs_Region cs = ''us-west-2''"
    by (simp add: int64_def store_view_def stored_def updated_spec_def keep_or_def)
  with run show ?thesis by blast
qed

end
