(* ===== verification/Argocd.thy ===== *)
theory Argocd
  imports Api
begin

text \<open>
  Git and file-system operations (\<open>go-git\<close>, \<open>go-billy\<close>, \<open>os\<close>) as records of operations, and
  \<open>pkg/argocd\<close>: cloning a repository and finding its credentials among the secrets of ArgoCD.
  An open file is named by its path.
\<close>

section \<open>Working trees and repositories\<close>

text \<open>The status of a file in the index; the program only asks whether it is deleted there.\<close>

datatype staging_status = StagedDeleted | StagedOther

record commit_options =
  co_Author_Name :: string
  co_Author_Email :: string

record file_info =
  fi_Name :: string
  fi_IsDir :: bool

record 'w worktree =
  wt_Lstat :: "string \<Rightarrow> ('w, file_info) io"
  wt_Remove :: "string \<Rightarrow> ('w, unit) io"
  wt_MkdirAll :: "string \<Rightarrow> ('w, unit) io"
  wt_Create :: "string \<Rightarrow> ('w, unit) io"
  wt_OpenTrunc :: "string \<Rightarrow> ('w, unit) io"
  wt_Write :: "string \<Rightarrow> string \<Rightarrow> ('w, unit) io"
  wt_Close :: "string \<Rightarrow> ('w, unit) io"
  wt_ReadDir :: "string \<Rightarrow> ('w, file_info list) io"
  wt_Status :: "('w, (string \<times> staging_status) list) io"
  wt_Add :: "string \<Rightarrow> ('w, unit) io"
  wt_Commit :: "string \<Rightarrow> commit_options \<Rightarrow> ('w, unit) io"

record basic_auth =
  auth_Username :: string
  auth_Password :: string

record 'w repository =
  repo_Worktree :: "('w, 'w worktree) io"
  repo_Push :: "basic_auth \<Rightarrow> ('w, unit) io"

record clone_options =
  clo_URL :: string
  clo_Auth :: basic_auth
  clo_ReferenceName :: string

text \<open>\<open>os.Lstat\<close> is asked whether a path is a symbolic link, \<open>os.Stat\<close> whether it exists.\<close>

record 'w git_env =
  os_MkdirTemp :: "('w, string) io"
  os_RemoveAll :: "string \<Rightarrow> ('w, unit) io"
  os_Lstat :: "string \<Rightarrow> ('w, bool) io"
  os_Stat :: "string \<Rightarrow> ('w, unit) io"
  os_IsNotExist :: "go_error \<Rightarrow> bool"
  git_PlainClone :: "string \<Rightarrow> clone_options \<Rightarrow> ('w, 'w repository) io"

section \<open>Credentials\<close>

record repo_creds =
  rcr_Url :: string
  rcr_Username :: string
  rcr_Password :: string

definition NewBranchReferenceName :: "string \<Rightarrow> string" where
  "NewBranchReferenceName b = ''refs/heads/'' @ b"

definition CloneRepo ::
  "'w git_env \<Rightarrow> repo_creds \<Rightarrow> string \<Rightarrow> string \<Rightarrow> ('w, 'w repository \<times> string \<times> basic_auth) io" where
  "CloneRepo env creds repoUrl repoBranch =
     (let auth = \<lparr>auth_Username = rcr_Username creds, auth_Password = rcr_Password creds\<rparr> in
      andThen (os_MkdirTemp env) (\<lambda>tmpDir.
      must (git_PlainClone env tmpDir
          \<lparr>clo_URL = repoUrl, clo_Auth = auth, clo_ReferenceName = NewBranchReferenceName repoBranch\<rparr>)
        (ErrorCtx ''failed to clone repository: '')
        (\<lambda>repo. ret (repo, tmpDir, auth))))"

definition creds_of_secret :: "secret \<Rightarrow> repo_creds" where
  "creds_of_secret s = \<lparr>rcr_Url = mget (secr_data s) ''url'',
     rcr_Username = mget (secr_data s) ''username'', rcr_Password = mget (secr_data s) ''password''\<rparr>"

text \<open>The loop over the secrets, which stops at the first one with the URL.\<close>

fun find_creds :: "string \<Rightarrow> secret list \<Rightarrow> repo_creds option" where
  "find_creds repoUrl [] = None"
| "find_creds repoUrl (s # ss) =
     (if repoUrl = mget (secr_data s) ''url'' then Some (creds_of_secret s) else find_creds repoUrl ss)"

definition GetRepoCredsFromArgoCd ::
  "'w kube_client \<Rightarrow> string \<Rightarrow> string \<Rightarrow> ('w, repo_creds) io" where
  "GetRepoCredsFromArgoCd kubeClient argocdNs repoUrl =
     must (api_list (kube_Secrets kubeClient) argocdNs ''argocd.argoproj.io/secret-type=repository'')
       (ErrorCtx ''failed to list secrets: '')
     (\<lambda>secrets. case find_creds repoUrl secrets of
        None \<Rightarrow> fail (ErrorText (''did not find argocd repository matching '' @ repoUrl
          @ '' (did you register it?)''))
      | Some creds \<Rightarrow> ret creds)"

definition GetKubeclientAndRepoCreds ::
  "'w rest_config \<Rightarrow> string \<Rightarrow> string \<Rightarrow> ('w, 'w kube_client \<times> repo_creds) io" where
  "GetKubeclientAndRepoCreds config argocdNs repoUrl =
     must (rc_NewForConfig config) (ErrorCtx ''failed to get kubernetes client: '') (\<lambda>kubeClient.
     must (GetRepoCredsFromArgoCd kubeClient argocdNs repoUrl)
       (ErrorCtx ''failed to get repository credentials from argocd: '') (\<lambda>creds.
     ret (kubeClient, creds)))"

lemma find_creds_first:
  "find_creds u ss = map_option creds_of_secret (find (\<lambda>s. mget (secr_data s) ''url'' = u) ss)"
  by (induction ss) auto

lemma find_creds_url: "find_creds u ss = Some c \<Longrightarrow> rcr_Url c = u"
  by (induction ss) (auto simp: creds_of_secret_def split: if_splits)

end
