(* ===== verification/Go_Regexp.thy ===== *)
theory Go_Regexp
  imports Go_Std
begin

text \<open>
  Regular expressions as \<open>regexp\<close> of Go's standard library matches them in the multi-line mode
  \<open>(?m)\<close>, for a pattern between \<open>^\<close> and \<open>$\<close> without line breaks in its classes: the pattern must
  match one whole line of the text. Matching computes derivatives; \<open>rx_lang\<close> is the language.
\<close>

datatype rx =
    Empty_Rx
  | Eps
  | Class "char list"
  | Or rx rx
  | Then rx rx
  | Many rx

definition Opt :: "rx \<Rightarrow> rx" where
  "Opt r = Or Eps r"

fun rx_nullable :: "rx \<Rightarrow> bool" where
  "rx_nullable Empty_Rx = False"
| "rx_nullable Eps = True"
| "rx_nullable (Class cs) = False"
| "rx_nullable (Or r s) = (rx_nullable r \<or> rx_nullable s)"
| "rx_nullable (Then r s) = (rx_nullable r \<and> rx_nullable s)"
| "rx_nullable (Many r) = True"

fun rx_deriv :: "char \<Rightarrow> rx \<Rightarrow> rx" where
  "rx_deriv c Empty_Rx = Empty_Rx"
| "rx_deriv c Eps = Empty_Rx"
| "rx_deriv c (Class cs) = (if c \<in> set cs then Eps else Empty_Rx)"
| "rx_deriv c (Or r s) = Or (rx_deriv c r) (rx_deriv c s)"
| "rx_deriv c (Then r s) =
     (if rx_nullable r then Or (Then (rx_deriv c r) s) (rx_deriv c s) else Then (rx_deriv c r) s)"
| "rx_deriv c (Many r) = Then (rx_deriv c r) (Many r)"

definition rx_match :: "rx \<Rightarrow> string \<Rightarrow> bool" where
  "rx_match r s = rx_nullable (foldl (\<lambda>r c. rx_deriv c r) r s)"

definition newline :: char where
  "newline = CHR 0x0A"

definition match_a_line :: "rx \<Rightarrow> string \<Rightarrow> bool" where
  "match_a_line r s = list_ex (rx_match r) (split_on newline s)"

section \<open>Languages\<close>

inductive_set star_of :: "string set \<Rightarrow> string set" for L :: "string set" where
  star_Nil: "[] \<in> star_of L"
| star_app: "u \<in> L \<Longrightarrow> v \<in> star_of L \<Longrightarrow> u @ v \<in> star_of L"

fun rx_lang :: "rx \<Rightarrow> string set" where
  "rx_lang Empty_Rx = {}"
| "rx_lang Eps = {[]}"
| "rx_lang (Class cs) = {[c] |c. c \<in> set cs}"
| "rx_lang (Or r s) = rx_lang r \<union> rx_lang s"
| "rx_lang (Then r s) = {u @ v |u v. u \<in> rx_lang r \<and> v \<in> rx_lang s}"
| "rx_lang (Many r) = star_of (rx_lang r)"

lemma rx_nullable_iff: "rx_nullable r \<longleftrightarrow> [] \<in> rx_lang r"
  by (induction r) (auto intro: star_of.intros)

text \<open>A non-empty word of an iteration starts with a non-empty word of the language.\<close>

lemma star_Cons: "c # s \<in> star_of L \<longleftrightarrow> (\<exists>u v. c # u \<in> L \<and> v \<in> star_of L \<and> s = u @ v)"
proof
  show "c # s \<in> star_of L \<Longrightarrow> \<exists>u v. c # u \<in> L \<and> v \<in> star_of L \<and> s = u @ v"
  proof (induction "c # s" rule: star_of.induct)
    case (star_app u v)
    then show ?case by (cases u) auto
  qed
qed (auto dest: star_of.star_app [of "c # _"])

lemma rx_deriv_iff: "s \<in> rx_lang (rx_deriv c r) \<longleftrightarrow> c # s \<in> rx_lang r"
proof (induction r arbitrary: s)
  case (Then r1 r2)
  have "c # s \<in> rx_lang (Then r1 r2) \<longleftrightarrow>
      (\<exists>u v. s = u @ v \<and> c # u \<in> rx_lang r1 \<and> v \<in> rx_lang r2)
      \<or> [] \<in> rx_lang r1 \<and> c # s \<in> rx_lang r2"
    by (auto simp: Cons_eq_append_conv)
  with Then show ?case by (auto simp: rx_nullable_iff)
next
  case (Many r)
  then show ?case by (auto simp: star_Cons)
qed auto

theorem rx_match_iff: "rx_match r s \<longleftrightarrow> s \<in> rx_lang r"
proof (induction s arbitrary: r)
  case Nil
  then show ?case by (simp add: rx_match_def rx_nullable_iff)
next
  case (Cons c s)
  then show ?case by (simp add: rx_match_def rx_deriv_iff [symmetric])
qed

end
