(* ===== verification/Bundle.thy ===== *)
theory Bundle
  imports Api Go_Regexp
begin

text \<open>
  Bundles (\<open>pkg/bundle\<close>): configuration bundles kept as labelled secrets, static ones with their
  manifest in the secret and dynamic ones with a reference to a git repository. \<open>read_file\<close> is
  \<open>os.ReadFile\<close>.
\<close>

section \<open>Names\<close>

definition alnum :: "char list" where
  "alnum = ''abcdefghijklmnopqrstuvwxyz0123456789''"

definition rx_label :: rx where
  "rx_label = Then (Class alnum) (Opt (Then (Many (Class (CHR ''-'' # alnum))) (Class alnum)))"

definition regexRFC1123 :: rx where
  "regexRFC1123 = Then rx_label (Many (Then (Class ''.'') rx_label))"

definition IsValidK8sName :: "string \<Rightarrow> bool" where
  "IsValidK8sName name =
     (if length name = 0 \<or> length name > 63 then False else match_a_line regexRFC1123 name)"

definition ErrInvalidName :: go_error where
  "ErrInvalidName = Sentinel ''ErrInvalidName'' ''invalid resource name''"

section \<open>Bundles of a profile\<close>

record config_bundle =
  bd_Name :: string
  bd_Data :: "string option"
  bd_RepoUrl :: string
  bd_RepoPath :: string
  bd_RepoRevision :: string
  bd_SrcType :: string

definition bundle_of_secret :: "string \<Rightarrow> secret \<Rightarrow> config_bundle" where
  "bundle_of_secret bundleName secr =
     (let ann = mget (om_annotations (secr_meta secr)) in
      \<lparr>bd_Name = bundleName,
       bd_Data = bytes_get (secr_data secr) ''data'',
       bd_RepoUrl = ann RepoUrlAnnotationKey,
       bd_RepoPath = ann RepoPathAnnotationKey,
       bd_RepoRevision = ann RepoRevisionAnnotationKey,
       bd_SrcType = ann SrcTypeAnnotationKey\<rparr>)"

definition GetBundlesFromProfile ::
  "profile \<Rightarrow> ('w, secret) resource_api \<Rightarrow> string \<Rightarrow> ('w, config_bundle list) io" where
  "GetBundlesFromProfile profile secrets arlonNs =
     (case pf_Bundles (prof_spec profile) of
        None \<Rightarrow> ret []
      | Some bundleList \<Rightarrow>
          forM (\<lambda>bundleName bundles.
              must (api_get secrets arlonNs bundleName)
                (ErrorCtx (''failed to get bundle secret '' @ bundleName @ '': ''))
                (\<lambda>secr. ret (bundles @ [bundle_of_secret bundleName secr])))
            bundleList [])"

section \<open>Operations\<close>

definition new_bundle_secret :: "string \<Rightarrow> string \<Rightarrow> string \<Rightarrow> secret" where
  "new_bundle_secret bundleName desc tags =
     \<lparr>secr_meta = (named_meta bundleName '''')
        \<lparr>om_labels := mlit [(''managed-by'', ''arlon''), (''arlon-type'', ''config-bundle'')],
         om_annotations := mlit []\<rparr>,
      secr_data = mlit [(''description'', desc), (''tags'', tags)]\<rparr>"

definition with_label :: "string \<Rightarrow> secret \<Rightarrow> secret" where
  "with_label t s = s\<lparr>secr_meta := (secr_meta s)
     \<lparr>om_labels := map_option (\<lambda>f. f(''bundle-type'' \<mapsto> t)) (om_labels (secr_meta s))\<rparr>\<rparr>"

definition with_annotations :: "(string \<times> string) list \<Rightarrow> secret \<Rightarrow> secret" where
  "with_annotations kvs s = s\<lparr>secr_meta := (secr_meta s)
     \<lparr>om_annotations := map_option (\<lambda>f. f ++ map_of kvs) (om_annotations (secr_meta s))\<rparr>\<rparr>"

definition with_data :: "string \<Rightarrow> string \<Rightarrow> secret \<Rightarrow> secret" where
  "with_data k x s = s\<lparr>secr_data := map_option (\<lambda>f. f(k \<mapsto> x)) (secr_data s)\<rparr>"

definition bundle_Create ::
  "(string \<Rightarrow> ('w, string) io) \<Rightarrow> ('w, secret) resource_api \<Rightarrow> string \<Rightarrow> string \<Rightarrow> path \<Rightarrow>
   url \<Rightarrow> path \<Rightarrow> revision \<Rightarrow> string \<Rightarrow> string \<Rightarrow> string \<Rightarrow> ('w, unit) io" where
  "bundle_Create read_file secrets ns bundleName fromFile repoUrl repoPath repoRevision srcType
     desc tags =
     (if \<not> IsValidK8sName bundleName then
        fail (ErrorWrap '''' ErrInvalidName ('': '' @ bundleName))
      else
        attempt (api_get secrets ns bundleName)
          (\<lambda>err. if \<not> IsNotFound err then
               fail (ErrorCtx ''failed to check for existence of bundle: '' err)
             else
               let secr = new_bundle_secret bundleName desc tags;
                   store = (\<lambda>secr. must (api_create secrets ns secr)
                     (ErrorCtx ''failed to create secret: '') (\<lambda>_. ret ()))
               in if fromFile \<noteq> '''' \<and> repoUrl \<noteq> '''' then
                    fail (ErrorText ''file and repo cannot both be specified'')
                  else if fromFile \<noteq> '''' then
                    must (read_file fromFile) (ErrorCtx ''failed to read file: '')
                      (\<lambda>data. store (with_data ''data'' data (with_label ''static'' secr)))
                  else if repoUrl \<noteq> '''' then
                    store (with_annotations
                      [(RepoUrlAnnotationKey, repoUrl), (RepoPathAnnotationKey, repoPath),
                       (RepoRevisionAnnotationKey, repoRevision), (SrcTypeAnnotationKey, srcType)]
                      (with_label ''dynamic'' secr))
                  else fail (ErrorText ''the bundle must be created from a file or repo URL''))
          (\<lambda>_. fail (ErrorText ''a bundle with that name already exists'')))"

text \<open>\<open>if b { m[k] = v; dirty = true }\<close>.\<close>

definition assign_if ::
  "bool \<Rightarrow> gomap \<Rightarrow> string \<Rightarrow> string \<Rightarrow> bool \<Rightarrow> (gomap \<Rightarrow> bool \<Rightarrow> ('w, 'a) io) \<Rightarrow> ('w, 'a) io" where
  "assign_if b m k x dirty c = (if b then assigning m k x (\<lambda>m'. c m' True) else c m dirty)"

definition bundle_Update ::
  "(string \<Rightarrow> ('w, string) io) \<Rightarrow> ('w, secret) resource_api \<Rightarrow> string \<Rightarrow> string \<Rightarrow> string \<Rightarrow>
   string \<Rightarrow> string \<Rightarrow> string \<Rightarrow> string \<Rightarrow> ('w, unit) io" where
  "bundle_Update read_file secrets ns bundleName fromFile repoUrl repoPath desc tags =
     (if \<not> IsValidK8sName bundleName then
        fail (ErrorWrap '''' ErrInvalidName ('': '' @ bundleName))
      else
        must (api_get secrets ns bundleName) (ErrorCtx ''failed to get bundle secret: '')
        (\<lambda>secr.
          let bundle_type = mget (om_labels (secr_meta secr)) ''bundle-type'';
              store = (\<lambda>data dirty. if \<not> dirty then ret ()
                else must (api_update secrets ns (secr\<lparr>secr_data := data\<rparr>))
                  (ErrorCtx ''failed to update secret: '') (\<lambda>_. ret ()))
          in
          assign_if (desc \<noteq> '''' \<and> desc \<noteq> mget (secr_data secr) ''description'')
            (secr_data secr) ''description'' desc False (\<lambda>data dirty.
          assign_if (tags \<noteq> '''' \<and> tags \<noteq> mget data ''tags'') data ''tags'' tags dirty (\<lambda>data dirty.
          if fromFile \<noteq> '''' \<and> repoUrl \<noteq> '''' then
            fail (ErrorText ''file and repo cannot both be specified'')
          else if fromFile \<noteq> '''' then
            (if bundle_type \<noteq> ''static'' then
               fail (ErrorText ''manifest content can only be changed if bundle is static'')
             else must (read_file fromFile) (ErrorCtx ''failed to read file: '')
               (\<lambda>content. assigning data ''data'' content (\<lambda>data. store data True)))
          else if repoUrl \<noteq> '''' \<or> repoPath \<noteq> '''' then
            (if bundle_type = ''dynamic'' then
               fail (ErrorText ''cannot update git reference of a dynamic bundle'')
             else fail (ErrorText ''cannot specify repo URL or path for an existing static bundle''))
          else store data dirty))))"

definition bundle_Delete ::
  "('w, secret) resource_api \<Rightarrow> string \<Rightarrow> string \<Rightarrow> ('w, unit) io" where
  "bundle_Delete secrets ns bundleName =
     must (api_delete secrets ns bundleName) (ErrorCtx ''failed to delete bundle: '') (\<lambda>_. ret ())"

section \<open>Listing\<close>

record bundle_list_item =
  li_Name :: string
  li_Type :: string
  li_Tags :: string
  li_Repo :: string
  li_Path :: string
  li_Revision :: string
  li_SrcType :: string
  li_Description :: string

definition ErrFailedList :: go_error where
  "ErrFailedList = Sentinel ''ErrFailedList'' ''failed to list secrets''"

definition bundle_list_item_of :: "secret \<Rightarrow> bundle_list_item" where
  "bundle_list_item_of secret =
     (let labels = mget (om_labels (secr_meta secret));
          ann = mget (om_annotations (secr_meta secret));
          bundleType = (if labels ''bundle-type'' = '''' then ''(undefined)'' else labels ''bundle-type'')
      in
      \<lparr>li_Name = secr_name secret,
       li_Type = bundleType,
       li_Tags = mget (secr_data secret) ''tags'',
       li_Repo = (if bundleType \<noteq> ''dynamic'' then ''(N/A)'' else ann RepoUrlAnnotationKey),
       li_Path = (if bundleType \<noteq> ''dynamic'' then ''(N/A)'' else ann RepoPathAnnotationKey),
       li_Revision = ann RepoRevisionAnnotationKey,
       li_SrcType = ann SrcTypeAnnotationKey,
       li_Description = mget (secr_data secret) ''description''\<rparr>)"

definition bundle_List :: "'w rest_config \<Rightarrow> string \<Rightarrow> ('w, bundle_list_item list) io" where
  "bundle_List config namespace =
     andThen (NewForConfigOrDie config) (\<lambda>kubeClient.
     must (api_list (kube_Secrets kubeClient) namespace ''managed-by=arlon,arlon-type=config-bundle'')
       (\<lambda>err. ErrorWrap '''' ErrFailedList ('': '' @ error_string err))
       (\<lambda>items. if length items = 0 then ret [] else ret (map bundle_list_item_of items)))"

section \<open>What a valid name is\<close>

definition dns_label :: "string \<Rightarrow> bool" where
  "dns_label l \<longleftrightarrow> l \<noteq> [] \<and> hd l \<in> set alnum \<and> last l \<in> set alnum
     \<and> set l \<subseteq> insert (CHR ''-'') (set alnum)"

definition dns_subdomain :: "string \<Rightarrow> bool" where
  "dns_subdomain s \<longleftrightarrow> list_all dns_label (split_on (CHR ''.'') s)"

lemma star_of_singletons: "star_of {[c] |c. c \<in> S} = {s. set s \<subseteq> S}"
proof
  show "star_of {[c] |c. c \<in> S} \<subseteq> {s. set s \<subseteq> S}"
  proof
    fix s
    assume "s \<in> star_of {[c] |c. c \<in> S}"
    then show "s \<in> {s. set s \<subseteq> S}" by (induction rule: star_of.induct) auto
  qed
  show "{s. set s \<subseteq> S} \<subseteq> star_of {[c] |c. c \<in> S}"
  proof
    fix s
    assume "s \<in> {s. set s \<subseteq> S}"
    then show "s \<in> star_of {[c] |c. c \<in> S}"
      by (induction s) (auto intro: star_of.star_Nil star_of.star_app [of "[c]" for c, simplified])
  qed
qed

lemma rx_lang_Many_Class: "rx_lang (Many (Class cs)) = {s. set s \<subseteq> set cs}"
  by (simp only: rx_lang.simps star_of_singletons)

lemma char_then_block:
  "l \<in> {u @ v |u v. u \<in> {[c] |c. c \<in> A} \<and> v \<in> {[]} \<union> {u @ v |u v. u \<in> M \<and> v \<in> {[c] |c. c \<in> A}}} \<longleftrightarrow>
     (\<exists>a. l = [a] \<and> a \<in> A) \<or> (\<exists>a m b. l = a # m @ [b] \<and> a \<in> A \<and> b \<in> A \<and> m \<in> M)"
  (is "?l \<longleftrightarrow> ?r")
proof
  show "?l \<Longrightarrow> ?r" by auto
next
  assume ?r
  then show ?l
  proof (elim disjE exE conjE)
    fix a m b
    assume "l = a # m @ [b]" "a \<in> A" "b \<in> A" "m \<in> M"
    then have "l = [a] @ (m @ [b])" "[a] \<in> {[c] |c. c \<in> A}"
      "m @ [b] \<in> {u @ v |u v. u \<in> M \<and> v \<in> {[c] |c. c \<in> A}}" by auto
    then show ?thesis by blast
  qed auto
qed

lemma rx_label_iff:
  "l \<in> rx_lang rx_label \<longleftrightarrow> (\<exists>a. l = [a] \<and> a \<in> set alnum)
     \<or> (\<exists>a m b. l = a # m @ [b] \<and> a \<in> set alnum \<and> b \<in> set alnum
          \<and> set m \<subseteq> insert (CHR ''-'') (set alnum))"
  unfolding rx_label_def Opt_def rx_lang.simps(1-5) rx_lang_Many_Class char_then_block
  by (simp only: list.set mem_Collect_eq)

lemma rx_label_lang: "rx_lang rx_label = {l. dns_label l}"
proof -
  have "l \<in> rx_lang rx_label \<longleftrightarrow> dns_label l" for l
  proof (cases l rule: rev_cases)
    case Nil
    then show ?thesis by (simp add: dns_label_def rx_label_iff)
  next
    case (snoc k b)
    then show ?thesis by (cases k) (auto simp: dns_label_def rx_label_iff)
  qed
  then show ?thesis by blast
qed

lemma dot_not_in_label: "CHR ''.'' \<notin> insert (CHR ''-'') (set alnum)"
  by (simp add: alnum_def)

lemma dns_label_no_dot: "dns_label l \<Longrightarrow> CHR ''.'' \<notin> set l"
  using dot_not_in_label unfolding dns_label_def by blast

lemma star_dotted_labels:
  "v \<in> star_of {CHR ''.'' # l |l. dns_label l} \<longleftrightarrow>
     (\<exists>ls. list_all dns_label ls \<and> v = concat (map (\<lambda>l. ''.'' @ l) ls))"
proof
  show "v \<in> star_of {CHR ''.'' # l |l. dns_label l} \<Longrightarrow>
      \<exists>ls. list_all dns_label ls \<and> v = concat (map (\<lambda>l. ''.'' @ l) ls)"
  proof (induction rule: star_of.induct)
    case star_Nil
    show ?case by (rule exI [of _ "[]"]) simp
  next
    case (star_app u v)
    then obtain l ls where "u = CHR ''.'' # l" "dns_label l" "list_all dns_label ls"
      "v = concat (map (\<lambda>l. ''.'' @ l) ls)" by blast
    then show ?case by (intro exI [of _ "l # ls"]) simp
  qed
next
  have "list_all dns_label ls \<Longrightarrow>
      concat (map (\<lambda>l. ''.'' @ l) ls) \<in> star_of {CHR ''.'' # l |l. dns_label l}" for ls
  proof (induction ls)
    case Nil
    show ?case by (simp add: star_of.star_Nil)
  next
    case (Cons l ls)
    then have "(CHR ''.'' # l) @ concat (map (\<lambda>l. ''.'' @ l) ls)
        \<in> star_of {CHR ''.'' # l |l. dns_label l}"
      by (intro star_of.star_app) auto
    then show ?case by simp
  qed
  then show "\<exists>ls. list_all dns_label ls \<and> v = concat (map (\<lambda>l. ''.'' @ l) ls) \<Longrightarrow>
      v \<in> star_of {CHR ''.'' # l |l. dns_label l}" by blast
qed

lemma regexRFC1123_iff: "rx_match regexRFC1123 s \<longleftrightarrow> dns_subdomain s"
proof -
  have dot: "{u @ v |u v. u \<in> {[c] |c. c \<in> set ''.''} \<and> v \<in> {l. dns_label l}} =
      {CHR ''.'' # l |l. dns_label l}" by auto
  have "rx_match regexRFC1123 s \<longleftrightarrow>
      (\<exists>u ls. dns_label u \<and> list_all dns_label ls \<and> s = join_with ''.'' (u # ls))"
    unfolding rx_match_iff regexRFC1123_def rx_lang.simps rx_label_lang dot
    by (auto simp: star_dotted_labels join_with_concat)
  also have "\<dots> \<longleftrightarrow> dns_subdomain s"
  proof
    assume "\<exists>u ls. dns_label u \<and> list_all dns_label ls \<and> s = join_with ''.'' (u # ls)"
    then obtain u ls where ls: "list_all dns_label (u # ls)" "s = join_with ''.'' (u # ls)"
      by auto
    then have "split_on (CHR ''.'') s = u # ls"
      using dns_label_no_dot by (auto simp: list_all_iff intro!: split_join)
    with ls show "dns_subdomain s" by (simp add: dns_subdomain_def)
  next
    assume d: "dns_subdomain s"
    obtain u ls where s: "split_on (CHR ''.'') s = u # ls"
      by (meson neq_Nil_conv split_on_not_Nil)
    with d join_split_on [of "CHR ''.''" s]
    show "\<exists>u ls. dns_label u \<and> list_all dns_label ls \<and> s = join_with ''.'' (u # ls)"
      by (auto simp: dns_subdomain_def intro!: exI [of _ u] exI [of _ ls])
  qed
  finally show ?thesis .
qed

text \<open>C16: A name is accepted when it has 1 to 63 bytes and one of its lines is a DNS subdomain:
  labels of lower-case letters, digits and dashes that start and end with a letter or digit,
  separated by dots. For a name without line breaks this is the rule of RFC 1123; because of the
  multi-line flag of the pattern a name with a line break is accepted as soon as one line is.\<close>

theorem IsValidK8sName_spec:
  "IsValidK8sName name \<longleftrightarrow> 0 < length name \<and> length name \<le> 63
     \<and> (if newline \<in> set name then list_ex dns_subdomain (split_on newline name)
        else dns_subdomain name)"
  by (auto simp: IsValidK8sName_def match_a_line_def regexRFC1123_iff [abs_def] split_on_plain)

text \<open>A name the Kubernetes API would refuse passes the check.\<close>

lemma IsValidK8sName_accepts_lines:
  "IsValidK8sName (''Not a name!'' @ [newline] @ ''ok'') \<and> \<not> dns_subdomain (''Not a name!'' @ [newline] @ ''ok'')"
  by (simp add: IsValidK8sName_spec newline_def dns_subdomain_def dns_label_def alnum_def)

section \<open>The stored bundles\<close>

text \<open>What is kept of a secret: its labels, annotations and data.\<close>

type_synonym secret_core = "gomap \<times> gomap \<times> gomap"

definition secr_core :: "secret \<Rightarrow> secret_core" where
  "secr_core s = (om_labels (secr_meta s), om_annotations (secr_meta s), secr_data s)"

definition secret_client ::
  "('w \<Rightarrow> string \<Rightarrow> string \<Rightarrow> secret_core option) \<Rightarrow> ('w, secret) resource_api \<Rightarrow> bool" where
  "secret_client v api \<longleftrightarrow> lawful_get v secr_core api \<and> lawful_create v secr_core secr_name api
     \<and> lawful_update v secr_core secr_name api \<and> lawful_delete v api"

definition is_bundle :: "secret_core \<Rightarrow> bool" where
  "is_bundle c = (case c of (lab, ann, data) \<Rightarrow> mget lab ''arlon-type'' = ''config-bundle'')"

text \<open>A bundle is static with its content and no repository, or dynamic with a repository and no
  content.\<close>

definition static_or_dynamic :: "secret_core \<Rightarrow> bool" where
  "static_or_dynamic c = (case c of (lab, ann, data) \<Rightarrow>
     mget lab ''bundle-type'' = ''static'' \<and> bytes_get data ''data'' \<noteq> None
       \<and> mget ann RepoUrlAnnotationKey = ''''
     \<or> mget lab ''bundle-type'' = ''dynamic'' \<and> bytes_get data ''data'' = None
       \<and> mget ann RepoUrlAnnotationKey \<noteq> '''')"

definition wf_bundles :: "(string \<Rightarrow> string \<Rightarrow> secret_core option) \<Rightarrow> bool" where
  "wf_bundles m \<longleftrightarrow> (\<forall>ns n c. m ns n = Some c \<longrightarrow> is_bundle c \<longrightarrow> static_or_dynamic c)"

lemma wf_bundles_stored [simp]:
  "wf_bundles m \<Longrightarrow> (is_bundle c \<longrightarrow> static_or_dynamic c) \<Longrightarrow> wf_bundles (stored m ns n (Some c))"
  "wf_bundles m \<Longrightarrow> wf_bundles (stored m ns n None)"
  by (auto simp: wf_bundles_def stored_def)

lemma wf_bundlesD: "wf_bundles m \<Longrightarrow> m ns n = Some c \<Longrightarrow> is_bundle c \<Longrightarrow> static_or_dynamic c"
  unfolding wf_bundles_def by blast

definition core_bundle :: "string \<Rightarrow> secret_core \<Rightarrow> config_bundle" where
  "core_bundle n c = (case c of (lab, ann, data) \<Rightarrow>
     \<lparr>bd_Name = n, bd_Data = bytes_get data ''data'', bd_RepoUrl = mget ann RepoUrlAnnotationKey,
      bd_RepoPath = mget ann RepoPathAnnotationKey,
      bd_RepoRevision = mget ann RepoRevisionAnnotationKey,
      bd_SrcType = mget ann SrcTypeAnnotationKey\<rparr>)"

lemma bundle_of_secret_core: "bundle_of_secret n s = core_bundle n (secr_core s)"
  by (simp add: bundle_of_secret_def core_bundle_def secr_core_def Let_def)

lemma annotation_keys_distinct [simp]:
  "RepoUrlAnnotationKey \<noteq> RepoPathAnnotationKey" "RepoUrlAnnotationKey \<noteq> RepoRevisionAnnotationKey"
  "RepoUrlAnnotationKey \<noteq> SrcTypeAnnotationKey" "RepoPathAnnotationKey \<noteq> RepoRevisionAnnotationKey"
  "RepoPathAnnotationKey \<noteq> SrcTypeAnnotationKey" "RepoRevisionAnnotationKey \<noteq> SrcTypeAnnotationKey"
  by (simp_all add: RepoUrlAnnotationKey_def RepoPathAnnotationKey_def
      RepoRevisionAnnotationKey_def SrcTypeAnnotationKey_def)

lemmas annotation_keys_distinct' [simp] = annotation_keys_distinct [THEN not_sym]

lemmas new_secret_defs = new_bundle_secret_def with_label_def with_annotations_def with_data_def
  secr_core_def mlit_def named_meta_def

text \<open>The bundle the arguments of a creation describe, given what the file reads as.\<close>

definition described_bundle :: "(string \<Rightarrow> ('w, string) io) \<Rightarrow> string \<Rightarrow> string \<Rightarrow> string \<Rightarrow> string \<Rightarrow>
    string \<Rightarrow> string \<Rightarrow> config_bundle \<Rightarrow> bool" where
  "described_bundle read_file n file url pth rv st b \<longleftrightarrow>
     (if file = '''' then url \<noteq> '''' \<and> b = \<lparr>bd_Name = n, bd_Data = None, bd_RepoUrl = url,
         bd_RepoPath = pth, bd_RepoRevision = rv, bd_SrcType = st\<rparr>
      else url = '''' \<and> (\<exists>d w0 w1. read_file file w0 = (Inr d, w1) \<and>
         b = \<lparr>bd_Name = n, bd_Data = Some d, bd_RepoUrl = '''', bd_RepoPath = '''',
           bd_RepoRevision = '''', bd_SrcType = ''''\<rparr>))"

text \<open>The two secrets a creation may write are bundles of the two kinds, and read back as the
  arguments describe.\<close>

lemma static_secret_core:
  fixes n d tg :: string
  assumes "read_file file w0 = (Inr x, w1)" "file \<noteq> ''''" "url = ''''"
  defines "c \<equiv> secr_core (with_data ''data'' x (with_label ''static'' (new_bundle_secret n d tg)))"
  shows "is_bundle c \<and> static_or_dynamic c \<and> described_bundle read_file n file url pth rv st (core_bundle n c)"
  using assms(1-3) unfolding c_def
  by (auto simp: new_secret_defs is_bundle_def static_or_dynamic_def described_bundle_def
      core_bundle_def mget_def)

lemma dynamic_secret_core:
  fixes n d tg pth rv st :: string
  assumes "file = ''''" "url \<noteq> ''''"
  defines "c \<equiv> secr_core (with_annotations [(RepoUrlAnnotationKey, url), (RepoPathAnnotationKey, pth),
      (RepoRevisionAnnotationKey, rv), (SrcTypeAnnotationKey, st)]
      (with_label ''dynamic'' (new_bundle_secret n d tg)))"
  shows "is_bundle c \<and> static_or_dynamic c \<and> described_bundle read_file n file url pth rv st (core_bundle n c)"
  using assms(1,2) unfolding c_def
  by (simp add: new_secret_defs is_bundle_def static_or_dynamic_def described_bundle_def
      core_bundle_def mget_def)

lemma new_secret_name:
  "secr_name (with_data k x (with_label t (new_bundle_secret n d tg))) = n"
  "secr_name (with_annotations kvs (with_label t (new_bundle_secret n d tg))) = n"
  by (simp_all add: new_secret_defs)

text \<open>A write that reports an error and was carried out all the same (a lost answer): the arguments
  passed every check, the error is the one of the create call, and what is stored is the bundle the
  arguments describe.\<close>

definition lost_answer :: "('w \<Rightarrow> string \<Rightarrow> string \<Rightarrow> secret_core option) \<Rightarrow> (string \<Rightarrow> ('w, string) io) \<Rightarrow>
    ('w, secret) resource_api \<Rightarrow> string \<Rightarrow> string \<Rightarrow> string \<Rightarrow> string \<Rightarrow> string \<Rightarrow> string \<Rightarrow> string \<Rightarrow>
    'w \<Rightarrow> go_error \<Rightarrow> 'w \<Rightarrow> bool" where
  "lost_answer v read_file api ns n file url pth rv st w e w' \<longleftrightarrow>
     IsValidK8sName n \<and> v w ns n = None \<and> (\<exists>s e0 w1. api_create api ns s w1 = (Inl (Err e0), w')
       \<and> e = ErrorCtx ''failed to create secret: '' e0 \<and> v w' = stored (v w) ns n (Some (secr_core s))
       \<and> is_bundle (secr_core s) \<and> static_or_dynamic (secr_core s)
       \<and> described_bundle read_file n file url pth rv st (core_bundle n (secr_core s)))"

lemma wp_bundle_Create:
  fixes v :: "'w \<Rightarrow> string \<Rightarrow> string \<Rightarrow> secret_core option"
  assumes client: "secret_client v api" and files: "steady v (read_file file)"
    and no_panic: "\<And>w0 s w1. read_file file w0 \<noteq> (Inl (Panic s), w1)"
    and ok: "\<And>w' c. IsValidK8sName n \<Longrightarrow> v w ns n = None \<Longrightarrow> v w' = stored (v w) ns n (Some c)
      \<Longrightarrow> is_bundle c \<Longrightarrow> static_or_dynamic c
      \<Longrightarrow> described_bundle read_file n file url pth rv st (core_bundle n c) \<Longrightarrow> Q (Inr ()) w'"
    and err: "\<And>e w'. v w' = v w \<or> lost_answer v read_file api ns n file url pth rv st w e w'
      \<Longrightarrow> Q (Inl (Err e)) w'"
  shows "wp (bundle_Create read_file api ns n file url pth rv st d tg) Q w"
proof (cases "IsValidK8sName n")
  case False
  then show ?thesis by (simp add: bundle_Create_def wp_simps err)
next
  case True
  have laws: "lawful_get v secr_core api" "lawful_create v secr_core secr_name api"
    using client by (simp_all add: secret_client_def)
  let ?cx = "ErrorCtx ''failed to create secret: ''"
  have created: "wp (must (api_create api ns s) ?cx (\<lambda>_. ret ())) Q w1"
    if 1: "v w1 = v w" "v w ns n = None" "secr_name s = n" "is_bundle (secr_core s) \<and> static_or_dynamic (secr_core s)
      \<and> described_bundle read_file n file url pth rv st (core_bundle n (secr_core s))" for s w1
  proof (rule wp_mustI [where P = "\<lambda>r w2. api_create api ns s w1 = (r, w2)"], rule wpI, assumption, goal_cases)
    case (1 p w2)
    with laws(2) show ?case by (fastforce simp: lawful_create_def)
  next
    case (2 e w2)
    with laws(2) 1 have "v w2 = v w \<or> v w2 = stored (v w) ns n (Some (secr_core s))"
      by (fastforce simp: lawful_create_def)
    with 2 1 True show ?case by (intro err) (auto simp: lost_answer_def)
  next
    case (3 y w2)
    with laws(2) 1 have "v w2 = stored (v w) ns n (Some (secr_core s))"
      by (fastforce simp: lawful_create_def)
    with 1 True show ?case by (auto simp: wp_ret intro!: ok)
  qed
  have absent: "wp (if file \<noteq> '''' \<and> url \<noteq> '''' then fail e1
      else if file \<noteq> '''' then must (read_file file) cx1 (\<lambda>data.
        must (api_create api ns (with_data ''data'' data (with_label ''static'' (new_bundle_secret n d tg))))
          ?cx (\<lambda>_. ret ()))
      else if url \<noteq> '''' then
        must (api_create api ns (with_annotations [(RepoUrlAnnotationKey, url), (RepoPathAnnotationKey, pth),
            (RepoRevisionAnnotationKey, rv), (SrcTypeAnnotationKey, st)]
            (with_label ''dynamic'' (new_bundle_secret n d tg)))) ?cx (\<lambda>_. ret ())
      else fail e2) Q w1"
    if new: "v w1 = v w" "v w ns n = None" for e1 e2 cx1 w1
  proof -
    have static: "wp (must (read_file file) cx1 (\<lambda>data. must (api_create api ns
        (with_data ''data'' data (with_label ''static'' (new_bundle_secret n d tg)))) ?cx (\<lambda>_. ret ()))) Q w1"
      if "file \<noteq> ''''" "url = ''''"
    proof (rule wp_mustI [where P = "\<lambda>r w2. read_file file w1 = (r, w2) \<and> v w2 = v w"], goal_cases)
      case 1
      show ?case using files new(1) by (auto intro!: wpI dest: steadyD)
    next
      case (4 x w2)
      with that show ?case by (intro created new_secret_name static_secret_core new(2)) auto
    qed (use no_panic err in auto)
    have "wp (must (api_create api ns (with_annotations [(RepoUrlAnnotationKey, url),
        (RepoPathAnnotationKey, pth), (RepoRevisionAnnotationKey, rv), (SrcTypeAnnotationKey, st)]
        (with_label ''dynamic'' (new_bundle_secret n d tg)))) ?cx (\<lambda>_. ret ())) Q w1"
      if "file = ''''" "url \<noteq> ''''"
      by (intro created new_secret_name dynamic_secret_core new that)
    with static new(1) show ?thesis by (simp add: wp_fail err)
  qed
  show ?thesis
    unfolding bundle_Create_def Let_def if_not_P [OF iffD2 [OF not_not True]]
  proof (rule wp_attempt_get [OF laws(1)], goal_cases)
    case (1 x w1)
    then show ?case by (simp add: wp_fail err)
  next
    case (2 e w1)
    then show ?case by (cases "IsNotFound e") (simp_all only: if_True if_False not_True_eq_False
        not_False_eq_True absent wp_fail err simp_thms)
  qed
qed

text \<open>C17: Creating a bundle succeeds only under a valid name not in use and with exactly one of a
  file and a repository; then exactly one secret is added, labelled as a bundle, and reading the
  bundle back from it gives what the arguments describe: the content of the file for a static
  bundle, the git reference for a dynamic one. An error leaves the secrets as they were, with one
  exception: a create call that reports an error after the server carried it out. That error is then
  the one returned, the arguments had passed every check, and the secret stored is the one a
  success stores. The creation never panics.\<close>

theorem bundle_Create_correct:
  fixes v :: "'w \<Rightarrow> string \<Rightarrow> string \<Rightarrow> secret_core option"
  assumes "secret_client v api" "steady v (read_file file)"
    and "\<And>w0 s w1. read_file file w0 \<noteq> (Inl (Panic s), w1)"
    and run: "bundle_Create read_file api ns n file url pth rv st d tg w = (res, w')"
  shows "case res of
      Inr _ \<Rightarrow> IsValidK8sName n \<and> v w ns n = None \<and>
        (\<exists>c. v w' = stored (v w) ns n (Some c) \<and> is_bundle c \<and> static_or_dynamic c
           \<and> described_bundle read_file n file url pth rv st (core_bundle n c))
    | Inl (Err e) \<Rightarrow> v w' = v w \<or> lost_answer v read_file api ns n file url pth rv st w e w'
    | Inl (Panic _) \<Rightarrow> False"
    (is "?P res w'")
proof -
  have "wp (bundle_Create read_file api ns n file url pth rv st d tg) ?P w"
    by (rule wp_bundle_Create [where v = v]) (use assms(1-3) in auto)
  then show ?thesis using run by (rule wpD)
qed

definition mem_secrets :: "(secret store, secret) resource_api" where
  "mem_secrets = mem_api (\<lambda>s. s) (\<lambda>s _. s) secr_name (\<lambda>_ _. True)"

lemma mem_secret_client: "secret_client (store_view (\<lambda>s. s) secr_core) mem_secrets"
  by (simp add: secret_client_def mem_secrets_def mem_lawful_get mem_lawful_create
      mem_lawful_update mem_lawful_delete)

lemma valid_guestbook: "IsValidK8sName ''guestbook''"
  by (simp add: IsValidK8sName_spec newline_def dns_subdomain_def dns_label_def alnum_def)

theorem bundle_Create_correct_witness:
  "\<exists>w' c. bundle_Create (\<lambda>f. ret ''manifest'') mem_secrets ''arlon'' ''guestbook'' ''x.yaml'' '''' '''' ''''
      '''' '''' '''' [] = (Inr (), w')
    \<and> store_view (\<lambda>s. s) secr_core w' ''arlon'' ''guestbook'' = Some c
    \<and> bd_Data (core_bundle ''guestbook'' c) = Some ''manifest''"
proof -
  let ?rf = "\<lambda>f. ret ''manifest'' :: (secret store, string) io"
  obtain w' where run: "bundle_Create ?rf mem_secrets ''arlon'' ''guestbook'' ''x.yaml'' '''' '''' ''''
      '''' '''' '''' [] = (Inr (), w')"
    by (simp add: bundle_Create_def valid_guestbook io_defs mem_secrets_def mem_api_def not_found_def
        Let_def)
  have "steady (store_view (\<lambda>s. s) secr_core) (?rf ''x.yaml'')"
    by (simp add: steady_def ret_def)
  from bundle_Create_correct [OF mem_secret_client this _ run]
  obtain c where "store_view (\<lambda>s. s) secr_core w' =
        stored (store_view (\<lambda>s. s) secr_core []) ''arlon'' ''guestbook'' (Some c)"
      "described_bundle ?rf ''guestbook'' ''x.yaml'' '''' '''' '''' '''' (core_bundle ''guestbook'' c)"
    by (auto simp: ret_def)
  with run show ?thesis
    by (intro exI [of _ w'] exI [of _ c]) (auto simp: described_bundle_def ret_def)
qed

lemma wp_assign_if:
  assumes "I m" "\<And>f. I (Some f) \<Longrightarrow> I (Some (f(k \<mapsto> x)))"
    and "\<And>m' d. I m' \<Longrightarrow> wp (c m' d) Q w"
    and "Q (Inl (Panic ''assignment to entry in nil map'')) w"
  shows "wp (assign_if b m k x d c) Q w"
  using assms by (auto simp: assign_if_def wp_assigning split: option.splits)

lemma static_or_dynamic_upd:
  assumes "is_bundle (lab, ann, data) \<longrightarrow> static_or_dynamic (lab, ann, data)"
    and "k \<noteq> ''data'' \<or> mget lab ''bundle-type'' = ''static''" "data = Some f"
  shows "is_bundle (lab, ann, Some (f(k \<mapsto> x))) \<longrightarrow> static_or_dynamic (lab, ann, Some (f(k \<mapsto> x)))"
  using assms by (auto simp: is_bundle_def static_or_dynamic_def)

lemma wp_assigning_if:
  assumes "I m" "\<And>f. I (Some f) \<Longrightarrow> I (Some (f(k \<mapsto> x)))" "\<And>m'. I m' \<Longrightarrow> wp (c m') Q w"
    and "Q (Inl (Panic ''assignment to entry in nil map'')) w"
  shows "wp (assigning m k x c) Q w"
  using assms by (auto simp: wp_assigning split: option.splits)

text \<open>What the map of the secret must stay: that of a bundle of the kind its label gives.\<close>

definition data_wf :: "secret \<Rightarrow> gomap \<Rightarrow> bool" where
  "data_wf s data \<longleftrightarrow> (is_bundle (om_labels (secr_meta s), om_annotations (secr_meta s), data)
     \<longrightarrow> static_or_dynamic (om_labels (secr_meta s), om_annotations (secr_meta s), data))"

lemma data_wf_upd:
  assumes "data_wf s (Some f)" "k \<noteq> ''data'' \<or> mget (om_labels (secr_meta s)) ''bundle-type'' = ''static''"
  shows "data_wf s (Some (f(k \<mapsto> x)))"
  using assms static_or_dynamic_upd unfolding data_wf_def by blast

lemma data_wf_core: "data_wf s data \<longleftrightarrow>
    (is_bundle (secr_core (s\<lparr>secr_data := data\<rparr>)) \<longrightarrow> static_or_dynamic (secr_core (s\<lparr>secr_data := data\<rparr>)))"
  by (simp add: data_wf_def secr_core_def)

lemma update_keeps_wf:
  assumes "lawful_update v secr_core secr_name api" "data_wf s data" "wf_bundles (v w)"
  shows "wp (must (api_update api ns (s\<lparr>secr_data := data\<rparr>)) cx (\<lambda>_. ret ())) (\<lambda>_ w'. wf_bundles (v w')) w"
  using assms(2,3) by (intro wp_must_update [OF assms(1)]) (auto simp: data_wf_core wp_ret)

lemma new_content_keeps_wf:
  assumes upd: "lawful_update v secr_core secr_name api" and files: "steady v rd"
    and wf: "data_wf s data" "wf_bundles (v w)"
    and st: "mget (om_labels (secr_meta s)) ''bundle-type'' = ''static''"
  shows "wp (must rd cx1 (\<lambda>content. assigning data ''data'' content (\<lambda>data.
      must (api_update api ns (s\<lparr>secr_data := data\<rparr>)) cx2 (\<lambda>_. ret ())))) (\<lambda>_ w'. wf_bundles (v w')) w"
proof (rule wp_mustI [where P = "\<lambda>_ w'. wf_bundles (v w')"], goal_cases)
  case 1
  show ?case using wf(2) by (intro wp_steady [OF files]) simp
next
  case (4 x w')
  then show ?case
    by (intro wp_assigning_if [where I = "data_wf s"] wf(1) data_wf_upd update_keeps_wf [OF upd])
      (simp_all add: st)
qed simp_all

lemma bundle_Update_keeps_wf:
  assumes client: "secret_client v api" and files: "\<And>f. steady v (read_file f)"
  shows "keeps (\<lambda>w. wf_bundles (v w)) (bundle_Update read_file api ns n file url pth d tg)"
  unfolding keeps_iff_wp
proof (intro allI impI)
  fix w
  assume wf: "wf_bundles (v w)"
  have laws: "lawful_get v secr_core api" "lawful_update v secr_core secr_name api"
    using client by (simp_all add: secret_client_def)
  show "wp (bundle_Update read_file api ns n file url pth d tg) (\<lambda>_ w'. wf_bundles (v w')) w"
  proof (cases "IsValidK8sName n")
    case False
    with wf show ?thesis by (simp add: bundle_Update_def wp_simps)
  next
    case True
    show ?thesis
      unfolding bundle_Update_def Let_def if_not_P [OF iffD2 [OF not_not True]]
    proof (rule wp_must_get [OF laws(1)], goal_cases)
      case (1 secr w1)
      have wf1: "wf_bundles (v w1)" using wf 1 by simp
      have wf0: "data_wf secr (secr_data secr)"
        using wf 1(2) by (auto simp: data_wf_def secr_core_def dest: wf_bundlesD)
      note parts = update_keeps_wf [OF laws(2) _ wf1] new_content_keeps_wf [where v = v and w = w1, OF laws(2) files [of "file"] _ wf1]
      show ?case
        by (rule wp_assign_if [where I = "data_wf secr"], rule wf0, erule data_wf_upd, simp,
            rule wp_assign_if [where I = "data_wf secr"], assumption, erule data_wf_upd, simp)
          (simp_all add: parts wf1 wp_ret wp_fail)
    qed (use wf in simp)
  qed
qed

lemma keeps_lawful_delete:
  "lawful_delete v api \<Longrightarrow> (\<And>w. I (v w) \<Longrightarrow> I (stored (v w) ns n None)) \<Longrightarrow>
   keeps (\<lambda>w. I (v w)) (api_delete api ns n)"
  unfolding keeps_iff_wp by (intro allI impI, rule wp_api_delete) auto

text \<open>C18: Every stored bundle is either static, with content and no repository, or dynamic, with a
  repository and no content: creating, updating and deleting bundles keep this, whatever their
  arguments and whichever of their calls fail.\<close>

theorem bundle_operations_keep_wf:
  assumes "secret_client v api" "\<And>f. steady v (read_file f)"
    and "\<And>f w0 s w1. read_file f w0 \<noteq> (Inl (Panic s), w1)"
  shows "keeps (\<lambda>w. wf_bundles (v w)) (bundle_Create read_file api ns n file url pth rv st d tg)
    \<and> keeps (\<lambda>w. wf_bundles (v w)) (bundle_Update read_file api ns n file url pth d tg)
    \<and> keeps (\<lambda>w. wf_bundles (v w)) (bundle_Delete api ns n)"
proof (intro conjI)
  show "keeps (\<lambda>w. wf_bundles (v w)) (bundle_Create read_file api ns n file url pth rv st d tg)"
    unfolding keeps_iff_wp
    by (intro allI impI, rule wp_bundle_Create [OF assms(1,2,3)]) (auto simp: lost_answer_def)
  show "keeps (\<lambda>w. wf_bundles (v w)) (bundle_Update read_file api ns n file url pth d tg)"
    by (rule bundle_Update_keeps_wf [OF assms(1,2)])
  show "keeps (\<lambda>w. wf_bundles (v w)) (bundle_Delete api ns n)"
    using assms(1) unfolding bundle_Delete_def secret_client_def
    by (intro keeps_must keeps_ret keeps_lawful_delete wf_bundles_stored(2)) blast+
qed

theorem bundle_operations_keep_wf_witness:
  "wf_bundles (store_view (\<lambda>s. s) secr_core (snd (bundle_Create (\<lambda>f. ret ''manifest'') mem_secrets
     ''arlon'' ''guestbook'' ''x.yaml'' '''' '''' '''' '''' '''' '''' [])))"
proof -
  have "keeps (\<lambda>w. wf_bundles (store_view (\<lambda>s. s) secr_core w))
      (bundle_Create (\<lambda>f. ret ''manifest'') mem_secrets ''arlon'' ''guestbook'' ''x.yaml'' '''' ''''
        '''' '''' '''' '''')"
    using bundle_operations_keep_wf [OF mem_secret_client, of "\<lambda>f. ret ''manifest''"]
    by (simp add: steady_def ret_def)
  then have "wf_bundles (store_view (\<lambda>s. s) secr_core []) \<longrightarrow> ?thesis"
    unfolding keeps_def by blast
  then show ?thesis by (simp add: wf_bundles_def store_view_def)
qed

end
