(* ===== verification/Gitutils.thy ===== *)
theory Gitutils
  imports Argocd Bundle
begin

text \<open>
  Writing into a git working tree (\<open>pkg/gitutils\<close>): embedded manifests, the kustomization of an
  override, the ArgoCD applications of a profile's bundles rendered from their template, and the
  commit of what changed.
\<close>

section \<open>Committing\<close>

definition arlon_author :: commit_options where
  "arlon_author = \<lparr>co_Author_Name = ''arlon automation'', co_Author_Email = ''arlon@arlon.io''\<rparr>"

definition commit_if_changed :: "'w worktree \<Rightarrow> string \<Rightarrow> bool \<Rightarrow> ('w, bool) io" where
  "commit_if_changed wt commitMsg changed =
     (if \<not> changed then ret False
      else must (wt_Commit wt commitMsg arlon_author) (ErrorCtx ''failed to commit change: '')
        (\<lambda>_. ret changed))"

text \<open>The body of the loop over the status: a file deleted in the index and a broken symbolic link
  are skipped, every other file is added.\<close>

definition stage_change ::
  "'w git_env \<Rightarrow> string \<Rightarrow> 'w worktree \<Rightarrow> string \<times> staging_status \<Rightarrow> bool \<Rightarrow> ('w, bool) io" where
  "stage_change env tmpDir wt = (\<lambda>(file, sts) changed.
     if sts = StagedDeleted then ret changed
     else
       let abspath = path_Join [tmpDir, file];
           add = ignoring (wt_Add wt file) (ret True)
       in must (os_Lstat env abspath)
            (\<lambda>err. ErrorWrap (''failed to check if '' @ file @ '' is a symlink: '') err '''')
            (\<lambda>symlink.
              if symlink then
                attempt (os_Stat env abspath)
                  (\<lambda>err. if os_IsNotExist env err then ret changed else add) (\<lambda>_. add)
              else add))"

definition CommitChanges ::
  "'w git_env \<Rightarrow> string \<Rightarrow> 'w worktree \<Rightarrow> string \<Rightarrow> ('w, bool) io" where
  "CommitChanges env tmpDir wt commitMsg =
     must (wt_Status wt) (ErrorCtx ''failed to get worktree status: '') (\<lambda>status.
     andThen (forM (stage_change env tmpDir wt) status False)
       (commit_if_changed wt commitMsg))"

definition CommitDeleteChanges :: "'w worktree \<Rightarrow> string \<Rightarrow> ('w, bool) io" where
  "CommitDeleteChanges wt commitMsg =
     must (wt_Status wt) (ErrorCtx ''failed to get worktree status: '') (\<lambda>status.
     andThen (forM (\<lambda>(file, sts) changed. ignoring (wt_Add wt file) (ret True)) status False)
       (commit_if_changed wt commitMsg))"

section \<open>Embedded manifests\<close>

text \<open>A tree embedded into the program with \<open>go:embed\<close>; reading it cannot fail.\<close>

datatype embed_node = EmbedFile string | EmbedDir "(string \<times> embed_node) list"

definition manifest_destination :: "string \<Rightarrow> string \<Rightarrow> string" where
  "manifest_destination mgmtPath filePath =
     path_Join [mgmtPath, path_Join (tl (split_on slash filePath))]"

fun CopyManifests ::
  "'w worktree \<Rightarrow> (string \<times> embed_node) list \<Rightarrow> string \<Rightarrow> string \<Rightarrow> ('w, unit) io" where
  "CopyManifests wt [] root mgmtPath = ret ()"
| "CopyManifests wt ((name, EmbedDir items') # items) root mgmtPath =
     andThen (CopyManifests wt items' (path_Join [root, name]) mgmtPath)
       (\<lambda>_. CopyManifests wt items root mgmtPath)"
| "CopyManifests wt ((name, EmbedFile content) # items) root mgmtPath =
     (let dstPath = manifest_destination mgmtPath (path_Join [root, name]) in
      must (wt_Create wt dstPath)
        (ErrorCtx (''failed to create destination file '' @ dstPath @ '': '')) (\<lambda>_.
      attempt (wt_Write wt dstPath content)
        (\<lambda>err. ignoring (wt_Close wt dstPath) (fail (ErrorCtx ''failed to copy embedded file: '' err)))
        (\<lambda>_. ignoring (wt_Close wt dstPath) (CopyManifests wt items root mgmtPath))))"

section \<open>The kustomization of an override\<close>

record kustomizeyaml =
  ku_APIVersion :: string
  ku_Kind :: string
  ku_Resources :: "string list"
  ku_Configurations :: "string list"
  ku_Patches :: "string list"

text \<open>\<open>yaml_Marshal\<close> is the YAML library; \<open>parse_template\<close> stands for parsing a text as a template
  and rendering it, either of which may fail.\<close>

record template_env =
  yaml_Marshal :: "kustomizeyaml \<Rightarrow> go_error + string"
  parse_template :: "string \<Rightarrow> go_error + (go_error + string)"

definition patch_kustomization :: "string \<Rightarrow> string \<Rightarrow> string \<Rightarrow> kustomizeyaml" where
  "patch_kustomization baseRepoUrl baseRepoPath baseRepoRevision =
     \<lparr>ku_APIVersion = ''kustomize.config.k8s.io/v1beta1'',
      ku_Kind = ''Kustomization'',
      ku_Resources = [''git::'' @ baseRepoUrl @ ''//'' @ baseRepoPath @ ''?ref='' @ baseRepoRevision],
      ku_Configurations = [''configurations.yaml''],
      ku_Patches = [''patches.yaml'']\<rparr>"

definition CopyPatchManifests ::
  "template_env \<Rightarrow> 'w worktree \<Rightarrow> string \<Rightarrow> string \<Rightarrow> string \<Rightarrow> string \<Rightarrow> string \<Rightarrow> ('w, unit) io" where
  "CopyPatchManifests tenv wt patchContent clusterPath baseRepoUrl baseRepoPath baseRepoRevision =
     must (lift (yaml_Marshal tenv (patch_kustomization baseRepoUrl baseRepoPath baseRepoRevision)))
       (ErrorCtx ''Failed to marshal the kustomization file: '') (\<lambda>yamlData.
     must (lift (parse_template tenv yamlData))
       (ErrorCtx ''failed to create kustomization template: '') (\<lambda>tmpl.
     let kustPath = path_Join [clusterPath, ''kustomization.yaml''];
         dstPath = path_Join [clusterPath, ''patches.yaml''] in
     must (wt_Create wt kustPath) (ErrorCtx ''failed to create kustomization.yaml: '') (\<lambda>_.
     deferring (wt_Close wt kustPath) (
     must (andThen (lift tmpl) (wt_Write wt kustPath))
       (\<lambda>_. ErrorText ''failed to execute kustomization.yaml manifest'') (\<lambda>_.
     must (wt_Create wt dstPath)
       (ErrorCtx (''failed to create destination file '' @ dstPath @ '': '')) (\<lambda>_.
     deferring (wt_Close wt dstPath) (
     must (wt_Write wt dstPath patchContent) (ErrorCtx ''failed to copy embedded file: '')
       (\<lambda>_. ret ()))))))))"

section \<open>The applications of a profile's bundles\<close>

record app_settings =
  aset_AppName :: string
  aset_ClusterName :: string
  aset_RepoUrl :: string
  aset_RepoPath :: string
  aset_RepoRevision :: string
  aset_SrcType :: string
  aset_AppNamespace :: string
  aset_DestinationNamespace :: string
  aset_Overrides :: "kv_pair list"

text \<open>What \<open>appTmpl\<close> renders: its lines, with the trimming of the actions carried out.\<close>

definition appTmpl_source_type :: "app_settings \<Rightarrow> string list" where
  "appTmpl_source_type a =
     (if aset_SrcType a = ''helm'' then
        [''    helm:'',
         ''      parameters:'',
         ''      # Pass cluster name to the bundle in case it needs it and is a Helm chart.'',
         ''      # Example: this is required by the CAPI cluster autoscaler.'',
         ''      # Use arlon prefix to avoid any conflicts with the bundle'' @ [CHR 0x27] @ ''s own values.'',
         ''      - name: arlon.clusterName'',
         ''        value: '' @ aset_ClusterName a]
        @ concat (map (\<lambda>kv. [''      - name: '' @ kv_Key kv, ''        value: '' @ kv_Value kv])
            (aset_Overrides a))
      else if aset_SrcType a = ''kustomize'' then [''    kustomize: {}'']
      else if aset_SrcType a = ''ksonnet'' then [''    ksonnet: {}'']
      else if aset_SrcType a = ''directory'' then [''    directory: {}'']
      else [])"

definition appTmpl :: "app_settings \<Rightarrow> string" where
  "appTmpl a = join_with [newline]
     (['''',
       ''apiVersion: argoproj.io/v1alpha1'',
       ''kind: Application'',
       ''metadata:'',
       ''  name: '' @ aset_AppName a,
       ''  namespace: '' @ aset_AppNamespace a,
       ''  finalizers:'',
       ''  # This solves issue #17'',
       ''  - resources-finalizer.argocd.argoproj.io/foreground'',
       ''spec:'',
       ''  syncPolicy:'',
       ''    automated:'',
       ''      prune: true'',
       ''  destination:'',
       ''    name: '' @ aset_ClusterName a,
       ''    namespace: '' @ aset_DestinationNamespace a,
       ''  project: default'',
       ''  source:'',
       ''    repoURL: '' @ aset_RepoUrl a,
       ''    path: '' @ aset_RepoPath a,
       ''    targetRevision: '' @ aset_RepoRevision a]
      @ appTmpl_source_type a @ [''''])"

text \<open>The settings every bundle starts from.\<close>

definition bundle_app_settings :: "string \<Rightarrow> config_bundle \<Rightarrow> app_settings" where
  "bundle_app_settings clusterName b =
     \<lparr>aset_AppName = clusterName @ ''-'' @ bd_Name b, aset_ClusterName = clusterName,
      aset_RepoUrl = '''', aset_RepoPath = '''',
      aset_RepoRevision = (if bd_RepoRevision b = '''' then ''HEAD'' else bd_RepoRevision b),
      aset_SrcType = '''', aset_AppNamespace = ''argocd'', aset_DestinationNamespace = ''default'',
      aset_Overrides = []\<rparr>"

definition write_bundle_app ::
  "'w worktree \<Rightarrow> string \<Rightarrow> config_bundle \<Rightarrow> app_settings \<Rightarrow> ('w, unit) io" where
  "write_bundle_app wt mgmtPath b app =
     (let appPath = path_Join [mgmtPath, ''templates'', bd_Name b @ ''.yaml''] in
      must (wt_Create wt appPath)
        (ErrorCtx (''failed to create application file '' @ appPath @ '': '')) (\<lambda>_.
      attempt (wt_Write wt appPath (appTmpl app))
        (\<lambda>err. ignoring (wt_Close wt appPath)
           (fail (ErrorCtx (''failed to render application template '' @ appPath @ '': '') err)))
        (\<lambda>_. ignoring (wt_Close wt appPath) (ret ()))))"

definition process_bundle ::
  "'w worktree \<Rightarrow> string \<Rightarrow> string \<Rightarrow> string \<Rightarrow> string \<Rightarrow> kv_pair_map \<Rightarrow> config_bundle \<Rightarrow> unit
   \<Rightarrow> ('w, unit) io" where
  "process_bundle wt clusterName repoUrl mgmtPath workloadPath overrides b u =
     (let app = bundle_app_settings clusterName b in
      case bd_Data b of
        None \<Rightarrow>
          if bd_RepoUrl b = '''' then
            fail (ErrorText (''b '' @ bd_Name b @ '' is neither static nor dynamic type''))
          else write_bundle_app wt mgmtPath b
            (app\<lparr>aset_RepoUrl := bd_RepoUrl b, aset_RepoPath := bd_RepoPath b,
              aset_SrcType := bd_SrcType b, aset_Overrides := kvs_at overrides (bd_Name b)\<rparr>)
      | Some data \<Rightarrow>
          if bd_RepoUrl b \<noteq> '''' then
            fail (ErrorText (''b '' @ bd_Name b @ '' has both data and repoUrl set''))
          else
            let dirPath = path_Join [workloadPath, bd_Name b];
                bundlePath = path_Join [dirPath, bd_Name b @ ''.yaml''] in
            must (wt_MkdirAll wt dirPath)
              (ErrorCtx ''failed to create directory in working tree: '') (\<lambda>_.
            must (wt_Create wt bundlePath)
              (ErrorCtx ''failed to create file in working tree: '') (\<lambda>_.
            attempt (wt_Write wt bundlePath data)
              (\<lambda>err. ignoring (wt_Close wt bundlePath)
                 (fail (ErrorCtx (''failed to copy static b '' @ bd_Name b @ '': '') err)))
              (\<lambda>_. ignoring (wt_Close wt bundlePath)
                (write_bundle_app wt mgmtPath b
                  (app\<lparr>aset_RepoUrl := repoUrl, aset_RepoPath := dirPath\<rparr>))))))"

definition ProcessBundles ::
  "'w worktree \<Rightarrow> string \<Rightarrow> string \<Rightarrow> string \<Rightarrow> string \<Rightarrow> config_bundle list \<Rightarrow> kv_pair_map
   \<Rightarrow> ('w, unit) io" where
  "ProcessBundles wt clusterName repoUrl mgmtPath workloadPath bundles overrides =
     (if length bundles = 0 then ret ()
      else forM (process_bundle wt clusterName repoUrl mgmtPath workloadPath overrides) bundles ())"

section \<open>Writing files into a working tree\<close>

text \<open>
  \<open>fv\<close> reads the files of the working tree: the content under a path. Creating a file empties it,
  writing appends to it; a failed call may have been carried out, a failed write in part.
\<close>

definition lawful_worktree :: "('w \<Rightarrow> string \<rightharpoonup> string) \<Rightarrow> 'w worktree \<Rightarrow> bool" where
  "lawful_worktree fv wt \<longleftrightarrow>
     (\<forall>p w r w'. wt_Create wt p w = (r, w') \<longrightarrow>
        (case r of Inr _ \<Rightarrow> fv w' = (fv w)(p \<mapsto> '''')
         | Inl (Err _) \<Rightarrow> \<forall>q. q \<noteq> p \<longrightarrow> fv w' q = fv w q
         | Inl (Panic _) \<Rightarrow> False)) \<and>
     (\<forall>p c w r w'. wt_Write wt p c w = (r, w') \<longrightarrow>
        (case r of Inr _ \<Rightarrow> fv w' = (fv w)(p \<mapsto> (case fv w p of None \<Rightarrow> '''' | Some d \<Rightarrow> d) @ c)
         | Inl (Err _) \<Rightarrow> \<forall>q. q \<noteq> p \<longrightarrow> fv w' q = fv w q
         | Inl (Panic _) \<Rightarrow> False)) \<and>
     (\<forall>p w r w'. wt_Close wt p w = (r, w') \<longrightarrow> fv w' = fv w \<and> (\<forall>s. r \<noteq> Inl (Panic s))) \<and>
     (\<forall>p w r w'. wt_MkdirAll wt p w = (r, w') \<longrightarrow> fv w' = fv w \<and> (\<forall>s. r \<noteq> Inl (Panic s)))"

text \<open>
  A routine that writes the files of \<open>plan\<close> and nothing else; when two entries of the plan have the
  same path the later one wins. After an error only files of the plan may have changed.
\<close>

definition writes_files ::
  "('w \<Rightarrow> string \<rightharpoonup> string) \<Rightarrow> ('w, unit) io \<Rightarrow> (string \<times> string) list \<Rightarrow> bool" where
  "writes_files fv m plan \<longleftrightarrow> (\<forall>w. wp m (\<lambda>r w'. case r of
       Inr _ \<Rightarrow> fv w' = fv w ++ map_of (rev plan)
     | Inl (Err _) \<Rightarrow> \<forall>p. p \<notin> fst ` set plan \<longrightarrow> fv w' p = fv w p
     | Inl (Panic _) \<Rightarrow> False) w)"

lemma map_add_map_of_other: "p \<notin> fst ` set plan \<Longrightarrow> (m ++ map_of (rev plan)) p = m p"
  using map_of_eq_None_iff [of "rev plan" p] by (simp add: map_add_def)

lemma writes_ret: "writes_files fv (ret ()) []"
  by (simp add: writes_files_def wp_ret)

lemma writes_andThen:
  assumes "writes_files fv m plan1" "writes_files fv k plan2"
  shows "writes_files fv (andThen m (\<lambda>_. k)) (plan1 @ plan2)"
  unfolding writes_files_def wp_andThen
proof (intro allI, rule wp_mono, rule assms(1) [unfolded writes_files_def, rule_format])
  fix w r w'
  assume r: "case r of Inl (Panic _) \<Rightarrow> False
    | Inl (Err _) \<Rightarrow> \<forall>p. p \<notin> fst ` set plan1 \<longrightarrow> fv w' p = fv w p
    | Inr _ \<Rightarrow> fv w' = fv w ++ map_of (rev plan1)"
  show "case r of
      Inl f \<Rightarrow> (case Inl f of Inl (Panic _) \<Rightarrow> False
        | Inl (Err _) \<Rightarrow> \<forall>p. p \<notin> fst ` set (plan1 @ plan2) \<longrightarrow> fv w' p = fv w p
        | Inr _ \<Rightarrow> fv w' = fv w ++ map_of (rev (plan1 @ plan2)))
    | Inr _ \<Rightarrow> wp k (\<lambda>r w''. case r of Inl (Panic _) \<Rightarrow> False
        | Inl (Err _) \<Rightarrow> \<forall>p. p \<notin> fst ` set (plan1 @ plan2) \<longrightarrow> fv w'' p = fv w p
        | Inr _ \<Rightarrow> fv w'' = fv w ++ map_of (rev (plan1 @ plan2))) w'"
  proof (cases r)
    case (Inl f)
    with r show ?thesis by (cases f) auto
  next
    case (Inr u)
    with r have w': "fv w' = fv w ++ map_of (rev plan1)" by simp
    have "wp k (\<lambda>r w''. case r of Inl (Panic _) \<Rightarrow> False
        | Inl (Err _) \<Rightarrow> \<forall>p. p \<notin> fst ` set (plan1 @ plan2) \<longrightarrow> fv w'' p = fv w p
        | Inr _ \<Rightarrow> fv w'' = fv w ++ map_of (rev (plan1 @ plan2))) w'"
      by (rule wp_mono, rule assms(2) [unfolded writes_files_def, rule_format])
        (auto simp: w' map_add_map_of_other image_Un split: sum.splits fault.splits)
    with Inr show ?thesis by simp
  qed
qed

lemma writes_forM:
  "(\<And>x. x \<in> set xs \<Longrightarrow> writes_files fv (f x ()) (plan x)) \<Longrightarrow>
   writes_files fv (forM f xs ()) (concat (map plan xs))"
proof (induction xs)
  case (Cons x xs)
  then have "writes_files fv (andThen (f x ()) (\<lambda>_. forM f xs ())) (plan x @ concat (map plan xs))"
    by (intro writes_andThen) auto
  then show ?case by simp
qed (simp add: writes_ret)

text \<open>Creating a file, writing its content, closing it, and going on.\<close>

lemma wp_wt_Create:
  assumes "lawful_worktree fv wt" "\<And>w'. fv w' = (fv w)(p \<mapsto> '''') \<Longrightarrow> Q (Inr ()) w'"
    and "\<And>e w'. \<forall>q. q \<noteq> p \<longrightarrow> fv w' q = fv w q \<Longrightarrow> Q (Inl (Err e)) w'"
  shows "wp (wt_Create wt p) Q w"
proof (rule wpI)
  fix r w'
  assume "wt_Create wt p w = (r, w')"
  with assms(1) have "case r of Inl (Panic _) \<Rightarrow> False
      | Inl (Err _) \<Rightarrow> \<forall>q. q \<noteq> p \<longrightarrow> fv w' q = fv w q | Inr _ \<Rightarrow> fv w' = (fv w)(p \<mapsto> '''')"
    unfolding lawful_worktree_def by blast
  with assms(2,3) show "Q r w'" by (auto split: sum.splits fault.splits)
qed

lemma wp_wt_Write:
  assumes "lawful_worktree fv wt"
    and "\<And>w'. fv w' = (fv w)(p \<mapsto> (case fv w p of None \<Rightarrow> '''' | Some d \<Rightarrow> d) @ x) \<Longrightarrow> Q (Inr ()) w'"
    and "\<And>e w'. \<forall>q. q \<noteq> p \<longrightarrow> fv w' q = fv w q \<Longrightarrow> Q (Inl (Err e)) w'"
  shows "wp (wt_Write wt p x) Q w"
proof (rule wpI)
  fix r w'
  assume "wt_Write wt p x w = (r, w')"
  with assms(1) have "case r of Inl (Panic _) \<Rightarrow> False
      | Inl (Err _) \<Rightarrow> \<forall>q. q \<noteq> p \<longrightarrow> fv w' q = fv w q
      | Inr _ \<Rightarrow> fv w' = (fv w)(p \<mapsto> (case fv w p of None \<Rightarrow> '''' | Some d \<Rightarrow> d) @ x)"
    unfolding lawful_worktree_def by blast
  with assms(2,3) show "Q r w'" by (auto split: sum.splits fault.splits)
qed

lemma wp_wt_Close:
  assumes "lawful_worktree fv wt" "\<And>w'. fv w' = fv w \<Longrightarrow> wp m Q w'"
  shows "wp (ignoring (wt_Close wt p) m) Q w"
proof -
  have "wp (wt_Close wt p) (\<lambda>r w'. fv w' = fv w \<and> (\<forall>s. r \<noteq> Inl (Panic s))) w"
    using assms(1) unfolding lawful_worktree_def by (intro wpI) blast
  then show ?thesis
    unfolding wp_ignoring by (rule wp_mono) (use assms(2) in \<open>auto split: sum.split fault.split\<close>)
qed

lemma writes_create_write:
  assumes wt: "lawful_worktree fv wt" and k: "writes_files fv k plan"
  shows "writes_files fv (must (wt_Create wt p) c1 (\<lambda>_. attempt (wt_Write wt p x)
      (\<lambda>e. ignoring (wt_Close wt p) (fail (c2 e))) (\<lambda>_. ignoring (wt_Close wt p) k))) ((p, x) # plan)"
  unfolding writes_files_def wp_must wp_attempt
proof (intro allI wp_wt_Create [OF wt], goal_cases)
  case (1 w w1)
  show ?case
    unfolding sum.case
  proof (rule wp_wt_Write [OF wt], goal_cases)
    case (1 w2)
    with \<open>fv w1 = _\<close> have w2: "fv w2 = (fv w)(p \<mapsto> x)" by simp
    show ?case
      unfolding sum.case
    proof (rule wp_wt_Close [OF wt])
      fix w3
      assume "fv w3 = fv w2"
      with w2 k [unfolded writes_files_def, rule_format, of w3]
      show "wp k (\<lambda>r w'. case r of Inl (Panic _) \<Rightarrow> False
          | Inl (Err _) \<Rightarrow> \<forall>q. q \<notin> fst ` set ((p, x) # plan) \<longrightarrow> fv w' q = fv w q
          | Inr _ \<Rightarrow> fv w' = fv w ++ map_of (rev ((p, x) # plan))) w3"
        by (elim wp_mono) (auto simp: map_add_upd split: sum.splits fault.splits)
    qed
  next
    case (2 e w2)
    with \<open>fv w1 = _\<close> show ?case by (auto intro!: wp_wt_Close [OF wt] simp: wp_fail)
  qed
next
  case (2 w e w1)
  then show ?case by auto
qed

section \<open>What the routines write\<close>

fun manifest_plan :: "(string \<times> embed_node) list \<Rightarrow> string \<Rightarrow> string \<Rightarrow> (string \<times> string) list" where
  "manifest_plan [] root mgmtPath = []"
| "manifest_plan ((name, EmbedDir items') # items) root mgmtPath =
     manifest_plan items' (path_Join [root, name]) mgmtPath @ manifest_plan items root mgmtPath"
| "manifest_plan ((name, EmbedFile content) # items) root mgmtPath =
     (manifest_destination mgmtPath (path_Join [root, name]), content) # manifest_plan items root mgmtPath"

lemma CopyManifests_writes:
  assumes "lawful_worktree fv wt"
  shows "writes_files fv (CopyManifests wt items root mgmtPath) (manifest_plan items root mgmtPath)"
  using assms
proof (induction wt items root mgmtPath rule: CopyManifests.induct)
  case (1 wt root mgmtPath)
  then show ?case by (simp add: writes_ret)
next
  case (2 wt name items' items root mgmtPath)
  then show ?case by (simp add: writes_andThen)
next
  case (3 wt name content items root mgmtPath)
  show ?case
    unfolding CopyManifests.simps manifest_plan.simps Let_def
    by (rule writes_create_write) (use 3 in auto)
qed

definition app_path :: "string \<Rightarrow> config_bundle \<Rightarrow> string" where
  "app_path mgmtPath b = path_Join [mgmtPath, ''templates'', bd_Name b @ ''.yaml'']"

text \<open>The files of a bundle: for a dynamic one its application, which refers to the bundle's own
  repository; for a static one its content and an application which refers to that.\<close>

definition bundle_plan ::
  "string \<Rightarrow> string \<Rightarrow> string \<Rightarrow> string \<Rightarrow> kv_pair_map \<Rightarrow> config_bundle \<Rightarrow> (string \<times> string) list" where
  "bundle_plan clusterName repoUrl mgmtPath workloadPath overrides b =
     (let app = bundle_app_settings clusterName b;
          dirPath = path_Join [workloadPath, bd_Name b] in
      case bd_Data b of
        None \<Rightarrow> [(app_path mgmtPath b, appTmpl (app\<lparr>aset_RepoUrl := bd_RepoUrl b,
          aset_RepoPath := bd_RepoPath b, aset_SrcType := bd_SrcType b,
          aset_Overrides := kvs_at overrides (bd_Name b)\<rparr>))]
      | Some data \<Rightarrow> [(path_Join [dirPath, bd_Name b @ ''.yaml''], data),
          (app_path mgmtPath b, appTmpl (app\<lparr>aset_RepoUrl := repoUrl, aset_RepoPath := dirPath\<rparr>))])"

definition proper_bundle :: "config_bundle \<Rightarrow> bool" where
  "proper_bundle b \<longleftrightarrow> (bd_Data b = None) \<noteq> (bd_RepoUrl b = '''')"

lemma writes_write_bundle_app:
  "lawful_worktree fv wt \<Longrightarrow>
   writes_files fv (write_bundle_app wt mgmtPath b app) [(app_path mgmtPath b, appTmpl app)]"
  unfolding write_bundle_app_def Let_def app_path_def
  by (rule writes_create_write) (simp_all add: writes_ret)

lemma writes_MkdirAll:
  assumes "lawful_worktree fv wt" "writes_files fv k plan"
  shows "writes_files fv (must (wt_MkdirAll wt p) c (\<lambda>_. k)) plan"
proof -
  have mkdir: "wp (wt_MkdirAll wt p) (\<lambda>r w'. fv w' = fv w \<and> (\<forall>s. r \<noteq> Inl (Panic s))) w" for w
    using assms(1) unfolding lawful_worktree_def by (intro wpI) blast
  show ?thesis
    unfolding writes_files_def wp_must
  proof (intro allI, rule wp_mono [OF mkdir], goal_cases)
    case (1 w r w1)
    show ?case
    proof (cases r)
      case (Inl f)
      with 1 show ?thesis by (cases f) auto
    next
      case (Inr u)
      with 1 have "fv w1 = fv w" by simp
      with assms(2) [unfolded writes_files_def, rule_format, of w1] show ?thesis
        unfolding Inr sum.case by (simp only:)
    qed
  qed
qed

lemma process_bundle_writes:
  assumes "lawful_worktree fv wt" "proper_bundle b"
  shows "writes_files fv (process_bundle wt cn url mgmt workload ov b ()) (bundle_plan cn url mgmt workload ov b)"
proof (cases "bd_Data b")
  case None
  with assms show ?thesis
    by (simp add: process_bundle_def bundle_plan_def Let_def proper_bundle_def writes_write_bundle_app)
next
  case (Some d)
  with assms have "bd_RepoUrl b = ''''" by (simp add: proper_bundle_def)
  then show ?thesis
    unfolding process_bundle_def bundle_plan_def Let_def Some option.case
    by (simp only: not_True_eq_False if_False simp_thms)
      (intro writes_MkdirAll writes_create_write writes_write_bundle_app assms(1))
qed

lemma ProcessBundles_writes_files:
  assumes "lawful_worktree fv wt" "\<forall>b \<in> set bundles. proper_bundle b"
  shows "writes_files fv (ProcessBundles wt cn url mgmt workload bundles ov)
    (concat (map (bundle_plan cn url mgmt workload ov) bundles))"
  using assms
  by (auto simp: ProcessBundles_def writes_ret intro!: writes_forM process_bundle_writes)

text \<open>A text that the repository's own test expects of the template.\<close>

lemma appTmpl_test:
  "appTmpl \<lparr>aset_AppName = ''testApp'', aset_ClusterName = ''testCluster'',
     aset_RepoUrl = ''testRepoUrl'', aset_RepoPath = ''testRepoPath'',
     aset_RepoRevision = ''testRepoRevision'', aset_SrcType = ''helm'', aset_AppNamespace = ''yyy'',
     aset_DestinationNamespace = ''zzz'',
     aset_Overrides = [\<lparr>kv_Key = ''foo'', kv_Value = ''bar''\<rparr>, \<lparr>kv_Key = ''goo'', kv_Value = ''gar''\<rparr>]\<rparr>
   = join_with [newline]
     ['''', ''apiVersion: argoproj.io/v1alpha1'', ''kind: Application'', ''metadata:'',
      ''  name: testApp'', ''  namespace: yyy'', ''  finalizers:'', ''  # This solves issue #17'',
      ''  - resources-finalizer.argocd.argoproj.io/foreground'', ''spec:'', ''  syncPolicy:'',
      ''    automated:'', ''      prune: true'', ''  destination:'', ''    name: testCluster'',
      ''    namespace: zzz'', ''  project: default'', ''  source:'', ''    repoURL: testRepoUrl'',
      ''    path: testRepoPath'', ''    targetRevision: testRepoRevision'', ''    helm:'',
      ''      parameters:'',
      ''      # Pass cluster name to the bundle in case it needs it and is a Helm chart.'',
      ''      # Example: this is required by the CAPI cluster autoscaler.'',
      ''      # Use arlon prefix to avoid any conflicts with the bundle'' @ [CHR 0x27] @ ''s own values.'',
      ''      - name: arlon.clusterName'', ''        value: testCluster'', ''      - name: foo'',
      ''        value: bar'', ''      - name: goo'', ''        value: gar'', '''']"
  by (simp add: appTmpl_def appTmpl_source_type_def)

definition mem_worktree :: "(string \<rightharpoonup> string) worktree" where
  "mem_worktree = \<lparr>
     wt_Lstat = (\<lambda>p w. (case w p of
        None \<Rightarrow> (Inl (Err (ErrorText ''file does not exist'')), w)
      | Some _ \<Rightarrow> (Inr \<lparr>fi_Name = p, fi_IsDir = False\<rparr>, w))),
     wt_Remove = (\<lambda>p w. (Inr (), w(p := None))),
     wt_MkdirAll = (\<lambda>p w. (Inr (), w)),
     wt_Create = (\<lambda>p w. (Inr (), w(p \<mapsto> ''''))),
     wt_OpenTrunc = (\<lambda>p w. (Inr (), w(p \<mapsto> ''''))),
     wt_Write = (\<lambda>p c w. (Inr (), w(p \<mapsto> (case w p of None \<Rightarrow> '''' | Some d \<Rightarrow> d) @ c))),
     wt_Close = (\<lambda>p w. (Inr (), w)),
     wt_ReadDir = (\<lambda>p w. (Inr [], w)),
     wt_Status = (\<lambda>w. (Inr [], w)),
     wt_Add = (\<lambda>p w. (Inr (), w)),
     wt_Commit = (\<lambda>m a w. (Inr (), w))\<rparr>"

lemma mem_lawful_worktree: "lawful_worktree (\<lambda>w. w) mem_worktree"
  by (simp add: lawful_worktree_def mem_worktree_def)

text \<open>C11: Processing the bundles of a profile, each of them static or dynamic, writes into the working
  tree exactly the files of their plan: the content of every static bundle under the workload path
  and one rendered application per bundle under the templates of the management path. No other file
  changes, an error leaves every other file as it was, and nothing panics.\<close>

theorem ProcessBundles_correct:
  assumes "lawful_worktree fv wt" "\<forall>b \<in> set bundles. proper_bundle b"
    and run: "ProcessBundles wt cn url mgmt workload bundles ov w = (res, w')"
  defines "plan \<equiv> concat (map (bundle_plan cn url mgmt workload ov) bundles)"
  shows "case res of
      Inr _ \<Rightarrow> fv w' = fv w ++ map_of (rev plan)
    | Inl (Err _) \<Rightarrow> \<forall>p. p \<notin> fst ` set plan \<longrightarrow> fv w' p = fv w p
    | Inl (Panic _) \<Rightarrow> False"
  using ProcessBundles_writes_files [OF assms(1,2), of cn url mgmt workload ov] run
  unfolding writes_files_def plan_def by (blast dest: wpD)

theorem ProcessBundles_correct_witness:
  "\<exists>w'. ProcessBundles mem_worktree ''c'' ''https://git'' ''c/mgmt'' ''c/workload''
      [\<lparr>bd_Name = ''g'', bd_Data = Some ''manifest'', bd_RepoUrl = '''', bd_RepoPath = '''',
        bd_RepoRevision = '''', bd_SrcType = ''''\<rparr>] None (\<lambda>_. None) = (Inr (), w')
    \<and> w' ''c/workload/g/g.yaml'' = Some ''manifest''"
proof -
  let ?b = "\<lparr>bd_Name = ''g'', bd_Data = Some ''manifest'', bd_RepoUrl = '''', bd_RepoPath = '''',
        bd_RepoRevision = '''', bd_SrcType = ''''\<rparr>"
  obtain w' where run: "ProcessBundles mem_worktree ''c'' ''https://git'' ''c/mgmt'' ''c/workload''
      [?b] None (\<lambda>_. None) = (Inr (), w')"
    by (simp add: ProcessBundles_def process_bundle_def write_bundle_app_def io_defs mem_worktree_def
        Let_def)
  from ProcessBundles_correct [OF mem_lawful_worktree _ run]
  have "w' = map_of (rev (bundle_plan ''c'' ''https://git'' ''c/mgmt'' ''c/workload'' None ?b))"
    by (simp add: proper_bundle_def)
  moreover have "path_Join [path_Join [''c/workload'', ''g''], ''g.yaml''] = ''c/workload/g/g.yaml''"
      "app_path ''c/mgmt'' ?b = ''c/mgmt/templates/g.yaml''"
    by (simp_all add: path_Join_def path_Clean_def clean_comps_def clean_step_def is_rooted_def
        slash_def app_path_def)
  ultimately show ?thesis using run by (simp add: bundle_plan_def Let_def)
qed

text \<open>Reading the bundles of a profile returns one bundle per name, in the order of the profile,
  each as it is stored; when the named secrets are bundles of a well-formed store, every one of them
  is static or dynamic, so that processing them cannot refuse one. Nothing is written.\<close>

theorem GetBundlesFromProfile_correct:
  fixes v :: "'w \<Rightarrow> string \<Rightarrow> string \<Rightarrow> secret_core option"
  assumes "lawful_get v secr_core api" "wf_bundles (v w)"
    and names: "pf_Bundles (prof_spec prof) = Some names"
    and bundles: "\<forall>n \<in> set names. \<forall>c. v w ns n = Some c \<longrightarrow> is_bundle c"
    and run: "GetBundlesFromProfile prof api ns w = (res, w')"
  shows "v w' = v w \<and> (case res of
      Inr bs \<Rightarrow> (\<forall>n \<in> set names. v w ns n \<noteq> None)
        \<and> bs = map (\<lambda>n. core_bundle n (the (v w ns n))) names \<and> (\<forall>b \<in> set bs. proper_bundle b)
    | Inl (Err _) \<Rightarrow> True
    | Inl (Panic _) \<Rightarrow> False)"
proof -
  let ?I = "\<lambda>ds bs w1. v w1 = v w \<and> (\<forall>n \<in> set ds. v w ns n \<noteq> None)
     \<and> bs = map (\<lambda>n. core_bundle n (the (v w ns n))) ds"
  let ?body = "\<lambda>n bs. must (api_get api ns n) (ErrorCtx (''failed to get bundle secret '' @ n @ '': ''))
      (\<lambda>secr. ret (bs @ [bundle_of_secret n secr]))"
  have "wp (forM ?body names []) (\<lambda>r w'. case r of
      Inl e \<Rightarrow> v w' = v w \<and> (\<exists>x. e = Err x) | Inr bs \<Rightarrow> ?I ([] @ names) bs w') w"
  proof (rule wp_forM_prefix [where I = ?I])
    show "?I [] [] w" by simp
  next
    fix ds n bs w1
    assume "?I ds bs w1"
    then show "wp (?body n bs) (\<lambda>r w'. case r of
        Inl e \<Rightarrow> v w' = v w \<and> (\<exists>x. e = Err x) | Inr bs' \<Rightarrow> ?I (ds @ [n]) bs' w') w1"
      unfolding wp_must
      by (intro wp_api_get [OF assms(1)]) (auto simp: wp_ret bundle_of_secret_core simp del: split_paired_Ex)
  qed
  then have "wp (GetBundlesFromProfile prof api ns) (\<lambda>r w'. case r of
      Inl e \<Rightarrow> v w' = v w \<and> (\<exists>x. e = Err x) | Inr bs \<Rightarrow> ?I names bs w') w"
    unfolding GetBundlesFromProfile_def names option.case append_Nil .
  from wpD [OF this run] have r: "case res of
      Inl e \<Rightarrow> v w' = v w \<and> (\<exists>x. e = Err x) | Inr bs \<Rightarrow> ?I names bs w'" .
  have "proper_bundle (core_bundle n c)" if "n \<in> set names" "v w ns n = Some c" for n c
    using wf_bundlesD [OF assms(2) that(2)] bundles that
    by (cases c) (auto simp: proper_bundle_def core_bundle_def static_or_dynamic_def)
  with r show ?thesis by (auto split: sum.splits fault.splits)
qed

lemma secr_core_mem [simp]: "lawful_get (store_view (\<lambda>s. s) secr_core) secr_core mem_secrets"
  by (simp add: mem_secrets_def mem_lawful_get)

definition guestbook_secret :: secret where
  "guestbook_secret = with_data ''data'' ''manifest'' (with_label ''static''
     (new_bundle_secret ''guestbook'' '''' ''''))"

theorem GetBundlesFromProfile_correct_witness:
  "\<exists>bs w'. GetBundlesFromProfile \<lparr>prof_meta = named_meta ''p'' '''', prof_spec = \<lparr>pf_Description = '''',
      pf_Tags = [], pf_Bundles = Some [''guestbook''], pf_Overrides = [], pf_RepoUrl = '''',
      pf_RepoPath = '''', pf_RepoRevision = ''''\<rparr>, prof_state = ''''\<rparr> mem_secrets ''arlon''
      [((''arlon'', ''guestbook''), guestbook_secret)] = (Inr bs, w') \<and> (\<forall>b \<in> set bs. proper_bundle b)"
proof -
  let ?p = "\<lparr>prof_meta = named_meta ''p'' '''', prof_spec = \<lparr>pf_Description = '''',
      pf_Tags = [], pf_Bundles = Some [''guestbook''], pf_Overrides = [], pf_RepoUrl = '''',
      pf_RepoPath = '''', pf_RepoRevision = ''''\<rparr>, prof_state = ''''\<rparr>"
  let ?w = "[((''arlon'', ''guestbook''), guestbook_secret)]"
  obtain bs w' where run: "GetBundlesFromProfile ?p mem_secrets ''arlon'' ?w = (Inr bs, w')"
    by (simp add: GetBundlesFromProfile_def io_defs mem_secrets_def mem_api_def)
  have b: "is_bundle (secr_core guestbook_secret)" "static_or_dynamic (secr_core guestbook_secret)"
    by (simp_all add: guestbook_secret_def new_secret_defs is_bundle_def static_or_dynamic_def mget_def)
  then have wf: "wf_bundles (store_view (\<lambda>s. s) secr_core ?w)"
    by (auto simp: wf_bundles_def store_view_def)
  have names: "pf_Bundles (prof_spec ?p) = Some [''guestbook'']" by simp
  have bundles: "\<forall>n \<in> set [''guestbook'']. \<forall>c. store_view (\<lambda>s. s) secr_core ?w ''arlon'' n = Some c
      \<longrightarrow> is_bundle c"
    using b by (auto simp: store_view_def)
  have "\<forall>b \<in> set bs. proper_bundle b"
    using GetBundlesFromProfile_correct [OF secr_core_mem wf names bundles run] by simp
  with run show ?thesis by blast
qed

section \<open>Steps shared by the routines that rewrite a repository\<close>

text \<open>Removing the old directory, if there is one; any failure to look at it counts as there being
  none.\<close>

definition remove_old_dir :: "'w worktree \<Rightarrow> string \<Rightarrow> ('w, 'a) io \<Rightarrow> ('w, 'a) io" where
  "remove_old_dir wt dir k =
     attempt (wt_Lstat wt dir) (\<lambda>_. k)
       (\<lambda>fileInfo. if \<not> fi_IsDir fileInfo then fail (ErrorText (''unexpected file type for '' @ dir))
          else must (wt_Remove wt dir)
            (ErrorCtx ''failed to recursively delete cluster directory: '') (\<lambda>_. k))"

definition push_if_changed :: "'w repository \<Rightarrow> basic_auth \<Rightarrow> bool \<Rightarrow> ('w, unit) io" where
  "push_if_changed repo auth changed =
     (if \<not> changed then ret ()
      else must (repo_Push repo auth) (ErrorCtx ''failed to push to remote repository: '') (\<lambda>_. ret ()))"

end
