(* ===== verification/Profile.thy ===== *)
theory Profile
  imports Gitutils
begin

text \<open>
  Profiles (\<open>pkg/profile\<close>): sets of bundles with parameter overrides, kept as custom resources, the
  older ones as config maps. A profile with a repository is dynamic: its files are generated into
  git. \<open>content\<close> is the tree of manifests embedded into the package.
\<close>

section \<open>Lists of names\<close>

text \<open>A nil slice and an empty one differ only for \<open>== nil\<close>.\<close>

definition slice :: "'a list option \<Rightarrow> 'a list" where
  "slice xs = (case xs of None \<Rightarrow> [] | Some ys \<Rightarrow> ys)"

definition StringListFromCommaSeparated :: "string \<Rightarrow> string list option" where
  "StringListFromCommaSeparated cs = (if cs = '''' then None else Some (split_on (CHR '','') cs))"

definition CommaSeparatedFromStringList :: "string list \<Rightarrow> string" where
  "CommaSeparatedFromStringList sl = snd (foldl (\<lambda>(i, s) item.
     (i + 1, s @ (if i > (0::int) then '','' @ item else item))) (0, '''') sl)"

definition stringListsEquivalent :: "string list \<Rightarrow> string list \<Rightarrow> bool" where
  "stringListsEquivalent sl1 sl2 = (set sl1 = set sl2)"

definition isSubset :: "string list \<Rightarrow> string list \<Rightarrow> bool" where
  "isSubset sub super = (set sub \<subseteq> set super)"

definition bundleListToNameSlice :: "bundle_list_item list \<Rightarrow> string list" where
  "bundleListToNameSlice bundles = map li_Name bundles"

section \<open>Reading profiles\<close>

record augmented_profile =
  aug_Profile :: profile
  aug_Legacy :: bool

definition ErrMissingBundles :: go_error where
  "ErrMissingBundles = Sentinel ''ErrMissingBundles'' (''one or more supplied bundles don'' @ [CHR 0x27] @ ''t exist'')"

definition profile_FromConfigMap :: "config_map \<Rightarrow> go_error + profile" where
  "profile_FromConfigMap cm =
     (if mget (om_labels (cm_meta cm)) ''arlon-type'' \<noteq> ''profile'' then
        Inl (ErrorText (''config map '' @ cm_name cm @ '' is missing arlon-type label''))
      else
        let get = mget (cm_data cm) in
        Inr \<lparr>prof_meta = named_meta (cm_name cm) '''',
             prof_spec =
               \<lparr>pf_Description = get ''description'',
                pf_Tags = slice (StringListFromCommaSeparated (get ''tags'')),
                pf_Bundles = StringListFromCommaSeparated (get ''bundles''),
                pf_Overrides = [],
                pf_RepoUrl = get ''repo-url'',
                pf_RepoPath = get ''repo-path'',
                pf_RepoRevision = get ''repo-branch''\<rparr>,
             prof_state = ''''\<rparr>)"

definition profile_List :: "'w rest_config \<Rightarrow> string \<Rightarrow> ('w, augmented_profile list) io" where
  "profile_List config ns =
     must (ctrlruntimeclient_NewClient config)
       (ErrorCtx ''failed to get controller runtime client: '') (\<lambda>cli.
     must (api_list (cli_Profiles cli) ns '''') (ErrorCtx ''failed to list profiles: '') (\<lambda>profs.
     let plist = map (\<lambda>prof. \<lparr>aug_Profile = prof, aug_Legacy = False\<rparr>) profs in
     must (rc_NewForConfig config) (ErrorCtx ''failed to get kubernetes client: '') (\<lambda>kubeClient.
     must (api_list (kube_ConfigMaps kubeClient) ns ''managed-by=arlon,arlon-type=profile'')
       (ErrorCtx ''failed to list configMaps: '') (\<lambda>configMaps.
     forM (\<lambda>cm plist. must (lift (profile_FromConfigMap cm))
         (ErrorCtx ''failed to convert configmap to profile: '')
         (\<lambda>prof. ret (plist @ [\<lparr>aug_Profile = prof, aug_Legacy = True\<rparr>])))
       configMaps plist))))"

definition getProfileConfigMap ::
  "string \<Rightarrow> 'w kube_client \<Rightarrow> string \<Rightarrow> ('w, config_map) io" where
  "getProfileConfigMap profileName corev1 arlonNs =
     (if profileName = '''' then fail (ErrorText ''profile name not specified'')
      else must (api_get (kube_ConfigMaps corev1) arlonNs profileName)
        (ErrorCtx ''failed to get profile configmap: '') (\<lambda>profileConfigMap.
      if mget (om_labels (cm_meta profileConfigMap)) ''arlon-type'' \<noteq> ''profile''
      then fail (ErrorText ''profile configmap does not have expected label'')
      else ret profileConfigMap))"

definition profile_Get :: "'w rest_config \<Rightarrow> string \<Rightarrow> string \<Rightarrow> ('w, profile) io" where
  "profile_Get config name ns =
     must (ctrlruntimeclient_NewClient config)
       (ErrorCtx ''failed to get controller runtime client: '') (\<lambda>cli.
     attempt (api_get (cli_Profiles cli) ns name)
       (\<lambda>err. if \<not> IsNotFound err then fail (ErrorCtx ''unexpected error looking up profile: '' err)
          else must (rc_NewForConfig config) (ErrorCtx ''failed to get kube client: '') (\<lambda>kubeClient.
               must (getProfileConfigMap name kubeClient ns)
                 (ErrorCtx ''failed to get profile from configmap: '')
                 (\<lambda>cm. lift (profile_FromConfigMap cm))))
       ret)"

definition GetAugmented :: "'w rest_config \<Rightarrow> string \<Rightarrow> string \<Rightarrow> ('w, augmented_profile) io" where
  "GetAugmented config name ns =
     must (rc_NewForConfig config) (ErrorCtx ''failed to get kubernetes client: '') (\<lambda>kubeClient.
     attempt (api_get (kube_ConfigMaps kubeClient) ns name)
       (\<lambda>_. must (profile_Get config name ns) (ErrorCtx ''failed to get profile: '')
          (\<lambda>prof. ret \<lparr>aug_Profile = prof, aug_Legacy = False\<rparr>))
       (\<lambda>cm. must (lift (profile_FromConfigMap cm))
          (ErrorCtx ''failed to convert configmap to profile: '')
          (\<lambda>prof. ret \<lparr>aug_Profile = prof, aug_Legacy = True\<rparr>)))"

section \<open>Dynamic profiles in git\<close>

definition kv_of_override :: "override \<Rightarrow> kv_pair" where
  "kv_of_override item = \<lparr>kv_Key = ov_Key item, kv_Value = ov_Value item\<rparr>"

definition MakeOverridesMap :: "profile \<Rightarrow> kv_pair_map" where
  "MakeOverridesMap profile =
     (let ovs = pf_Overrides (prof_spec profile) in
      if length ovs = 0 then None
      else Some (foldl (\<lambda>om item.
        om(ov_Bundle item \<mapsto> kvs_at (Some om) (ov_Bundle item) @ [kv_of_override item])) Map.empty ovs))"

definition createInGit ::
  "'w git_env \<Rightarrow> (string \<times> embed_node) list \<Rightarrow> repo_creds \<Rightarrow> profile \<Rightarrow> config_bundle list
   \<Rightarrow> ('w, unit) io" where
  "createInGit env content creds profile bundles =
     (let repoUrl = pf_RepoUrl (prof_spec profile);
          repoPath = pf_RepoPath (prof_spec profile);
          repoRevision = pf_RepoRevision (prof_spec profile) in
      must (CloneRepo env creds repoUrl repoRevision) (ErrorCtx ''failed to clone repo: '')
        (\<lambda>(repo, tmpDir, auth).
      must (repo_Worktree repo) (ErrorCtx ''failed to get repo worktree: '') (\<lambda>wt.
      remove_old_dir wt repoPath (
        let mgmtPath = path_Join [repoPath, ''mgmt'']; workloadPath = path_Join [repoPath, ''workload''] in
        must (CopyManifests wt content ''.'' mgmtPath) (ErrorCtx ''failed to copy embedded content: '') (\<lambda>_.
        must (ProcessBundles wt ''{{ .Values.clusterName }}'' repoUrl mgmtPath workloadPath bundles
            (MakeOverridesMap profile)) (ErrorCtx ''failed to process bundles: '') (\<lambda>_.
        must (CommitChanges env tmpDir wt (''manage arlon profile '' @ repoPath))
          (ErrorCtx ''failed to commit changes: '') (\<lambda>changed.
        push_if_changed repo auth changed)))))))"

section \<open>Operations\<close>

definition first_invalid_name :: "string list \<Rightarrow> go_error option" where
  "first_invalid_name names =
     map_option (\<lambda>name. ErrorWrap '''' ErrInvalidName ('': '' @ name)) (find (\<lambda>n. \<not> IsValidK8sName n) names)"

definition profile_Create ::
  "'w git_env \<Rightarrow> (string \<times> embed_node) list \<Rightarrow> 'w rest_config \<Rightarrow> string \<Rightarrow> string \<Rightarrow> string \<Rightarrow>
   string \<Rightarrow> string \<Rightarrow> string \<Rightarrow> string list option \<Rightarrow> string \<Rightarrow> string \<Rightarrow> override list \<Rightarrow> ('w, unit) io" where
  "profile_Create env content config argocdNs arlonNs profileName repoUrl repoBasePath repoRevision
     bundles desc tags overrides =
     checked (first_invalid_name (slice bundles)) (
     must (ctrlruntimeclient_NewClient config)
       (ErrorCtx ''failed to get controller runtime client: '') (\<lambda>cli.
     andThen (bundle_List config arlonNs) (\<lambda>bundlesList.
     if \<not> isSubset (slice bundles) (bundleListToNameSlice bundlesList) then fail ErrMissingBundles
     else
       let p = \<lparr>prof_meta = named_meta profileName arlonNs,
                prof_spec =
                  \<lparr>pf_Description = desc,
                   pf_Tags = slice (StringListFromCommaSeparated tags),
                   pf_Bundles = bundles,
                   pf_Overrides = overrides,
                   pf_RepoUrl = repoUrl,
                   pf_RepoPath = (if repoUrl = '''' then '''' else path_Join [repoBasePath, profileName]),
                   pf_RepoRevision = (if repoUrl = '''' then '''' else repoRevision)\<rparr>,
                prof_state = ''''\<rparr>;
           create = must (api_create (cli_Profiles cli) arlonNs p)
             (ErrorCtx ''failed to create profile configmap: '') (\<lambda>_. ret ())
       in if repoUrl \<noteq> '''' then
            must (rc_NewForConfig config) (ErrorCtx ''failed to get kubernetes client: '') (\<lambda>kubeClient.
            must (GetBundlesFromProfile p (kube_Secrets kubeClient) arlonNs)
              (ErrorCtx ''failed to get bundles: '') (\<lambda>bundles.
            must (GetRepoCredsFromArgoCd kubeClient argocdNs repoUrl)
              (ErrorCtx ''failed to get repository credentials: '') (\<lambda>creds.
            must (createInGit env content creds p bundles)
              (ErrorCtx ''failed to create dynamic profile in git: '') (\<lambda>_.
            create))))
          else create)))"

text \<open>One override against the list: it replaces the value of the first entry for the same bundle and
  key, or is appended. The flag says whether the list changed.\<close>

fun set_override :: "override \<Rightarrow> override list \<Rightarrow> override list \<times> bool" where
  "set_override ov [] = ([ov], True)"
| "set_override ov (x # xs) =
     (if ov_Bundle ov = ov_Bundle x \<and> ov_Key ov = ov_Key x then
        (if ov_Value ov \<noteq> ov_Value x then (x\<lparr>ov_Value := ov_Value ov\<rparr> # xs, True) else (x # xs, False))
      else (case set_override ov xs of (xs', d) \<Rightarrow> (x # xs', d)))"

definition set_overrides :: "override list \<Rightarrow> override list \<times> bool \<Rightarrow> override list \<times> bool" where
  "set_overrides new s = foldl (\<lambda>(xs, dirty) ov. case set_override ov xs of (xs', d) \<Rightarrow> (xs', dirty \<or> d)) s new"

text \<open>The changes an update makes to the specification one after the other, each with the flag that
  says whether there was any.\<close>

type_synonym spec_change = "profile_spec \<times> bool \<Rightarrow> profile_spec \<times> bool"

definition update_description :: "string \<Rightarrow> spec_change" where
  "update_description desc = (\<lambda>(spec, dirty).
     if desc \<noteq> '''' \<and> desc \<noteq> pf_Description spec then (spec\<lparr>pf_Description := desc\<rparr>, True)
     else (spec, dirty))"

definition update_tags :: "string \<Rightarrow> spec_change" where
  "update_tags tags = (\<lambda>(spec, dirty).
     let tagList = slice (StringListFromCommaSeparated tags) in
     if tags \<noteq> '''' \<and> \<not> stringListsEquivalent tagList (pf_Tags spec)
     then (spec\<lparr>pf_Tags := tagList\<rparr>, True) else (spec, dirty))"

definition bundles_text :: "string list option \<Rightarrow> profile_spec \<Rightarrow> string" where
  "bundles_text bundlesPtr spec = CommaSeparatedFromStringList
     (case bundlesPtr of None \<Rightarrow> slice (pf_Bundles spec) | Some bs \<Rightarrow> bs)"

definition update_bundles :: "string list option \<Rightarrow> spec_change" where
  "update_bundles bundlesPtr = (\<lambda>(spec, dirty).
     let bundleList = StringListFromCommaSeparated (bundles_text bundlesPtr spec) in
     if \<not> stringListsEquivalent (slice bundleList) (slice (pf_Bundles spec))
     then (spec\<lparr>pf_Bundles := bundleList\<rparr>, True) else (spec, dirty))"

definition update_overrides :: "override list \<Rightarrow> spec_change" where
  "update_overrides overrides = (\<lambda>(spec, dirty).
     case set_overrides overrides (pf_Overrides spec, dirty) of
       (ovs, dirty') \<Rightarrow> (spec\<lparr>pf_Overrides := ovs\<rparr>, dirty'))"

definition updated_profile_spec ::
  "profile_spec \<Rightarrow> string list option \<Rightarrow> string \<Rightarrow> string \<Rightarrow> override list \<Rightarrow> profile_spec \<times> bool" where
  "updated_profile_spec spec bundlesPtr desc tags overrides =
     update_overrides overrides (update_bundles bundlesPtr
       (update_tags tags (update_description desc (spec, False))))"

definition profile_Update ::
  "'w git_env \<Rightarrow> (string \<times> embed_node) list \<Rightarrow> 'w rest_config \<Rightarrow> string \<Rightarrow> string \<Rightarrow> string \<Rightarrow>
   string list option \<Rightarrow> string \<Rightarrow> string \<Rightarrow> override list \<Rightarrow> ('w, bool) io" where
  "profile_Update env content config argocdNs arlonNs profileName bundlesPtr desc tags overrides =
     checked (first_invalid_name (slice bundlesPtr)) (
     must (bundle_List config arlonNs) (\<lambda>err. ErrorWrap ''failed to list bundles: '' err '''') (\<lambda>existingBundles.
     if \<not> isSubset (slice bundlesPtr) (bundleListToNameSlice existingBundles) then fail ErrMissingBundles
     else
       must (GetAugmented config profileName arlonNs)
         (ErrorCtx ''failed to get augmented profile: '') (\<lambda>prof.
       if aug_Legacy prof then fail (ErrorText ''cannot update a legacy (gen1) profile'')
       else
         let (spec, dirty) = updated_profile_spec (prof_spec (aug_Profile prof)) bundlesPtr desc tags
               overrides;
             p = (aug_Profile prof)\<lparr>prof_spec := spec\<rparr>;
             store = must (ctrlruntimeclient_NewClient config)
                 (ErrorCtx ''failed to get new controller runtime client: '') (\<lambda>cli.
               must (api_update (cli_Profiles cli) (om_namespace (prof_meta p)) p)
                 (ErrorCtx ''failed to update profile: '') (\<lambda>_. ret True))
         in if \<not> dirty then ret False
            else if pf_RepoUrl spec \<noteq> '''' then
              must (GetKubeclientAndRepoCreds config argocdNs (pf_RepoUrl spec))
                (ErrorCtx ''failed to get kubeclient and repository credentials: '')
                (\<lambda>(kubeClient, creds).
              must (GetBundlesFromProfile p (kube_Secrets kubeClient) arlonNs)
                (ErrorCtx ''failed to get bundles: '') (\<lambda>bndl.
              must (createInGit env content creds p bndl)
                (ErrorCtx ''failed to update dynamic profile in git: '') (\<lambda>_. store)))
            else store)))"

definition profile_DeleteLegacy :: "'w kube_client \<Rightarrow> string \<Rightarrow> string \<Rightarrow> ('w, unit) io" where
  "profile_DeleteLegacy kubeClient ns profileName =
     must (api_delete (kube_ConfigMaps kubeClient) ns profileName)
       (ErrorCtx ''failed to delete profile: '') (\<lambda>_. ret ())"

definition profile_Delete :: "'w ctrl_client \<Rightarrow> string \<Rightarrow> string \<Rightarrow> ('w, unit) io" where
  "profile_Delete cli ns profileName = api_delete (cli_Profiles cli) ns profileName"

section \<open>Lists of names and their text\<close>

lemma foldl_comma:
  "i > 0 \<Longrightarrow> snd (foldl (\<lambda>(i, s) item. (i + 1, s @ (if i > (0::int) then '','' @ item else item))) (i, s) xs)
     = s @ concat (map (\<lambda>x. '','' @ x) xs)"
  by (induction xs arbitrary: i s) auto

lemma CommaSeparated_join: "CommaSeparatedFromStringList xs = join_with '','' xs"
  by (cases xs)
    (simp_all add: CommaSeparatedFromStringList_def foldl_comma join_with_concat)

lemma Comma_of_StringList [simp]: "CommaSeparatedFromStringList (slice (StringListFromCommaSeparated s)) = s"
  by (simp add: CommaSeparated_join slice_def StringListFromCommaSeparated_def join_split_on)

text \<open>Names without commas survive; the one list that does not is the list of one empty name, whose
  text is that of the empty list.\<close>

interpretation comma_codec:
  codec CommaSeparatedFromStringList
    "\<lambda>s. Inr (slice (StringListFromCommaSeparated s)) :: unit + string list"
    "\<lambda>xs. (\<forall>x \<in> set xs. CHR '','' \<notin> set x) \<and> xs \<noteq> [[]]"
proof unfold_locales
  fix xs :: "string list"
  assume valid: "(\<forall>x \<in> set xs. CHR '','' \<notin> set x) \<and> xs \<noteq> [[]]"
  have "join_with '','' xs = '''' \<Longrightarrow> xs = []"
    using valid by (cases xs rule: remdups_adj.cases) auto
  with valid show "Inr (slice (StringListFromCommaSeparated (CommaSeparatedFromStringList xs))) =
      (Inr xs :: unit + string list)"
    by (cases "xs = []")
      (auto simp: CommaSeparated_join slice_def StringListFromCommaSeparated_def split_join)
qed

section \<open>Overrides\<close>

text \<open>The value a list of overrides gives to a parameter of a bundle: that of the first entry.\<close>

definition ov_key :: "override \<Rightarrow> string \<times> string" where
  "ov_key x = (ov_Bundle x, ov_Key x)"

fun ov_value :: "override list \<Rightarrow> string \<times> string \<rightharpoonup> string" where
  "ov_value [] = Map.empty"
| "ov_value (x # xs) = (ov_value xs)(ov_key x \<mapsto> ov_Value x)"

lemma set_override_value:
  "ov_value (fst (set_override x xs)) = (ov_value xs)(ov_key x \<mapsto> ov_Value x)"
  by (induction x xs rule: set_override.induct)
    (auto simp: ov_key_def fun_upd_twist split: prod.splits)

lemma set_override_unchanged: "\<not> snd (set_override x xs) \<Longrightarrow> fst (set_override x xs) = xs"
  by (induction x xs rule: set_override.induct) (auto split: prod.splits if_splits)

lemma set_override_clean_iff:
  "\<not> snd (set_override x xs) \<longleftrightarrow> ov_value xs (ov_key x) = Some (ov_Value x)"
  by (induction x xs rule: set_override.induct)
    (auto simp: ov_key_def split: prod.splits if_splits)

lemma set_overrides_Cons:
  "set_overrides (x # new) (xs, d) =
     set_overrides new (fst (set_override x xs), d \<or> snd (set_override x xs))"
  by (simp add: set_overrides_def split: prod.splits)

lemma set_overrides_Nil [simp]: "set_overrides [] s = s"
  by (simp add: set_overrides_def)

lemma set_overrides_dirty: "snd (set_overrides new (xs, True))"
  by (induction new arbitrary: xs) (simp_all add: set_overrides_Cons)

lemma set_overrides_value:
  "ov_value (fst (set_overrides new (xs, d))) =
     foldl (\<lambda>m x. m(ov_key x \<mapsto> ov_Value x)) (ov_value xs) new"
  by (induction new arbitrary: xs d) (simp_all add: set_overrides_Cons set_override_value)

lemma set_overrides_fst: "fst (set_overrides new (xs, d)) = fst (set_overrides new (xs, d'))"
  by (induction new arbitrary: xs d d') (auto simp: set_overrides_Cons)

lemma set_overrides_unchanged:
  "\<not> snd (set_overrides new (xs, d)) \<Longrightarrow> \<not> d \<and> fst (set_overrides new (xs, d)) = xs"
proof (induction new arbitrary: xs d)
  case (Cons x new)
  then show ?case
    by (metis set_override_unchanged set_overrides_Cons)
qed simp

lemma set_overrides_clean_iff:
  "\<not> snd (set_overrides new (xs, False)) \<longleftrightarrow> (\<forall>x \<in> set new. ov_value xs (ov_key x) = Some (ov_Value x))"
proof (induction new)
  case (Cons x new)
  show ?case
  proof (cases "snd (set_override x xs)")
    case True
    then show ?thesis using set_override_clean_iff [of x xs] by (simp add: set_overrides_Cons set_overrides_dirty)
  next
    case False
    then show ?thesis using Cons set_override_clean_iff [of x xs] set_override_unchanged [OF False]
      by (simp add: set_overrides_Cons)
  qed
qed simp

lemma foldl_upd_other:
  "k \<notin> ov_key ` set new \<Longrightarrow> foldl (\<lambda>m x. m(ov_key x \<mapsto> ov_Value x)) m new k = m k"
  by (induction new arbitrary: m) auto

lemma foldl_upd_same:
  "k \<in> ov_key ` set new \<or> m k = m' k \<Longrightarrow> foldl (\<lambda>m x. m(ov_key x \<mapsto> ov_Value x)) m new k =
     foldl (\<lambda>m x. m(ov_key x \<mapsto> ov_Value x)) m' new k"
  by (induction new arbitrary: m m') auto

text \<open>The value a fold of overrides leaves for a parameter it sets is that of one of them: the last.\<close>

lemma foldl_upd_value:
  "k \<in> ov_key ` set new \<Longrightarrow> \<exists>y \<in> set new. ov_key y = k \<and>
     foldl (\<lambda>m x. m(ov_key x \<mapsto> ov_Value x)) m new k = Some (ov_Value y)"
proof (induction new arbitrary: m)
  case (Cons z new)
  show ?case
  proof (cases "k \<in> ov_key ` set new")
    case True
    then show ?thesis using Cons.IH [of "m(ov_key z \<mapsto> ov_Value z)"] by auto
  next
    case False
    with Cons.prems have "ov_key z = k" by auto
    with False foldl_upd_other [of k new "m(ov_key z \<mapsto> ov_Value z)"] show ?thesis
      by (simp del: fun_upd_apply) simp
  qed
qed simp

text \<open>Two overrides of the same parameter with different values.\<close>

definition contradictory :: "override list \<Rightarrow> bool" where
  "contradictory new \<longleftrightarrow> (\<exists>x \<in> set new. \<exists>y \<in> set new. ov_key x = ov_key y \<and> ov_Value x \<noteq> ov_Value y)"

lemma folded_values_iff:
  "(\<forall>x \<in> set new. foldl (\<lambda>m x. m(ov_key x \<mapsto> ov_Value x)) m new (ov_key x) = Some (ov_Value x))
     \<longleftrightarrow> \<not> contradictory new" (is "?all \<longleftrightarrow> _")
proof
  assume all: ?all
  have "ov_Value x = ov_Value y" if "x \<in> set new" "y \<in> set new" "ov_key x = ov_key y" for x y
    using bspec [OF all that(1)] bspec [OF all that(2)] that(3) by simp
  then show "\<not> contradictory new" unfolding contradictory_def by blast
next
  assume con: "\<not> contradictory new"
  show ?all
  proof
    fix x assume x: "x \<in> set new"
    then obtain y where "y \<in> set new" "ov_key y = ov_key x"
      "foldl (\<lambda>m x. m(ov_key x \<mapsto> ov_Value x)) m new (ov_key x) = Some (ov_Value y)"
      using foldl_upd_value [of "ov_key x" new m] by blast
    with con x show "foldl (\<lambda>m x. m(ov_key x \<mapsto> ov_Value x)) m new (ov_key x) = Some (ov_Value x)"
      unfolding contradictory_def by metis
  qed
qed

text \<open>The entries of a list without the values that count: those of the first entries.\<close>

fun ov_frame :: "(string \<times> string) set \<Rightarrow> override list \<Rightarrow> override list" where
  "ov_frame seen [] = []"
| "ov_frame seen (x # xs) =
     (if ov_key x \<in> seen then x else x\<lparr>ov_Value := ''''\<rparr>) # ov_frame (insert (ov_key x) seen) xs"

lemma ov_key_value [simp]: "ov_key (x\<lparr>ov_Value := u\<rparr>) = ov_key x"
  by (simp add: ov_key_def)

lemma ov_frame_determines:
  "ov_frame S xs = ov_frame S ys \<Longrightarrow> \<forall>k. k \<notin> S \<longrightarrow> ov_value xs k = ov_value ys k \<Longrightarrow> xs = ys"
proof (induction xs arbitrary: ys S)
  case Nil
  then show ?case by (cases ys) auto
next
  case (Cons x xs)
  then obtain y ys' where ys: "ys = y # ys'" by (cases ys) auto
  with Cons.prems(1) have key: "ov_key y = ov_key x"
    by (auto split: if_splits) (metis ov_key_value)+
  have "y = x"
  proof (cases "ov_key x \<in> S")
    case False
    then have "ov_value (x # xs) (ov_key x) = ov_value ys (ov_key x)" using Cons.prems(2) by blast
    with ys key have "ov_Value y = ov_Value x" by simp
    moreover have "y\<lparr>ov_Value := ''''\<rparr> = x\<lparr>ov_Value := ''''\<rparr>" using Cons.prems(1) ys key False by simp
    ultimately show ?thesis by (cases x; cases y) simp
  qed (use Cons.prems(1) ys key in simp)
  moreover have "xs = ys'"
  proof (rule Cons.IH [of "insert (ov_key x) S"])
    show "\<forall>k. k \<notin> insert (ov_key x) S \<longrightarrow> ov_value xs k = ov_value ys' k"
    proof (intro allI impI)
      fix k assume k: "k \<notin> insert (ov_key x) S"
      then have "ov_value (x # xs) k = ov_value ys k" using Cons.prems(2) by blast
      with k ys key show "ov_value xs k = ov_value ys' k" by simp
    qed
  qed (use Cons.prems(1) ys key in simp)
  ultimately show ?case using ys by simp
qed

lemma ov_frame_set_override:
  "ov_value xs (ov_key x) \<noteq> None \<Longrightarrow> ov_key x \<notin> S \<Longrightarrow> ov_frame S (fst (set_override x xs)) = ov_frame S xs"
proof (induction xs arbitrary: S)
  case (Cons y xs)
  show ?case
  proof (cases "ov_key x = ov_key y")
    case True
    with Cons.prems show ?thesis by (simp add: ov_key_def)
  next
    case False
    with Cons.prems Cons.IH [of "insert (ov_key y) S"] show ?thesis
      by (auto simp: ov_key_def split: prod.splits)
  qed
qed simp

lemma ov_frame_set_overrides:
  "(\<forall>x \<in> set new. ov_value xs (ov_key x) \<noteq> None) \<Longrightarrow>
   ov_frame {} (fst (set_overrides new (xs, d))) = ov_frame {} xs"
proof (induction new arbitrary: xs d)
  case (Cons x new)
  then show ?case by (simp add: set_overrides_Cons set_override_value ov_frame_set_override)
qed simp

text \<open>Setting the same overrides again gives the same list, and reports a change only when they
  contradict each other.\<close>

lemma set_overrides_again:
  fixes new xs d
  defines "ys \<equiv> fst (set_overrides new (xs, d))"
  shows "fst (set_overrides new (ys, False)) = ys" (is ?same)
    and "snd (set_overrides new (ys, False)) \<longleftrightarrow> contradictory new" (is "?dirty \<longleftrightarrow> _")
proof -
  have vals: "ov_value ys = foldl (\<lambda>m x. m(ov_key x \<mapsto> ov_Value x)) (ov_value xs) new"
    by (simp add: ys_def set_overrides_value)
  have set: "ov_value ys k \<noteq> None" if "k \<in> ov_key ` set new" for k
    using foldl_upd_value [OF that, of "ov_value xs"] by (auto simp: vals)
  have "ov_value (fst (set_overrides new (ys, False))) k = ov_value ys k" for k
    unfolding set_overrides_value
  proof (cases "k \<in> ov_key ` set new")
    case True
    then show "foldl (\<lambda>m x. m(ov_key x \<mapsto> ov_Value x)) (ov_value ys) new k = ov_value ys k"
      using foldl_upd_same [of k new "ov_value ys" "ov_value xs"] fun_cong [OF vals, of k] by metis
  qed (rule foldl_upd_other)
  then have "\<forall>k. k \<notin> {} \<longrightarrow> ov_value (fst (set_overrides new (ys, False))) k = ov_value ys k" by blast
  moreover have "ov_frame {} (fst (set_overrides new (ys, False))) = ov_frame {} ys"
    by (rule ov_frame_set_overrides) (use set in blast)
  ultimately show ?same by (rule ov_frame_determines [rotated])
  have "\<not> ?dirty \<longleftrightarrow> (\<forall>x \<in> set new. ov_value ys (ov_key x) = Some (ov_Value x))"
    by (simp add: set_overrides_clean_iff)
  also have "\<dots> \<longleftrightarrow> \<not> contradictory new" unfolding vals by (rule folded_values_iff)
  finally show "?dirty \<longleftrightarrow> contradictory new" by blast
qed

lemma MakeOverridesMap_step:
  "kvs_at (Some (foldl (\<lambda>om item. om(ov_Bundle item \<mapsto> kvs_at (Some om) (ov_Bundle item)
       @ [kv_of_override item])) m ovs)) b =
   kvs_at (Some m) b @ map kv_of_override (filter (\<lambda>x. ov_Bundle x = b) ovs)"
  by (induction ovs arbitrary: m) (auto simp: kvs_at_def)

section \<open>Properties\<close>

text \<open>A change that finds its own result as it left it, and that reports no change only when there is
  none.\<close>

definition settled :: "spec_change \<Rightarrow> bool" where
  "settled c \<longleftrightarrow> (\<forall>s d. c (fst (c (s, d)), False) = (fst (c (s, d)), False)
     \<and> (\<not> snd (c (s, d)) \<longrightarrow> fst (c (s, d)) = s \<and> \<not> d))"

definition unmoved :: "spec_change \<Rightarrow> profile_spec \<Rightarrow> bool" where
  "unmoved c s \<longleftrightarrow> c (s, False) = (s, False)"

text \<open>\<open>keeps_unmoved c c'\<close>: the change \<open>c'\<close> does not disturb the result of \<open>c\<close>.\<close>

definition keeps_unmoved :: "spec_change \<Rightarrow> spec_change \<Rightarrow> bool" where
  "keeps_unmoved c c' \<longleftrightarrow> (\<forall>s d. unmoved c s \<longrightarrow> unmoved c (fst (c' (s, d))))"

lemma settled_compose:
  assumes "settled c" "settled c'" "keeps_unmoved c c'"
  shows "settled (c' \<circ> c)"
  unfolding settled_def
proof (intro allI)
  fix s d
  obtain s1 d1 where 1: "c (s, d) = (s1, d1)" by (cases "c (s, d)")
  obtain s2 d2 where 2: "c' (s1, d1) = (s2, d2)" by (cases "c' (s1, d1)")
  have "unmoved c s1" using assms(1) 1 unfolding settled_def unmoved_def by (metis fst_conv)
  then have "unmoved c s2" using assms(3) 2 unfolding keeps_unmoved_def by (metis fst_conv)
  moreover have "unmoved c' s2" using assms(2) 2 unfolding settled_def unmoved_def by (metis fst_conv)
  moreover have "\<not> d2 \<longrightarrow> s2 = s1 \<and> \<not> d1" "\<not> d1 \<longrightarrow> s1 = s \<and> \<not> d"
    using assms(1,2) 1 2 unfolding settled_def by (metis fst_conv snd_conv)+
  ultimately show "(c' \<circ> c) (fst ((c' \<circ> c) (s, d)), False) = (fst ((c' \<circ> c) (s, d)), False)
      \<and> (\<not> snd ((c' \<circ> c) (s, d)) \<longrightarrow> fst ((c' \<circ> c) (s, d)) = s \<and> \<not> d)"
    using 1 2 by (auto simp: unmoved_def)
qed

lemma unmoved_compose:
  assumes "settled c" "settled c'"
  shows "unmoved (c' \<circ> c) s \<longleftrightarrow> unmoved c s \<and> unmoved c' s"
proof
  assume "unmoved (c' \<circ> c) s"
  moreover obtain s1 d1 where 1: "c (s, False) = (s1, d1)" by (cases "c (s, False)")
  ultimately have "c' (s1, d1) = (s, False)" by (simp add: unmoved_def)
  with assms(2) have "s1 = s" "\<not> d1" unfolding settled_def by (metis fst_conv snd_conv)+
  with 1 \<open>c' (s1, d1) = (s, False)\<close> show "unmoved c s \<and> unmoved c' s" by (simp add: unmoved_def)
qed (simp add: unmoved_def)

lemma keeps_unmoved_compose:
  "settled c \<Longrightarrow> settled c' \<Longrightarrow> keeps_unmoved c c'' \<Longrightarrow> keeps_unmoved c' c'' \<Longrightarrow>
   keeps_unmoved (c' \<circ> c) c''"
  by (simp add: keeps_unmoved_def unmoved_compose)

lemma settled_description: "settled (update_description desc)"
  by (auto simp: settled_def update_description_def)

lemma settled_tags: "settled (update_tags tags)"
  by (auto simp: settled_def update_tags_def Let_def stringListsEquivalent_def)

lemma settled_bundles: "settled (update_bundles bp)"
  by (auto simp: settled_def update_bundles_def Let_def stringListsEquivalent_def bundles_text_def
      split: option.splits)

lemmas change_defs = keeps_unmoved_def unmoved_def update_description_def update_tags_def
  update_bundles_def update_overrides_def bundles_text_def Let_def case_prod_beta

lemma keeps_unmoved_changes:
  "keeps_unmoved (update_description desc) (update_tags tags)"
  "keeps_unmoved (update_description desc) (update_bundles bp)"
  "keeps_unmoved (update_description desc) (update_overrides new)"
  "keeps_unmoved (update_tags tags) (update_bundles bp)"
  "keeps_unmoved (update_tags tags) (update_overrides new)"
  "keeps_unmoved (update_bundles bp) (update_overrides new)"
  by (cases bp; auto simp: change_defs split: if_splits)+

text \<open>The changes before the overrides.\<close>

definition update_texts :: "string list option \<Rightarrow> string \<Rightarrow> string \<Rightarrow> spec_change" where
  "update_texts bundlesPtr desc tags =
     update_bundles bundlesPtr \<circ> (update_tags tags \<circ> update_description desc)"

lemma settled_texts: "settled (update_texts bundlesPtr desc tags)"
  unfolding update_texts_def by (intro settled_compose keeps_unmoved_compose settled_description
      settled_tags settled_bundles keeps_unmoved_changes)

lemma keeps_unmoved_texts: "keeps_unmoved (update_texts bundlesPtr desc tags) (update_overrides overrides)"
  unfolding update_texts_def by (intro settled_compose keeps_unmoved_compose settled_description
      settled_tags settled_bundles keeps_unmoved_changes)

lemma update_overrides_again:
  "fst (update_overrides new (fst (update_overrides new (s, d)), False)) = fst (update_overrides new (s, d))"
  "snd (update_overrides new (fst (update_overrides new (s, d)), False)) \<longleftrightarrow> contradictory new"
  by (simp_all add: update_overrides_def case_prod_beta set_overrides_again)

lemma update_overrides_clean:
  "\<not> snd (update_overrides new (s, d)) \<Longrightarrow> fst (update_overrides new (s, d)) = s \<and> \<not> d"
  using set_overrides_unchanged [of new "pf_Overrides s" d] by (auto simp: update_overrides_def case_prod_beta)

text \<open>C19: Repeating an update of a profile leaves the profile as the first one made it. The second
  update reports a change exactly when the overrides given contradict each other, that is when two of
  them set the same parameter of a bundle to different values: then each of them is a change to what
  the other wrote, although the result is the same. An update that reports no change has changed
  nothing.\<close>

theorem profile_update_idempotent:
  assumes "updated_profile_spec spec bundlesPtr desc tags overrides = (spec', dirty)"
  shows "updated_profile_spec spec' bundlesPtr desc tags overrides = (spec', contradictory overrides)
    \<and> (\<not> dirty \<longrightarrow> spec' = spec)"
proof -
  have two: "updated_profile_spec p bundlesPtr desc tags overrides =
      update_overrides overrides (update_texts bundlesPtr desc tags (p, False))" for p
    by (simp add: updated_profile_spec_def update_texts_def)
  obtain s1 d1 where 1: "update_texts bundlesPtr desc tags (spec, False) = (s1, d1)" by fastforce
  with assms two have 2: "update_overrides overrides (s1, d1) = (spec', dirty)" by simp
  have "unmoved (update_texts bundlesPtr desc tags) s1"
    using settled_texts 1 unfolding settled_def unmoved_def by (metis fst_conv)
  then have "unmoved (update_texts bundlesPtr desc tags) spec'"
    using keeps_unmoved_texts 2 unfolding keeps_unmoved_def by (metis fst_conv)
  then have "updated_profile_spec spec' bundlesPtr desc tags overrides = (spec', contradictory overrides)"
    unfolding two unmoved_def using update_overrides_again [of overrides s1 d1] unfolding 2 fst_conv
    by (simp add: prod_eq_iff [of "update_overrides overrides _"])
  moreover have "spec' = spec" if "\<not> dirty"
  proof -
    have "spec' = s1" "\<not> d1" using update_overrides_clean [of overrides s1 d1] 2 that by simp_all
    then show ?thesis using settled_texts 1 unfolding settled_def by (metis fst_conv snd_conv)
  qed
  ultimately show ?thesis by blast
qed

definition sample_spec :: profile_spec where
  "sample_spec = \<lparr>pf_Description = ''old'', pf_Tags = [''a''], pf_Bundles = Some [''x'', ''y''],
     pf_Overrides = [\<lparr>ov_Bundle = ''x'', ov_Key = ''k'', ov_Value = ''1''\<rparr>], pf_RepoUrl = '''',
     pf_RepoPath = '''', pf_RepoRevision = ''''\<rparr>"

theorem profile_update_idempotent_witness:
  "\<exists>s. updated_profile_spec sample_spec None ''new'' ''a''
      [\<lparr>ov_Bundle = ''x'', ov_Key = ''k'', ov_Value = ''2''\<rparr>] = (s, True)
    \<and> updated_profile_spec s None ''new'' ''a''
      [\<lparr>ov_Bundle = ''x'', ov_Key = ''k'', ov_Value = ''2''\<rparr>] = (s, False)"
proof -
  let ?ov = "[\<lparr>ov_Bundle = ''x'', ov_Key = ''k'', ov_Value = ''2''\<rparr>]"
  obtain s where run: "updated_profile_spec sample_spec None ''new'' ''a'' ?ov = (s, True)"
    by (simp add: updated_profile_spec_def sample_spec_def set_overrides_def update_description_def
        update_tags_def update_bundles_def update_overrides_def Let_def bundles_text_def
        stringListsEquivalent_def slice_def StringListFromCommaSeparated_def CommaSeparated_join
        split: prod.split)
  from profile_update_idempotent [OF run] run show ?thesis by (auto simp: contradictory_def)
qed

text \<open>C20: After an update the overrides give every parameter the value of the last new override for it,
  and every other parameter its old value; when no override changes anything, the list is kept as it
  is.\<close>

theorem overrides_take_effect:
  "ov_value (fst (set_overrides new (xs, d))) = foldl (\<lambda>m x. m(ov_key x \<mapsto> ov_Value x)) (ov_value xs) new
   \<and> (snd (set_overrides new (xs, d)) \<or> fst (set_overrides new (xs, d)) = xs)"
  using set_overrides_value set_overrides_unchanged by blast

text \<open>The overrides of a dynamic profile are handed to each bundle: the map gives a bundle exactly
  its own overrides, in the order of the profile, and is nil when the profile has none.\<close>

theorem MakeOverridesMap_groups:
  "kvs_at (MakeOverridesMap p) b =
     map kv_of_override (filter (\<lambda>x. ov_Bundle x = b) (pf_Overrides (prof_spec p)))
   \<and> (MakeOverridesMap p = None) = (pf_Overrides (prof_spec p) = [])"
proof (cases "pf_Overrides (prof_spec p) = []")
  case True
  then show ?thesis by (simp add: MakeOverridesMap_def kvs_at_def)
next
  case False
  with MakeOverridesMap_step [of Map.empty "pf_Overrides (prof_spec p)" b] show ?thesis
    by (simp add: MakeOverridesMap_def) (simp add: kvs_at_def)
qed

text \<open>Turning a comma-separated text into a list and back gives the text again; a list of names
  without commas survives its text, except the list of one empty name.\<close>

theorem comma_list_roundtrip:
  "CommaSeparatedFromStringList (slice (StringListFromCommaSeparated s)) = s
   \<and> ((\<forall>x \<in> set xs. CHR '','' \<notin> set x) \<longrightarrow> xs \<noteq> [''''] \<longrightarrow>
      slice (StringListFromCommaSeparated (CommaSeparatedFromStringList xs)) = xs)"
  using comma_codec.decode_encode [of xs] by auto

theorem comma_list_roundtrip_witness:
  "slice (StringListFromCommaSeparated (CommaSeparatedFromStringList [''a'', '''', ''b''])) = [''a'', '''', ''b'']"
  using comma_list_roundtrip [of "''''" "[''a'', '''', ''b'']"] by simp

end
