(* ===== verification/Cluster_Apps.thy ===== *)
theory Cluster_Apps
  imports Clusterspec Profile
begin

text \<open>
  The ArgoCD applications of a cluster (\<open>pkg/cluster\<close>: \<open>types.go\<close>, \<open>util.go\<close>, \<open>root_app.go\<close>,
  \<open>cluster_app.go\<close>, \<open>profile_app.go\<close>): the root application, which installs Arlon's chart, the
  cluster application, which applies the cluster template, and the profile applications; and the
  paths of a cluster in its repository.
\<close>

section \<open>Types and labels\<close>

record base_cluster_info =
  bci_Name :: string
  bci_RepoUrl :: string
  bci_RepoRevision :: string
  bci_RepoPath :: string
  bci_Overridden :: string

record cluster_info =
  clu_Name :: string
  clu_ClusterSpecName :: string
  clu_BaseCluster :: "base_cluster_info option"
  clu_ProfileName :: string
  clu_IsExternal :: bool
  clu_SecretName :: string
  clu_AppProfiles :: "string list"

definition clusterTypeLabelKey :: string where
  "clusterTypeLabelKey = ''arlon.io/cluster-type''"

definition externalClusterTypeLabel :: string where
  "externalClusterTypeLabel = ''arlon.io/cluster-type=external''"

definition argoClusterSecretTypeLabel :: string where
  "argoClusterSecretTypeLabel = ''argocd.argoproj.io/secret-type=cluster''"

definition baseClusterNameAnnotation :: string where
  "baseClusterNameAnnotation = ''arlon.io/basecluster-name''"

definition baseClusterRepoUrlAnnotation :: string where
  "baseClusterRepoUrlAnnotation = ''arlon.io/basecluster-repo-url''"

definition baseClusterRepoRevisionAnnotation :: string where
  "baseClusterRepoRevisionAnnotation = ''arlon.io/basecluster-repo-revision''"

definition baseClusterRepoPathAnnotation :: string where
  "baseClusterRepoPathAnnotation = ''arlon.io/basecluster-repo-path''"

definition baseClusterOverridden :: string where
  "baseClusterOverridden = ''arlon.io/basecluster-overridden''"

definition ArlonGen1ClusterLabelQueryOnArgoApps :: string where
  "ArlonGen1ClusterLabelQueryOnArgoApps = ''managed-by=arlon,arlon-type=cluster''"

definition ArlonGen2ClusterLabelQueryOnArgoApps :: string where
  "ArlonGen2ClusterLabelQueryOnArgoApps = ''managed-by=arlon,arlon-type=cluster-app''"

text \<open>The finalizer by which ArgoCD deletes the resources of an application with it; the value is the
  one the templates of \<open>git.go\<close> and \<open>bundles.go\<close> write out.\<close>

definition ForegroundPropagationPolicyFinalizer :: string where
  "ForegroundPropagationPolicyFinalizer = ''resources-finalizer.argocd.argoproj.io/foreground''"

section \<open>Paths\<close>

definition clusterPathFromBasePath :: "string \<Rightarrow> string \<Rightarrow> string" where
  "clusterPathFromBasePath basePath clusterName = path_Join [basePath, clusterName]"

definition mgmtPathFromClusterPath :: "string \<Rightarrow> string" where
  "mgmtPathFromClusterPath clusterPath = path_Join [clusterPath, ''mgmt'']"

definition workloadPathFromClusterPath :: "string \<Rightarrow> string" where
  "workloadPathFromClusterPath clusterPath = path_Join [clusterPath, ''workload'']"

definition mgmtPathFromBasePath :: "string \<Rightarrow> string \<Rightarrow> string" where
  "mgmtPathFromBasePath basePath clusterName =
     path_Join [clusterPathFromBasePath basePath clusterName, ''mgmt'']"

definition decomposePath :: "string \<Rightarrow> go_error + string \<times> string" where
  "decomposePath mgmtPath =
     (let comps = split_on slash mgmtPath; l = length comps in
      if l < 3 then Inl (ErrorText ''malformed repo path'')
      else if comps ! (l - 1) \<noteq> ''mgmt'' then
        Inl (ErrorText (''malformed repo path: unexpected last component ('' @ comps ! (l - 1) @ '')''))
      else Inr (join_with [slash] (take (l - 2) comps), comps ! (l - 2)))"

section \<open>The root application\<close>

definition helm_param :: "string \<Rightarrow> string \<Rightarrow> helm_parameter" where
  "helm_param n v = \<lparr>hp_Name = n, hp_Value = v\<rparr>"

definition ignore_diff :: "string \<Rightarrow> string \<Rightarrow> string list \<Rightarrow> ignore_difference" where
  "ignore_diff g k ps = \<lparr>igd_Group = g, igd_Kind = k, igd_JSONPointers = ps\<rparr>"

definition enableClusterAutoscaler ::
  "string \<Rightarrow> helm_parameter list \<Rightarrow> ignore_difference list \<Rightarrow>
   go_error + helm_parameter list \<times> ignore_difference list" where
  "enableClusterAutoscaler apiProvider helmParams ignoreDiffs =
     (let casSubchartName = ClusterAutoscalerSubchartNameFromApiProvider apiProvider in
      if length casSubchartName = 0 then
        Inl (ErrorText (''failed to get cluster autoscaler subchart name for '' @ apiProvider))
      else Inr (helmParams @ [helm_param (''tags.'' @ casSubchartName) ''true''],
        ignoreDiffs @ [ignore_diff ''cluster.x-k8s.io'' ''MachineDeployment'' [''/spec/replicas'']]))"

text \<open>The parameters every root application has.\<close>

definition cluster_helm_params :: "string \<Rightarrow> string \<Rightarrow> string \<Rightarrow> string \<Rightarrow> helm_parameter list" where
  "cluster_helm_params clusterName innerClusterName apiProvider managementClusterUrl =
     [helm_param ''global.clusterFullNameWithInnerCluster''
        (if innerClusterName \<noteq> '''' then clusterName @ ''-'' @ innerClusterName else clusterName),
      helm_param ''global.clusterName'' clusterName,
      helm_param ''global.kubeconfigSecretKeyName''
        (mget KubeconfigSecretKeyNameByApiProvider apiProvider),
      helm_param ''global.managementClusterUrl'' managementClusterUrl]
     @ (if innerClusterName \<noteq> '''' then
          [helm_param ''global.innerClusterNameWithDashSuffix'' (innerClusterName @ ''-'')] else [])"

text \<open>What a cluster specification adds: its non-empty entries among the valid keys, its sub-chart and
  the autoscaler.\<close>

definition clusterspec_helm_params :: "config_map \<Rightarrow> helm_parameter list" where
  "clusterspec_helm_params cm =
     concat (map (\<lambda>key. let val = mget (cm_data cm) key in
       if val \<noteq> '''' then [helm_param (''global.'' @ key) val] else []) ValidHelmParamKeys)"

definition gen1_helm_params ::
  "config_map \<Rightarrow> cluster_spec \<Rightarrow> helm_parameter list \<Rightarrow> ignore_difference list \<Rightarrow>
   go_error + helm_parameter list \<times> ignore_difference list" where
  "gen1_helm_params cm cs helmParams ignoreDiffs =
     (let helmParams = helmParams @ clusterspec_helm_params cm in
      case SubchartNameFromClusterSpec cs of
        Inl e \<Rightarrow> Inl (ErrorCtx ''failed to retrieve subchart name: '' e)
      | Inr subchartName \<Rightarrow>
          let helmParams = helmParams @ [helm_param (''tags.'' @ subchartName) ''true''];
              eks = ignore_diff ''controlplane.cluster.x-k8s.io'' ''AWSManagedControlPlane'' [''/spec/version'']
          in if cs_ClusterAutoscalerEnabled cs then
               (case enableClusterAutoscaler (cs_ApiProvider cs) helmParams ignoreDiffs of
                  Inl e \<Rightarrow> Inl (ErrorWrap (''failed to enable cluster autoscaler for ''
                    @ cs_ApiProvider cs @ '': '') e '''')
                | Inr (helmParams, ignoreDiffs) \<Rightarrow> Inr (helmParams, ignoreDiffs @ [eks]))
             else Inr (helmParams, ignoreDiffs @ [eks]))"

definition root_app_meta ::
  "string \<Rightarrow> string \<Rightarrow> string \<Rightarrow> bool \<Rightarrow> string \<Rightarrow> object_meta" where
  "root_app_meta argocdNs clusterName clusterSpecName gen2 profileName =
     (let (appName, arlonType) = (if clusterSpecName = '''' then (clusterName @ ''-arlon'', ''arlon-app'')
            else (clusterName, ''cluster'')) in
      \<lparr>om_name = appName,
       om_namespace = argocdNs,
       om_labels = mlit ([(''managed-by'', ''arlon''), (''arlon-type'', arlonType)]
         @ (if gen2 then [(''arlon-cluster'', clusterName)] else [])),
       om_annotations = mlit [(ClusterSpecAnnotationKey, clusterSpecName), (ProfileAnnotationKey, profileName)],
       om_finalizers = [ForegroundPropagationPolicyFinalizer],
       om_deletion = None\<rparr>)"

definition root_app_spec ::
  "string \<Rightarrow> string \<Rightarrow> string \<Rightarrow> helm_parameter list \<Rightarrow> ignore_difference list \<Rightarrow> application_spec" where
  "root_app_spec repoUrl repoBranch repoPath helmParams ignoreDiffs =
     \<lparr>app_Source = \<lparr>src_RepoURL = repoUrl, src_Path = repoPath, src_TargetRevision = repoBranch,
        src_Helm = Some helmParams, src_Kustomize_NamePrefix = None\<rparr>,
      app_Destination_Server = ''https://kubernetes.default.svc'',
      app_Destination_Namespace = ''default'',
      app_Project = '''',
      app_SyncPolicy = Some \<lparr>sp_Automated_Prune = Some True, sp_SyncOptions = [''Prune=true'']\<rparr>,
      app_IgnoreDifferences = ignoreDiffs\<rparr>"

definition ConstructRootApp ::
  "string \<Rightarrow> string \<Rightarrow> string \<Rightarrow> string \<Rightarrow> string \<Rightarrow> string \<Rightarrow> string \<Rightarrow> config_map option \<Rightarrow> string \<Rightarrow>
   string \<Rightarrow> bool \<Rightarrow> go_error + application" where
  "ConstructRootApp argocdNs clusterName innerClusterName repoUrl repoBranch repoPath clusterSpecName
     clusterSpecCm profileName managementClusterUrl gen2CAS =
     (case clusterSpecCm of
        Some cm \<Rightarrow>
          (case FromConfigMap cm of
             Inl e \<Rightarrow> Inl (ErrorCtx ''failed to read clusterspec from configmap: '' e)
           | Inr cs \<Rightarrow>
               (case gen1_helm_params cm cs (cluster_helm_params clusterName innerClusterName
                   (cs_ApiProvider cs) managementClusterUrl) [] of
                  Inl e \<Rightarrow> Inl e
                | Inr (helmParams, ignoreDiffs) \<Rightarrow> Inr
                    \<lparr>app_meta = root_app_meta argocdNs clusterName clusterSpecName False profileName,
                     app_spec = root_app_spec repoUrl repoBranch repoPath helmParams ignoreDiffs\<rparr>))
      | None \<Rightarrow>
          (case (if gen2CAS then enableClusterAutoscaler ''capi'' [] [] else Inr ([], [])) of
             Inl e \<Rightarrow> Inl e
           | Inr (helmParams, _) \<Rightarrow> Inr
               \<lparr>app_meta = root_app_meta argocdNs clusterName clusterSpecName True profileName,
                app_spec = root_app_spec repoUrl repoBranch repoPath
                  (helmParams @ cluster_helm_params clusterName innerClusterName ''capi''
                     managementClusterUrl) []\<rparr>))"

section \<open>The cluster application\<close>

definition constructClusterApp ::
  "string \<Rightarrow> string \<Rightarrow> string \<Rightarrow> string \<Rightarrow> string \<Rightarrow> string \<Rightarrow> bool \<Rightarrow> application" where
  "constructClusterApp argocdNs clusterName baseClusterName repoUrl repoRevision repoPath overridden =
     \<lparr>app_meta =
        \<lparr>om_name = clusterName,
         om_namespace = argocdNs,
         om_labels = mlit [(''managed-by'', ''arlon''), (''arlon-type'', ''cluster-app''),
           (''arlon-cluster'', clusterName)],
         om_annotations = mlit [(baseClusterNameAnnotation, baseClusterName),
           (baseClusterRepoUrlAnnotation, repoUrl), (baseClusterRepoRevisionAnnotation, repoRevision),
           (baseClusterRepoPathAnnotation, repoPath), (baseClusterOverridden, FormatBool overridden)],
         om_finalizers = [ForegroundPropagationPolicyFinalizer],
         om_deletion = None\<rparr>,
      app_spec =
        \<lparr>app_Source = \<lparr>src_RepoURL = repoUrl,
           src_Path = (if overridden then repoPath @ ''/'' @ clusterName else repoPath),
           src_TargetRevision = repoRevision, src_Helm = None,
           src_Kustomize_NamePrefix = Some (clusterName @ ''-'')\<rparr>,
         app_Destination_Server = ''https://kubernetes.default.svc'',
         app_Destination_Namespace = clusterName,
         app_Project = '''',
         app_SyncPolicy = Some \<lparr>sp_Automated_Prune = Some True, sp_SyncOptions = [''Prune=true'']\<rparr>,
         app_IgnoreDifferences =
           [ignore_diff ''cluster.x-k8s.io'' ''MachineDeployment'' [''/spec/replicas''],
            ignore_diff ''controlplane.cluster.x-k8s.io'' ''AWSManagedControlPlane'' [''/spec/version''],
            ignore_diff ''infrastructure.cluster.x-k8s.io'' ''AWSMachineTemplate'' [''/spec'']]\<rparr>\<rparr>"

definition CreateClusterApp ::
  "'w application_client \<Rightarrow> string \<Rightarrow> string \<Rightarrow> string \<Rightarrow> string \<Rightarrow> string \<Rightarrow> string \<Rightarrow> bool \<Rightarrow> bool \<Rightarrow>
   ('w, application) io" where
  "CreateClusterApp appIf argocdNs clusterName baseClusterName repoUrl repoRevision repoPath
     createInArgoCd overridden =
     (let app = constructClusterApp argocdNs clusterName baseClusterName repoUrl repoRevision repoPath
            overridden in
      if createInArgoCd then
        must (appIf_Create appIf app) (ErrorCtx ''failed to create cluster application: '') (\<lambda>_. ret app)
      else ret app)"

section \<open>The profile applications\<close>

definition constructProfileApp :: "string \<Rightarrow> string \<Rightarrow> string \<Rightarrow> profile \<Rightarrow> application" where
  "constructProfileApp appName argocdNs clusterName prof =
     (let profName = om_name (prof_meta prof) in
     \<lparr>app_meta =
        \<lparr>om_name = appName,
         om_namespace = argocdNs,
         om_labels = mlit [(''managed-by'', ''arlon''), (''arlon-type'', ''profile-app''),
           (''arlon-cluster'', clusterName), (''arlon-profile'', profName)],
         om_annotations = mlit [(ProfileAnnotationKey, profName)],
         om_finalizers = [ForegroundPropagationPolicyFinalizer],
         om_deletion = None\<rparr>,
      app_spec =
        \<lparr>app_Source = \<lparr>src_RepoURL = pf_RepoUrl (prof_spec prof),
           src_Path = path_Join [pf_RepoPath (prof_spec prof), ''mgmt''],
           src_TargetRevision = pf_RepoRevision (prof_spec prof),
           src_Helm = Some [helm_param ''clusterName'' clusterName, helm_param ''profileAppName'' appName],
           src_Kustomize_NamePrefix = None\<rparr>,
         app_Destination_Server = ''https://kubernetes.default.svc'',
         app_Destination_Namespace = argocdNs,
         app_Project = '''',
         app_SyncPolicy = Some \<lparr>sp_Automated_Prune = Some True, sp_SyncOptions = []\<rparr>,
         app_IgnoreDifferences = []\<rparr>\<rparr>)"

definition CreateProfileApp ::
  "string \<Rightarrow> 'w application_client \<Rightarrow> string \<Rightarrow> string \<Rightarrow> profile \<Rightarrow> bool \<Rightarrow> ('w, application) io" where
  "CreateProfileApp profileAppName appIf argocdNs clusterName prof createInArgoCd =
     (let app = constructProfileApp profileAppName argocdNs clusterName prof in
      if createInArgoCd then
        must (appIf_Create appIf app) (ErrorCtx ''failed to create profile app: '') (\<lambda>_. ret app)
      else ret app)"

text \<open>
  The error of the list call is not looked at before the items are: when it fails, the list is a nil
  pointer and reading its items panics.
\<close>

definition DestroyProfileApps :: "'w application_client \<Rightarrow> string \<Rightarrow> ('w, unit) io" where
  "DestroyProfileApps appIf clusterName =
     attempt (appIf_List appIf (''arlon-cluster='' @ clusterName @ '',arlon-type=profile-app''))
       (\<lambda>err. panic ''nil pointer dereference'')
       (\<lambda>apps. forM (\<lambda>app _. must (appIf_Delete appIf (app_name app) True)
            (ErrorCtx (''failed to delete related profile app '' @ app_name app @ '': ''))
            (\<lambda>_. ret ())) apps ())"

end
