(* ===== verification/Appprofile.thy ===== *)
theory Appprofile
  imports App Cluster_Apps
begin

text \<open>
  Application profiles (\<open>pkg/appprofile\<close>): the reconciliation that copies the profile annotation of
  Arlon's clusters to the clusters of ArgoCD, checks the application names of every profile and sets
  the elements of every application's list generator to the clusters that use it. The JSON decoder
  and the order in which a set is iterated over are parameters.
\<close>

section \<open>Reading\<close>

definition appprofile_List :: "'w rest_config \<Rightarrow> string \<Rightarrow> ('w, app_profile list) io" where
  "appprofile_List config ns =
     must (ctrlruntimeclient_NewClient config) (ErrorCtx ''failed to get controller runtime client: '')
       (\<lambda>cli.
     must (api_list (cli_AppProfiles cli) ns '''') (ErrorCtx ''failed to list application profiles: '') ret)"

text \<open>A set that a map of sets gives for a key; a missing one is nil and reads as the empty set.\<close>

definition set_at :: "(string \<rightharpoonup> string set) \<Rightarrow> string \<Rightarrow> string set" where
  "set_at m k = (case m k of None \<Rightarrow> {} | Some s \<Rightarrow> s)"

section \<open>Clusters\<close>

definition updateProfileToClustersMap ::
  "string \<Rightarrow> string \<Rightarrow> (string \<rightharpoonup> string set) \<Rightarrow> (string \<rightharpoonup> string set)" where
  "updateProfileToClustersMap clustName commaSeparatedProfileNames profileToClusters =
     (if commaSeparatedProfileNames = '''' then profileToClusters
      else foldl (\<lambda>m p. m(p \<mapsto> insert clustName (set_at m p))) profileToClusters
        (split_on (CHR '','') commaSeparatedProfileNames))"

type_synonym cluster_tables = "(string \<rightharpoonup> string set) \<times> (string \<rightharpoonup> string)"

definition reconcile_cluster ::
  "'w cluster_client \<Rightarrow> (string \<rightharpoonup> application) \<Rightarrow> argo_cluster \<Rightarrow> cluster_tables \<Rightarrow>
   ('w, cluster_tables) io" where
  "reconcile_cluster clApi arlonClusterMap argoClust tables =
     (case tables of (profileToClusters, clustNameToServer) \<Rightarrow>
     let anns = (case acl_Annotations argoClust of None \<Rightarrow> Map.empty | Some m \<Rightarrow> m);
         clustNameToServer = clustNameToServer(acl_Name argoClust \<mapsto> acl_Server argoClust);
         argoClustAnnotation = mget (Some anns) ProfilesAnnotationKey;
         update = (\<lambda>newAnns k. must (clIf_Update clApi (argoClust\<lparr>acl_Annotations := Some newAnns\<rparr>)
             [''annotations'']) (ErrorCtx ''failed to update argo cluster: '') (\<lambda>_. k)) in
     case arlonClusterMap (acl_Name argoClust) of
       None \<Rightarrow> ret (updateProfileToClustersMap (acl_Name argoClust) argoClustAnnotation
           profileToClusters, clustNameToServer)
     | Some arlonClust \<Rightarrow>
         let arlonClustAnnotation = mget (om_annotations (app_meta arlonClust)) ProfilesAnnotationKey;
             finish = ret (updateProfileToClustersMap (app_name arlonClust) arlonClustAnnotation
               profileToClusters, clustNameToServer) in
         if arlonClustAnnotation \<noteq> '''' then
           (if argoClustAnnotation \<noteq> arlonClustAnnotation
            then update (anns(ProfilesAnnotationKey \<mapsto> arlonClustAnnotation)) finish
            else finish)
         else if argoClustAnnotation \<noteq> '''' then
           update (anns(ProfilesAnnotationKey := None)) finish
         else ret (profileToClusters, clustNameToServer))"

section \<open>Profiles\<close>

text \<open>What the loop over the application names of a profile adds to the clusters of the valid ones.\<close>

definition add_profile_apps ::
  "string set \<Rightarrow> string set option \<Rightarrow> string list \<Rightarrow> (string \<rightharpoonup> string set) \<Rightarrow> (string \<rightharpoonup> string set)"
where
  "add_profile_apps validAppNames clustersUsingThisProfile appNames appToClusters =
     foldl (\<lambda>m a. if a \<notin> validAppNames then m
         else m(a \<mapsto> (case clustersUsingThisProfile of None \<Rightarrow> set_at m a | Some cs \<Rightarrow> set_at m a \<union> cs)))
       appToClusters appNames"

text \<open>The new status of a profile, and whether it differs from the old one.\<close>

definition profile_health ::
  "(string set \<Rightarrow> string list) \<Rightarrow> string set \<Rightarrow> app_profile \<Rightarrow> app_profile \<times> bool" where
  "profile_health iter validAppNames prof =
     (let beforeInvalidNames = set (ap_InvalidAppNames prof);
          afterInvalidNames = set (filter (\<lambda>a. a \<notin> validAppNames) (ap_AppNames prof));
          (prof, dirty) = (if beforeInvalidNames \<noteq> afterInvalidNames
            then (prof\<lparr>ap_InvalidAppNames := iter afterInvalidNames\<rparr>, True) else (prof, False));
          beforeHealth = ap_Health prof;
          afterHealth = (if length (ap_InvalidAppNames prof) > 0 then ''degraded'' else ''healthy'')
      in if beforeHealth \<noteq> afterHealth then (prof\<lparr>ap_Health := afterHealth\<rparr>, True) else (prof, dirty))"

definition reconcile_profile ::
  "'w ctrl_client \<Rightarrow> (string set \<Rightarrow> string list) \<Rightarrow> string set \<Rightarrow> (string \<rightharpoonup> string set) \<Rightarrow> app_profile \<Rightarrow>
   (string \<rightharpoonup> string set) \<Rightarrow> ('w, string \<rightharpoonup> string set) io" where
  "reconcile_profile cli iter validAppNames profileToClusters prof appToClusters =
     (let appToClusters = add_profile_apps validAppNames (profileToClusters (om_name (ap_meta prof)))
            (ap_AppNames prof) appToClusters;
          (prof, dirty) = profile_health iter validAppNames prof in
      if dirty then
        must (api_update_status (cli_AppProfiles cli) (om_namespace (ap_meta prof)) prof)
          (ErrorCtx ''failed to update app profile: '') (\<lambda>_. ret appToClusters)
      else ret appToClusters)"

section \<open>Applications\<close>

text \<open>What the program looks at of a decoded JSON value.\<close>

datatype json_value = JString string | JOther

type_synonym json_decoder = "string \<Rightarrow> go_error + (string \<times> json_value) list"

definition add_cluster_name :: "string set \<Rightarrow> string \<times> json_value \<Rightarrow> string set" where
  "add_cluster_name s kv =
     (if fst kv = ''cluster_name'' then (case snd kv of JString c \<Rightarrow> insert c s | JOther \<Rightarrow> s) else s)"

text \<open>The loop over the elements of the generator ends at the first one that cannot be decoded.\<close>

fun clusters_of_elements :: "json_decoder \<Rightarrow> string list \<Rightarrow> string set \<Rightarrow> string set" where
  "clusters_of_elements unmarshal [] acc = acc"
| "clusters_of_elements unmarshal (e # es) acc = (case unmarshal e of
       Inl err \<Rightarrow> acc
     | Inr element \<Rightarrow> clusters_of_elements unmarshal es (foldl add_cluster_name acc element))"

definition dq :: string where
  "dq = [CHR 0x22]"

definition cluster_element :: "string \<Rightarrow> string \<Rightarrow> string" where
  "cluster_element clustName server =
     ''{'' @ dq @ ''cluster_name'' @ dq @ '':'' @ dq @ clustName @ dq @ '', ''
     @ dq @ ''cluster_server'' @ dq @ '':'' @ dq @ server @ dq @ ''}''"

definition server_of :: "(string \<rightharpoonup> string) \<Rightarrow> string \<Rightarrow> string" where
  "server_of clustNameToServer c = mget (Some clustNameToServer) c"

definition new_elements :: "(string set \<Rightarrow> string list) \<Rightarrow> (string \<rightharpoonup> string) \<Rightarrow> string set \<Rightarrow> string list" where
  "new_elements iter clustNameToServer clusters =
     map (\<lambda>c. cluster_element c (server_of clustNameToServer c)) (iter clusters)"

definition reconcile_app ::
  "'w ctrl_client \<Rightarrow> json_decoder \<Rightarrow> (string set \<Rightarrow> string list) \<Rightarrow> (string \<rightharpoonup> string) \<Rightarrow>
   (string \<rightharpoonup> string set) \<Rightarrow> application_set \<Rightarrow> unit \<Rightarrow> ('w, unit) io" where
  "reconcile_app cli unmarshal iter clustNameToServer appToClusters app u =
     (case aps_Generators app of
        [ListGen elems] \<Rightarrow>
          let beforeClusters = clusters_of_elements unmarshal elems {};
              afterClusters = set_at appToClusters (aps_name app) in
          if afterClusters = beforeClusters then ret ()
          else must (api_update (cli_ApplicationSets cli) (om_namespace (aps_meta app))
              (app\<lparr>aps_Generators := [ListGen (new_elements iter clustNameToServer afterClusters)]\<rparr>))
            (ErrorCtx ''failed to update applicationset: '') (\<lambda>_. ret ())
      | _ \<Rightarrow> ret ())"

section \<open>The whole reconciliation\<close>

definition arlon_cluster_map :: "application list \<Rightarrow> (string \<rightharpoonup> application)" where
  "arlon_cluster_map apps = foldl (\<lambda>m a. m(app_name a \<mapsto> a)) Map.empty apps"

definition ReconcileEverything ::
  "'w ctrl_client \<Rightarrow> 'w argocd_client \<Rightarrow> json_decoder \<Rightarrow> (string set \<Rightarrow> string list) \<Rightarrow> ('w, unit) io" where
  "ReconcileEverything cli argocli unmarshal iter =
     must (argo_NewClusterClient argocli) (ErrorCtx ''failed to get argocd clusters client: '') (\<lambda>clApi.
     must (clIf_List clApi) (ErrorCtx ''failed to list argocd clusters: '') (\<lambda>argoClusters.
     must (argo_NewApplicationClient argocli) (ErrorCtx ''failed to get argocd application client: '')
       (\<lambda>appApi.
     must (appIf_List appApi ArlonGen2ClusterLabelQueryOnArgoApps)
       (ErrorCtx ''failed to list argocd applications: '') (\<lambda>arlonClusters.
     must (api_list (cli_ApplicationSets cli) ''argocd'' (selector application_labels))
       (ErrorCtx ''failed to list applicationsets: '') (\<lambda>appList.
     must (api_list (cli_AppProfiles cli) '''' '''') (ErrorCtx ''failed to list app profiles: '')
       (\<lambda>profList.
     andThen (forM (reconcile_cluster clApi (arlon_cluster_map arlonClusters)) argoClusters
         (Map.empty, Map.empty)) (\<lambda>(profileToClusters, clustNameToServer).
     andThen (forM (reconcile_profile cli iter (set (map aps_name appList)) profileToClusters) profList
         Map.empty) (\<lambda>appToClusters.
     forM (reconcile_app cli unmarshal iter clustNameToServer appToClusters) appList ()))))))))"



definition appprofile_Reconcile ::
  "'w ctrl_client \<Rightarrow> 'w argocd_client \<Rightarrow> json_decoder \<Rightarrow> (string set \<Rightarrow> string list) \<Rightarrow> string \<Rightarrow> string \<Rightarrow>
   ('w, ctrl_result) io" where
  "appprofile_Reconcile cli argocli unmarshal iter ns name =
     attempt (api_get (cli_AppProfiles cli) ns name)
       (\<lambda>err. if IsNotFound err
          then andThen (ReconcileEverything cli argocli unmarshal iter) (\<lambda>_. ret no_result)
          else ret requeue_result)
       (\<lambda>prof. andThen (ReconcileEverything cli argocli unmarshal iter) (\<lambda>_. ret no_result))"

end
