(* ===== verification/Appprofile_Correct.thy ===== *)
theory Appprofile_Correct
  imports Appprofile
begin

text \<open>
  What the reconciliation of application profiles achieves: on success it has applied the function
  \<open>reconciled\<close> to the clusters, applications and profiles that are stored, and one application of it
  reaches a state that the next one leaves alone.
\<close>

section \<open>The clusters of a profile and of an application\<close>

lemma set_at_update [simp]: "set_at (m(k \<mapsto> s)) p = (if p = k then s else set_at m p)"
  by (simp add: set_at_def)

lemma set_at_empty [simp]: "set_at Map.empty p = {}"
  by (simp add: set_at_def)

definition profiles_of_annotation :: "string \<Rightarrow> string set" where
  "profiles_of_annotation a = (if a = '''' then {} else set (split_on (CHR '','') a))"

lemma set_at_add_clusters:
  "set_at (foldl (\<lambda>m p. m(p \<mapsto> insert c (set_at m p))) m ps) q =
     set_at m q \<union> (if q \<in> set ps then {c} else {})"
  by (induction ps arbitrary: m) auto

lemma set_at_updateProfileToClustersMap:
  "set_at (updateProfileToClustersMap c a m) q =
     set_at m q \<union> (if q \<in> profiles_of_annotation a then {c} else {})"
  by (simp add: updateProfileToClustersMap_def profiles_of_annotation_def set_at_add_clusters)

text \<open>The annotation that counts for a cluster: Arlon's where there is an Arlon cluster of its name.\<close>

definition effective_annotation :: "(string \<rightharpoonup> application) \<Rightarrow> argo_cluster \<Rightarrow> string" where
  "effective_annotation arlonClusterMap c = (case arlonClusterMap (acl_Name c) of
       None \<Rightarrow> mget (acl_Annotations c) ProfilesAnnotationKey
     | Some a \<Rightarrow> mget (om_annotations (app_meta a)) ProfilesAnnotationKey)"

definition cluster_step :: "(string \<rightharpoonup> application) \<Rightarrow> argo_cluster \<Rightarrow> cluster_tables \<Rightarrow> cluster_tables" where
  "cluster_step arlonClusterMap c tables =
     (updateProfileToClustersMap (acl_Name c) (effective_annotation arlonClusterMap c) (fst tables),
      (snd tables)(acl_Name c \<mapsto> acl_Server c))"

lemma set_at_cluster_steps:
  "set_at (fst (fold (cluster_step am) cs t)) p =
     set_at (fst t) p \<union> {acl_Name c |c. c \<in> set cs \<and> p \<in> profiles_of_annotation (effective_annotation am c)}"
  by (induction cs arbitrary: t) (auto simp: cluster_step_def set_at_updateProfileToClustersMap)

lemma servers_cluster_steps:
  "snd (fold (cluster_step am) cs t) = snd t ++ map_of (rev (map (\<lambda>c. (acl_Name c, acl_Server c)) cs))"
  by (induction cs arbitrary: t) (simp_all add: cluster_step_def map_add_def fun_eq_iff split: option.splits)

lemma set_at_add_profile_apps:
  "set_at (add_profile_apps V cs names m) a =
     set_at m a \<union> (if a \<in> V \<and> a \<in> set names then (case cs of None \<Rightarrow> {} | Some s \<Rightarrow> s) else {})"
  by (induction names arbitrary: m) (auto simp: add_profile_apps_def split: option.splits)

definition profile_step ::
  "string set \<Rightarrow> (string \<rightharpoonup> string set) \<Rightarrow> app_profile \<Rightarrow> (string \<rightharpoonup> string set) \<Rightarrow> (string \<rightharpoonup> string set)"
where
  "profile_step V ptc prof m = add_profile_apps V (ptc (om_name (ap_meta prof))) (ap_AppNames prof) m"

lemma set_at_profile_steps:
  "set_at (fold (profile_step V ptc) ps m) a =
     set_at m a \<union> (\<Union>p \<in> {p \<in> set ps. a \<in> V \<and> a \<in> set (ap_AppNames p)}. set_at ptc (om_name (ap_meta p)))"
proof (induction ps arbitrary: m)
  case Nil
  then show ?case by simp
next
  case (Cons p ps)
  have "set_at (profile_step V ptc p m) a =
    set_at m a \<union> (if a \<in> V \<and> a \<in> set (ap_AppNames p) then set_at ptc (om_name (ap_meta p)) else {})"
    by (simp add: profile_step_def set_at_add_profile_apps set_at_def [of ptc])
  then show ?case by (auto simp: Cons.IH)
qed

section \<open>The element of a cluster\<close>

text \<open>A name that needs no escaping in JSON.\<close>

definition json_plain :: "string \<Rightarrow> bool" where
  "json_plain s \<longleftrightarrow> list_all (\<lambda>c. c \<noteq> CHR 0x22 \<and> c \<noteq> CHR 0x5C \<and> 32 \<le> (of_char c :: nat)
     \<and> (of_char c :: nat) < 127) s"

text \<open>
  What is asked of the decoder: an object with two string members, written without escapes, decodes
  to these members in some order. And of the iteration over a set: it meets the elements of a finite
  set.
\<close>

definition lawful_decoder :: "json_decoder \<Rightarrow> bool" where
  "lawful_decoder unmarshal \<longleftrightarrow> (\<forall>c s. json_plain c \<longrightarrow> json_plain s \<longrightarrow>
     (\<exists>kvs. unmarshal (cluster_element c s) = Inr kvs
       \<and> set kvs = {(''cluster_name'', JString c), (''cluster_server'', JString s)}))"

definition lawful_iter :: "(string set \<Rightarrow> string list) \<Rightarrow> bool" where
  "lawful_iter iter \<longleftrightarrow> (\<forall>S. finite S \<longrightarrow> set (iter S) = S)"

lemma foldl_add_cluster_name:
  "foldl add_cluster_name acc kvs = acc \<union> {c. (''cluster_name'', JString c) \<in> set kvs}"
proof (induction kvs arbitrary: acc)
  case (Cons kv kvs)
  obtain k v where "kv = (k, v)" by fastforce
  with Cons.IH show ?case by (cases v) (auto simp: add_cluster_name_def)
qed simp

lemma clusters_of_new_elements:
  assumes "lawful_decoder unmarshal" "\<forall>c \<in> set cs. json_plain c \<and> json_plain (server_of srv c)"
  shows "clusters_of_elements unmarshal (map (\<lambda>c. cluster_element c (server_of srv c)) cs) acc = acc \<union> set cs"
  using assms(2)
proof (induction cs arbitrary: acc)
  case (Cons c cs)
  from assms(1) Cons.prems obtain kvs where kvs: "unmarshal (cluster_element c (server_of srv c)) = Inr kvs"
    "set kvs = {(''cluster_name'', JString c), (''cluster_server'', JString (server_of srv c))}"
    unfolding lawful_decoder_def by (meson list.set_intros(1))
  then have "foldl add_cluster_name acc kvs = insert c acc"
    by (simp add: foldl_add_cluster_name)
  with kvs Cons show ?case by simp
qed simp

lemma clusters_of_new_elements_iter:
  assumes "lawful_decoder unmarshal" "lawful_iter iter" "finite S"
    "\<forall>c \<in> S. json_plain c \<and> json_plain (server_of srv c)"
  shows "clusters_of_elements unmarshal (new_elements iter srv S) {} = S"
proof -
  have "set (iter S) = S" using assms(2,3) by (simp add: lawful_iter_def)
  then show ?thesis
    using clusters_of_new_elements [of unmarshal "iter S" srv "{}"] assms(1,4)
    by (simp add: new_elements_def)
qed

section \<open>One step of each loop as a function\<close>

text \<open>A cluster with the annotation its Arlon cluster asks for.\<close>

definition synced :: "(string \<rightharpoonup> application) \<Rightarrow> argo_cluster \<Rightarrow> argo_cluster" where
  "synced am c =
     (let have = mget (acl_Annotations c) ProfilesAnnotationKey;
          want = effective_annotation am c;
          anns = (case acl_Annotations c of None \<Rightarrow> Map.empty | Some m \<Rightarrow> m)
      in if have = want then c
         else if want = '''' then c\<lparr>acl_Annotations := Some (anns(ProfilesAnnotationKey := None))\<rparr>
         else c\<lparr>acl_Annotations := Some (anns(ProfilesAnnotationKey \<mapsto> want))\<rparr>)"

definition refreshed ::
  "json_decoder \<Rightarrow> (string set \<Rightarrow> string list) \<Rightarrow> (string \<rightharpoonup> string) \<Rightarrow> (string \<rightharpoonup> string set) \<Rightarrow>
   application_set \<Rightarrow> application_set" where
  "refreshed unmarshal iter srv atc app = (case aps_Generators app of
       [ListGen elems] \<Rightarrow>
         if set_at atc (aps_name app) = clusters_of_elements unmarshal elems {} then app
         else app\<lparr>aps_Generators := [ListGen (new_elements iter srv (set_at atc (aps_name app)))]\<rparr>
     | _ \<Rightarrow> app)"

definition checked_profile :: "(string set \<Rightarrow> string list) \<Rightarrow> string set \<Rightarrow> app_profile \<Rightarrow> app_profile" where
  "checked_profile iter V p = fst (profile_health iter V p)"

lemma synced_fields [simp]: "acl_Name (synced am c) = acl_Name c" "acl_Server (synced am c) = acl_Server c"
  by (simp_all add: synced_def Let_def)

lemma effective_annotation_external:
  "am (acl_Name c) = None \<Longrightarrow> effective_annotation am c = mget (acl_Annotations c) ProfilesAnnotationKey"
  by (simp add: effective_annotation_def)

lemma synced_annotation:
  "mget (acl_Annotations (synced am c)) ProfilesAnnotationKey = effective_annotation am c"
  by (simp add: synced_def Let_def)

lemma effective_synced [simp]: "effective_annotation am (synced am c) = effective_annotation am c"
  by (cases "am (acl_Name c)") (simp_all add: effective_annotation_def synced_annotation)

lemma synced_idem: "synced am (synced am c) = synced am c"
  by (simp add: synced_def [of am "synced am c"] synced_annotation)

lemma synced_other_annotations:
  "k \<noteq> ProfilesAnnotationKey \<Longrightarrow> mget (acl_Annotations (synced am c)) k = mget (acl_Annotations c) k"
  by (cases "acl_Annotations c") (simp_all add: synced_def Let_def)

lemma refreshed_fields [simp]:
  "aps_meta (refreshed u it srv atc a) = aps_meta a"
  by (simp add: refreshed_def split: list.splits generator.splits)

lemma checked_profile_fields [simp]:
  "ap_meta (checked_profile iter V p) = ap_meta p"
  "ap_AppNames (checked_profile iter V p) = ap_AppNames p"
  by (simp_all add: checked_profile_def profile_health_def Let_def)

lemma checked_profile_status:
  assumes "lawful_iter iter"
  shows "set (ap_InvalidAppNames (checked_profile iter V p)) = {a \<in> set (ap_AppNames p). a \<notin> V}"
    "ap_Health (checked_profile iter V p) =
       (if \<exists>a \<in> set (ap_AppNames p). a \<notin> V then ''degraded'' else ''healthy'')"
proof -
  let ?S = "{a \<in> set (ap_AppNames p). a \<notin> V}"
  have it: "set (iter ?S) = ?S" using assms by (simp add: lawful_iter_def)
  show 1: "set (ap_InvalidAppNames (checked_profile iter V p)) = ?S"
    using it by (cases "set (ap_InvalidAppNames p) = ?S")
      (simp_all add: checked_profile_def profile_health_def Let_def)
  have "ap_Health (checked_profile iter V p) =
      (if ap_InvalidAppNames (checked_profile iter V p) \<noteq> [] then ''degraded'' else ''healthy'')"
    by (cases "set (ap_InvalidAppNames p) = ?S") (simp_all add: checked_profile_def profile_health_def Let_def)
  also have "ap_InvalidAppNames (checked_profile iter V p) \<noteq> [] \<longleftrightarrow> ?S \<noteq> {}"
    using 1 by (metis set_empty)
  finally show "ap_Health (checked_profile iter V p) =
       (if \<exists>a \<in> set (ap_AppNames p). a \<notin> V then ''degraded'' else ''healthy'')"
    by auto
qed

text \<open>The flag is raised only when the profile differs, or its list of invalid names is the same set in
  another order.\<close>

lemma profile_health_clean: "\<not> snd (profile_health iter V p) \<Longrightarrow> checked_profile iter V p = p"
  by (auto simp: checked_profile_def profile_health_def Let_def split: if_splits)

lemma checked_profile_idem:
  assumes "lawful_iter iter"
  shows "checked_profile iter V (checked_profile iter V p) = checked_profile iter V p"
proof (rule profile_health_clean)
  let ?q = "checked_profile iter V p"
  have "set (ap_InvalidAppNames ?q) = {a \<in> set (ap_AppNames ?q). a \<notin> V}"
    "ap_Health ?q = (if ap_InvalidAppNames ?q \<noteq> [] then ''degraded'' else ''healthy'')"
    using checked_profile_status [OF assms, of V p] by (auto simp flip: set_empty)
  then show "\<not> snd (profile_health iter V ?q)"
    by (simp add: profile_health_def Let_def)
qed

section \<open>The stored world\<close>

text \<open>
  What the reconciliation reads and writes: the clusters of ArgoCD, the cluster applications, the
  application sets of Arlon in the namespace of ArgoCD, the profiles of all namespaces. \<open>st\<close> reads
  it off the world. The laws of the clients speak of calls that succeed: a list returns what is
  stored, a write replaces the object of the same key (the server of a cluster, the name of an
  application set, the namespace and name of a profile), the fields it was asked to update.
\<close>

record ap_world =
  apw_clusters :: "argo_cluster list"
  apw_apps :: "application list"
  apw_sets :: "application_set list"
  apw_profiles :: "app_profile list"

definition profile_key :: "app_profile \<Rightarrow> string \<times> string" where
  "profile_key p = (om_namespace (ap_meta p), om_name (ap_meta p))"

definition wf_ap_world :: "ap_world \<Rightarrow> bool" where
  "wf_ap_world s \<longleftrightarrow> distinct (map acl_Server (apw_clusters s)) \<and> distinct (map aps_name (apw_sets s))
     \<and> distinct (map profile_key (apw_profiles s))
     \<and> list_all (\<lambda>a. om_namespace (aps_meta a) = ''argocd'') (apw_sets s)"

definition put_annotations :: "argo_cluster \<Rightarrow> argo_cluster list \<Rightarrow> argo_cluster list" where
  "put_annotations c cs = map (\<lambda>x. if acl_Server x = acl_Server c
     then x\<lparr>acl_Annotations := acl_Annotations c\<rparr> else x) cs"

definition put_set :: "application_set \<Rightarrow> application_set list \<Rightarrow> application_set list" where
  "put_set a as = map (\<lambda>x. if aps_name x = aps_name a then a else x) as"

definition put_status :: "app_profile \<Rightarrow> app_profile list \<Rightarrow> app_profile list" where
  "put_status p ps = map (\<lambda>x. if profile_key x = profile_key p
     then x\<lparr>ap_Health := ap_Health p, ap_InvalidAppNames := ap_InvalidAppNames p\<rparr> else x) ps"

definition lawful_clusters :: "('w \<Rightarrow> ap_world) \<Rightarrow> 'w cluster_client \<Rightarrow> bool" where
  "lawful_clusters st clApi \<longleftrightarrow>
     (\<forall>w cs w'. clIf_List clApi w = (Inr cs, w') \<longrightarrow> cs = apw_clusters (st w) \<and> st w' = st w) \<and>
     (\<forall>c w c' w'. clIf_Update clApi c [''annotations''] w = (Inr c', w') \<longrightarrow>
       st w' = (st w)\<lparr>apw_clusters := put_annotations c (apw_clusters (st w))\<rparr>)"

definition lawful_argocd :: "('w \<Rightarrow> ap_world) \<Rightarrow> 'w argocd_client \<Rightarrow> bool" where
  "lawful_argocd st argocli \<longleftrightarrow>
     (\<forall>w clApi w'. argo_NewClusterClient argocli w = (Inr clApi, w') \<longrightarrow>
       st w' = st w \<and> lawful_clusters st clApi) \<and>
     (\<forall>w appApi w'. argo_NewApplicationClient argocli w = (Inr appApi, w') \<longrightarrow> st w' = st w \<and>
       (\<forall>w as w'. appIf_List appApi ArlonGen2ClusterLabelQueryOnArgoApps w = (Inr as, w') \<longrightarrow>
          as = apw_apps (st w) \<and> st w' = st w))"

definition lawful_sets :: "('w \<Rightarrow> ap_world) \<Rightarrow> 'w ctrl_client \<Rightarrow> bool" where
  "lawful_sets st cli \<longleftrightarrow>
     (\<forall>w as w'. api_list (cli_ApplicationSets cli) ''argocd'' (selector application_labels) w = (Inr as, w')
       \<longrightarrow> as = apw_sets (st w) \<and> st w' = st w) \<and>
     (\<forall>a w a' w'. api_update (cli_ApplicationSets cli) ''argocd'' a w = (Inr a', w') \<longrightarrow>
       st w' = (st w)\<lparr>apw_sets := put_set a (apw_sets (st w))\<rparr>)"

definition lawful_profiles :: "('w \<Rightarrow> ap_world) \<Rightarrow> 'w ctrl_client \<Rightarrow> bool" where
  "lawful_profiles st cli \<longleftrightarrow>
     (\<forall>w ps w'. api_list (cli_AppProfiles cli) '''' '''' w = (Inr ps, w') \<longrightarrow>
       ps = apw_profiles (st w) \<and> st w' = st w) \<and>
     (\<forall>p w p' w'. api_update_status (cli_AppProfiles cli) (om_namespace (ap_meta p)) p w = (Inr p', w') \<longrightarrow>
       st w' = (st w)\<lparr>apw_profiles := put_status p (apw_profiles (st w))\<rparr>)"

text \<open>Replacing the elements of a list one at a time.\<close>

lemma replace_next:
  assumes "distinct (map key xs)" "x \<in> set xs"
    and "\<And>y. key (g y) = key y" "h x = g x" "h (g x) = g x"
  shows "map (\<lambda>y. if key y = key x then h y else y) (map (\<lambda>y. if y \<in> set ds then g y else y) xs) =
    map (\<lambda>y. if y \<in> set (ds @ [x]) then g y else y) xs"
proof -
  have "key y = key x \<longleftrightarrow> y = x" if "y \<in> set xs" for y
    using assms(1,2) that by (auto simp: distinct_map inj_on_def)
  with assms(3-5) show ?thesis by auto
qed

section \<open>The loops\<close>

definition proper_app_map :: "(string \<rightharpoonup> application) \<Rightarrow> bool" where
  "proper_app_map am \<longleftrightarrow> (\<forall>n a. am n = Some a \<longrightarrow> app_name a = n)"

lemma proper_arlon_cluster_map: "proper_app_map (arlon_cluster_map as)"
proof -
  have step: "proper_app_map m \<Longrightarrow> proper_app_map (m(app_name a \<mapsto> a))" for m a
    unfolding proper_app_map_def by (metis fun_upd_apply option.inject)
  have "proper_app_map m \<Longrightarrow> proper_app_map (foldl (\<lambda>m a. m(app_name a \<mapsto> a)) m as)" for m
    by (induction as arbitrary: m) (simp_all add: step)
  moreover have "proper_app_map Map.empty" by (simp add: proper_app_map_def)
  ultimately show ?thesis by (simp add: arlon_cluster_map_def)
qed

lemma updateProfileToClustersMap_empty [simp]: "updateProfileToClustersMap c '''' m = m"
  by (simp add: updateProfileToClustersMap_def)

lemma mget_annotations: "mget (Some (case m of None \<Rightarrow> Map.empty | Some f \<Rightarrow> f)) k = mget m k"
  by (cases m) simp_all

text \<open>A step computes the tables, and updates the cluster when its annotation has to change.\<close>

lemma reconcile_cluster_eq:
  assumes "proper_app_map am"
  shows "reconcile_cluster clApi am c t =
    (if mget (acl_Annotations c) ProfilesAnnotationKey = effective_annotation am c
     then ret (cluster_step am c t)
     else must (clIf_Update clApi (synced am c) [''annotations'']) (ErrorCtx ''failed to update argo cluster: '')
       (\<lambda>_. ret (cluster_step am c t)))"
proof (cases "am (acl_Name c)")
  case None
  then show ?thesis
    by (simp add: reconcile_cluster_def mget_annotations cluster_step_def effective_annotation_external
        split: prod.splits)
next
  case (Some a)
  let ?want = "mget (om_annotations (app_meta a)) ProfilesAnnotationKey"
  let ?have = "mget (acl_Annotations c) ProfilesAnnotationKey"
  have name: "app_name a = acl_Name c" using assms Some by (simp add: proper_app_map_def)
  have want: "effective_annotation am c = ?want" by (simp add: effective_annotation_def Some)
  consider "?want \<noteq> ''''" "?have = ?want" | "?want \<noteq> ''''" "?have \<noteq> ?want"
    | "?want = ''''" "?have \<noteq> ''''" | "?want = ''''" "?have = ''''"
    by blast
  then show ?thesis
    by cases (simp_all add: reconcile_cluster_def Let_def mget_annotations cluster_step_def synced_def
        want name Some split: prod.splits)
qed

lemma synced_same_iff:
  "synced am c = c \<longleftrightarrow> mget (acl_Annotations c) ProfilesAnnotationKey = effective_annotation am c"
proof
  assume "synced am c = c"
  then show "mget (acl_Annotations c) ProfilesAnnotationKey = effective_annotation am c"
    using synced_annotation [of am c] by simp
qed (simp add: synced_def)

lemma reconcile_cluster_ok:
  assumes run: "reconcile_cluster clApi am c t w = (Inr t', w')"
    and api: "lawful_clusters st clApi" and am: "proper_app_map am"
  shows "t' = cluster_step am c t \<and>
    (if synced am c = c then st w' = st w
     else st w' = (st w)\<lparr>apw_clusters := put_annotations (synced am c) (apw_clusters (st w))\<rparr>)"
  using run api
  by (auto simp: reconcile_cluster_eq [OF am] synced_same_iff ok_iff lawful_clusters_def split: if_splits)

lemma put_annotations_synced:
  "put_annotations (synced am c) cs =
     map (\<lambda>x. if acl_Server x = acl_Server c then x\<lparr>acl_Annotations := acl_Annotations (synced am c)\<rparr> else x) cs"
  by (simp add: put_annotations_def)

lemma with_synced_annotations [simp]:
  "c\<lparr>acl_Annotations := acl_Annotations (synced am c)\<rparr> = synced am c"
  "(synced am c)\<lparr>acl_Annotations := acl_Annotations (synced am c)\<rparr> = synced am c"
  by (simp_all add: synced_def Let_def)

lemma cluster_loop_ok:
  assumes run: "forM (reconcile_cluster clApi am) (apw_clusters s) t w = (Inr t', w')"
    and api: "lawful_clusters st clApi" and am: "proper_app_map am"
    and s: "st w = s" "distinct (map acl_Server (apw_clusters s))"
  shows "t' = fold (cluster_step am) (apw_clusters s) t"
    and "st w' = s\<lparr>apw_clusters := map (synced am) (apw_clusters s)\<rparr>"
proof -
  let ?cs = "apw_clusters s"
  let ?I = "\<lambda>ds (_::cluster_tables) w.
    st w = s\<lparr>apw_clusters := map (\<lambda>c. if c \<in> set ds then synced am c else c) ?cs\<rparr>"
  show "t' = fold (cluster_step am) ?cs t"
    using run by (rule forM_ok_fold) (use reconcile_cluster_ok [OF _ api am] in blast)
  have "?I ([] @ ?cs) t' w'"
    using run
  proof (rule forM_ok_prefix [where I = ?I])
    show "?I [] t w" using s(1) by simp
  next
    fix ds c t w t' w'
    assume c: "c \<in> set ?cs" and I: "?I ds t w" and r: "reconcile_cluster clApi am c t w = (Inr t', w')"
    note step = reconcile_cluster_ok [OF r api am]
    show "?I (ds @ [c]) t' w'"
    proof (cases "synced am c = c")
      case True
      with step I show ?thesis by (auto cong: if_cong)
    next
      case False
      with step have "st w' = (st w)\<lparr>apw_clusters := put_annotations (synced am c) (apw_clusters (st w))\<rparr>"
        by simp
      with I show ?thesis
        using replace_next [OF s(2) c, where g = "synced am" and ds = ds
            and h = "\<lambda>x. x\<lparr>acl_Annotations := acl_Annotations (synced am c)\<rparr>"]
        by (simp add: put_annotations_synced)
    qed
  qed
  then show "st w' = s\<lparr>apw_clusters := map (synced am) ?cs\<rparr>"
    by (simp cong: map_cong)
qed

lemma reconcile_profile_ok:
  assumes run: "reconcile_profile cli iter V ptc p m w = (Inr m', w')" and api: "lawful_profiles st cli"
  shows "m' = profile_step V ptc p m \<and>
    (st w' = st w \<and> checked_profile iter V p = p
     \<or> st w' = (st w)\<lparr>apw_profiles := put_status (checked_profile iter V p) (apw_profiles (st w))\<rparr>)"
proof -
  obtain q d where h: "profile_health iter V p = (q, d)" by (cases "profile_health iter V p")
  have q: "q = checked_profile iter V p" by (simp add: checked_profile_def h)
  have meta: "ap_meta q = ap_meta p" by (simp add: q)
  show ?thesis
  proof (cases d)
    case True
    with run obtain y where "api_update_status (cli_AppProfiles cli) (om_namespace (ap_meta p)) q w = (Inr y, w')"
      and m': "m' = profile_step V ptc p m"
      by (auto simp: reconcile_profile_def h ok_iff profile_step_def Let_def meta)
    then have "st w' = (st w)\<lparr>apw_profiles := put_status q (apw_profiles (st w))\<rparr>"
      using api by (auto simp: lawful_profiles_def simp flip: meta)
    with m' q show ?thesis by simp
  next
    case False
    with h have "checked_profile iter V p = p" by (intro profile_health_clean) simp
    with run False show ?thesis by (simp add: reconcile_profile_def h ok_iff profile_step_def Let_def)
  qed
qed

lemma with_checked_status [simp]:
  "p\<lparr>ap_Health := ap_Health (checked_profile iter V p),
     ap_InvalidAppNames := ap_InvalidAppNames (checked_profile iter V p)\<rparr> = checked_profile iter V p"
  "(checked_profile iter V p)\<lparr>ap_Health := ap_Health (checked_profile iter V p),
     ap_InvalidAppNames := ap_InvalidAppNames (checked_profile iter V p)\<rparr> = checked_profile iter V p"
  by (simp_all add: checked_profile_def profile_health_def Let_def)

lemma profile_key_checked [simp]: "profile_key (checked_profile iter V p) = profile_key p"
  by (simp add: profile_key_def)

lemma profile_loop_ok:
  assumes run: "forM (reconcile_profile cli iter V ptc) (apw_profiles s) m w = (Inr m', w')"
    and api: "lawful_profiles st cli"
    and s: "st w = s" "distinct (map profile_key (apw_profiles s))"
  shows "m' = fold (profile_step V ptc) (apw_profiles s) m"
    and "st w' = s\<lparr>apw_profiles := map (checked_profile iter V) (apw_profiles s)\<rparr>"
proof -
  let ?ps = "apw_profiles s"
  let ?I = "\<lambda>ds (_::string \<rightharpoonup> string set) w.
    st w = s\<lparr>apw_profiles := map (\<lambda>p. if p \<in> set ds then checked_profile iter V p else p) ?ps\<rparr>"
  show "m' = fold (profile_step V ptc) ?ps m"
    using run by (rule forM_ok_fold) (use reconcile_profile_ok [OF _ api] in blast)
  have "?I ([] @ ?ps) m' w'"
    using run
  proof (rule forM_ok_prefix [where I = ?I])
    show "?I [] m w" using s(1) by simp
  next
    fix ds p m w m' w'
    assume p: "p \<in> set ?ps" and I: "?I ds m w" and r: "reconcile_profile cli iter V ptc p m w = (Inr m', w')"
    consider "st w' = st w" "checked_profile iter V p = p"
      | "st w' = (st w)\<lparr>apw_profiles := put_status (checked_profile iter V p) (apw_profiles (st w))\<rparr>"
      using reconcile_profile_ok [OF r api] by blast
    then show "?I (ds @ [p]) m' w'"
    proof cases
      case 1
      with I show ?thesis by (auto cong: if_cong)
    next
      case 2
      with I show ?thesis
        using replace_next [OF s(2) p, where g = "checked_profile iter V" and ds = ds
            and h = "\<lambda>x. x\<lparr>ap_Health := ap_Health (checked_profile iter V p),
              ap_InvalidAppNames := ap_InvalidAppNames (checked_profile iter V p)\<rparr>"]
        by (simp add: put_status_def)
    qed
  qed
  then show "st w' = s\<lparr>apw_profiles := map (checked_profile iter V) ?ps\<rparr>"
    by (simp cong: map_cong)
qed

definition app_fresh :: "json_decoder \<Rightarrow> (string \<rightharpoonup> string set) \<Rightarrow> application_set \<Rightarrow> bool" where
  "app_fresh unmarshal atc app = (case aps_Generators app of
       [ListGen elems] \<Rightarrow> set_at atc (aps_name app) = clusters_of_elements unmarshal elems {}
     | _ \<Rightarrow> True)"

lemma refreshed_fresh: "app_fresh unmarshal atc a \<Longrightarrow> refreshed unmarshal iter srv atc a = a"
  by (simp add: app_fresh_def refreshed_def split: list.splits generator.splits)

lemma reconcile_app_eq:
  "reconcile_app cli unmarshal iter srv atc a u =
     (if app_fresh unmarshal atc a then ret ()
      else must (api_update (cli_ApplicationSets cli) (om_namespace (aps_meta a))
        (refreshed unmarshal iter srv atc a)) (ErrorCtx ''failed to update applicationset: '') (\<lambda>_. ret ()))"
  by (simp add: reconcile_app_def app_fresh_def refreshed_def Let_def split: list.splits generator.splits)

lemma app_loop_ok:
  assumes run: "forM (reconcile_app cli unmarshal iter srv atc) (apw_sets s) () w = (Inr u, w')"
    and api: "lawful_sets st cli"
    and s: "st w = s" "distinct (map aps_name (apw_sets s))"
      "list_all (\<lambda>a. om_namespace (aps_meta a) = ''argocd'') (apw_sets s)"
  shows "st w' = s\<lparr>apw_sets := map (refreshed unmarshal iter srv atc) (apw_sets s)\<rparr>"
proof -
  let ?as = "apw_sets s" and ?g = "refreshed unmarshal iter srv atc"
  let ?I = "\<lambda>ds (_::unit) w. st w = s\<lparr>apw_sets := map (\<lambda>a. if a \<in> set ds then ?g a else a) ?as\<rparr>"
  have "?I ([] @ ?as) u w'"
    using run
  proof (rule forM_ok_prefix [where I = ?I])
    show "?I [] () w" using s(1) by simp
  next
    fix ds a v w v' w'
    assume a: "a \<in> set ?as" and I: "?I ds v w"
      and r: "reconcile_app cli unmarshal iter srv atc a v w = (Inr v', w')"
    have ns: "om_namespace (aps_meta a) = ''argocd''" using s(3) a by (simp add: list_all_iff)
    show "?I (ds @ [a]) v' w'"
    proof (cases "app_fresh unmarshal atc a")
      case True
      with r I show ?thesis by (auto simp: reconcile_app_eq ok_iff refreshed_fresh cong: if_cong)
    next
      case False
      with r obtain y where "api_update (cli_ApplicationSets cli) ''argocd'' (?g a) w = (Inr y, w')"
        by (auto simp: reconcile_app_eq ok_iff ns)
      then have "st w' = (st w)\<lparr>apw_sets := put_set (?g a) (apw_sets (st w))\<rparr>"
        using api by (auto simp: lawful_sets_def)
      with I show ?thesis
        using replace_next [OF s(2) a, where g = ?g and ds = ds and h = "\<lambda>_. ?g a"]
        by (simp add: put_set_def)
    qed
  qed
  then show ?thesis by (simp cong: map_cong)
qed

section \<open>The reconciliation as a function\<close>

definition tables_of :: "ap_world \<Rightarrow> cluster_tables" where
  "tables_of s = fold (cluster_step (arlon_cluster_map (apw_apps s))) (apw_clusters s) (Map.empty, Map.empty)"

definition valid_names :: "ap_world \<Rightarrow> string set" where
  "valid_names s = set (map aps_name (apw_sets s))"

definition app_clusters :: "ap_world \<Rightarrow> (string \<rightharpoonup> string set)" where
  "app_clusters s = fold (profile_step (valid_names s) (fst (tables_of s))) (apw_profiles s) Map.empty"

definition reconciled :: "json_decoder \<Rightarrow> (string set \<Rightarrow> string list) \<Rightarrow> ap_world \<Rightarrow> ap_world" where
  "reconciled unmarshal iter s = s
     \<lparr>apw_clusters := map (synced (arlon_cluster_map (apw_apps s))) (apw_clusters s),
      apw_profiles := map (checked_profile iter (valid_names s)) (apw_profiles s),
      apw_sets := map (refreshed unmarshal iter (snd (tables_of s)) (app_clusters s)) (apw_sets s)\<rparr>"

text \<open>The clusters an application is wanted on.\<close>

definition wanted_clusters :: "ap_world \<Rightarrow> string \<Rightarrow> string set" where
  "wanted_clusters s a = {acl_Name c |c p. c \<in> set (apw_clusters s) \<and> p \<in> set (apw_profiles s)
     \<and> a \<in> set (ap_AppNames p)
     \<and> om_name (ap_meta p) \<in> profiles_of_annotation (effective_annotation (arlon_cluster_map (apw_apps s)) c)}"

lemma app_clusters_wanted:
  "a \<in> valid_names s \<Longrightarrow> set_at (app_clusters s) a = wanted_clusters s a"
  by (auto simp: app_clusters_def set_at_profile_steps tables_of_def set_at_cluster_steps wanted_clusters_def)

lemma reconciled_keeps [simp]:
  "apw_apps (reconciled u it s) = apw_apps s"
  "valid_names (reconciled u it s) = valid_names s"
  by (simp_all add: reconciled_def valid_names_def image_image comp_def)

lemma wf_reconciled: "wf_ap_world s \<Longrightarrow> wf_ap_world (reconciled u it s)"
  by (simp add: wf_ap_world_def reconciled_def comp_def list_all_iff)

lemma wanted_iff:
  "x \<in> wanted_clusters s a \<longleftrightarrow> (\<exists>c \<in> set (apw_clusters s). \<exists>p \<in> set (apw_profiles s).
     x = acl_Name c \<and> a \<in> set (ap_AppNames p) \<and>
     om_name (ap_meta p) \<in> profiles_of_annotation (effective_annotation (arlon_cluster_map (apw_apps s)) c))"
  unfolding wanted_clusters_def by blast

lemma wanted_filter: "wanted_clusters s a = acl_Name ` set (filter (\<lambda>c. list_ex (\<lambda>p. a \<in> set (ap_AppNames p) \<and>
     om_name (ap_meta p) \<in> profiles_of_annotation (effective_annotation (arlon_cluster_map (apw_apps s)) c))
     (apw_profiles s)) (apw_clusters s))"
proof (rule set_eqI)
  fix x
  show "x \<in> wanted_clusters s a \<longleftrightarrow> x \<in> acl_Name ` set (filter (\<lambda>c. list_ex (\<lambda>p. a \<in> set (ap_AppNames p) \<and>
     om_name (ap_meta p) \<in> profiles_of_annotation (effective_annotation (arlon_cluster_map (apw_apps s)) c))
     (apw_profiles s)) (apw_clusters s))"
    unfolding wanted_iff image_iff set_filter list_ex_iff mem_Collect_eq by blast
qed

lemma wanted_reconciled [simp]: "wanted_clusters (reconciled u it s) a = wanted_clusters s a"
proof (rule set_eqI)
  fix x
  have "apw_clusters (reconciled u it s) = map (synced (arlon_cluster_map (apw_apps s))) (apw_clusters s)"
    "apw_profiles (reconciled u it s) = map (checked_profile it (valid_names s)) (apw_profiles s)"
    by (simp_all add: reconciled_def)
  then show "x \<in> wanted_clusters (reconciled u it s) a \<longleftrightarrow> x \<in> wanted_clusters s a"
    by (simp add: wanted_iff)
qed

lemma servers_reconciled [simp]: "snd (tables_of (reconciled u it s)) = snd (tables_of s)"
  by (simp add: tables_of_def servers_cluster_steps reconciled_def comp_def flip: rev_map)

lemma finite_wanted [simp]: "finite (wanted_clusters s a)"
proof -
  have "wanted_clusters s a \<subseteq> acl_Name ` set (apw_clusters s)" by (auto simp: wanted_clusters_def)
  then show ?thesis by (rule finite_subset) simp
qed

lemma ReconcileEverything_reconciled:
  assumes run: "ReconcileEverything cli argocli unmarshal iter w = (Inr u, w')"
    and laws: "lawful_argocd st argocli" "lawful_sets st cli" "lawful_profiles st cli"
    and wf: "wf_ap_world (st w)"
  shows "st w' = reconciled unmarshal iter (st w)"
proof -
  define s where "s = st w"
  from run obtain clApi cs w1 w2 appApi w3 as w4 sets w5 ps w6 t w7 atc w8 w9 where
    1: "argo_NewClusterClient argocli w = (Inr clApi, w1)" and
    2: "clIf_List clApi w1 = (Inr cs, w2)" and
    3: "argo_NewApplicationClient argocli w2 = (Inr appApi, w3)" and
    4: "appIf_List appApi ArlonGen2ClusterLabelQueryOnArgoApps w3 = (Inr as, w4)" and
    5: "api_list (cli_ApplicationSets cli) ''argocd'' (selector application_labels) w4 = (Inr sets, w5)" and
    6: "api_list (cli_AppProfiles cli) '''' '''' w5 = (Inr ps, w6)" and
    7: "forM (reconcile_cluster clApi (arlon_cluster_map as)) cs (Map.empty, Map.empty) w6 = (Inr t, w7)" and
    8: "forM (reconcile_profile cli iter (set (map aps_name sets)) (fst t)) ps Map.empty w7 = (Inr atc, w8)" and
    9: "forM (reconcile_app cli unmarshal iter (snd t) atc) sets () w8 = (Inr u, w')"
    unfolding ReconcileEverything_def ok_iff case_prod_beta by blast
  from 1 laws(1) have s1: "st w1 = s" and cl: "lawful_clusters st clApi"
    by (auto simp: lawful_argocd_def s_def)
  from 2 cl s1 have s2: "st w2 = s" and cs: "cs = apw_clusters s" by (auto simp: lawful_clusters_def)
  from 3 4 laws(1) s2 have s4: "st w4 = s" and as: "as = apw_apps s"
    unfolding lawful_argocd_def by metis+
  from 5 laws(2) s4 have s5: "st w5 = s" and sets: "sets = apw_sets s" by (auto simp: lawful_sets_def)
  from 6 laws(3) s5 have s6: "st w6 = s" and ps: "ps = apw_profiles s" by (auto simp: lawful_profiles_def)
  have wf': "distinct (map acl_Server (apw_clusters s))" "distinct (map aps_name (apw_sets s))"
    "distinct (map profile_key (apw_profiles s))"
    "list_all (\<lambda>a. om_namespace (aps_meta a) = ''argocd'') (apw_sets s)"
    using wf by (simp_all add: wf_ap_world_def s_def)
  note c = cluster_loop_ok [OF 7 [unfolded cs as] cl proper_arlon_cluster_map s6 wf'(1)]
  let ?s1 = "s\<lparr>apw_clusters := map (synced (arlon_cluster_map (apw_apps s))) (apw_clusters s)\<rparr>"
  have h8: "forM (reconcile_profile cli iter (valid_names s) (fst t)) (apw_profiles ?s1) Map.empty w7 = (Inr atc, w8)"
    using 8 by (simp add: sets ps valid_names_def)
  have d: "distinct (map profile_key (apw_profiles ?s1))" using wf'(3) by simp
  note p = profile_loop_ok [OF h8 laws(3) c(2) d]
  let ?s2 = "?s1\<lparr>apw_profiles := map (checked_profile iter (valid_names s)) (apw_profiles ?s1)\<rparr>"
  have h9: "forM (reconcile_app cli unmarshal iter (snd t) atc) (apw_sets ?s2) () w8 = (Inr u, w')"
    using 9 by (simp add: sets)
  have d: "distinct (map aps_name (apw_sets ?s2))"
    "list_all (\<lambda>a. om_namespace (aps_meta a) = ''argocd'') (apw_sets ?s2)"
    using wf'(2,4) by simp_all
  note a = app_loop_ok [OF h9 laws(2) p(2) d]
  have t: "t = tables_of s" using c(1) by (simp add: tables_of_def)
  have atc: "atc = app_clusters s" using p(1) by (simp add: app_clusters_def t)
  show ?thesis using a by (simp add: reconciled_def s_def [symmetric] t atc)
qed

section \<open>One reconciliation is enough\<close>

interpretation cluster_sync: reconciler "synced am" "\<lambda>_. True"
    "\<lambda>c. mget (acl_Annotations c) ProfilesAnnotationKey = effective_annotation am c" for am
  by unfold_locales (simp_all add: synced_annotation flip: synced_same_iff)

interpretation profile_check: reconciler "checked_profile iter V" "\<lambda>_. lawful_iter iter"
    "\<lambda>p. checked_profile iter V p = p" for iter V
  by unfold_locales (simp_all add: checked_profile_idem)

text \<open>The names and servers of the clusters need no escaping in JSON.\<close>

definition plain_world :: "ap_world \<Rightarrow> bool" where
  "plain_world s \<longleftrightarrow> list_all (\<lambda>c. json_plain (acl_Name c) \<and> json_plain (acl_Server c)) (apw_clusters s)"

lemma plain_servers: "plain_world s \<Longrightarrow> json_plain (server_of (snd (tables_of s)) c)"
proof (cases "snd (tables_of s) c")
  case None
  then show ?thesis by (simp add: server_of_def mget_def json_plain_def)
next
  case (Some v)
  assume "plain_world s"
  from Some have "(c, v) \<in> set (map (\<lambda>c. (acl_Name c, acl_Server c)) (apw_clusters s))"
    by (auto simp: tables_of_def servers_cluster_steps dest: map_of_SomeD)
  with \<open>plain_world s\<close> Some show ?thesis
    by (auto simp: plain_world_def list_all_iff server_of_def mget_def)
qed

lemma plain_wanted: "plain_world s \<Longrightarrow> c \<in> wanted_clusters s a \<Longrightarrow> json_plain c"
  by (auto simp: plain_world_def list_all_iff wanted_clusters_def)

lemma refreshed_generator:
  assumes "lawful_decoder u" "lawful_iter it" "plain_world s" "a \<in> set (apw_sets s)"
    "aps_Generators a = [ListGen es]"
  shows "\<exists>es'. aps_Generators (refreshed u it (snd (tables_of s)) (app_clusters s) a) = [ListGen es']
    \<and> clusters_of_elements u es' {} = wanted_clusters s (aps_name a)"
proof -
  have w: "set_at (app_clusters s) (aps_name a) = wanted_clusters s (aps_name a)"
    using assms(4) by (intro app_clusters_wanted) (simp add: valid_names_def)
  have "clusters_of_elements u (new_elements it (snd (tables_of s)) (wanted_clusters s (aps_name a))) {}
      = wanted_clusters s (aps_name a)"
    using assms(1-3) by (intro clusters_of_new_elements_iter) (auto simp: plain_servers plain_wanted)
  with assms(5) show ?thesis by (simp add: refreshed_def w)
qed

lemma refreshed_other: "\<nexists>es. aps_Generators a = [ListGen es] \<Longrightarrow> refreshed u it srv atc a = a"
  by (simp add: refreshed_def split: list.splits generator.splits)

lemma refreshed_cong:
  "set_at atc (aps_name a) = set_at atc' (aps_name a) \<Longrightarrow> refreshed u it srv atc a = refreshed u it srv atc' a"
  by (simp add: refreshed_def split: list.splits generator.splits)

lemma refreshed_idem:
  assumes "lawful_decoder u" "lawful_iter it" "plain_world s" "a \<in> set (apw_sets s)"
  shows "refreshed u it (snd (tables_of s)) (app_clusters s) (refreshed u it (snd (tables_of s)) (app_clusters s) a) =
    refreshed u it (snd (tables_of s)) (app_clusters s) a"
proof (cases "\<exists>es. aps_Generators a = [ListGen es]")
  case True
  with refreshed_generator [OF assms] obtain es' where
    "aps_Generators (refreshed u it (snd (tables_of s)) (app_clusters s) a) = [ListGen es']"
    "clusters_of_elements u es' {} = wanted_clusters s (aps_name a)"
    by blast
  then show ?thesis
    using assms(4) app_clusters_wanted [of "aps_name a" s]
    by (intro refreshed_fresh) (simp add: app_fresh_def valid_names_def)
qed (simp add: refreshed_other)

lemma reconciled_idem:
  assumes "lawful_decoder u" "lawful_iter it" "plain_world s"
  shows "reconciled u it (reconciled u it s) = reconciled u it s"
proof -
  let ?r = "reconciled u it s"
  have eq: "apw_clusters ?r = map (synced (arlon_cluster_map (apw_apps s))) (apw_clusters s)"
    "apw_profiles ?r = map (checked_profile it (valid_names s)) (apw_profiles s)"
    "apw_sets ?r = map (refreshed u it (snd (tables_of s)) (app_clusters s)) (apw_sets s)"
    by (simp_all add: reconciled_def)
  have "apw_clusters (reconciled u it ?r) = apw_clusters ?r"
    by (simp add: reconciled_def [of u it ?r] eq synced_idem comp_def)
  moreover have "apw_profiles (reconciled u it ?r) = apw_profiles ?r"
    using assms(2) by (simp add: reconciled_def [of u it ?r] eq checked_profile_idem comp_def)
  moreover have "apw_sets (reconciled u it ?r) = apw_sets ?r"
  proof -
    have "refreshed u it (snd (tables_of s)) (app_clusters ?r) (refreshed u it (snd (tables_of s)) (app_clusters s) a)
        = refreshed u it (snd (tables_of s)) (app_clusters s) a" if "a \<in> set (apw_sets s)" for a
    proof -
      have "aps_name a \<in> valid_names s" using that by (simp add: valid_names_def)
      then have "set_at (app_clusters ?r) (aps_name a) = set_at (app_clusters s) (aps_name a)"
        using app_clusters_wanted [of "aps_name a" ?r] by (simp add: app_clusters_wanted)
      with refreshed_idem [OF assms that] show ?thesis
        using refreshed_cong [of "app_clusters ?r" "refreshed u it (snd (tables_of s)) (app_clusters s) a" "app_clusters s"]
        by simp
    qed
    then show ?thesis by (simp add: reconciled_def [of u it ?r] eq)
  qed
  moreover have "apw_apps (reconciled u it ?r) = apw_apps ?r" by simp
  ultimately show ?thesis by simp
qed

lemma plain_reconciled: "plain_world s \<Longrightarrow> plain_world (reconciled u it s)"
  by (simp add: plain_world_def reconciled_def list_all_iff)

interpretation whole: reconciler "reconciled u it"
    "\<lambda>s. lawful_decoder u \<and> lawful_iter it \<and> plain_world s \<and> wf_ap_world s"
    "\<lambda>s. reconciled u it s = s" for u it
  by unfold_locales (simp_all add: reconciled_idem plain_reconciled wf_reconciled)

section \<open>Clients in memory\<close>

definition mem_cluster_client :: "ap_world cluster_client" where
  "mem_cluster_client = \<lparr>clIf_Get = (\<lambda>_. failing), clIf_List = (\<lambda>w. (Inr (apw_clusters w), w)),
     clIf_Update = (\<lambda>c fields w. (Inr c, w\<lparr>apw_clusters := put_annotations c (apw_clusters w)\<rparr>)),
     clIf_Delete = (\<lambda>_ _. failing), clIf_Create = (\<lambda>_ _. failing)\<rparr>"

definition mem_application_client :: "ap_world application_client" where
  "mem_application_client = \<lparr>appIf_Get = (\<lambda>_. failing), appIf_List = (\<lambda>_ w. (Inr (apw_apps w), w)),
     appIf_Create = (\<lambda>_. failing), appIf_Update = (\<lambda>_. failing), appIf_Delete = (\<lambda>_ _. failing)\<rparr>"

definition mem_argocd :: "ap_world argocd_client" where
  "mem_argocd = \<lparr>argo_NewApplicationClient = ret mem_application_client,
     argo_NewClusterClient = ret mem_cluster_client\<rparr>"

definition mem_ctrl :: "ap_world ctrl_client" where
  "mem_ctrl = \<lparr>cli_Profiles = absent_api,
     cli_AppProfiles = absent_api\<lparr>api_list := (\<lambda>_ _ w. (Inr (apw_profiles w), w)),
       api_update_status := (\<lambda>_ p w. (Inr p, w\<lparr>apw_profiles := put_status p (apw_profiles w)\<rparr>))\<rparr>,
     cli_ApplicationSets = absent_api\<lparr>api_list := (\<lambda>_ _ w. (Inr (apw_sets w), w)),
       api_update := (\<lambda>_ a w. (Inr a, w\<lparr>apw_sets := put_set a (apw_sets w)\<rparr>))\<rparr>,
     cli_Clusters = absent_api, cli_Secrets = absent_api\<rparr>"

text \<open>A decoder of the elements the program writes.\<close>

definition mem_unmarshal :: json_decoder where
  "mem_unmarshal e = (case split_on (CHR 0x22) e of
       [a, k1, b, v1, c, k2, d, v2, f] \<Rightarrow> Inr [(k1, JString v1), (k2, JString v2)]
     | _ \<Rightarrow> Inl (ErrorText ''invalid character''))"

lemma mem_laws: "lawful_argocd id mem_argocd" "lawful_sets id mem_ctrl" "lawful_profiles id mem_ctrl"
  by (auto simp: lawful_argocd_def lawful_clusters_def lawful_sets_def lawful_profiles_def mem_argocd_def
      mem_ctrl_def mem_cluster_client_def mem_application_client_def ret_def)

lemma mem_unmarshal_lawful: "lawful_decoder mem_unmarshal"
proof -
  have "split_on (CHR 0x22) (cluster_element c s) =
      [''{'', ''cluster_name'', '':'', c, '', '', ''cluster_server'', '':'', s, ''}'']"
    if "json_plain c" "json_plain s" for c s
  proof -
    have p: "CHR 0x22 \<notin> set c" "CHR 0x22 \<notin> set s" using that by (auto simp: json_plain_def list_all_iff)
    then show ?thesis by (simp add: cluster_element_def dq_def split_on_append_sep)
  qed
  then show ?thesis by (simp add: lawful_decoder_def mem_unmarshal_def)
qed

lemma sorted_iter_lawful: "lawful_iter sorted_list_of_set"
  by (simp add: lawful_iter_def)

definition demo_meta :: "string \<Rightarrow> gomap \<Rightarrow> object_meta" where
  "demo_meta n anns = (named_meta n ''argocd'')\<lparr>om_annotations := anns\<rparr>"

definition demo_world :: ap_world where
  "demo_world = \<lparr>
     apw_clusters = [\<lparr>acl_Name = ''c1'', acl_Server = ''https://c1'', acl_Annotations = None\<rparr>,
       \<lparr>acl_Name = ''c2'', acl_Server = ''https://c2'', acl_Annotations = mlit [(ProfilesAnnotationKey, ''p1'')]\<rparr>],
     apw_apps = [(constructClusterApp ''argocd'' ''c1'' '''' '''' '''' '''' False)
       \<lparr>app_meta := demo_meta ''c1'' (mlit [(ProfilesAnnotationKey, ''p1,p2'')])\<rparr>],
     apw_sets = [app_Create ''argocd'' ''a1'' '''' '''' '''' '''' '''' True True,
       app_Create ''argocd'' ''a2'' '''' '''' '''' '''' '''' True True],
     apw_profiles = [\<lparr>ap_meta = demo_meta ''p1'' None, ap_AppNames = [''a1'', ''a9''], ap_Health = '''',
         ap_InvalidAppNames = []\<rparr>,
       \<lparr>ap_meta = demo_meta ''p2'' None, ap_AppNames = [''a2''], ap_Health = '''', ap_InvalidAppNames = []\<rparr>]\<rparr>"

lemma demo_sets: "apw_sets demo_world = [app_Create ''argocd'' ''a1'' '''' '''' '''' '''' '''' True True,
    app_Create ''argocd'' ''a2'' '''' '''' '''' '''' '''' True True]"
  by (simp add: demo_world_def)

lemma demo_profiles: "apw_profiles demo_world =
    [\<lparr>ap_meta = demo_meta ''p1'' None, ap_AppNames = [''a1'', ''a9''], ap_Health = '''', ap_InvalidAppNames = []\<rparr>,
     \<lparr>ap_meta = demo_meta ''p2'' None, ap_AppNames = [''a2''], ap_Health = '''', ap_InvalidAppNames = []\<rparr>]"
  by (simp add: demo_world_def)

lemma demo_clusters: "apw_clusters demo_world =
    [\<lparr>acl_Name = ''c1'', acl_Server = ''https://c1'', acl_Annotations = None\<rparr>,
     \<lparr>acl_Name = ''c2'', acl_Server = ''https://c2'', acl_Annotations = mlit [(ProfilesAnnotationKey, ''p1'')]\<rparr>]"
  by (simp add: demo_world_def)

lemma demo_wf: "wf_ap_world demo_world" "plain_world demo_world"
  by (simp_all add: wf_ap_world_def demo_world_def app_Create_def profile_key_def demo_meta_def
      named_meta_def plain_world_def json_plain_def)

definition demo_run :: "unit result \<times> ap_world" where
  "demo_run = ReconcileEverything mem_ctrl mem_argocd mem_unmarshal sorted_list_of_set demo_world"

lemma demo_run_ok: "ReconcileEverything mem_ctrl mem_argocd mem_unmarshal sorted_list_of_set demo_world =
    (Inr (), reconciled mem_unmarshal sorted_list_of_set demo_world)"
proof -
  have "isl (fst demo_run) = False" by code_simp
  then obtain w' where "ReconcileEverything mem_ctrl mem_argocd mem_unmarshal sorted_list_of_set demo_world = (Inr (), w')"
    by (cases "fst demo_run"; cases demo_run) (auto simp: demo_run_def)
  moreover from this have "w' = reconciled mem_unmarshal sorted_list_of_set demo_world"
    using ReconcileEverything_reconciled [OF _ mem_laws] demo_wf by (simp add: id_def)
  ultimately show ?thesis by simp
qed

section \<open>Properties\<close>

text \<open>C1: After a reconciliation that returned without an error, the list generator of every Arlon
  application names exactly the clusters whose effective profile annotation mentions a profile that
  lists the application; application sets with other generators are untouched.\<close>

theorem reconcile_deploys_wanted:
  assumes "ReconcileEverything cli argocli unmarshal iter w = (Inr u, w')"
    and "lawful_argocd st argocli" "lawful_sets st cli" "lawful_profiles st cli"
    and "lawful_decoder unmarshal" "lawful_iter iter"
    and "wf_ap_world (st w)" "plain_world (st w)"
  shows "list_all2 (\<lambda>a a'. aps_meta a' = aps_meta a \<and>
      (case aps_Generators a of
         [ListGen es] \<Rightarrow> \<exists>es'. aps_Generators a' = [ListGen es']
           \<and> clusters_of_elements unmarshal es' {} = wanted_clusters (st w) (aps_name a)
       | _ \<Rightarrow> a' = a)) (apw_sets (st w)) (apw_sets (st w'))"
proof -
  let ?s = "st w"
  have "st w' = reconciled unmarshal iter ?s"
    using assms by (intro ReconcileEverything_reconciled)
  then have "apw_sets (st w') = map (refreshed unmarshal iter (snd (tables_of ?s)) (app_clusters ?s)) (apw_sets ?s)"
    by (simp add: reconciled_def)
  then show ?thesis
    using refreshed_generator [OF assms(5,6,8)]
    by (auto simp: list_all2_map2 list.rel_refl_strong intro!: list.rel_refl_strong refreshed_other
        split: list.splits generator.splits)
qed

theorem reconcile_deploys_wanted_witness:
  "\<exists>w'. ReconcileEverything mem_ctrl mem_argocd mem_unmarshal sorted_list_of_set demo_world = (Inr (), w')
     \<and> map (\<lambda>a. case aps_Generators a of [ListGen es] \<Rightarrow> clusters_of_elements mem_unmarshal es {} | _ \<Rightarrow> {})
         (apw_sets w') = [{''c1'', ''c2''}, {''c1''}]"
proof -
  let ?w' = "reconciled mem_unmarshal sorted_list_of_set demo_world"
  have "list_all2 (\<lambda>a a'. aps_meta a' = aps_meta a \<and>
      (case aps_Generators a of
         [ListGen es] \<Rightarrow> \<exists>es'. aps_Generators a' = [ListGen es']
           \<and> clusters_of_elements mem_unmarshal es' {} = wanted_clusters (id demo_world) (aps_name a)
       | _ \<Rightarrow> a' = a)) (apw_sets (id demo_world)) (apw_sets (id ?w'))"
    by (rule reconcile_deploys_wanted [OF demo_run_ok mem_laws mem_unmarshal_lawful sorted_iter_lawful])
      (simp_all add: demo_wf)
  moreover have "wanted_clusters demo_world ''a1'' = {''c1'', ''c2''}" "wanted_clusters demo_world ''a2'' = {''c1''}"
    unfolding wanted_filter by code_simp+
  moreover obtain ws where ws: "apw_sets ?w' = ws" by simp
  ultimately have "map (\<lambda>a. case aps_Generators a of [ListGen es] \<Rightarrow> clusters_of_elements mem_unmarshal es {} | _ \<Rightarrow> {})
      ws = [{''c1'', ''c2''}, {''c1''}]"
    unfolding id_apply demo_sets ws by (clarsimp simp: list_all2_Cons1)
  with ws show ?thesis by (intro exI [of _ ?w'] conjI demo_run_ok) simp_all
qed

text \<open>C23: After a reconciliation that returned without an error, every profile is marked degraded
  exactly when it lists an application that does not exist, and its status lists exactly these
  applications.\<close>

theorem reconcile_checks_profiles:
  assumes "ReconcileEverything cli argocli unmarshal iter w = (Inr u, w')"
    and "lawful_argocd st argocli" "lawful_sets st cli" "lawful_profiles st cli"
    and "lawful_iter iter" "wf_ap_world (st w)"
  shows "list_all2 (\<lambda>p p'. ap_meta p' = ap_meta p \<and> ap_AppNames p' = ap_AppNames p
      \<and> set (ap_InvalidAppNames p') = set (ap_AppNames p) - set (map aps_name (apw_sets (st w)))
      \<and> ap_Health p' = (if set (ap_AppNames p) \<subseteq> set (map aps_name (apw_sets (st w)))
          then ''healthy'' else ''degraded''))
    (apw_profiles (st w)) (apw_profiles (st w'))"
proof -
  have "st w' = reconciled unmarshal iter (st w)"
    using assms by (intro ReconcileEverything_reconciled)
  then have "apw_profiles (st w') = map (checked_profile iter (valid_names (st w))) (apw_profiles (st w))"
    by (simp add: reconciled_def)
  then show ?thesis
    by (auto simp: list_all2_map2 checked_profile_status [OF assms(5)] valid_names_def
        intro!: list.rel_refl_strong)
qed

theorem reconcile_checks_profiles_witness:
  "\<exists>w'. ReconcileEverything mem_ctrl mem_argocd mem_unmarshal sorted_list_of_set demo_world = (Inr (), w')
     \<and> map ap_Health (apw_profiles w') = [''degraded'', ''healthy'']
     \<and> map (\<lambda>p. set (ap_InvalidAppNames p)) (apw_profiles w') = [{''a9''}, {}]"
proof -
  let ?w' = "reconciled mem_unmarshal sorted_list_of_set demo_world"
  have "list_all2 (\<lambda>p p'. ap_meta p' = ap_meta p \<and> ap_AppNames p' = ap_AppNames p
      \<and> set (ap_InvalidAppNames p') = set (ap_AppNames p) - set (map aps_name (apw_sets (id demo_world)))
      \<and> ap_Health p' = (if set (ap_AppNames p) \<subseteq> set (map aps_name (apw_sets (id demo_world)))
          then ''healthy'' else ''degraded''))
    (apw_profiles (id demo_world)) (apw_profiles (id ?w'))"
    by (rule reconcile_checks_profiles [OF demo_run_ok mem_laws sorted_iter_lawful]) (simp add: demo_wf)
  moreover obtain ps where ps: "apw_profiles ?w' = ps" by simp
  ultimately have "map ap_Health ps = [''degraded'', ''healthy'']
      \<and> map (\<lambda>p. set (ap_InvalidAppNames p)) ps = [{''a9''}, {}]"
    unfolding id_apply demo_sets demo_profiles ps by (clarsimp simp: list_all2_Cons1)
  with ps show ?thesis by (intro exI [of _ ?w'] conjI demo_run_ok) simp_all
qed

text \<open>C24: After a reconciliation that returned without an error, every cluster of ArgoCD that has an
  Arlon cluster carries the profile annotation of that one, the others keep theirs, and all other
  annotations are as before.\<close>

theorem reconcile_syncs_annotations:
  assumes "ReconcileEverything cli argocli unmarshal iter w = (Inr u, w')"
    and "lawful_argocd st argocli" "lawful_sets st cli" "lawful_profiles st cli" "wf_ap_world (st w)"
  shows "list_all2 (\<lambda>c c'. acl_Name c' = acl_Name c \<and> acl_Server c' = acl_Server c
      \<and> mget (acl_Annotations c') ProfilesAnnotationKey =
          effective_annotation (arlon_cluster_map (apw_apps (st w))) c
      \<and> (\<forall>k. k \<noteq> ProfilesAnnotationKey \<longrightarrow> mget (acl_Annotations c') k = mget (acl_Annotations c) k))
    (apw_clusters (st w)) (apw_clusters (st w'))"
proof -
  have "st w' = reconciled unmarshal iter (st w)"
    using assms by (intro ReconcileEverything_reconciled)
  then have "apw_clusters (st w') = map (synced (arlon_cluster_map (apw_apps (st w)))) (apw_clusters (st w))"
    by (simp add: reconciled_def)
  then show ?thesis
    by (auto simp: list_all2_map2 synced_annotation synced_other_annotations intro!: list.rel_refl_strong)
qed

theorem reconcile_syncs_annotations_witness:
  "\<exists>w'. ReconcileEverything mem_ctrl mem_argocd mem_unmarshal sorted_list_of_set demo_world = (Inr (), w')
     \<and> map (\<lambda>c. mget (acl_Annotations c) ProfilesAnnotationKey) (apw_clusters w') = [''p1,p2'', ''p1'']"
proof -
  let ?w' = "reconciled mem_unmarshal sorted_list_of_set demo_world"
  have "list_all2 (\<lambda>c c'. acl_Name c' = acl_Name c \<and> acl_Server c' = acl_Server c
      \<and> mget (acl_Annotations c') ProfilesAnnotationKey =
          effective_annotation (arlon_cluster_map (apw_apps (id demo_world))) c
      \<and> (\<forall>k. k \<noteq> ProfilesAnnotationKey \<longrightarrow> mget (acl_Annotations c') k = mget (acl_Annotations c) k))
    (apw_clusters (id demo_world)) (apw_clusters (id ?w'))"
    by (rule reconcile_syncs_annotations [OF demo_run_ok mem_laws]) (simp add: demo_wf)
  moreover have "effective_annotation (arlon_cluster_map (apw_apps demo_world)) (apw_clusters demo_world ! 0) = ''p1,p2''"
    "effective_annotation (arlon_cluster_map (apw_apps demo_world)) (apw_clusters demo_world ! 1) = ''p1''"
    by code_simp+
  moreover obtain cs where cs: "apw_clusters ?w' = cs" by simp
  ultimately have "map (\<lambda>c. mget (acl_Annotations c) ProfilesAnnotationKey) cs = [''p1,p2'', ''p1'']"
    unfolding id_apply demo_clusters cs by (clarsimp simp: list_all2_Cons1)
  with cs show ?thesis by (intro exI [of _ ?w'] conjI demo_run_ok) simp_all
qed

text \<open>C25: A reconciliation that follows a successful one finds nothing to do: when both return without
  an error, the second leaves clusters, applications and profiles as the first left them.\<close>

theorem reconcile_reaches_fixpoint:
  assumes "ReconcileEverything cli argocli unmarshal iter w = (Inr u, w1)"
    and "ReconcileEverything cli argocli unmarshal iter w1 = (Inr v, w2)"
    and "lawful_argocd st argocli" "lawful_sets st cli" "lawful_profiles st cli"
    and "lawful_decoder unmarshal" "lawful_iter iter"
    and "wf_ap_world (st w)" "plain_world (st w)"
  shows "st w2 = st w1"
proof -
  have 1: "st w1 = reconciled unmarshal iter (st w)"
    using assms(1,3-5,8) by (rule ReconcileEverything_reconciled)
  then have "wf_ap_world (st w1)" using assms(8) by (simp add: wf_reconciled)
  with assms(2,3-5) have "st w2 = reconciled unmarshal iter (st w1)"
    by (rule ReconcileEverything_reconciled)
  with 1 assms(6-9) show ?thesis by (simp add: whole.idem)
qed

theorem reconcile_reaches_fixpoint_witness:
  "\<exists>w1 w2. ReconcileEverything mem_ctrl mem_argocd mem_unmarshal sorted_list_of_set demo_world = (Inr (), w1)
     \<and> ReconcileEverything mem_ctrl mem_argocd mem_unmarshal sorted_list_of_set w1 = (Inr (), w2)
     \<and> w1 \<noteq> demo_world \<and> w2 = w1"
proof -
  let ?w1 = "reconciled mem_unmarshal sorted_list_of_set demo_world"
  have "isl (fst (ReconcileEverything mem_ctrl mem_argocd mem_unmarshal sorted_list_of_set (snd demo_run))) = False"
    by code_simp
  moreover have "snd demo_run = ?w1" by (simp add: demo_run_def demo_run_ok)
  ultimately obtain w2 where 2: "ReconcileEverything mem_ctrl mem_argocd mem_unmarshal sorted_list_of_set ?w1 = (Inr (), w2)"
    by (cases "ReconcileEverything mem_ctrl mem_argocd mem_unmarshal sorted_list_of_set ?w1"; cases "fst (ReconcileEverything mem_ctrl mem_argocd mem_unmarshal sorted_list_of_set ?w1)") auto
  have "id w2 = id ?w1"
    by (rule reconcile_reaches_fixpoint [OF demo_run_ok 2 mem_laws mem_unmarshal_lawful sorted_iter_lawful])
      (simp_all add: demo_wf)
  moreover have "map ap_Health (apw_profiles (snd demo_run)) \<noteq> map ap_Health (apw_profiles demo_world)"
    by code_simp
  ultimately show ?thesis
    using demo_run_ok 2 \<open>snd demo_run = ?w1\<close> by (metis id_apply)
qed

end
