(* ===== verification/Basecluster.thy ===== *)
theory Basecluster
  imports Gitutils
begin

text \<open>
  Cluster templates (\<open>pkg/basecluster\<close>): validating a template directory and its manifest, and
  preparing one so that it validates. Reading a manifest into resources, converting a resource and
  what an encoder adds to its stream for one are the parameters \<open>manifest_tools\<close>.
\<close>

section \<open>Errors and embedded texts\<close>

definition ErrMultipleManifests :: go_error where
  "ErrMultipleManifests = Sentinel ''ErrMultipleManifests'' ''multiple manifests found''"

definition ErrNoManifest :: go_error where
  "ErrNoManifest = Sentinel ''ErrNoManifest'' ''failed to find cluster template manifest file''"

definition ErrNoKustomizationYaml :: go_error where
  "ErrNoKustomizationYaml = Sentinel ''ErrNoKustomizationYaml'' ''kustomization.yaml is missing''"

definition ErrNoConfigurationsYaml :: go_error where
  "ErrNoConfigurationsYaml = Sentinel ''ErrNoConfigurationsYaml'' ''configurations.yaml is missing''"

definition ErrMultipleClusters :: go_error where
  "ErrMultipleClusters = Sentinel ''ErrMultipleClusters'' ''there are 2 or more clusters''"

definition ErrNoClusterResource :: go_error where
  "ErrNoClusterResource = Sentinel ''ErrNoClusterResource'' ''no cluster resource found''"

definition ErrBuilderFailedRun :: go_error where
  "ErrBuilderFailedRun = Sentinel ''ErrBuilderFailedRun'' ''builder failed to run''"

definition ErrResourceHasNamespace :: go_error where
  "ErrResourceHasNamespace =
     Sentinel ''ErrResourceHasNamespace'' ''resource has a namespace defined''"

definition Err2orMoreClusters :: go_error where
  "Err2orMoreClusters = Sentinel ''Err2orMoreClusters'' ''there are 2 or more clusters''"

definition kustomizationYamlTemplate :: "string \<Rightarrow> string" where
  "kustomizationYamlTemplate manifestFileName = join_with [newline]
     [''resources:'', ''- '' @ manifestFileName, '''', ''configurations:'', ''- configurations.yaml'', '''']"

definition ConfigurationsYaml :: string where
  "ConfigurationsYaml = join_with [newline]
      [''# Source: https://blog.scottlowe.org/2021/10/11/kustomize-transformer-configurations-for-cluster-api-v1beta1/'',
       ''nameReference:'',
       ''- kind: Cluster'',
       ''  group: cluster.x-k8s.io'',
       ''  version: v1beta1'',
       ''  fieldSpecs:'',
       ''  - path: spec/clusterName'',
       ''    kind: MachineDeployment'',
       ''  - path: spec/template/spec/clusterName'',
       ''    kind: MachineDeployment'',
       ''  - path: spec/clusterName'',
       ''    kind: MachinePool'',
       ''  - path: spec/template/spec/clusterName'',
       ''    kind: MachinePool'',
       ''- kind: AWSCluster'',
       ''  group: infrastructure.cluster.x-k8s.io'',
       ''  version: v1beta1'',
       ''  fieldSpecs:'',
       ''  - path: spec/infrastructureRef/name'',
       ''    kind: Cluster'',
       ''- kind: KubeadmControlPlane'',
       ''  group: controlplane.cluster.x-k8s.io'',
       ''  version: v1beta1'',
       ''  fieldSpecs:'',
       ''  - path: spec/controlPlaneRef/name'',
       ''    kind: Cluster'',
       ''- kind: AWSManagedControlPlane'',
       ''  group: controlplane.cluster.x-k8s.io'',
       ''  version: v1beta1'',
       ''  fieldSpecs:'',
       ''  - path: spec/controlPlaneRef/name'',
       ''    kind: Cluster'',
       ''  - path: spec/infrastructureRef/name'',
       ''    kind: Cluster'',
       ''- kind: AWSManagedControlPlane'',
       ''  group: controlplane.cluster.x-k8s.io'',
       ''  version: v1beta2'',
       ''  fieldSpecs:'',
       ''  - path: spec/controlPlaneRef/name'',
       ''    kind: Cluster'',
       ''- kind: AWSManagedCluster'',
       ''  group: infrastructure.cluster.x-k8s.io'',
       ''  version: v1beta2'',
       ''  fieldSpecs:'',
       ''  - path: spec/infrastructureRef/name'',
       ''    kind: Cluster'',
       ''- kind: AWSMachine'',
       ''  group: infrastructure.cluster.x-k8s.io'',
       ''  version: v1beta1'',
       ''  fieldSpecs:'',
       ''  - path: spec/infrastructureRef/name'',
       ''    kind: Machine'',
       ''- kind: KubeadmConfig'',
       ''  group: bootstrap.cluster.x-k8s.io'',
       ''  version: v1beta1'',
       ''  fieldSpecs:'',
       ''  - path: spec/bootstrap/configRef/name'',
       ''    kind: Machine'',
       ''  - path: spec/template/spec/bootstrap/configRef/name'',
       ''    kind: MachinePool'',
       ''- kind: AWSMachineTemplate'',
       ''  group: infrastructure.cluster.x-k8s.io'',
       ''  version: v1beta2'',
       ''  fieldSpecs:'',
       ''  - path: spec/template/spec/infrastructureRef/name'',
       ''    kind: MachineDeployment'',
       ''  - path: spec/machineTemplate/infrastructureRef/name'',
       ''    kind: KubeadmControlPlane'',
       ''- kind: AWSMachineTemplate'',
       ''  group: infrastructure.cluster.x-k8s.io'',
       ''  version: v1beta2'',
       ''  fieldSpecs:'',
       ''  - path: spec/template/spec/infrastructureRef/name'',
       ''    kind: MachineDeployment'',
       ''  - path: spec/machineTemplate/infrastructureRef/name'',
       ''    kind: KubeadmControlPlane'',
       ''- kind: AWSMachineTemplate'',
       ''  group: infrastructure.cluster.x-k8s.io'',
       ''  version: v1beta1'',
       ''  fieldSpecs:'',
       ''  - path: spec/template/spec/infrastructureRef/name'',
       ''    kind: MachineDeployment'',
       ''  - path: spec/machineTemplate/infrastructureRef/name'',
       ''    kind: KubeadmControlPlane'',
       ''- kind: KubeadmConfigTemplate'',
       ''  group: bootstrap.cluster.x-k8s.io'',
       ''  version: v1beta1'',
       ''  fieldSpecs:'',
       ''  - path: spec/template/spec/bootstrap/configRef/name'',
       ''    kind: MachineDeployment'',
       ''- kind: EKSConfigTemplate'',
       ''  group: bootstrap.cluster.x-k8s.io'',
       ''  version: v1beta2'',
       ''  fieldSpecs:'',
       ''  - path: spec/template/spec/bootstrap/configRef/name'',
       ''    kind: MachineDeployment'',
       ''- kind: EKSConfigTemplate'',
       ''  group: bootstrap.cluster.x-k8s.io'',
       ''  version: v1beta1'',
       ''  fieldSpecs:'',
       ''  - path: spec/template/spec/bootstrap/configRef/name'',
       ''    kind: MachineDeployment'',
       ''- kind: DockerCluster'',
       ''  group: infrastructure.cluster.x-k8s.io'',
       ''  version: v1beta1'',
       ''  fieldSpecs:'',
       ''  - path: spec/infrastructureRef/name'',
       ''    kind: Cluster'',
       ''- kind: DockerMachine'',
       ''  group: infrastructure.cluster.x-k8s.io'',
       ''  version: v1beta1'',
       ''  fieldSpecs:'',
       ''  - path: spec/infrastructureRef/name'',
       ''    kind: Machine'',
       ''- kind: DockerMachineTemplate'',
       ''  group: infrastructure.cluster.x-k8s.io'',
       ''  version: v1beta1'',
       ''  fieldSpecs:'',
       ''  - path: spec/template/spec/infrastructureRef/name'',
       ''    kind: MachineDeployment'',
       ''  - path: spec/machineTemplate/infrastructureRef/name'',
       ''    kind: KubeadmControlPlane'',
       ''- kind: AWSManagedMachinePool'',
       ''  group: infrastructure.cluster.x-k8s.io'',
       ''  version: v1beta2'',
       ''  fieldSpecs:'',
       ''  - path: spec/template/spec/infrastructureRef/name'',
       ''    kind: MachinePool'',
       ''- kind: AWSManagedMachinePool'',
       ''  group: infrastructure.cluster.x-k8s.io'',
       ''  version: v1beta1'',
       ''  fieldSpecs:'',
       ''  - path: spec/template/spec/infrastructureRef/name'',
       ''    kind: MachinePool'',
       ''- kind: AWSMachinePool'',
       ''  group: infrastructure.cluster.x-k8s.io'',
       ''  version: v1beta2'',
       ''  fieldSpecs:'',
       ''  - path: spec/template/spec/infrastructureRef/name'',
       ''    kind: MachinePool'',
       ''- kind: AWSMachinePool'',
       ''  group: infrastructure.cluster.x-k8s.io'',
       ''  version: v1beta1'',
       ''  fieldSpecs:'',
       ''  - path: spec/template/spec/infrastructureRef/name'',
       ''    kind: MachinePool'',
       ''- kind: EKSConfig'',
       ''  group: bootstrap.cluster.x-k8s.io'',
       ''  version: v1beta2'',
       ''  fieldSpecs:'',
       ''  - path: spec/template/spec/bootstrap/configRef/name'',
       ''    kind: MachinePool'',
       '''']"

section \<open>Validating\<close>

record k8s_resource =
  kr_Kind :: string
  kr_Name :: string
  kr_Namespace :: string
  kr_Annotations :: gomap

text \<open>\<open>mt_Encode ds r\<close>: what an encoder that has encoded the documents \<open>ds\<close> writes for \<open>r\<close>, the
  separator between the documents included.\<close>

record 'w manifest_tools =
  mt_Infos :: "string \<Rightarrow> ('w, k8s_resource list) io"
  mt_Convert :: "k8s_resource \<Rightarrow> go_error + k8s_resource"
  mt_Encode :: "k8s_resource list \<Rightarrow> k8s_resource \<Rightarrow> go_error + string"

text \<open>The loop over the resources with the variable \<open>clusterName\<close>.\<close>

fun validate_infos :: "k8s_resource list \<Rightarrow> string \<Rightarrow> go_error + string" where
  "validate_infos [] clusterName =
     (if clusterName = '''' then Inl ErrNoClusterResource else Inr clusterName)"
| "validate_infos (info # infos) clusterName =
     (if kr_Namespace info \<noteq> '''' then
        Inl (ErrorWrap '''' ErrResourceHasNamespace
          ('': resource: '' @ kr_Name info @ '', kind: '' @ kr_Kind info))
      else if kr_Kind info = ''Cluster'' then
        (if clusterName \<noteq> '''' then Inl ErrMultipleClusters else validate_infos infos (kr_Name info))
      else validate_infos infos clusterName)"

definition basecluster_Validate :: "'w manifest_tools \<Rightarrow> string \<Rightarrow> ('w, string) io" where
  "basecluster_Validate tools fileName =
     must (mt_Infos tools fileName) (\<lambda>err. ErrorWrap '''' ErrBuilderFailedRun ('': '' @ error_string err))
       (\<lambda>infos. lift (validate_infos infos ''''))"

text \<open>
  The loop over the entries of a template directory, with the variables \<open>kustomizationFound\<close>,
  \<open>configurationsFound\<close> and the manifest file; validating and preparing differ in the error for a
  second manifest.
\<close>

fun scan_dir ::
  "(string \<Rightarrow> string \<Rightarrow> go_error) \<Rightarrow> file_info list \<Rightarrow> bool \<times> bool \<times> string \<Rightarrow>
   go_error + bool \<times> bool \<times> string" where
  "scan_dir multiple [] s = Inr s"
| "scan_dir multiple (info # infos) (kust, conf, manifestFile) =
     (if fi_IsDir info then Inl (ErrorText (''found subdirectory: '' @ fi_Name info))
      else if fi_Name info = ''kustomization.yaml'' then scan_dir multiple infos (True, conf, manifestFile)
      else if fi_Name info = ''configurations.yaml'' then scan_dir multiple infos (kust, True, manifestFile)
      else if manifestFile \<noteq> '''' then Inl (multiple manifestFile (fi_Name info))
      else scan_dir multiple infos (kust, conf, fi_Name info))"

definition validateDir :: "'w manifest_tools \<Rightarrow> string \<Rightarrow> file_info list \<Rightarrow> ('w, string) io" where
  "validateDir tools dirPath infos =
     andThen (lift (scan_dir (\<lambda>_ _. ErrMultipleManifests) infos (False, False, '''')))
       (\<lambda>(kustomizationFound, configurationsFound, manifestFile).
          if manifestFile = '''' then fail ErrNoManifest
          else if \<not> kustomizationFound then fail ErrNoKustomizationYaml
          else if \<not> configurationsFound then fail ErrNoConfigurationsYaml
          else basecluster_Validate tools (path_Join [dirPath, manifestFile]))"

definition ValidateGitDir ::
  "'w git_env \<Rightarrow> 'w manifest_tools \<Rightarrow> repo_creds \<Rightarrow> string \<Rightarrow> string \<Rightarrow> string \<Rightarrow> ('w, string) io" where
  "ValidateGitDir env tools creds repoUrl repoRevision repoPath =
     must (CloneRepo env creds repoUrl repoRevision) (ErrorCtx ''failed to clone repo: '')
       (\<lambda>(repo, tmpDir, auth).
     deferring (os_RemoveAll env tmpDir) (
     must (repo_Worktree repo) (ErrorCtx ''failed to get repo worktree: '') (\<lambda>wt.
     must (wt_ReadDir wt repoPath) (ErrorCtx ''failed to list repo directory: '') (\<lambda>infos.
     validateDir tools (path_Join [tmpDir, repoPath]) infos))))"

section \<open>Preparing\<close>

definition casMinAnnotationMachineDeployments :: string where
  "casMinAnnotationMachineDeployments = ''cluster.x-k8s.io/cluster-api-autoscaler-node-group-min-size''"

definition casMaxAnnotationMachineDeployments :: string where
  "casMaxAnnotationMachineDeployments = ''cluster.x-k8s.io/cluster-api-autoscaler-node-group-max-size''"

definition add_if_missing :: "string \<Rightarrow> int \<Rightarrow> (string \<rightharpoonup> string) \<times> bool \<Rightarrow> (string \<rightharpoonup> string) \<times> bool" where
  "add_if_missing k i = (\<lambda>(m, modified).
     if mget (Some m) k = '''' then (m(k \<mapsto> Itoa i), True) else (m, modified))"

definition addClusterAutoscalerAnnotations :: "gomap \<Rightarrow> int \<Rightarrow> int \<Rightarrow> gomap \<times> bool" where
  "addClusterAutoscalerAnnotations annotations casMax casMin =
     (let m = (case annotations of None \<Rightarrow> Map.empty | Some f \<Rightarrow> f);
          (m, modified) = add_if_missing casMinAnnotationMachineDeployments casMin
            (add_if_missing casMaxAnnotationMachineDeployments casMax (m, False))
      in (Some m, modified))"

definition prepare_resource :: "int \<Rightarrow> int \<Rightarrow> k8s_resource \<Rightarrow> k8s_resource \<times> bool" where
  "prepare_resource casMax casMin unstr =
     (let (unstr, modified) = (if kr_Namespace unstr \<noteq> ''''
            then (unstr\<lparr>kr_Namespace := ''''\<rparr>, True) else (unstr, False)) in
      if kr_Kind unstr = ''MachineDeployment'' then
        (case addClusterAutoscalerAnnotations (kr_Annotations unstr) casMax casMin of
           (annotations, changed) \<Rightarrow>
             if changed then (unstr\<lparr>kr_Annotations := annotations\<rparr>, True) else (unstr, modified))
      else (unstr, modified))"

text \<open>The encoder of \<open>Prepare\<close>: one stream, \<open>enc\<close>, into one buffer, \<open>buf\<close>, for all the resources.\<close>

record yaml_encoder =
  enc_Docs :: "k8s_resource list"
  enc_Buf :: string

definition yaml_NewEncoder :: yaml_encoder where
  "yaml_NewEncoder = \<lparr>enc_Docs = [], enc_Buf = ''''\<rparr>"

definition enc_Encode :: "'w manifest_tools \<Rightarrow> yaml_encoder \<Rightarrow> k8s_resource \<Rightarrow> go_error + yaml_encoder" where
  "enc_Encode tools enc r = (case mt_Encode tools (enc_Docs enc) r of
       Inl e \<Rightarrow> Inl e
     | Inr text \<Rightarrow> Inr \<lparr>enc_Docs = enc_Docs enc @ [r], enc_Buf = enc_Buf enc @ text\<rparr>)"

definition prepareCAPIManifestThenEncode ::
  "'w manifest_tools \<Rightarrow> k8s_resource \<Rightarrow> yaml_encoder \<Rightarrow> int \<Rightarrow> int \<Rightarrow> go_error + yaml_encoder \<times> bool" where
  "prepareCAPIManifestThenEncode tools obj enc casMax casMin =
     (case mt_Convert tools obj of
        Inl e \<Rightarrow> Inl (ErrorCtx ''failed to convert object: '' e)
      | Inr unstr \<Rightarrow> (case prepare_resource casMax casMin unstr of (unstr, modified) \<Rightarrow>
          (case enc_Encode tools enc unstr of
             Inl e \<Rightarrow> Inl (ErrorCtx ''failed to encode object: '' e)
           | Inr enc \<Rightarrow> Inr (enc, modified))))"

text \<open>The loop over the resources with the variables \<open>clusterName\<close>, \<open>enc\<close> and \<open>dirty\<close>.\<close>

fun prepare_infos ::
  "'w manifest_tools \<Rightarrow> int \<Rightarrow> int \<Rightarrow> k8s_resource list \<Rightarrow> string \<times> yaml_encoder \<times> bool \<Rightarrow>
   go_error + string \<times> yaml_encoder \<times> bool" where
  "prepare_infos tools casMax casMin [] s = Inr s"
| "prepare_infos tools casMax casMin (info # infos) (clusterName, enc, dirty) =
     (if kr_Kind info = ''Cluster'' \<and> clusterName \<noteq> '''' then Inl Err2orMoreClusters
      else
        let clusterName = (if kr_Kind info = ''Cluster'' then kr_Name info else clusterName) in
        case prepareCAPIManifestThenEncode tools info enc casMax casMin of
          Inl e \<Rightarrow> Inl (ErrorCtx ''failed to remove namespace or encode object: '' e)
        | Inr (enc, modified) \<Rightarrow>
            prepare_infos tools casMax casMin infos (clusterName, enc, dirty \<or> modified))"

definition Prepare ::
  "'w manifest_tools \<Rightarrow> string \<Rightarrow> bool \<Rightarrow> int \<Rightarrow> int \<Rightarrow> ('w, string \<times> string option) io" where
  "Prepare tools fileName validateOnly casMax casMin =
     must (mt_Infos tools fileName) (ErrorCtx ''builder failed to run: '') (\<lambda>infos.
     andThen (lift (prepare_infos tools casMax casMin infos ('''', yaml_NewEncoder, False)))
       (\<lambda>(clusterName, enc, dirty).
          if clusterName = '''' then fail (ErrorText ''failed to find cluster resource'')
          else ret (clusterName, if \<not> validateOnly \<and> dirty then Some (enc_Buf enc) else None)))"

text \<open>Creating or overwriting one file: open it, write, close, and only then look at the error.\<close>

definition put_file ::
  "'w worktree \<Rightarrow> ('w, unit) io \<Rightarrow> (go_error \<Rightarrow> go_error) \<Rightarrow> string \<Rightarrow> string \<Rightarrow> (go_error \<Rightarrow> go_error)
   \<Rightarrow> ('w, 'a) io \<Rightarrow> ('w, 'a) io" where
  "put_file wt open_file open_err p text write_err k =
     must open_file open_err (\<lambda>_. attempt (wt_Write wt p text)
       (\<lambda>err. ignoring (wt_Close wt p) (fail (write_err err))) (\<lambda>_. ignoring (wt_Close wt p) k))"

definition prepareDir ::
  "'w manifest_tools \<Rightarrow> 'w worktree \<Rightarrow> string \<Rightarrow> string \<Rightarrow> int \<Rightarrow> int \<Rightarrow> ('w, string \<times> string) io" where
  "prepareDir tools wt dirRelPath actualFsRootDir casMax casMin =
     must (wt_ReadDir wt dirRelPath) (ErrorCtx ''failed to list repo directory: '') (\<lambda>infos.
     andThen (lift (scan_dir (\<lambda>m n. ErrorText (''multiple manifests found: ('' @ m @ '', '' @ n @ '')''))
         infos (False, False, '''')))
       (\<lambda>(kustomizationFound, configurationsFound, manifestFileName).
     if manifestFileName = '''' then
       fail (ErrorText ''failed to find cluster template manifest file'')
     else
       let manifestRelPath = path_Join [dirRelPath, manifestFileName];
           manifestAbsPath = path_Join [actualFsRootDir, manifestRelPath];
           kustPath = path_Join [dirRelPath, ''kustomization.yaml''];
           confPath = path_Join [dirRelPath, ''configurations.yaml''] in
       must (Prepare tools manifestAbsPath False casMax casMin)
         (ErrorCtx ''failed to prepare manifest: '') (\<lambda>(clusterName, modifiedYaml).
       let k_conf = (if \<not> configurationsFound then
             put_file wt (wt_Create wt confPath) (ErrorCtx ''failed to create configurations.yaml: '')
               confPath ConfigurationsYaml (ErrorCtx ''failed to write to configurations.yaml: '')
               (ret (manifestFileName, clusterName))
             else ret (manifestFileName, clusterName));
           k_kust = (if \<not> kustomizationFound then
             put_file wt (wt_Create wt kustPath) (ErrorCtx ''failed to create kustomization.yaml: '')
               kustPath (kustomizationYamlTemplate manifestFileName)
               (ErrorCtx ''failed to write to kustomization.yaml: '') k_conf
             else k_conf)
       in case modifiedYaml of
            Some yaml \<Rightarrow>
              put_file wt (wt_OpenTrunc wt manifestRelPath)
                (ErrorCtx ''failed to open manifest for writing: '') manifestRelPath yaml
                (ErrorCtx ''failed to write to manifest: '') k_kust
          | None \<Rightarrow> k_kust)))"

definition PrepareGitDir ::
  "'w git_env \<Rightarrow> 'w manifest_tools \<Rightarrow> repo_creds \<Rightarrow> string \<Rightarrow> string \<Rightarrow> string \<Rightarrow> int \<Rightarrow> int \<Rightarrow>
   ('w, string \<times> bool) io" where
  "PrepareGitDir env tools creds repoUrl repoRevision repoPath casMax casMin =
     attempt (CloneRepo env creds repoUrl repoRevision)
       (\<lambda>err. deferring (os_RemoveAll env '''') (fail (ErrorCtx ''failed to clone repo: '' err)))
       (\<lambda>(repo, tmpDir, auth).
     deferring (os_RemoveAll env tmpDir) (
     must (repo_Worktree repo) (ErrorCtx ''failed to get repo worktree: '') (\<lambda>wt.
     must (prepareDir tools wt repoPath tmpDir casMax casMin)
       (ErrorCtx ''failed to prepare directory: '') (\<lambda>(manifestFileName, clusterName).
     must (CommitChanges env tmpDir wt
         (''prepare cluster template files for '' @ path_Join [repoPath, manifestFileName]))
       (ErrorCtx ''failed to commit changes: '') (\<lambda>changed.
     if \<not> changed then ret (clusterName, changed)
     else must (repo_Push repo auth) (ErrorCtx ''failed to push to remote repository: '')
       (\<lambda>_. ret (clusterName, changed)))))))"

section \<open>What validates\<close>

definition special_file :: "string \<Rightarrow> bool" where
  "special_file n \<longleftrightarrow> n = ''kustomization.yaml'' \<or> n = ''configurations.yaml''"

lemma scan_dir_iff:
  assumes "\<forall>i \<in> set infos. fi_Name i \<noteq> ''''"
  shows "scan_dir multiple infos (k, c, m) = Inr (k', c', m') \<longleftrightarrow>
    (\<forall>i \<in> set infos. \<not> fi_IsDir i)
    \<and> k' = (k \<or> ''kustomization.yaml'' \<in> fi_Name ` set infos)
    \<and> c' = (c \<or> ''configurations.yaml'' \<in> fi_Name ` set infos)
    \<and> (case filter (\<lambda>n. \<not> special_file n) (map fi_Name infos) of
         [] \<Rightarrow> m' = m | n # ns \<Rightarrow> m = '''' \<and> ns = [] \<and> m' = n)"
  using assms
proof (induction infos arbitrary: k c m)
  case Nil
  then show ?case by auto
next
  case (Cons i infos)
  show ?case
  proof (cases "fi_IsDir i \<or> special_file (fi_Name i)")
    case True
    with Cons show ?thesis by (auto simp: special_file_def)
  next
    case False
    with Cons have "scan_dir multiple (i # infos) (k, c, m) = Inr (k', c', m') \<longleftrightarrow>
        m = '''' \<and> scan_dir multiple infos (k, c, fi_Name i) = Inr (k', c', m')"
      by (simp add: special_file_def)
    also have "\<dots> \<longleftrightarrow> m = '''' \<and> (\<forall>i \<in> set infos. \<not> fi_IsDir i)
        \<and> k' = (k \<or> ''kustomization.yaml'' \<in> fi_Name ` set infos)
        \<and> c' = (c \<or> ''configurations.yaml'' \<in> fi_Name ` set infos)
        \<and> filter (\<lambda>n. \<not> special_file n) (map fi_Name infos) = [] \<and> m' = fi_Name i"
      using Cons by (auto split: list.splits)
    finally show ?thesis using False by (auto simp: special_file_def)
  qed
qed

text \<open>The names of the cluster resources, in order.\<close>

definition cluster_names :: "k8s_resource list \<Rightarrow> string list" where
  "cluster_names rs = map kr_Name (filter (\<lambda>r. kr_Kind r = ''Cluster'') rs)"

text \<open>The loop takes \<open>clusterName = ""\<close> for "no cluster yet": clusters without a name are passed over
  until one has a name, and after that one there must be no other.\<close>

definition one_named_cluster :: "string \<Rightarrow> k8s_resource list \<Rightarrow> bool" where
  "one_named_cluster n rs \<longleftrightarrow> dropWhile (\<lambda>x. x = '''') (cluster_names rs) = [n]"

lemma one_named_cluster_all_named:
  "'''' \<notin> set (cluster_names rs) \<Longrightarrow> one_named_cluster n rs \<longleftrightarrow> cluster_names rs = [n]"
  by (cases "cluster_names rs") (auto simp: one_named_cluster_def)

lemma one_named_cluster_nonempty: "one_named_cluster n rs \<Longrightarrow> n \<noteq> ''''"
  using hd_dropWhile [of "\<lambda>x. x = ''''" "cluster_names rs"] by (simp add: one_named_cluster_def)

lemma one_named_cluster_iff:
  "one_named_cluster n rs \<longleftrightarrow> n \<noteq> '''' \<and> (\<exists>k. cluster_names rs = replicate k '''' @ [n])"
proof
  assume n: "one_named_cluster n rs"
  have "cluster_names rs = takeWhile (\<lambda>x. x = '''') (cluster_names rs) @ [n]"
    using n unfolding one_named_cluster_def by (metis takeWhile_dropWhile_id)
  moreover have "takeWhile (\<lambda>x. x = '''') (cluster_names rs) =
      replicate (length (takeWhile (\<lambda>x. x = '''') (cluster_names rs))) ''''"
    by (rule replicate_eqI) (auto dest: set_takeWhileD)
  ultimately show "n \<noteq> '''' \<and> (\<exists>k. cluster_names rs = replicate k '''' @ [n])"
    using one_named_cluster_nonempty [OF n] by metis
next
  assume "n \<noteq> '''' \<and> (\<exists>k. cluster_names rs = replicate k '''' @ [n])"
  then obtain k where "n \<noteq> ''''" "cluster_names rs = replicate k '''' @ [n]" by blast
  moreover have "dropWhile (\<lambda>x. x = '''') (replicate k '''' @ [n]) = [n]"
    using \<open>n \<noteq> ''''\<close> by (induction k) simp_all
  ultimately show "one_named_cluster n rs" by (simp add: one_named_cluster_def)
qed

lemma validate_infos_iff:
  "validate_infos rs c = Inr n \<longleftrightarrow> (\<forall>r \<in> set rs. kr_Namespace r = '''')
    \<and> (if c = '''' then one_named_cluster n rs else cluster_names rs = [] \<and> n = c)"
  by (induction rs arbitrary: c) (auto simp: cluster_names_def one_named_cluster_def)

lemma basecluster_Validate_iff:
  assumes reads: "mt_Infos tools = (\<lambda>p. lift (reads p))"
  shows "basecluster_Validate tools p w = (Inr n, w') \<longleftrightarrow> w' = w \<and>
      (\<exists>rs. reads p = Inr rs \<and> (\<forall>r \<in> set rs. kr_Namespace r = '''') \<and> one_named_cluster n rs)"
proof (cases "reads p")
  case (Inl e)
  then show ?thesis by (simp add: basecluster_Validate_def reads io_defs)
next
  case (Inr rs)
  with validate_infos_iff [of rs "''''" n] show ?thesis
    by (auto simp: basecluster_Validate_def reads io_defs split: sum.splits)
qed

text \<open>C21: A directory is accepted as a cluster template exactly when it has no sub-directory, has a
  kustomization and a configurations file, has one other file, and that manifest reads as resources
  without namespaces whose clusters are, in order, any number without a name and then one with a
  name; that name is returned. So where every cluster has a name there is exactly one, but a cluster
  without a name in front of the named one passes. The check changes nothing. (The entries of a
  directory have names.)\<close>

theorem validateDir_iff:
  assumes reads: "mt_Infos tools = (\<lambda>p. lift (reads p))"
    and files: "\<forall>i \<in> set infos. fi_Name i \<noteq> ''''"
  shows "validateDir tools dir infos w = (Inr n, w') \<longleftrightarrow> w' = w
    \<and> (\<forall>i \<in> set infos. \<not> fi_IsDir i)
    \<and> {''kustomization.yaml'', ''configurations.yaml''} \<subseteq> fi_Name ` set infos
    \<and> (\<exists>m rs. filter (\<lambda>n. \<not> special_file n) (map fi_Name infos) = [m]
         \<and> reads (path_Join [dir, m]) = Inr rs
         \<and> (\<forall>r \<in> set rs. kr_Namespace r = '''') \<and> n \<noteq> ''''
         \<and> (\<exists>k. cluster_names rs = replicate k '''' @ [n]))"
proof -
  have validate: "basecluster_Validate tools p w = (Inr n, w') \<longleftrightarrow> w' = w \<and>
      (\<exists>rs. reads p = Inr rs \<and> (\<forall>r \<in> set rs. kr_Namespace r = '''') \<and> n \<noteq> ''''
         \<and> (\<exists>k. cluster_names rs = replicate k '''' @ [n]))" for p
    unfolding basecluster_Validate_iff [OF reads] one_named_cluster_iff by blast
  have no_file: "'''' \<notin> fi_Name ` set infos" using files by auto
  show ?thesis
  proof (cases "scan_dir (\<lambda>_ _. ErrMultipleManifests) infos (False, False, '''')")
    case (Inl e)
    then have "\<not> (\<exists>k c m. scan_dir (\<lambda>_ _. ErrMultipleManifests) infos (False, False, '''') = Inr (k, c, m))"
      by simp
    with Inl show ?thesis
      unfolding scan_dir_iff [OF files] by (auto simp: validateDir_def io_defs split: list.splits)
  next
    case (Inr s)
    obtain k c m where s: "s = (k, c, m)" by (cases s)
    from Inr s scan_dir_iff [OF files, of "\<lambda>_ _. ErrMultipleManifests" False False "''''" k c m]
    have scan: "(\<forall>i \<in> set infos. \<not> fi_IsDir i)" "k = (''kustomization.yaml'' \<in> fi_Name ` set infos)"
      "c = (''configurations.yaml'' \<in> fi_Name ` set infos)"
      "case filter (\<lambda>n. \<not> special_file n) (map fi_Name infos) of [] \<Rightarrow> m = '''' | x # xs \<Rightarrow> xs = [] \<and> m = x"
      by (auto split: list.splits)
    have m: "filter (\<lambda>n. \<not> special_file n) (map fi_Name infos) = [x] \<longleftrightarrow> m = x \<and> m \<noteq> ''''" for x
    proof -
      have "x \<noteq> ''''" if "filter (\<lambda>n. \<not> special_file n) (map fi_Name infos) = [x]"
      proof -
        from that have "x \<in> set (filter (\<lambda>n. \<not> special_file n) (map fi_Name infos))" by simp
        then have "x \<in> fi_Name ` set infos" by simp
        with no_file show ?thesis by blast
      qed
      with scan(4) show ?thesis by (auto split: list.splits)
    qed
    have "validateDir tools dir infos w = (Inr n, w') \<longleftrightarrow>
        m \<noteq> '''' \<and> k \<and> c \<and> basecluster_Validate tools (path_Join [dir, m]) w = (Inr n, w')"
      unfolding validateDir_def Inr s by (auto simp: io_defs)
    with scan(1-3) m validate show ?thesis by auto
  qed
qed

definition template_dir :: "file_info list" where
  "template_dir = [\<lparr>fi_Name = ''configurations.yaml'', fi_IsDir = False\<rparr>,
     \<lparr>fi_Name = ''kustomization.yaml'', fi_IsDir = False\<rparr>, \<lparr>fi_Name = ''manifest.yaml'', fi_IsDir = False\<rparr>]"

definition capi_cluster :: "string \<Rightarrow> k8s_resource" where
  "capi_cluster ns = \<lparr>kr_Kind = ''Cluster'', kr_Name = ''c1'', kr_Namespace = ns, kr_Annotations = None\<rparr>"

definition unnamed_cluster :: k8s_resource where
  "unnamed_cluster = (capi_cluster '''')\<lparr>kr_Name := ''''\<rparr>"

definition mem_tools :: "(string \<Rightarrow> go_error + k8s_resource list) \<Rightarrow> 'w manifest_tools" where
  "mem_tools reads = \<lparr>mt_Infos = (\<lambda>p. lift (reads p)), mt_Convert = Inr,
     mt_Encode = (\<lambda>ds r. Inr (kr_Kind r @ ''/'' @ kr_Name r))\<rparr>"

text \<open>One cluster is accepted, and so is one behind a cluster without a name; a namespace or a second
  named cluster is not.\<close>

theorem validateDir_iff_witness:
  "let run = (\<lambda>rs. fst (validateDir (mem_tools (\<lambda>p. Inr rs)) ''t'' template_dir ())) in
   run [capi_cluster ''''] = Inr ''c1'' \<and> run [unnamed_cluster, capi_cluster ''''] = Inr ''c1''
   \<and> run [capi_cluster ''x''] \<noteq> Inr ''c1'' \<and> run [capi_cluster '''', capi_cluster ''''] \<noteq> Inr ''c1''"
proof -
  have files: "\<forall>i \<in> set template_dir. fi_Name i \<noteq> ''''" by (simp add: template_dir_def)
  have run: "validateDir (mem_tools (\<lambda>p. Inr rs)) ''t'' template_dir () = (Inr ''c1'', ())
      \<longleftrightarrow> (\<forall>r \<in> set rs. kr_Namespace r = '''') \<and> (\<exists>k. cluster_names rs = replicate k '''' @ [''c1''])" for rs
    using validateDir_iff [of "mem_tools (\<lambda>p. Inr rs)" "\<lambda>p. Inr rs"
        template_dir "''t''" "()" "''c1''" "()"] files
    by (simp add: mem_tools_def template_dir_def special_file_def)
  have fst: "fst (validateDir (mem_tools (\<lambda>p. Inr rs)) ''t'' template_dir ()) = Inr ''c1'' \<longleftrightarrow>
      (\<forall>r \<in> set rs. kr_Namespace r = '''') \<and> (\<exists>k. cluster_names rs = replicate k '''' @ [''c1''])" for rs
    unfolding run [symmetric] by (simp add: prod_eq_iff)
  have "\<exists>k. [''c1''] = replicate k '''' @ [''c1'']" "\<exists>k. ['''', ''c1''] = replicate k '''' @ [''c1'']"
    by (rule exI [of _ 0]; simp) (rule exI [of _ 1]; simp)
  moreover have "[''c1'', ''c1''] \<noteq> replicate k '''' @ [''c1'']" for k
    by (cases k) simp_all
  ultimately show ?thesis
    unfolding Let_def fst by (simp add: capi_cluster_def unnamed_cluster_def cluster_names_def)
qed

section \<open>What preparing achieves\<close>

lemma cas_keys [simp]:
  "casMinAnnotationMachineDeployments \<noteq> casMaxAnnotationMachineDeployments"
  "casMaxAnnotationMachineDeployments \<noteq> casMinAnnotationMachineDeployments"
  by (simp_all add: casMinAnnotationMachineDeployments_def casMaxAnnotationMachineDeployments_def)

lemma add_if_missing_settled:
  "mget (Some (fst (add_if_missing k i s))) k \<noteq> ''''"
  "mget (Some (fst s)) k' \<noteq> '''' \<Longrightarrow> mget (Some (fst (add_if_missing k i s))) k' \<noteq> ''''"
  by (cases s; simp add: add_if_missing_def)+

lemma add_if_missing_present: "mget (Some m) k \<noteq> '''' \<Longrightarrow> add_if_missing k i (m, d) = (m, d)"
  by (simp add: add_if_missing_def)

text \<open>Annotating again, with whatever sizes, changes nothing.\<close>

lemma annotations_idempotent:
  assumes "addClusterAutoscalerAnnotations ann casMax casMin = (ann', d)"
  shows "addClusterAutoscalerAnnotations ann' casMax' casMin' = (ann', False)"
proof -
  let ?s = "add_if_missing casMinAnnotationMachineDeployments casMin
    (add_if_missing casMaxAnnotationMachineDeployments casMax
      (case ann of None \<Rightarrow> Map.empty | Some f \<Rightarrow> f, False))"
  have "ann' = Some (fst ?s)"
    using assms by (simp add: addClusterAutoscalerAnnotations_def Let_def case_prod_beta)
  then show ?thesis
    using add_if_missing_settled
    by (simp add: addClusterAutoscalerAnnotations_def add_if_missing_present)
qed

lemma annotations_clean:
  "\<not> snd (addClusterAutoscalerAnnotations ann mx mn) \<Longrightarrow>
   \<not> snd (addClusterAutoscalerAnnotations ann mx' mn')"
  by (auto simp: addClusterAutoscalerAnnotations_def add_if_missing_def Let_def case_prod_beta
      casMinAnnotationMachineDeployments_def casMaxAnnotationMachineDeployments_def
      split: if_splits)

lemma prepare_resource_kind_name:
  "kr_Kind (fst (prepare_resource mx mn r)) = kr_Kind r"
  "kr_Name (fst (prepare_resource mx mn r)) = kr_Name r"
  "kr_Namespace (fst (prepare_resource mx mn r)) = ''''"
  by (auto simp: prepare_resource_def Let_def split: prod.splits if_splits)

lemma prepare_resource_idempotent:
  "prepare_resource mx' mn' (fst (prepare_resource mx mn r)) = (fst (prepare_resource mx mn r), False)"
proof (cases "kr_Kind r = ''MachineDeployment''")
  case False
  then show ?thesis by (auto simp: prepare_resource_def Let_def)
next
  case True
  obtain ann d where a: "addClusterAutoscalerAnnotations (kr_Annotations r) mx mn = (ann, d)"
    by (cases "addClusterAutoscalerAnnotations (kr_Annotations r) mx mn")
  have "snd (addClusterAutoscalerAnnotations (kr_Annotations r) mx' mn') = False" if "\<not> d"
    using annotations_clean [of "kr_Annotations r" mx mn mx' mn'] a that by simp
  with True a annotations_idempotent [OF a, of mx' mn'] show ?thesis
    by (cases "addClusterAutoscalerAnnotations (kr_Annotations r) mx' mn'")
      (auto simp: prepare_resource_def Let_def)
qed

lemma prepare_resource_clean: "\<not> snd (prepare_resource mx mn r) \<Longrightarrow> fst (prepare_resource mx mn r) = r"
  by (auto simp: prepare_resource_def Let_def split: prod.splits if_splits)

text \<open>The documented behaviour of the encoder: a document is encoded by itself, and every one but the
  first is preceded by a separator line. Reading a manifest reads the text of the file.\<close>

definition yaml_separator :: string where
  "yaml_separator = ''---'' @ [newline]"

definition yaml_stream :: "(k8s_resource \<Rightarrow> string) \<Rightarrow> k8s_resource list \<Rightarrow> string" where
  "yaml_stream doc ds = join_with yaml_separator (map doc ds)"

definition manifest_law :: "'w manifest_tools \<Rightarrow> ('w \<Rightarrow> string \<Rightarrow> string) \<Rightarrow> (k8s_resource \<Rightarrow> string) \<Rightarrow>
    (string \<Rightarrow> go_error + k8s_resource list) \<Rightarrow> bool" where
  "manifest_law tools content doc parse \<longleftrightarrow>
     (\<forall>p w. mt_Infos tools p w = lift (parse (content w p)) w) \<and> mt_Convert tools = Inr
     \<and> (\<forall>ds r. mt_Encode tools ds r = Inr ((if ds = [] then '''' else yaml_separator) @ doc r))"

lemma yaml_stream_snoc:
  "yaml_stream doc (ds @ [r]) = yaml_stream doc ds @ (if ds = [] then '''' else yaml_separator) @ doc r"
proof -
  have "join_with sep (xs @ [y]) = join_with sep xs @ (if xs = [] then '''' else sep) @ y" for sep xs y
    by (induction sep xs rule: join_with.induct) auto
  then show ?thesis by (simp add: yaml_stream_def)
qed

text \<open>An encoder that has written a stream of documents.\<close>

definition streaming :: "(k8s_resource \<Rightarrow> string) \<Rightarrow> yaml_encoder \<Rightarrow> k8s_resource list \<Rightarrow> bool" where
  "streaming doc enc ds \<longleftrightarrow> enc = \<lparr>enc_Docs = ds, enc_Buf = yaml_stream doc ds\<rparr>"

lemma streaming_new: "streaming doc yaml_NewEncoder []"
  by (simp add: streaming_def yaml_NewEncoder_def yaml_stream_def)

lemma streaming_Encode:
  "manifest_law tools content doc parse \<Longrightarrow> streaming doc enc ds \<Longrightarrow>
   \<exists>enc'. enc_Encode tools enc r = Inr enc' \<and> streaming doc enc' (ds @ [r])"
  by (simp add: enc_Encode_def manifest_law_def streaming_def yaml_stream_snoc)

definition prepared :: "int \<Rightarrow> int \<Rightarrow> k8s_resource list \<Rightarrow> k8s_resource list" where
  "prepared mx mn rs = map (\<lambda>r. fst (prepare_resource mx mn r)) rs"

definition needs_change :: "int \<Rightarrow> int \<Rightarrow> k8s_resource list \<Rightarrow> bool" where
  "needs_change mx mn rs \<longleftrightarrow> (\<exists>r \<in> set rs. snd (prepare_resource mx mn r))"

lemma prepare_resource_encodes:
  assumes "manifest_law tools content doc parse" "streaming doc enc ds"
  shows "\<exists>enc'. prepareCAPIManifestThenEncode tools r enc mx mn = Inr (enc', snd (prepare_resource mx mn r))
    \<and> streaming doc enc' (ds @ [fst (prepare_resource mx mn r)])"
  using streaming_Encode [OF assms, of "fst (prepare_resource mx mn r)"] assms(1)
  by (auto simp: prepareCAPIManifestThenEncode_def manifest_law_def case_prod_beta)

text \<open>The loop accepts what the validation of the prepared resources accepts, and has then written
  these as one stream.\<close>

lemma prepare_infos_iff:
  assumes law: "manifest_law tools content doc parse"
  shows "streaming doc enc ds \<Longrightarrow> n \<noteq> '''' \<Longrightarrow>
    (\<exists>enc'. prepare_infos tools mx mn rs (c, enc, d) = Inr (n, enc', d'))
      \<longleftrightarrow> validate_infos (prepared mx mn rs) c = Inr n \<and> d' = (d \<or> needs_change mx mn rs)"
proof (induction rs arbitrary: c enc d ds)
  case Nil
  then show ?case by (auto simp: prepared_def needs_change_def)
next
  case (Cons r rs)
  obtain e1 where e1: "prepareCAPIManifestThenEncode tools r enc mx mn = Inr (e1, snd (prepare_resource mx mn r))"
    "streaming doc e1 (ds @ [fst (prepare_resource mx mn r)])"
    using prepare_resource_encodes [OF law Cons.prems(1)] by blast
  show ?case
    using Cons.IH [OF e1(2) Cons.prems(2)] prepare_resource_kind_name [of mx mn r] e1(1)
    by (simp add: prepared_def needs_change_def Let_def disj_assoc)
qed

lemma prepare_infos_streams:
  assumes law: "manifest_law tools content doc parse"
  shows "streaming doc enc ds \<Longrightarrow> prepare_infos tools mx mn rs (c, enc, d) = Inr (n, enc', d')
      \<Longrightarrow> streaming doc enc' (ds @ prepared mx mn rs)"
proof (induction rs arbitrary: c enc d ds)
  case Nil
  then show ?case by (simp add: prepared_def)
next
  case (Cons r rs)
  obtain e1 where e1: "prepareCAPIManifestThenEncode tools r enc mx mn = Inr (e1, snd (prepare_resource mx mn r))"
    "streaming doc e1 (ds @ [fst (prepare_resource mx mn r)])"
    using prepare_resource_encodes [OF law Cons.prems(1)] by blast
  obtain c1 d1 where "prepare_infos tools mx mn rs (c1, e1, d1) = Inr (n, enc', d')"
    using Cons.prems(2) e1(1) by (auto simp: Let_def split: if_splits)
  from Cons.IH [OF e1(2) this] show ?case by (simp add: prepared_def)
qed

lemma Prepare_iff:
  assumes law: "manifest_law tools content doc parse" and rs: "parse (content w file) = Inr rs"
  shows "Prepare tools file False mx mn w = (Inr (n, yaml), w') \<longleftrightarrow>
    w' = w \<and> n \<noteq> '''' \<and> validate_infos (prepared mx mn rs) '''' = Inr n
    \<and> yaml = (if needs_change mx mn rs then Some (yaml_stream doc (prepared mx mn rs)) else None)"
proof -
  have infos: "mt_Infos tools file w = (Inr rs, w)"
    using law rs by (simp add: manifest_law_def lift_def ret_def)
  have loop: "(\<exists>enc'. prepare_infos tools mx mn rs ('''', yaml_NewEncoder, False) = Inr (n, enc', d'))
      \<longleftrightarrow> validate_infos (prepared mx mn rs) '''' = Inr n \<and> d' = needs_change mx mn rs" if "n \<noteq> ''''" for n d'
    using prepare_infos_iff [OF law streaming_new that] by simp
  show ?thesis
  proof (cases "prepare_infos tools mx mn rs ('''', yaml_NewEncoder, False)")
    case (Inl e)
    with loop [of n "needs_change mx mn rs"] infos show ?thesis by (auto simp: Prepare_def io_defs)
  next
    case (Inr s)
    obtain n' enc d where s: "s = (n', enc, d)" by (cases s)
    with Inr have run: "prepare_infos tools mx mn rs ('''', yaml_NewEncoder, False) = Inr (n', enc, d)" by simp
    from prepare_infos_streams [OF law streaming_new run] have "enc_Buf enc = yaml_stream doc (prepared mx mn rs)"
      by (simp add: streaming_def)
    with loop [of n' d] loop [of n "needs_change mx mn rs"] infos run show ?thesis
      by (auto simp: Prepare_def io_defs)
  qed
qed

lemma prepared_again: "prepared mx' mn' (prepared mx mn rs) = prepared mx mn rs"
  "\<not> needs_change mx' mn' (prepared mx mn rs)"
  by (simp_all add: prepared_def needs_change_def prepare_resource_idempotent)

lemma prepared_clean: "\<not> needs_change mx mn rs \<Longrightarrow> prepared mx mn rs = rs"
  unfolding prepared_def needs_change_def by (auto intro!: map_idI prepare_resource_clean)

text \<open>C22: When preparing a manifest succeeds with a cluster, it gives a new text exactly when a resource
  has a namespace or a machine deployment lacks a group size: the stream of the prepared resources,
  with the separators between them. Once that text (or the old one, when there is none) is in the
  file, and provided it reads back as the resources it was written for, the file validates as a
  template with the same cluster name, and preparing it again, for any group sizes, finds nothing to
  change.\<close>

theorem prepared_manifest_validates:
  assumes law: "manifest_law tools content doc parse" and rs: "parse (content w file) = Inr rs"
    and reads_back: "parse (yaml_stream doc (prepared mx mn rs)) = Inr (prepared mx mn rs)"
    and run: "Prepare tools file False mx mn w = (Inr (n, yaml), w')"
    and written: "content w2 file = (case yaml of None \<Rightarrow> content w file | Some t \<Rightarrow> t)"
  shows "w' = w \<and> basecluster_Validate tools file w2 = (Inr n, w2)
    \<and> Prepare tools file False mx' mn' w2 = (Inr (n, None), w2)
    \<and> (yaml \<noteq> None \<longleftrightarrow> needs_change mx mn rs)"
proof -
  note first = iffD1 [OF Prepare_iff [OF law rs] run]
  have again: "parse (content w2 file) = Inr (prepared mx mn rs)"
  proof (cases "needs_change mx mn rs")
    case True
    with first written reads_back show ?thesis by simp
  next
    case False
    with first written rs prepared_clean [OF False] show ?thesis by simp
  qed
  have "mt_Infos tools file w2 = (Inr (prepared mx mn rs), w2)"
    using law again by (simp add: manifest_law_def lift_def ret_def)
  with first have "basecluster_Validate tools file w2 = (Inr n, w2)"
    by (simp add: basecluster_Validate_def io_defs)
  moreover have "Prepare tools file False mx' mn' w2 = (Inr (n, None), w2)"
    unfolding Prepare_iff [OF law again] using first by (simp add: prepared_again)
  ultimately show ?thesis using first by simp
qed

text \<open>A codec of lines: the fields of a resource, separated by blanks, with a separator line between
  resources; the file is the whole state.\<close>

definition line_doc :: "k8s_resource \<Rightarrow> string" where
  "line_doc r = join_with '' '' [kr_Kind r, kr_Name r, kr_Namespace r,
     mget (kr_Annotations r) casMaxAnnotationMachineDeployments,
     mget (kr_Annotations r) casMinAnnotationMachineDeployments] @ [newline]"

fun read_line :: "string list \<Rightarrow> k8s_resource list" where
  "read_line [k, n, ns, mx, mn] = [\<lparr>kr_Kind = k, kr_Name = n, kr_Namespace = ns, kr_Annotations =
     (if mx = '''' \<and> mn = '''' then None else Some (Map.empty(casMaxAnnotationMachineDeployments \<mapsto> mx,
        casMinAnnotationMachineDeployments \<mapsto> mn)))\<rparr>]"
| "read_line xs = []"

definition read_lines :: "string \<Rightarrow> go_error + k8s_resource list" where
  "read_lines t = Inr (concat (map (\<lambda>l. read_line (split_on (CHR '' '') l)) (split_on newline t)))"

definition line_tools :: "string manifest_tools" where
  "line_tools = \<lparr>mt_Infos = (\<lambda>p w. lift (read_lines w) w), mt_Convert = Inr,
     mt_Encode = (\<lambda>ds r. Inr ((if ds = [] then '''' else yaml_separator) @ line_doc r))\<rparr>"

definition line_resource :: "string \<Rightarrow> string \<Rightarrow> string \<Rightarrow> gomap \<Rightarrow> k8s_resource" where
  "line_resource k n ns ann = \<lparr>kr_Kind = k, kr_Name = n, kr_Namespace = ns, kr_Annotations = ann\<rparr>"

definition two_lines :: string where
  "two_lines = ''Cluster c1 x  '' @ [newline] @ ''---'' @ [newline] @ ''MachineDeployment md   '' @ [newline]"

definition two_lines_prepared :: string where
  "two_lines_prepared = ''Cluster c1   '' @ [newline] @ ''---'' @ [newline] @ ''MachineDeployment md  9 1'' @ [newline]"

theorem prepared_manifest_validates_witness:
  "Prepare line_tools ''m.yaml'' False 9 1 two_lines = (Inr (''c1'', Some two_lines_prepared), two_lines)
   \<and> basecluster_Validate line_tools ''m.yaml'' two_lines_prepared = (Inr ''c1'', two_lines_prepared)
   \<and> Prepare line_tools ''m.yaml'' False 5 2 two_lines_prepared = (Inr (''c1'', None), two_lines_prepared)"
proof -
  let ?rs = "[line_resource ''Cluster'' ''c1'' ''x'' None, line_resource ''MachineDeployment'' ''md'' '''' None]"
  have law: "manifest_law line_tools (\<lambda>w p. w) line_doc read_lines"
    by (simp add: manifest_law_def line_tools_def)
  have rs: "read_lines two_lines = Inr ?rs"
    by (simp add: read_lines_def two_lines_def line_resource_def newline_def)
  have sizes: "Itoa 9 = ''9''" "Itoa 1 = ''1''" by code_simp+
  have prep: "prepared 9 1 ?rs = [line_resource ''Cluster'' ''c1'' '''' None,
      line_resource ''MachineDeployment'' ''md'' '''' (Some (Map.empty(casMaxAnnotationMachineDeployments \<mapsto> ''9'',
        casMinAnnotationMachineDeployments \<mapsto> ''1'')))]"
    by (simp add: prepared_def prepare_resource_def line_resource_def addClusterAutoscalerAnnotations_def
        add_if_missing_def mget_def sizes)
  have stream: "yaml_stream line_doc (prepared 9 1 ?rs) = two_lines_prepared"
    unfolding prep by (simp add: yaml_stream_def line_doc_def yaml_separator_def two_lines_prepared_def
        line_resource_def mget_def)
  have read_again: "read_lines (yaml_stream line_doc (prepared 9 1 ?rs)) = Inr (prepared 9 1 ?rs)"
    unfolding stream unfolding prep
    by (simp add: read_lines_def two_lines_prepared_def line_resource_def newline_def)
  have "needs_change 9 1 ?rs"
    by (simp add: needs_change_def prepare_resource_def line_resource_def)
  moreover have "validate_infos (prepared 9 1 ?rs) '''' = Inr ''c1''"
    unfolding prep by (simp add: line_resource_def)
  ultimately have run: "Prepare line_tools ''m.yaml'' False 9 1 two_lines =
      (Inr (''c1'', Some two_lines_prepared), two_lines)"
    unfolding Prepare_iff [OF law rs] by (simp add: stream)
  from prepared_manifest_validates [OF law rs read_again run, of two_lines_prepared] run show ?thesis by simp
qed

end
