(* ===== verification/Cluster_Ops.thy ===== *)
theory Cluster_Ops
  imports Cluster_Apps Basecluster
begin

text \<open>
  Operations on clusters (\<open>pkg/cluster\<close>: \<open>git.go\<close>, \<open>create.go\<close>, \<open>update.go\<close>, \<open>delete.go\<close>,
  \<open>get.go\<close>, \<open>list.go\<close>, \<open>ngupdate.go\<close>, \<open>set_appprofiles.go\<close>, \<open>external.go\<close>): generating the files
  of a cluster into git and managing its applications in ArgoCD. \<open>content\<close> is the tree of manifests
  embedded into the package.
\<close>

section \<open>Generating files into git\<close>

definition dynProfTmpl :: "app_settings \<Rightarrow> string" where
  "dynProfTmpl a = join_with [newline]
     ['''',
      ''apiVersion: argoproj.io/v1alpha1'',
      ''kind: Application'',
      ''metadata:'',
      ''  name: '' @ aset_AppName a,
      ''  namespace: '' @ aset_AppNamespace a,
      ''  finalizers:'',
      ''  # This solves issue #17'',
      ''  - resources-finalizer.argocd.argoproj.io/foreground'',
      ''spec:'',
      ''  syncPolicy:'',
      ''    automated:'',
      ''      prune: true'',
      ''  destination:'',
      ''    server: https://kubernetes.default.svc'',
      ''    namespace: '' @ aset_DestinationNamespace a,
      ''  project: default'',
      ''  source:'',
      ''    repoURL: '' @ aset_RepoUrl a,
      ''    path: '' @ aset_RepoPath a,
      ''    targetRevision: HEAD'',
      ''    helm:'',
      ''      parameters:'',
      ''      - name: clusterName'',
      ''        value: '' @ aset_ClusterName a,
      ''      - name: profileAppName'',
      ''        value: '' @ aset_AppName a,
      '''']"

definition dynamic_profile_settings :: "string \<Rightarrow> string \<Rightarrow> string \<Rightarrow> string \<Rightarrow> string \<Rightarrow> app_settings" where
  "dynamic_profile_settings clusterName profileName argocdNs repoUrl repoPath =
     \<lparr>aset_AppName = clusterName @ ''-profile-'' @ profileName, aset_ClusterName = clusterName,
      aset_RepoUrl = repoUrl, aset_RepoPath = path_Join [repoPath, ''mgmt''],
      aset_RepoRevision = '''', aset_SrcType = '''', aset_AppNamespace = argocdNs,
      aset_DestinationNamespace = argocdNs, aset_Overrides = []\<rparr>"

definition ProcessDynamicProfile ::
  "'w worktree \<Rightarrow> string \<Rightarrow> string \<Rightarrow> string \<Rightarrow> string \<Rightarrow> string \<Rightarrow> string \<Rightarrow> ('w, unit) io" where
  "ProcessDynamicProfile wt clusterName profileName argocdNs repoUrl repoPath appPath =
     put_file wt (wt_Create wt appPath)
       (ErrorCtx (''failed to create application file '' @ appPath @ '': '')) appPath
       (dynProfTmpl (dynamic_profile_settings clusterName profileName argocdNs repoUrl repoPath))
       (ErrorCtx (''failed to render application template '' @ appPath @ '': '')) (ret ())"

definition DeployToGit ::
  "'w git_env \<Rightarrow> (string \<times> embed_node) list \<Rightarrow> repo_creds \<Rightarrow> string \<Rightarrow> config_bundle list \<Rightarrow> string \<Rightarrow>
   string \<Rightarrow> string \<Rightarrow> string \<Rightarrow> profile \<Rightarrow> ('w, unit) io" where
  "DeployToGit env content creds argocdNs bundles clusterName repoUrl repoBranch basePath prof =
     must (CloneRepo env creds repoUrl repoBranch) (ErrorCtx ''failed to clone repo: '')
       (\<lambda>(repo, tmpDir, auth).
     let clusterPath = clusterPathFromBasePath basePath clusterName;
         mgmtPath = mgmtPathFromClusterPath clusterPath;
         workloadPath = workloadPathFromClusterPath clusterPath;
         profRepoUrl = pf_RepoUrl (prof_spec prof) in
     must (repo_Worktree repo) (ErrorCtx ''failed to get repo worktree: '') (\<lambda>wt.
     remove_old_dir wt clusterPath (
     must (CopyManifests wt content ''.'' mgmtPath) (ErrorCtx ''failed to copy embedded content: '') (\<lambda>_.
     must (if profRepoUrl \<noteq> '''' then
         must (ProcessDynamicProfile wt clusterName (om_name (prof_meta prof)) argocdNs profRepoUrl
             (pf_RepoPath (prof_spec prof)) (path_Join [mgmtPath, ''templates'', ''profile.yaml'']))
           (ErrorCtx ''failed to process dynamic profile: '') ret
       else
         must (ProcessBundles wt clusterName repoUrl mgmtPath workloadPath bundles (MakeOverridesMap prof))
           (ErrorCtx ''failed to process bundles: '') ret)
       id (\<lambda>_.
     must (CommitChanges env tmpDir wt (''deploy arlon cluster '' @ clusterPath))
       (ErrorCtx ''failed to commit changes: '') (\<lambda>changed.
     push_if_changed repo auth changed))))))"

definition DeployPatchToGit ::
  "'w git_env \<Rightarrow> template_env \<Rightarrow> repo_creds \<Rightarrow> string \<Rightarrow> url \<Rightarrow> revision \<Rightarrow> revision \<Rightarrow> path \<Rightarrow> string \<Rightarrow>
   url \<Rightarrow> path \<Rightarrow> ('w, unit) io" where
  "DeployPatchToGit env tenv creds clusterName repoUrl patchRepoRevision baseRepoRevision basePath
     patchContent baseRepoUrl baseRepoPath =
     must (CloneRepo env creds repoUrl patchRepoRevision) (ErrorCtx ''failed to clone repo: '')
       (\<lambda>(repo, tmpDir, auth).
     let clusterPath = clusterPathFromBasePath basePath clusterName;
         confPath = path_Join [clusterPath, ''configurations.yaml''] in
     must (repo_Worktree repo) (ErrorCtx ''failed to get repo worktree: '') (\<lambda>wt.
     remove_old_dir wt clusterPath (
     must (CopyPatchManifests tenv wt patchContent clusterPath baseRepoUrl baseRepoPath baseRepoRevision)
       (ErrorCtx ''failed to copy embedded content: '') (\<lambda>_.
     put_file wt (wt_Create wt confPath) (ErrorCtx ''failed to create configurations.yaml: '') confPath
       ConfigurationsYaml (ErrorCtx ''failed to write to configurations.yaml: '') (
     must (CommitChanges env tmpDir wt (''deploy patches of the arlon cluster in '' @ clusterPath))
       (ErrorCtx ''failed to commit changes: '') (\<lambda>_.
     must (repo_Push repo auth) (ErrorCtx ''failed to push to remote repository: '') (\<lambda>_.
     ret ())))))))"

section \<open>Creating\<close>

text \<open>A nil profile is dereferenced by \<open>GetBundlesFromProfile\<close> and \<open>DeployToGit\<close>.\<close>

definition deref :: "'a option \<Rightarrow> ('a \<Rightarrow> ('w, 'b) io) \<Rightarrow> ('w, 'b) io" where
  [io_defs]: "deref x k = (case x of None \<Rightarrow> panic ''nil pointer dereference'' | Some y \<Rightarrow> k y)"

text \<open>The check that no application has the name; only a not-found status lets the caller go on.\<close>

definition no_such_app :: "'w application_client \<Rightarrow> string \<Rightarrow> ('w, 'a) io \<Rightarrow> ('w, 'a) io" where
  "no_such_app appIf clusterName k =
     attempt (appIf_Get appIf clusterName)
       (\<lambda>err. case grpc_code err of
          None \<Rightarrow> fail (ErrorText ''failed to get grpc status from error'')
        | Some code \<Rightarrow> if code \<noteq> grpc_NotFound
            then fail (ErrorText (''unexpected cluster application error code: '' @ Itoa (int code)))
            else k)
       (\<lambda>_. fail (ErrorText ''arlon cluster already exists''))"

definition cluster_Create ::
  "'w git_env \<Rightarrow> (string \<times> embed_node) list \<Rightarrow> 'w application_client \<Rightarrow> 'w rest_config \<Rightarrow> string \<Rightarrow> string \<Rightarrow>
   string \<Rightarrow> string \<Rightarrow> url \<Rightarrow> revision \<Rightarrow> path \<Rightarrow> string \<Rightarrow> profile option \<Rightarrow> bool \<Rightarrow> string \<Rightarrow> bool \<Rightarrow>
   ('w, application) io" where
  "cluster_Create env content appIf config argocdNs arlonNs clusterName baseClusterName repoUrl
     repoBranch basePath clusterSpecName prof createInArgoCd managementClusterUrl withCAS =
     must (rc_NewForConfig config) (ErrorCtx ''failed to get kube client: '') (\<lambda>kubeClient.
     no_such_app appIf clusterName (
     andThen (if clusterSpecName \<noteq> '''' then
         must (api_get (kube_ConfigMaps kubeClient) arlonNs clusterSpecName)
           (ErrorCtx ''failed to get clusterspec configmap: '') (\<lambda>cm. ret (Some cm))
       else ret None) (\<lambda>cm.
     let repoPath = (if clusterSpecName \<noteq> '''' then mgmtPathFromBasePath basePath clusterName else basePath);
         profileName = (case prof of None \<Rightarrow> ''no-profile-for-gen2'' | Some p \<Rightarrow> om_name (prof_meta p)) in
     must (lift (ConstructRootApp argocdNs clusterName baseClusterName repoUrl repoBranch repoPath
         clusterSpecName cm profileName managementClusterUrl withCAS))
       (ErrorCtx ''failed to construct root app: '') (\<lambda>rootApp.
     andThen (if clusterSpecName \<noteq> '''' then
         must (GetRepoCredsFromArgoCd kubeClient argocdNs repoUrl)
           (ErrorCtx ''failed to get repo credentials: '') (\<lambda>creds.
         deref prof (\<lambda>p.
         must (GetBundlesFromProfile p (kube_Secrets kubeClient) arlonNs)
           (ErrorCtx ''failed to get bundles from profile: '') (\<lambda>bundles.
         must (DeployToGit env content creds argocdNs bundles clusterName repoUrl repoBranch basePath p)
           (ErrorCtx ''failed to deploy git tree: '') ret)))
       else ret ()) (\<lambda>_.
     if createInArgoCd then
       must (appIf_Create appIf rootApp) (ErrorCtx ''failed to create ArgoCD root application: '')
         (\<lambda>_. ret rootApp)
     else ret rootApp)))))"

definition CreatePatchDir ::
  "'w git_env \<Rightarrow> template_env \<Rightarrow> 'w rest_config \<Rightarrow> string \<Rightarrow> url \<Rightarrow> string \<Rightarrow> path \<Rightarrow> revision \<Rightarrow> revision \<Rightarrow>
   string \<Rightarrow> url \<Rightarrow> path \<Rightarrow> ('w, unit) io" where
  "CreatePatchDir env tenv config clusterName repoURL argocdNs basePath patchRepoRevision
     baseRepoRevision patchContent baseRepoUrl baseRepoPath =
     must (rc_NewForConfig config) (ErrorCtx ''failed to get kube client: '') (\<lambda>kubeClient.
     must (GetRepoCredsFromArgoCd kubeClient argocdNs repoURL)
       (ErrorCtx ''failed to get repo credentials: '') (\<lambda>creds.
     must (DeployPatchToGit env tenv creds clusterName repoURL patchRepoRevision baseRepoRevision
         basePath patchContent baseRepoUrl baseRepoPath)
       (ErrorCtx ''failed to deploy git tree: '') ret))"

section \<open>Updating a cluster of the first generation\<close>

text \<open>The loop that looks for the tag of the sub-chart among the parameters of the old application.\<close>

fun has_param :: "string \<Rightarrow> helm_parameter list \<Rightarrow> bool" where
  "has_param helmParamName [] = False"
| "has_param helmParamName (p # ps) =
     (if hp_Name p = helmParamName \<and> hp_Value p = ''true'' then True else has_param helmParamName ps)"

text \<open>An annotation of the old application where no name is given.\<close>

definition name_or_annotation ::
  "string \<Rightarrow> application \<Rightarrow> string \<Rightarrow> string \<Rightarrow> (string \<Rightarrow> ('w, 'a) io) \<Rightarrow> ('w, 'a) io" where
  "name_or_annotation name oldApp key what k =
     (if name = '''' then
        let name = mget (om_annotations (app_meta oldApp)) key in
        if name = '''' then
          fail (ErrorText (''existing cluster root app is missing '' @ what @ '' annotation''))
        else k name
      else k name)"

definition cluster_Update ::
  "'w git_env \<Rightarrow> (string \<times> embed_node) list \<Rightarrow> 'w application_client \<Rightarrow> 'w rest_config \<Rightarrow> string \<Rightarrow> string \<Rightarrow>
   string \<Rightarrow> string \<Rightarrow> string \<Rightarrow> bool \<Rightarrow> string \<Rightarrow> ('w, application) io" where
  "cluster_Update env content appIf config argocdNs arlonNs clusterName clusterSpecName profileName
     updateInArgoCd managementClusterUrl =
     must (appIf_Get appIf clusterName) (ErrorCtx ''failed to get argocd app: '') (\<lambda>oldApp.
     name_or_annotation clusterSpecName oldApp ClusterSpecAnnotationKey ''clusterspec'' (\<lambda>clusterSpecName.
     name_or_annotation profileName oldApp ProfileAnnotationKey ''profile'' (\<lambda>profileName.
     must (profile_Get config profileName arlonNs) (ErrorCtx ''failed to get profile: '') (\<lambda>prof.
     must (rc_NewForConfig config) (ErrorCtx ''failed to get kube client: '') (\<lambda>kubeClient.
     must (api_get (kube_ConfigMaps kubeClient) arlonNs clusterSpecName)
       (ErrorCtx ''failed to get clusterspec configmap: '') (\<lambda>clusterSpecCm.
     andThen (lift (SubchartName clusterSpecCm)) (\<lambda>subchartName.
     deref (src_Helm (app_Source (app_spec oldApp))) (\<lambda>params.
     if \<not> has_param (''tags.'' @ subchartName) params then
       fail (ErrorText ''the api provider, cloud provider, or cluster type cannot change'')
     else
       let repoUrl = src_RepoURL (app_Source (app_spec oldApp));
           repoBranch = src_TargetRevision (app_Source (app_spec oldApp));
           repoPath = src_Path (app_Source (app_spec oldApp)) in
       must (lift (decomposePath repoPath)) (ErrorCtx ''failed to decompose repo path: '')
         (\<lambda>(basePath, clstName).
       if clstName \<noteq> clusterName then
         fail (ErrorText (''unexpected cluster name extracted from repo path: '' @ clstName))
       else
         must (lift (ConstructRootApp argocdNs clusterName '''' repoUrl repoBranch repoPath
             clusterSpecName (Some clusterSpecCm) (om_name (prof_meta prof)) managementClusterUrl False))
           (ErrorCtx ''failed to construct root app: '') (\<lambda>rootApp.
         if repoUrl \<noteq> src_RepoURL (app_Source (app_spec rootApp))
           \<or> repoPath \<noteq> src_Path (app_Source (app_spec rootApp))
         then fail (ErrorText ''git repo reference cannot change'')
         else
           must (GetBundlesFromProfile prof (kube_Secrets kubeClient) arlonNs)
             (ErrorCtx ''failed to get bundles: '') (\<lambda>bundles.
           must (GetRepoCredsFromArgoCd kubeClient argocdNs repoUrl)
             (ErrorCtx ''failed to get repository credentials: '') (\<lambda>creds.
           must (DeployToGit env content creds argocdNs bundles clusterName repoUrl repoBranch basePath prof)
             (ErrorCtx ''failed to deploy git tree: '') (\<lambda>_.
           if updateInArgoCd then
             must (appIf_Update appIf rootApp) (ErrorCtx ''failed to update ArgoCD root application: '')
               (\<lambda>_. ret rootApp)
           else ret rootApp)))))))))))))"

section \<open>Looking up\<close>

definition getMatchingProfileName :: "'w application_client \<Rightarrow> string \<Rightarrow> ('w, string) io" where
  "getMatchingProfileName appIf clusterName =
     must (appIf_List appIf (''managed-by=arlon,arlon-type=profile-app,arlon-cluster='' @ clusterName))
       (ErrorCtx (''failed to list profile apps associated with cluster '' @ clusterName @ '': ''))
       (\<lambda>profileApps. case profileApps of
          [] \<Rightarrow> ret ''''
        | a # _ \<Rightarrow> ret (mget (om_labels (app_meta a)) ''arlon-profile''))"

definition plain_cluster :: "string \<Rightarrow> cluster_info" where
  "plain_cluster name = \<lparr>clu_Name = name, clu_ClusterSpecName = '''', clu_BaseCluster = None,
     clu_ProfileName = '''', clu_IsExternal = False, clu_SecretName = '''', clu_AppProfiles = []\<rparr>"

definition external_cluster_of :: "string \<Rightarrow> secret \<Rightarrow> cluster_info" where
  "external_cluster_of name secr = (plain_cluster name)
     \<lparr>clu_ProfileName := mget (om_annotations (secr_meta secr)) ProfileAnnotationKey,
      clu_IsExternal := True, clu_SecretName := secr_name secr\<rparr>"

definition gen1_cluster_of :: "application \<Rightarrow> cluster_info" where
  "gen1_cluster_of a = (plain_cluster (app_name a))
     \<lparr>clu_ClusterSpecName := mget (om_annotations (app_meta a)) ClusterSpecAnnotationKey,
      clu_ProfileName := mget (om_annotations (app_meta a)) ProfileAnnotationKey\<rparr>"

definition gen2_cluster_of :: "application \<Rightarrow> string \<Rightarrow> cluster_info" where
  "gen2_cluster_of a profileName = (let ann = mget (om_annotations (app_meta a)) in
     (plain_cluster (app_name a))
     \<lparr>clu_ProfileName := profileName,
      clu_BaseCluster := Some \<lparr>bci_Name = ann baseClusterNameAnnotation,
        bci_RepoUrl = ann baseClusterRepoUrlAnnotation,
        bci_RepoRevision = ann baseClusterRepoRevisionAnnotation,
        bci_RepoPath = ann baseClusterRepoPathAnnotation, bci_Overridden = ''''\<rparr>\<rparr>)"

text \<open>The loop over the secrets of external clusters; a missing name is logged and reads as the empty
  name.\<close>

fun find_external :: "string \<Rightarrow> secret list \<Rightarrow> cluster_info option" where
  "find_external name [] = None"
| "find_external name (secr # secrs) =
     (if mget (secr_data secr) ''name'' = name then Some (external_cluster_of name secr)
      else find_external name secrs)"

definition external_selector :: string where
  "external_selector = argoClusterSecretTypeLabel @ '','' @ externalClusterTypeLabel"

definition cluster_Get ::
  "'w application_client \<Rightarrow> 'w rest_config \<Rightarrow> string \<Rightarrow> string \<Rightarrow> ('w, cluster_info) io" where
  "cluster_Get appIf config argocdNs name =
     must (rc_NewForConfig config) (ErrorCtx ''failed to get kube client: '') (\<lambda>kubeClient.
     must (api_list (kube_Secrets kubeClient) argocdNs external_selector)
       (ErrorCtx ''failed to list cluster secrets: '') (\<lambda>secrs.
     case find_external name secrs of
       Some cl \<Rightarrow> ret cl
     | None \<Rightarrow>
         must (appIf_Get appIf name) (ErrorCtx ''failed to get argocd application: '') (\<lambda>app.
         let typ = mget (om_labels (app_meta app)) ''arlon-type'' in
         if typ = ''cluster'' then ret (gen1_cluster_of app)
         else if typ = ''cluster-app'' then
           must (getMatchingProfileName appIf (app_name app))
             (ErrorCtx ''failed to matching profile name: '') (\<lambda>profileName.
           ret (gen2_cluster_of app profileName))
         else fail (ErrorText ''not an arlon cluster''))))"

definition cluster_String :: "cluster_info \<Rightarrow> string" where
  "cluster_String c =
     ''Name: '' @ clu_Name c
     @ (if clu_IsExternal c then '', Type: external''
        else (case clu_BaseCluster c of
            Some b \<Rightarrow> '', Type: next-gen, Cluster template Repo Url: '' @ bci_RepoUrl b
              @ '', Cluster template Repo Path: '' @ bci_RepoPath b
          | None \<Rightarrow> '', Type: previous gen, Cluster Spec: '' @ clu_ClusterSpecName c))
     @ (if clu_ProfileName c \<noteq> '''' then '', Profile: '' @ clu_ProfileName c else '''')"

definition cluster_List ::
  "'w application_client \<Rightarrow> 'w rest_config \<Rightarrow> string \<Rightarrow> ('w, cluster_info list) io" where
  "cluster_List appIf config argocdNs =
     must (appIf_List appIf ArlonGen1ClusterLabelQueryOnArgoApps)
       (ErrorCtx ''failed to list argocd applications: '') (\<lambda>apps1.
     must (appIf_List appIf ArlonGen2ClusterLabelQueryOnArgoApps)
       (ErrorCtx ''failed to list next-gen clusters: '') (\<lambda>apps2.
     andThen (forM (\<lambda>a clist.
         must (getMatchingProfileName appIf (app_name a))
           (ErrorCtx ''failed to matching profile name: '') (\<lambda>profileName.
         ret (clist @ [(gen2_cluster_of a profileName)
           \<lparr>clu_AppProfiles := split_on (CHR '','') (mget (om_annotations (app_meta a)) ProfilesAnnotationKey)\<rparr>])))
       apps2 (map gen1_cluster_of apps1)) (\<lambda>clist.
     must (rc_NewForConfig config) (ErrorCtx ''failed to get kube client: '') (\<lambda>kubeClient.
     must (api_list (kube_Secrets kubeClient) argocdNs external_selector)
       (ErrorCtx ''failed to list cluster secrets: '') (\<lambda>secrs.
     ret (clist @ map (\<lambda>secr. external_cluster_of (mget (secr_data secr) ''name'') secr) secrs))))))"

end
