(* ===== verification/Cluster_Manage.thy ===== *)
theory Cluster_Manage
  imports Cluster_Ops
begin

text \<open>
  The rest of \<open>pkg/cluster\<close>: deleting a cluster and its overrides in git (\<open>delete.go\<close>), attaching
  profiles (\<open>ngupdate.go\<close>, \<open>set_appprofiles.go\<close>), managing clusters that Arlon did not create
  (\<open>external.go\<close>).
\<close>

section \<open>Clusters of others\<close>

text \<open>The loop over the names of the known clusters.\<close>

fun already_managed :: "string \<Rightarrow> cluster_info list \<Rightarrow> bool" where
  "already_managed clusterName [] = False"
| "already_managed clusterName (c # cs) =
     (if clu_Name c = clusterName then True else already_managed clusterName cs)"

text \<open>The loop over the cluster secrets: the first one with the name; a missing name is logged and
  reads as the empty one.\<close>

fun find_cluster_secret :: "string \<Rightarrow> secret list \<Rightarrow> secret option" where
  "find_cluster_secret clusterName [] = None"
| "find_cluster_secret clusterName (secr # secrs) =
     (if mget (secr_data secr) ''name'' = clusterName then Some secr
      else find_cluster_secret clusterName secrs)"

definition with_labels :: "secret \<Rightarrow> gomap \<Rightarrow> gomap \<Rightarrow> secret" where
  "with_labels secr lbs anns =
     secr\<lparr>secr_meta := (secr_meta secr)\<lparr>om_labels := lbs, om_annotations := anns\<rparr>\<rparr>"

definition profile_app_name :: "string \<Rightarrow> string \<Rightarrow> string" where
  "profile_app_name clusterName profName = clusterName @ ''-profile-'' @ profName"

text \<open>
  When the patch of the secret fails, the profile application is deleted again, and the error that is
  returned prints the outcome of that: the error of the deletion, or Go's rendering of nil.
\<close>

definition ManageExternal ::
  "'w argocd_client \<Rightarrow> 'w rest_config \<Rightarrow> string \<Rightarrow> string \<Rightarrow> profile \<Rightarrow> ('w, unit) io" where
  "ManageExternal argoIf config argocdNs clusterName prof =
     (if pf_RepoUrl (prof_spec prof) = '''' then
        fail (ErrorText ''the profile is static, only dynamic is supported'')
      else
        must (argo_NewApplicationClient argoIf) (ErrorCtx ''failed to get argocd application client: '')
          (\<lambda>appIf.
        must (cluster_List appIf config argocdNs) (ErrorCtx ''failed to list existing clusters: '')
          (\<lambda>clist.
        if already_managed clusterName clist then
          fail (ErrorText ''cluster is already created or managed by arlon'')
        else
          must (argo_NewClusterClient argoIf) (ErrorCtx ''failed to get argocd cluster client: '')
            (\<lambda>clusterIf.
          must (clIf_Get clusterIf clusterName) (\<lambda>_. ErrorText ''cluster is not registered in argocd'')
            (\<lambda>_.
          must (rc_NewForConfig config) (ErrorCtx ''failed to get kube client: '') (\<lambda>kubeClient.
          must (api_list (kube_Secrets kubeClient) argocdNs argoClusterSecretTypeLabel)
            (ErrorCtx ''failed to list argo cluster secrets: '') (\<lambda>secrs.
          case find_cluster_secret clusterName secrs of
            None \<Rightarrow> fail (ErrorText ''failed to find matching cluster secret'')
          | Some secr \<Rightarrow>
              if mget (om_labels (secr_meta secr)) clusterTypeLabelKey \<noteq> '''' then
                fail (ErrorText ''unexpectedly found arlon label in secret'')
              else
                must (ctrlruntimeclient_NewClient config)
                  (ErrorCtx ''failed to get controller runtime client: '') (\<lambda>cli.
                let profName = om_name (prof_meta prof);
                    profileAppName = profile_app_name clusterName profName;
                    app = constructProfileApp profileAppName argocdNs clusterName prof in
                must (appIf_Create appIf app) (ErrorCtx ''failed to get create profile app: '') (\<lambda>_.
                assigning (om_labels (secr_meta secr)) clusterTypeLabelKey ''external'' (\<lambda>lbs.
                assigning (om_annotations (secr_meta secr)) ProfileAnnotationKey profName (\<lambda>anns.
                assigning anns ProfileAppAnnotationKey profileAppName (\<lambda>anns.
                attempt (api_patch (cli_Secrets cli) (om_namespace (secr_meta secr)) secr
                    (with_labels secr lbs anns))
                  (\<lambda>_. attempt (appIf_Delete appIf profileAppName True)
                     (\<lambda>err. fail (ErrorCtx ''failed to patch secret: '' err))
                     (\<lambda>_. fail (ErrorText ''failed to patch secret: %!s(<nil>)'')))
                  ret))))))))))))"

definition UnmanageExternal ::
  "'w argocd_client \<Rightarrow> 'w rest_config \<Rightarrow> string \<Rightarrow> string \<Rightarrow> ('w, unit) io" where
  "UnmanageExternal argoIf config argocdNs clusterName =
     must (argo_NewApplicationClient argoIf) (ErrorCtx ''failed to get argocd application client: '')
       (\<lambda>appIf.
     must (cluster_Get appIf config argocdNs clusterName) (ErrorCtx ''failed to get existing cluster: '')
       (\<lambda>foundCluster.
     if \<not> clu_IsExternal foundCluster then fail (ErrorText ''cluster is not external'')
     else if clu_SecretName foundCluster = '''' then
       fail (ErrorText ''cluster is missing secret information'')
     else
       must (rc_NewForConfig config) (ErrorCtx ''failed to get kube client: '') (\<lambda>kubeClient.
       must (api_get (kube_Secrets kubeClient) argocdNs (clu_SecretName foundCluster))
         (ErrorCtx ''failed to get argo cluster secret: '') (\<lambda>secr.
       if mget (secr_data secr) ''name'' \<noteq> clusterName then
         fail (ErrorText ''secret data does not match cluster name'')
       else if mget (om_labels (secr_meta secr)) clusterTypeLabelKey \<noteq> ''external'' then
         fail (ErrorText ''secret does not have arlon cluster label'')
       else
         must (ctrlruntimeclient_NewClient config)
           (ErrorCtx ''failed to get controller runtime client: '') (\<lambda>cli.
         let profileAppName = mget (om_annotations (secr_meta secr)) ProfileAppAnnotationKey in
         if profileAppName = '''' then
           fail (ErrorText ''secret does not contain profile app name annotation'')
         else
           must (appIf_Delete appIf profileAppName True) (ErrorCtx ''failed to delete profile app: '')
             (\<lambda>_.
           must (api_patch (cli_Secrets cli) (om_namespace (secr_meta secr)) secr
               (with_labels secr (mdelete (om_labels (secr_meta secr)) clusterTypeLabelKey)
                  (mdelete (mdelete (om_annotations (secr_meta secr)) ProfileAnnotationKey)
                     ProfileAppAnnotationKey)))
             (ErrorCtx ''failed to patch secret: '') ret))))))"

section \<open>Deleting\<close>

definition DeleteOverridesDir ::
  "'w git_env \<Rightarrow> application \<Rightarrow> 'w kube_client \<Rightarrow> string \<Rightarrow> string \<Rightarrow> ('w, unit) io" where
  "DeleteOverridesDir env app kubeClient argocdNs clusterName =
     (let ann = mget (om_annotations (app_meta app));
          repoUrl = ann baseClusterRepoUrlAnnotation;
          repoRevision = ann baseClusterRepoRevisionAnnotation;
          repoPath = ann baseClusterRepoPathAnnotation @ ''/'' @ clusterName in
     must (GetRepoCredsFromArgoCd kubeClient argocdNs repoUrl)
       (ErrorCtx ''failed to get repo credentials: '') (\<lambda>creds.
     must (CloneRepo env creds repoUrl repoRevision) (ErrorCtx ''failed to clone repo: '')
       (\<lambda>(repo, tmpDir, auth).
     must (repo_Worktree repo) (\<lambda>e. ErrorWrap ''failed to get working tree, '' e '''') (\<lambda>wt.
     must (wt_Lstat wt repoPath) (ErrorCtx ''Failed to find the directory to delete: '') (\<lambda>fileInfo.
     if \<not> fi_IsDir fileInfo then fail (ErrorText (''unexpected file type for '' @ repoPath))
     else
       must (wt_Remove wt repoPath) (ErrorCtx ''failed to recursively delete cluster directory: '')
         (\<lambda>_.
       must (CommitDeleteChanges wt (''Deleted the files regarding to '' @ repoPath))
         (ErrorCtx ''failed to commit changes: '') (\<lambda>changed.
       push_if_changed repo auth changed)))))))"

definition delete_related_app ::
  "'w git_env \<Rightarrow> 'w application_client \<Rightarrow> 'w kube_client \<Rightarrow> string \<Rightarrow> string \<Rightarrow> application \<Rightarrow> ('w, unit) io"
where
  "delete_related_app env appIf kubeClient argocdNs name app =
     andThen (if mget (om_labels (app_meta app)) ''arlon-type'' = ''cluster-app''
         \<and> mget (om_annotations (app_meta app)) baseClusterOverridden = ''true''
       then must (DeleteOverridesDir env app kubeClient argocdNs name)
         (ErrorCtx ''failed to delete the overrides directory: '') ret
       else ret ()) (\<lambda>_.
     must (appIf_Delete appIf (app_name app) True)
       (ErrorCtx (''failed to delete related app '' @ app_name app @ '': '')) ret)"

definition cluster_Delete ::
  "'w git_env \<Rightarrow> 'w argocd_client \<Rightarrow> 'w rest_config \<Rightarrow> string \<Rightarrow> string \<Rightarrow> ('w, unit) io" where
  "cluster_Delete env argoIf config argocdNs name =
     must (rc_NewForConfig config) (ErrorCtx ''failed to get kube client: '') (\<lambda>kubeClient.
     must (argo_NewApplicationClient argoIf) (ErrorCtx ''failed to get argocd application client: '')
       (\<lambda>appIf.
     must (cluster_Get appIf config argocdNs name) (ErrorCtx ''failed to get existing cluster: '')
       (\<lambda>clust.
     if clu_IsExternal clust then UnmanageExternal argoIf config argocdNs name
     else if clu_BaseCluster clust = None then appIf_Delete appIf name True
     else
       must (appIf_List appIf (''arlon-cluster='' @ name))
         (ErrorCtx ''failed to list apps related to cluster: '') (\<lambda>apps.
       forM (\<lambda>app _. delete_related_app env appIf kubeClient argocdNs name app) apps ()))))"

section \<open>Attaching profiles\<close>

definition NgUpdate ::
  "'w application_client \<Rightarrow> 'w rest_config \<Rightarrow> string \<Rightarrow> string \<Rightarrow> string \<Rightarrow> string \<Rightarrow> bool \<Rightarrow>
   ('w, application) io" where
  "NgUpdate appIf config argocdNs arlonNs clusterName profileName updateInArgoCd =
     must (profile_Get config profileName arlonNs) (ErrorCtx ''failed to get profile: '') (\<lambda>prof.
     if pf_RepoUrl (prof_spec prof) = '''' then
       fail (ErrorText ''RepoUrl empty, static profiles are unsupported'')
     else
       must (DestroyProfileApps appIf clusterName) (ErrorCtx ''Failed to delete profile app: '') (\<lambda>_.
       must (CreateProfileApp (profile_app_name clusterName (om_name (prof_meta prof))) appIf argocdNs
           clusterName prof updateInArgoCd)
         (ErrorCtx ''failed to create profile app: '') ret))"

definition SetAppProfiles :: "'w application_client \<Rightarrow> string \<Rightarrow> string \<Rightarrow> ('w, unit) io" where
  "SetAppProfiles appIf name commaSeparatedAppProfiles =
     must (appIf_Get appIf name) (ErrorCtx ''failed to get argocd application: '') (\<lambda>app.
     if mget (om_labels (app_meta app)) ''arlon-type'' \<noteq> ''cluster-app'' then
       fail (ErrorText ''application resource is not an Arlon cluster'')
     else
       assigning (om_annotations (app_meta app)) ProfilesAnnotationKey commaSeparatedAppProfiles (\<lambda>anns.
       must (appIf_Update appIf (app\<lparr>app_meta := (app_meta app)\<lparr>om_annotations := anns\<rparr>\<rparr>))
         (ErrorCtx ''failed to update argocd application: '') (\<lambda>_. ret ())))"

end
