(* ===== verification/Cluster_Controller.thy ===== *)
theory Cluster_Controller
  imports Cluster_Manage
begin

text \<open>
  The controller of \<open>Cluster\<close> resources (\<open>controllers/cluster_controller.go\<close>): one reconciliation
  validates the template, creates the override in git, creates the two ArgoCD applications of the
  cluster and keeps the profile annotation in step, one stage at a time; the reconciliation of a
  deleted resource takes these things away again before it lets the resource go.
\<close>

section \<open>The reconciler\<close>

text \<open>\<open>patch.NewHelper\<close> keeps a copy of the object; the patch that its \<open>Patch\<close> sends is made of this
  copy and the object at that time.\<close>

record 'w cluster_reconciler =
  clr_Client :: "'w ctrl_client"
  clr_NewHelper :: "cluster_res \<Rightarrow> ('w, unit) io"
  clr_ArgocdClient :: "'w argocd_client"
  clr_Config :: "'w rest_config"
  clr_ArgoCdNs :: string
  clr_ArlonNs :: string
  clr_Env :: "'w git_env"
  clr_Tools :: "'w manifest_tools"
  clr_Templates :: template_env
  clr_Content :: "(string \<times> embed_node) list"

definition defaultArlonChart :: repo_spec where
  "defaultArlonChart = \<lparr>rs_Url = ''https://github.com/arlonproj/arlon.git'',
     rs_Path = ''pkg/cluster/manifests'', rs_Revision = ''v0.10.0''\<rparr>"

definition arlonAppName :: "string \<Rightarrow> string" where
  "arlonAppName clusterName = clusterName @ ''-arlon''"

abbreviation cl_name :: "cluster_res \<Rightarrow> string" where
  "cl_name cl \<equiv> om_name (cl_meta cl)"

abbreviation cl_ns :: "cluster_res \<Rightarrow> string" where
  "cl_ns cl \<equiv> om_namespace (cl_meta cl)"

definition set_state :: "string \<Rightarrow> string \<Rightarrow> cluster_res \<Rightarrow> cluster_res" where
  "set_state state msg cl = cl\<lparr>cl_status := (cl_status cl)\<lparr>cst_State := state, cst_Message := msg\<rparr>\<rparr>"

definition UpdateState ::
  "'w cluster_reconciler \<Rightarrow> cluster_res \<Rightarrow> string \<Rightarrow> string \<Rightarrow> ctrl_result \<Rightarrow> ('w, ctrl_result) io" where
  "UpdateState r cr state msg result =
     andThen (api_update_status (cli_Clusters (clr_Client r)) (cl_ns cr) (set_state state msg cr))
       (\<lambda>_. ret result)"

definition retrying :: "'w cluster_reconciler \<Rightarrow> cluster_res \<Rightarrow> string \<Rightarrow> ('w, ctrl_result) io" where
  "retrying r cl msg = UpdateState r cl ''retrying'' msg retryDelayAsResult"

definition patch_cluster :: "'w cluster_reconciler \<Rightarrow> cluster_res \<Rightarrow> cluster_res \<Rightarrow> ('w, ctrl_result) io" where
  "patch_cluster r before after =
     andThen (api_patch (cli_Clusters (clr_Client r)) (cl_ns before) before after) (\<lambda>_. ret no_result)"

text \<open>
  Looking for an application: it is there, ArgoCD says it is not there, or the call failed in another
  way, which \<open>bad\<close> is told in the words of the program.
\<close>

definition check_app ::
  "'w application_client \<Rightarrow> string \<Rightarrow> (application \<Rightarrow> ('w, 'a) io) \<Rightarrow> ('w, 'a) io \<Rightarrow>
   (string \<Rightarrow> ('w, 'a) io) \<Rightarrow> ('w, 'a) io" where
  "check_app appIf name found absent bad =
     attempt (appIf_Get appIf name)
       (\<lambda>err. case grpc_code err of
          None \<Rightarrow> bad ''failed to get grpc status from argocd API''
        | Some code \<Rightarrow> if code \<noteq> grpc_NotFound
            then bad (''unexpected grpc status: '' @ Itoa (int code)) else absent)
       found"

section \<open>Bringing a cluster up\<close>

text \<open>Validating the template gives the name of the cluster in it.\<close>

definition reconcile_template :: "'w cluster_reconciler \<Rightarrow> cluster_res \<Rightarrow> ('w, ctrl_result) io" where
  "reconcile_template r cl =
     (let ctmpl = cl_ClusterTemplate (cl_spec cl) in
      attempt (GetKubeclientAndRepoCreds (clr_Config r) (clr_ArgoCdNs r) (rs_Url ctmpl))
        (\<lambda>err. retrying r cl (''failed to get repo creds: '' @ error_string err))
        (\<lambda>(_, creds).
      attempt (ValidateGitDir (clr_Env r) (clr_Tools r) creds (rs_Url ctmpl) (rs_Revision ctmpl) (rs_Path ctmpl))
        (\<lambda>err. retrying r cl (''failed to validate cluster template: '' @ error_string err))
        (\<lambda>innerClusterName.
          UpdateState r (cl\<lparr>cl_status := (cl_status cl)\<lparr>cst_InnerClusterName := innerClusterName\<rparr>\<rparr>)
            ''template-validated'' ''cluster template validation successful'' no_result)))"

definition reconcile_override ::
  "'w cluster_reconciler \<Rightarrow> cluster_res \<Rightarrow> override_spec \<Rightarrow> ('w, ctrl_result) io" where
  "reconcile_override r cl ovr =
     (let ctmpl = cl_ClusterTemplate (cl_spec cl) in
      attempt (CreatePatchDir (clr_Env r) (clr_Templates r) (clr_Config r) (cl_name cl) (rs_Url (os_Repo ovr))
          (clr_ArgoCdNs r) (rs_Path (os_Repo ovr)) (rs_Revision (os_Repo ovr)) (rs_Revision ctmpl)
          (os_Patch ovr) (rs_Url ctmpl) (rs_Path ctmpl))
        (\<lambda>err. retrying r cl (''failed to create override patch in git: '' @ error_string err))
        (\<lambda>_. UpdateState r (cl\<lparr>cl_status := (cl_status cl)\<lparr>cst_OverrideSuccessful := True\<rparr>\<rparr>)
           ''override-created'' ''override patch creation successful'' no_result))"

definition reconcile_arlon_app ::
  "'w cluster_reconciler \<Rightarrow> 'w application_client \<Rightarrow> cluster_res \<Rightarrow> ('w, ctrl_result) io \<Rightarrow> ('w, ctrl_result) io"
where
  "reconcile_arlon_app r appIf cl k =
     check_app appIf (arlonAppName (cl_name cl)) (\<lambda>_. k)
       (let autoscaler = cl_Autoscaler (cl_spec cl);
            casMgmtClusterHost = (case autoscaler of None \<Rightarrow> '''' | Some a \<Rightarrow> as_MgmtClusterHost a);
            chart = (case cl_ArlonHelmChart (cl_spec cl) of None \<Rightarrow> defaultArlonChart | Some c \<Rightarrow> c) in
        attempt (cluster_Create (clr_Env r) (clr_Content r) appIf (clr_Config r) (clr_ArgoCdNs r)
            (clr_ArlonNs r) (cl_name cl) (cst_InnerClusterName (cl_status cl)) (rs_Url chart)
            (rs_Revision chart) (rs_Path chart) '''' None True casMgmtClusterHost (autoscaler \<noteq> None))
          (\<lambda>err. retrying r cl (''failed to create arlon application: '' @ error_string err))
          (\<lambda>_. k))
       (retrying r cl)"

text \<open>The profile annotation of the cluster application follows the one of the resource.\<close>

definition synced_app :: "cluster_res \<Rightarrow> application \<Rightarrow> application option" where
  "synced_app cl app =
     (let mine = om_annotations (cl_meta cl); its = om_annotations (app_meta app);
          with = (\<lambda>anns. app\<lparr>app_meta := (app_meta app)\<lparr>om_annotations := anns\<rparr>\<rparr>) in
      if mine \<noteq> None \<and> (its = None \<or> mget mine ProfilesAnnotationKey \<noteq> mget its ProfilesAnnotationKey) then
        Some (with (Some ((case its of None \<Rightarrow> Map.empty | Some m \<Rightarrow> m)
          (ProfilesAnnotationKey \<mapsto> mget mine ProfilesAnnotationKey))))
      else if mine = None \<and> its \<noteq> None then Some (with None)
      else None)"

definition reconcile_existing_app ::
  "'w cluster_reconciler \<Rightarrow> 'w application_client \<Rightarrow> cluster_res \<Rightarrow> application \<Rightarrow> ('w, ctrl_result) io" where
  "reconcile_existing_app r appIf cl clusterApp =
     (let finish = (if cst_State (cl_status cl) \<noteq> ''created'' then
            UpdateState r cl ''created'' ''cluster app already exists but state needs updating -- ok'' no_result
          else ret no_result) in
      case synced_app cl clusterApp of
        None \<Rightarrow> finish
      | Some app \<Rightarrow> attempt (appIf_Update appIf app)
          (\<lambda>err. retrying r cl (''failed to update cluster application: '' @ error_string err))
          (\<lambda>_. finish))"

definition reconcile_cluster_app ::
  "'w cluster_reconciler \<Rightarrow> 'w application_client \<Rightarrow> cluster_res \<Rightarrow> repo_spec \<Rightarrow> bool \<Rightarrow> ('w, ctrl_result) io"
where
  "reconcile_cluster_app r appIf cl repo overridden =
     check_app appIf (cl_name cl) (reconcile_existing_app r appIf cl)
       (attempt (CreateClusterApp appIf (clr_ArgoCdNs r) (cl_name cl) (cst_InnerClusterName (cl_status cl))
            (rs_Url repo) (rs_Revision repo) (rs_Path repo) True overridden)
          (\<lambda>err. retrying r cl (''failed to create cluster application: '' @ error_string err))
          (\<lambda>_. UpdateState r cl ''created'' ''cluster app creation successful'' no_result))
       (retrying r cl)"

definition reconcile_up ::
  "'w cluster_reconciler \<Rightarrow> 'w application_client \<Rightarrow> cluster_res \<Rightarrow> ('w, ctrl_result) io" where
  "reconcile_up r appIf cl =
     (if cst_InnerClusterName (cl_status cl) = '''' then reconcile_template r cl
      else case cl_Override (cl_spec cl) of
        Some ovr \<Rightarrow>
          if \<not> cst_OverrideSuccessful (cl_status cl) then reconcile_override r cl ovr
          else reconcile_arlon_app r appIf cl (reconcile_cluster_app r appIf cl (os_Repo ovr) True)
      | None \<Rightarrow> reconcile_arlon_app r appIf cl
          (reconcile_cluster_app r appIf cl (cl_ClusterTemplate (cl_spec cl)) False))"

section \<open>Taking a cluster down\<close>

definition delete_override ::
  "'w cluster_reconciler \<Rightarrow> cluster_res \<Rightarrow> application \<Rightarrow> ('w, ctrl_result) io" where
  "delete_override r cr clusterApp =
     attempt (rc_NewForConfig (clr_Config r))
       (\<lambda>err. UpdateState r cr ''error-deleting-override'' (''failed to get kubeclient: '' @ error_string err)
          retryDelayAsResult)
       (\<lambda>kubeClient.
     attempt (DeleteOverridesDir (clr_Env r) clusterApp kubeClient (clr_ArgoCdNs r) (app_name clusterApp))
       (\<lambda>err. UpdateState r cr ''error-deleting-override''
          (''failed to delete overrides directory: '' @ error_string err) retryDelayAsResult)
       (\<lambda>_. UpdateState r (cr\<lparr>cl_status := (cl_status cr)\<lparr>cst_OverrideSuccessful := False\<rparr>\<rparr>)
          ''override-deleted'' ''override deleted successfully'' no_result))"

text \<open>Deleting one of the two applications, unless that is under way; \<open>what\<close> is its name in the state
  and \<open>words\<close> in the message.\<close>

definition delete_app ::
  "'w cluster_reconciler \<Rightarrow> 'w application_client \<Rightarrow> cluster_res \<Rightarrow> string \<Rightarrow> string \<Rightarrow> string \<Rightarrow> application \<Rightarrow>
   ('w, ctrl_result) io" where
  "delete_app r appIf cr name what words app =
     (if om_deletion (app_meta app) \<noteq> None then ret retryDelayAsResult
      else attempt (appIf_Delete appIf name True)
        (\<lambda>err. UpdateState r cr (''error-deleting-'' @ what)
           (''failed to delete '' @ words @ '': '' @ error_string err) retryDelayAsResult)
        (\<lambda>_. UpdateState r cr (''deleting-'' @ what) (''deleting '' @ words) no_result))"

definition reconcileDelete ::
  "'w cluster_reconciler \<Rightarrow> cluster_res \<Rightarrow> 'w application_client \<Rightarrow> ('w, ctrl_result) io" where
  "reconcileDelete r cr appIf =
     (let bad = (\<lambda>msg. UpdateState r cr ''delete-retrying'' msg retryDelayAsResult) in
      check_app appIf (cl_name cr)
        (\<lambda>clusterApp.
          if cl_Override (cl_spec cr) \<noteq> None \<and> cst_OverrideSuccessful (cl_status cr)
          then delete_override r cr clusterApp
          else delete_app r appIf cr (cl_name cr) ''cluster-app'' ''cluster app'' clusterApp)
        (check_app appIf (arlonAppName (cl_name cr))
          (delete_app r appIf cr (arlonAppName (cl_name cr)) ''arlon-app'' ''arlon app'')
          (patch_cluster r cr (cr\<lparr>cl_meta := remove_finalizer (cl_meta cr) ClusterFinalizer\<rparr>))
          bad)
        bad)"

section \<open>The whole reconciliation\<close>

definition cluster_Reconcile :: "'w cluster_reconciler \<Rightarrow> string \<Rightarrow> string \<Rightarrow> ('w, ctrl_result) io" where
  "cluster_Reconcile r ns name =
     attempt (api_get (cli_Clusters (clr_Client r)) ns name)
       (\<lambda>err. if IsNotFound err then ret no_result else ret requeue_result)
       (\<lambda>cl.
     attempt (clr_NewHelper r cl) (\<lambda>_. ret requeue_result) (\<lambda>_.
     attempt (argo_NewApplicationClient (clr_ArgocdClient r))
       (\<lambda>err. retrying r cl (''failed to get argocd application client: '' @ error_string err))
       (\<lambda>appIf.
     if om_deletion (cl_meta cl) \<noteq> None then reconcileDelete r cl appIf
     else if \<not> contains_finalizer (cl_meta cl) ClusterFinalizer then
       patch_cluster r cl (cl\<lparr>cl_meta := add_finalizer (cl_meta cl) ClusterFinalizer\<rparr>)
     else reconcile_up r appIf cl)))"

end
