(* ===== verification/Quiet.thy ===== *)
theory Quiet
  imports Cluster_Manage
begin

text \<open>
  Which calls leave a part of the world alone. The controllers keep the state of Kubernetes and
  ArgoCD apart from git and the file system; here it is shown that the routines that clone, write and
  push a repository leave the former alone when git, the file system and the reading of secrets do.
  \<open>v\<close> reads the part of the world in question.
\<close>

named_theorems steady_intros \<open>a combinator leaves alone what its parts leave alone\<close>

section \<open>Combinators\<close>

definition returns :: "('w, 'a) io \<Rightarrow> 'a \<Rightarrow> bool" where
  "returns m x \<longleftrightarrow> (\<exists>w w'. m w = (Inr x, w'))"

lemma returns_ret [simp]: "returns (ret x) y \<longleftrightarrow> y = x"
  by (auto simp: returns_def ret_def)

lemma returns_must: "returns (must m c k) y \<Longrightarrow> \<exists>x. returns m x \<and> returns (k x) y"
  by (auto simp: returns_def ok_iff)

lemma returns_andThen: "returns (andThen m k) y \<Longrightarrow> \<exists>x. returns m x \<and> returns (k x) y"
  by (auto simp: returns_def ok_iff)

lemma steady_ret [steady_intros]: "steady v (ret x)"
  by (simp add: steady_def ret_def)

lemma steady_fail [steady_intros]: "steady v (fail e)"
  by (simp add: steady_def fail_def)

lemma steady_panic [steady_intros]: "steady v (panic s)"
  by (simp add: steady_def panic_def)

lemma steady_lift [steady_intros]: "steady v (lift r)"
  by (simp add: steady_def lift_def ret_def fail_def split: sum.splits)

lemma steady_attempt [steady_intros]:
  assumes "steady v m" "\<And>e. steady v (h e)" "\<And>x. returns m x \<Longrightarrow> steady v (k x)"
  shows "steady v (attempt m h k)"
proof -
  have "v (snd (attempt m h k w)) = v w" for w
  proof (cases "m w")
    case (Pair r w')
    with assms(1) have "v w' = v w" by (auto simp: steady_def dest: spec [of _ w])
    moreover have "r = Inr x \<Longrightarrow> steady v (k x)" for x
      using Pair by (intro assms(3)) (auto simp: returns_def)
    ultimately show ?thesis using Pair assms(2)
      by (simp add: attempt_def steady_def split: sum.splits fault.splits)
  qed
  then show ?thesis by (simp add: steady_def)
qed

lemma steady_must [steady_intros]:
  "steady v m \<Longrightarrow> (\<And>x. returns m x \<Longrightarrow> steady v (k x)) \<Longrightarrow> steady v (must m c k)"
  by (simp add: must_def steady_attempt steady_fail)

lemma steady_andThen [steady_intros]:
  "steady v m \<Longrightarrow> (\<And>x. returns m x \<Longrightarrow> steady v (k x)) \<Longrightarrow> steady v (andThen m k)"
  by (simp add: andThen_def steady_attempt steady_fail)

lemma steady_ignoring [steady_intros]: "steady v m \<Longrightarrow> steady v k \<Longrightarrow> steady v (ignoring m k)"
  by (simp add: ignoring_def steady_attempt)

lemma steady_checked [steady_intros]: "steady v k \<Longrightarrow> steady v (checked c k)"
  by (simp add: checked_def steady_fail split: option.splits)

lemma steady_deferring [steady_intros]: "steady v c \<Longrightarrow> steady v m \<Longrightarrow> steady v (deferring c m)"
  by (simp add: steady_def deferring_def case_prod_beta)

lemma steady_forM [steady_intros]:
  "(\<And>x s. x \<in> set xs \<Longrightarrow> steady v (f x s)) \<Longrightarrow> steady v (forM f xs s)"
  by (induction xs arbitrary: s) (auto intro!: steady_intros)

lemma steady_if [steady_intros]:
  "(b \<Longrightarrow> steady v m) \<Longrightarrow> (\<not> b \<Longrightarrow> steady v n) \<Longrightarrow> steady v (if b then m else n)"
  by simp

lemma steady_case_option [steady_intros]:
  "(x = None \<Longrightarrow> steady v m) \<Longrightarrow> (\<And>y. x = Some y \<Longrightarrow> steady v (f y)) \<Longrightarrow>
   steady v (case x of None \<Rightarrow> m | Some y \<Rightarrow> f y)"
  by (simp split: option.splits)

lemma steady_case_prod [steady_intros]:
  "(\<And>a b. p = (a, b) \<Longrightarrow> steady v (f a b)) \<Longrightarrow> steady v (case p of (a, b) \<Rightarrow> f a b)"
  by (simp split: prod.splits)

lemma steady_Let [steady_intros]: "steady v (f x) \<Longrightarrow> steady v (Let x f)"
  by simp

section \<open>Git and the file system\<close>

definition quiet_worktree :: "('w \<Rightarrow> 'v) \<Rightarrow> 'w worktree \<Rightarrow> bool" where
  "quiet_worktree v wt \<longleftrightarrow> (\<forall>p c o'.
     steady v (wt_Lstat wt p) \<and> steady v (wt_Remove wt p) \<and> steady v (wt_MkdirAll wt p) \<and>
     steady v (wt_Create wt p) \<and> steady v (wt_OpenTrunc wt p) \<and> steady v (wt_Write wt p c) \<and>
     steady v (wt_Close wt p) \<and> steady v (wt_ReadDir wt p) \<and> steady v (wt_Status wt) \<and>
     steady v (wt_Add wt p) \<and> steady v (wt_Commit wt c o'))"

definition quiet_repository :: "('w \<Rightarrow> 'v) \<Rightarrow> 'w repository \<Rightarrow> bool" where
  "quiet_repository v repo \<longleftrightarrow> steady v (repo_Worktree repo) \<and> (\<forall>auth. steady v (repo_Push repo auth)) \<and>
     (\<forall>wt. returns (repo_Worktree repo) wt \<longrightarrow> quiet_worktree v wt)"

definition quiet_env :: "('w \<Rightarrow> 'v) \<Rightarrow> 'w git_env \<Rightarrow> bool" where
  "quiet_env v env \<longleftrightarrow> steady v (os_MkdirTemp env) \<and> (\<forall>p. steady v (os_RemoveAll env p) \<and>
       steady v (os_Lstat env p) \<and> steady v (os_Stat env p)) \<and>
     (\<forall>d o'. steady v (git_PlainClone env d o') \<and>
       (\<forall>repo. returns (git_PlainClone env d o') repo \<longrightarrow> quiet_repository v repo))"

text \<open>A configuration whose client can read secrets without changing anything.\<close>

definition quiet_config :: "('w \<Rightarrow> 'v) \<Rightarrow> 'w rest_config \<Rightarrow> bool" where
  "quiet_config v config \<longleftrightarrow> steady v (rc_NewForConfig config) \<and>
     (\<forall>kc ns sel. returns (rc_NewForConfig config) kc \<longrightarrow> steady v (api_list (kube_Secrets kc) ns sel))"

lemma quiet_worktree_simps [simp]:
  assumes "quiet_worktree v wt"
  shows "steady v (wt_Lstat wt p)" "steady v (wt_Remove wt p)" "steady v (wt_MkdirAll wt p)"
    "steady v (wt_Create wt p)" "steady v (wt_OpenTrunc wt p)" "steady v (wt_Write wt p c)"
    "steady v (wt_Close wt p)" "steady v (wt_ReadDir wt p)" "steady v (wt_Status wt)"
    "steady v (wt_Add wt p)" "steady v (wt_Commit wt c co)"
  using assms unfolding quiet_worktree_def by blast+

lemma quiet_repository_simps [simp]:
  assumes "quiet_repository v repo"
  shows "steady v (repo_Worktree repo)" "steady v (repo_Push repo auth)"
    "returns (repo_Worktree repo) wt \<Longrightarrow> quiet_worktree v wt"
  using assms unfolding quiet_repository_def by blast+

lemma quiet_env_simps [simp]:
  assumes "quiet_env v env"
  shows "steady v (os_MkdirTemp env)" "steady v (os_RemoveAll env p)" "steady v (os_Lstat env p)"
    "steady v (os_Stat env p)" "steady v (git_PlainClone env d co)"
    "returns (git_PlainClone env d co) repo \<Longrightarrow> quiet_repository v repo"
  using assms unfolding quiet_env_def by blast+

lemma quiet_config_simps [simp]:
  assumes "quiet_config v config"
  shows "steady v (rc_NewForConfig config)"
    "returns (rc_NewForConfig config) kc \<Longrightarrow> steady v (api_list (kube_Secrets kc) ns sel)"
  using assms unfolding quiet_config_def by blast+

section \<open>Routines on a repository\<close>

lemma CloneRepo_quiet:
  "quiet_env v env \<Longrightarrow> returns (CloneRepo env creds url br) (repo, d, auth) \<Longrightarrow> quiet_repository v repo"
  by (auto simp: CloneRepo_def Let_def dest!: returns_andThen returns_must)

lemma CloneRepo_worktree:
  "quiet_env v env \<Longrightarrow> returns (CloneRepo env creds url br) (repo, d, auth) \<Longrightarrow>
   returns (repo_Worktree repo) wt \<Longrightarrow> quiet_worktree v wt"
  using CloneRepo_quiet by (metis quiet_repository_simps(3))

lemma steady_CloneRepo [simp]: "quiet_env v env \<Longrightarrow> steady v (CloneRepo env creds url br)"
  by (auto simp: CloneRepo_def Let_def intro!: steady_intros)

lemma steady_commit_if_changed [simp]: "quiet_worktree v wt \<Longrightarrow> steady v (commit_if_changed wt msg b)"
  by (auto simp: commit_if_changed_def Let_def intro!: steady_intros)

lemma steady_stage_change [simp]:
  "quiet_env v env \<Longrightarrow> quiet_worktree v wt \<Longrightarrow> steady v (stage_change env d wt fs b)"
  by (auto simp: stage_change_def Let_def intro!: steady_intros split: prod.splits)

lemma steady_CommitChanges [simp]:
  "quiet_env v env \<Longrightarrow> quiet_worktree v wt \<Longrightarrow> steady v (CommitChanges env d wt msg)"
  by (auto simp: CommitChanges_def intro!: steady_intros)

lemma steady_CommitDeleteChanges [simp]:
  "quiet_worktree v wt \<Longrightarrow> steady v (CommitDeleteChanges wt msg)"
  by (auto simp: CommitDeleteChanges_def intro!: steady_intros split: prod.splits)

lemma steady_remove_old_dir:
  "quiet_worktree v wt \<Longrightarrow> steady v k \<Longrightarrow> steady v (remove_old_dir wt dir k)"
  by (auto simp: remove_old_dir_def intro!: steady_intros)

lemma steady_push_if_changed [simp]: "quiet_repository v repo \<Longrightarrow> steady v (push_if_changed repo auth b)"
  by (auto simp: push_if_changed_def intro!: steady_intros)

lemma steady_put_file:
  "quiet_worktree v wt \<Longrightarrow> steady v m \<Longrightarrow> steady v k \<Longrightarrow> steady v (put_file wt m c p t c' k)"
  by (auto simp: put_file_def intro!: steady_intros)

lemma steady_CopyPatchManifests [simp]:
  "quiet_worktree v wt \<Longrightarrow> steady v (CopyPatchManifests tenv wt pc cp u p rv)"
  by (auto simp: CopyPatchManifests_def Let_def intro!: steady_intros)

lemma steady_GetRepoCredsFromArgoCd [simp]:
  "(\<And>ns sel. steady v (api_list (kube_Secrets kc) ns sel)) \<Longrightarrow>
   steady v (GetRepoCredsFromArgoCd kc ns url)"
  by (auto simp: GetRepoCredsFromArgoCd_def intro!: steady_intros)

lemma steady_GetKubeclientAndRepoCreds [simp]:
  "quiet_config v config \<Longrightarrow> steady v (GetKubeclientAndRepoCreds config ns url)"
  by (auto simp: GetKubeclientAndRepoCreds_def intro!: steady_intros)

lemma steady_ValidateGitDir [simp]:
  "quiet_env v env \<Longrightarrow> (\<And>f. steady v (mt_Infos tools f)) \<Longrightarrow>
   steady v (ValidateGitDir env tools creds url rv p)"
  by (auto simp: ValidateGitDir_def validateDir_def basecluster_Validate_def CloneRepo_quiet
      intro!: steady_intros dest: CloneRepo_quiet)

lemma steady_DeployPatchToGit [simp]:
  "quiet_env v env \<Longrightarrow> steady v (DeployPatchToGit env tenv creds cn url prv brv bp pc bu bpath)"
  by (auto simp: DeployPatchToGit_def Let_def intro!: steady_intros steady_remove_old_dir steady_put_file
      steady_CommitChanges dest: CloneRepo_quiet intro: CloneRepo_worktree)

lemma steady_CreatePatchDir [simp]:
  "quiet_env v env \<Longrightarrow> quiet_config v config \<Longrightarrow>
   steady v (CreatePatchDir env tenv config cn url ns bp prv brv pc bu bpath)"
  by (auto simp: CreatePatchDir_def intro!: steady_intros)

lemma steady_DeleteOverridesDir [simp]:
  "quiet_env v env \<Longrightarrow> (\<And>ns sel. steady v (api_list (kube_Secrets kc) ns sel)) \<Longrightarrow>
   steady v (DeleteOverridesDir env app kc ns cn)"
  by (auto simp: DeleteOverridesDir_def Let_def intro!: steady_intros dest: CloneRepo_quiet)

end
