(* ===== verification/Cluster_Lifecycle.thy ===== *)
theory Cluster_Lifecycle
  imports Cluster_Controller Quiet
begin

text \<open>
  The life of a \<open>Cluster\<close> resource under its controller: the stages it goes through, that every
  reconciliation that does not ask for a retry takes it a stage further, that the stages end, and that
  the resource is only let go when both of its applications are gone.
\<close>

section \<open>What the controller relies on\<close>

text \<open>
  \<open>V\<close> reads the stored resources, by namespace and name, \<open>A\<close> the names of the applications ArgoCD
  has. Updating the status touches only the status; an object whose deletion was requested disappears
  with its last finalizer. Deleting an application may take effect at any later time.
\<close>

definition admitted :: "cluster_res \<Rightarrow> cluster_res option" where
  "admitted c = (if om_deletion (cl_meta c) \<noteq> None \<and> om_finalizers (cl_meta c) = [] then None else Some c)"

definition lawful_cluster_api ::
  "('w \<Rightarrow> string \<Rightarrow> string \<Rightarrow> cluster_res option) \<Rightarrow> ('w \<Rightarrow> string set) \<Rightarrow> ('w, cluster_res) resource_api \<Rightarrow> bool"
where
  "lawful_cluster_api V A api \<longleftrightarrow>
     (\<forall>ns n w r w'. api_get api ns n w = (r, w') \<longrightarrow> V w' = V w \<and> A w' = A w \<and>
       (case r of Inr c \<Rightarrow> V w ns n = Some c | Inl (Err e) \<Rightarrow> IsNotFound e \<longrightarrow> V w ns n = None
        | Inl (Panic s) \<Rightarrow> False)) \<and>
     (\<forall>ns c w r w'. api_update_status api ns c w = (r, w') \<longrightarrow> A w' = A w \<and>
       (case r of Inr y \<Rightarrow> \<exists>old. V w ns (cl_name c) = Some old \<and>
            V w' = stored (V w) ns (cl_name c) (Some (old\<lparr>cl_status := cl_status c\<rparr>))
        | Inl (Err e) \<Rightarrow> V w' = V w \<or> (\<exists>old. V w ns (cl_name c) = Some old \<and>
            V w' = stored (V w) ns (cl_name c) (Some (old\<lparr>cl_status := cl_status c\<rparr>)))
        | Inl (Panic s) \<Rightarrow> False)) \<and>
     (\<forall>ns b c w r w'. api_patch api ns b c w = (r, w') \<longrightarrow> V w ns (cl_name b) = Some b \<longrightarrow> A w' = A w \<and>
       (case r of Inr y \<Rightarrow> V w' = stored (V w) ns (cl_name b) (admitted c)
        | Inl (Err e) \<Rightarrow> V w' = V w \<or> V w' = stored (V w) ns (cl_name b) (admitted c)
        | Inl (Panic s) \<Rightarrow> False))"

definition lawful_apps ::
  "('w \<Rightarrow> string \<Rightarrow> string \<Rightarrow> cluster_res option) \<Rightarrow> ('w \<Rightarrow> string set) \<Rightarrow> 'w application_client \<Rightarrow> bool"
where
  "lawful_apps V A appIf \<longleftrightarrow>
     (\<forall>n w r w'. appIf_Get appIf n w = (r, w') \<longrightarrow> V w' = V w \<and> A w' = A w \<and>
       (case r of Inr a \<Rightarrow> n \<in> A w | Inl (Err e) \<Rightarrow> grpc_code e = Some grpc_NotFound \<longrightarrow> n \<notin> A w
        | Inl (Panic s) \<Rightarrow> False)) \<and>
     (\<forall>a w r w'. appIf_Create appIf a w = (r, w') \<longrightarrow> V w' = V w \<and>
       A w \<subseteq> A w' \<and> A w' \<subseteq> insert (app_name a) (A w) \<and> (\<forall>y. r = Inr y \<longrightarrow> app_name a \<in> A w')) \<and>
     (\<forall>a w r w'. appIf_Update appIf a w = (r, w') \<longrightarrow> V w' = V w \<and> A w' = A w) \<and>
     (\<forall>n b w r w'. appIf_Delete appIf n b w = (r, w') \<longrightarrow> V w' = V w \<and> A w' \<subseteq> A w \<and> A w - {n} \<subseteq> A w')"

definition reconciler_laws ::
  "('w \<Rightarrow> string \<Rightarrow> string \<Rightarrow> cluster_res option) \<Rightarrow> ('w \<Rightarrow> string set) \<Rightarrow> 'w cluster_reconciler \<Rightarrow> bool"
where
  "reconciler_laws V A r \<longleftrightarrow> (let st = (\<lambda>w. (V w, A w)) in
     lawful_cluster_api V A (cli_Clusters (clr_Client r)) \<and>
     quiet_env st (clr_Env r) \<and> quiet_config st (clr_Config r) \<and>
     (\<forall>f. steady st (mt_Infos (clr_Tools r) f)) \<and> (\<forall>c. steady st (clr_NewHelper r c)) \<and>
     steady st (argo_NewApplicationClient (clr_ArgocdClient r)) \<and>
     (\<forall>appIf. returns (argo_NewApplicationClient (clr_ArgocdClient r)) appIf \<longrightarrow> lawful_apps V A appIf))"

lemma reconciler_lawsD:
  assumes "reconciler_laws V A r"
  shows "lawful_cluster_api V A (cli_Clusters (clr_Client r))"
    "quiet_env (\<lambda>w. (V w, A w)) (clr_Env r)" "quiet_config (\<lambda>w. (V w, A w)) (clr_Config r)"
    "steady (\<lambda>w. (V w, A w)) (mt_Infos (clr_Tools r) f)" "steady (\<lambda>w. (V w, A w)) (clr_NewHelper r c)"
    "steady (\<lambda>w. (V w, A w)) (argo_NewApplicationClient (clr_ArgocdClient r))"
    "returns (argo_NewApplicationClient (clr_ArgocdClient r)) appIf \<Longrightarrow> lawful_apps V A appIf"
  using assms by (simp_all add: reconciler_laws_def Let_def)

section \<open>Rules for the calls\<close>

text \<open>Calling a routine that leaves both alone, with what it returned.\<close>

lemma wp_quiet:
  assumes "steady (\<lambda>w. (V w, A w)) m"
    and "\<And>r w'. V w' = V w \<Longrightarrow> A w' = A w \<Longrightarrow> (\<And>x. r = Inr x \<Longrightarrow> returns m x) \<Longrightarrow> Q r w'"
  shows "wp m Q w"
proof (rule wpI)
  fix r w'
  assume run: "m w = (r, w')"
  with assms(1) have "(V w', A w') = (V w, A w)" by (rule steadyD)
  moreover have "r = Inr x \<Longrightarrow> returns m x" for x using run by (auto simp: returns_def)
  ultimately show "Q r w'" by (intro assms(2)) simp_all
qed

lemma wp_attempt_quiet:
  fixes m :: "('w, 'a) io"
  assumes "steady (\<lambda>w. (V w, A w)) m"
    and "\<And>s w'. V w' = V w \<Longrightarrow> A w' = A w \<Longrightarrow> Q (Inl (Panic s)) w'"
    and "\<And>e w'. V w' = V w \<Longrightarrow> A w' = A w \<Longrightarrow> wp (h e) Q w'"
    and "\<And>x w'. V w' = V w \<Longrightarrow> A w' = A w \<Longrightarrow> returns m x \<Longrightarrow> wp (k x) Q w'"
  shows "wp (attempt m h k) Q w"
  unfolding wp_attempt using assms(1)
proof (rule wp_quiet)
  fix r :: "'a result" and w'
  assume same: "V w' = V w" "A w' = A w" and ret: "\<And>x. r = Inr x \<Longrightarrow> returns m x"
  show "case r of Inl (Panic s) \<Rightarrow> Q (Inl (Panic s)) w' | Inl (Err e) \<Rightarrow> wp (h e) Q w' | Inr x \<Rightarrow> wp (k x) Q w'"
  proof (cases r)
    case (Inl f)
    then show ?thesis by (cases f) (simp_all add: assms(2,3) [OF same])
  next
    case (Inr x)
    with ret assms(4) [OF same] show ?thesis by simp
  qed
qed

lemma wp_check_app:
  assumes "lawful_apps V A appIf"
    and "\<And>a w'. V w' = V w \<Longrightarrow> A w' = A w \<Longrightarrow> n \<in> A w \<Longrightarrow> wp (found a) Q w'"
    and "\<And>w'. V w' = V w \<Longrightarrow> A w' = A w \<Longrightarrow> n \<notin> A w \<Longrightarrow> wp absent Q w'"
    and "\<And>msg w'. V w' = V w \<Longrightarrow> A w' = A w \<Longrightarrow> wp (bad msg) Q w'"
  shows "wp (check_app appIf n found absent bad) Q w"
  unfolding check_app_def wp_attempt
proof (rule wpI)
  fix r w'
  assume "appIf_Get appIf n w = (r, w')"
  note * = assms(1) [unfolded lawful_apps_def, THEN conjunct1, rule_format, OF this]
  then have same: "V w' = V w" "A w' = A w" by simp_all
  show "case r of Inl (Panic s) \<Rightarrow> Q (Inl (Panic s)) w'
      | Inl (Err e) \<Rightarrow> wp (case grpc_code e of None \<Rightarrow> bad ''failed to get grpc status from argocd API''
          | Some code \<Rightarrow> if code \<noteq> grpc_NotFound then bad (''unexpected grpc status: '' @ Itoa (int code))
              else absent) Q w'
      | Inr x \<Rightarrow> wp (found x) Q w'"
  proof (cases r)
    case (Inr a)
    with * assms(2) [OF same] show ?thesis by simp
  next
    case (Inl f)
    show ?thesis
    proof (cases f)
      case (Err e)
      show ?thesis
      proof (cases "grpc_code e = Some grpc_NotFound")
        case True
        with * Inl Err assms(3) [OF same] show ?thesis by simp
      next
        case False
        note b = assms(4) [OF same]
        from False show ?thesis
          unfolding Inl Err sum.case fault.case
          by (cases "grpc_code e") (simp_all only: option.case option.inject if_True if_False not_False_eq_True b)
      qed
    qed (use * Inl in simp)
  qed
qed

lemma wp_UpdateState:
  assumes laws: "reconciler_laws V A r" and old: "V w (cl_ns c) (cl_name c) = Some old"
    and ok: "\<And>w'. A w' = A w \<Longrightarrow>
      V w' = stored (V w) (cl_ns c) (cl_name c) (Some (old\<lparr>cl_status := cl_status (set_state s m c)\<rparr>)) \<Longrightarrow>
      Q (Inr res) w'"
    and err: "\<And>e w'. A w' = A w \<Longrightarrow> V w' = V w \<or>
      V w' = stored (V w) (cl_ns c) (cl_name c) (Some (old\<lparr>cl_status := cl_status (set_state s m c)\<rparr>)) \<Longrightarrow>
      Q (Inl (Err e)) w'"
  shows "wp (UpdateState r c s m res) Q w"
  unfolding UpdateState_def wp_andThen wp_ret
proof (rule wpI)
  fix x w'
  assume run: "api_update_status (cli_Clusters (clr_Client r)) (cl_ns c) (set_state s m c) w = (x, w')"
  have n: "cl_name (set_state s m c) = cl_name c" by (simp add: set_state_def)
  note law = reconciler_lawsD(1) [OF laws, unfolded lawful_cluster_api_def, THEN conjunct2, THEN conjunct1,
    rule_format, OF run, unfolded n]
  with old ok err show "case x of Inl f \<Rightarrow> Q (Inl f) w' | Inr y \<Rightarrow> Q (Inr res) w'"
    by (auto split: sum.splits fault.splits)
qed

lemma wp_patch_cluster:
  assumes laws: "reconciler_laws V A r" and old: "V w (cl_ns b) (cl_name b) = Some b"
    and ok: "\<And>w'. A w' = A w \<Longrightarrow> V w' = stored (V w) (cl_ns b) (cl_name b) (admitted c) \<Longrightarrow>
      Q (Inr no_result) w'"
    and err: "\<And>e w'. A w' = A w \<Longrightarrow> V w' = V w \<or> V w' = stored (V w) (cl_ns b) (cl_name b) (admitted c) \<Longrightarrow>
      Q (Inl (Err e)) w'"
  shows "wp (patch_cluster r b c) Q w"
  unfolding patch_cluster_def wp_andThen wp_ret
proof (rule wpI)
  fix x w'
  assume run: "api_patch (cli_Clusters (clr_Client r)) (cl_ns b) b c w = (x, w')"
  from reconciler_lawsD(1) [OF laws] run old have "A w' = A w \<and>
    (case x of Inr y \<Rightarrow> V w' = stored (V w) (cl_ns b) (cl_name b) (admitted c)
     | Inl (Err e) \<Rightarrow> V w' = V w \<or> V w' = stored (V w) (cl_ns b) (cl_name b) (admitted c)
     | Inl (Panic s) \<Rightarrow> False)"
    unfolding lawful_cluster_api_def by blast
  with ok err show "case x of Inl f \<Rightarrow> Q (Inl f) w' | Inr y \<Rightarrow> Q (Inr no_result) w'"
    by (auto split: sum.splits fault.splits)
qed

section \<open>The stages\<close>

datatype phase = NeedsFinalizer | NeedsValidation | NeedsOverride | NeedsApps | NeedsState | Created

fun phase_rank :: "phase \<Rightarrow> nat" where
  "phase_rank NeedsFinalizer = 0"
| "phase_rank NeedsValidation = 1"
| "phase_rank NeedsOverride = 2"
| "phase_rank NeedsApps = 3"
| "phase_rank NeedsState = 4"
| "phase_rank Created = 5"

instantiation phase :: linorder
begin

definition less_eq_phase :: "phase \<Rightarrow> phase \<Rightarrow> bool" where
  "less_eq_phase p q \<longleftrightarrow> phase_rank p \<le> phase_rank q"

definition less_phase :: "phase \<Rightarrow> phase \<Rightarrow> bool" where
  "less_phase p q \<longleftrightarrow> phase_rank p < phase_rank q"

instance
proof
  fix p q :: phase
  assume "p \<le> q" "q \<le> p"
  then show "p = q" by (cases p; cases q) (simp_all add: less_eq_phase_def)
qed (auto simp: less_eq_phase_def less_phase_def)

end

text \<open>The stage of a resource, with the applications that exist.\<close>

definition phase_of :: "cluster_res \<Rightarrow> string set \<Rightarrow> phase" where
  "phase_of cl apps =
     (if \<not> contains_finalizer (cl_meta cl) ClusterFinalizer then NeedsFinalizer
      else if cst_InnerClusterName (cl_status cl) = '''' then NeedsValidation
      else if cl_Override (cl_spec cl) \<noteq> None \<and> \<not> cst_OverrideSuccessful (cl_status cl) then NeedsOverride
      else if arlonAppName (cl_name cl) \<notin> apps \<or> cl_name cl \<notin> apps then NeedsApps
      else if cst_State (cl_status cl) \<noteq> ''created'' then NeedsState
      else Created)"

definition advanced :: "phase \<Rightarrow> phase \<Rightarrow> bool" where
  "advanced p q \<longleftrightarrow> p < q \<or> p = Created \<and> q = Created"

text \<open>After a reconciliation of a resource that is not being deleted: it is still there with its
  metadata and specification, and when no retry was asked for it is a stage further.\<close>

definition up_post ::
  "('w \<Rightarrow> string \<Rightarrow> string \<Rightarrow> cluster_res option) \<Rightarrow> ('w \<Rightarrow> string set) \<Rightarrow> cluster_res \<Rightarrow> phase \<Rightarrow>
   ctrl_result result \<Rightarrow> 'w \<Rightarrow> bool" where
  "up_post V A cl p r w' \<longleftrightarrow> (\<exists>c. V w' (cl_ns cl) (cl_name cl) = Some c \<and> cl_meta c = cl_meta cl
     \<and> cl_spec c = cl_spec cl \<and> (r = Inr no_result \<longrightarrow> advanced p (phase_of c (A w'))))"

lemma retry_not_no_result [simp]: "retryDelayAsResult \<noteq> no_result" "requeue_result \<noteq> no_result"
  by (simp_all add: retryDelayAsResult_def no_result_def requeue_result_def)

lemma set_state_status [simp]: "cl_meta (set_state s m c) = cl_meta c" "cl_spec (set_state s m c) = cl_spec c"
  "cl_status (set_state s m c) = (cl_status c)\<lparr>cst_State := s, cst_Message := m\<rparr>"
  by (simp_all add: set_state_def)

lemma up_post_same:
  "V w' (cl_ns cl) (cl_name cl) = Some cl \<Longrightarrow> (r = Inr no_result \<Longrightarrow> advanced p (phase_of cl (A w'))) \<Longrightarrow>
   up_post V A cl p r w'"
  by (auto simp: up_post_def)

lemma up_UpdateState:
  assumes laws: "reconciler_laws V A r" and old: "V w (cl_ns cl) (cl_name cl) = Some cl"
    and c: "cl_meta c = cl_meta cl"
    and adv: "res = no_result \<Longrightarrow>
      advanced p (phase_of (cl\<lparr>cl_status := (cl_status c)\<lparr>cst_State := s, cst_Message := m\<rparr>\<rparr>) (A w))"
  shows "wp (UpdateState r c s m res) (up_post V A cl p) w"
proof -
  have old': "V w (cl_ns c) (cl_name c) = Some cl" using old c by simp
  show ?thesis
  proof (rule wp_UpdateState [OF laws old'])
    fix w'
    assume "A w' = A w" "V w' = stored (V w) (cl_ns c) (cl_name c)
      (Some (cl\<lparr>cl_status := cl_status (set_state s m c)\<rparr>))"
    with adv c show "up_post V A cl p (Inr res) w'" by (auto simp: up_post_def)
  next
    fix e w'
    assume "V w' = V w \<or> V w' = stored (V w) (cl_ns c) (cl_name c)
      (Some (cl\<lparr>cl_status := cl_status (set_state s m c)\<rparr>))"
    with old c show "up_post V A cl p (Inl (Err e)) w'" by (auto simp: up_post_def)
  qed
qed

lemma up_retrying:
  "reconciler_laws V A r \<Longrightarrow> V w (cl_ns cl) (cl_name cl) = Some cl \<Longrightarrow>
   wp (retrying r cl msg) (up_post V A cl p) w"
  unfolding retrying_def by (rule up_UpdateState) simp_all

section \<open>Bringing a cluster up\<close>

lemma validate_infos_name: "validate_infos infos n = Inr c \<Longrightarrow> c \<noteq> ''''"
  by (induction infos arbitrary: n) (auto split: if_splits)

lemma returns_ValidateGitDir: "returns (ValidateGitDir env tools creds url rv p) c \<Longrightarrow> c \<noteq> ''''"
proof -
  assume "returns (ValidateGitDir env tools creds url rv p) c"
  then obtain w w' where "ValidateGitDir env tools creds url rv p w = (Inr c, w')" by (auto simp: returns_def)
  then show ?thesis
    by (auto simp: ValidateGitDir_def validateDir_def basecluster_Validate_def ok_iff
        dest: validate_infos_name split: prod.splits if_splits)
qed

lemma template_up:
  assumes laws: "reconciler_laws V A r" and cl: "V w (cl_ns cl) (cl_name cl) = Some cl"
    and fin: "contains_finalizer (cl_meta cl) ClusterFinalizer"
  shows "wp (reconcile_template r cl) (up_post V A cl NeedsValidation) w"
  unfolding reconcile_template_def Let_def
proof (rule wp_attempt_quiet [where V = V and A = A], goal_cases)
  case 1
  from reconciler_lawsD(3) [OF laws] show ?case by simp
next
  case (4 x w1)
  obtain kc creds where x: "x = (kc, creds)" by (cases x)
  from 4 cl have cl1: "V w1 (cl_ns cl) (cl_name cl) = Some cl" by simp
  show ?case
    unfolding x prod.case
  proof (rule wp_attempt_quiet [where V = V and A = A], goal_cases)
    case 1
    from reconciler_lawsD(2,4) [OF laws] show ?case by simp
  next
    case (4 n w2)
    from returns_ValidateGitDir [OF 4(3)] have "n \<noteq> ''''" .
    with 4 cl1 fin show ?case
      by (intro up_UpdateState [OF laws]) (simp_all add: advanced_def phase_of_def less_phase_def)
  qed (use cl1 laws in \<open>auto intro!: up_retrying up_post_same\<close>)
qed (use cl laws in \<open>auto intro!: up_retrying up_post_same\<close>)

lemma override_up:
  assumes laws: "reconciler_laws V A r" and cl: "V w (cl_ns cl) (cl_name cl) = Some cl"
    and fin: "contains_finalizer (cl_meta cl) ClusterFinalizer" "cst_InnerClusterName (cl_status cl) \<noteq> ''''"
  shows "wp (reconcile_override r cl ovr) (up_post V A cl NeedsOverride) w"
  unfolding reconcile_override_def Let_def
proof (rule wp_attempt_quiet [where V = V and A = A], goal_cases)
  case 1
  from reconciler_lawsD(2,3) [OF laws] show ?case by simp
next
  case (4 x w1)
  with cl fin show ?case
    by (intro up_UpdateState [OF laws]) (simp_all add: advanced_def phase_of_def less_phase_def)
qed (use cl laws in \<open>auto intro!: up_retrying up_post_same\<close>)

text \<open>The last stage: after a round that asked for no retry, both applications exist and the state says
  so, whatever the stage before was.\<close>

lemma advanced_Created [simp]: "advanced p Created"
  by (cases p) (simp_all add: advanced_def less_phase_def)

definition ready_for_apps :: "cluster_res \<Rightarrow> bool" where
  "ready_for_apps cl \<longleftrightarrow> contains_finalizer (cl_meta cl) ClusterFinalizer
     \<and> cst_InnerClusterName (cl_status cl) \<noteq> ''''
     \<and> (cl_Override (cl_spec cl) = None \<or> cst_OverrideSuccessful (cl_status cl))"

lemma phase_created:
  "ready_for_apps cl \<Longrightarrow> arlonAppName (cl_name cl) \<in> apps \<Longrightarrow> cl_name cl \<in> apps \<Longrightarrow>
   phase_of (cl\<lparr>cl_status := (cl_status cl)\<lparr>cst_State := ''created'', cst_Message := m\<rparr>\<rparr>) apps = Created"
  by (auto simp: phase_of_def ready_for_apps_def)

lemma phase_created_already:
  "ready_for_apps cl \<Longrightarrow> arlonAppName (cl_name cl) \<in> apps \<Longrightarrow> cl_name cl \<in> apps \<Longrightarrow>
   cst_State (cl_status cl) = ''created'' \<Longrightarrow> phase_of cl apps = Created"
  by (auto simp: phase_of_def ready_for_apps_def)

lemma wp_app_write:
  assumes "lawful_apps V A appIf"
    and "\<And>r w'. V w' = V w \<Longrightarrow> A w \<subseteq> A w' \<Longrightarrow> A w' \<subseteq> insert (app_name a) (A w) \<Longrightarrow>
      (\<And>y. r = Inr y \<Longrightarrow> app_name a \<in> A w') \<Longrightarrow> Q r w'"
  shows "wp (appIf_Create appIf a) Q w"
proof (rule wpI)
  fix r w'
  assume "appIf_Create appIf a w = (r, w')"
  note law = assms(1) [unfolded lawful_apps_def, THEN conjunct2, THEN conjunct1, rule_format, OF this]
  show "Q r w'" by (rule assms(2)) (use law in auto)
qed

lemma wp_app_update:
  assumes "lawful_apps V A appIf" and "\<And>r w'. V w' = V w \<Longrightarrow> A w' = A w \<Longrightarrow> Q r w'"
  shows "wp (appIf_Update appIf a) Q w"
proof (rule wpI)
  fix r w'
  assume "appIf_Update appIf a w = (r, w')"
  note law = assms(1) [unfolded lawful_apps_def, THEN conjunct2, THEN conjunct2, THEN conjunct1,
    rule_format, OF this]
  with assms(2) show "Q r w'" by simp
qed

lemma wp_app_delete:
  assumes "lawful_apps V A appIf"
    and "\<And>r w'. V w' = V w \<Longrightarrow> A w' \<subseteq> A w \<Longrightarrow> A w - {n} \<subseteq> A w' \<Longrightarrow> Q r w'"
  shows "wp (appIf_Delete appIf n b) Q w"
proof (rule wpI)
  fix r w'
  assume "appIf_Delete appIf n b w = (r, w')"
  note law = assms(1) [unfolded lawful_apps_def, THEN conjunct2, THEN conjunct2, THEN conjunct2,
    rule_format, OF this]
  with assms(2) show "Q r w'" by simp
qed

lemma existing_app_up:
  assumes laws: "reconciler_laws V A r" "lawful_apps V A appIf"
    and cl: "V w (cl_ns cl) (cl_name cl) = Some cl" "ready_for_apps cl"
    and apps: "arlonAppName (cl_name cl) \<in> A w" "cl_name cl \<in> A w"
  shows "wp (reconcile_existing_app r appIf cl a) (up_post V A cl p) w"
proof -
  let ?finish = "if cst_State (cl_status cl) \<noteq> ''created'' then
      UpdateState r cl ''created'' ''cluster app already exists but state needs updating -- ok'' no_result
    else ret no_result"
  have fin: "wp ?finish (up_post V A cl p) w1" if "V w1 = V w" "A w1 = A w" for w1
  proof (cases "cst_State (cl_status cl) = ''created''")
    case True
    with that cl apps show ?thesis
      by (simp add: wp_ret) (auto intro!: up_post_same simp: phase_created_already)
  next
    case False
    have "wp (UpdateState r cl ''created'' ''cluster app already exists but state needs updating -- ok''
        no_result) (up_post V A cl p) w1"
      using that cl apps by (intro up_UpdateState [OF laws(1)]) (simp_all add: phase_created)
    with False show ?thesis by simp
  qed
  show ?thesis
  proof (cases "synced_app cl a")
    case None
    then show ?thesis using fin [OF refl refl] by (simp add: reconcile_existing_app_def Let_def)
  next
    case (Some b)
    then show ?thesis
      unfolding reconcile_existing_app_def Let_def Some option.case wp_attempt
    proof (intro wp_app_update [OF laws(2)])
      fix x w1
      assume same: "V w1 = V w" "A w1 = A w"
      then have "V w1 (cl_ns cl) (cl_name cl) = Some cl" using cl by simp
      note err = up_retrying [OF laws(1) this] and pan = up_post_same [of V w1 cl, OF this]
      show "case x of Inl (Panic s) \<Rightarrow> up_post V A cl p (Inl (Panic s)) w1
        | Inl (Err e) \<Rightarrow> wp (retrying r cl (''failed to update cluster application: '' @ error_string e))
            (up_post V A cl p) w1
        | Inr y \<Rightarrow> wp ?finish (up_post V A cl p) w1"
        using fin [OF same] by (auto simp only: sum.case fault.case sum.simps intro!: err pan
            split: sum.splits fault.splits)
    qed
  qed
qed

lemma app_name_constructClusterApp [simp]: "app_name (constructClusterApp ns n b u rv p ov) = n"
  by (simp add: constructClusterApp_def)

lemma wp_CreateClusterApp:
  assumes "lawful_apps V A appIf"
  shows "wp (CreateClusterApp appIf ns n b u rv p True ov)
    (\<lambda>x w'. V w' = V w \<and> A w \<subseteq> A w' \<and> (\<forall>y. x = Inr y \<longrightarrow> n \<in> A w')) w"
  unfolding CreateClusterApp_def Let_def if_True
  by (rule wp_mustI [OF wp_app_write [OF assms, where Q = "\<lambda>x w'. V w' = V w \<and> A w \<subseteq> A w' \<and> (\<forall>y. x = Inr y \<longrightarrow> n \<in> A w')"]])
    (auto simp: wp_ret)

lemma cluster_app_up:
  assumes laws: "reconciler_laws V A r" "lawful_apps V A appIf"
    and cl: "V w (cl_ns cl) (cl_name cl) = Some cl" "ready_for_apps cl"
    and apps: "arlonAppName (cl_name cl) \<in> A w"
  shows "wp (reconcile_cluster_app r appIf cl repo ov) (up_post V A cl p) w"
  unfolding reconcile_cluster_app_def
proof (rule wp_check_app [OF laws(2)], goal_cases)
  case (1 a w1)
  with cl apps show ?case by (intro existing_app_up [OF laws]) simp_all
next
  case (2 w1)
  then have cl1: "V w1 (cl_ns cl) (cl_name cl) = Some cl" "arlonAppName (cl_name cl) \<in> A w1"
    using cl apps by simp_all
  show ?case
  proof (rule wp_attemptI [OF wp_CreateClusterApp [OF laws(2)]], goal_cases)
    case (1 s w2)
    with cl1 show ?case by (intro up_post_same) simp_all
  next
    case (2 e w2)
    with cl1 show ?case by (intro up_retrying [OF laws(1)]) simp
  next
    case (3 x w2)
    with cl1 have cl2: "V w2 (cl_ns cl) (cl_name cl) = Some cl" by simp
    show ?case
    proof (rule up_UpdateState [OF laws(1) cl2])
      from 3 cl1 cl(2) show "advanced p (phase_of (cl\<lparr>cl_status := (cl_status cl)
          \<lparr>cst_State := ''created'', cst_Message := ''cluster app creation successful''\<rparr>\<rparr>) (A w2))"
        by (subst phase_created) auto
    qed simp
  qed
next
  case (3 msg w1)
  with cl show ?case by (intro up_retrying [OF laws(1)]) simp
qed

text \<open>Creating the Arlon application of a cluster of the second generation: the check that no cluster
  application of the name exists, and the application.\<close>

lemma ConstructRootApp_gen2:
  "ConstructRootApp ns n inner u b p '''' None prof url cas = Inr app \<Longrightarrow> app_name app = arlonAppName n"
  by (auto simp: ConstructRootApp_def root_app_meta_def arlonAppName_def split: sum.splits if_splits)

text \<open>The check that no cluster application of the name exists.\<close>

lemma wp_no_such_app:
  assumes "lawful_apps V A appIf"
    and "\<And>w'. V w' = V w \<Longrightarrow> A w' = A w \<Longrightarrow> n \<notin> A w \<Longrightarrow> wp k Q w'"
    and "\<And>e w'. V w' = V w \<Longrightarrow> A w' = A w \<Longrightarrow> Q (Inl (Err e)) w'"
  shows "wp (no_such_app appIf n k) Q w"
proof -
  have "wp (appIf_Get appIf n) (\<lambda>r w'. V w' = V w \<and> A w' = A w \<and>
      (case r of Inr a \<Rightarrow> True | Inl (Err e) \<Rightarrow> grpc_code e = Some grpc_NotFound \<longrightarrow> n \<notin> A w
       | Inl (Panic s) \<Rightarrow> False)) w"
  proof (rule wpI)
    fix r w'
    assume "appIf_Get appIf n w = (r, w')"
    note law = assms(1) [unfolded lawful_apps_def, THEN conjunct1, rule_format, OF this]
    then show "V w' = V w \<and> A w' = A w \<and> (case r of Inr a \<Rightarrow> True
       | Inl (Err e) \<Rightarrow> grpc_code e = Some grpc_NotFound \<longrightarrow> n \<notin> A w | Inl (Panic s) \<Rightarrow> False)"
      by (auto split: sum.splits)
  qed
  then show ?thesis
    unfolding no_such_app_def
  proof (rule wp_attemptI, goal_cases)
    case (2 e w')
    then have same: "V w' = V w" "A w' = A w" by simp_all
    show ?case
    proof (cases "grpc_code e = Some grpc_NotFound")
      case True
      with 2 assms(2) [OF same] show ?thesis by simp
    next
      case False
      then show ?thesis by (cases "grpc_code e") (simp_all add: wp_fail assms(3) [OF same])
    qed
  qed (auto simp: wp_fail intro: assms(3))
qed

lemma cluster_Create_gen2:
  assumes "lawful_apps V A appIf" "quiet_config (\<lambda>w. (V w, A w)) config"
  shows "wp (cluster_Create env content appIf config ns ans n inner u b p [] None True host cas)
    (\<lambda>x w'. V w' = V w \<and> A w \<subseteq> A w' \<and> (n \<in> A w \<longrightarrow> A w' = A w) \<and>
       (\<forall>y. x = Inr y \<longrightarrow> arlonAppName n \<in> A w' \<and> n \<notin> A w)) w"
    (is "wp _ ?Q w")
  unfolding cluster_Create_def must_def [of "rc_NewForConfig config"]
proof (rule wp_attempt_quiet [where V = V and A = A], goal_cases)
  case 1
  from assms(2) show ?case by simp
next
  case (4 kc w1)
  show ?case
  proof (rule wp_no_such_app [OF assms(1)], goal_cases)
    case (1 w2)
    have rest: "wp (must (lift (ConstructRootApp ns n inner u b p [] None ''no-profile-for-gen2'' host cas))
        (ErrorCtx ''failed to construct root app: '')
        (\<lambda>rootApp. must (appIf_Create appIf rootApp) (ErrorCtx ''failed to create ArgoCD root application: '')
          (\<lambda>_. ret rootApp))) ?Q w2"
    proof (cases "ConstructRootApp ns n inner u b p [] None ''no-profile-for-gen2'' host cas")
      case (Inl e)
      with 1 4 show ?thesis by (simp add: wp_must wp_lift)
    next
      case (Inr app)
      have "wp (must (appIf_Create appIf app) (ErrorCtx ''failed to create ArgoCD root application: '')
          (\<lambda>_. ret app)) ?Q w2"
        by (rule wp_mustI [OF wp_app_write [OF assms(1), where Q = "\<lambda>x w'. V w' = V w2 \<and> A w2 \<subseteq> A w'
            \<and> (\<forall>y. x = Inr y \<longrightarrow> app_name app \<in> A w')"]])
          (use 1 4 ConstructRootApp_gen2 [OF Inr] in \<open>auto simp: wp_ret\<close>)
      with Inr show ?thesis by (simp add: wp_must wp_lift)
    qed
    then show ?case by (simp add: andThen_def attempt_def ret_def)
  next
    case (2 e w2)
    with 4 show ?case by simp
  qed
qed (auto simp: wp_fail)

lemma arlon_app_up:
  assumes laws: "reconciler_laws V A r" "lawful_apps V A appIf"
    and cl: "V w (cl_ns cl) (cl_name cl) = Some cl" "ready_for_apps cl"
  shows "wp (reconcile_arlon_app r appIf cl (reconcile_cluster_app r appIf cl repo ov)) (up_post V A cl p) w"
  unfolding reconcile_arlon_app_def
proof (rule wp_check_app [OF laws(2)], goal_cases)
  case (1 a w1)
  with cl show ?case by (intro cluster_app_up [OF laws]) simp_all
next
  case (2 w1)
  then have cl1: "V w1 (cl_ns cl) (cl_name cl) = Some cl" using cl by simp
  show ?case
    unfolding Let_def
  proof (rule wp_attemptI [OF cluster_Create_gen2 [OF laws(2)]], goal_cases)
    case 1
    from laws(1) show ?case by (rule reconciler_lawsD)
  next
    case (2 s w2)
    with cl1 show ?case by (intro up_post_same) simp_all
  next
    case (3 e w2)
    with cl1 show ?case by (intro up_retrying [OF laws(1)]) simp
  next
    case (4 x w2)
    with cl1 cl(2) show ?case by (intro cluster_app_up [OF laws]) simp_all
  qed
next
  case (3 msg w1)
  with cl show ?case by (intro up_retrying [OF laws(1)]) simp
qed

lemma reconcile_up_up:
  assumes laws: "reconciler_laws V A r" "lawful_apps V A appIf"
    and cl: "V w (cl_ns cl) (cl_name cl) = Some cl"
    and fin: "contains_finalizer (cl_meta cl) ClusterFinalizer"
  shows "wp (reconcile_up r appIf cl) (up_post V A cl (phase_of cl (A w))) w"
proof (cases "cst_InnerClusterName (cl_status cl) = ''''")
  case True
  then have "phase_of cl (A w) = NeedsValidation" using fin by (simp add: phase_of_def)
  with True template_up [OF laws(1) cl fin] show ?thesis by (simp add: reconcile_up_def)
next
  case inner: False
  show ?thesis
  proof (cases "cl_Override (cl_spec cl)")
    case None
    with inner fin have "ready_for_apps cl" by (simp add: ready_for_apps_def)
    with None inner show ?thesis
      using arlon_app_up [OF laws cl] by (simp add: reconcile_up_def)
  next
    case (Some ovr)
    show ?thesis
    proof (cases "cst_OverrideSuccessful (cl_status cl)")
      case True
      with inner fin have "ready_for_apps cl" by (simp add: ready_for_apps_def)
      with Some inner True show ?thesis
        using arlon_app_up [OF laws cl] by (simp add: reconcile_up_def)
    next
      case False
      then have "phase_of cl (A w) = NeedsOverride" using fin inner Some by (simp add: phase_of_def)
      with override_up [OF laws(1) cl fin inner] False Some inner show ?thesis
        by (simp add: reconcile_up_def)
    qed
  qed
qed

section \<open>Taking a cluster down\<close>

text \<open>As long as one of the applications may be left, the resource keeps its metadata.\<close>

definition down_post ::
  "('w \<Rightarrow> string \<Rightarrow> string \<Rightarrow> cluster_res option) \<Rightarrow> ('w \<Rightarrow> string set) \<Rightarrow> cluster_res \<Rightarrow>
   ctrl_result result \<Rightarrow> 'w \<Rightarrow> bool" where
  "down_post V A cl r w' \<longleftrightarrow>
     (\<exists>c. V w' (cl_ns cl) (cl_name cl) = Some c \<and> cl_meta c = cl_meta cl \<and> cl_spec c = cl_spec cl)
     \<or> (cl_name cl \<notin> A w' \<and> arlonAppName (cl_name cl) \<notin> A w')"

lemma down_UpdateState:
  assumes "reconciler_laws V A r" "V w (cl_ns cl) (cl_name cl) = Some cl" "cl_meta c = cl_meta cl"
  shows "wp (UpdateState r c s m res) (down_post V A cl) w"
  by (rule wp_mono [OF wp_UpdateState [OF assms(1), where c = c and old = cl and
        Q = "\<lambda>_ w'. \<exists>c. V w' (cl_ns cl) (cl_name cl) = Some c \<and> cl_meta c = cl_meta cl \<and> cl_spec c = cl_spec cl"]])
    (use assms in \<open>auto simp: down_post_def\<close>)

lemma down_same: "V w' (cl_ns cl) (cl_name cl) = Some cl \<Longrightarrow> down_post V A cl r w'"
  by (auto simp: down_post_def)

lemma delete_override_down:
  assumes laws: "reconciler_laws V A r" and cl: "V w (cl_ns cl) (cl_name cl) = Some cl"
  shows "wp (delete_override r cl app) (down_post V A cl) w"
  unfolding delete_override_def
proof (rule wp_attempt_quiet [where V = V and A = A], goal_cases)
  case 1
  from reconciler_lawsD(3) [OF laws] show ?case by simp
next
  case (4 kc w1)
  have kc: "steady (\<lambda>w. (V w, A w)) (api_list (kube_Secrets kc) ns sel)" for ns sel
    using reconciler_lawsD(3) [OF laws] 4(3) by simp
  show ?case
  proof (rule wp_attempt_quiet [where V = V and A = A], goal_cases)
    case 1
    from reconciler_lawsD(2) [OF laws] kc show ?case by simp
  qed (use cl 4 in \<open>auto intro!: down_UpdateState [OF laws] down_same\<close>)
qed (use cl in \<open>auto intro!: down_UpdateState [OF laws] down_same\<close>)

lemma delete_app_down:
  assumes laws: "reconciler_laws V A r" "lawful_apps V A appIf" and cl: "V w (cl_ns cl) (cl_name cl) = Some cl"
  shows "wp (delete_app r appIf cl n what words app) (down_post V A cl) w"
proof (cases "om_deletion (app_meta app) = None")
  case False
  with cl show ?thesis by (simp add: delete_app_def wp_ret down_same)
next
  case True
  have "wp (attempt (appIf_Delete appIf n True)
      (\<lambda>err. UpdateState r cl (''error-deleting-'' @ what) (''failed to delete '' @ words @ '': '' @ error_string err)
        retryDelayAsResult)
      (\<lambda>_. UpdateState r cl (''deleting-'' @ what) (''deleting '' @ words) no_result)) (down_post V A cl) w"
    by (rule wp_attemptI [OF wp_app_delete [OF laws(2), where Q = "\<lambda>_ w'. V w' = V w"]])
      (use cl in \<open>auto intro!: down_UpdateState [OF laws(1)] down_same\<close>)
  with True show ?thesis by (simp add: delete_app_def)
qed

lemma reconcileDelete_down:
  assumes laws: "reconciler_laws V A r" "lawful_apps V A appIf" and cl: "V w (cl_ns cl) (cl_name cl) = Some cl"
  shows "wp (reconcileDelete r cl appIf) (down_post V A cl) w"
  unfolding reconcileDelete_def Let_def
proof (rule wp_check_app [OF laws(2)], goal_cases)
  case (1 a w1)
  then have "V w1 (cl_ns cl) (cl_name cl) = Some cl" using cl by simp
  then show ?case by (simp add: delete_override_down [OF laws(1)] delete_app_down [OF laws])
next
  case (2 w1)
  then have cl1: "V w1 (cl_ns cl) (cl_name cl) = Some cl" using cl by simp
  show ?case
  proof (rule wp_check_app [OF laws(2)], goal_cases)
    case (1 a w2)
    with cl1 show ?case by (intro delete_app_down [OF laws]) simp
  next
    case (2 w2)
    have cl2: "V w2 (cl_ns cl) (cl_name cl) = Some cl" using 2 cl1 by simp
    have gone: "cl_name cl \<notin> A w2" "arlonAppName (cl_name cl) \<notin> A w2"
      using 2 \<open>cl_name cl \<notin> A w\<close> \<open>A w1 = A w\<close> by simp_all
    show ?case
      by (rule wp_patch_cluster [OF laws(1) cl2]) (use gone in \<open>auto simp: down_post_def\<close>)
  next
    case (3 msg w2)
    with cl1 show ?case by (intro down_UpdateState [OF laws(1)]) simp_all
  qed
next
  case (3 msg w1)
  with cl show ?case by (intro down_UpdateState [OF laws(1)]) simp_all
qed

section \<open>Whole reconciliations\<close>

definition stored_cluster ::
  "('w \<Rightarrow> string \<Rightarrow> string \<Rightarrow> cluster_res option) \<Rightarrow> 'w \<Rightarrow> string \<Rightarrow> string \<Rightarrow> cluster_res \<Rightarrow> bool" where
  "stored_cluster V w ns name cl \<longleftrightarrow> V w ns name = Some cl \<and> cl_ns cl = ns \<and> cl_name cl = name"

lemma stored_clusterD:
  "stored_cluster V w ns name cl \<Longrightarrow> V w (cl_ns cl) (cl_name cl) = Some cl"
  by (auto simp: stored_cluster_def)

definition live_post ::
  "('w \<Rightarrow> string \<Rightarrow> string \<Rightarrow> cluster_res option) \<Rightarrow> ('w \<Rightarrow> string set) \<Rightarrow> cluster_res \<Rightarrow> phase \<Rightarrow>
   ctrl_result result \<Rightarrow> 'w \<Rightarrow> bool" where
  "live_post V A cl p r w' \<longleftrightarrow> (\<exists>c. stored_cluster V w' (cl_ns cl) (cl_name cl) c
     \<and> om_deletion (cl_meta c) = om_deletion (cl_meta cl) \<and> cl_spec c = cl_spec cl
     \<and> (contains_finalizer (cl_meta cl) ClusterFinalizer \<longrightarrow> contains_finalizer (cl_meta c) ClusterFinalizer)
     \<and> (r = Inr no_result \<longrightarrow> advanced p (phase_of c (A w'))))"

lemma live_same:
  "V w' (cl_ns cl) (cl_name cl) = Some cl \<Longrightarrow> r \<noteq> Inr no_result \<Longrightarrow> live_post V A cl p r w'"
  by (auto simp: live_post_def stored_cluster_def)

lemma live_up: "up_post V A cl p r w' \<Longrightarrow> live_post V A cl p r w'"
  by (auto simp: live_post_def up_post_def stored_cluster_def)

lemma namespace_add_finalizer [simp]: "om_namespace (add_finalizer m f) = om_namespace m"
  by (simp add: add_finalizer_def)

lemma phase_add_finalizer:
  "\<not> contains_finalizer (cl_meta cl) ClusterFinalizer \<Longrightarrow>
   advanced (phase_of cl apps) (phase_of (cl\<lparr>cl_meta := add_finalizer (cl_meta cl) ClusterFinalizer\<rparr>) apps')"
  by (simp add: phase_of_def advanced_def less_phase_def)

text \<open>A reconciliation of a stored resource reads it and gets the clients, any of which may fail; then
  it goes on with the resource as it is stored.\<close>

lemma wp_get_cluster:
  assumes "reconciler_laws V A r" "stored_cluster V w ns name cl"
  shows "wp (api_get (cli_Clusters (clr_Client r)) ns name)
    (\<lambda>x w1. V w1 = V w \<and> A w1 = A w \<and> (case x of Inr c \<Rightarrow> c = cl | Inl (Err e) \<Rightarrow> \<not> IsNotFound e
       | Inl (Panic s) \<Rightarrow> False)) w"
proof (rule wpI)
  fix x w1
  assume "api_get (cli_Clusters (clr_Client r)) ns name w = (x, w1)"
  note law = reconciler_lawsD(1) [OF assms(1), unfolded lawful_cluster_api_def, THEN conjunct1, rule_format, OF this]
  with assms(2) show "V w1 = V w \<and> A w1 = A w \<and> (case x of Inr c \<Rightarrow> c = cl | Inl (Err e) \<Rightarrow> \<not> IsNotFound e
       | Inl (Panic s) \<Rightarrow> False)"
    by (auto simp: stored_cluster_def split: sum.splits fault.splits)
qed

lemma wp_Reconcile:
  assumes laws: "reconciler_laws V A r" and st: "stored_cluster V w ns name cl"
    and same: "\<And>x w1. V w1 = V w \<Longrightarrow> A w1 = A w \<Longrightarrow> x \<noteq> Inr no_result \<Longrightarrow> Q x w1"
    and retry: "\<And>msg w1. V w1 = V w \<Longrightarrow> A w1 = A w \<Longrightarrow> wp (retrying r cl msg) Q w1"
    and body: "\<And>appIf w1. V w1 = V w \<Longrightarrow> A w1 = A w \<Longrightarrow> lawful_apps V A appIf \<Longrightarrow>
      wp (if om_deletion (cl_meta cl) \<noteq> None then reconcileDelete r cl appIf
        else if \<not> contains_finalizer (cl_meta cl) ClusterFinalizer then
          patch_cluster r cl (cl\<lparr>cl_meta := add_finalizer (cl_meta cl) ClusterFinalizer\<rparr>)
        else reconcile_up r appIf cl) Q w1"
  shows "wp (cluster_Reconcile r ns name) Q w"
  unfolding cluster_Reconcile_def
proof (rule wp_attemptI [OF wp_get_cluster [OF laws st]], goal_cases)
  case (2 e w1)
  then show ?case using same [of w1 "Inr requeue_result"] by (simp add: wp_ret)
next
  case (3 c w1)
  then have c: "c = cl" and w1: "V w1 = V w" "A w1 = A w" by simp_all
  show ?case
    unfolding c
  proof (rule wp_attempt_quiet [where V = V and A = A, OF reconciler_lawsD(5) [OF laws]], goal_cases)
    case (1 s w2)
    with w1 show ?case by (intro same) simp_all
  next
    case (2 e w2)
    with w1 same [of w2 "Inr requeue_result"] show ?case by (simp add: wp_ret)
  next
    case (3 u w2)
    with w1 have w2: "V w2 = V w" "A w2 = A w" by simp_all
    show ?case
    proof (rule wp_attempt_quiet [where V = V and A = A, OF reconciler_lawsD(6) [OF laws]], goal_cases)
      case (1 s w3)
      with w2 show ?case by (intro same) simp_all
    next
      case (2 e w3)
      with w2 show ?case by (intro retry) simp_all
    next
      case (3 appIf w3)
      with w2 laws show ?case by (intro body reconciler_lawsD(7) [OF laws]) simp_all
    qed
  qed
qed auto

text \<open>What one reconciliation does, for a resource that is kept and for one that is being deleted.\<close>

lemma Reconcile_live:
  assumes laws: "reconciler_laws V A r" and st: "stored_cluster V w ns name cl"
    and live: "om_deletion (cl_meta cl) = None"
  shows "wp (cluster_Reconcile r ns name) (live_post V A cl (phase_of cl (A w))) w"
proof (rule wp_Reconcile [OF laws st], goal_cases)
  case (1 x w1)
  with stored_clusterD [OF st] show ?case by (intro live_same) simp_all
next
  case (2 msg w1)
  with stored_clusterD [OF st] have "V w1 (cl_ns cl) (cl_name cl) = Some cl" by simp
  then show ?case by (intro wp_mono [OF up_retrying [OF laws] live_up])
next
  case (3 appIf w1)
  with stored_clusterD [OF st] have cl1: "V w1 (cl_ns cl) (cl_name cl) = Some cl" by simp
  show ?case
  proof (cases "contains_finalizer (cl_meta cl) ClusterFinalizer")
    case True
    with live wp_mono [OF reconcile_up_up [OF laws 3(3) cl1] live_up] 3 show ?thesis by simp
  next
    case False
    have "wp (patch_cluster r cl (cl\<lparr>cl_meta := add_finalizer (cl_meta cl) ClusterFinalizer\<rparr>))
        (live_post V A cl (phase_of cl (A w))) w1"
      by (rule wp_patch_cluster [OF laws cl1])
        (use live False cl1 in \<open>auto simp: live_post_def stored_cluster_def admitted_def phase_add_finalizer\<close>)
    with live False show ?thesis by simp
  qed
qed

lemma Reconcile_down:
  assumes laws: "reconciler_laws V A r" and st: "stored_cluster V w ns name cl"
    and down: "om_deletion (cl_meta cl) \<noteq> None"
  shows "wp (cluster_Reconcile r ns name) (down_post V A cl) w"
proof (rule wp_Reconcile [OF laws st], goal_cases)
  case (1 x w1)
  with stored_clusterD [OF st] show ?case by (intro down_same) simp
next
  case (2 msg w1)
  with stored_clusterD [OF st] show ?case
    unfolding retrying_def by (intro down_UpdateState [OF laws]) simp_all
next
  case (3 appIf w1)
  with stored_clusterD [OF st] down reconcileDelete_down [OF laws 3(3)] show ?case by simp
qed

inductive rounds :: "'w cluster_reconciler \<Rightarrow> string \<Rightarrow> string \<Rightarrow> nat \<Rightarrow> 'w \<Rightarrow> 'w \<Rightarrow> bool"
  for r ns name where
  rounds_none: "rounds r ns name 0 w w"
| rounds_more: "rounds r ns name n w w1 \<Longrightarrow> cluster_Reconcile r ns name w1 = (Inr no_result, w2) \<Longrightarrow>
    rounds r ns name (Suc n) w w2"

inductive_cases rounds_SucE: "rounds r ns name (Suc n) w w2"

lemma one_round:
  assumes "reconciler_laws V A r" "stored_cluster V w ns name cl" "om_deletion (cl_meta cl) = None"
    "cluster_Reconcile r ns name w = (Inr no_result, w')"
  shows "\<exists>c. stored_cluster V w' ns name c \<and> om_deletion (cl_meta c) = None \<and> cl_spec c = cl_spec cl
    \<and> advanced (phase_of cl (A w)) (phase_of c (A w'))"
proof -
  have "live_post V A cl (phase_of cl (A w)) (Inr no_result) w'"
    using Reconcile_live [OF assms(1-3)] assms(4) by (rule wpD)
  with assms(2,3) show ?thesis by (auto simp: live_post_def stored_cluster_def)
qed

lemma advanced_rank: "advanced p q \<Longrightarrow> min 5 (Suc (phase_rank p)) \<le> phase_rank q"
  by (auto simp: advanced_def less_phase_def)

lemma phase_rank_5: "5 \<le> phase_rank p \<Longrightarrow> p = Created"
  by (cases p) simp_all

lemma rounds_rank:
  assumes "rounds r ns name n w w'" "reconciler_laws V A r" "stored_cluster V w ns name cl"
    "om_deletion (cl_meta cl) = None"
  shows "\<exists>c. stored_cluster V w' ns name c \<and> om_deletion (cl_meta c) = None \<and> cl_spec c = cl_spec cl
    \<and> min 5 n \<le> phase_rank (phase_of c (A w'))"
  using assms(1,3)
proof induction
  case (rounds_none w)
  with assms(4) show ?case by (intro exI [of _ cl]) simp
next
  case (rounds_more n w w1 w2)
  then obtain c where c: "stored_cluster V w1 ns name c" "om_deletion (cl_meta c) = None"
    "cl_spec c = cl_spec cl" "min 5 n \<le> phase_rank (phase_of c (A w1))" by blast
  from one_round [OF assms(2) c(1,2) rounds_more.hyps(2)] obtain d where
    "stored_cluster V w2 ns name d" "om_deletion (cl_meta d) = None" "cl_spec d = cl_spec c"
    "advanced (phase_of c (A w1)) (phase_of d (A w2))" by blast
  with c(3,4) show ?case by (auto dest!: advanced_rank intro!: exI [of _ d])
qed

section \<open>A world in memory\<close>

record demo_state =
  dw_clusters :: "string \<Rightarrow> string \<Rightarrow> cluster_res option"
  dw_apps :: "application list"

definition demo_names :: "demo_state \<Rightarrow> string set" where
  "demo_names w = set (map app_name (dw_apps w))"

definition demo_put :: "string \<Rightarrow> string \<Rightarrow> cluster_res option \<Rightarrow> demo_state \<Rightarrow> demo_state" where
  "demo_put ns n c w = w\<lparr>dw_clusters := stored (dw_clusters w) ns n c\<rparr>"

definition demo_cluster_api :: "(demo_state, cluster_res) resource_api" where
  "demo_cluster_api = absent_api
     \<lparr>api_get := (\<lambda>ns n w. (case dw_clusters w ns n of None \<Rightarrow> (Inl (Err (not_found n)), w) | Some c \<Rightarrow> (Inr c, w))),
      api_update_status := (\<lambda>ns c w. (case dw_clusters w ns (cl_name c) of
          None \<Rightarrow> (Inl (Err (not_found (cl_name c))), w)
        | Some old \<Rightarrow> (Inr c, demo_put ns (cl_name c) (Some (old\<lparr>cl_status := cl_status c\<rparr>)) w))),
      api_patch := (\<lambda>ns b c w. (case dw_clusters w ns (cl_name b) of
          None \<Rightarrow> (Inl (Err (not_found (cl_name b))), w)
        | Some old \<Rightarrow> (Inr (), demo_put ns (cl_name b) (admitted c) w)))\<rparr>"

definition demo_appIf :: "demo_state application_client" where
  "demo_appIf = \<lparr>appIf_Get = (\<lambda>n w. (case find (\<lambda>a. app_name a = n) (dw_apps w) of
       None \<Rightarrow> (Inl (Err (GrpcStatus grpc_NotFound ''not found'')), w) | Some a \<Rightarrow> (Inr a, w))),
     appIf_List = (\<lambda>_ w. (Inr (dw_apps w), w)),
     appIf_Create = (\<lambda>a w. (Inr a, w\<lparr>dw_apps := dw_apps w @ [a]\<rparr>)),
     appIf_Update = (\<lambda>a w. (Inr a, w\<lparr>dw_apps := map (\<lambda>b. if app_name b = app_name a then a else b) (dw_apps w)\<rparr>)),
     appIf_Delete = (\<lambda>n _ w. (Inr (), w\<lparr>dw_apps := filter (\<lambda>a. app_name a \<noteq> n) (dw_apps w)\<rparr>))\<rparr>"

definition demo_wt :: "demo_state worktree" where
  "demo_wt = \<lparr>wt_Lstat = (\<lambda>_. failing), wt_Remove = (\<lambda>_. ret ()), wt_MkdirAll = (\<lambda>_. ret ()), wt_Create = (\<lambda>_. ret ()),
     wt_OpenTrunc = (\<lambda>_. ret ()), wt_Write = (\<lambda>_ _. ret ()), wt_Close = (\<lambda>_. ret ()),
     wt_ReadDir = (\<lambda>_. ret (map (\<lambda>n. \<lparr>fi_Name = n, fi_IsDir = False\<rparr>)
       [''kustomization.yaml'', ''configurations.yaml'', ''cluster.yaml''])),
     wt_Status = ret [], wt_Add = (\<lambda>_. ret ()), wt_Commit = (\<lambda>_ _. ret ())\<rparr>"

definition demo_env :: "demo_state git_env" where
  "demo_env = \<lparr>os_MkdirTemp = ret ''/tmp/arlon'', os_RemoveAll = (\<lambda>_. ret ()), os_Lstat = (\<lambda>_. ret False),
     os_Stat = (\<lambda>_. ret ()), os_IsNotExist = (\<lambda>_. False),
     git_PlainClone = (\<lambda>_ _. ret \<lparr>repo_Worktree = ret demo_wt, repo_Push = (\<lambda>_. ret ())\<rparr>)\<rparr>"

definition demo_reconciler :: "demo_state cluster_reconciler" where
  "demo_reconciler = \<lparr>
     clr_Client = \<lparr>cli_Profiles = absent_api, cli_AppProfiles = absent_api, cli_ApplicationSets = absent_api,
       cli_Clusters = demo_cluster_api, cli_Secrets = absent_api\<rparr>,
     clr_NewHelper = (\<lambda>_. ret ()),
     clr_ArgocdClient = \<lparr>argo_NewApplicationClient = ret demo_appIf, argo_NewClusterClient = failing\<rparr>,
     clr_Config = \<lparr>rc_NewForConfig = ret \<lparr>kube_ConfigMaps = absent_api, kube_Secrets = absent_api
         \<lparr>api_list := (\<lambda>_ _. ret [\<lparr>secr_meta = named_meta ''repo'' ''argocd'',
            secr_data = mlit [(''url'', ''https://git/t'')]\<rparr>])\<rparr>\<rparr>,
       rc_NewClient = failing\<rparr>,
     clr_ArgoCdNs = ''argocd'', clr_ArlonNs = ''arlon'', clr_Env = demo_env,
     clr_Tools = \<lparr>mt_Infos = (\<lambda>_. ret [\<lparr>kr_Kind = ''Cluster'', kr_Name = ''capi'', kr_Namespace = '''', kr_Annotations = None\<rparr>]),
       mt_Convert = Inr, mt_Encode = (\<lambda>_ _. Inr '''')\<rparr>,
     clr_Templates = \<lparr>yaml_Marshal = (\<lambda>_. Inr ''''), parse_template = (\<lambda>_. Inr (Inr ''''))\<rparr>,
     clr_Content = []\<rparr>"

definition demo_repo :: "string \<Rightarrow> repo_spec" where
  "demo_repo p = \<lparr>rs_Url = ''https://git/t'', rs_Path = p, rs_Revision = ''main''\<rparr>"

definition demo_cluster :: cluster_res where
  "demo_cluster = \<lparr>cl_meta = named_meta ''c1'' ''default'',
     cl_spec = \<lparr>cl_ClusterTemplate = demo_repo ''templates/a'',
       cl_Override = Some \<lparr>os_Patch = ''patch'', os_Repo = demo_repo ''overrides''\<rparr>,
       cl_Autoscaler = None, cl_ArlonHelmChart = None\<rparr>,
     cl_status = \<lparr>cst_State = '''', cst_InnerClusterName = '''', cst_OverrideSuccessful = False, cst_Message = ''''\<rparr>\<rparr>"

definition demo_start :: demo_state where
  "demo_start = demo_put ''default'' ''c1'' (Some demo_cluster) \<lparr>dw_clusters = (\<lambda>_ _. None), dw_apps = []\<rparr>"

definition demo_round :: "demo_state \<Rightarrow> ctrl_result result \<times> demo_state" where
  "demo_round = cluster_Reconcile demo_reconciler ''default'' ''c1''"

fun demo_after :: "nat \<Rightarrow> demo_state" where
  "demo_after 0 = demo_start"
| "demo_after (Suc n) = snd (demo_round (demo_after n))"

lemma demo_rounds_run:
  "fst (demo_round (demo_after 0)) = Inr no_result"
  "fst (demo_round (demo_after 1)) = Inr no_result"
  "fst (demo_round (demo_after 2)) = Inr no_result"
  "fst (demo_round (demo_after 3)) = Inr no_result"
  "fst (demo_round (demo_after 4)) = Inr no_result"
  by code_simp+

lemma demo_laws: "reconciler_laws dw_clusters demo_names demo_reconciler"
proof -
  let ?st = "\<lambda>w. (dw_clusters w, demo_names w)"
  have 1: "lawful_cluster_api dw_clusters demo_names demo_cluster_api"
    by (auto simp: lawful_cluster_api_def demo_cluster_api_def demo_put_def demo_names_def not_found_def
        split: option.splits)
  have 2: "lawful_apps dw_clusters demo_names demo_appIf"
    by (auto simp: lawful_apps_def demo_appIf_def demo_names_def find_Some_iff find_None_iff image_iff
        split: option.splits) metis+
  have 3: "quiet_env ?st demo_env"
    by (simp add: quiet_env_def demo_env_def quiet_repository_def quiet_worktree_def demo_wt_def steady_ret
        failing_def steady_fail)
  show ?thesis
    using 1 2 3 by (simp add: reconciler_laws_def demo_reconciler_def quiet_config_def steady_ret)
qed

section \<open>A lost Arlon application\<close>

definition stuck_post ::
  "('w \<Rightarrow> string \<Rightarrow> string \<Rightarrow> cluster_res option) \<Rightarrow> ('w \<Rightarrow> string set) \<Rightarrow> string set \<Rightarrow> cluster_res \<Rightarrow>
   ctrl_result result \<Rightarrow> 'w \<Rightarrow> bool" where
  "stuck_post V A apps cl r w' \<longleftrightarrow> r \<noteq> Inr no_result \<and> A w' = apps \<and>
     (\<exists>c. stored_cluster V w' (cl_ns cl) (cl_name cl) c \<and> cl_meta c = cl_meta cl \<and> ready_for_apps c)"

lemma stuck_same:
  "V w' (cl_ns cl) (cl_name cl) = Some cl \<Longrightarrow> ready_for_apps cl \<Longrightarrow> r \<noteq> Inr no_result \<Longrightarrow> A w' = apps \<Longrightarrow>
   stuck_post V A apps cl r w'"
  by (auto simp: stuck_post_def stored_cluster_def)

lemma stuck_retrying:
  assumes "reconciler_laws V A r" "V w (cl_ns cl) (cl_name cl) = Some cl" "ready_for_apps cl" "A w = apps"
  shows "wp (retrying r cl msg) (stuck_post V A apps cl) w"
  unfolding retrying_def
  by (rule wp_UpdateState [OF assms(1,2)])
    (use assms in \<open>auto simp: stuck_post_def stored_cluster_def ready_for_apps_def\<close>)

lemma reconcile_up_stuck:
  assumes laws: "reconciler_laws V A r" "lawful_apps V A appIf"
    and cl: "V w (cl_ns cl) (cl_name cl) = Some cl" "ready_for_apps cl"
    and apps: "cl_name cl \<in> A w" "arlonAppName (cl_name cl) \<notin> A w"
  shows "wp (reconcile_up r appIf cl) (stuck_post V A (A w) cl) w"
proof -
  have "wp (reconcile_arlon_app r appIf cl k) (stuck_post V A (A w) cl) w" for k
    unfolding reconcile_arlon_app_def
  proof (rule wp_check_app [OF laws(2)], goal_cases)
    case 1
    with apps show ?case by simp
  next
    case (2 w1)
    then have cl1: "V w1 (cl_ns cl) (cl_name cl) = Some cl" "cl_name cl \<in> A w1" using cl apps by simp_all
    show ?case
      unfolding Let_def
    proof (rule wp_attemptI [OF cluster_Create_gen2 [OF laws(2)]], goal_cases)
      case 1
      from laws(1) show ?case by (rule reconciler_lawsD)
    next
      case (2 s w2)
      with cl1 cl(2) \<open>A w1 = A w\<close> show ?case by (intro stuck_same) simp_all
    next
      case (3 e w2)
      with cl1 cl(2) \<open>A w1 = A w\<close> show ?case by (intro stuck_retrying [OF laws(1)]) simp_all
    next
      case (4 x w2)
      with cl1 show ?case by simp
    qed
  next
    case (3 msg w1)
    with cl show ?case by (intro stuck_retrying [OF laws(1)]) simp_all
  qed
  with cl(2) show ?thesis
    by (auto simp: reconcile_up_def ready_for_apps_def split: option.splits)
qed

section \<open>Properties\<close>

text \<open>C6: A cluster resource only loses its finalizer, or disappears, in a reconciliation when its
  deletion was requested and ArgoCD has neither its cluster application nor its Arlon application.\<close>

theorem finalizer_outlives_apps:
  assumes "reconciler_laws V A r" "stored_cluster V w ns name cl"
    and "contains_finalizer (cl_meta cl) ClusterFinalizer"
    and "cluster_Reconcile r ns name w = (res, w')"
    and "\<nexists>c. V w' ns name = Some c \<and> contains_finalizer (cl_meta c) ClusterFinalizer"
  shows "om_deletion (cl_meta cl) \<noteq> None \<and> name \<notin> A w' \<and> arlonAppName name \<notin> A w'"
proof (cases "om_deletion (cl_meta cl) = None")
  case True
  have "live_post V A cl (phase_of cl (A w)) res w'"
    using Reconcile_live [OF assms(1,2) True] assms(4) by (rule wpD)
  with assms(2,3,5) show ?thesis by (auto simp: live_post_def stored_cluster_def)
next
  case False
  have "down_post V A cl res w'"
    using Reconcile_down [OF assms(1,2) False] assms(4) by (rule wpD)
  with assms(2,3,5) False show ?thesis by (auto simp: down_post_def stored_cluster_def)
qed

definition demo_deleted :: cluster_res where
  "demo_deleted = demo_cluster\<lparr>cl_meta := (add_finalizer (cl_meta demo_cluster) ClusterFinalizer)
     \<lparr>om_deletion := Some ''2023-01-01T00:00:00Z''\<rparr>\<rparr>"

definition demo_ending :: demo_state where
  "demo_ending = demo_put ''default'' ''c1'' (Some demo_deleted) demo_start"

theorem finalizer_outlives_apps_witness:
  "dw_clusters (snd (demo_round demo_ending)) ''default'' ''c1'' = None
   \<and> ''c1'' \<notin> demo_names (snd (demo_round demo_ending))"
proof -
  obtain res w' where run: "demo_round demo_ending = (res, w')" by fastforce
  have gone: "dw_clusters (snd (demo_round demo_ending)) ''default'' ''c1'' = None" by code_simp
  have st: "stored_cluster dw_clusters demo_ending ''default'' ''c1'' demo_deleted"
    by (simp add: stored_cluster_def demo_ending_def demo_put_def demo_deleted_def demo_cluster_def
        named_meta_def)
  have fin: "contains_finalizer (cl_meta demo_deleted) ClusterFinalizer"
    by (simp add: demo_deleted_def contains_finalizer_def add_finalizer_def)
  have none: "\<nexists>c. dw_clusters w' ''default'' ''c1'' = Some c \<and> contains_finalizer (cl_meta c) ClusterFinalizer"
    using gone run by simp
  have round: "cluster_Reconcile demo_reconciler ''default'' ''c1'' demo_ending = (res, w')"
    using run by (simp only: demo_round_def)
  have "om_deletion (cl_meta demo_deleted) \<noteq> None \<and> ''c1'' \<notin> demo_names w' \<and> arlonAppName ''c1'' \<notin> demo_names w'"
    by (rule finalizer_outlives_apps) (fact demo_laws st fin round none)+
  with gone run show ?thesis by simp
qed

text \<open>C26: Every reconciliation of a resource that is not being deleted, when it asks for no retry, takes
  it at least one stage further in the order finalizer, template, override, applications, state, or
  leaves it created; the specification stays as it is.\<close>

theorem reconcile_advances:
  assumes "reconciler_laws V A r" "stored_cluster V w ns name cl" "om_deletion (cl_meta cl) = None"
    and "cluster_Reconcile r ns name w = (Inr no_result, w')"
  shows "\<exists>c. V w' ns name = Some c \<and> cl_spec c = cl_spec cl
    \<and> (phase_of cl (A w) < phase_of c (A w') \<or> phase_of cl (A w) = Created \<and> phase_of c (A w') = Created)"
  using one_round [OF assms] by (auto simp: advanced_def stored_cluster_def)

lemma demo_start_stored: "stored_cluster dw_clusters demo_start ''default'' ''c1'' demo_cluster"
  by (simp add: stored_cluster_def demo_start_def demo_put_def demo_cluster_def named_meta_def)

theorem reconcile_advances_witness:
  "\<exists>c. dw_clusters (demo_after 1) ''default'' ''c1'' = Some c \<and> NeedsFinalizer < phase_of c (demo_names (demo_after 1))"
proof -
  have run: "demo_round demo_start = (Inr no_result, demo_after 1)"
    using demo_rounds_run(1) by (simp add: prod_eq_iff)
  have "om_deletion (cl_meta demo_cluster) = None" "phase_of demo_cluster (demo_names demo_start) = NeedsFinalizer"
    by (simp_all add: demo_cluster_def named_meta_def phase_of_def contains_finalizer_def)
  with reconcile_advances [OF demo_laws demo_start_stored _ run [unfolded demo_round_def]]
  show ?thesis by auto
qed

text \<open>C2: Five reconciliations in a row that ask for no retry bring any resource that is not being
  deleted up: its finalizer is set, its template validated, its override written, both applications
  exist and its state says created.\<close>

theorem created_after_five_rounds:
  assumes "rounds r ns name n w w'" "5 \<le> n" "reconciler_laws V A r" "stored_cluster V w ns name cl"
    and "om_deletion (cl_meta cl) = None"
  shows "\<exists>c. V w' ns name = Some c \<and> contains_finalizer (cl_meta c) ClusterFinalizer
    \<and> cst_InnerClusterName (cl_status c) \<noteq> '''' \<and> (cl_Override (cl_spec c) \<noteq> None \<longrightarrow> cst_OverrideSuccessful (cl_status c))
    \<and> arlonAppName name \<in> A w' \<and> name \<in> A w' \<and> cst_State (cl_status c) = ''created''"
proof -
  from rounds_rank [OF assms(1,3,4,5)] obtain c where
    c: "stored_cluster V w' ns name c" "min 5 n \<le> phase_rank (phase_of c (A w'))" by blast
  then have "phase_of c (A w') = Created" using assms(2) by (intro phase_rank_5) simp
  with c(1) show ?thesis
    by (auto simp: phase_of_def stored_cluster_def split: if_splits)
qed

theorem created_after_five_rounds_witness:
  "\<exists>c. dw_clusters (demo_after 5) ''default'' ''c1'' = Some c \<and> cst_State (cl_status c) = ''created''
     \<and> {''c1'', ''c1-arlon''} \<subseteq> demo_names (demo_after 5)"
proof -
  have step: "cluster_Reconcile demo_reconciler ''default'' ''c1'' (demo_after n) = (Inr no_result, demo_after (Suc n))"
    if "n < 5" for n
  proof -
    have "n = 0 \<or> n = 1 \<or> n = 2 \<or> n = 3 \<or> n = 4" using that by arith
    then have "fst (demo_round (demo_after n)) = Inr no_result" using demo_rounds_run by metis
    then show ?thesis by (simp add: prod_eq_iff demo_round_def)
  qed
  have "rounds demo_reconciler ''default'' ''c1'' n (demo_after 0) (demo_after n)" if "n \<le> 5" for n
    using that
  proof (induction n)
    case (Suc n)
    then have "rounds demo_reconciler ''default'' ''c1'' n (demo_after 0) (demo_after n)" by simp
    then show ?case by (rule rounds_more) (rule step, use Suc.prems in simp)
  qed (rule rounds_none)
  from this [of 5] have run: "rounds demo_reconciler ''default'' ''c1'' 5 demo_start (demo_after 5)"
    by (simp only: demo_after.simps(1) order_refl simp_thms)
  have "om_deletion (cl_meta demo_cluster) = None" by (simp add: demo_cluster_def named_meta_def)
  from created_after_five_rounds [OF run order_refl demo_laws demo_start_stored this]
  show ?thesis by (auto simp: arlonAppName_def)
qed

text \<open>C27: When the Arlon application of a cluster is lost while its cluster application exists, no
  reconciliation brings it back: each asks for a retry, creates no application and leaves the resource
  in the same situation.\<close>

theorem lost_arlon_app_not_recreated:
  assumes "reconciler_laws V A r" "stored_cluster V w ns name cl" "om_deletion (cl_meta cl) = None"
    and "ready_for_apps cl" "name \<in> A w" "arlonAppName name \<notin> A w"
    and "cluster_Reconcile r ns name w = (res, w')"
  shows "res \<noteq> Inr no_result \<and> A w' = A w
    \<and> (\<exists>c. stored_cluster V w' ns name c \<and> om_deletion (cl_meta c) = None \<and> ready_for_apps c)"
proof -
  note cl = stored_clusterD [OF assms(2)]
  have fin: "contains_finalizer (cl_meta cl) ClusterFinalizer" using assms(4) by (simp add: ready_for_apps_def)
  have n: "cl_name cl = name" using assms(2) by (simp add: stored_cluster_def)
  have "wp (cluster_Reconcile r ns name) (stuck_post V A (A w) cl) w"
  proof (rule wp_Reconcile [OF assms(1,2)], goal_cases)
    case (1 x w1)
    with cl assms(4) show ?case by (intro stuck_same) simp_all
  next
    case (2 msg w1)
    with cl assms(4) show ?case by (intro stuck_retrying [OF assms(1)]) simp_all
  next
    case (3 appIf w1)
    with cl have "V w1 (cl_ns cl) (cl_name cl) = Some cl" by simp
    from reconcile_up_stuck [OF assms(1) 3(3) this assms(4)] 3 n assms(3,5,6) fin show ?case by simp
  qed
  then have "stuck_post V A (A w) cl res w'" using assms(7) by (rule wpD)
  with assms(2,3) show ?thesis by (auto simp: stuck_post_def stored_cluster_def)
qed

definition demo_lost :: demo_state where
  "demo_lost = (demo_after 5)\<lparr>dw_apps := filter (\<lambda>a. app_name a = ''c1'') (dw_apps (demo_after 5))\<rparr>"

theorem lost_arlon_app_not_recreated_witness:
  "fst (demo_round demo_lost) \<noteq> Inr no_result \<and> demo_names (snd (demo_round demo_lost)) = demo_names demo_lost"
proof -
  obtain res w' where run: "demo_round demo_lost = (res, w')" by fastforce
  let ?c = "the (dw_clusters demo_lost ''default'' ''c1'')"
  have some: "dw_clusters demo_lost ''default'' ''c1'' \<noteq> None" by code_simp
  have name: "cl_name ?c = ''c1''" by code_simp
  have ns: "cl_ns ?c = ''default''" by code_simp
  have del: "om_deletion (cl_meta ?c) = None" by code_simp
  have ready: "ready_for_apps ?c" by code_simp
  have apps: "demo_names demo_lost = {''c1''}" by code_simp
  from some name ns have st: "stored_cluster dw_clusters demo_lost ''default'' ''c1'' ?c"
    by (auto simp: stored_cluster_def)
  have "''c1'' \<in> demo_names demo_lost" "arlonAppName ''c1'' \<notin> demo_names demo_lost"
    by (simp_all add: apps arlonAppName_def)
  from lost_arlon_app_not_recreated [OF demo_laws st del ready this run [unfolded demo_round_def]] run
  show ?thesis by simp
qed

text \<open>C28: A cluster resource without annotations makes the controller drop every annotation of its cluster
  application, and then the override cannot be deleted any more: without the address of the repository
  the lookup of its credentials fails, unless a repository with an empty address is registered.\<close>

theorem unannotated_cluster_loses_override:
  assumes "om_annotations (cl_meta cl) = None"
    and "api_list (kube_Secrets kc) ns ''argocd.argoproj.io/secret-type=repository'' w = (Inr secrs, w1)"
    and "list_all (\<lambda>s. mget (secr_data s) ''url'' \<noteq> '''') secrs"
  shows "\<exists>app. synced_app cl (constructClusterApp ns n b u rv p True) = Some app
    \<and> mget (om_annotations (app_meta app)) baseClusterRepoUrlAnnotation = ''''
    \<and> DeleteOverridesDir env app kc ns n w = (Inl (Err (ErrorCtx ''failed to get repo credentials: ''
        (ErrorText ''did not find argocd repository matching  (did you register it?)''))), w1)"
proof -
  have "find_creds '''' secrs = None" using assms(3) by (induction secrs) auto
  with assms(1,2) show ?thesis
    by (simp add: synced_app_def constructClusterApp_def mlit_def Let_def DeleteOverridesDir_def
        GetRepoCredsFromArgoCd_def must_def attempt_def fail_def)
qed

theorem unannotated_cluster_loses_override_witness:
  "\<exists>app. synced_app demo_cluster (constructClusterApp ''argocd'' ''c1'' ''capi'' ''https://git/t'' ''main'' ''overrides'' True) = Some app
     \<and> om_annotations (app_meta app) = None"
proof -
  let ?kc = "\<lparr>kube_ConfigMaps = absent_api, kube_Secrets = absent_api\<lparr>api_list := (\<lambda>_ _. ret [])\<rparr>\<rparr> :: demo_state kube_client"
  have "om_annotations (cl_meta demo_cluster) = None" by (simp add: demo_cluster_def named_meta_def)
  moreover have "api_list (kube_Secrets ?kc) ''argocd'' ''argocd.argoproj.io/secret-type=repository'' demo_start
      = (Inr [], demo_start)"
    by (simp add: ret_def)
  moreover have "list_all (\<lambda>s. mget (secr_data s) ''url'' \<noteq> '''') []" by simp
  ultimately have "\<exists>app. synced_app demo_cluster (constructClusterApp ''argocd'' ''c1'' ''capi'' ''https://git/t'' ''main'' ''overrides'' True) = Some app
      \<and> mget (om_annotations (app_meta app)) baseClusterRepoUrlAnnotation = ''''
      \<and> DeleteOverridesDir demo_env app ?kc ''argocd'' ''c1'' demo_start = (Inl (Err (ErrorCtx ''failed to get repo credentials: ''
        (ErrorText ''did not find argocd repository matching  (did you register it?)''))), demo_start)"
    by (rule unannotated_cluster_loses_override)
  then show ?thesis by (auto simp: synced_app_def demo_cluster_def named_meta_def constructClusterApp_def mlit_def)
qed

end
