(* ===== verification/Status.thy ===== *)
theory Status
  imports Api
begin

text \<open>
  The contract the controllers share: writing a state and a message into the status of the resource
  that is being reconciled, and what the API server promises of status updates, patches and reads.
\<close>

section \<open>What the API server promises\<close>

text \<open>
  \<open>V\<close> reads the stored objects of a kind, \<open>rest\<close> everything else; \<open>put c old\<close> is the stored object
  \<open>old\<close> with the status of \<open>c\<close>. A patch replaces the object it was made from; with the last
  finalizer an object whose deletion was requested disappears (\<open>keep\<close>).
\<close>

definition lawful_read ::
  "('w \<Rightarrow> string \<Rightarrow> string \<Rightarrow> 'o option) \<Rightarrow> ('w \<Rightarrow> 'v) \<Rightarrow> ('w, 'o) resource_api \<Rightarrow> bool" where
  "lawful_read V rest api \<longleftrightarrow> (\<forall>ns n w r w'. api_get api ns n w = (r, w') \<longrightarrow> V w' = V w \<and> rest w' = rest w \<and>
     (case r of Inr c \<Rightarrow> V w ns n = Some c | Inl (Err e) \<Rightarrow> IsNotFound e \<longrightarrow> V w ns n = None
      | Inl (Panic s) \<Rightarrow> False))"

definition lawful_status ::
  "('w \<Rightarrow> string \<Rightarrow> string \<Rightarrow> 'o option) \<Rightarrow> ('w \<Rightarrow> 'v) \<Rightarrow> ('o \<Rightarrow> string) \<Rightarrow> ('o \<Rightarrow> 'o \<Rightarrow> 'o) \<Rightarrow>
   ('w, 'o) resource_api \<Rightarrow> bool" where
  "lawful_status V rest key put api \<longleftrightarrow> (\<forall>ns c w r w'. api_update_status api ns c w = (r, w') \<longrightarrow>
     rest w' = rest w \<and>
     (case r of Inr y \<Rightarrow> \<exists>old. V w ns (key c) = Some old \<and> V w' = stored (V w) ns (key c) (Some (put c old))
      | Inl (Err e) \<Rightarrow> V w' = V w \<or>
          (\<exists>old. V w ns (key c) = Some old \<and> V w' = stored (V w) ns (key c) (Some (put c old)))
      | Inl (Panic s) \<Rightarrow> False))"

definition lawful_patch ::
  "('w \<Rightarrow> string \<Rightarrow> string \<Rightarrow> 'o option) \<Rightarrow> ('w \<Rightarrow> 'v) \<Rightarrow> ('o \<Rightarrow> string) \<Rightarrow> ('o \<Rightarrow> 'o option) \<Rightarrow>
   ('w, 'o) resource_api \<Rightarrow> bool" where
  "lawful_patch V rest key keep api \<longleftrightarrow> (\<forall>ns b c w r w'. api_patch api ns b c w = (r, w') \<longrightarrow>
     V w ns (key b) = Some b \<longrightarrow> rest w' = rest w \<and>
     (case r of Inr y \<Rightarrow> V w' = stored (V w) ns (key b) (keep c)
      | Inl (Err e) \<Rightarrow> V w' = V w \<or> V w' = stored (V w) ns (key b) (keep c)
      | Inl (Panic s) \<Rightarrow> False))"

definition kept_unless_done :: "('o \<Rightarrow> object_meta) \<Rightarrow> 'o \<Rightarrow> 'o option" where
  "kept_unless_done meta c =
     (if om_deletion (meta c) \<noteq> None \<and> om_finalizers (meta c) = [] then None else Some c)"

lemma wp_lawful_read:
  assumes "lawful_read V rest api"
    and "\<And>c w'. V w' = V w \<Longrightarrow> rest w' = rest w \<Longrightarrow> V w ns n = Some c \<Longrightarrow> Q (Inr c) w'"
    and "\<And>e w'. V w' = V w \<Longrightarrow> rest w' = rest w \<Longrightarrow> (IsNotFound e \<Longrightarrow> V w ns n = None) \<Longrightarrow> Q (Inl (Err e)) w'"
  shows "wp (api_get api ns n) Q w"
proof (rule wpI)
  fix r w'
  assume "api_get api ns n w = (r, w')"
  note law = assms(1) [unfolded lawful_read_def, rule_format, OF this]
  with assms(2,3) show "Q r w'" by (auto split: sum.splits fault.splits)
qed

lemma wp_lawful_patch:
  assumes "lawful_patch V rest key keep api" "V w ns (key b) = Some b"
    and "\<And>y w'. rest w' = rest w \<Longrightarrow> V w' = stored (V w) ns (key b) (keep c) \<Longrightarrow> Q (Inr y) w'"
    and "\<And>e w'. rest w' = rest w \<Longrightarrow> V w' = V w \<or> V w' = stored (V w) ns (key b) (keep c) \<Longrightarrow> Q (Inl (Err e)) w'"
  shows "wp (api_patch api ns b c) Q w"
proof (rule wpI)
  fix r w'
  assume "api_patch api ns b c w = (r, w')"
  note law = assms(1) [unfolded lawful_patch_def, rule_format, OF this assms(2)]
  with assms(3,4) show "Q r w'" by (auto split: sum.splits fault.splits)
qed

section \<open>Writing the status\<close>

text \<open>
  \<open>view\<close> reads the stored object that is being reconciled, \<open>rest\<close> everything else. On an object that
  is as it is stored (\<open>keyed\<close> says that it is stored under its own name), the operation returns the
  given result with the new status stored, or an error with the old or the new status.
\<close>

locale status_writer =
  fixes view :: "'w \<Rightarrow> 'o option"
    and rest :: "'w \<Rightarrow> 'v"
    and keyed :: "'o \<Rightarrow> bool"
    and lawful :: bool
    and with_state :: "string \<Rightarrow> string \<Rightarrow> 'o \<Rightarrow> 'o"
    and state_of :: "'o \<Rightarrow> string"
    and put_state :: "'o \<Rightarrow> string \<Rightarrow> string \<Rightarrow> ctrl_result \<Rightarrow> ('w, ctrl_result) io"
  assumes writes: "lawful \<Longrightarrow> keyed x \<Longrightarrow> view w = Some x \<Longrightarrow>
      wp (put_state x s m res) (\<lambda>r w'. rest w' = rest w \<and>
        (case r of Inr y \<Rightarrow> y = res \<and> view w' = Some (with_state s m x)
         | Inl (Err e) \<Rightarrow> view w' = Some x \<or> view w' = Some (with_state s m x)
         | Inl (Panic p) \<Rightarrow> False)) w"
    and state_of_with: "state_of (with_state s m x) = s"
    and keyed_with: "keyed x \<Longrightarrow> keyed (with_state s m x)"
begin

lemma wp_write:
  assumes "lawful" "keyed x" "view w = Some x"
    and "\<And>w'. rest w' = rest w \<Longrightarrow> view w' = Some (with_state s m x) \<Longrightarrow> Q (Inr res) w'"
    and "\<And>e w'. rest w' = rest w \<Longrightarrow> view w' = Some x \<or> view w' = Some (with_state s m x) \<Longrightarrow> Q (Inl (Err e)) w'"
  shows "wp (put_state x s m res) Q w"
  by (rule wp_mono [OF writes [OF assms(1-3)]]) (auto split: sum.splits fault.splits intro: assms(4,5))

lemma result: "lawful \<Longrightarrow> keyed x \<Longrightarrow> view w = Some x \<Longrightarrow> put_state x s m res w = (Inr y, w') \<Longrightarrow> y = res"
  by (drule (2) writes [of x w s m res]) (auto dest: wpD)

lemma state_after:
  assumes "lawful" "keyed x" "view w = Some x" "put_state x s m res w = (r, w')"
  shows "\<exists>x'. view w' = Some x' \<and> keyed x' \<and> (state_of x' = s \<or> x' = x) \<and> rest w' = rest w"
proof -
  from writes [OF assms(1-3)] assms(4) have "rest w' = rest w \<and> (case r of
      Inr y \<Rightarrow> y = res \<and> view w' = Some (with_state s m x)
    | Inl (Err e) \<Rightarrow> view w' = Some x \<or> view w' = Some (with_state s m x) | Inl (Panic p) \<Rightarrow> False)"
    by (rule wpD)
  with assms(2) show ?thesis
    by (auto simp: state_of_with keyed_with split: sum.splits fault.splits)
qed

end

section \<open>Calls that change nothing of interest\<close>

text \<open>\<open>silent v m\<close>: the call does not panic and leaves alone what \<open>v\<close> reads.\<close>

definition silent :: "('w \<Rightarrow> 'v) \<Rightarrow> ('w, 'a) io \<Rightarrow> bool" where
  "silent v m \<longleftrightarrow> (\<forall>w r w'. m w = (r, w') \<longrightarrow> v w' = v w \<and> (\<forall>s. r \<noteq> Inl (Panic s)))"

lemma silent_ret [simp]: "silent v (ret x)"
  by (simp add: silent_def ret_def)

lemma silent_lift [simp]: "silent v (lift r)"
  by (simp add: silent_def lift_def ret_def fail_def split: sum.splits)

lemma wp_attempt_silent:
  assumes "silent v m"
    and "\<And>e w'. v w' = v w \<Longrightarrow> m w = (Inl (Err e), w') \<Longrightarrow> wp (h e) Q w'"
    and "\<And>x w'. v w' = v w \<Longrightarrow> m w = (Inr x, w') \<Longrightarrow> wp (k x) Q w'"
  shows "wp (attempt m h k) Q w"
proof (rule wp_attemptI [where P = "\<lambda>r w'. v w' = v w \<and> m w = (r, w')"])
  show "wp m (\<lambda>r w'. v w' = v w \<and> m w = (r, w')) w"
    using assms(1) by (auto simp: silent_def intro: wpI)
qed (use assms in \<open>auto simp: silent_def\<close>)

end
