(* ===== verification/Controllers.thy ===== *)
theory Controllers
  imports Appprofile Status
begin

text \<open>
  The other controllers (\<open>controllers/\<close>): \<open>ClusterRegistration\<close>, which registers a workload cluster
  in ArgoCD; \<open>CallHomeConfig\<close>, which leaves a kubeconfig of the management cluster in the workload
  cluster; and the controllers of application profiles, applications and application sets, which start
  the reconciliation of \<open>Appprofile\<close>.
\<close>

section \<open>What the controllers are given\<close>

record 'w controller_client = "'w ctrl_client" +
  cli_ClusterRegistrations :: "('w, cluster_registration) resource_api"
  cli_CallHomeConfigs :: "('w, call_home_config) resource_api"
  cli_ServiceAccounts :: "('w, object_meta) resource_api"
  cli_Applications :: "('w, application) resource_api"

text \<open>A kubeconfig, as far as the program fills one in.\<close>

record kubeconfig =
  kcf_Clusters :: "(string \<times> (string \<times> string)) list"
  kcf_AuthInfos :: "(string \<times> string) list"
  kcf_Contexts :: "(string \<times> (string \<times> string)) list"
  kcf_CurrentContext :: string

text \<open>
  \<open>clientcmd.RESTConfigFromKubeConfig\<close> and \<open>clientcmd.Write\<close>, \<open>clusterauth.InstallClusterManagerRBAC\<close>,
  which returns a bearer token, and \<open>cmdutil.NewCluster\<close>.
\<close>

record 'w cluster_access =
  RESTConfigFromKubeConfig :: "string \<Rightarrow> go_error + 'w rest_config"
  WriteKubeconfig :: "kubeconfig \<Rightarrow> go_error + string"
  InstallClusterManagerRBAC :: "'w kube_client \<Rightarrow> string \<Rightarrow> ('w, string) io"
  NewCluster :: "string \<Rightarrow> 'w rest_config \<Rightarrow> string \<Rightarrow> argo_cluster"

text \<open>\<open>NewClusterClientOrDie\<close> ends the process with the error.\<close>

definition NewClusterClientOrDie :: "'w argocd_client \<Rightarrow> ('w, 'w cluster_client) io" where
  "NewClusterClientOrDie cli = attempt (argo_NewClusterClient cli) (\<lambda>e. panic (error_string e)) ret"

definition retry_result :: "nat \<Rightarrow> ctrl_result" where
  "retry_result s = \<lparr>res_Requeue = False, res_RequeueAfter = s\<rparr>"

text \<open>The single quote.\<close>

definition sq :: string where
  "sq = [CHR 0x27]"

section \<open>Cluster registrations\<close>

record 'w registration_reconciler =
  crr_Client :: "'w controller_client"
  crr_NewHelper :: "cluster_registration \<Rightarrow> ('w, unit) io"
  crr_ArgocdClient :: "'w argocd_client"
  crr_Access :: "'w cluster_access"

abbreviation cr_name :: "cluster_registration \<Rightarrow> string" where
  "cr_name cr \<equiv> om_name (cr_meta cr)"

abbreviation cr_ns :: "cluster_registration \<Rightarrow> string" where
  "cr_ns cr \<equiv> om_namespace (cr_meta cr)"

definition registration_with_state :: "string \<Rightarrow> string \<Rightarrow> cluster_registration \<Rightarrow> cluster_registration" where
  "registration_with_state state msg cr = cr\<lparr>cr_status := \<lparr>sm_State = state, sm_Message = msg\<rparr>\<rparr>"

definition updateState ::
  "'w registration_reconciler \<Rightarrow> cluster_registration \<Rightarrow> string \<Rightarrow> string \<Rightarrow> ctrl_result \<Rightarrow>
   ('w, ctrl_result) io" where
  "updateState r cr state msg result =
     andThen (api_update_status (cli_ClusterRegistrations (crr_Client r)) (cr_ns cr)
         (registration_with_state state msg cr))
       (\<lambda>_. ret result)"

definition patch_registration ::
  "'w registration_reconciler \<Rightarrow> cluster_registration \<Rightarrow> object_meta \<Rightarrow> ('w, ctrl_result) io" where
  "patch_registration r cr meta =
     andThen (api_patch (cli_ClusterRegistrations (crr_Client r)) (cr_ns cr) cr (cr\<lparr>cr_meta := meta\<rparr>))
       (\<lambda>_. ret no_result)"

text \<open>The cluster is deleted by its name and the server that the lookup found.\<close>

definition registration_reconcileDelete ::
  "'w registration_reconciler \<Rightarrow> cluster_registration \<Rightarrow> ('w, ctrl_result) io" where
  "registration_reconcileDelete r cr =
     andThen (NewClusterClientOrDie (crr_ArgocdClient r)) (\<lambda>clusterIf.
     let name = crs_ClusterName (cr_spec cr);
         finish = patch_registration r cr (remove_finalizer (cr_meta cr) ClusterRegistrationFinalizer) in
     attempt (clIf_Get clusterIf name) (\<lambda>_. finish)
       (\<lambda>clust. attempt (clIf_Delete clusterIf name (acl_Server clust))
          (\<lambda>_. ret (retry_result 10)) (\<lambda>_. finish)))"

text \<open>From the kubeconfig in the secret to the cluster in ArgoCD.\<close>

definition add_cluster ::
  "'w registration_reconciler \<Rightarrow> 'w cluster_client \<Rightarrow> cluster_registration \<Rightarrow> string \<Rightarrow> ('w, ctrl_result) io" where
  "add_cluster r clusterIf cr data =
     attempt (lift (RESTConfigFromKubeConfig (crr_Access r) data))
       (\<lambda>err. updateState r cr ''error'' (''failed to read kubeconfig from secret: '' @ error_string err) no_result)
       (\<lambda>conf.
     attempt (rc_NewForConfig conf)
       (\<lambda>err. updateState r cr ''error'' (''failed to get clientset from config: '' @ error_string err) no_result)
       (\<lambda>clientset.
     attempt (InstallClusterManagerRBAC (crr_Access r) clientset ''kube-system'')
       (\<lambda>err. updateState r cr ''retrying''
          (''failed to install service account in destination cluster: '' @ sq @ error_string err
            @ sq @ '' ... retrying in 10 secs'') (retry_result 10))
       (\<lambda>managerBearerToken.
     let clusterName = (if crs_ClusterName (cr_spec cr) = '''' then cr_name cr else crs_ClusterName (cr_spec cr)) in
     attempt (clIf_Create clusterIf (NewCluster (crr_Access r) clusterName conf managerBearerToken) True)
       (\<lambda>err. updateState r cr ''retrying''
          (''failed to add cluster to argocd: '' @ sq @ error_string err @ sq @ '' ... retrying in 10 secs'')
          (retry_result 10))
       (\<lambda>_. updateState r cr ''complete'' ''successfully added cluster to argocd'' no_result))))"

definition register_cluster ::
  "'w registration_reconciler \<Rightarrow> string \<Rightarrow> cluster_registration \<Rightarrow> ('w, ctrl_result) io" where
  "register_cluster r ns cr =
     (let spec = cr_spec cr in
      andThen (NewClusterClientOrDie (crr_ArgocdClient r)) (\<lambda>clusterIf.
      attempt (clIf_Get clusterIf (crs_ClusterName spec))
        (\<lambda>_. attempt (api_get (cli_Secrets (crr_Client r)) ns (crs_KubeconfigSecretName spec))
          (\<lambda>err. if IsNotFound err then
               updateState r cr ''retrying'' (''kubeconfig secret '' @ crs_KubeconfigSecretName spec
                 @ '' does not exist yet, retrying in 10 seconds'') (retry_result 10)
             else updateState r cr ''error'' (''failed to read secret: '' @ error_string err) no_result)
          (\<lambda>secr. case bytes_get (secr_data secr) (crs_KubeconfigSecretKeyName spec) of
             None \<Rightarrow> updateState r cr ''error'' (''secret subkey '' @ crs_KubeconfigSecretKeyName spec
               @ '' does not exist'') no_result
           | Some data \<Rightarrow> add_cluster r clusterIf cr data))
        (\<lambda>_. updateState r cr ''complete''
           (''cluster '' @ crs_ClusterName spec @ '' already exists -- ok'') no_result)))"

definition registration_Reconcile ::
  "'w registration_reconciler \<Rightarrow> string \<Rightarrow> string \<Rightarrow> ('w, ctrl_result) io" where
  "registration_Reconcile r ns name =
     attempt (api_get (cli_ClusterRegistrations (crr_Client r)) ns name)
       (\<lambda>err. if IsNotFound err then ret no_result else ret requeue_result)
       (\<lambda>cr.
     attempt (crr_NewHelper r cr) (\<lambda>_. ret requeue_result) (\<lambda>_.
     if om_deletion (cr_meta cr) \<noteq> None then registration_reconcileDelete r cr
     else if sm_State (cr_status cr) = ''complete'' then ret no_result
     else if sm_State (cr_status cr) = ''error'' then ret no_result
     else if crs_KubeconfigSecretName (cr_spec cr) = '''' \<or> crs_KubeconfigSecretKeyName (cr_spec cr) = '''' then
       updateState r cr ''error'' ''clusterregistration has an invalid spec'' no_result
     else if \<not> contains_finalizer (cr_meta cr) ClusterRegistrationFinalizer then
       patch_registration r cr (add_finalizer (cr_meta cr) ClusterRegistrationFinalizer)
     else register_cluster r ns cr))"

section \<open>Calling home\<close>

record 'w callhome_reconciler =
  chr_Client :: "'w controller_client"
  chr_Access :: "'w cluster_access"

abbreviation ch_ns :: "call_home_config \<Rightarrow> string" where
  "ch_ns c \<equiv> om_namespace (ch_meta c)"

definition callhome_with_state :: "string \<Rightarrow> string \<Rightarrow> call_home_config \<Rightarrow> call_home_config" where
  "callhome_with_state state msg chc = chc\<lparr>ch_status := \<lparr>sm_State = state, sm_Message = msg\<rparr>\<rparr>"

definition updateCallHomeConfigState ::
  "'w callhome_reconciler \<Rightarrow> call_home_config \<Rightarrow> string \<Rightarrow> string \<Rightarrow> ctrl_result \<Rightarrow> ('w, ctrl_result) io"
where
  "updateCallHomeConfigState r chc state msg result =
     (if sm_State (ch_status chc) = state \<and> sm_Message (ch_status chc) = msg then ret result
      else andThen (api_update_status (cli_CallHomeConfigs (chr_Client r)) (ch_ns chc)
             (callhome_with_state state msg chc))
           (\<lambda>_. ret result))"

definition retrySeconds :: nat where
  "retrySeconds = 10"

definition retryLater ::
  "'w callhome_reconciler \<Rightarrow> call_home_config \<Rightarrow> string \<Rightarrow> string \<Rightarrow> string \<Rightarrow> ('w, ctrl_result) io" where
  "retryLater r chc resourceType resourceName description =
     updateCallHomeConfigState r chc ''retrying''
       (resourceType @ '' '' @ resourceName @ '' '' @ description @ '', retrying in '' @ Itoa (int retrySeconds)
         @ '' seconds'')
       (retry_result retrySeconds)"

text \<open>The loop that looks for the secret of a service account.\<close>

fun find_token_secret :: "string \<Rightarrow> secret list \<Rightarrow> secret option" where
  "find_token_secret sa [] = None"
| "find_token_secret sa (secr # secrs) =
     (if om_annotations (secr_meta secr) \<noteq> None
         \<and> mget (om_annotations (secr_meta secr)) ''kubernetes.io/service-account.name'' = sa
      then Some secr else find_token_secret sa secrs)"

text \<open>The kubeconfig of the management cluster: one cluster, one user, one context that joins them.\<close>

definition management_kubeconfig :: "string \<Rightarrow> string \<Rightarrow> string \<Rightarrow> kubeconfig" where
  "management_kubeconfig url ca token = \<lparr>kcf_Clusters = [(''management'', (url, ca))],
     kcf_AuthInfos = [(''sa'', token)], kcf_Contexts = [(''management'', (''management'', ''sa''))],
     kcf_CurrentContext = ''management''\<rparr>"

definition target_secret :: "call_home_config_spec \<Rightarrow> string \<Rightarrow> secret" where
  "target_secret spec kubeconfigData =
     \<lparr>secr_meta = named_meta (ch_TargetSecretName spec) '''',
      secr_data = mlit [(ch_TargetSecretKeyName spec, kubeconfigData)]\<rparr>"

definition write_target_secret ::
  "'w callhome_reconciler \<Rightarrow> call_home_config \<Rightarrow> ('w, secret) resource_api \<Rightarrow> secret \<Rightarrow> ('w, ctrl_result) io"
where
  "write_target_secret r chc secretsApi kubeconfigSecret =
     (let spec = ch_spec chc;
          failed = (\<lambda>msg. updateCallHomeConfigState r chc ''error'' msg no_result) in
      if length (mget (secr_data kubeconfigSecret) ''token'') = 0 then
        retryLater r chc ''secret'' (ch_ServiceAccountName spec) ''does not have a token''
      else case bytes_get (secr_data kubeconfigSecret) ''ca.crt'' of
          None \<Rightarrow> failed ''token secret does not have ca.crt''
        | Some ca \<Rightarrow>
            (case bytes_get (secr_data kubeconfigSecret) ''token'' of
               None \<Rightarrow> failed ''token secret does not have token''
             | Some token \<Rightarrow>
                 attempt (lift (WriteKubeconfig (chr_Access r)
                     (management_kubeconfig (ch_ManagementClusterUrl spec) ca token)))
                   (\<lambda>err. failed (''failed to serialize kubeconfig: '' @ error_string err))
                   (\<lambda>kubeconfigData.
                 attempt (api_create secretsApi (ch_TargetNamespace spec) (target_secret spec kubeconfigData))
                   (\<lambda>err. retryLater r chc ''target secret'' (ch_TargetSecretName spec)
                      (''could not be created: '' @ error_string err))
                   (\<lambda>_. updateCallHomeConfigState r chc ''complete'' ''successfully created target secret''
                      no_result))))"

text \<open>Finding the secret with the token of the service account.\<close>

definition find_service_account_token ::
  "'w callhome_reconciler \<Rightarrow> call_home_config \<Rightarrow> string \<Rightarrow> (secret \<Rightarrow> ('w, ctrl_result) io) \<Rightarrow>
   ('w, ctrl_result) io" where
  "find_service_account_token r chc ns k =
     (let sa = ch_ServiceAccountName (ch_spec chc) in
      attempt (api_get (cli_ServiceAccounts (chr_Client r)) ns sa)
        (\<lambda>err. if IsNotFound err then retryLater r chc ''serviceaccount'' sa ''does not exist yet''
           else updateCallHomeConfigState r chc ''error''
             (''unexpected error getting service account: '' @ error_string err) no_result)
        (\<lambda>_. attempt (api_list (cli_Secrets (chr_Client r)) ns '''')
          (\<lambda>_. retryLater r chc ''namespace'' ns ''cannot list secrets'')
          (\<lambda>secrets. if length secrets = 0 then
               retryLater r chc ''secrets'' ns ''no secrets in the namespace''
             else case find_token_secret sa secrets of
                 None \<Rightarrow> retryLater r chc ''secret'' '''' ''containing service account token not found''
               | Some secr \<Rightarrow> k secr)))"

definition callhome_connected ::
  "'w callhome_reconciler \<Rightarrow> call_home_config \<Rightarrow> string \<Rightarrow> 'w kube_client \<Rightarrow> ('w, ctrl_result) io" where
  "callhome_connected r chc ns clientset =
     (let spec = ch_spec chc; secretsApi = kube_Secrets clientset in
      attempt (api_get secretsApi (ch_TargetNamespace spec) (ch_TargetSecretName spec))
        (\<lambda>err. if \<not> IsNotFound err then
             retryLater r chc ''target secret'' (ch_TargetSecretName spec)
               ''could not be queried, workload cluster probably still unavailable''
           else find_service_account_token r chc ns (write_target_secret r chc secretsApi))
        (\<lambda>_. updateCallHomeConfigState r chc ''complete'' ''target secret already exists'' no_result))"

text \<open>Connecting to the workload cluster with the kubeconfig in its secret.\<close>

definition callhome_connect ::
  "'w callhome_reconciler \<Rightarrow> call_home_config \<Rightarrow> string \<Rightarrow> ('w, ctrl_result) io" where
  "callhome_connect r chc ns =
     (let spec = ch_spec chc;
          failed = (\<lambda>msg. updateCallHomeConfigState r chc ''error'' msg no_result) in
      attempt (api_get (cli_Secrets (chr_Client r)) ns (ch_KubeconfigSecretName spec))
        (\<lambda>err. if IsNotFound err then
             retryLater r chc ''kubeconfig secret'' (ch_KubeconfigSecretName spec) ''does not exist yet''
           else failed (''failed to read secret: '' @ error_string err))
        (\<lambda>secr. case bytes_get (secr_data secr) (ch_KubeconfigSecretKeyName spec) of
           None \<Rightarrow> failed (''secret subkey '' @ ch_KubeconfigSecretKeyName spec @ '' does not exist'')
         | Some data \<Rightarrow>
             attempt (lift (RESTConfigFromKubeConfig (chr_Access r) data))
               (\<lambda>err. failed (''failed to read kubeconfig from secret: '' @ error_string err))
               (\<lambda>conf.
             attempt (rc_NewForConfig conf)
               (\<lambda>err. failed (''failed to get clientset from config: '' @ error_string err))
               (callhome_connected r chc ns))))"

definition callhome_Reconcile ::
  "'w callhome_reconciler \<Rightarrow> string \<Rightarrow> string \<Rightarrow> ('w, ctrl_result) io" where
  "callhome_Reconcile r ns name =
     attempt (api_get (cli_CallHomeConfigs (chr_Client r)) ns name)
       (\<lambda>err. if IsNotFound err then ret no_result else ret requeue_result)
       (\<lambda>chc.
     if sm_State (ch_status chc) = ''complete'' then ret no_result
     else if sm_State (ch_status chc) = ''error'' then ret no_result
     else callhome_connect r chc ns)"

section \<open>Controllers that start the reconciliation of application profiles\<close>

definition reconcileApplication ::
  "'w controller_client \<Rightarrow> 'w argocd_client \<Rightarrow> json_decoder \<Rightarrow> (string set \<Rightarrow> string list) \<Rightarrow> string \<Rightarrow> string \<Rightarrow>
   ('w, ctrl_result) io" where
  "reconcileApplication cli argocli unmarshal iter ns name =
     attempt (api_get (cli_Applications cli) ns name)
       (\<lambda>err. if IsNotFound err then ret no_result else ret requeue_result)
       (\<lambda>app. if om_labels (app_meta app) = None \<or> mget (om_labels (app_meta app)) ''arlon-type'' \<noteq> ''cluster-app''
          then ret no_result
          else andThen (ReconcileEverything (ctrl_client.truncate cli) argocli unmarshal iter)
            (\<lambda>_. ret no_result))"

definition reconcileApplicationSet ::
  "'w controller_client \<Rightarrow> 'w argocd_client \<Rightarrow> json_decoder \<Rightarrow> (string set \<Rightarrow> string list) \<Rightarrow> string \<Rightarrow> string \<Rightarrow>
   ('w, ctrl_result) io" where
  "reconcileApplicationSet cli argocli unmarshal iter ns name =
     (let everything = andThen (ReconcileEverything (ctrl_client.truncate cli) argocli unmarshal iter)
            (\<lambda>_. ret no_result) in
      attempt (api_get (cli_ApplicationSets cli) ns name)
        (\<lambda>err. if IsNotFound err then everything else ret requeue_result)
        (\<lambda>app. if om_labels (aps_meta app) = None \<or> mget (om_labels (aps_meta app)) ''arlon-type'' \<noteq> ''application''
           then ret no_result else everything))"

text \<open>The controller of legacy profiles does nothing.\<close>

definition profile_Reconcile :: "('w, ctrl_result) io" where
  "profile_Reconcile = ret no_result"

section \<open>Writing the status of a registration and of a call-home configuration\<close>

definition registration_put :: "cluster_registration \<Rightarrow> cluster_registration \<Rightarrow> cluster_registration" where
  "registration_put c old = old\<lparr>cr_status := cr_status c\<rparr>"

definition callhome_put :: "call_home_config \<Rightarrow> call_home_config \<Rightarrow> call_home_config" where
  "callhome_put c old = old\<lparr>ch_status := ch_status c\<rparr>"

lemma registration_put_state [simp]:
  "registration_put (registration_with_state s m x) x = registration_with_state s m x"
  by (simp add: registration_put_def registration_with_state_def)

lemma callhome_put_state [simp]: "callhome_put (callhome_with_state s m x) x = callhome_with_state s m x"
  by (simp add: callhome_put_def callhome_with_state_def)

lemma wp_status_update:
  assumes "lawful_status V rest key put api" "V w ns (key c) = Some old"
    and "\<And>w'. rest w' = rest w \<Longrightarrow> V w' = stored (V w) ns (key c) (Some (put c old)) \<Longrightarrow> Q (Inr res) w'"
    and "\<And>e w'. rest w' = rest w \<Longrightarrow> V w' = V w \<or> V w' = stored (V w) ns (key c) (Some (put c old)) \<Longrightarrow>
      Q (Inl (Err e)) w'"
  shows "wp (andThen (api_update_status api ns c) (\<lambda>_. ret res)) Q w"
  unfolding wp_andThen wp_ret
proof (rule wpI)
  fix r w'
  assume "api_update_status api ns c w = (r, w')"
  note law = assms(1) [unfolded lawful_status_def, rule_format, OF this]
  with assms(2-4) show "case r of Inl f \<Rightarrow> Q (Inl f) w' | Inr y \<Rightarrow> Q (Inr res) w'"
    by (auto split: sum.splits fault.splits)
qed

interpretation registration_status: status_writer "\<lambda>w. V w ns n" rest "\<lambda>x. cr_ns x = ns \<and> cr_name x = n"
    "lawful_status V rest cr_name registration_put (cli_ClusterRegistrations (crr_Client r))"
    registration_with_state "\<lambda>x. sm_State (cr_status x)" "updateState r" for V rest r ns n
proof (unfold_locales, goal_cases)
  case (1 x w s m res)
  then have "V w (cr_ns x) (cr_name (registration_with_state s m x)) = Some x"
    by (simp add: registration_with_state_def)
  then have *: "V w (cr_ns (registration_with_state s m x)) (cr_name (registration_with_state s m x)) = Some x"
    by (simp add: registration_with_state_def)
  have ns: "cr_ns (registration_with_state s m x) = ns" "cr_name (registration_with_state s m x) = n"
    using 1 by (simp_all add: registration_with_state_def)
  have "wp (updateState r x s m res) (\<lambda>r w'. rest w' = rest w \<and> (case r of
        Inr y \<Rightarrow> y = res \<and> V w' ns n = Some (registration_with_state s m x)
      | Inl (Err e) \<Rightarrow> V w' ns n = Some x \<or> V w' ns n = Some (registration_with_state s m x)
      | Inl (Panic p) \<Rightarrow> False)) w"
    unfolding updateState_def
    by (rule wp_status_update [OF 1(1)]) (use 1 * ns in auto)
  then show ?case .
qed (simp_all add: registration_with_state_def)

interpretation callhome_status: status_writer "\<lambda>w. V w ns n" rest
    "\<lambda>x. ch_ns x = ns \<and> om_name (ch_meta x) = n"
    "lawful_status V rest (\<lambda>c. om_name (ch_meta c)) callhome_put (cli_CallHomeConfigs (chr_Client r))"
    callhome_with_state "\<lambda>x. sm_State (ch_status x)" "updateCallHomeConfigState r" for V rest r ns n
proof (unfold_locales, goal_cases)
  case (1 x w s m res)
  show ?case
  proof (cases "sm_State (ch_status x) = s \<and> sm_Message (ch_status x) = m")
    case True
    then have "callhome_with_state s m x = x"
      by (cases x; cases "ch_status x") (simp add: callhome_with_state_def)
    with True 1 show ?thesis by (simp add: updateCallHomeConfigState_def wp_ret)
  next
    case False
    have ns: "ch_ns (callhome_with_state s m x) = ns" "om_name (ch_meta (callhome_with_state s m x)) = n"
      using 1 by (simp_all add: callhome_with_state_def)
    have "wp (andThen (api_update_status (cli_CallHomeConfigs (chr_Client r)) (ch_ns x)
          (callhome_with_state s m x)) (\<lambda>_. ret res)) (\<lambda>r w'. rest w' = rest w \<and> (case r of
        Inr y \<Rightarrow> y = res \<and> V w' ns n = Some (callhome_with_state s m x)
      | Inl (Err e) \<Rightarrow> V w' ns n = Some x \<or> V w' ns n = Some (callhome_with_state s m x)
      | Inl (Panic p) \<Rightarrow> False)) w"
      by (rule wp_status_update [OF 1(1)]) (use 1 ns in auto)
    with False show ?thesis by (auto simp: updateCallHomeConfigState_def)
  qed
qed (simp_all add: callhome_with_state_def)

end
