(* ===== verification/Registration_Correct.thy ===== *)
theory Registration_Correct
  imports Controllers
begin

text \<open>
  What the controller of cluster registrations guarantees: a registration that says \<open>complete\<close> has its
  cluster in ArgoCD, \<open>complete\<close> and \<open>error\<close> are final until the deletion is requested, a deleted
  registration takes its cluster with it when ArgoCD finds the cluster; and the cases in which it does
  not, a lookup that fails and a registration that does not name its cluster.
\<close>

section \<open>What the controller relies on\<close>

text \<open>
  \<open>V\<close> reads the stored registrations, \<open>clus\<close> the clusters ArgoCD knows, by their server. A lookup by
  name finds a cluster of that name, creating one writes the entry of its server, and deleting by
  name removes every cluster of the name.
\<close>

type_synonym registry = "string \<Rightarrow> argo_cluster option"

definition registered :: "registry \<Rightarrow> string \<Rightarrow> bool" where
  "registered m n \<longleftrightarrow> (\<exists>s c. m s = Some c \<and> acl_Name c = n)"

definition without_name :: "string \<Rightarrow> registry \<Rightarrow> registry" where
  "without_name n m = (\<lambda>s. case m s of None \<Rightarrow> None | Some c \<Rightarrow> if acl_Name c = n then None else Some c)"

lemma registered_without [simp]: "registered (without_name n m) k \<longleftrightarrow> k \<noteq> n \<and> registered m k"
  by (auto simp: registered_def without_name_def split: option.splits if_splits)

lemma registered_update: "registered (m(s \<mapsto> c)) (acl_Name c)"
  by (auto simp: registered_def)

definition lawful_registry :: "('w \<Rightarrow> 'v) \<Rightarrow> ('w \<Rightarrow> registry) \<Rightarrow> 'w cluster_client \<Rightarrow> bool" where
  "lawful_registry V clus api \<longleftrightarrow>
     (\<forall>n w r w'. clIf_Get api n w = (r, w') \<longrightarrow> V w' = V w \<and> clus w' = clus w \<and>
       (case r of Inr c \<Rightarrow> acl_Name c = n \<and> clus w (acl_Server c) = Some c
        | Inl (Err e) \<Rightarrow> True | Inl (Panic s) \<Rightarrow> False)) \<and>
     (\<forall>c w r w'. clIf_Create api c True w = (r, w') \<longrightarrow> V w' = V w \<and>
       (case r of Inr y \<Rightarrow> clus w' = (clus w)(acl_Server c \<mapsto> c)
        | Inl (Err e) \<Rightarrow> clus w' = clus w \<or> clus w' = (clus w)(acl_Server c \<mapsto> c)
        | Inl (Panic s) \<Rightarrow> False)) \<and>
     (\<forall>n s w r w'. clIf_Delete api n s w = (r, w') \<longrightarrow> n \<noteq> '''' \<longrightarrow> V w' = V w \<and>
       (case r of Inr y \<Rightarrow> clus w' = without_name n (clus w)
        | Inl (Err e) \<Rightarrow> clus w' = clus w \<or> clus w' = without_name n (clus w)
        | Inl (Panic s) \<Rightarrow> False))"

definition registration_laws ::
  "('w \<Rightarrow> string \<Rightarrow> string \<Rightarrow> cluster_registration option) \<Rightarrow> ('w \<Rightarrow> registry) \<Rightarrow>
   'w registration_reconciler \<Rightarrow> bool" where
  "registration_laws V clus r \<longleftrightarrow>
     lawful_read V clus (cli_ClusterRegistrations (crr_Client r)) \<and>
     lawful_status V clus cr_name registration_put (cli_ClusterRegistrations (crr_Client r)) \<and>
     lawful_patch V clus cr_name (kept_unless_done cr_meta) (cli_ClusterRegistrations (crr_Client r)) \<and>
     (\<forall>c. silent (\<lambda>w. (V w, clus w)) (crr_NewHelper r c)) \<and>
     (\<forall>ns n. silent (\<lambda>w. (V w, clus w)) (api_get (cli_Secrets (crr_Client r)) ns n)) \<and>
     (\<forall>data conf. RESTConfigFromKubeConfig (crr_Access r) data = Inr conf \<longrightarrow>
       silent (\<lambda>w. (V w, clus w)) (rc_NewForConfig conf)) \<and>
     (\<forall>cs s. silent (\<lambda>w. (V w, clus w)) (InstallClusterManagerRBAC (crr_Access r) cs s)) \<and>
     (\<forall>n conf t. acl_Name (NewCluster (crr_Access r) n conf t) = n) \<and>
     silent (\<lambda>w. (V w, clus w)) (argo_NewClusterClient (crr_ArgocdClient r)) \<and>
     (\<forall>w api w'. argo_NewClusterClient (crr_ArgocdClient r) w = (Inr api, w') \<longrightarrow> lawful_registry V clus api)"


lemma registration_lawsD:
  assumes "registration_laws V clus r"
  shows "lawful_read V clus (cli_ClusterRegistrations (crr_Client r))"
    and "lawful_status V clus cr_name registration_put (cli_ClusterRegistrations (crr_Client r))"
    and "lawful_patch V clus cr_name (kept_unless_done cr_meta) (cli_ClusterRegistrations (crr_Client r))"
    and "silent (\<lambda>w. (V w, clus w)) (crr_NewHelper r c)"
    and "silent (\<lambda>w. (V w, clus w)) (api_get (cli_Secrets (crr_Client r)) ns n)"
    and "RESTConfigFromKubeConfig (crr_Access r) data = Inr conf \<Longrightarrow>
      silent (\<lambda>w. (V w, clus w)) (rc_NewForConfig conf)"
    and "silent (\<lambda>w. (V w, clus w)) (InstallClusterManagerRBAC (crr_Access r) cs s)"
    and "acl_Name (NewCluster (crr_Access r) n conf t) = n"
    and "silent (\<lambda>w. (V w, clus w)) (argo_NewClusterClient (crr_ArgocdClient r))"
    and "argo_NewClusterClient (crr_ArgocdClient r) w = (Inr api, w') \<Longrightarrow> lawful_registry V clus api"
  using assms unfolding registration_laws_def by (blast | simp)+

lemma wp_registry_Get:
  assumes "lawful_registry V clus api"
    and "\<And>c w'. V w' = V w \<Longrightarrow> clus w' = clus w \<Longrightarrow> acl_Name c = n \<Longrightarrow> clus w (acl_Server c) = Some c \<Longrightarrow> Q (Inr c) w'"
    and "\<And>e w'. V w' = V w \<Longrightarrow> clus w' = clus w \<Longrightarrow> Q (Inl (Err e)) w'"
  shows "wp (clIf_Get api n) Q w"
proof (rule wpI)
  fix r w'
  assume "clIf_Get api n w = (r, w')"
  note law = assms(1) [unfolded lawful_registry_def, THEN conjunct1, rule_format, OF this]
  with assms(2,3) show "Q r w'" by (auto split: sum.splits fault.splits)
qed

lemma wp_registry_Create:
  assumes "lawful_registry V clus api"
    and "\<And>y w'. V w' = V w \<Longrightarrow> clus w' = (clus w)(acl_Server c \<mapsto> c) \<Longrightarrow> Q (Inr y) w'"
    and "\<And>e w'. V w' = V w \<Longrightarrow> Q (Inl (Err e)) w'"
  shows "wp (clIf_Create api c True) Q w"
proof (rule wpI)
  fix r w'
  assume "clIf_Create api c True w = (r, w')"
  note law = assms(1) [unfolded lawful_registry_def, THEN conjunct2, THEN conjunct1, rule_format, OF this]
  with assms(2,3) show "Q r w'" by (auto split: sum.splits fault.splits)
qed

lemma wp_registry_Delete:
  assumes "lawful_registry V clus api" "n \<noteq> ''''"
    and "\<And>y w'. V w' = V w \<Longrightarrow> clus w' = without_name n (clus w) \<Longrightarrow> Q (Inr y) w'"
    and "\<And>e w'. V w' = V w \<Longrightarrow> clus w' = clus w \<or> clus w' = without_name n (clus w) \<Longrightarrow> Q (Inl (Err e)) w'"
  shows "wp (clIf_Delete api n s) Q w"
proof (rule wpI)
  fix r w'
  assume "clIf_Delete api n s w = (r, w')"
  note law = assms(1) [unfolded lawful_registry_def, THEN conjunct2, THEN conjunct2, rule_format, OF this assms(2)]
  with assms(3,4) show "Q r w'" by (auto split: sum.splits fault.splits)
qed

section \<open>Registering\<close>

text \<open>The name under which the controller registers the cluster.\<close>

definition registered_name :: "cluster_registration \<Rightarrow> string" where
  "registered_name cr = (if crs_ClusterName (cr_spec cr) = '''' then cr_name cr else crs_ClusterName (cr_spec cr))"

text \<open>
  ArgoCD knows the cluster of the registration. Only for a registration that leaves the name of the
  cluster empty there are two names to be known by: the lookup asks for the empty one.
\<close>

definition cluster_known :: "registry \<Rightarrow> cluster_registration \<Rightarrow> bool" where
  "cluster_known m cr \<longleftrightarrow> registered m (registered_name cr) \<or> registered m (crs_ClusterName (cr_spec cr))"

lemma cluster_known_named:
  "crs_ClusterName (cr_spec cr) \<noteq> '''' \<Longrightarrow> cluster_known m cr \<longleftrightarrow> registered m (crs_ClusterName (cr_spec cr))"
  by (simp add: cluster_known_def registered_name_def)

text \<open>What a state that the controller writes means, and the result that goes with it.\<close>

definition reg_outcome :: "registry \<Rightarrow> cluster_registration \<Rightarrow> string \<Rightarrow> ctrl_result \<Rightarrow> bool" where
  "reg_outcome m cr s res \<longleftrightarrow>
     s = ''complete'' \<and> res = no_result \<and> cluster_known m cr
     \<or> s = ''error'' \<and> res = no_result \<or> s = ''retrying'' \<and> res = retry_result 10"

definition reg_post ::
  "('w \<Rightarrow> string \<Rightarrow> string \<Rightarrow> cluster_registration option) \<Rightarrow> ('w \<Rightarrow> registry) \<Rightarrow> cluster_registration \<Rightarrow>
   ctrl_result result \<Rightarrow> 'w \<Rightarrow> bool" where
  "reg_post V clus cr r w' \<longleftrightarrow> (case r of
       Inr res \<Rightarrow> \<exists>s m. V w' (cr_ns cr) (cr_name cr) = Some (registration_with_state s m cr) \<and> reg_outcome (clus w') cr s res
     | Inl f \<Rightarrow> V w' (cr_ns cr) (cr_name cr) = Some cr
         \<or> (\<exists>s m res. V w' (cr_ns cr) (cr_name cr) = Some (registration_with_state s m cr)
              \<and> reg_outcome (clus w') cr s res))"

lemma updateState_post:
  assumes "registration_laws V clus r" "V w (cr_ns cr) (cr_name cr) = Some cr" "reg_outcome (clus w) cr s res"
  shows "wp (updateState r cr s m res) (reg_post V clus cr) w"
proof (rule registration_status.wp_write [where V = V and rest = clus and ns = "cr_ns cr" and n = "cr_name cr"])
  show "lawful_status V clus cr_name registration_put (cli_ClusterRegistrations (crr_Client r))"
    by (rule registration_lawsD(2) [OF assms(1)])
  show "V w (cr_ns cr) (cr_name cr) = Some cr" by (rule assms(2))
qed (use assms(3) in \<open>auto simp: reg_post_def\<close>)

lemma add_cluster_post:
  assumes laws: "registration_laws V clus r" and api: "lawful_registry V clus api"
    and st: "V w (cr_ns cr) (cr_name cr) = Some cr"
  shows "wp (add_cluster r api cr data) (reg_post V clus cr) w"
  unfolding add_cluster_def
proof (rule wp_attempt_silent [where v = "\<lambda>w. (V w, clus w)"], goal_cases)
  case (2 e w1)
  with st show ?case by (intro updateState_post [OF laws]) (simp_all add: reg_outcome_def)
next
  case (3 conf w1)
  then have conf: "RESTConfigFromKubeConfig (crr_Access r) data = Inr conf" by (simp add: ok_iff)
  from 3 st have st1: "V w1 (cr_ns cr) (cr_name cr) = Some cr" by simp
  show ?case
  proof (rule wp_attempt_silent [OF registration_lawsD(6) [OF laws conf]], goal_cases)
    case (1 e w2)
    with st1 show ?case by (intro updateState_post [OF laws]) (simp_all add: reg_outcome_def)
  next
    case (2 clientset w2)
    with st1 have st2: "V w2 (cr_ns cr) (cr_name cr) = Some cr" by simp
    show ?case
    proof (rule wp_attempt_silent [OF registration_lawsD(7) [OF laws]], goal_cases)
      case (1 e w3)
      with st2 show ?case by (intro updateState_post [OF laws]) (simp_all add: reg_outcome_def)
    next
      case (2 token w3)
      with st2 have st3: "V w3 (cr_ns cr) (cr_name cr) = Some cr" by simp
      let ?c = "NewCluster (crr_Access r) (registered_name cr) conf token"
      have name: "acl_Name ?c = registered_name cr" by (rule registration_lawsD(8) [OF laws])
      show ?case
        unfolding Let_def registered_name_def [symmetric] wp_attempt
        by (rule wp_registry_Create [OF api])
          (use st3 registered_update [of "clus w3" "acl_Server ?c" ?c] in
            \<open>auto intro!: updateState_post [OF laws] simp: reg_outcome_def cluster_known_def name\<close>)
    qed
  qed
qed simp

text \<open>Getting the cluster client: the process may end here, but nothing has changed.\<close>

lemma wp_cluster_client:
  assumes "registration_laws V clus r"
    and "\<And>api w'. V w' = V w \<Longrightarrow> clus w' = clus w \<Longrightarrow> lawful_registry V clus api \<Longrightarrow>
      argo_NewClusterClient (crr_ArgocdClient r) w = (Inr api, w') \<Longrightarrow> wp (k api) Q w'"
    and "\<And>s w'. V w' = V w \<Longrightarrow> clus w' = clus w \<Longrightarrow> Q (Inl (Panic s)) w'"
  shows "wp (andThen (NewClusterClientOrDie (crr_ArgocdClient r)) k) Q w"
  unfolding wp_andThen NewClusterClientOrDie_def
  by (rule wp_attempt_silent [OF registration_lawsD(9) [OF assms(1)]])
    (use assms(2,3) registration_lawsD(10) [OF assms(1)] in \<open>auto simp: wp_panic wp_ret\<close>)

lemma register_cluster_post:
  assumes laws: "registration_laws V clus r"
    and st: "V w (cr_ns cr) (cr_name cr) = Some cr"
  shows "wp (register_cluster r ns cr) (reg_post V clus cr) w"
  unfolding register_cluster_def Let_def
proof (rule wp_cluster_client [OF laws], goal_cases)
  case (1 api w1)
  with st have st1: "V w1 (cr_ns cr) (cr_name cr) = Some cr" by simp
  show ?case
    unfolding wp_attempt
  proof (rule wp_registry_Get [OF 1(3)], goal_cases)
    case (1 c w2)
    then have "registered (clus w2) (crs_ClusterName (cr_spec cr))" by (auto simp: registered_def)
    then have "reg_outcome (clus w2) cr ''complete'' no_result" by (simp add: reg_outcome_def cluster_known_def)
    with 1 st1 show ?case by (simp add: updateState_post [OF laws])
  next
    case (2 e w2)
    with st1 have st2: "V w2 (cr_ns cr) (cr_name cr) = Some cr" by simp
    have "wp (attempt (api_get (cli_Secrets (crr_Client r)) ns (crs_KubeconfigSecretName (cr_spec cr)))
        (\<lambda>err. if IsNotFound err then
             updateState r cr ''retrying'' (''kubeconfig secret '' @ crs_KubeconfigSecretName (cr_spec cr)
               @ '' does not exist yet, retrying in 10 seconds'') (retry_result 10)
           else updateState r cr ''error'' (''failed to read secret: '' @ error_string err) no_result)
        (\<lambda>secr. case bytes_get (secr_data secr) (crs_KubeconfigSecretKeyName (cr_spec cr)) of
           None \<Rightarrow> updateState r cr ''error'' (''secret subkey '' @ crs_KubeconfigSecretKeyName (cr_spec cr)
             @ '' does not exist'') no_result
         | Some data \<Rightarrow> add_cluster r api cr data)) (reg_post V clus cr) w2"
    proof (rule wp_attempt_silent [OF registration_lawsD(5) [OF laws]], goal_cases)
      case (1 err w3)
      with st2 show ?case by (auto intro!: updateState_post [OF laws] simp: reg_outcome_def)
    next
      case (2 secr w3)
      with st2 have "V w3 (cr_ns cr) (cr_name cr) = Some cr" by simp
      then show ?case
        by (auto intro!: updateState_post [OF laws] add_cluster_post [OF laws \<open>lawful_registry V clus api\<close>]
            simp: reg_outcome_def split: option.split)
    qed
    then show ?case by (simp only: sum.case fault.case wp_attempt)
  qed
qed (use st in \<open>simp add: reg_post_def\<close>)

section \<open>A reconciliation\<close>

definition reg_state :: "cluster_registration \<Rightarrow> string" where
  "reg_state c = sm_State (cr_status c)"

text \<open>How a registration that is not being deleted can look after a reconciliation.\<close>

definition reg_step :: "registry \<Rightarrow> cluster_registration \<Rightarrow> registry \<Rightarrow> cluster_registration \<Rightarrow> bool" where
  "reg_step m c m' c' \<longleftrightarrow> cr_spec c' = cr_spec c \<and> cr_name c' = cr_name c \<and> cr_ns c' = cr_ns c
     \<and> om_deletion (cr_meta c') = om_deletion (cr_meta c) \<and>
     (if reg_state c \<in> {''complete'', ''error''} then c' = c \<and> m' = m
      else reg_state c' = reg_state c \<or> reg_state c' \<in> {''error'', ''retrying''}
        \<or> reg_state c' = ''complete'' \<and> cluster_known m' c')"

definition reg_after ::
  "('w \<Rightarrow> string \<Rightarrow> string \<Rightarrow> cluster_registration option) \<Rightarrow> ('w \<Rightarrow> registry) \<Rightarrow> cluster_registration \<Rightarrow>
   registry \<Rightarrow> ctrl_result result \<Rightarrow> 'w \<Rightarrow> bool" where
  "reg_after V clus cr m r w' \<longleftrightarrow>
     (\<exists>c'. V w' (cr_ns cr) (cr_name cr) = Some c' \<and> reg_step m cr (clus w') c'
        \<and> (r = Inr (retry_result 10) \<longrightarrow> reg_state c' = ''retrying''))"

lemma reg_after_post:
  assumes "reg_post V clus cr r w'" "reg_state cr \<notin> {''complete'', ''error''}"
  shows "reg_after V clus cr m r w'"
proof -
  have "retry_result 10 \<noteq> no_result" by (simp add: retry_result_def no_result_def)
  with assms show ?thesis
    by (auto simp: reg_after_def reg_post_def reg_step_def reg_outcome_def reg_state_def cluster_known_def
        registered_name_def
        registration_with_state_def split: sum.splits)
qed


lemma reg_after_same:
  assumes "V w' (cr_ns cr) (cr_name cr) = Some cr" "clus w' = m" "r \<noteq> Inr (retry_result 10)"
  shows "reg_after V clus cr m r w'"
  using assms by (auto simp: reg_after_def reg_step_def)

lemma registration_Reconcile_live:
  assumes laws: "registration_laws V clus r" and key: "cr_ns cr = ns" "cr_name cr = n"
    and st: "V w ns n = Some cr" and live: "om_deletion (cr_meta cr) = None"
  shows "wp (registration_Reconcile r ns n) (reg_after V clus cr (clus w)) w"
proof -
  have res: "no_result \<noteq> retry_result 10" "requeue_result \<noteq> retry_result 10"
    by (simp_all add: retry_result_def no_result_def requeue_result_def)
  show ?thesis
    unfolding registration_Reconcile_def wp_attempt [of "api_get a b c" for a b c]
  proof (rule wp_lawful_read [OF registration_lawsD(1) [OF laws]], goal_cases)
    case (1 c w1)
    with st have c: "c = cr" and st1: "V w1 (cr_ns cr) (cr_name cr) = Some cr" "clus w1 = clus w"
      by (simp_all add: key)
    show ?case
      unfolding sum.case c
    proof (rule wp_attempt_silent [OF registration_lawsD(4) [OF laws]], goal_cases)
      case (1 e w2)
      with st1 res show ?case by (intro wp_ret [THEN iffD2] reg_after_same) auto
    next
      case (2 u w2)
      with st1 have st2: "V w2 (cr_ns cr) (cr_name cr) = Some cr" "clus w2 = clus w" by simp_all
      let ?p = "cr\<lparr>cr_meta := add_finalizer (cr_meta cr) ClusterRegistrationFinalizer\<rparr>"
      have kept: "kept_unless_done cr_meta ?p = Some ?p" using live by (simp add: kept_unless_done_def)
      note post = wp_mono [OF _ reg_after_post]
      have patch: "wp (patch_registration r cr (add_finalizer (cr_meta cr) ClusterRegistrationFinalizer))
          (reg_after V clus cr (clus w)) w2" if "reg_state cr \<notin> {''complete'', ''error''}"
        unfolding patch_registration_def wp_andThen
      proof (rule wp_lawful_patch [OF registration_lawsD(3) [OF laws] st2(1)], goal_cases)
        case (1 y w3)
        with that res show ?case by (simp add: wp_ret reg_after_def reg_step_def reg_state_def kept)
      next
        case (2 e w3)
        with that st2 show ?case
          by (auto simp: reg_after_def reg_step_def reg_state_def kept)
      qed
      show ?case
        using live st2 res
        by (auto simp: wp_ret reg_state_def reg_outcome_def
            intro!: reg_after_same patch post [OF updateState_post [OF laws]] post [OF register_cluster_post [OF laws]])
    qed
  next
    case (2 e w1)
    with st res show ?case by (auto intro!: reg_after_same simp: wp_ret key)
  qed
qed

section \<open>Any number of reconciliations\<close>

inductive registration_runs :: "'w registration_reconciler \<Rightarrow> string \<Rightarrow> string \<Rightarrow> 'w \<Rightarrow> 'w \<Rightarrow> bool"
  for r ns n where
  runs_none: "registration_runs r ns n w w"
| runs_more: "registration_runs r ns n w w1 \<Longrightarrow> registration_Reconcile r ns n w1 = (res, w2) \<Longrightarrow>
    registration_runs r ns n w w2"

lemma reg_step_refl: "reg_step m c m c"
  by (simp add: reg_step_def)

lemma reg_step_trans:
  "reg_step m0 c0 m1 c1 \<Longrightarrow> reg_step m1 c1 m2 c2 \<Longrightarrow> reg_step m0 c0 m2 c2"
  by (auto simp: reg_step_def split: if_splits)

text \<open>Only the resource under reconciliation is written, so every other one stays under its name.\<close>

definition reg_stored ::
  "('w \<Rightarrow> string \<Rightarrow> string \<Rightarrow> cluster_registration option) \<Rightarrow> 'w \<Rightarrow> string \<Rightarrow> string \<Rightarrow> cluster_registration \<Rightarrow> bool"
where
  "reg_stored V w ns n c \<longleftrightarrow> V w ns n = Some c \<and> cr_ns c = ns \<and> cr_name c = n"

lemma registration_runs_step:
  assumes "registration_runs r ns n w w'" "registration_laws V clus r" "reg_stored V w ns n cr"
    and "om_deletion (cr_meta cr) = None"
  shows "\<exists>c. reg_stored V w' ns n c \<and> om_deletion (cr_meta c) = None \<and> reg_step (clus w) cr (clus w') c"
  using assms(1,3)
proof induction
  case (runs_none w)
  with assms(4) reg_step_refl show ?case by blast
next
  case (runs_more w w1 res w2)
  then obtain c where c: "reg_stored V w1 ns n c" "om_deletion (cr_meta c) = None" "reg_step (clus w) cr (clus w1) c"
    by blast
  have "reg_after V clus c (clus w1) res w2"
    using registration_Reconcile_live [OF assms(2), where cr = c and w = w1 and ns = ns and n = n]
      c runs_more.hyps(2)
    by (auto simp: reg_stored_def dest: wpD)
  then obtain c' where c': "V w2 ns n = Some c'" "reg_step (clus w1) c (clus w2) c'"
    using c(1) by (auto simp: reg_after_def reg_stored_def)
  from c' c have "reg_stored V w2 ns n c'" "om_deletion (cr_meta c') = None"
    by (auto simp: reg_stored_def reg_step_def)
  with reg_step_trans [OF c(3) c'(2)] show ?case by blast
qed

text \<open>C3: However often a registration that was new is reconciled: it keeps its specification, its state is
  one of the documented ones, and when the state is \<open>complete\<close> ArgoCD knows its cluster.\<close>

theorem complete_means_registered:
  assumes "registration_runs r ns n w w'" "registration_laws V clus r" "reg_stored V w ns n cr"
    and "om_deletion (cr_meta cr) = None" "sm_State (cr_status cr) = ''''"
  shows "\<exists>c. V w' ns n = Some c \<and> cr_spec c = cr_spec cr
    \<and> sm_State (cr_status c) \<in> {'''', ''retrying'', ''error'', ''complete''}
    \<and> (sm_State (cr_status c) = ''complete'' \<longrightarrow> cluster_known (clus w') c)"
proof -
  from registration_runs_step [OF assms(1-4)] assms(5) show ?thesis
    by (auto simp: reg_step_def reg_state_def reg_stored_def)
qed

text \<open>C29: As long as its deletion is not requested, a registration that is \<open>complete\<close> or in \<open>error\<close> is
  final: in any number of further reconciliations, whichever of their calls fail, neither the
  registration nor ArgoCD's clusters change. (Once the deletion is requested the state no longer
  matters: the registration is let go as described under Deletion.)\<close>

theorem final_states_are_final:
  assumes "registration_runs r ns n w w'" "registration_laws V clus r" "reg_stored V w ns n cr"
    and "om_deletion (cr_meta cr) = None" "sm_State (cr_status cr) \<in> {''complete'', ''error''}"
  shows "V w' ns n = Some cr \<and> clus w' = clus w"
proof -
  from registration_runs_step [OF assms(1-4)] assms(5) show ?thesis
    by (auto simp: reg_step_def reg_state_def reg_stored_def)
qed

section \<open>Deletion\<close>

text \<open>
  The lookup of the cluster may fail because ArgoCD does not have it or because it could not be asked;
  the controller ignores every failure.
\<close>

definition lookup_failed :: "('w \<Rightarrow> registry) \<Rightarrow> 'w registration_reconciler \<Rightarrow> string \<Rightarrow> 'w \<Rightarrow> bool" where
  "lookup_failed clus r n w \<longleftrightarrow> (\<exists>w0 api w1 e w2. argo_NewClusterClient (crr_ArgocdClient r) w0 = (Inr api, w1)
     \<and> clus w1 = clus w \<and> clIf_Get api n w1 = (Inl (Err e), w2))"

text \<open>A registration is let go either with its cluster, or after a failed lookup, with ArgoCD as it was.\<close>

definition reg_down ::
  "('w \<Rightarrow> string \<Rightarrow> string \<Rightarrow> cluster_registration option) \<Rightarrow> ('w \<Rightarrow> registry) \<Rightarrow> 'w registration_reconciler \<Rightarrow>
   'w \<Rightarrow> cluster_registration \<Rightarrow> 'w \<Rightarrow> bool" where
  "reg_down V clus r w cr w' \<longleftrightarrow>
     (let n = crs_ClusterName (cr_spec cr); removed = (n \<noteq> '''' \<and> clus w' = without_name n (clus w)) in
      (clus w' = clus w \<or> removed) \<and>
      (V w' (cr_ns cr) (cr_name cr) = Some cr \<or> removed \<or> clus w' = clus w \<and> lookup_failed clus r n w))"

lemma wp_patch_registration:
  assumes "registration_laws V clus r" "V w (cr_ns cr) (cr_name cr) = Some cr"
    and "\<And>r w'. clus w' = clus w \<Longrightarrow> (\<And>y. r = Inr y \<Longrightarrow>
      V w' (cr_ns cr) (cr_name cr) = kept_unless_done cr_meta (cr\<lparr>cr_meta := m\<rparr>)) \<Longrightarrow> Q r w'"
  shows "wp (patch_registration r cr m) Q w"
  unfolding patch_registration_def wp_andThen
  by (rule wp_lawful_patch [OF registration_lawsD(3) [OF assms(1)] assms(2)])
    (use assms(3) in \<open>auto simp: wp_ret\<close>)

lemma wp_registry_lookup:
  assumes api: "lawful_registry V clus api"
    and new: "argo_NewClusterClient (crr_ArgocdClient r) w0 = (Inr api, w)"
    and nameless: "\<not> registered (clus w) ''''"
  shows "wp (clIf_Get api n) (\<lambda>res w2. V w2 = V w \<and> clus w2 = clus w \<and> (\<forall>s. res \<noteq> Inl (Panic s))
    \<and> (\<forall>c. res = Inr c \<longrightarrow> n \<noteq> '''') \<and> (\<forall>e. res = Inl (Err e) \<longrightarrow> lookup_failed clus r n w)) w"
proof (rule wpI)
  fix res w2
  assume get: "clIf_Get api n w = (res, w2)"
  note law = api [unfolded lawful_registry_def, THEN conjunct1, rule_format, OF get]
  have "lookup_failed clus r n w" if "res = Inl (Err e)" for e
    using get new that unfolding lookup_failed_def by blast
  moreover have "n \<noteq> ''''" if "res = Inr c" for c
    using law that nameless by (auto simp: registered_def)
  ultimately show "V w2 = V w \<and> clus w2 = clus w \<and> (\<forall>s. res \<noteq> Inl (Panic s))
    \<and> (\<forall>c. res = Inr c \<longrightarrow> n \<noteq> '''') \<and> (\<forall>e. res = Inl (Err e) \<longrightarrow> lookup_failed clus r n w)"
    using law by (auto split: sum.splits fault.splits)
qed

lemma lookup_failed_cong: "clus w1 = clus w \<Longrightarrow> lookup_failed clus r n w1 = lookup_failed clus r n w"
  by (simp add: lookup_failed_def)

lemma registration_delete_post:
  assumes laws: "registration_laws V clus r"
    and st: "V w (cr_ns cr) (cr_name cr) = Some cr" and nameless: "\<not> registered (clus w) ''''"
  shows "wp (registration_reconcileDelete r cr) (\<lambda>res w'. reg_down V clus r w cr w') w"
  unfolding registration_reconcileDelete_def
proof (rule wp_cluster_client [OF laws], goal_cases)
  case (1 api w1)
  let ?n = "crs_ClusterName (cr_spec cr)"
  from 1 st have st1: "V w1 (cr_ns cr) (cr_name cr) = Some cr" "clus w1 = clus w" by simp_all
  show ?case
    unfolding Let_def
  proof (rule wp_attemptI [OF wp_registry_lookup
        [OF \<open>lawful_registry V clus api\<close> \<open>argo_NewClusterClient _ w = _\<close>]], goal_cases)
    case 1
    from nameless st1 show ?case by simp
  next
    case (3 e w2)
    then have "lookup_failed clus r ?n w" using lookup_failed_cong [of clus w1 w r ?n] st1(2) by simp
    with 3 st1 show ?case
      by (intro wp_patch_registration [OF laws]) (auto simp: reg_down_def Let_def)
  next
    case (4 c w2)
    then have n: "?n \<noteq> ''''" and same: "clus w2 = clus w" and st2: "V w2 (cr_ns cr) (cr_name cr) = Some cr"
      using st1 by simp_all
    have down: "reg_down V clus r w cr w'" if "clus w' = without_name ?n (clus w)" for w'
      using that n by (auto simp: reg_down_def Let_def)
    show ?case
      unfolding wp_attempt
    proof (rule wp_registry_Delete [OF \<open>lawful_registry V clus api\<close> n], goal_cases)
      case (1 y w3)
      with st2 have "V w3 (cr_ns cr) (cr_name cr) = Some cr" by simp
      then have "wp (patch_registration r cr (remove_finalizer (cr_meta cr) ClusterRegistrationFinalizer))
          (\<lambda>res w'. reg_down V clus r w cr w') w3"
        by (rule wp_patch_registration [OF laws]) (use 1 same in \<open>auto intro: down\<close>)
      then show ?case by simp
    next
      case (2 e w3)
      with st2 same n show ?case by (auto simp: wp_ret reg_down_def Let_def)
    qed
  qed auto
qed (use st in \<open>simp add: reg_down_def Let_def\<close>)

lemma registration_Reconcile_down:
  assumes laws: "registration_laws V clus r"
    and st: "reg_stored V w ns n cr" and del: "om_deletion (cr_meta cr) \<noteq> None" and nameless: "\<not> registered (clus w) ''''"
  shows "wp (registration_Reconcile r ns n) (\<lambda>res w'. reg_down V clus r w cr w') w"
  unfolding registration_Reconcile_def wp_attempt [of "api_get a b c" for a b c]
proof (rule wp_lawful_read [OF registration_lawsD(1) [OF laws]], goal_cases)
  case (1 c w1)
  with st have c: "c = cr" and st1: "V w1 (cr_ns cr) (cr_name cr) = Some cr" "clus w1 = clus w"
    by (simp_all add: reg_stored_def)
  show ?case
    unfolding sum.case c
  proof (rule wp_attempt_silent [OF registration_lawsD(4) [OF laws]], goal_cases)
    case (1 e w2)
    with st1 show ?case by (simp add: wp_ret reg_down_def Let_def)
  next
    case (2 u w2)
    with st1 have "V w2 (cr_ns cr) (cr_name cr) = Some cr" "clus w2 = clus w" by simp_all
    moreover from this nameless have
      "wp (registration_reconcileDelete r cr) (\<lambda>res w'. reg_down V clus r w2 cr w') w2"
      by (intro registration_delete_post [OF laws]) simp_all
    moreover have "reg_down V clus r w2 cr = reg_down V clus r w cr" if "clus w2 = clus w"
      by (rule ext) (simp add: reg_down_def that lookup_failed_cong [where clus = clus, OF that])
    ultimately show ?case using del by simp
  qed
next
  case (2 e w1)
  with st show ?case by (auto simp: wp_ret reg_down_def reg_stored_def Let_def)
qed

text \<open>C30: A registration whose deletion was requested is let go in one of two ways only: ArgoCD found the
  cluster and every cluster of that name is out of ArgoCD, or the lookup of the cluster reported an
  error, whatever the reason, and ArgoCD keeps all its clusters. In every outcome no cluster of
  another name is touched. (ArgoCD has no clusters with an empty name.)\<close>

theorem deletion_takes_cluster_along:
  assumes "registration_laws V clus r" "reg_stored V w ns n cr"
    and "om_deletion (cr_meta cr) \<noteq> None" "\<not> registered (clus w) ''''"
    and "registration_Reconcile r ns n w = (res, w')"
  shows "(V w' ns n \<noteq> Some cr \<longrightarrow>
      \<not> registered (clus w') (crs_ClusterName (cr_spec cr))
      \<or> clus w' = clus w \<and> lookup_failed clus r (crs_ClusterName (cr_spec cr)) w)
    \<and> (\<forall>k. k \<noteq> crs_ClusterName (cr_spec cr) \<longrightarrow> registered (clus w') k = registered (clus w) k)"
proof -
  have "reg_down V clus r w cr w'"
    using registration_Reconcile_down [OF assms(1,2,3,4)] assms(5) by (rule wpD)
  then have down: "clus w' = clus w \<or> clus w' = without_name (crs_ClusterName (cr_spec cr)) (clus w)"
    "V w' ns n = Some cr \<or> clus w' = without_name (crs_ClusterName (cr_spec cr)) (clus w)
      \<or> clus w' = clus w \<and> lookup_failed clus r (crs_ClusterName (cr_spec cr)) w"
    using assms(2) by (auto simp: reg_down_def reg_stored_def Let_def)
  have gone: "\<not> registered (clus w') k" if "clus w' = without_name k (clus w)" for k
    by (simp add: that)
  show ?thesis using down gone by (metis registered_without)
qed

text \<open>C31: The reconciliation of a deleted registration that does not name its cluster never removes
  anything from ArgoCD: the cluster that was registered under the name of the resource stays.\<close>

theorem unnamed_registration_leaks:
  assumes "registration_laws V clus r" "reg_stored V w ns n cr" "om_deletion (cr_meta cr) \<noteq> None"
    and "crs_ClusterName (cr_spec cr) = ''''" "\<not> registered (clus w) ''''"
    and "registration_Reconcile r ns n w = (res, w')"
  shows "clus w' = clus w \<and> registered_name cr = n"
proof -
  have "reg_down V clus r w cr w'"
    by (rule wpD [OF registration_Reconcile_down [OF assms(1,2,3,5)] assms(6)])
  with assms(2,4) show ?thesis by (simp add: reg_down_def reg_stored_def registered_name_def Let_def)
qed

section \<open>A management cluster in memory\<close>

record reg_world =
  rw_registrations :: "string \<Rightarrow> string \<Rightarrow> cluster_registration option"
  rw_clusters :: "argo_cluster list"

definition cluster_at :: "argo_cluster list \<Rightarrow> registry" where
  "cluster_at cs s = List.find (\<lambda>c. acl_Server c = s) cs"

definition named_cluster :: "string \<Rightarrow> argo_cluster list \<Rightarrow> argo_cluster option" where
  "named_cluster n cs = List.find (\<lambda>c. acl_Name c = n) (map (\<lambda>c. the (cluster_at cs (acl_Server c))) cs)"

definition mem_registry :: "reg_world cluster_client" where
  "mem_registry = \<lparr>
     clIf_Get = (\<lambda>n w. (case named_cluster n (rw_clusters w) of
       None \<Rightarrow> (Inl (Err (GrpcStatus 7 ''permission denied'')), w) | Some c \<Rightarrow> (Inr c, w))),
     clIf_List = (\<lambda>w. (Inr (rw_clusters w), w)),
     clIf_Update = (\<lambda>c _. ret c),
     clIf_Delete = (\<lambda>n _ w. (Inr (), w\<lparr>rw_clusters := filter (\<lambda>c. map_option acl_Name
         (cluster_at (rw_clusters w) (acl_Server c)) \<noteq> Some n) (rw_clusters w)\<rparr>)),
     clIf_Create = (\<lambda>c _ w. (Inr c, w\<lparr>rw_clusters := c # rw_clusters w\<rparr>))\<rparr>"

definition mem_registrations :: "(reg_world, cluster_registration) resource_api" where
  "mem_registrations = absent_api\<lparr>
     api_get := (\<lambda>ns n w. (case rw_registrations w ns n of
        None \<Rightarrow> (Inl (Err (not_found n)), w) | Some c \<Rightarrow> (Inr c, w))),
     api_update_status := (\<lambda>ns c w. (case rw_registrations w ns (cr_name c) of
        None \<Rightarrow> (Inl (Err (not_found (cr_name c))), w)
      | Some old \<Rightarrow> (Inr c, w\<lparr>rw_registrations :=
          stored (rw_registrations w) ns (cr_name c) (Some (registration_put c old))\<rparr>))),
     api_patch := (\<lambda>ns b c w. (Inr (), w\<lparr>rw_registrations :=
        stored (rw_registrations w) ns (cr_name b) (kept_unless_done cr_meta c)\<rparr>))\<rparr>"

definition plain_access :: "'w cluster_access" where
  "plain_access = \<lparr>RESTConfigFromKubeConfig = (\<lambda>data. Inr \<lparr>rc_NewForConfig = ret \<lparr>kube_ConfigMaps = absent_api,
       kube_Secrets = absent_api\<rparr>, rc_NewClient = failing\<rparr>),
     WriteKubeconfig = (\<lambda>kc. Inr ''kubeconfig''),
     InstallClusterManagerRBAC = (\<lambda>_ _. ret ''token''),
     NewCluster = (\<lambda>n conf token. \<lparr>acl_Name = n, acl_Server = ''https://'' @ n, acl_Annotations = None\<rparr>)\<rparr>"

definition reg_reconciler :: "reg_world registration_reconciler" where
  "reg_reconciler = \<lparr>
     crr_Client = \<lparr>cli_Profiles = absent_api, cli_AppProfiles = absent_api, cli_ApplicationSets = absent_api,
       cli_Clusters = absent_api,
       cli_Secrets = absent_api\<lparr>api_get := (\<lambda>ns n. ret \<lparr>secr_meta = named_meta n ns,
         secr_data = mlit [(''value'', ''kubeconfig'')]\<rparr>)\<rparr>,
       cli_ClusterRegistrations = mem_registrations, cli_CallHomeConfigs = absent_api,
       cli_ServiceAccounts = absent_api, cli_Applications = absent_api\<rparr>,
     crr_NewHelper = (\<lambda>_. ret ()),
     crr_ArgocdClient = \<lparr>argo_NewApplicationClient = failing, argo_NewClusterClient = ret mem_registry\<rparr>,
     crr_Access = plain_access\<rparr>"

definition reg_clusters :: "reg_world \<Rightarrow> registry" where
  "reg_clusters w = cluster_at (rw_clusters w)"

lemma cluster_at_server: "cluster_at cs s = Some c \<Longrightarrow> acl_Server c = s"
  unfolding cluster_at_def by (drule find_Some_sat) simp

lemma cluster_at_member:
  assumes "c \<in> set cs"
  obtains d where "cluster_at cs (acl_Server c) = Some d"
  using assms by (cases "cluster_at cs (acl_Server c)") (auto simp: cluster_at_def find_None_iff)

lemma cluster_at_Cons: "cluster_at (c # cs) = (cluster_at cs)(acl_Server c \<mapsto> c)"
  by (auto simp: cluster_at_def)

lemma find_filter_server:
  "List.find (\<lambda>c. acl_Server c = s) (filter (\<lambda>c. Q (acl_Server c)) cs) =
     (if Q s then List.find (\<lambda>c. acl_Server c = s) cs else None)"
  by (induction cs) auto

lemma mem_registry_lawful: "lawful_registry rw_registrations reg_clusters mem_registry"
proof -
  have sat: "acl_Name c = n \<and> cluster_at cs (acl_Server c) = Some c" if "named_cluster n cs = Some c" for n cs c
  proof -
    from that obtain x where x: "x \<in> set cs" "c = the (cluster_at cs (acl_Server x))" and n: "acl_Name c = n"
      unfolding named_cluster_def by (auto dest!: find_Some_sat)
    from x(1) obtain d where d: "cluster_at cs (acl_Server x) = Some d" by (rule cluster_at_member)
    with x(2) n cluster_at_server [OF d] show ?thesis by simp
  qed
  have del: "cluster_at (filter (\<lambda>c. map_option acl_Name (cluster_at cs (acl_Server c)) \<noteq> Some n) cs) = without_name n (cluster_at cs)"
    for cs n
  proof
    fix s
    have "cluster_at (filter (\<lambda>c. map_option acl_Name (cluster_at cs (acl_Server c)) \<noteq> Some n) cs) s =
      (if map_option acl_Name (cluster_at cs s) \<noteq> Some n then cluster_at cs s else None)"
      unfolding cluster_at_def [of "filter P xs" for P xs]
      by (subst find_filter_server [where Q = "\<lambda>s. map_option acl_Name (cluster_at cs s) \<noteq> Some n"])
        (cases "cluster_at cs s"; simp add: cluster_at_def)
    then show "cluster_at (filter (\<lambda>c. map_option acl_Name (cluster_at cs (acl_Server c)) \<noteq> Some n) cs) s
      = without_name n (cluster_at cs) s"
      by (cases "cluster_at cs s") (simp_all add: without_name_def)
  qed
  show ?thesis
    unfolding lawful_registry_def
  proof (intro conjI allI impI, goal_cases)
    case (3 n w r w')
    then show ?case by (auto simp: mem_registry_def reg_clusters_def split: option.splits dest: sat)
  qed (auto simp: mem_registry_def reg_clusters_def cluster_at_Cons del [simplified] split: option.splits)
qed

lemma reg_reconciler_laws: "registration_laws rw_registrations reg_clusters reg_reconciler"
  unfolding registration_laws_def reg_reconciler_def
  by (auto simp: lawful_read_def lawful_status_def lawful_patch_def mem_registrations_def absent_api_def
      not_found_def reg_clusters_def plain_access_def silent_def ret_def
      intro: mem_registry_lawful split: option.splits)


text \<open>The same with an ArgoCD that cannot be asked for a cluster.\<close>

definition unasked_registry :: "reg_world cluster_client" where
  "unasked_registry = mem_registry\<lparr>clIf_Get := (\<lambda>n. fail (GrpcStatus 14 ''unavailable''))\<rparr>"

definition unasked_reconciler :: "reg_world registration_reconciler" where
  "unasked_reconciler = reg_reconciler\<lparr>crr_ArgocdClient :=
     \<lparr>argo_NewApplicationClient = failing, argo_NewClusterClient = ret unasked_registry\<rparr>\<rparr>"

lemma unasked_registry_lawful: "lawful_registry rw_registrations reg_clusters unasked_registry"
  using mem_registry_lawful by (simp add: lawful_registry_def unasked_registry_def fail_def)

lemma unasked_reconciler_laws: "registration_laws rw_registrations reg_clusters unasked_reconciler"
  using reg_reconciler_laws unasked_registry_lawful
  by (simp add: registration_laws_def unasked_reconciler_def silent_def ret_def)

lemma reg_reconciler_finds:
  "lookup_failed reg_clusters reg_reconciler n w \<Longrightarrow> \<not> registered (reg_clusters w) n"
proof -
  have "\<not> registered (cluster_at cs) n" if "named_cluster n cs = None" for cs n
  proof
    assume "registered (cluster_at cs) n"
    then obtain s c where c: "cluster_at cs s = Some c" "acl_Name c = n" by (auto simp: registered_def)
    then have "c \<in> set cs" unfolding cluster_at_def by (auto dest: find_Some_sat)
    with that c cluster_at_server [OF c(1)] show False
      by (auto simp: named_cluster_def find_None_iff)
  qed
  moreover assume failed: "lookup_failed reg_clusters reg_reconciler n w"
  obtain w1 api w0 e w2 where new: "argo_NewClusterClient (crr_ArgocdClient reg_reconciler) w0 = (Inr api, w1)"
    and same: "reg_clusters w1 = reg_clusters w" and get: "clIf_Get api n w1 = (Inl (Err e), w2)"
    using failed unfolding lookup_failed_def by blast
  from new have "api = mem_registry" by (simp add: reg_reconciler_def ret_def)
  with get have "named_cluster n (rw_clusters w1) = None" by (simp add: mem_registry_def split: option.splits)
  moreover from same have "cluster_at (rw_clusters w1) = cluster_at (rw_clusters w)" by (simp add: reg_clusters_def)
  ultimately show "\<not> registered (reg_clusters w) n" unfolding reg_clusters_def by metis
qed

definition new_registration :: "string \<Rightarrow> cluster_registration" where
  "new_registration clusterName = \<lparr>cr_meta = named_meta ''wc1'' ''default'',
     cr_spec = \<lparr>crs_ClusterName = clusterName, crs_KubeconfigSecretName = ''wc1-kubeconfig'',
       crs_KubeconfigSecretKeyName = ''value''\<rparr>,
     cr_status = \<lparr>sm_State = '''', sm_Message = ''''\<rparr>\<rparr>"

definition reg_start :: "cluster_registration \<Rightarrow> argo_cluster list \<Rightarrow> reg_world" where
  "reg_start cr cs = \<lparr>rw_registrations = stored (\<lambda>_ _. None) ''default'' ''wc1'' (Some cr), rw_clusters = cs\<rparr>"

definition reg_round :: "reg_world \<Rightarrow> reg_world" where
  "reg_round w = snd (registration_Reconcile reg_reconciler ''default'' ''wc1'' w)"

definition ending_registration :: "string \<Rightarrow> cluster_registration" where
  "ending_registration clusterName = (let cr = new_registration clusterName in
     cr\<lparr>cr_meta := (add_finalizer (cr_meta cr) ClusterRegistrationFinalizer)
       \<lparr>om_deletion := Some ''2023-01-01T00:00:00Z''\<rparr>\<rparr>)"

definition wc1_cluster :: argo_cluster where
  "wc1_cluster = \<lparr>acl_Name = ''wc1'', acl_Server = ''https://wc1'', acl_Annotations = None\<rparr>"

lemma reg_round_run: "registration_Reconcile reg_reconciler ''default'' ''wc1'' w =
    (fst (registration_Reconcile reg_reconciler ''default'' ''wc1'' w), reg_round w)"
  by (simp add: reg_round_def)

lemma two_reg_rounds: "registration_runs reg_reconciler ''default'' ''wc1'' w (reg_round (reg_round w))"
  by (rule runs_more [OF runs_more [OF runs_none reg_round_run] reg_round_run])

lemma new_registration_stored:
  "reg_stored rw_registrations (reg_start (new_registration n) cs) ''default'' ''wc1'' (new_registration n)"
  by (simp add: reg_stored_def reg_start_def new_registration_def named_meta_def)

lemma ending_registration_stored:
  "reg_stored rw_registrations (reg_start (ending_registration n) cs) ''default'' ''wc1'' (ending_registration n)"
  by (simp add: reg_stored_def reg_start_def ending_registration_def new_registration_def named_meta_def Let_def)

lemma complete_means_registered_witness:
  "\<exists>c. rw_registrations (reg_round (reg_round (reg_start (new_registration ''wc1'') []))) ''default'' ''wc1'' = Some c
     \<and> sm_State (cr_status c) = ''complete''
     \<and> cluster_known (reg_clusters (reg_round (reg_round (reg_start (new_registration ''wc1'') [])))) c"
proof -
  obtain w' where w': "reg_round (reg_round (reg_start (new_registration ''wc1'') [])) = w'" by simp
  have state: "map_option (\<lambda>c. sm_State (cr_status c)) (rw_registrations w' ''default'' ''wc1'') = Some ''complete''"
    unfolding w' [symmetric] by code_simp
  have new: "om_deletion (cr_meta (new_registration ''wc1'')) = None"
    "sm_State (cr_status (new_registration ''wc1'')) = ''''"
    by (simp_all add: new_registration_def named_meta_def)
  from complete_means_registered [OF two_reg_rounds reg_reconciler_laws new_registration_stored [where cs = "[]"] new]
    state
  show ?thesis unfolding w' by auto
qed

lemma final_states_are_final_witness:
  "reg_clusters (reg_round (reg_round (reg_start ((new_registration ''wc1'')\<lparr>cr_status := \<lparr>sm_State = ''error'', sm_Message = ''m''\<rparr>\<rparr>) [])))
     = reg_clusters (reg_start ((new_registration ''wc1'')\<lparr>cr_status := \<lparr>sm_State = ''error'', sm_Message = ''m''\<rparr>\<rparr>) [])"
proof -
  let ?cr = "(new_registration ''wc1'')\<lparr>cr_status := \<lparr>sm_State = ''error'', sm_Message = ''m''\<rparr>\<rparr>"
  have "reg_stored rw_registrations (reg_start ?cr []) ''default'' ''wc1'' ?cr" "om_deletion (cr_meta ?cr) = None"
    "sm_State (cr_status ?cr) \<in> {''complete'', ''error''}"
    by (simp_all add: reg_stored_def reg_start_def new_registration_def named_meta_def)
  from final_states_are_final [OF two_reg_rounds reg_reconciler_laws this] show ?thesis by (rule conjunct2)
qed

text \<open>With a working ArgoCD the cluster goes with its registration; with one that cannot be asked the
  registration goes and the cluster stays.\<close>

lemma deletion_takes_cluster_along_witness:
  "let w0 = reg_start (ending_registration ''wc1'') [wc1_cluster];
       w1 = reg_round w0; w2 = snd (registration_Reconcile unasked_reconciler ''default'' ''wc1'' w0) in
   rw_registrations w1 ''default'' ''wc1'' = None \<and> \<not> registered (reg_clusters w1) ''wc1''
   \<and> rw_registrations w2 ''default'' ''wc1'' = None \<and> registered (reg_clusters w2) ''wc1''"
proof -
  let ?w0 = "reg_start (ending_registration ''wc1'') [wc1_cluster]"
  obtain w1 where w1: "reg_round ?w0 = w1" by simp
  obtain res2 w2 where w2: "registration_Reconcile unasked_reconciler ''default'' ''wc1'' ?w0 = (res2, w2)" by fastforce
  have gone1: "rw_registrations w1 ''default'' ''wc1'' = None" unfolding w1 [symmetric] by code_simp
  have "rw_registrations (snd (registration_Reconcile unasked_reconciler ''default'' ''wc1'' ?w0)) ''default'' ''wc1'' = None
      \<and> map acl_Name (rw_clusters (snd (registration_Reconcile unasked_reconciler ''default'' ''wc1'' ?w0))) = [''wc1'']"
    by code_simp
  then obtain c where gone2: "rw_registrations w2 ''default'' ''wc1'' = None"
    and kept2: "rw_clusters w2 = [c]" "acl_Name c = ''wc1''"
    by (auto simp: w2)
  have stays: "registered (cluster_at [c]) ''wc1''" if "acl_Name c = ''wc1''" for c
    unfolding registered_def by (rule exI [of _ "acl_Server c"]) (simp add: cluster_at_def that)
  have cr: "om_deletion (cr_meta (ending_registration ''wc1'')) \<noteq> None"
    "crs_ClusterName (cr_spec (ending_registration ''wc1'')) = ''wc1''"
    by (simp_all add: ending_registration_def new_registration_def Let_def)
  have start: "reg_clusters ?w0 = cluster_at [wc1_cluster]" by (simp add: reg_clusters_def reg_start_def)
  have nameless: "\<not> registered (reg_clusters ?w0) ''''"
    unfolding start by (auto simp: registered_def cluster_at_def wc1_cluster_def split: if_splits)
  note first = deletion_takes_cluster_along [OF reg_reconciler_laws ending_registration_stored
      cr(1) nameless reg_round_run, unfolded w1 cr(2)]
  have "\<not> lookup_failed reg_clusters reg_reconciler ''wc1'' ?w0"
    using reg_reconciler_finds [of "''wc1''" ?w0] stays [of wc1_cluster]
    unfolding start by (auto simp: wc1_cluster_def)
  with first gone1 have "\<not> registered (reg_clusters w1) ''wc1''" by simp
  moreover from deletion_takes_cluster_along [OF unasked_reconciler_laws ending_registration_stored
      cr(1) nameless w2, unfolded cr(2)]
  have "registered (reg_clusters w2) ''wc1''" using stays [OF kept2(2)] kept2(1) by (simp add: reg_clusters_def)
  ultimately show ?thesis using gone1 gone2 w1 w2 by (simp add: Let_def)
qed

lemma unnamed_registration_leaks_witness:
  "rw_registrations (reg_round (reg_start (ending_registration '''') [wc1_cluster])) ''default'' ''wc1'' = None
   \<and> registered (reg_clusters (reg_round (reg_start (ending_registration '''') [wc1_cluster]))) ''wc1''"
proof -
  obtain w' where w': "reg_round (reg_start (ending_registration '''') [wc1_cluster]) = w'" by simp
  have gone: "rw_registrations w' ''default'' ''wc1'' = None" unfolding w' [symmetric] by code_simp
  have cr: "om_deletion (cr_meta (ending_registration '''')) \<noteq> None"
    "crs_ClusterName (cr_spec (ending_registration '''')) = ''''"
    by (simp_all add: ending_registration_def new_registration_def Let_def)
  have nameless: "\<not> registered (reg_clusters (reg_start (ending_registration '''') [wc1_cluster])) ''''"
    and known: "registered (reg_clusters (reg_start (ending_registration '''') [wc1_cluster])) ''wc1''"
    by (auto simp: registered_def reg_clusters_def reg_start_def cluster_at_def wc1_cluster_def split: if_splits)
  from unnamed_registration_leaks [OF reg_reconciler_laws ending_registration_stored cr nameless reg_round_run]
    gone w' known
  show ?thesis by simp
qed

end
