(* ===== verification/Callhome_Correct.thy ===== *)
theory Callhome_Correct
  imports Controllers
begin

text \<open>
  What the call-home controller guarantees: a configuration that says \<open>complete\<close> has its target secret in
  the workload cluster; the secret it writes is a kubeconfig of the management cluster with the token of
  the service account; and it never touches any other secret, nor a target secret that is there.
\<close>

section \<open>What the controller relies on\<close>

text \<open>
  \<open>V\<close> reads the stored configurations, \<open>S\<close> the secrets of the management cluster and \<open>T\<close> those of the
  workload cluster.
\<close>

type_synonym secret_map = "string \<Rightarrow> string \<Rightarrow> secret option"

definition lawful_target :: "('w \<Rightarrow> 'v) \<Rightarrow> ('w \<Rightarrow> secret_map) \<Rightarrow> ('w, secret) resource_api \<Rightarrow> bool" where
  "lawful_target v T api \<longleftrightarrow> lawful_get T id api \<and> lawful_create T id secr_name api
     \<and> (\<forall>ns n. steady v (api_get api ns n)) \<and> (\<forall>ns s. steady v (api_create api ns s))"

definition callhome_laws ::
  "('w \<Rightarrow> string \<Rightarrow> string \<Rightarrow> call_home_config option) \<Rightarrow> ('w \<Rightarrow> secret_map) \<Rightarrow> ('w \<Rightarrow> secret_map) \<Rightarrow>
   'w callhome_reconciler \<Rightarrow> bool" where
  "callhome_laws V S T r \<longleftrightarrow>
     lawful_read V (\<lambda>w. (S w, T w)) (cli_CallHomeConfigs (chr_Client r)) \<and>
     lawful_status V (\<lambda>w. (S w, T w)) (\<lambda>c. om_name (ch_meta c)) callhome_put (cli_CallHomeConfigs (chr_Client r)) \<and>
     (\<forall>ns n. silent (\<lambda>w. (V w, S w, T w)) (api_get (cli_Secrets (chr_Client r)) ns n)) \<and>
     (\<forall>ns n. silent (\<lambda>w. (V w, S w, T w)) (api_get (cli_ServiceAccounts (chr_Client r)) ns n)) \<and>
     (\<forall>ns. silent (\<lambda>w. (V w, S w, T w)) (api_list (cli_Secrets (chr_Client r)) ns '''')) \<and>
     (\<forall>ns w xs w'. api_list (cli_Secrets (chr_Client r)) ns '''' w = (Inr xs, w') \<longrightarrow>
        (\<forall>x \<in> set xs. \<exists>n. S w ns n = Some x)) \<and>
     (\<forall>data conf. RESTConfigFromKubeConfig (chr_Access r) data = Inr conf \<longrightarrow>
        silent (\<lambda>w. (V w, S w, T w)) (rc_NewForConfig conf) \<and>
        (\<forall>w cs w'. rc_NewForConfig conf w = (Inr cs, w') \<longrightarrow> lawful_target (\<lambda>w. (V w, S w)) T (kube_Secrets cs)))"

lemma callhome_lawsD:
  assumes "callhome_laws V S T r"
  shows "lawful_read V (\<lambda>w. (S w, T w)) (cli_CallHomeConfigs (chr_Client r))"
    and "lawful_status V (\<lambda>w. (S w, T w)) (\<lambda>c. om_name (ch_meta c)) callhome_put (cli_CallHomeConfigs (chr_Client r))"
    and "silent (\<lambda>w. (V w, S w, T w)) (api_get (cli_Secrets (chr_Client r)) ns n)"
    and "silent (\<lambda>w. (V w, S w, T w)) (api_get (cli_ServiceAccounts (chr_Client r)) ns n)"
    and "silent (\<lambda>w. (V w, S w, T w)) (api_list (cli_Secrets (chr_Client r)) ns '''')"
    and "api_list (cli_Secrets (chr_Client r)) ns '''' w = (Inr xs, w') \<Longrightarrow> x \<in> set xs \<Longrightarrow> \<exists>n. S w ns n = Some x"
    and "RESTConfigFromKubeConfig (chr_Access r) data = Inr conf \<Longrightarrow>
      silent (\<lambda>w. (V w, S w, T w)) (rc_NewForConfig conf)"
    and "RESTConfigFromKubeConfig (chr_Access r) data = Inr conf \<Longrightarrow> rc_NewForConfig conf w = (Inr cs, w') \<Longrightarrow>
      lawful_target (\<lambda>w. (V w, S w)) T (kube_Secrets cs)"
  using assms unfolding callhome_laws_def by (blast | simp)+

section \<open>The secret that is written\<close>

text \<open>\<open>token_of\<close>: a secret of the namespace that belongs to the service account and has a token and a
  certificate.\<close>

definition token_of :: "secret_map \<Rightarrow> call_home_config \<Rightarrow> secret \<Rightarrow> string \<Rightarrow> string \<Rightarrow> bool" where
  "token_of m chc secr ca token \<longleftrightarrow> (\<exists>n. m (ch_ns chc) n = Some secr)
     \<and> om_annotations (secr_meta secr) \<noteq> None
     \<and> mget (om_annotations (secr_meta secr)) ''kubernetes.io/service-account.name'' = ch_ServiceAccountName (ch_spec chc)
     \<and> bytes_get (secr_data secr) ''ca.crt'' = Some ca \<and> bytes_get (secr_data secr) ''token'' = Some token \<and> token \<noteq> ''''"

text \<open>Looking for the secret of a service account.\<close>

lemma find_token_secret_find:
  "find_token_secret sa secrs = List.find (\<lambda>s. om_annotations (secr_meta s) \<noteq> None
     \<and> mget (om_annotations (secr_meta s)) ''kubernetes.io/service-account.name'' = sa) secrs"
  by (induction secrs) auto

lemma token_present: "length (mget m k) \<noteq> 0 \<Longrightarrow> \<exists>v. bytes_get m k = Some v \<and> v \<noteq> ''''"
  by (auto simp: mget_bytes_get split: option.splits)

section \<open>A reconciliation\<close>

text \<open>
  What may have happened to the secrets of the workload cluster (\<open>m\<close> before, \<open>m'\<close> after): nothing, or
  the target secret is new and holds a kubeconfig with the token.
\<close>

definition target_written ::
  "'w cluster_access \<Rightarrow> secret_map \<Rightarrow> call_home_config \<Rightarrow> secret_map \<Rightarrow> secret_map \<Rightarrow> bool" where
  "target_written acc sm chc m m' \<longleftrightarrow> (let spec = ch_spec chc in
     m' = m \<or> m (ch_TargetNamespace spec) (ch_TargetSecretName spec) = None \<and>
       (\<exists>secr ca token data. token_of sm chc secr ca token
          \<and> WriteKubeconfig acc (management_kubeconfig (ch_ManagementClusterUrl spec) ca token) = Inr data
          \<and> m' = stored m (ch_TargetNamespace spec) (ch_TargetSecretName spec) (Some (target_secret spec data))))"

definition target_present :: "secret_map \<Rightarrow> call_home_config \<Rightarrow> bool" where
  "target_present m chc \<longleftrightarrow> m (ch_TargetNamespace (ch_spec chc)) (ch_TargetSecretName (ch_spec chc)) \<noteq> None"

abbreviation ch_name :: "call_home_config \<Rightarrow> string" where
  "ch_name c \<equiv> om_name (ch_meta c)"

text \<open>The configuration is as it was, or has one of the three states; \<open>complete\<close> says that the target is there.\<close>

definition ch_step :: "secret_map \<Rightarrow> call_home_config \<Rightarrow> call_home_config \<Rightarrow> bool" where
  "ch_step m' c c' \<longleftrightarrow> c' = c \<or> (\<exists>s msg. c' = callhome_with_state s msg c \<and> s \<in> {''error'', ''retrying'', ''complete''}
     \<and> (s = ''complete'' \<longrightarrow> target_present m' c))"

definition ch_post ::
  "('w \<Rightarrow> string \<Rightarrow> string \<Rightarrow> call_home_config option) \<Rightarrow> ('w \<Rightarrow> secret_map) \<Rightarrow> ('w \<Rightarrow> secret_map) \<Rightarrow>
   'w cluster_access \<Rightarrow> secret_map \<Rightarrow> secret_map \<Rightarrow> call_home_config \<Rightarrow> 'w \<Rightarrow> bool" where
  "ch_post V S T acc sm m chc w' \<longleftrightarrow> S w' = sm \<and> target_written acc sm chc m (T w')
     \<and> (\<exists>c. V w' (ch_ns chc) (ch_name chc) = Some c \<and> ch_step (T w') chc c)"

text \<open>The situation in which the controller writes a state.\<close>

definition ch_mid ::
  "('w \<Rightarrow> string \<Rightarrow> string \<Rightarrow> call_home_config option) \<Rightarrow> ('w \<Rightarrow> secret_map) \<Rightarrow> ('w \<Rightarrow> secret_map) \<Rightarrow>
   'w cluster_access \<Rightarrow> secret_map \<Rightarrow> secret_map \<Rightarrow> call_home_config \<Rightarrow> 'w \<Rightarrow> bool" where
  "ch_mid V S T acc sm m chc w \<longleftrightarrow> S w = sm \<and> target_written acc sm chc m (T w)
     \<and> V w (ch_ns chc) (ch_name chc) = Some chc"

lemma ch_mid_post: "ch_mid V S T acc sm m chc w \<Longrightarrow> ch_post V S T acc sm m chc w"
  by (simp add: ch_mid_def ch_post_def ch_step_def)

lemma ch_mid_same:
  "ch_mid V S T acc sm m chc w \<Longrightarrow> (V w', S w', T w') = (V w, S w, T w) \<Longrightarrow> ch_mid V S T acc sm m chc w'"
  by (simp add: ch_mid_def)

lemma ch_update_post:
  assumes laws: "callhome_laws V S T r" and mid: "ch_mid V S T acc sm m chc w"
    and s: "s = ''error'' \<or> s = ''retrying'' \<or> s = ''complete'' \<and> target_present (T w) chc"
  shows "wp (updateCallHomeConfigState r chc s msg res) (\<lambda>_ w'. ch_post V S T acc sm m chc w') w"
proof (rule callhome_status.wp_write [where V = V and rest = "\<lambda>w. (S w, T w)" and ns = "ch_ns chc" and n = "ch_name chc"])
  show "lawful_status V (\<lambda>w. (S w, T w)) (\<lambda>c. ch_name c) callhome_put (cli_CallHomeConfigs (chr_Client r))"
    by (rule callhome_lawsD(2) [OF laws])
  show "V w (ch_ns chc) (ch_name chc) = Some chc" using mid by (simp add: ch_mid_def)
qed (use mid s in \<open>auto simp: ch_mid_def ch_post_def ch_step_def\<close>)

lemma retryLater_post:
  "callhome_laws V S T r \<Longrightarrow> ch_mid V S T acc sm m chc w \<Longrightarrow>
     wp (retryLater r chc a b c) (\<lambda>_ w'. ch_post V S T acc sm m chc w') w"
  unfolding retryLater_def by (rule ch_update_post) simp_all

lemma wp_target_Create:
  assumes "lawful_target (\<lambda>w. (V w, S w)) T api"
    and same: "\<And>e w'. V w' = V w \<Longrightarrow> S w' = S w \<Longrightarrow> T w' = T w \<Longrightarrow> Q (Inl (Err e)) w'"
    and new: "\<And>r w'. V w' = V w \<Longrightarrow> S w' = S w \<Longrightarrow> T w ns (secr_name s) = None \<Longrightarrow>
      T w' = stored (T w) ns (secr_name s) (Some s) \<Longrightarrow> (\<forall>m. r \<noteq> Inl (Panic m)) \<Longrightarrow> Q r w'"
  shows "wp (api_create api ns s) Q w"
proof -
  have laws: "lawful_create T id secr_name api" "steady (\<lambda>w. (V w, S w)) (api_create api ns s)"
    using assms(1) by (simp_all add: lawful_target_def)
  have frame: "wp (api_create api ns s) (\<lambda>_ w'. (V w', S w') = (V w, S w)) w"
    by (rule wp_steady [OF laws(2)]) simp
  have "wp (api_create api ns s) (\<lambda>r w'. T w' = T w \<and> (\<exists>e. r = Inl (Err e)) \<or>
      T w ns (secr_name s) = None \<and> T w' = stored (T w) ns (secr_name s) (Some s) \<and> (\<forall>m. r \<noteq> Inl (Panic m))) w"
    by (rule wp_api_create [OF laws(1)]) auto
  with frame have "wp (api_create api ns s) (\<lambda>r w'. (V w', S w') = (V w, S w) \<and>
      (T w' = T w \<and> (\<exists>e. r = Inl (Err e)) \<or>
      T w ns (secr_name s) = None \<and> T w' = stored (T w) ns (secr_name s) (Some s) \<and> (\<forall>m. r \<noteq> Inl (Panic m)))) w"
    by (rule wp_conj)
  then show ?thesis by (rule wp_mono) (elim conjE disjE exE, simp_all add: same new)
qed

text \<open>The end of the write: the kubeconfig serialised, the secret created, the state recorded.\<close>

lemma store_kubeconfig_post:
  assumes laws: "callhome_laws V S T r" and mid: "ch_mid V S T (chr_Access r) sm (T w) chc w"
    and api: "lawful_target (\<lambda>w. (V w, S w)) T api" and tok: "token_of sm chc secr ca token"
  defines "spec \<equiv> ch_spec chc"
  shows "wp (attempt (lift (WriteKubeconfig (chr_Access r) (management_kubeconfig (ch_ManagementClusterUrl spec) ca token)))
      (\<lambda>err. updateCallHomeConfigState r chc ''error'' (''failed to serialize kubeconfig: '' @ error_string err) no_result)
      (\<lambda>kubeconfigData.
        attempt (api_create api (ch_TargetNamespace spec) (target_secret spec kubeconfigData))
          (\<lambda>err. retryLater r chc ''target secret'' (ch_TargetSecretName spec) (''could not be created: '' @ error_string err))
          (\<lambda>_. updateCallHomeConfigState r chc ''complete'' ''successfully created target secret'' no_result)))
    (\<lambda>_ w'. ch_post V S T (chr_Access r) sm (T w) chc w') w"
proof (rule wp_attempt_silent [OF silent_lift [where v = "\<lambda>w. (V w, S w, T w)"]], goal_cases)
  case (1 e w1)
  with mid show ?case by (intro ch_update_post [OF laws] ch_mid_same [OF mid]) simp_all
next
  case (2 data w1)
  then have w1: "w1 = w" and data: "WriteKubeconfig (chr_Access r)
      (management_kubeconfig (ch_ManagementClusterUrl spec) ca token) = Inr data" by (simp_all add: ok_iff)
  have name: "secr_name (target_secret spec data) = ch_TargetSecretName spec"
    by (simp add: target_secret_def named_meta_def)
  have after: "ch_mid V S T (chr_Access r) sm (T w) chc w'"
    if "V w' = V w" "S w' = S w" "T w' = T w \<or> T w (ch_TargetNamespace spec) (ch_TargetSecretName spec) = None
      \<and> T w' = stored (T w) (ch_TargetNamespace spec) (ch_TargetSecretName spec) (Some (target_secret spec data))" for w'
    using that mid tok data by (auto simp: ch_mid_def target_written_def Let_def spec_def)
  show ?case
    unfolding w1 wp_attempt
  proof (rule wp_target_Create [OF api], goal_cases)
    case (1 e w')
    then show ?case by (auto intro!: retryLater_post [OF laws] after)
  next
    case (2 res w')
    with after [of w'] have mid': "ch_mid V S T (chr_Access r) sm (T w) chc w'" by (simp add: name)
    have "target_present (T w') chc" using 2(4) name by (simp add: target_present_def spec_def)
    note posts = retryLater_post [OF laws mid'] ch_update_post [OF laws mid'] this
    show ?case
    proof (cases res)
      case (Inl f)
      with 2(5) show ?thesis by (cases f) (simp_all add: posts)
    next
      case (Inr y)
      then show ?thesis by (simp add: posts)
    qed
  qed
qed

lemma write_target_post:
  assumes laws: "callhome_laws V S T r" and mid: "ch_mid V S T (chr_Access r) sm (T w) chc w"
    and api: "lawful_target (\<lambda>w. (V w, S w)) T api"
    and secr: "\<exists>n. sm (ch_ns chc) n = Some secr" "om_annotations (secr_meta secr) \<noteq> None"
      "mget (om_annotations (secr_meta secr)) ''kubernetes.io/service-account.name'' = ch_ServiceAccountName (ch_spec chc)"
  shows "wp (write_target_secret r chc api secr) (\<lambda>_ w'. ch_post V S T (chr_Access r) sm (T w) chc w') w"
proof (cases "length (mget (secr_data secr) ''token'') = 0")
  case True
  with mid show ?thesis by (simp add: write_target_secret_def Let_def retryLater_post [OF laws])
next
  case False
  then obtain token where token: "bytes_get (secr_data secr) ''token'' = Some token" "token \<noteq> ''''"
    using token_present by blast
  show ?thesis
  proof (cases "bytes_get (secr_data secr) ''ca.crt''")
    case None
    with False mid show ?thesis by (simp add: write_target_secret_def Let_def ch_update_post [OF laws])
  next
    case (Some ca)
    with token secr have "token_of sm chc secr ca token" by (simp add: token_of_def)
    from store_kubeconfig_post [OF laws mid api this] False Some token show ?thesis
      by (simp add: write_target_secret_def Let_def)
  qed
qed

lemma find_token_post:
  assumes laws: "callhome_laws V S T r" and mid: "ch_mid V S T acc sm m chc w"
    and k: "\<And>secr w'. ch_mid V S T acc sm m chc w' \<Longrightarrow> (V w', S w', T w') = (V w, S w, T w) \<Longrightarrow>
      \<exists>n. sm (ch_ns chc) n = Some secr \<Longrightarrow> om_annotations (secr_meta secr) \<noteq> None \<Longrightarrow>
      mget (om_annotations (secr_meta secr)) ''kubernetes.io/service-account.name'' = ch_ServiceAccountName (ch_spec chc) \<Longrightarrow>
      wp (k secr) (\<lambda>_ w'. ch_post V S T acc sm m chc w') w'"
  shows "wp (find_service_account_token r chc (ch_ns chc) k) (\<lambda>_ w'. ch_post V S T acc sm m chc w') w"
  unfolding find_service_account_token_def Let_def
proof (rule wp_attempt_silent [OF callhome_lawsD(4) [OF laws]], goal_cases)
  case (1 e w1)
  with mid show ?case
    by (auto intro: retryLater_post [OF laws] ch_update_post [OF laws] ch_mid_same)
next
  case (2 sa w1)
  note mid1 = ch_mid_same [OF mid 2(1)]
  show ?case
  proof (rule wp_attempt_silent [OF callhome_lawsD(5) [OF laws]], goal_cases)
    case (1 e w2)
    show ?case by (rule retryLater_post [OF laws ch_mid_same [OF mid1 1(1)]])
  next
    case (2 secrets w2)
    note mid2 = ch_mid_same [OF mid1 2(1)]
    show ?case
    proof (cases "find_token_secret (ch_ServiceAccountName (ch_spec chc)) secrets")
      case None
      with mid2 show ?thesis by (simp add: retryLater_post [OF laws])
    next
      case (Some secr)
      then have secr: "secr \<in> set secrets" "om_annotations (secr_meta secr) \<noteq> None"
        "mget (om_annotations (secr_meta secr)) ''kubernetes.io/service-account.name'' = ch_ServiceAccountName (ch_spec chc)"
        unfolding find_token_secret_find by (auto dest: find_Some_sat)
      with callhome_lawsD(6) [OF laws 2(2)] mid1 have "\<exists>n. sm (ch_ns chc) n = Some secr" by (simp add: ch_mid_def)
      moreover have "(V w2, S w2, T w2) = (V w, S w, T w)"
        using 2(1) \<open>(V w1, S w1, T w1) = (V w, S w, T w)\<close> by simp
      ultimately have "wp (k secr) (\<lambda>_ w'. ch_post V S T acc sm m chc w') w2"
        by (intro k mid2 secr)
      with Some mid2 show ?thesis by (simp add: retryLater_post [OF laws])
    qed
  qed
qed

lemma callhome_connected_post:
  assumes laws: "callhome_laws V S T r" and mid: "ch_mid V S T (chr_Access r) sm (T w) chc w"
    and api: "lawful_target (\<lambda>w. (V w, S w)) T (kube_Secrets cs)"
  shows "wp (callhome_connected r chc (ch_ns chc) cs) (\<lambda>_ w'. ch_post V S T (chr_Access r) sm (T w) chc w') w"
  unfolding callhome_connected_def Let_def
proof (rule wp_attemptI [OF wp_conj [OF wp_api_get [where v = T and p = id
        and Q = "\<lambda>r w'. (\<forall>s. r \<noteq> Inl (Panic s)) \<and> T w' = T w \<and> (\<forall>y. r = Inr y \<longrightarrow> target_present (T w) chc)"]
      wp_steady [where v = "\<lambda>w. (V w, S w)" and Q = "\<lambda>_ w'. (V w', S w') = (V w, S w)"]]], goal_cases)
  case 1
  show ?case using api by (simp add: lawful_target_def)
next
  case 4
  show ?case using api by (simp add: lawful_target_def)
next
  case (7 e w1)
  then have w1: "(V w1, S w1, T w1) = (V w, S w, T w)" by simp
  note mid1 = ch_mid_same [OF mid w1]
  show ?case
  proof (cases "IsNotFound e")
    case True
    have "wp (find_service_account_token r chc (ch_ns chc) (write_target_secret r chc (kube_Secrets cs)))
        (\<lambda>_ w'. ch_post V S T (chr_Access r) sm (T w) chc w') w1"
    proof (rule find_token_post [OF laws mid1], goal_cases)
      case (1 secr w2)
      with w1 have same: "T w2 = T w" by simp
      show ?case
        by (rule write_target_post [where V = V and S = S and T = T and w = w2, unfolded same, OF laws 1(1) api 1(3,4,5)])
    qed
    with True show ?thesis by simp
  next
    case False
    with mid1 show ?thesis by (simp add: retryLater_post [OF laws])
  qed
next
  case (8 y w1)
  then have "(V w1, S w1, T w1) = (V w, S w, T w)" by simp
  with 8 show ?case by (intro ch_update_post [OF laws ch_mid_same [OF mid]]) simp_all
qed (auto simp: target_present_def)

definition ch_stored ::
  "('w \<Rightarrow> string \<Rightarrow> string \<Rightarrow> call_home_config option) \<Rightarrow> 'w \<Rightarrow> string \<Rightarrow> string \<Rightarrow> call_home_config \<Rightarrow> bool"
where
  "ch_stored V w ns n c \<longleftrightarrow> V w ns n = Some c \<and> ch_ns c = ns \<and> ch_name c = n"

lemma callhome_connect_post:
  assumes laws: "callhome_laws V S T r" and mid: "ch_mid V S T (chr_Access r) sm (T w) chc w"
  shows "wp (callhome_connect r chc (ch_ns chc)) (\<lambda>_ w'. ch_post V S T (chr_Access r) sm (T w) chc w') w"
  unfolding callhome_connect_def Let_def
proof (rule wp_attempt_silent [OF callhome_lawsD(3) [OF laws]], goal_cases)
  case (1 e w1)
  with mid show ?case by (auto intro: retryLater_post [OF laws] ch_update_post [OF laws] ch_mid_same)
next
  case (2 secr w1)
  note mid1 = ch_mid_same [OF mid 2(1)]
  show ?case
  proof (cases "bytes_get (secr_data secr) (ch_KubeconfigSecretKeyName (ch_spec chc))")
    case None
    with mid1 show ?thesis by (simp add: ch_update_post [OF laws])
  next
    case (Some data)
    show ?thesis
      unfolding Some option.case
    proof (rule wp_attempt_silent [OF silent_lift [where v = "\<lambda>w. (V w, S w, T w)"]], goal_cases)
      case (1 e w2)
      show ?case by (rule ch_update_post [OF laws ch_mid_same [OF mid1 1(1)]]) simp
    next
      case (2 conf w2)
      then have conf: "RESTConfigFromKubeConfig (chr_Access r) data = Inr conf" by (simp add: ok_iff)
      note mid2 = ch_mid_same [OF mid1 2(1)]
      show ?case
      proof (rule wp_attempt_silent [OF callhome_lawsD(7) [OF laws conf]], goal_cases)
        case (1 e w3)
        show ?case by (rule ch_update_post [OF laws ch_mid_same [OF mid2 1(1)]]) simp
      next
        case (2 cs w3)
        then have same: "T w3 = T w" using \<open>(V w1, _) = _\<close> \<open>(V w2, _) = _\<close> by simp
        note mid3 = ch_mid_same [OF mid2 2(1)]
        show ?case
          by (rule callhome_connected_post [where V = V and S = S and T = T and w = w3, unfolded same, OF laws mid3 callhome_lawsD(8) [OF laws conf 2(2)]])
      qed
    qed
  qed
qed

lemma callhome_Reconcile_post:
  assumes laws: "callhome_laws V S T r" and st: "ch_stored V w ns n chc"
  shows "wp (callhome_Reconcile r ns n) (\<lambda>_ w'. ch_post V S T (chr_Access r) (S w) (T w) chc w'
      \<and> (sm_State (ch_status chc) \<in> {''complete'', ''error''} \<longrightarrow> V w' ns n = Some chc \<and> T w' = T w)) w"
  unfolding callhome_Reconcile_def wp_attempt [of "api_get a b c" for a b c]
proof (rule wp_lawful_read [OF callhome_lawsD(1) [OF laws]], goal_cases)
  case (1 c w1)
  from st have key: "ch_ns chc = ns" by (simp add: ch_stored_def)
  from 1 st have c: "c = chc" and mid: "ch_mid V S T (chr_Access r) (S w) (T w) chc w1"
    and w1: "V w1 = V w" "T w1 = T w"
    by (simp_all add: ch_stored_def ch_mid_def target_written_def Let_def)
  show ?case
  proof (cases "sm_State (ch_status chc) \<in> {''complete'', ''error''}")
    case True
    with c w1 st ch_mid_post [OF mid] show ?thesis by (auto simp: wp_ret ch_stored_def)
  next
    case False
    from callhome_connect_post [where V = V and S = S and T = T and w = w1, unfolded w1, OF laws mid]
    have "wp (callhome_connect r chc ns) (\<lambda>_ w'. ch_post V S T (chr_Access r) (S w) (T w) chc w') w1"
      unfolding key .
    with False c show ?thesis by simp
  qed
next
  case (2 e w1)
  with st show ?case
    by (auto simp: wp_ret ch_post_def ch_stored_def target_written_def ch_step_def Let_def)
qed

text \<open>C10: A reconciliation of a call-home configuration changes no secret of the management cluster, and in
  the workload cluster at most creates the target secret, which did not exist before and holds the
  printed kubeconfig of the management cluster with the token and certificate of a secret that
  belongs to the service account.\<close>

theorem callhome_writes_only_the_target:
  assumes "callhome_laws V S T r" "ch_stored V w ns n chc" "callhome_Reconcile r ns n w = (res, w')"
  shows "S w' = S w \<and> (T w' = T w \<or> (\<exists>secr ca token data.
      \<not> target_present (T w) chc \<and> token_of (S w) chc secr ca token
      \<and> WriteKubeconfig (chr_Access r) (management_kubeconfig (ch_ManagementClusterUrl (ch_spec chc)) ca token) = Inr data
      \<and> T w' = stored (T w) (ch_TargetNamespace (ch_spec chc)) (ch_TargetSecretName (ch_spec chc))
          (Some (target_secret (ch_spec chc) data))))"
proof -
  from callhome_Reconcile_post [OF assms(1,2)] assms(3)
  have "ch_post V S T (chr_Access r) (S w) (T w) chc w'" by (auto dest: wpD)
  then show ?thesis by (auto simp: ch_post_def target_written_def target_present_def Let_def)
qed

text \<open>C32: A reconciliation keeps the specification of a call-home configuration; the state only becomes
  \<open>error\<close>, \<open>retrying\<close> or \<open>complete\<close>, it becomes \<open>complete\<close> only when the target secret is in the workload
  cluster, and a configuration that is \<open>complete\<close> or in \<open>error\<close> never changes again.\<close>

theorem callhome_complete_means_present:
  assumes "callhome_laws V S T r" "ch_stored V w ns n chc" "callhome_Reconcile r ns n w = (res, w')"
  shows "\<exists>c. ch_stored V w' ns n c \<and> ch_spec c = ch_spec chc
    \<and> (if sm_State (ch_status chc) \<in> {''complete'', ''error''} then c = chc \<and> T w' = T w
       else c = chc \<or> sm_State (ch_status c) \<in> {''error'', ''retrying''}
         \<or> sm_State (ch_status c) = ''complete'' \<and> target_present (T w') c)"
proof -
  from callhome_Reconcile_post [OF assms(1,2)] assms(3)
  have post: "ch_post V S T (chr_Access r) (S w) (T w) chc w'"
    and final: "sm_State (ch_status chc) \<in> {''complete'', ''error''} \<Longrightarrow> V w' ns n = Some chc \<and> T w' = T w"
    by (auto dest: wpD)
  then obtain c where c: "V w' ns n = Some c" "ch_step (T w') chc c"
    using assms(2) by (auto simp: ch_post_def ch_stored_def)
  then have st: "ch_stored V w' ns n c \<and> ch_spec c = ch_spec chc"
    using assms(2) by (auto simp: ch_step_def ch_stored_def callhome_with_state_def)
  have "if sm_State (ch_status chc) \<in> {''complete'', ''error''} then c = chc \<and> T w' = T w
      else c = chc \<or> sm_State (ch_status c) \<in> {''error'', ''retrying''}
        \<or> sm_State (ch_status c) = ''complete'' \<and> target_present (T w') c"
    (is "if ?t then _ else ?e")
  proof (cases ?t)
    case True
    with final [OF True] c(1) show ?thesis by simp
  next
    case False
    from c(2) have ?e
      unfolding ch_step_def
    proof (elim disjE exE conjE)
      fix s msg
      assume s: "c = callhome_with_state s msg chc" "s \<in> {''error'', ''retrying'', ''complete''}"
        "s = ''complete'' \<longrightarrow> target_present (T w') chc"
      then have "sm_State (ch_status c) = s" "target_present (T w') c = target_present (T w') chc"
        by (simp_all add: callhome_with_state_def target_present_def)
      with s(2,3) show ?thesis by (elim insertE emptyE) simp_all
    qed simp
    with False show ?thesis by simp
  qed
  with st show ?thesis by (intro exI [of _ c]) simp
qed

section \<open>A management and a workload cluster in memory\<close>

record ch_world =
  chw_configs :: "string \<Rightarrow> string \<Rightarrow> call_home_config option"
  chw_workload :: "secret store"

definition token_secret :: secret where
  "token_secret = \<lparr>secr_meta = (named_meta ''sa-token'' ''default'')\<lparr>om_annotations :=
       mlit [(''kubernetes.io/service-account.name'', ''caller'')]\<rparr>,
     secr_data = mlit [(''token'', ''t0ken''), (''ca.crt'', ''certificate'')]\<rparr>"

definition management_secrets :: secret_map where
  "management_secrets ns n = (if ns = ''default'' \<and> n = ''sa-token'' then Some token_secret else None)"

definition mem_callhomes :: "(ch_world, call_home_config) resource_api" where
  "mem_callhomes = absent_api\<lparr>
     api_get := (\<lambda>ns n w. (case chw_configs w ns n of
        None \<Rightarrow> (Inl (Err (not_found n)), w) | Some c \<Rightarrow> (Inr c, w))),
     api_update_status := (\<lambda>ns c w. (case chw_configs w ns (om_name (ch_meta c)) of
        None \<Rightarrow> (Inl (Err (not_found (om_name (ch_meta c)))), w)
      | Some old \<Rightarrow> (Inr c, w\<lparr>chw_configs :=
          stored (chw_configs w) ns (om_name (ch_meta c)) (Some (callhome_put c old))\<rparr>)))\<rparr>"

definition mem_workload :: "(ch_world, secret) resource_api" where
  "mem_workload = mem_api chw_workload (\<lambda>s w. w\<lparr>chw_workload := s\<rparr>) secr_name (\<lambda>_ _. True)"

definition ch_reconciler :: "ch_world callhome_reconciler" where
  "ch_reconciler = \<lparr>
     chr_Client = \<lparr>cli_Profiles = absent_api, cli_AppProfiles = absent_api, cli_ApplicationSets = absent_api,
       cli_Clusters = absent_api,
       cli_Secrets = absent_api\<lparr>
         api_get := (\<lambda>ns n. ret \<lparr>secr_meta = named_meta n ns, secr_data = mlit [(''value'', ''kubeconfig'')]\<rparr>),
         api_list := (\<lambda>ns _. ret (if ns = ''default'' then [token_secret] else []))\<rparr>,
       cli_ClusterRegistrations = absent_api, cli_CallHomeConfigs = mem_callhomes,
       cli_ServiceAccounts = absent_api\<lparr>api_get := (\<lambda>ns n. ret (named_meta n ns))\<rparr>,
       cli_Applications = absent_api\<rparr>,
     chr_Access = \<lparr>RESTConfigFromKubeConfig = (\<lambda>data. Inr \<lparr>rc_NewForConfig = ret \<lparr>kube_ConfigMaps = absent_api,
         kube_Secrets = mem_workload\<rparr>, rc_NewClient = failing\<rparr>),
       WriteKubeconfig = (\<lambda>kc. Inr (concat (map snd (kcf_AuthInfos kc)))),
       InstallClusterManagerRBAC = (\<lambda>_ _. failing),
       NewCluster = (\<lambda>n conf token. \<lparr>acl_Name = n, acl_Server = n, acl_Annotations = None\<rparr>)\<rparr>\<rparr>"

definition workload_view :: "ch_world \<Rightarrow> secret_map" where
  "workload_view = store_view chw_workload id"

lemma mem_workload_lawful: "lawful_target (\<lambda>w. (chw_configs w, management_secrets)) workload_view mem_workload"
proof -
  have "steady (\<lambda>w. (chw_configs w, management_secrets)) (api_get mem_workload ns n)"
    "steady (\<lambda>w. (chw_configs w, management_secrets)) (api_create mem_workload ns s)" for ns n s
    by (auto simp: steady_def mem_workload_def mem_api_def split: option.splits)
  then show ?thesis
    by (simp add: lawful_target_def) (simp add: mem_workload_def workload_view_def mem_lawful_get mem_lawful_create)
qed

lemma ch_reconciler_laws: "callhome_laws chw_configs (\<lambda>_. management_secrets) workload_view ch_reconciler"
proof -
  have same: "workload_view (w\<lparr>chw_configs := m\<rparr>) = workload_view w" for w m
    by (simp add: workload_view_def store_view_def)
  have member: "\<exists>n. management_secrets ''default'' n = Some token_secret"
    by (simp add: management_secrets_def)
  show ?thesis
    unfolding callhome_laws_def ch_reconciler_def
    by (auto simp: lawful_read_def lawful_status_def mem_callhomes_def absent_api_def not_found_def
        same silent_def ret_def intro: mem_workload_lawful member split: option.splits if_splits)
qed

definition new_callhome :: call_home_config where
  "new_callhome = \<lparr>ch_meta = named_meta ''home'' ''default'',
     ch_spec = \<lparr>ch_ServiceAccountName = ''caller'', ch_KubeconfigSecretName = ''wc1-kubeconfig'',
       ch_KubeconfigSecretKeyName = ''value'', ch_TargetNamespace = ''kube-system'', ch_TargetSecretName = ''mgmt'',
       ch_TargetSecretKeyName = ''config'', ch_ManagementClusterUrl = ''https://mgmt''\<rparr>,
     ch_status = \<lparr>sm_State = '''', sm_Message = ''''\<rparr>\<rparr>"

definition ch_start :: ch_world where
  "ch_start = \<lparr>chw_configs = stored (\<lambda>_ _. None) ''default'' ''home'' (Some new_callhome), chw_workload = []\<rparr>"

definition ch_done :: ch_world where
  "ch_done = snd (callhome_Reconcile ch_reconciler ''default'' ''home'' ch_start)"

lemma ch_done_run: "callhome_Reconcile ch_reconciler ''default'' ''home'' ch_start =
    (fst (callhome_Reconcile ch_reconciler ''default'' ''home'' ch_start), ch_done)"
  by (simp add: ch_done_def)

lemma new_callhome_stored: "ch_stored chw_configs ch_start ''default'' ''home'' new_callhome"
  by (simp add: ch_stored_def ch_start_def new_callhome_def named_meta_def)

lemma callhome_writes_only_the_target_witness:
  "\<exists>secr ca token data. token_of management_secrets new_callhome secr ca token
     \<and> WriteKubeconfig (chr_Access ch_reconciler)
         (management_kubeconfig (ch_ManagementClusterUrl (ch_spec new_callhome)) ca token) = Inr data
     \<and> workload_view ch_done ''kube-system'' ''mgmt'' = Some (target_secret (ch_spec new_callhome) data)"
proof -
  obtain w' where w': "ch_done = w'" by simp
  have "workload_view w' ''kube-system'' ''mgmt'' \<noteq> None" unfolding w' [symmetric] by code_simp
  moreover have "workload_view ch_start ''kube-system'' ''mgmt'' = None"
    by (simp add: workload_view_def store_view_def ch_start_def)
  ultimately have changed: "workload_view w' \<noteq> workload_view ch_start" by auto
  have names: "ch_TargetNamespace (ch_spec new_callhome) = ''kube-system''" "ch_TargetSecretName (ch_spec new_callhome) = ''mgmt''"
    by (simp_all add: new_callhome_def)
  from callhome_writes_only_the_target [OF ch_reconciler_laws new_callhome_stored ch_done_run] changed
  obtain secr ca token data where
    "token_of management_secrets new_callhome secr ca token"
    "WriteKubeconfig (chr_Access ch_reconciler)
       (management_kubeconfig (ch_ManagementClusterUrl (ch_spec new_callhome)) ca token) = Inr data"
    "workload_view w' = stored (workload_view ch_start) ''kube-system'' ''mgmt'' (Some (target_secret (ch_spec new_callhome) data))"
    unfolding w' names by blast
  then show ?thesis unfolding w' by (intro exI conjI) simp_all
qed

lemma callhome_complete_means_present_witness:
  "\<exists>c. ch_stored chw_configs ch_done ''default'' ''home'' c \<and> sm_State (ch_status c) = ''complete''
     \<and> target_present (workload_view ch_done) c"
proof -
  obtain w' where w': "ch_done = w'" by simp
  have state: "map_option (\<lambda>c. sm_State (ch_status c)) (chw_configs w' ''default'' ''home'') = Some ''complete''"
    unfolding w' [symmetric] by code_simp
  have new: "sm_State (ch_status new_callhome) = ''''" by (simp add: new_callhome_def)
  from callhome_complete_means_present [OF ch_reconciler_laws new_callhome_stored ch_done_run] state new
  show ?thesis unfolding w' by (auto simp: ch_stored_def)
qed

end
