(* ===== verification/Gitrepo.thy ===== *)
theory Gitrepo
  imports Go_Std
begin

text \<open>
  Aliases of git repositories (\<open>pkg/gitrepo\<close>, \<open>cmd/gitrepo\<close>): the configuration file \<open>~/.arlon/repoctx\<close>
  and the commands that register, unregister and look up an alias. The JSON codec, the file system and
  ArgoCD's repository client are parameters; what reading, truncating, seeking and writing do to the
  bytes of a file is stated in \<open>lawful_cfg_file\<close>.
\<close>

section \<open>The configuration\<close>

record repo_ctx =
  rcx_Url :: string
  rcx_Alias :: string

record repo_ctx_cfg =
  rcc_Default :: repo_ctx
  rcc_Repos :: "repo_ctx list"

definition no_repo_ctx :: repo_ctx where
  "no_repo_ctx = \<lparr>rcx_Url = '''', rcx_Alias = ''''\<rparr>"

definition no_cfg :: repo_ctx_cfg where
  "no_cfg = \<lparr>rcc_Default = no_repo_ctx, rcc_Repos = []\<rparr>"

definition repoCtxFile :: string where
  "repoCtxFile = ''repoctx''"

definition arlonCfgDir :: string where
  "arlonCfgDir = ''.arlon''"

definition RepoDefaultCtx :: string where
  "RepoDefaultCtx = ''default''"

definition gitrepo_ErrNotFound :: go_error where
  "gitrepo_ErrNotFound = Sentinel ''gitrepo.ErrNotFound'' (''given alias doesn'' @ [CHR 0x27] @ ''t exist'')"

definition ErrLoadCfgFile :: go_error where
  "ErrLoadCfgFile = Sentinel ''gitrepo.ErrLoadCfgFile'' ''failed to load config file''"

definition ErrOverwriteCfg :: go_error where
  "ErrOverwriteCfg = Sentinel ''gitrepo.ErrOverwriteCfg'' ''cannot overwrite config file''"

text \<open>\<open>fmt.Errorf("%v: %w", e, err)\<close>.\<close>

definition err_after :: "go_error \<Rightarrow> go_error \<Rightarrow> go_error" where
  "err_after e err = ErrorWrap (error_string e @ '': '') err ''''"

section \<open>Files\<close>

record 'w cfg_file =
  fl_ReadAll :: "('w, string) io"
  fl_Truncate :: "nat \<Rightarrow> ('w, unit) io"
  fl_Seek :: "nat \<Rightarrow> ('w, unit) io"
  fl_Write :: "string \<Rightarrow> ('w, unit) io"
  fl_Close :: "('w, unit) io"

record repo_create_request =
  rcr_Repo :: string
  rcr_Username :: string
  rcr_Password :: string

record 'w repo_client =
  rcl_ValidateAccess :: "string \<Rightarrow> string \<Rightarrow> string \<Rightarrow> ('w, unit) io"
  rcl_CreateRepository :: "repo_create_request \<Rightarrow> ('w, string) io"

record 'w gitrepo_env =
  gr_DefaultConfigDir :: "('w, string) io"
  gr_Stat :: "string \<Rightarrow> ('w, unit) io"
  gr_MkdirAll :: "string \<Rightarrow> ('w, unit) io"
  gr_OpenFile :: "string \<Rightarrow> ('w, 'w cfg_file) io"
  gr_Unmarshal :: "string \<Rightarrow> go_error + repo_ctx_cfg"
  gr_MarshalIndent :: "repo_ctx_cfg \<Rightarrow> go_error + string"
  gr_NewRepoClient :: "('w, 'w repo_client) io"
  gr_PromptPassword :: "('w, string) io"

text \<open>\<open>filepath.Dir\<close>: everything up to the last slash, cleaned.\<close>

definition path_Dir :: "string \<Rightarrow> string" where
  "path_Dir p = path_Clean (rev (dropWhile (\<lambda>c. c \<noteq> slash) (rev p)))"

definition GetRepoCfgPath :: "'w gitrepo_env \<Rightarrow> ('w, string) io" where
  "GetRepoCfgPath env = andThen (gr_DefaultConfigDir env) (\<lambda>argoDir.
     ret (path_Join [path_Dir argoDir, arlonCfgDir, repoCtxFile]))"

definition LoadRepoCfg :: "'w gitrepo_env \<Rightarrow> 'w cfg_file \<Rightarrow> ('w, repo_ctx_cfg) io" where
  "LoadRepoCfg env reader = andThen (fl_ReadAll reader) (\<lambda>content.
     if length content = 0 then ret no_cfg else lift (gr_Unmarshal env content))"

fun AliasExists :: "repo_ctx list \<Rightarrow> string \<Rightarrow> bool" where
  "AliasExists [] targetAlias = False"
| "AliasExists (r # rs) targetAlias = (if rcx_Alias r = targetAlias then True else AliasExists rs targetAlias)"

definition TruncateFile :: "'w cfg_file \<Rightarrow> ('w, unit) io" where
  "TruncateFile file = andThen (fl_Truncate file 0) (\<lambda>_. fl_Seek file 0)"

definition StoreRepoCfg :: "'w cfg_file \<Rightarrow> string \<Rightarrow> ('w, unit) io" where
  "StoreRepoCfg writer data = fl_Write writer data"

fun find_alias :: "string \<Rightarrow> repo_ctx list \<Rightarrow> repo_ctx option" where
  "find_alias repoAlias [] = None"
| "find_alias repoAlias (repo # repos) =
     (if rcx_Alias repo \<noteq> repoAlias then find_alias repoAlias repos else Some repo)"

text \<open>What \<open>getAlias\<close> finds in a configuration.\<close>

definition alias_in :: "string \<Rightarrow> repo_ctx_cfg \<Rightarrow> go_error + repo_ctx" where
  "alias_in repoAlias cfg =
     (if repoAlias = RepoDefaultCtx then Inr (rcc_Default cfg)
      else case find_alias repoAlias (rcc_Repos cfg) of
          None \<Rightarrow> Inl gitrepo_ErrNotFound | Some repo \<Rightarrow> Inr repo)"

definition getAlias :: "'w gitrepo_env \<Rightarrow> string \<Rightarrow> 'w cfg_file \<Rightarrow> ('w, repo_ctx) io" where
  "getAlias env repoAlias reader = andThen (LoadRepoCfg env reader) (\<lambda>cfgData. lift (alias_in repoAlias cfgData))"

definition ReadDefaultConfig :: "'w gitrepo_env \<Rightarrow> ('w, 'w cfg_file) io" where
  "ReadDefaultConfig env =
     andThen (GetRepoCfgPath env) (\<lambda>cfgFile.
     let open_it = must (gr_OpenFile env cfgFile) (err_after ErrLoadCfgFile) ret in
     attempt (gr_Stat env cfgFile)
       (\<lambda>_. andThen (gr_MkdirAll env (path_Dir cfgFile)) (\<lambda>_. open_it))
       (\<lambda>_. open_it))"

definition GetRepoUrl :: "'w gitrepo_env \<Rightarrow> string \<Rightarrow> ('w, string) io" where
  "GetRepoUrl env repoAlias =
     andThen (ReadDefaultConfig env) (\<lambda>cfgFile.
     deferring (fl_Close cfgFile)
       (attempt (getAlias env repoAlias cfgFile)
         (\<lambda>err. if \<not> errors_Is err gitrepo_ErrNotFound then fail (err_after gitrepo_ErrNotFound err) else fail err)
         (\<lambda>repoCtx. ret (rcx_Url repoCtx))))"

section \<open>The commands\<close>

text \<open>Writing the configuration back, the end of both commands.\<close>

definition write_back :: "'w gitrepo_env \<Rightarrow> 'w cfg_file \<Rightarrow> repo_ctx_cfg \<Rightarrow> ('w, unit) io" where
  "write_back env file cfg =
     andThen (lift (gr_MarshalIndent env cfg)) (\<lambda>repoData.
     must (TruncateFile file) (err_after ErrOverwriteCfg) (\<lambda>_.
     must (StoreRepoCfg file repoData) (err_after ErrOverwriteCfg) ret))"

text \<open>\<open>errors.CheckError\<close> ends the process with the error.\<close>

definition CheckError :: "('w, 'a) io \<Rightarrow> ('a \<Rightarrow> ('w, 'b) io) \<Rightarrow> ('w, 'b) io" where
  "CheckError m k = attempt m (\<lambda>e. panic (error_string e)) k"

definition added_ctx :: "string \<Rightarrow> string \<Rightarrow> repo_ctx_cfg \<Rightarrow> repo_ctx_cfg" where
  "added_ctx url alias cfg =
     (let repoCtx = \<lparr>rcx_Url = url, rcx_Alias = alias\<rparr>;
          cfg = cfg\<lparr>rcc_Repos := rcc_Repos cfg @ [repoCtx]\<rparr> in
      if alias = RepoDefaultCtx then cfg\<lparr>rcc_Default := repoCtx\<rparr> else cfg)"

definition gitrepo_register ::
  "'w gitrepo_env \<Rightarrow> string \<Rightarrow> string \<Rightarrow> string \<Rightarrow> string \<Rightarrow> ('w, unit) io" where
  "gitrepo_register env repoUrl userName password alias =
     CheckError (gr_NewRepoClient env) (\<lambda>client.
     andThen (if userName \<noteq> '''' \<and> password = '''' then gr_PromptPassword env else ret password) (\<lambda>password.
     andThen (ReadDefaultConfig env) (\<lambda>file.
     deferring (fl_Close file)
       (must (LoadRepoCfg env file) (err_after ErrLoadCfgFile) (\<lambda>repoCtxCfg.
        if AliasExists (rcc_Repos repoCtxCfg) alias then ret ()
        else if rcx_Url (rcc_Default repoCtxCfg) \<noteq> '''' \<and> alias = RepoDefaultCtx then
          fail (ErrorText ''default alias already exists'')
        else
          CheckError (rcl_ValidateAccess client repoUrl userName password) (\<lambda>_.
          CheckError (rcl_CreateRepository client
              \<lparr>rcr_Repo = repoUrl, rcr_Username = userName, rcr_Password = password\<rparr>) (\<lambda>createdRepo.
          write_back env file (added_ctx createdRepo alias repoCtxCfg))))))))"

text \<open>The loop of \<open>unregister\<close>: the first entry with the alias, and the list without it.\<close>

fun remove_alias :: "string \<Rightarrow> repo_ctx list \<Rightarrow> (repo_ctx \<times> repo_ctx list) option" where
  "remove_alias repoAlias [] = None"
| "remove_alias repoAlias (repo # repos) =
     (if rcx_Alias repo \<noteq> repoAlias then
        (case remove_alias repoAlias repos of None \<Rightarrow> None | Some (r, rs) \<Rightarrow> Some (r, repo # rs))
      else Some (repo, repos))"

definition removed_ctx :: "string \<Rightarrow> repo_ctx_cfg \<Rightarrow> repo_ctx_cfg option" where
  "removed_ctx repoAlias cfg =
     (case remove_alias repoAlias (rcc_Repos cfg) of
        None \<Rightarrow> None
      | Some (repo, repos) \<Rightarrow> Some (if rcx_Alias repo = RepoDefaultCtx
          then cfg\<lparr>rcc_Default := no_repo_ctx, rcc_Repos := repos\<rparr> else cfg\<lparr>rcc_Repos := repos\<rparr>))"

definition gitrepo_unregister :: "'w gitrepo_env \<Rightarrow> string \<Rightarrow> ('w, unit) io" where
  "gitrepo_unregister env repoAlias =
     andThen (ReadDefaultConfig env) (\<lambda>file.
     deferring (fl_Close file)
       (must (LoadRepoCfg env file) (err_after ErrLoadCfgFile) (\<lambda>repoCtxCfg.
        if length (rcc_Repos repoCtxCfg) = 0 then ret ()
        else case removed_ctx repoAlias repoCtxCfg of
            None \<Rightarrow> fail gitrepo_ErrNotFound
          | Some cfg \<Rightarrow> write_back env file cfg)))"

section \<open>What the commands rely on\<close>

text \<open>
  \<open>D\<close> reads the bytes of the configuration file, \<open>P\<close> the position of the open handle. Reading starts
  at the position; a write overwrites from the position on, filling a gap with zero bytes.
\<close>

definition zeros :: "nat \<Rightarrow> string" where
  "zeros n = replicate n (CHR 0x00)"

definition write_at :: "nat \<Rightarrow> string \<Rightarrow> string \<Rightarrow> string" where
  "write_at p s c = take p (c @ zeros (p - length c)) @ s @ drop (p + length s) c"

definition lawful_cfg_file :: "('w \<Rightarrow> string option) \<Rightarrow> ('w \<Rightarrow> nat) \<Rightarrow> 'w cfg_file \<Rightarrow> bool" where
  "lawful_cfg_file D P f \<longleftrightarrow>
     (\<forall>w s w' c. fl_ReadAll f w = (Inr s, w') \<longrightarrow> D w = Some c \<longrightarrow> D w' = Some c \<and> s = drop (P w) c) \<and>
     (\<forall>n w u w' c. fl_Truncate f n w = (Inr u, w') \<longrightarrow> D w = Some c \<longrightarrow>
        D w' = Some (take n (c @ zeros (n - length c))) \<and> P w' = P w) \<and>
     (\<forall>n w u w'. fl_Seek f n w = (Inr u, w') \<longrightarrow> D w' = D w \<and> P w' = n) \<and>
     (\<forall>s w u w' c. fl_Write f s w = (Inr u, w') \<longrightarrow> D w = Some c \<longrightarrow> D w' = Some (write_at (P w) s c)) \<and>
     steady D (fl_Close f)"

definition ascii :: "string \<Rightarrow> bool" where
  "ascii s \<longleftrightarrow> (\<forall>c \<in> set s. (of_char c :: nat) < 128)"

definition ascii_cfg :: "repo_ctx_cfg \<Rightarrow> bool" where
  "ascii_cfg c \<longleftrightarrow> (\<forall>r \<in> insert (rcc_Default c) (set (rcc_Repos c)). ascii (rcx_Url r) \<and> ascii (rcx_Alias r))"

definition gitrepo_laws :: "('w \<Rightarrow> string option) \<Rightarrow> ('w \<Rightarrow> nat) \<Rightarrow> 'w gitrepo_env \<Rightarrow> bool" where
  "gitrepo_laws D P env \<longleftrightarrow>
     steady D (gr_DefaultConfigDir env) \<and> (\<forall>p. steady D (gr_Stat env p)) \<and> (\<forall>p. steady D (gr_MkdirAll env p)) \<and>
     steady D (gr_NewRepoClient env) \<and> steady D (gr_PromptPassword env) \<and>
     (\<forall>w client w'. gr_NewRepoClient env w = (Inr client, w') \<longrightarrow>
        (\<forall>u n p. steady (\<lambda>w. (D w, P w)) (rcl_ValidateAccess client u n p)) \<and>
        (\<forall>q. steady (\<lambda>w. (D w, P w)) (rcl_CreateRepository client q)) \<and>
        (\<forall>q w u w'. rcl_CreateRepository client q w = (Inr u, w') \<longrightarrow> ascii u)) \<and>
     (\<forall>p w f w'. gr_OpenFile env p w = (Inr f, w') \<longrightarrow>
        D w' = Some (case D w of None \<Rightarrow> '''' | Some c \<Rightarrow> c) \<and> P w' = 0 \<and> lawful_cfg_file D P f) \<and>
     (\<forall>c s. ascii_cfg c \<longrightarrow> gr_MarshalIndent env c = Inr s \<longrightarrow> s \<noteq> '''' \<and> gr_Unmarshal env s = Inr c)"

text \<open>The configuration that the file holds.\<close>

definition cfg_of_bytes :: "'w gitrepo_env \<Rightarrow> string option \<Rightarrow> go_error + repo_ctx_cfg" where
  "cfg_of_bytes env c = (case c of None \<Rightarrow> Inr no_cfg
     | Some s \<Rightarrow> if s = '''' then Inr no_cfg else gr_Unmarshal env s)"

lemma write_at_start: "write_at 0 s '''' = s"
  by (simp add: write_at_def)

lemma ReadDefaultConfig_ok:
  assumes laws: "gitrepo_laws D P env" and run: "ReadDefaultConfig env w = (Inr f, w')"
  shows "cfg_of_bytes env (D w') = cfg_of_bytes env (D w) \<and> (\<exists>c. D w' = Some c) \<and> P w' = 0 \<and> lawful_cfg_file D P f"
proof -
  from laws have same: "steady D (gr_DefaultConfigDir env)" "\<And>p. steady D (gr_Stat env p)"
    "\<And>p. steady D (gr_MkdirAll env p)"
    and opens: "\<And>p w f w'. gr_OpenFile env p w = (Inr f, w') \<Longrightarrow>
      D w' = Some (case D w of None \<Rightarrow> '''' | Some c \<Rightarrow> c) \<and> P w' = 0 \<and> lawful_cfg_file D P f"
    by (simp_all add: gitrepo_laws_def)
  from run obtain p w1 w2 where path: "GetRepoCfgPath env w = (Inr p, w1)" and w2: "D w2 = D w1"
    and op: "gr_OpenFile env p w2 = (Inr f, w')"
    by (auto simp: ReadDefaultConfig_def Let_def ok_iff attempt_ok dest!: steadyD [OF same(2)] steadyD [OF same(3)])
  from path have "D w1 = D w"
    by (auto simp: GetRepoCfgPath_def ok_iff dest: steadyD [OF same(1)])
  with w2 opens [OF op] show ?thesis
    by (auto simp: cfg_of_bytes_def split: option.splits)
qed

lemma LoadRepoCfg_ok:
  assumes "lawful_cfg_file D P f" "D w = Some c" "P w = 0" "LoadRepoCfg env f w = (Inr cfg, w')"
  shows "D w' = Some c \<and> cfg_of_bytes env (Some c) = Inr cfg"
proof -
  from assms(4) obtain s w1 where read: "fl_ReadAll f w = (Inr s, w1)"
    and cfg: "if length s = 0 then cfg = no_cfg \<and> w' = w1 else gr_Unmarshal env s = Inr cfg \<and> w' = w1"
    by (auto simp: LoadRepoCfg_def ok_iff split: if_splits)
  from assms(1,2) read have "D w1 = Some c \<and> s = drop (P w) c"
    unfolding lawful_cfg_file_def by blast
  with cfg assms(3) show ?thesis by (auto simp: cfg_of_bytes_def split: if_splits)
qed

lemma write_back_ok:
  assumes laws: "gitrepo_laws D P env" and f: "lawful_cfg_file D P f" and c: "D w = Some c" and plain: "ascii_cfg cfg"
    and run: "write_back env f cfg w = (Inr u, w')"
  shows "cfg_of_bytes env (D w') = Inr cfg"
proof -
  from run obtain s w1 w2 where s: "gr_MarshalIndent env cfg = Inr s" and trunc: "fl_Truncate f 0 w = (Inr (), w1)"
    and seek: "fl_Seek f 0 w1 = (Inr (), w2)" and wr: "fl_Write f s w2 = (Inr (), w')"
    by (auto simp: write_back_def TruncateFile_def StoreRepoCfg_def ok_iff)
  from laws plain s have json: "s \<noteq> '''' \<and> gr_Unmarshal env s = Inr cfg"
    unfolding gitrepo_laws_def by blast
  from f trunc c have "D w1 = Some ''''" by (simp add: lawful_cfg_file_def zeros_def)
  moreover from f seek have "D w2 = D w1 \<and> P w2 = 0" unfolding lawful_cfg_file_def by blast
  ultimately have "D w' = Some (write_at 0 s '''')" using f wr unfolding lawful_cfg_file_def by metis
  with json show ?thesis by (simp add: cfg_of_bytes_def write_at_start)
qed

section \<open>The map of the aliases\<close>

text \<open>
  The abstract configuration: which URL an alias stands for. In a well-formed configuration no alias
  occurs twice, and the default entry is the one of the alias \<open>default\<close>.
\<close>

definition aliases :: "repo_ctx_cfg \<Rightarrow> string \<Rightarrow> string option" where
  "aliases c = map_of (map (\<lambda>r. (rcx_Alias r, rcx_Url r)) (rcc_Repos c))"

definition wf_cfg :: "repo_ctx_cfg \<Rightarrow> bool" where
  "wf_cfg c \<longleftrightarrow> distinct (map rcx_Alias (rcc_Repos c)) \<and>
     rcc_Default c = (case find_alias RepoDefaultCtx (rcc_Repos c) of None \<Rightarrow> no_repo_ctx | Some r \<Rightarrow> r)"

lemma AliasExists_iff: "AliasExists rs a \<longleftrightarrow> a \<in> rcx_Alias ` set rs"
  by (induction rs) auto

lemma find_alias_map_of: "map_option rcx_Url (find_alias a rs) = map_of (map (\<lambda>r. (rcx_Alias r, rcx_Url r)) rs) a"
  by (induction rs) auto

lemma find_alias_append:
  "find_alias a (xs @ ys) = (case find_alias a xs of None \<Rightarrow> find_alias a ys | Some r \<Rightarrow> Some r)"
  by (induction xs) auto

lemma find_alias_None: "find_alias a rs = None \<longleftrightarrow> a \<notin> rcx_Alias ` set rs"
  by (induction rs) auto

lemma find_alias_Some: "find_alias a rs = Some r \<Longrightarrow> r \<in> set rs \<and> rcx_Alias r = a"
  by (induction rs) (auto split: if_splits)

lemma remove_alias_None: "remove_alias a rs = None \<longleftrightarrow> a \<notin> rcx_Alias ` set rs"
  by (induction rs) (auto split: option.splits)

lemma remove_alias_Some:
  "remove_alias a rs = Some (r, rs') \<Longrightarrow> \<exists>xs ys. rs = xs @ r # ys \<and> rs' = xs @ ys \<and> rcx_Alias r = a"
proof (induction rs arbitrary: rs')
  case (Cons x xs)
  show ?case
  proof (cases "rcx_Alias x = a")
    case True
    with Cons.prems have "r = x" "rs' = xs" by simp_all
    with True show ?thesis by (intro exI [of _ "[]"] exI [of _ xs]) simp
  next
    case False
    with Cons.prems obtain us where us: "remove_alias a xs = Some (r, us)" "rs' = x # us"
      by (auto split: option.splits)
    from Cons.IH [OF us(1)] obtain ps qs where "xs = ps @ r # qs" "us = ps @ qs" "rcx_Alias r = a" by blast
    with us(2) show ?thesis by (intro exI [of _ "x # ps"] exI [of _ qs]) simp
  qed
qed simp

lemma added_ctx_correct:
  assumes "wf_cfg c" "alias \<notin> dom (aliases c)"
  shows "wf_cfg (added_ctx url alias c) \<and> aliases (added_ctx url alias c) = (aliases c)(alias \<mapsto> url)"
proof -
  from assms(2) have fresh: "alias \<notin> rcx_Alias ` set (rcc_Repos c)"
    by (auto simp: aliases_def dom_map_of_conv_image_fst image_image)
  then have "map_of (map (\<lambda>r. (rcx_Alias r, rcx_Url r)) (rcc_Repos c)) alias = None"
    by (auto simp: map_of_eq_None_iff image_image)
  moreover have "find_alias alias (rcc_Repos c) = None" using fresh by (simp add: find_alias_None)
  ultimately show ?thesis using assms(1) fresh
    by (auto simp: wf_cfg_def added_ctx_def aliases_def Let_def find_alias_append fun_eq_iff map_add_def
        split: option.splits)
qed

lemma removed_ctx_correct:
  assumes "wf_cfg c" "removed_ctx alias c = Some c'"
  shows "wf_cfg c' \<and> aliases c' = (aliases c)(alias := None)"
proof -
  from assms(2) obtain r rs where r: "remove_alias alias (rcc_Repos c) = Some (r, rs)"
    and c': "c' = (if rcx_Alias r = RepoDefaultCtx
      then c\<lparr>rcc_Default := no_repo_ctx, rcc_Repos := rs\<rparr> else c\<lparr>rcc_Repos := rs\<rparr>)"
    by (auto simp: removed_ctx_def split: option.splits)
  from remove_alias_Some [OF r] obtain xs ys where
    xs: "rcc_Repos c = xs @ r # ys" "rs = xs @ ys" "rcx_Alias r = alias" by blast
  with assms(1) have nodup: "distinct (map rcx_Alias (xs @ r # ys))" by (simp add: wf_cfg_def)
  then have gone: "find_alias alias rs = None" using xs by (auto simp: find_alias_None)
  have others: "find_alias a rs = find_alias a (rcc_Repos c)" if "a \<noteq> alias" for a
    using that xs by (simp add: find_alias_append split: option.splits)
  have "aliases c' a = ((aliases c)(alias := None)) a" for a
    using gone others [of a] c' find_alias_map_of [of a rs] find_alias_map_of [of a "rcc_Repos c"]
    by (cases "a = alias") (simp_all add: aliases_def split: if_splits)
  moreover have "wf_cfg c'"
    using assms(1) nodup gone others [of RepoDefaultCtx] c' xs
    by (cases "alias = RepoDefaultCtx") (auto simp: wf_cfg_def)
  ultimately show ?thesis by blast
qed

lemma ascii_added:
  assumes "ascii_cfg c" "ascii url" "ascii alias"
  shows "ascii_cfg (added_ctx url alias c)"
  using assms by (auto simp: ascii_cfg_def added_ctx_def Let_def)

lemma ascii_removed:
  assumes "ascii_cfg c" "removed_ctx alias c = Some c'"
  shows "ascii_cfg c'"
  using assms
  by (auto simp: ascii_cfg_def removed_ctx_def no_repo_ctx_def ascii_def split: option.splits if_splits
      dest!: remove_alias_Some)

text \<open>The repository that ArgoCD says it created when it is asked, with the user name and the password
  given or typed in, for the URL after having accepted them.\<close>

definition created_repository :: "'w gitrepo_env \<Rightarrow> string \<Rightarrow> string \<Rightarrow> string \<Rightarrow> 'w \<Rightarrow> string \<Rightarrow> bool" where
  "created_repository env url user pass w created \<longleftrightarrow> (\<exists>client w1 pw w2 w3 w4 w5.
     gr_NewRepoClient env w = (Inr client, w1)
     \<and> (if user \<noteq> '''' \<and> pass = '''' then gr_PromptPassword env else ret pass) w1 = (Inr pw, w2)
     \<and> rcl_ValidateAccess client url user pw w3 = (Inr (), w4)
     \<and> rcl_CreateRepository client \<lparr>rcr_Repo = url, rcr_Username = user, rcr_Password = pw\<rparr> w4 = (Inr created, w5))"

text \<open>How a registration that succeeded got there.\<close>

lemma gitrepo_lawsD:
  assumes "gitrepo_laws D P env" "gr_NewRepoClient env w0 = (Inr client, w1)"
  shows "steady D (gr_NewRepoClient env)" "steady D (gr_PromptPassword env)"
    "steady (\<lambda>w. (D w, P w)) (rcl_ValidateAccess client u n p)"
    "steady (\<lambda>w. (D w, P w)) (rcl_CreateRepository client q)"
    "rcl_CreateRepository client q w = (Inr x, w') \<Longrightarrow> ascii x"
  using assms unfolding gitrepo_laws_def by blast+

lemma register_ok:
  assumes laws: "gitrepo_laws D P env" and run: "gitrepo_register env url user pass alias w = (Inr (), w')"
    and cfg: "cfg_of_bytes env (D w) = Inr c"
  shows "if AliasExists (rcc_Repos c) alias then cfg_of_bytes env (D w') = Inr c
    else \<exists>created fh w1 w2. created_repository env url user pass w created
      \<and> ascii created \<and> lawful_cfg_file D P fh \<and> (\<exists>s. D w1 = Some s)
      \<and> write_back env fh (added_ctx created alias c) w1 = (Inr (), w2) \<and> D w' = D w2"
proof -
  let ?body = "\<lambda>client pw fh c0. if AliasExists (rcc_Repos c0) alias then ret ()
      else if rcx_Url (rcc_Default c0) \<noteq> '''' \<and> alias = RepoDefaultCtx then fail (ErrorText ''default alias already exists'')
      else CheckError (rcl_ValidateAccess client url user pw) (\<lambda>_.
        CheckError (rcl_CreateRepository client \<lparr>rcr_Repo = url, rcr_Username = user, rcr_Password = pw\<rparr>) (\<lambda>created.
        write_back env fh (added_ctx created alias c0)))"
  from run obtain client w1 pw w2 fh w3 w5 where
    client: "gr_NewRepoClient env w = (Inr client, w1)"
    and pw: "(if user \<noteq> '''' \<and> pass = '''' then gr_PromptPassword env else ret pass) w1 = (Inr pw, w2)"
    and fh: "ReadDefaultConfig env w2 = (Inr fh, w3)"
    and rest: "must (LoadRepoCfg env fh) (err_after ErrLoadCfgFile) (?body client pw fh) w3 = (Inr (), w5)"
    and close: "w' = snd (fl_Close fh w5)"
    by (auto simp: gitrepo_register_def CheckError_def attempt_ok ok_iff)
  from rest obtain c0 w4 where load: "LoadRepoCfg env fh w3 = (Inr c0, w4)"
    and cont: "?body client pw fh c0 w4 = (Inr (), w5)"
    unfolding must_ok by blast
  note env = gitrepo_lawsD [OF laws client]
  have "D w2 = D w" using steadyD [OF env(1) client] pw steadyD [OF env(2)] by (auto simp: ok_iff split: if_splits)
  with ReadDefaultConfig_ok [OF laws fh] cfg obtain s where
    w3: "cfg_of_bytes env (Some s) = Inr c" "P w3 = 0" "lawful_cfg_file D P fh" "D w3 = Some s" by auto
  from LoadRepoCfg_ok [OF w3(3,4,2) load] w3(1) have w4: "D w4 = Some s" "c0 = c" by auto
  have w5: "D w' = D w5" using w3(3) close by (simp add: lawful_cfg_file_def steady_def)
  show ?thesis
  proof (cases "AliasExists (rcc_Repos c) alias")
    case True
    with cont w4 have "w5 = w4" by (simp add: ret_ok)
    with True w4 w5 w3(1) show ?thesis by simp
  next
    case False
    with cont w4(2) obtain u w6 created w7 where
      val: "rcl_ValidateAccess client url user pw w4 = (Inr u, w6)"
      and cr: "rcl_CreateRepository client \<lparr>rcr_Repo = url, rcr_Username = user, rcr_Password = pw\<rparr> w6 = (Inr created, w7)"
      and wb: "write_back env fh (added_ctx created alias c) w7 = (Inr (), w5)"
      by (auto simp: CheckError_def attempt_ok ok_iff split: if_splits)
    have "D w7 = Some s" using steadyD [OF env(3) val] steadyD [OF env(4) cr] w4(1) by simp
    moreover have "created_repository env url user pass w created"
      using client pw val cr unfolding created_repository_def by (cases u) blast
    ultimately show ?thesis using env(5) [OF cr] False w3(3) wb w5 by auto
  qed
qed

text \<open>C33: Registering an alias that succeeds implements the update of the map of aliases: a new alias then
  stands for the URL of the repository that ArgoCD created for the URL, user and password of this
  command; an alias that exists keeps its URL (and the command reports no error); the configuration
  stays well-formed.\<close>

theorem register_updates_map:
  assumes "gitrepo_laws D P env" "cfg_of_bytes env (D w) = Inr c" "wf_cfg c" "ascii_cfg c" "ascii alias"
    and "gitrepo_register env url user pass alias w = (Inr (), w')"
  shows "\<exists>c'. cfg_of_bytes env (D w') = Inr c' \<and> wf_cfg c' \<and> ascii_cfg c'
    \<and> (if alias \<in> dom (aliases c) then c' = c
       else \<exists>created. created_repository env url user pass w created \<and> aliases c' = (aliases c)(alias \<mapsto> created))"
proof -
  have dom: "alias \<in> dom (aliases c) \<longleftrightarrow> AliasExists (rcc_Repos c) alias"
    by (simp add: aliases_def AliasExists_iff dom_map_of_conv_image_fst image_image)
  show ?thesis
  proof (cases "AliasExists (rcc_Repos c) alias")
    case True
    with register_ok [OF assms(1,6,2)] dom assms(3,4) show ?thesis by auto
  next
    case False
    with register_ok [OF assms(1,6,2)] obtain created fh w1 w2 s where new: "created_repository env url user pass w created"
      and created: "ascii created"
      and fh: "lawful_cfg_file D P fh" "D w1 = Some s" and wb: "write_back env fh (added_ctx created alias c) w1 = (Inr (), w2)"
      and w2: "D w' = D w2" by auto
    note plain = ascii_added [OF assms(4) created assms(5)]
    from write_back_ok [OF assms(1) fh plain wb] w2 added_ctx_correct [OF assms(3), of "alias" created] False dom plain new
    show ?thesis by auto
  qed
qed

lemma no_entries: "rcc_Repos c = [] \<Longrightarrow> aliases c = Map.empty"
  by (simp add: aliases_def)

text \<open>C35: Unregistering an alias that succeeds implements the deletion from the map of aliases and keeps the
  configuration well-formed.\<close>

theorem unregister_updates_map:
  assumes "gitrepo_laws D P env" "cfg_of_bytes env (D w) = Inr c" "wf_cfg c" "ascii_cfg c"
    and "gitrepo_unregister env alias w = (Inr (), w')"
  shows "\<exists>c'. cfg_of_bytes env (D w') = Inr c' \<and> wf_cfg c' \<and> ascii_cfg c' \<and> aliases c' = (aliases c)(alias := None)"
proof -
  note laws = assms(1)
  from assms(5) obtain fh w1 w2 where fh: "ReadDefaultConfig env w = (Inr fh, w1)"
    and rest: "(must (LoadRepoCfg env fh) (err_after ErrLoadCfgFile) (\<lambda>repoCtxCfg.
        if length (rcc_Repos repoCtxCfg) = 0 then ret ()
        else case removed_ctx alias repoCtxCfg of
            None \<Rightarrow> fail gitrepo_ErrNotFound
          | Some cfg \<Rightarrow> write_back env fh cfg)) w1 = (Inr (), w2)"
    and close: "w' = snd (fl_Close fh w2)"
    unfolding gitrepo_unregister_def andThen_ok deferring_ok by blast
  from ReadDefaultConfig_ok [OF laws fh] assms(2)
  have w1: "cfg_of_bytes env (D w1) = Inr c" "P w1 = 0" "lawful_cfg_file D P fh" "\<exists>s. D w1 = Some s" by auto
  then obtain s where s: "D w1 = Some s" by blast
  have w2: "D w' = D w2" using w1(3) close by (simp add: lawful_cfg_file_def steady_def)
  from rest obtain c0 w3 where load: "LoadRepoCfg env fh w1 = (Inr c0, w3)" and
    cont: "(if length (rcc_Repos c0) = 0 then ret ()
        else case removed_ctx alias c0 of
            None \<Rightarrow> fail gitrepo_ErrNotFound
          | Some cfg \<Rightarrow> write_back env fh cfg) w3 = (Inr (), w2)"
    unfolding must_ok by blast
  from LoadRepoCfg_ok [OF w1(3) s w1(2) load] w1(1) s have w3: "D w3 = Some s" "c0 = c" by auto
  show ?thesis
  proof (cases "rcc_Repos c = []")
    case True
    with cont w3 have "w2 = w3" by (simp add: ret_ok)
    with True w2 w3 w1(1) s assms(3,4) no_entries [OF True] show ?thesis
      by (intro exI [of _ c]) simp
  next
    case False
    with cont w3 obtain c' where c': "removed_ctx alias c = Some c'" and wb: "write_back env fh c' w3 = (Inr (), w2)"
      by (auto simp: fail_ok split: option.splits)
    from write_back_ok [OF laws w1(3) w3(1) ascii_removed [OF assms(4) c'] wb] w2
      removed_ctx_correct [OF assms(3) c'] ascii_removed [OF assms(4) c']
    show ?thesis by auto
  qed
qed

text \<open>C34: A lookup that succeeds returns the URL the alias stands for; the one exception is the alias
  \<open>default\<close>, for which it succeeds with the empty URL when nothing was registered.\<close>

theorem GetRepoUrl_looks_up:
  assumes "gitrepo_laws D P env" "cfg_of_bytes env (D w) = Inr c" "wf_cfg c"
    and "GetRepoUrl env alias w = (Inr url, w')"
  shows "(aliases c alias = Some url \<or> aliases c alias = None \<and> alias = RepoDefaultCtx \<and> url = '''')
    \<and> cfg_of_bytes env (D w') = Inr c"
proof -
  note laws = assms(1)
  from assms(4) obtain fh w1 w2 where fh: "ReadDefaultConfig env w = (Inr fh, w1)"
    and rest: "(attempt (getAlias env alias fh)
         (\<lambda>err. if \<not> errors_Is err gitrepo_ErrNotFound then fail (err_after gitrepo_ErrNotFound err) else fail err)
         (\<lambda>repoCtx. ret (rcx_Url repoCtx))) w1 = (Inr url, w2)"
    and close: "w' = snd (fl_Close fh w2)"
    unfolding GetRepoUrl_def andThen_ok deferring_ok by blast
  from ReadDefaultConfig_ok [OF laws fh] assms(2)
  have w1: "cfg_of_bytes env (D w1) = Inr c" "P w1 = 0" "lawful_cfg_file D P fh" "\<exists>s. D w1 = Some s" by auto
  then obtain s where s: "D w1 = Some s" by blast
  have w2: "D w' = D w2" using w1(3) close by (simp add: lawful_cfg_file_def steady_def)
  from rest obtain r c0 where load: "LoadRepoCfg env fh w1 = (Inr c0, w2)"
    and r: "alias_in alias c0 = Inr r" "url = rcx_Url r"
    by (auto simp: attempt_ok getAlias_def ok_iff split: if_splits)
  from LoadRepoCfg_ok [OF w1(3) s w1(2) load] w1(1) s have w3: "D w2 = Some s" "c0 = c" by auto
  have "aliases c alias = Some url \<or> aliases c alias = None \<and> alias = RepoDefaultCtx \<and> url = ''''"
  proof (cases "alias = RepoDefaultCtx")
    case True
    with r w3(2) have "r = rcc_Default c" by (simp add: alias_in_def)
    with True r(2) assms(3) find_alias_map_of [of "alias" "rcc_Repos c"] show ?thesis
      by (cases "find_alias RepoDefaultCtx (rcc_Repos c)") (simp_all add: wf_cfg_def aliases_def no_repo_ctx_def)
  next
    case False
    with r w3(2) find_alias_map_of [of "alias" "rcc_Repos c"] show ?thesis
      by (auto simp: alias_in_def aliases_def split: option.splits)
  qed
  with w2 w3 w1(1) s show ?thesis by simp
qed

section \<open>A configuration file in memory\<close>

record cfg_world =
  cw_bytes :: "string option"
  cw_pos :: nat

text \<open>A codec for configurations of ASCII texts: all texts in a row, separated by a byte that is none.\<close>

definition field_sep :: char where
  "field_sep = CHR 0xFF"

definition cfg_fields :: "repo_ctx_cfg \<Rightarrow> string list" where
  "cfg_fields c = concat (map (\<lambda>r. [rcx_Url r, rcx_Alias r]) (rcc_Default c # rcc_Repos c))"

fun ctx_pairs :: "string list \<Rightarrow> repo_ctx list" where
  "ctx_pairs (u # a # rest) = \<lparr>rcx_Url = u, rcx_Alias = a\<rparr> # ctx_pairs rest"
| "ctx_pairs _ = []"

definition cfg_of_fields :: "string list \<Rightarrow> repo_ctx_cfg" where
  "cfg_of_fields fs = (case ctx_pairs fs of [] \<Rightarrow> no_cfg | r # rs \<Rightarrow> \<lparr>rcc_Default = r, rcc_Repos = rs\<rparr>)"

lemma ctx_pairs_fields: "ctx_pairs (concat (map (\<lambda>r. [rcx_Url r, rcx_Alias r]) rs)) = rs"
  by (induction rs) auto

definition mem_file :: "cfg_world cfg_file" where
  "mem_file = \<lparr>
     fl_ReadAll = (\<lambda>w. (Inr (drop (cw_pos w) (the (cw_bytes w))), w)),
     fl_Truncate = (\<lambda>n w. (Inr (), w\<lparr>cw_bytes := map_option (\<lambda>c. take n (c @ zeros (n - length c))) (cw_bytes w)\<rparr>)),
     fl_Seek = (\<lambda>n w. (Inr (), w\<lparr>cw_pos := n\<rparr>)),
     fl_Write = (\<lambda>s w. (Inr (), w\<lparr>cw_bytes := map_option (write_at (cw_pos w) s) (cw_bytes w)\<rparr>)),
     fl_Close = ret ()\<rparr>"

definition mem_gitrepo :: "cfg_world gitrepo_env" where
  "mem_gitrepo = \<lparr>
     gr_DefaultConfigDir = ret ''/home/user/.config/argocd'',
     gr_Stat = (\<lambda>p w. (case cw_bytes w of None \<Rightarrow> (Inl (Err (ErrorText ''no such file'')), w) | Some c \<Rightarrow> (Inr (), w))),
     gr_MkdirAll = (\<lambda>_. ret ()),
     gr_OpenFile = (\<lambda>_ w. (Inr mem_file, w\<lparr>cw_bytes := Some (case cw_bytes w of None \<Rightarrow> '''' | Some c \<Rightarrow> c), cw_pos := 0\<rparr>)),
     gr_Unmarshal = (\<lambda>s. Inr (cfg_of_fields (split_on field_sep s))),
     gr_MarshalIndent = (\<lambda>c. Inr (join_with [field_sep] (cfg_fields c))),
     gr_NewRepoClient = ret \<lparr>rcl_ValidateAccess = (\<lambda>_ _ _. ret ()),
       rcl_CreateRepository = (\<lambda>q. if ascii (rcr_Repo q) then ret (rcr_Repo q) else fail (ErrorText ''bad url''))\<rparr>,
     gr_PromptPassword = ret ''secret''\<rparr>"


lemma cfg_fields_codec:
  assumes "ascii_cfg c"
  shows "cfg_of_fields (split_on field_sep (join_with [field_sep] (cfg_fields c))) = c"
    and "join_with [field_sep] (cfg_fields c) \<noteq> ''''"
proof -
  have "field_sep \<notin> set f" if "f \<in> set (cfg_fields c)" for f
  proof -
    from assms that have "ascii f" by (auto simp: ascii_cfg_def cfg_fields_def)
    moreover have "\<not> (of_char field_sep :: nat) < 128" by (simp add: field_sep_def)
    ultimately show ?thesis by (auto simp: ascii_def)
  qed
  then have "split_on field_sep (join_with [field_sep] (cfg_fields c)) = cfg_fields c"
    by (intro split_join) (auto simp: cfg_fields_def)
  then show "cfg_of_fields (split_on field_sep (join_with [field_sep] (cfg_fields c))) = c"
    by (simp add: cfg_of_fields_def cfg_fields_def ctx_pairs_fields)
  show "join_with [field_sep] (cfg_fields c) \<noteq> ''''"
    by (simp add: cfg_fields_def)
qed

lemma mem_file_lawful: "lawful_cfg_file cw_bytes cw_pos mem_file"
  by (auto simp: lawful_cfg_file_def mem_file_def steady_def ret_def)

lemma mem_gitrepo_laws: "gitrepo_laws cw_bytes cw_pos mem_gitrepo"
  unfolding gitrepo_laws_def mem_gitrepo_def
  by (auto simp: steady_def ret_def fail_def mem_file_lawful cfg_fields_codec split: option.splits if_splits)

definition cfg_start :: cfg_world where
  "cfg_start = \<lparr>cw_bytes = None, cw_pos = 0\<rparr>"

definition cfg_registered :: cfg_world where
  "cfg_registered = snd (gitrepo_register mem_gitrepo ''https://git'' ''me'' '''' ''main'' cfg_start)"

definition cfg_unregistered :: cfg_world where
  "cfg_unregistered = snd (gitrepo_unregister mem_gitrepo ''main'' cfg_registered)"

lemma cfg_start_empty: "cfg_of_bytes mem_gitrepo (cw_bytes cfg_start) = Inr no_cfg" "wf_cfg no_cfg" "ascii_cfg no_cfg"
    "aliases no_cfg = Map.empty"
  by (simp_all add: cfg_of_bytes_def cfg_start_def wf_cfg_def ascii_cfg_def no_cfg_def no_repo_ctx_def ascii_def aliases_def)

lemma registered_run: "gitrepo_register mem_gitrepo ''https://git'' ''me'' '''' ''main'' cfg_start = (Inr (), cfg_registered)"
proof -
  have "fst (gitrepo_register mem_gitrepo ''https://git'' ''me'' '''' ''main'' cfg_start) = Inr ()" by code_simp
  then show ?thesis by (simp add: cfg_registered_def prod_eq_iff)
qed

lemma unregistered_run: "gitrepo_unregister mem_gitrepo ''main'' cfg_registered = (Inr (), cfg_unregistered)"
proof -
  have "fst (gitrepo_unregister mem_gitrepo ''main'' cfg_registered) = Inr ()" by code_simp
  then show ?thesis by (simp add: cfg_unregistered_def prod_eq_iff)
qed

lemma ascii_main: "ascii ''main''"
  by (simp add: ascii_def)

lemma mem_created_repository:
  "created_repository mem_gitrepo url user pass w created \<Longrightarrow> created = url"
  by (auto simp: created_repository_def mem_gitrepo_def ok_iff split: if_splits)

lemma register_updates_map_witness:
  "\<exists>c. cfg_of_bytes mem_gitrepo (cw_bytes cfg_registered) = Inr c \<and> aliases c = [''main'' \<mapsto> ''https://git'']"
  using register_updates_map [OF mem_gitrepo_laws cfg_start_empty(1-3) ascii_main registered_run]
  by (auto simp: cfg_start_empty(4) dest!: mem_created_repository)

text \<open>The configuration after the registration, read back from the bytes.\<close>

lemma registered_cfg:
  "cfg_of_bytes mem_gitrepo (cw_bytes cfg_registered) =
     Inr \<lparr>rcc_Default = no_repo_ctx, rcc_Repos = [\<lparr>rcx_Url = ''https://git'', rcx_Alias = ''main''\<rparr>]\<rparr>"
proof -
  have "\<exists>c. cfg_of_bytes mem_gitrepo (cw_bytes cfg_registered) = Inr c
      \<and> cfg_fields c = ['''', '''', ''https://git'', ''main'']"
  proof (cases "cfg_of_bytes mem_gitrepo (cw_bytes cfg_registered)")
    case (Inl e)
    moreover have "(case cfg_of_bytes mem_gitrepo (cw_bytes cfg_registered) of Inl e \<Rightarrow> False | Inr c \<Rightarrow> True)" by code_simp
    ultimately show ?thesis by simp
  next
    case (Inr c)
    moreover have "(case cfg_of_bytes mem_gitrepo (cw_bytes cfg_registered) of Inl e \<Rightarrow> []
        | Inr c \<Rightarrow> cfg_fields c) = ['''', '''', ''https://git'', ''main'']" by code_simp
    ultimately show ?thesis by simp
  qed
  then obtain c where c: "cfg_of_bytes mem_gitrepo (cw_bytes cfg_registered) = Inr c"
    "cfg_fields c = ['''', '''', ''https://git'', ''main'']" by blast
  have "cfg_of_fields (cfg_fields c) = c"
    by (simp add: cfg_of_fields_def cfg_fields_def ctx_pairs_fields)
  with c show ?thesis by (simp add: cfg_of_fields_def no_repo_ctx_def)
qed

lemma registered_cfg_wf:
  "wf_cfg \<lparr>rcc_Default = no_repo_ctx, rcc_Repos = [\<lparr>rcx_Url = ''https://git'', rcx_Alias = ''main''\<rparr>]\<rparr>"
  "ascii_cfg \<lparr>rcc_Default = no_repo_ctx, rcc_Repos = [\<lparr>rcx_Url = ''https://git'', rcx_Alias = ''main''\<rparr>]\<rparr>"
  by (simp_all add: wf_cfg_def RepoDefaultCtx_def ascii_cfg_def ascii_def no_repo_ctx_def)

lemma unregister_updates_map_witness:
  "\<exists>c. cfg_of_bytes mem_gitrepo (cw_bytes cfg_unregistered) = Inr c \<and> aliases c = Map.empty"
  using unregister_updates_map [OF mem_gitrepo_laws registered_cfg registered_cfg_wf unregistered_run]
  by (auto simp: aliases_def)

lemma GetRepoUrl_looks_up_witness:
  "fst (GetRepoUrl mem_gitrepo ''main'' cfg_registered) = Inr ''https://git''"
proof -
  obtain r w' where run: "GetRepoUrl mem_gitrepo ''main'' cfg_registered = (r, w')" by fastforce
  have "(case fst (GetRepoUrl mem_gitrepo ''main'' cfg_registered) of Inr u \<Rightarrow> True | Inl f \<Rightarrow> False)" by code_simp
  with run obtain url where url: "r = Inr url" by (cases r) simp_all
  from GetRepoUrl_looks_up [OF mem_gitrepo_laws registered_cfg registered_cfg_wf(1) run [unfolded url]] run url
  show ?thesis by (simp add: aliases_def)
qed

end
