(* ===== verification/Webhook.thy ===== *)
theory Webhook
  imports Kube
begin

text \<open>
  The admission webhook (\<open>pkg/webhook\<close>), which prefixes the name of a Cluster API cluster with the
  instance of the application that deploys it. The decoder and the JSON encoder are parameters.
\<close>

section \<open>Requests and responses\<close>

type_synonym group_version_resource = "string \<times> string \<times> string"

record admission_request =
  arq_UID :: string
  arq_Resource :: group_version_resource
  arq_Object_Raw :: string

text \<open>A JSON patch operation, and the response; \<open>None\<close> stands for a nil pointer.\<close>

record patch_op =
  pop_op :: string
  pop_path :: string
  pop_value :: string

record admission_response =
  ars_UID :: string
  ars_Allowed :: bool
  ars_Result_Message :: "string option"
  ars_PatchType :: "string option"
  ars_Patch :: string

text \<open>What the universal deserializer returns: the object (only admission reviews matter) and its kind.\<close>

datatype decoded_object = AdmissionReview "admission_request option" | OtherObject string

record group_version_kind =
  gvk_Group :: string
  gvk_Version :: string
  gvk_Kind :: string

record webhook =
  wh_Decode :: "string \<Rightarrow> go_error + (decoded_object \<times> group_version_kind)"
  wh_DecodeCluster :: "string \<Rightarrow> go_error + object_meta"
  wh_MarshalPatches :: "patch_op list \<Rightarrow> go_error + string"
  wh_MarshalReview :: "admission_response \<Rightarrow> go_error + string"

record 'w response_writer =
  rw_SetContentType :: "string \<Rightarrow> ('w, unit) io"
  rw_Write :: "string \<Rightarrow> ('w, unit) io"
  rw_Error :: "string \<Rightarrow> nat \<Rightarrow> ('w, unit) io"

definition StatusBadRequest :: nat where
  "StatusBadRequest = 400"

definition StatusInternalServerError :: nat where
  "StatusInternalServerError = 500"

section \<open>Rewriting\<close>

definition toV1AdmissionResponse :: "string \<Rightarrow> go_error \<Rightarrow> admission_response" where
  "toV1AdmissionResponse msg err = \<lparr>ars_UID = '''', ars_Allowed = False,
     ars_Result_Message = Some (error_string err), ars_PatchType = None, ars_Patch = ''''\<rparr>"

definition allowed_response :: admission_response where
  "allowed_response = \<lparr>ars_UID = '''', ars_Allowed = True, ars_Result_Message = None, ars_PatchType = None,
     ars_Patch = ''''\<rparr>"

definition cluster_resource :: group_version_resource where
  "cluster_resource = (''cluster.x-k8s.io'', ''v1beta1'', ''clusters'')"

text \<open>The patch that gives the cluster its new name.\<close>

definition rename_patch :: "string \<Rightarrow> string \<Rightarrow> patch_op" where
  "rename_patch instance_name name = \<lparr>pop_op = ''replace'', pop_path = ''/metadata/name'',
     pop_value = instance_name @ ''-'' @ name\<rparr>"

text \<open>A nil response for a resource of another type.\<close>

definition Rewrite :: "webhook \<Rightarrow> admission_request \<Rightarrow> admission_response option" where
  "Rewrite wh req =
     (if arq_Resource req \<noteq> cluster_resource then None
      else case wh_DecodeCluster wh (arq_Object_Raw req) of
          Inl err \<Rightarrow> Some (toV1AdmissionResponse ''failed to decode cluster'' err)
        | Inr clust \<Rightarrow>
            let instance_name = mget (om_labels clust) ''app.kubernetes.io/instance'' in
            if instance_name = '''' then Some allowed_response
            else case wh_MarshalPatches wh [rename_patch instance_name (om_name clust)] of
                Inl err \<Rightarrow> Some (toV1AdmissionResponse ''failed to marshal patches'' err)
              | Inr bs \<Rightarrow> Some (allowed_response\<lparr>ars_PatchType := Some ''JSONPatch'', ars_Patch := bs\<rparr>))"

section \<open>Serving a request\<close>

text \<open>
  The request is its body, nil when there is none or it could not be read, and its content type. The
  returned error comes with an HTTP status. A review without a request and a nil response are
  dereferenced.
\<close>

definition http_fail :: "go_error \<Rightarrow> nat \<Rightarrow> ('w, (go_error \<times> nat) option) io" where
  "http_fail e code = ret (Some (e, code))"

definition print_gvk :: "group_version_kind \<Rightarrow> string" where
  "print_gvk g = gvk_Group g @ ''/'' @ gvk_Version g @ '', Kind='' @ gvk_Kind g"

definition review_kind :: group_version_kind where
  "review_kind = \<lparr>gvk_Group = ''admission.k8s.io'', gvk_Version = ''v1'', gvk_Kind = ''AdmissionReview''\<rparr>"

definition serveHTTP ::
  "webhook \<Rightarrow> 'w response_writer \<Rightarrow> string option \<Rightarrow> string \<Rightarrow> ('w, (go_error \<times> nat) option) io" where
  "serveHTTP wh w body contentType =
     (if contentType \<noteq> ''application/json'' then
        http_fail (ErrorText (''unexpected content type: '' @ contentType)) StatusBadRequest
      else case wh_Decode wh (case body of None \<Rightarrow> '''' | Some data \<Rightarrow> data) of
          Inl err \<Rightarrow> http_fail (ErrorCtx ''request could not be decoded: '' err) StatusBadRequest
        | Inr (obj, gvk) \<Rightarrow>
            if gvk \<noteq> review_kind then
              http_fail (ErrorText (''unsupported group version kind: '' @ print_gvk gvk)) StatusBadRequest
            else case obj of
                OtherObject t \<Rightarrow>
                  http_fail (ErrorText (''expected v1.AdmissionReview but got: '' @ t)) StatusBadRequest
              | AdmissionReview None \<Rightarrow> panic ''nil pointer dereference''
              | AdmissionReview (Some req) \<Rightarrow>
                  (case Rewrite wh req of
                     None \<Rightarrow> panic ''nil pointer dereference''
                   | Some response \<Rightarrow>
                       (case wh_MarshalReview wh (response\<lparr>ars_UID := arq_UID req\<rparr>) of
                          Inl err \<Rightarrow> http_fail (ErrorCtx ''failed to marshal response: '' err)
                            StatusInternalServerError
                        | Inr respBytes \<Rightarrow>
                            andThen (rw_SetContentType w ''application/json'') (\<lambda>_.
                            attempt (rw_Write w respBytes)
                              (\<lambda>err. http_fail (ErrorCtx ''failed to write response: '' err) StatusInternalServerError)
                              (\<lambda>_. ret None)))))"

definition ServeHTTP :: "webhook \<Rightarrow> 'w response_writer \<Rightarrow> string option \<Rightarrow> string \<Rightarrow> ('w, unit) io" where
  "ServeHTTP wh w body contentType =
     andThen (serveHTTP wh w body contentType) (\<lambda>res. case res of
        Some (err, code) \<Rightarrow> rw_Error w (''error: '' @ error_string err) code
      | None \<Rightarrow> ret ())"

section \<open>What it answers\<close>

text \<open>A writer in memory: what was written, with the status.\<close>

record http_world =
  hw_status :: nat
  hw_body :: string

definition mem_writer :: "http_world response_writer" where
  "mem_writer = \<lparr>rw_SetContentType = (\<lambda>_. ret ()),
     rw_Write = (\<lambda>s w. (Inr (), w\<lparr>hw_status := 200, hw_body := hw_body w @ s\<rparr>)),
     rw_Error = (\<lambda>s code w. (Inr (), w\<lparr>hw_status := code, hw_body := hw_body w @ s\<rparr>))\<rparr>"

lemma Rewrite_None: "Rewrite wh req = None \<longleftrightarrow> arq_Resource req \<noteq> cluster_resource"
  by (simp add: Rewrite_def Let_def split: sum.splits)

text \<open>
  What the API server makes of an answer: the object is refused, admitted as it is, or admitted as the
  patch changes it. Of JSON patches only the replacement of the name is needed.
\<close>

definition apply_op :: "object_meta \<Rightarrow> patch_op \<Rightarrow> object_meta" where
  "apply_op m p = (if pop_op p = ''replace'' \<and> pop_path p = ''/metadata/name'' then m\<lparr>om_name := pop_value p\<rparr> else m)"

definition admitted_as :: "(string \<Rightarrow> patch_op list) \<Rightarrow> admission_response \<Rightarrow> object_meta \<Rightarrow> object_meta option" where
  "admitted_as read_patch r m =
     (if \<not> ars_Allowed r then None
      else case ars_PatchType r of
          None \<Rightarrow> Some m
        | Some t \<Rightarrow> if t = ''JSONPatch'' then Some (foldl apply_op m (read_patch (ars_Patch r))) else None)"

text \<open>What must become of the object: refused with the error when it is not a cluster (or the patch cannot
  be encoded), left alone without the label of an application, renamed with it.\<close>

definition rename_wanted :: "webhook \<Rightarrow> (string \<Rightarrow> patch_op list) \<Rightarrow> admission_request \<Rightarrow> admission_response \<Rightarrow> bool" where
  "rename_wanted wh read_patch req r \<longleftrightarrow> ars_UID r = arq_UID req \<and>
     (case wh_DecodeCluster wh (arq_Object_Raw req) of
        Inl e \<Rightarrow> \<not> ars_Allowed r \<and> ars_Result_Message r = Some (error_string e)
      | Inr c \<Rightarrow>
          let i = mget (om_labels c) ''app.kubernetes.io/instance''; name = i @ ''-'' @ om_name c in
          if i = '''' then admitted_as read_patch r c = Some c
          else case wh_MarshalPatches wh [\<lparr>pop_op = ''replace'', pop_path = ''/metadata/name'', pop_value = name\<rparr>] of
              Inr bs \<Rightarrow> admitted_as read_patch r c = Some (c\<lparr>om_name := name\<rparr>)
            | Inl e \<Rightarrow> \<not> ars_Allowed r \<and> ars_Result_Message r = Some (error_string e))"

lemma Rewrite_wanted:
  assumes "Rewrite wh req = Some r" "\<And>ps bs. wh_MarshalPatches wh ps = Inr bs \<Longrightarrow> read_patch bs = ps"
  shows "rename_wanted wh read_patch req (r\<lparr>ars_UID := arq_UID req\<rparr>)"
proof (cases "wh_DecodeCluster wh (arq_Object_Raw req)")
  case (Inl e)
  with assms(1) show ?thesis
    by (auto simp: Rewrite_def rename_wanted_def toV1AdmissionResponse_def split: if_splits)
next
  case (Inr c)
  show ?thesis
  proof (cases "mget (om_labels c) ''app.kubernetes.io/instance'' = ''''")
    case True
    with assms(1) Inr show ?thesis
      by (auto simp: Rewrite_def rename_wanted_def allowed_response_def admitted_as_def Let_def split: if_splits)
  next
    case False
    let ?ps = "[rename_patch (mget (om_labels c) ''app.kubernetes.io/instance'') (om_name c)]"
    show ?thesis
    proof (cases "wh_MarshalPatches wh ?ps")
      case (Inl e)
      with assms(1) Inr False have "\<not> ars_Allowed r \<and> ars_Result_Message r = Some (error_string e)"
        by (auto simp: Rewrite_def toV1AdmissionResponse_def Let_def split: if_splits)
      with Inl Inr False show ?thesis by (simp add: rename_wanted_def rename_patch_def Let_def)
    next
      case (Inr bs)
      with assms(1) \<open>wh_DecodeCluster _ _ = Inr c\<close> False
      have "r = allowed_response\<lparr>ars_PatchType := Some ''JSONPatch'', ars_Patch := bs\<rparr>"
        by (auto simp: Rewrite_def Let_def split: if_splits)
      with \<open>wh_DecodeCluster _ _ = Inr c\<close> False assms(2) [OF Inr] Inr show ?thesis
        by (simp add: rename_wanted_def admitted_as_def allowed_response_def rename_patch_def apply_op_def Let_def)
    qed
  qed
qed

text \<open>C36: To a well-formed review of a cluster the webhook answers with status 200 and a response with the
  identity of the request. What the API server makes of it: an object that is not a cluster is
  refused with the error; a cluster without the label of an application is admitted as it is; a
  labelled cluster is admitted under the name made of the label, a dash and its name, unless the
  patch could not be encoded, and then it is refused with that error. On a review of another resource
  the process panics.\<close>

theorem webhook_answers:
  assumes "wh_Decode wh body = Inr (AdmissionReview (Some req), review_kind)"
    and "\<And>r. \<exists>bytes. wh_MarshalReview wh r = Inr bytes \<and> read_review bytes = r"
    and "\<And>ps bs. wh_MarshalPatches wh ps = Inr bs \<Longrightarrow> read_patch bs = ps"
  shows "if arq_Resource req = cluster_resource
     then \<exists>bytes. ServeHTTP wh mem_writer (Some body) ''application/json'' w
              = (Inr (), w\<lparr>hw_status := 200, hw_body := hw_body w @ bytes\<rparr>)
            \<and> rename_wanted wh read_patch req (read_review bytes)
     else \<exists>s. fst (ServeHTTP wh mem_writer (Some body) ''application/json'' w) = Inl (Panic s)"
proof (cases "arq_Resource req = cluster_resource")
  case True
  then have "Rewrite wh req \<noteq> None" by (simp add: Rewrite_None)
  then obtain r where r: "Rewrite wh req = Some r" by blast
  obtain bytes where bytes: "wh_MarshalReview wh (r\<lparr>ars_UID := arq_UID req\<rparr>) = Inr bytes"
    "read_review bytes = r\<lparr>ars_UID := arq_UID req\<rparr>" using assms(2) by blast
  have "ServeHTTP wh mem_writer (Some body) ''application/json'' w
      = (Inr (), w\<lparr>hw_status := 200, hw_body := hw_body w @ bytes\<rparr>)"
    using assms(1) r bytes(1) by (simp add: ServeHTTP_def serveHTTP_def mem_writer_def io_defs)
  moreover have "rename_wanted wh read_patch req (read_review bytes)"
    unfolding bytes(2) by (rule Rewrite_wanted [OF r assms(3)])
  ultimately show ?thesis using True by auto
next
  case False
  then have "Rewrite wh req = None" by (simp add: Rewrite_None)
  with assms(1) have "fst (ServeHTTP wh mem_writer (Some body) ''application/json'' w) = Inl (Panic ''nil pointer dereference'')"
    by (simp add: ServeHTTP_def serveHTTP_def io_defs)
  with False show ?thesis by simp
qed

text \<open>A codec for the witness: texts with a length in unary.\<close>

fun put_text :: "string \<Rightarrow> string" where
  "put_text [] = '';''"
| "put_text (c # s) = CHR ''.'' # c # put_text s"

fun get_text :: "string \<Rightarrow> string \<times> string" where
  "get_text (x # c # s) = (if x = CHR ''.'' then (case get_text s of (t, rest) \<Rightarrow> (c # t, rest)) else ('''', c # s))"
| "get_text s = ('''', '''')"

lemma get_put_text: "get_text (put_text t @ s) = (t, s)"
proof (induction t)
  case Nil
  then show ?case by (cases s) auto
qed simp

definition put_review :: "admission_response \<Rightarrow> string" where
  "put_review r = put_text (ars_UID r) @ put_text (if ars_Allowed r then ''y'' else '''')
     @ put_text (case ars_Result_Message r of None \<Rightarrow> '''' | Some m \<Rightarrow> CHR ''m'' # m)
     @ put_text (case ars_PatchType r of None \<Rightarrow> '''' | Some m \<Rightarrow> CHR ''m'' # m) @ put_text (ars_Patch r)"

definition get_optional :: "string \<Rightarrow> string option" where
  "get_optional s = (case s of [] \<Rightarrow> None | c # m \<Rightarrow> Some m)"

definition get_review :: "string \<Rightarrow> admission_response" where
  "get_review s = (case get_text s of (u, s) \<Rightarrow> case get_text s of (a, s) \<Rightarrow> case get_text s of (m, s) \<Rightarrow>
     case get_text s of (t, s) \<Rightarrow> case get_text s of (p, s) \<Rightarrow>
     \<lparr>ars_UID = u, ars_Allowed = (a \<noteq> ''''), ars_Result_Message = get_optional m,
      ars_PatchType = get_optional t, ars_Patch = p\<rparr>)"

lemma get_put_review: "get_review (put_review r) = r"
  using get_put_text [where s = "''''"]
  by (cases r) (simp add: put_review_def get_review_def get_put_text get_optional_def split: option.split)

fun get_patches :: "nat \<Rightarrow> string \<Rightarrow> patch_op list" where
  "get_patches 0 s = []"
| "get_patches (Suc n) s = (case get_text s of (t, s) \<Rightarrow> case get_text s of (p, s) \<Rightarrow> case get_text s of (v, s) \<Rightarrow>
     \<lparr>pop_op = t, pop_path = p, pop_value = v\<rparr> # get_patches n s)"

definition put_patches :: "patch_op list \<Rightarrow> string" where
  "put_patches ps = put_text (replicate (length ps) (CHR ''i''))
     @ concat (map (\<lambda>p. put_text (pop_op p) @ put_text (pop_path p) @ put_text (pop_value p)) ps)"

definition read_patches :: "string \<Rightarrow> patch_op list" where
  "read_patches s = (case get_text s of (n, s) \<Rightarrow> get_patches (length n) s)"

lemma read_put_patches: "read_patches (put_patches ps) = ps"
proof -
  have "get_patches (length ps) (concat (map (\<lambda>p. put_text (pop_op p) @ put_text (pop_path p) @ put_text (pop_value p)) ps)) = ps"
    by (induction ps) (simp_all add: get_put_text)
  then show ?thesis by (simp add: read_patches_def put_patches_def get_put_text)
qed

definition demo_webhook :: webhook where
  "demo_webhook = \<lparr>
     wh_Decode = (\<lambda>body. Inr (AdmissionReview (Some \<lparr>arq_UID = ''u1'',
        arq_Resource = (if body = ''c'' then cluster_resource else ('''', ''v1'', ''pods'')),
        arq_Object_Raw = body\<rparr>), review_kind)),
     wh_DecodeCluster = (\<lambda>raw. Inr ((named_meta ''wc1'' ''default'')
        \<lparr>om_labels := mlit [(''app.kubernetes.io/instance'', ''prod'')]\<rparr>)),
     wh_MarshalPatches = (\<lambda>ps. Inr (put_patches ps)),
     wh_MarshalReview = (\<lambda>r. Inr (put_review r))\<rparr>"

text \<open>The labelled cluster \<open>wc1\<close> is admitted as \<open>prod-wc1\<close>; on a pod the process panics.\<close>

lemma webhook_answers_witness:
  "(\<exists>bytes. ServeHTTP demo_webhook mem_writer (Some ''c'') ''application/json'' \<lparr>hw_status = 0, hw_body = ''''\<rparr>
       = (Inr (), \<lparr>hw_status = 200, hw_body = bytes\<rparr>)
     \<and> map_option om_name (admitted_as read_patches (get_review bytes) ((named_meta ''wc1'' ''default'')
        \<lparr>om_labels := mlit [(''app.kubernetes.io/instance'', ''prod'')]\<rparr>)) = Some ''prod-wc1'')
   \<and> (\<exists>s. fst (ServeHTTP demo_webhook mem_writer (Some ''p'') ''application/json'' \<lparr>hw_status = 0, hw_body = ''''\<rparr>)
      = Inl (Panic s))"
proof -
  let ?c = "\<lparr>arq_UID = ''u1'', arq_Resource = cluster_resource, arq_Object_Raw = ''c''\<rparr>"
  let ?p = "\<lparr>arq_UID = ''u1'', arq_Resource = ('''', ''v1'', ''pods''), arq_Object_Raw = ''p''\<rparr>"
  let ?w = "\<lparr>hw_status = 0, hw_body = ''''\<rparr>"
  let ?m = "(named_meta ''wc1'' ''default'')\<lparr>om_labels := mlit [(''app.kubernetes.io/instance'', ''prod'')]\<rparr>"
  have c: "wh_Decode demo_webhook ''c'' = Inr (AdmissionReview (Some ?c), review_kind)"
    and p: "wh_Decode demo_webhook ''p'' = Inr (AdmissionReview (Some ?p), review_kind)"
    by (simp_all add: demo_webhook_def)
  have codec: "\<exists>bytes. wh_MarshalReview demo_webhook r = Inr bytes \<and> get_review bytes = r"
    "\<And>ps bs. wh_MarshalPatches demo_webhook ps = Inr bs \<Longrightarrow> read_patches bs = ps" for r
    by (auto simp: demo_webhook_def get_put_review read_put_patches)
  have m: "wh_DecodeCluster demo_webhook ''c'' = Inr ?m" by (simp add: demo_webhook_def)
  from webhook_answers [where read_patch = read_patches and read_review = get_review and w = ?w, OF c codec] obtain bytes where
    bytes: "ServeHTTP demo_webhook mem_writer (Some ''c'') ''application/json'' ?w = (Inr (), \<lparr>hw_status = 200, hw_body = bytes\<rparr>)"
    "rename_wanted demo_webhook read_patches ?c (get_review bytes)" by auto
  from bytes(2) have "admitted_as read_patches (get_review bytes) ?m = Some (?m\<lparr>om_name := ''prod-wc1''\<rparr>)"
    by (simp add: rename_wanted_def m named_meta_def demo_webhook_def Let_def)
  with bytes(1) webhook_answers [where read_patch = read_patches and read_review = get_review and w = ?w, OF p codec] show ?thesis by (auto simp: cluster_resource_def)
qed

end
