(* ===== verification/Install.thy ===== *)
theory Install
  imports Quiet
begin

text \<open>
  Installing what Arlon needs (\<open>pkg/install\<close>, \<open>cmd/install\<close>, \<open>cmd/verify\<close>): the providers of Cluster API
  with their prerequisites, the command line tools, and the check that everything is there. The process
  environment, the programs that are run, clusterctl and the terminal are parameters.
\<close>

section \<open>The world of an installer\<close>

record init_options =
  ino_Kubeconfig :: string
  ino_CoreProvider :: string
  ino_BootstrapProviders :: "string list"
  ino_InfrastructureProviders :: "string list"

record 'w install_env =
  ie_Getenv :: "string \<Rightarrow> ('w, string) io"
  ie_Setenv :: "string \<Rightarrow> string \<Rightarrow> ('w, unit) io"
  ie_AskToProceed :: "string \<Rightarrow> ('w, bool) io"
  ie_Yellow :: "string \<Rightarrow> string"
  ie_GetArgs :: "('w, string list) io"
  ie_SetArgs :: "string list \<Rightarrow> ('w, unit) io"
  ie_ParseFlags :: "('w, unit) io"
  ie_Clusterawsadm :: "('w, unit) io"
  ie_NewAWSCredential :: "string \<Rightarrow> ('w, string) io"
  ie_RenderProfile :: "string \<Rightarrow> ('w, string) io"
  ie_NewClusterctl :: "('w, unit) io"
  ie_NewConfig :: "('w, unit) io"
  ie_GetDefaultProviderName :: "('w, string) io"
  ie_Init :: "init_options \<Rightarrow> ('w, unit) io"
  ie_LookPath :: "string \<Rightarrow> ('w, unit) io"
  ie_Exec :: "string \<Rightarrow> string list \<Rightarrow> ('w, string) io"
  ie_GOOS :: string

text \<open>
  The errors of the installers: \<open>ErrBootstrap\<close> says whether the installation can go on. The functions
  return \<open>None\<close> for a nil error.
\<close>

datatype install_error = ErrBootstrap bool string | OtherError go_error

definition or_fail :: "('w, 'a) io \<Rightarrow> ('a \<Rightarrow> ('w, install_error option) io) \<Rightarrow> ('w, install_error option) io" where
  "or_fail m k = attempt m (\<lambda>err. ret (Some (OtherError err))) k"

section \<open>The installers\<close>

datatype installer = awsInstaller bool | dockerInstaller

definition NewInstallerService :: "string \<Rightarrow> bool \<Rightarrow> go_error + installer" where
  "NewInstallerService provider silence =
     (if provider = ''aws'' then Inr (awsInstaller silence)
      else if provider = ''docker'' then Inr dockerInstaller
      else Inl (ErrorText ''invalid provider''))"

definition envRegion :: string where "envRegion = ''AWS_REGION''"
definition envAccessKeyID :: string where "envAccessKeyID = ''AWS_ACCESS_KEY_ID''"
definition envSecretAccessKey :: string where "envSecretAccessKey = ''AWS_SECRET_ACCESS_KEY''"
definition envSessionToken :: string where "envSessionToken = ''AWS_SESSION_TOKEN''"
definition envSSHKeyName :: string where "envSSHKeyName = ''AWS_SSH_KEY_NAME''"
definition envCtrlPlaneMachine :: string where "envCtrlPlaneMachine = ''AWS_CONTROL_PLANE_MACHINE_TYPE''"
definition envNodeMachine :: string where "envNodeMachine = ''AWS_NODE_MACHINE_TYPE''"
definition envAWSB64Creds :: string where "envAWSB64Creds = ''AWS_B64ENCODED_CREDENTIALS''"
definition envFeatureGateMachinePool :: string where "envFeatureGateMachinePool = ''EXP_MACHINE_POOL''"

record required_env =
  re_name :: string
  re_hardFail :: bool
  re_msg :: string

definition requiredEnvs :: "required_env list" where
  "requiredEnvs =
     [\<lparr>re_name = envRegion, re_hardFail = True, re_msg = ''''\<rparr>,
      \<lparr>re_name = envAccessKeyID, re_hardFail = True, re_msg = ''''\<rparr>,
      \<lparr>re_name = envSecretAccessKey, re_hardFail = True, re_msg = ''''\<rparr>,
      \<lparr>re_name = envSessionToken, re_hardFail = False,
        re_msg = envSessionToken @ '' environment variable not set. MFA enabled accounts will not work.''\<rparr>,
      \<lparr>re_name = envSSHKeyName, re_hardFail = True, re_msg = ''''\<rparr>,
      \<lparr>re_name = envCtrlPlaneMachine, re_hardFail = True, re_msg = ''''\<rparr>,
      \<lparr>re_name = envNodeMachine, re_hardFail = True, re_msg = ''''\<rparr>]"

definition recoverOnFail :: "'w install_env \<Rightarrow> bool \<Rightarrow> string \<Rightarrow> ('w, bool) io" where
  "recoverOnFail env silence message =
     (if \<not> silence then ie_AskToProceed env (message @ ''. Continue?[y/n]'') else ret True)"

fun ensure_envs :: "'w install_env \<Rightarrow> bool \<Rightarrow> required_env list \<Rightarrow> ('w, install_error option) io" where
  "ensure_envs env silence [] = ret None"
| "ensure_envs env silence (e # es) =
     andThen (ie_Getenv env (re_name e)) (\<lambda>val.
     if length val = 0 then
       if re_hardFail e then
         ret (Some (ErrBootstrap (re_hardFail e) (re_name e @ '' environment variable not set'')))
       else if \<not> silence then
         andThen (recoverOnFail env silence (re_msg e)) (\<lambda>ok.
         if \<not> ok then ret (Some (ErrBootstrap True (re_name e @ '' environment variable not set'')))
         else ensure_envs env silence es)
       else ensure_envs env silence es
     else ensure_envs env silence es)"

definition aws_EnsureRequisites :: "'w install_env \<Rightarrow> bool \<Rightarrow> ('w, install_error option) io" where
  "aws_EnsureRequisites env silence = ensure_envs env silence requiredEnvs"

text \<open>The end of the bootstrap: the credentials for the controllers.\<close>

definition export_credentials :: "'w install_env \<Rightarrow> ('w, install_error option) io" where
  "export_credentials env =
     andThen (ie_Getenv env envRegion) (\<lambda>region.
     or_fail (ie_NewAWSCredential env region) (\<lambda>awsCreds.
     or_fail (ie_RenderProfile env awsCreds) (\<lambda>out.
     or_fail (ie_Setenv env envAWSB64Creds out) (\<lambda>_. ret None))))"

definition aws_Bootstrap :: "'w install_env \<Rightarrow> bool \<Rightarrow> ('w, install_error option) io" where
  "aws_Bootstrap env silence =
     attempt (ie_Setenv env envFeatureGateMachinePool ''true'')
       (\<lambda>_. ret (Some (ErrBootstrap True (''Cannot enable AWS machine pool feature gate. ''
          @ ''Cannot set environment variable EXP_MACHINE_POOL to true''))))
       (\<lambda>_.
     andThen (ie_GetArgs env) (\<lambda>ogArgs.
     deferring (ie_SetArgs env ogArgs)
       (andThen (ie_SetArgs env [''clusterawsadm'', ''bootstrap'', ''iam'', ''create-cloudformation-stack'']) (\<lambda>_.
        or_fail (ie_ParseFlags env) (\<lambda>_.
        attempt (ie_Clusterawsadm env)
          (\<lambda>err. andThen (recoverOnFail env silence
               (''Error when creating cloud-formation-stack and IAM roles. This may be caused by ''
                @ ''pre-existing IAM roles and may result in a working installation.''))
             (\<lambda>ok. if \<not> ok then ret (Some (OtherError err)) else export_credentials env))
          (\<lambda>_. export_credentials env))))))"

definition EnsureRequisites :: "'w install_env \<Rightarrow> installer \<Rightarrow> ('w, install_error option) io" where
  "EnsureRequisites env inst = (case inst of
       awsInstaller silence \<Rightarrow> aws_EnsureRequisites env silence | dockerInstaller \<Rightarrow> ret None)"

definition installer_Bootstrap :: "'w install_env \<Rightarrow> installer \<Rightarrow> ('w, install_error option) io" where
  "installer_Bootstrap env inst = (case inst of
       awsInstaller silence \<Rightarrow> aws_Bootstrap env silence | dockerInstaller \<Rightarrow> ret None)"

section \<open>Installing Cluster API\<close>

text \<open>What happens with the error of a step: a hard one and any other error end the installation, a soft
  one asks.\<close>

definition handle_error ::
  "'w install_env \<Rightarrow> string \<Rightarrow> install_error option \<Rightarrow> ('w, install_error option) io \<Rightarrow> ('w, install_error option) io"
where
  "handle_error env name err continue = (case err of
       None \<Rightarrow> continue
     | Some (ErrBootstrap hardFail m) \<Rightarrow>
         if hardFail then ret err
         else andThen (ie_AskToProceed env (ie_Yellow env ''Warning'' @ '' failed to perform bootstrap steps for ''
                @ name @ [CHR 0x0A] @ ''. Continue(CAPI provider may not succeed)?[y/n]''))
              (\<lambda>ok. if \<not> ok then ret err else continue)
     | Some (OtherError e) \<Rightarrow> ret err)"

fun bootstrap_providers :: "'w install_env \<Rightarrow> bool \<Rightarrow> string list \<Rightarrow> ('w, install_error option) io" where
  "bootstrap_providers env noConfirm [] = ret None"
| "bootstrap_providers env noConfirm (name # names) =
     (case NewInstallerService name noConfirm of
        Inl err \<Rightarrow> ret (Some (OtherError err))
      | Inr inst \<Rightarrow>
          andThen (EnsureRequisites env inst) (\<lambda>err.
          handle_error env name err
            (andThen (installer_Bootstrap env inst) (\<lambda>err.
             handle_error env name err (bootstrap_providers env noConfirm names)))))"

definition provider_name :: "string \<Rightarrow> string" where
  "provider_name provider = hd (split_on (CHR '':'') provider)"

text \<open>An error of the lookup counts as a first run.\<close>

definition isFirstRun :: "'w install_env \<Rightarrow> ('w, bool) io" where
  "isFirstRun env = attempt (ie_GetDefaultProviderName env) (\<lambda>_. ret True) (\<lambda>p. ret (p = ''''))"

text \<open>The half of \<open>installCAPI\<close> after the loop over the providers.\<close>

definition capi_init :: "'w install_env \<Rightarrow> path \<Rightarrow> string \<Rightarrow> string list \<Rightarrow> string list \<Rightarrow> ('w, install_error option) io" where
  "capi_init env kubeconfigPath coreProviderVersion infrastructureProviders bootstrapProviders =
     or_fail (ie_NewClusterctl env) (\<lambda>_.
     or_fail (ie_NewConfig env) (\<lambda>_.
     andThen (isFirstRun env) (\<lambda>first.
     or_fail (ie_Init env \<lparr>ino_Kubeconfig = kubeconfigPath,
         ino_CoreProvider = (if first then coreProviderVersion else ''''),
         ino_BootstrapProviders = bootstrapProviders,
         ino_InfrastructureProviders = infrastructureProviders\<rparr>) (\<lambda>_. ret None))))"

definition installCAPI ::
  "'w install_env \<Rightarrow> path \<Rightarrow> string \<Rightarrow> string list \<Rightarrow> string list \<Rightarrow> bool \<Rightarrow> ('w, install_error option) io" where
  "installCAPI env kubeconfigPath coreProviderVersion infrastructureProviders bootstrapProviders noConfirm =
     andThen (bootstrap_providers env noConfirm (map provider_name infrastructureProviders)) (\<lambda>err. case err of
       Some e \<Rightarrow> ret (Some e)
     | None \<Rightarrow> capi_init env kubeconfigPath coreProviderVersion infrastructureProviders bootstrapProviders)"

section \<open>The command line tools\<close>

definition defaultKubectlPath :: path where
  "defaultKubectlPath = ''/usr/local/bin/kubectl''"

definition defaultArgocdPath :: path where
  "defaultArgocdPath = ''/usr/local/bin/argocd''"

definition ErrKubectlPresent :: go_error where
  "ErrKubectlPresent = Sentinel ''install.ErrKubectlPresent''
     ''kubectl is already present at default(/usr/local/bin/kubectl) location or user specifed location''"

definition ErrGitPresent :: go_error where
  "ErrGitPresent = Sentinel ''install.ErrGitPresent'' ''git is already installed''"

definition ErrArgoCDPresent :: go_error where
  "ErrArgoCDPresent = Sentinel ''install.ErrArgoCDPresent''
     ''argocd is already present at default(/usr/local/bin/argocd) location or user specifed location''"

definition ErrKubectlFail :: go_error where
  "ErrKubectlFail = Sentinel ''install.ErrKubectlFail'' ''error installing kubectl''"

definition ErrArgoCDFail :: go_error where
  "ErrArgoCDFail = Sentinel ''install.ErrArgoCDFail'' ''error installing argocd''"

definition ErrCurlMissing :: go_error where
  "ErrCurlMissing = Sentinel ''install.ErrCurlMissing'' ''please install curl and set it in path''"

definition run_command :: "'w install_env \<Rightarrow> string \<Rightarrow> string list \<Rightarrow> ('w, unit) io" where
  "run_command env prog args = andThen (ie_Exec env prog args) (\<lambda>_. ret ())"

definition downloadKubectlLatest :: "'w install_env \<Rightarrow> path \<Rightarrow> ('w, unit) io" where
  "downloadKubectlLatest env kubectlPath =
     andThen (ie_Exec env ''curl'' [''-sL'', ''https://storage.googleapis.com/kubernetes-release/release/stable.txt''])
       (\<lambda>ver.
     let base = ''https://storage.googleapis.com/kubernetes-release/release/'' @ ver @ ''/bin/'' @ ie_GOOS env @ ''/amd64/kubectl'';
         downloadKubectl = (if ie_GOOS env = ''windows'' then base @ ''.exe'' else base) in
     run_command env ''sudo'' [''curl'', ''-o'', kubectlPath, ''-LO'', downloadKubectl])"

definition installKubectlPlatform :: "'w install_env \<Rightarrow> path \<Rightarrow> ('w, unit) io" where
  "installKubectlPlatform env kubectlPath =
     (if ie_GOOS env = ''windows'' then
        must (ie_LookPath env ''curl'') (\<lambda>_. ErrCurlMissing) (\<lambda>_. downloadKubectlLatest env kubectlPath)
      else
        andThen (downloadKubectlLatest env kubectlPath) (\<lambda>_.
        run_command env ''sudo'' [''chmod'', ''+x'', kubectlPath]))"

definition downloadArgoCD :: "'w install_env \<Rightarrow> path \<Rightarrow> ('w, unit) io" where
  "downloadArgoCD env argocdPath =
     (let base = ''https://github.com/argoproj/argo-cd/releases/download/v2.4.18/argocd-'' @ ie_GOOS env @ ''-amd64'';
          downloadLink = (if ie_GOOS env = ''windows'' then base @ ''.exe'' else base) in
      run_command env ''sudo'' [''curl'', ''-o'', argocdPath, ''-LO'', downloadLink])"

text \<open>The error of the download is printed and forgotten.\<close>

definition installArgoCDPlatform :: "'w install_env \<Rightarrow> path \<Rightarrow> ('w, unit) io" where
  "installArgoCDPlatform env argocdPath =
     (if ie_GOOS env = ''windows'' then
        must (ie_LookPath env ''curl'') (\<lambda>_. ErrCurlMissing) (\<lambda>_.
        ignoring (downloadArgoCD env argocdPath) (ret ()))
      else
        ignoring (downloadArgoCD env argocdPath)
          (run_command env ''sudo'' [''chmod'', ''+x'', argocdPath]))"

text \<open>Installing a tool unless it is at the default or the given location; the result comes with an error,
  which also says that there was nothing to do.\<close>

definition install_tool ::
  "'w install_env \<Rightarrow> path \<Rightarrow> path \<Rightarrow> ('w, unit) io \<Rightarrow> go_error \<Rightarrow> go_error \<Rightarrow> ('w, bool \<times> go_error option) io" where
  "install_tool env defaultPath toolPath install_it present failed =
     attempt (ie_LookPath env defaultPath)
       (\<lambda>_. attempt (ie_LookPath env toolPath)
          (\<lambda>_. attempt install_it (\<lambda>_. ret (False, Some failed)) (\<lambda>_. ret (True, None)))
          (\<lambda>_. ret (True, Some present)))
       (\<lambda>_. ret (True, Some present))"

definition installKubectl :: "'w install_env \<Rightarrow> path \<Rightarrow> ('w, bool \<times> go_error option) io" where
  "installKubectl env kubectlPath = install_tool env defaultKubectlPath kubectlPath
     (installKubectlPlatform env kubectlPath) ErrKubectlPresent ErrKubectlFail"

definition installArgoCD :: "'w install_env \<Rightarrow> path \<Rightarrow> ('w, bool \<times> go_error option) io" where
  "installArgoCD env argocdPath = install_tool env defaultArgocdPath argocdPath
     (installArgoCDPlatform env argocdPath) ErrArgoCDPresent ErrArgoCDFail"

definition install_verifyGit :: "'w install_env \<Rightarrow> ('w, bool \<times> go_error option) io" where
  "install_verifyGit env = attempt (ie_LookPath env ''git'') (\<lambda>err. ret (False, Some err))
     (\<lambda>_. ret (True, Some ErrGitPresent))"

text \<open>The messages that are printed follow from the three errors, which stand for them here.\<close>

definition installCLITools :: "'w install_env \<Rightarrow> path \<Rightarrow> path \<Rightarrow> ('w, go_error option list) io" where
  "installCLITools env kubectlPath argocdPath =
     andThen (installKubectl env kubectlPath) (\<lambda>(_, e1).
     andThen (install_verifyGit env) (\<lambda>(_, e2).
     andThen (installArgoCD env argocdPath) (\<lambda>(_, e3). ret [e1, e2, e3])))"

text \<open>\<open>arlon install\<close>: neither flag means both parts.\<close>

definition install_command ::
  "'w install_env \<Rightarrow> path \<Rightarrow> path \<Rightarrow> path \<Rightarrow> string \<Rightarrow> string list \<Rightarrow> string list \<Rightarrow> bool \<Rightarrow> bool \<Rightarrow> bool \<Rightarrow>
   ('w, install_error option) io" where
  "install_command env kubectlPath argocdPath kubeconfigPath capiCoreProvider infraProviders bootstrapProviders
     capiOnly toolsOnly noConfirm =
     (let neither = (\<not> toolsOnly \<and> \<not> capiOnly);
          isToolsOnly = (toolsOnly \<or> neither);
          isCapiOnly = (capiOnly \<or> neither);
          capi = (if isCapiOnly then installCAPI env kubeconfigPath capiCoreProvider infraProviders bootstrapProviders noConfirm
            else ret None) in
      if isToolsOnly then andThen (installCLITools env kubectlPath argocdPath) (\<lambda>_. capi) else capi)"

section \<open>Checking the installation\<close>

record 'w verify_env =
  ve_ClientConfig :: "('w, string) io"
  ve_Getenv :: "string \<Rightarrow> ('w, string) io"
  ve_LookPath :: "string \<Rightarrow> ('w, unit) io"
  ve_Exec :: "string \<Rightarrow> string list \<Rightarrow> ('w, string) io"
  ve_BuildConfig :: "string \<Rightarrow> ('w, string) io"
  ve_NewForConfig :: "string \<Rightarrow> ('w, string \<Rightarrow> ('w, unit) io) io"

definition verify_error :: "string \<Rightarrow> string \<Rightarrow> go_error" where
  "verify_error n t = Sentinel (''verify.'' @ n) t"

definition ErrNs :: go_error where
  "ErrNs = verify_error ''ErrNs'' ''failed to get the namespace''"

text \<open>The client gets namespaces; making it ends the process when it fails.\<close>

definition checkNamespace :: "'w verify_env \<Rightarrow> string \<Rightarrow> string \<Rightarrow> ('w, unit) io" where
  "checkNamespace env config namespace =
     attempt (ve_NewForConfig env config) (\<lambda>e. panic (error_string e)) (\<lambda>getNamespace.
     attempt (getNamespace namespace) (\<lambda>_. fail ErrNs) ret)"

definition verifyKubectl :: "'w verify_env \<Rightarrow> string \<Rightarrow> ('w, unit) io" where
  "verifyKubectl env kubeconfigPath =
     must (ve_LookPath env ''kubectl'')
       (\<lambda>_. verify_error ''ErrKubectlInstall'' ''kubectl is not installed or missing in your $PATH'') (\<lambda>_.
     if length kubeconfigPath = 0 then fail (verify_error ''ErrKubeConfigMissing'' ''KUBECONFIG must be set'')
     else
       must (ve_BuildConfig env kubeconfigPath) (\<lambda>_. verify_error ''ErrKubectlSet'' ''error setting kubeconfig'') (\<lambda>config.
       must (checkNamespace env config ''kube-system'')
         (\<lambda>_. verify_error ''ErrKcPermission'' ''set the kubeconfig or kubeconfig does not have required access'') ret))"

definition verifyArgoCD :: "'w verify_env \<Rightarrow> ('w, unit) io" where
  "verifyArgoCD env =
     must (ve_LookPath env ''argocd'')
       (\<lambda>_. verify_error ''ErrArgoCD'' ''argocd is not installed or missing in your $PATH'') (\<lambda>_.
     must (ve_Exec env ''argocd'' [''account'', ''list''])
       (\<lambda>_. verify_error ''ErrArgoCDAuthToken'' ''ArgoCD authentication token has expired. Login to ArgoCD again'')
       (\<lambda>_. ret ()))"

definition verifyGit :: "'w verify_env \<Rightarrow> ('w, unit) io" where
  "verifyGit env = must (ve_LookPath env ''git'')
     (\<lambda>_. verify_error ''ErrGit'' ''git is not installed or missing in your $PATH'') ret"

definition verifyArlon :: "'w verify_env \<Rightarrow> string \<Rightarrow> ('w, unit) io" where
  "verifyArlon env config = must (checkNamespace env config ''arlon'')
     (\<lambda>_. verify_error ''ErrArlonNs'' ''arlon is not installed or missing in your $PATH'') ret"

definition verifyCapi :: "'w verify_env \<Rightarrow> string \<Rightarrow> ('w, unit) io" where
  "verifyCapi env config = must (checkNamespace env config ''capi-system'')
     (\<lambda>_. verify_error ''ErrCapi'' ''capi services are not installed or missing in your $PATH'') ret"

text \<open>A check whose error is only printed; its status.\<close>

definition status_of :: "('w, unit) io \<Rightarrow> (bool \<Rightarrow> ('w, 'a) io) \<Rightarrow> ('w, 'a) io" where
  "status_of m k = attempt m (\<lambda>_. k False) (\<lambda>_. k True)"

text \<open>The verdict that is printed; the command itself succeeds whatever the verdict.\<close>

definition verify :: "'w verify_env \<Rightarrow> ('w, bool) io" where
  "verify env =
     must (ve_ClientConfig env) (\<lambda>_. ErrorText ''failed to get k8s client config'') (\<lambda>config.
     andThen (ve_Getenv env ''KUBECONFIG'') (\<lambda>kubeconfigPath.
     status_of (verifyKubectl env kubeconfigPath) (\<lambda>kubectlStatus.
     status_of (verifyArgoCD env) (\<lambda>argoStatus.
     status_of (verifyGit env) (\<lambda>gitStatus.
     status_of (verifyCapi env config) (\<lambda>capiStatus.
     status_of (verifyArlon env config) (\<lambda>arlonStatus.
     ret (kubectlStatus \<and> argoStatus \<and> gitStatus \<and> arlonStatus \<and> capiStatus))))))))"


section \<open>Cluster API is initialised once, and only on met requisites\<close>

text \<open>
  \<open>vars\<close> reads the environment of the process, \<open>inits\<close> the successful initialisations of Cluster API so far,
  \<open>core\<close> the core provider of the management cluster (empty when it has none). Reading a variable gives its value, setting one changes only it, clusterctl's \<open>Init\<close> initialises when it
  succeeds, and nothing else touches either.
\<close>

definition lawful_install ::
  "'w install_env \<Rightarrow> ('w \<Rightarrow> init_options list) \<Rightarrow> ('w \<Rightarrow> string) \<Rightarrow> ('w \<Rightarrow> string \<Rightarrow> string) \<Rightarrow> bool" where
  "lawful_install env inits core vars \<longleftrightarrow>
     (\<forall>k w. ie_Getenv env k w = (Inr (vars w k), w)) \<and>
     (\<forall>k x w. inits (snd (ie_Setenv env k x w)) = inits w \<and> core (snd (ie_Setenv env k x w)) = core w \<and>
        (\<forall>k'. k' \<noteq> k \<longrightarrow> vars (snd (ie_Setenv env k x w)) k' = vars w k')) \<and>
     (\<forall>opts w r w'. ie_Init env opts w = (r, w') \<longrightarrow> vars w' = vars w \<and>
        inits w' = (case r of Inr _ \<Rightarrow> inits w @ [opts] | Inl _ \<Rightarrow> inits w)) \<and>
     (let v = (\<lambda>w. (inits w, core w, vars w)) in
        (\<forall>m. steady v (ie_AskToProceed env m)) \<and> steady v (ie_GetArgs env) \<and> (\<forall>a. steady v (ie_SetArgs env a)) \<and>
        steady v (ie_ParseFlags env) \<and> steady v (ie_Clusterawsadm env) \<and> (\<forall>r. steady v (ie_NewAWSCredential env r)) \<and>
        (\<forall>c. steady v (ie_RenderProfile env c)) \<and> steady v (ie_NewClusterctl env) \<and> steady v (ie_NewConfig env) \<and>
        steady v (ie_GetDefaultProviderName env) \<and>
        (\<forall>w p. fst (ie_GetDefaultProviderName env w) = Inr p \<longrightarrow> p = core w))"

text \<open>The variables a run depends on, and the initialisations so far.\<close>

definition needed_vars :: "string list" where
  "needed_vars = map re_name requiredEnvs"

definition install_view :: "('w \<Rightarrow> init_options list) \<Rightarrow> ('w \<Rightarrow> string) \<Rightarrow> ('w \<Rightarrow> string \<Rightarrow> string) \<Rightarrow> 'w \<Rightarrow>
   init_options list \<times> string \<times> string list" where
  "install_view inits core vars w = (inits w, core w, map (vars w) needed_vars)"

lemma lawful_steady:
  assumes "lawful_install env inits core vars"
  shows "steady (install_view inits core vars) (ie_AskToProceed env m)" "steady (install_view inits core vars) (ie_GetArgs env)"
    "steady (install_view inits core vars) (ie_SetArgs env a)" "steady (install_view inits core vars) (ie_ParseFlags env)"
    "steady (install_view inits core vars) (ie_Clusterawsadm env)" "steady (install_view inits core vars) (ie_NewAWSCredential env rg)"
    "steady (install_view inits core vars) (ie_RenderProfile env c)" "steady (install_view inits core vars) (ie_NewClusterctl env)"
    "steady (install_view inits core vars) (ie_NewConfig env)" "steady (install_view inits core vars) (ie_GetDefaultProviderName env)"
    "steady (install_view inits core vars) (ie_Getenv env k)"
  using assms by (auto simp: lawful_install_def Let_def steady_def install_view_def)

lemma lawful_Setenv:
  assumes "lawful_install env inits core vars" "k \<notin> set needed_vars"
  shows "steady (install_view inits core vars) (ie_Setenv env k x)"
proof -
  have "vars (snd (ie_Setenv env k x w)) k' = vars w k'" if "k' \<in> set needed_vars" for k' w
    using assms that unfolding lawful_install_def by metis
  moreover have "inits (snd (ie_Setenv env k x w)) = inits w \<and> core (snd (ie_Setenv env k x w)) = core w" for w
    using assms(1) unfolding lawful_install_def by blast
  ultimately show ?thesis by (simp add: steady_def install_view_def)
qed

text \<open>What a set of variables lets the installer of AWS do without asking.\<close>

definition requisites_met :: "(string \<Rightarrow> string) \<Rightarrow> bool" where
  "requisites_met vs \<longleftrightarrow> (\<forall>e \<in> set requiredEnvs. re_hardFail e \<longrightarrow> vs (re_name e) \<noteq> '''')"

lemma ensure_envs_silent:
  assumes "\<And>k w. ie_Getenv env k w = (Inr (vars w k), w)"
  shows "ensure_envs env True es w = (Inr (map_option
     (\<lambda>e. ErrBootstrap True (re_name e @ '' environment variable not set''))
     (find (\<lambda>e. re_hardFail e \<and> vars w (re_name e) = '''') es)), w)"
  by (induction es) (simp_all add: assms andThen_def attempt_def ret_def)

text \<open>The names of the environment variables differ.\<close>

lemmas env_names = envRegion_def envAccessKeyID_def envSecretAccessKey_def envSessionToken_def envSSHKeyName_def
  envCtrlPlaneMachine_def envNodeMachine_def envAWSB64Creds_def envFeatureGateMachinePool_def

lemma steady_export_credentials:
  "lawful_install env inits core vars \<Longrightarrow> steady (install_view inits core vars) (export_credentials env)"
  by (auto simp: export_credentials_def or_fail_def lawful_steady lawful_Setenv needed_vars_def requiredEnvs_def env_names
      intro!: steady_intros)

lemma steady_aws_Bootstrap:
  "lawful_install env inits core vars \<Longrightarrow> steady (install_view inits core vars) (aws_Bootstrap env True)"
  by (auto simp: aws_Bootstrap_def recoverOnFail_def or_fail_def lawful_steady lawful_Setenv steady_export_credentials
      needed_vars_def requiredEnvs_def env_names intro!: steady_intros)

lemma requisites_met_view:
  "install_view inits core vars w' = install_view inits core vars w \<Longrightarrow>
   requisites_met (vars w') = requisites_met (vars w)"
  by (auto simp: install_view_def requisites_met_def needed_vars_def)

lemma aws_EnsureRequisites_silent:
  assumes "\<And>k w. ie_Getenv env k w = (Inr (vars w k), w)"
  shows "aws_EnsureRequisites env True w = (Inr err, w') \<Longrightarrow> w' = w \<and> (err = None \<longleftrightarrow> requisites_met (vars w))"
  by (auto simp: aws_EnsureRequisites_def ensure_envs_silent [of env vars, OF assms] requisites_met_def find_None_iff)


text \<open>What the loop over the providers has established when it ends without an error.\<close>

definition provider_ready :: "(string \<Rightarrow> string) \<Rightarrow> string \<Rightarrow> bool" where
  "provider_ready vs name \<longleftrightarrow> name = ''docker'' \<or> name = ''aws'' \<and> requisites_met vs"

lemma steady_EnsureRequisites:
  assumes "lawful_install env inits core vars"
  shows "steady (install_view inits core vars) (EnsureRequisites env inst)"
proof -
  have "steady (install_view inits core vars) (ensure_envs env b es)" for b es
    by (induction es) (auto simp: recoverOnFail_def lawful_steady [OF assms] intro!: steady_intros)
  then show ?thesis
    by (simp add: EnsureRequisites_def aws_EnsureRequisites_def steady_ret split: installer.splits)
qed

lemma steady_installer_Bootstrap:
  "lawful_install env inits core vars \<Longrightarrow> NewInstallerService n True = Inr inst \<Longrightarrow>
   steady (install_view inits core vars) (installer_Bootstrap env inst)"
  by (auto simp: installer_Bootstrap_def NewInstallerService_def steady_aws_Bootstrap steady_ret split: if_splits)

lemma EnsureRequisites_ready:
  assumes "lawful_install env inits core vars" "NewInstallerService n True = Inr inst"
    "EnsureRequisites env inst w = (Inr err, w')"
  shows "(err = None \<longleftrightarrow> provider_ready (vars w) n) \<and> (\<forall>m. err \<noteq> Some (ErrBootstrap False m))"
proof -
  have g: "\<And>k w. ie_Getenv env k w = (Inr (vars w k), w)"
    using assms(1) unfolding lawful_install_def by blast
  have "n = ''docker'' \<and> inst = dockerInstaller \<or> n = ''aws'' \<and> inst = awsInstaller True"
    using assms(2) by (simp add: NewInstallerService_def split: if_splits)
  then show ?thesis
  proof
    assume "n = ''docker'' \<and> inst = dockerInstaller"
    with assms(3) show ?thesis by (auto simp: EnsureRequisites_def ret_def provider_ready_def)
  next
    assume n: "n = ''aws'' \<and> inst = awsInstaller True"
    then have e: "aws_EnsureRequisites env True w = (Inr err, w')"
      using assms(3) by (simp add: EnsureRequisites_def)
    from n aws_EnsureRequisites_silent [OF g e] show ?thesis
      using e by (auto simp: provider_ready_def aws_EnsureRequisites_def ensure_envs_silent [of env vars, OF g])
  qed
qed

lemma steady_handle_error:
  "lawful_install env inits core vars \<Longrightarrow> steady (install_view inits core vars) k \<Longrightarrow>
   steady (install_view inits core vars) (handle_error env n err k)"
  by (auto simp: handle_error_def lawful_steady split: option.splits install_error.splits intro!: steady_intros)

lemma steady_bootstrap_providers:
  assumes "lawful_install env inits core vars"
  shows "steady (install_view inits core vars) (bootstrap_providers env True names)"
proof (induction names)
  case (Cons n ns)
  then show ?case
    by (auto split: sum.splits intro!: steady_intros steady_handle_error steady_EnsureRequisites steady_installer_Bootstrap assms)
qed (simp add: steady_ret)

text \<open>A step whose error is reported ends the loop.\<close>

lemma handle_error_None:
  "handle_error env n err k w = (Inr None, w') \<Longrightarrow>
   err = None \<and> k w = (Inr None, w') \<or> (\<exists>m w1. err = Some (ErrBootstrap False m) \<and> k w1 = (Inr None, w'))"
  by (auto simp: handle_error_def ok_iff split: option.splits install_error.splits if_splits)


lemma provider_ready_view:
  "install_view inits core vars w' = install_view inits core vars w \<Longrightarrow>
   provider_ready (vars w') = provider_ready (vars w)"
  using requisites_met_view [of inits core vars w' w] by (auto simp: provider_ready_def fun_eq_iff)

lemma bootstrap_providers_ready:
  assumes law: "lawful_install env inits core vars"
    and "bootstrap_providers env True names w = (Inr None, w')"
  shows "\<forall>n \<in> set names. provider_ready (vars w) n"
  using assms(2)
proof (induction names arbitrary: w)
  case (Cons n ns)
  from Cons.prems obtain inst where inst: "NewInstallerService n True = Inr inst"
    by (auto simp: ok_iff split: sum.splits)
  with Cons.prems obtain err w1 where e: "EnsureRequisites env inst w = (Inr err, w1)"
    and h: "handle_error env n err (andThen (installer_Bootstrap env inst) (\<lambda>err.
      handle_error env n err (bootstrap_providers env True ns))) w1 = (Inr None, w')"
    by (auto simp: ok_iff)
  note ready = EnsureRequisites_ready [OF law inst e]
  with handle_error_None [OF h] obtain err' w2 where
    b: "installer_Bootstrap env inst w1 = (Inr err', w2)"
    and h': "handle_error env n err' (bootstrap_providers env True ns) w2 = (Inr None, w')" and n: "err = None"
    by (auto simp: ok_iff)
  obtain w3 where r: "bootstrap_providers env True ns w3 = (Inr None, w')"
    and w3: "install_view inits core vars w3 = install_view inits core vars w'"
    using handle_error_None [OF h'] steadyD [OF steady_bootstrap_providers [OF law], of ns] by metis
  have "install_view inits core vars w' = install_view inits core vars w"
    using steadyD [OF steady_bootstrap_providers [OF law] Cons.prems] .
  then have "provider_ready (vars w3) = provider_ready (vars w)"
    using provider_ready_view w3 by metis
  with Cons.IH [OF r] ready n show ?case by simp
qed simp

text \<open>The initialisation itself.\<close>

lemma isFirstRun_core:
  assumes "lawful_install env inits core vars" "isFirstRun env w = (Inr first, w')" "core w = ''''"
  shows "first"
proof -
  have "p = core w" if "fst (ie_GetDefaultProviderName env w) = Inr p" for p
    using assms(1) that unfolding lawful_install_def Let_def by blast
  with assms(2,3) show ?thesis by (auto simp: isFirstRun_def attempt_ok ret_ok)
qed

lemma steady_isFirstRun:
  "lawful_install env inits core vars \<Longrightarrow> steady (install_view inits core vars) (isFirstRun env)"
  by (auto simp: isFirstRun_def lawful_steady intro!: steady_intros)

lemma lawful_Init:
  assumes "lawful_install env inits core vars" "ie_Init env opts w = (r, w')"
  shows "inits w' = (case r of Inr _ \<Rightarrow> inits w @ [opts] | Inl _ \<Rightarrow> inits w)"
  using assms unfolding lawful_install_def by blast

definition init_options_of :: "path \<Rightarrow> string \<Rightarrow> string list \<Rightarrow> string list \<Rightarrow> init_options" where
  "init_options_of kubeconfigPath coreProvider infra boot =
     \<lparr>ino_Kubeconfig = kubeconfigPath, ino_CoreProvider = coreProvider, ino_BootstrapProviders = boot,
      ino_InfrastructureProviders = infra\<rparr>"

lemma wp_or_fail_steady:
  assumes "steady v m" "\<And>f w'. v w' = v w \<Longrightarrow> Q (Inl f) w'" "\<And>e w'. v w' = v w \<Longrightarrow> Q (Inr (Some (OtherError e))) w'"
    "\<And>x w'. v w' = v w \<Longrightarrow> wp (k x) Q w'"
  shows "wp (or_fail m k) Q w"
  unfolding or_fail_def wp_attempt wp_ret
  by (rule wp_steady [OF assms(1)]) (auto simp: assms(2-4) split: sum.splits fault.splits)

text \<open>Either the one initialisation happened or none; the outcome says which.\<close>

definition initialised ::
  "('w \<Rightarrow> init_options list) \<Rightarrow> ('w \<Rightarrow> string) \<Rightarrow> (string \<Rightarrow> init_options) \<Rightarrow> string \<Rightarrow> 'w \<Rightarrow>
   install_error option result \<Rightarrow> 'w \<Rightarrow> bool" where
  "initialised inits core opts cp w r w' \<longleftrightarrow>
     (if r = Inr None then \<exists>c. inits w' = inits w @ [opts c] \<and> (c = cp \<or> c = '''' \<and> core w \<noteq> '''')
      else inits w' = inits w)"

lemma wp_capi_init:
  assumes law: "lawful_install env inits core vars"
  shows "wp (capi_init env kc cp infra boot) (initialised inits core (\<lambda>c. init_options_of kc c infra boot) cp w) w"
    (is "wp _ ?Q w")
proof -
  let ?v = "install_view inits core vars"
  let ?init = "\<lambda>first. or_fail (ie_Init env (init_options_of kc (if first then cp else '''') infra boot)) (\<lambda>_. ret None)"
  have bad: "?Q r w'" if "?v w' = ?v w" "r \<noteq> Inr None" for r w'
    using that by (simp add: initialised_def install_view_def)
  have init: "wp (?init first) ?Q w'" if "?v w' = ?v w" "core w = '''' \<Longrightarrow> first" for first w'
    unfolding or_fail_def wp_attempt wp_ret using that
    by (auto intro!: wpI dest!: lawful_Init [OF law] simp: initialised_def install_view_def
        split: sum.splits fault.splits if_splits)
  have first: "wp (andThen (isFirstRun env) ?init) ?Q w2" if w2: "?v w2 = ?v w" for w2
    unfolding wp_andThen
  proof (rule wpI, goal_cases)
    case (1 r w3)
    then have w3: "?v w3 = ?v w" using steadyD [OF steady_isFirstRun [OF law]] w2 by metis
    from w2 have c: "core w2 = core w" by (simp add: install_view_def)
    show ?case
    proof (cases r)
      case (Inr first)
      with 1 have "core w = '''' \<Longrightarrow> first" using isFirstRun_core [OF law _ , of w2 first w3] c by simp
      with w3 have "wp (?init first) ?Q w3" by (rule init)
      with Inr show ?thesis by simp
    qed (simp add: bad w3)
  qed
  have "wp (or_fail (ie_NewConfig env) (\<lambda>_. andThen (isFirstRun env) ?init)) ?Q w1" if "?v w1 = ?v w" for w1
    using that by (intro wp_or_fail_steady [OF lawful_steady(9) [OF law]]) (simp_all add: bad first)
  then show ?thesis unfolding capi_init_def init_options_of_def [symmetric]
    by (intro wp_or_fail_steady [OF lawful_steady(8) [OF law]]) (simp_all add: bad)
qed

text \<open>C9: \<open>arlon install\<close> without questions initialises Cluster API at most once: it reports success exactly
  when that one initialisation happened, and then every provider that was asked for is docker, or is aws with
  every required variable of the environment set, the initialisation got the given providers, and it got the
  core provider if the management cluster had none. Any error, a missing variable among them, comes before
  anything is initialised.\<close>

theorem installCAPI_initialises_once:
  assumes "lawful_install env inits core vars"
    and "installCAPI env kubeconfigPath coreProvider infra boot True w = (r, w')"
  shows "if r = Inr None
    then (\<exists>cp. inits w' = inits w @ [init_options_of kubeconfigPath cp infra boot] \<and>
        (cp = coreProvider \<or> cp = '''' \<and> core w \<noteq> '''')) \<and>
      (\<forall>p \<in> set infra. provider_name p = ''docker'' \<or> provider_name p = ''aws'' \<and> requisites_met (vars w))
    else inits w' = inits w"
proof (cases "bootstrap_providers env True (map provider_name infra) w")
  case (Pair r1 w1)
  from steadyD [OF steady_bootstrap_providers [OF assms(1)] Pair]
  have v: "inits w1 = inits w" "core w1 = core w" by (simp_all add: install_view_def)
  show ?thesis
  proof (cases "r1 = Inr None")
    case True
    with assms(2) Pair have c: "capi_init env kubeconfigPath coreProvider infra boot w1 = (r, w')"
      by (simp add: installCAPI_def andThen_def attempt_def)
    from wpD [OF wp_capi_init [OF assms(1)] c] bootstrap_providers_ready [OF assms(1) Pair [unfolded True]] v
    show ?thesis by (auto simp: initialised_def provider_ready_def split: if_splits)
  next
    case False
    with assms(2) Pair v show ?thesis
      by (auto simp: installCAPI_def andThen_def attempt_def ret_def fail_def split: sum.splits fault.splits option.splits)
  qed
qed


text \<open>A machine with every variable set and no Cluster API yet.\<close>

type_synonym demo_machine = "init_options list \<times> string \<times> (string \<Rightarrow> string)"

definition demo_install_env :: "demo_machine install_env" where
  "demo_install_env =
     \<lparr>ie_Getenv = (\<lambda>k w. (Inr (snd (snd w) k), w)),
      ie_Setenv = (\<lambda>k x (done', c, vs). (Inr (), (done', c, vs(k := x)))),
      ie_AskToProceed = (\<lambda>m. ret False), ie_Yellow = (\<lambda>s. s), ie_GetArgs = ret [''arlon''],
      ie_SetArgs = (\<lambda>a. ret ()), ie_ParseFlags = ret (), ie_Clusterawsadm = fail (ErrorText ''the stack exists''),
      ie_NewAWSCredential = (\<lambda>r. ret r), ie_RenderProfile = (\<lambda>c. ret c), ie_NewClusterctl = ret (),
      ie_NewConfig = ret (), ie_GetDefaultProviderName = (\<lambda>w. (Inr (fst (snd w)), w)),
      ie_Init = (\<lambda>opts (done', c, vs). (Inr (), (done' @ [opts], ''cluster-api'', vs))),
      ie_LookPath = (\<lambda>p. ret ()), ie_Exec = (\<lambda>p a. ret ''''), ie_GOOS = ''linux''\<rparr>"

lemma demo_install_lawful: "lawful_install demo_install_env fst (\<lambda>w. fst (snd w)) (\<lambda>w. snd (snd w))"
  unfolding lawful_install_def demo_install_env_def
  by (auto simp: steady_def ret_def fail_def split: prod.splits)

theorem installCAPI_initialises_once_witness:
  "fst (snd (installCAPI demo_install_env ''kc'' ''cluster-api:v1.3'' [''aws:v2.0'', ''docker''] [] True
     ([], '''', \<lambda>_. ''x''))) = [init_options_of ''kc'' ''cluster-api:v1.3'' [''aws:v2.0'', ''docker''] []]"
proof -
  obtain run where run_def:
    "run = installCAPI demo_install_env ''kc'' ''cluster-api:v1.3'' [''aws:v2.0'', ''docker''] [] True ([], '''', \<lambda>_. ''x'')"
    by simp
  have "fst run = Inr None" unfolding run_def by code_simp
  then have "run = (Inr None, snd run)" by (simp add: prod_eq_iff)
  then show ?thesis
    using installCAPI_initialises_once [OF demo_install_lawful, of "''kc''" "''cluster-api:v1.3''"
      "[''aws:v2.0'', ''docker'']" "[]" "([], '''', \<lambda>_. ''x'')" "Inr None" "snd run"]
    by (auto simp: run_def)
qed


section \<open>A failed download\<close>

text \<open>On Windows the two tools differ in what they report when the download fails: kubectl reports the
  failure, argocd reports success.\<close>

lemma failed_download:
  assumes "ie_GOOS env = ''windows''" "\<And>t w. ie_LookPath env t w =
      (if t = ''curl'' then (Inr (), w) else (Inl (Err (ErrorText ''not found'')), w))"
    and "kubectlPath \<noteq> ''curl''" "argocdPath \<noteq> ''curl''"
  shows "downloadKubectlLatest env kubectlPath w = (Inl (Err e), w') \<Longrightarrow>
      installKubectl env kubectlPath w = (Inr (False, Some ErrKubectlFail), w')"
    and "downloadArgoCD env argocdPath w = (Inl (Err e), w') \<Longrightarrow>
      installArgoCD env argocdPath w = (Inr (True, None), w')"
  using assms by (simp_all add: installKubectl_def installArgoCD_def install_tool_def installKubectlPlatform_def
      installArgoCDPlatform_def defaultKubectlPath_def defaultArgocdPath_def io_defs)

end
