(* ===== verification/Commands.thy ===== *)
theory Commands
  imports Cluster_Manage App Appprofile Gitrepo Clusterspec
begin

text \<open>
  The commands of the command line tool (\<open>cmd\<close>) that drive the packages: each is a function of its flags
  and arguments. The flags of a command are a record; parsing them is the library's. A printed table is the
  list of its lines, each a list of cells; the closing of a connection is left out.
\<close>

section \<open>The world of a command\<close>

record 'w cli_env =
  ce_ClientConfig :: "('w, 'w rest_config) io"
  ce_Host :: "'w rest_config \<Rightarrow> string"
  ce_Gitrepo :: "'w gitrepo_env"
  ce_Git :: "'w git_env"
  ce_Templates :: template_env
  ce_Tools :: "'w manifest_tools"
  ce_NewArgocdClient :: "('w, 'w argocd_client) io"
  ce_ReadFile :: "path \<Rightarrow> ('w, string) io"
  ce_AddToScheme :: "('w, unit) io"
  ce_EncodeApp :: "application \<Rightarrow> ('w, unit) io"
  ce_EncodeAppSet :: "application_set \<Rightarrow> ('w, unit) io"
  ce_Table :: "string list list \<Rightarrow> ('w, unit) io"
  ce_Print :: "string \<Rightarrow> ('w, unit) io"
  ce_ClusterContent :: "(string \<times> embed_node) list"
  ce_ProfileContent :: "(string \<times> embed_node) list"
  ce_AwsRegions :: "string list"

definition repo_or_alias :: "'w cli_env \<Rightarrow> url \<Rightarrow> string \<Rightarrow> ('w, url) io" where
  "repo_or_alias env repoUrl repoAlias = (if repoUrl = '''' then GetRepoUrl (ce_Gitrepo env) repoAlias else ret repoUrl)"

text \<open>\<open>fmt.Println\<close>, whose error is ignored.\<close>

definition say :: "'w cli_env \<Rightarrow> string \<Rightarrow> ('w, unit) io" where
  "say env s = ignoring (ce_Print env (s @ [newline])) (ret ())"

definition with_config :: "'w cli_env \<Rightarrow> ('w rest_config \<Rightarrow> ('w, 'a) io) \<Rightarrow> ('w, 'a) io" where
  "with_config env k = must (ce_ClientConfig env) (ErrorCtx ''failed to get k8s client config: '') k"

text \<open>\<open>NewArgocdClientOrDie\<close> and \<open>NewApplicationClientOrDie\<close> end the process when they fail.\<close>

definition with_argocd :: "'w cli_env \<Rightarrow> ('w argocd_client \<Rightarrow> ('w, 'a) io) \<Rightarrow> ('w, 'a) io" where
  "with_argocd env k = CheckError (ce_NewArgocdClient env) k"

definition with_applications :: "'w argocd_client \<Rightarrow> ('w application_client \<Rightarrow> ('w, 'a) io) \<Rightarrow> ('w, 'a) io" where
  "with_applications argoIf k = CheckError (argo_NewApplicationClient argoIf) k"

section \<open>Cluster templates\<close>

record template_flags =
  tf_argocdNs :: string
  tf_repoUrl :: url
  tf_repoAlias :: string
  tf_repoRevision :: revision
  tf_repoPath :: path

definition with_template_creds ::
  "'w cli_env \<Rightarrow> template_flags \<Rightarrow> (url \<Rightarrow> repo_creds \<Rightarrow> ('w, 'a) io) \<Rightarrow> ('w, 'a) io" where
  "with_template_creds env fl k =
     andThen (repo_or_alias env (tf_repoUrl fl) (tf_repoAlias fl)) (\<lambda>repoUrl.
     with_config env (\<lambda>config.
     must (GetKubeclientAndRepoCreds config (tf_argocdNs fl) repoUrl)
       (ErrorCtx ''failed to get repository credentials: '') (\<lambda>(_, creds). k repoUrl creds)))"

definition cmd_validategit :: "'w cli_env \<Rightarrow> template_flags \<Rightarrow> ('w, unit) io" where
  "cmd_validategit env fl = with_template_creds env fl (\<lambda>repoUrl creds.
     andThen (ValidateGitDir (ce_Git env) (ce_Tools env) creds repoUrl (tf_repoRevision fl) (tf_repoPath fl))
       (\<lambda>clusterName. say env (''validation successful, cluster name: '' @ clusterName)))"

definition cmd_preparegit :: "'w cli_env \<Rightarrow> template_flags \<Rightarrow> int \<Rightarrow> int \<Rightarrow> ('w, unit) io" where
  "cmd_preparegit env fl casMin casMax = with_template_creds env fl (\<lambda>repoUrl creds.
     must (PrepareGitDir (ce_Git env) (ce_Tools env) creds repoUrl (tf_repoRevision fl) (tf_repoPath fl) casMax casMin)
       (ErrorCtx ''git preparation failed: '') (\<lambda>(clusterName, changed).
     say env (if changed then ''preparation successful, cluster name: '' @ clusterName
       else ''the files for cluster < '' @ clusterName
         @ '' > are already compliant as cluster template, no preparation necessary'')))"

definition cmd_validate :: "'w cli_env \<Rightarrow> path \<Rightarrow> ('w, unit) io" where
  "cmd_validate env fileName = andThen (basecluster_Validate (ce_Tools env) fileName)
     (\<lambda>clusterName. say env (''validation successful, cluster name: '' @ clusterName))"

definition cmd_prepare :: "'w cli_env \<Rightarrow> path \<Rightarrow> bool \<Rightarrow> int \<Rightarrow> int \<Rightarrow> ('w, unit) io" where
  "cmd_prepare env fileName validateOnly casMin casMax =
     andThen (Prepare (ce_Tools env) fileName validateOnly casMax casMin) (\<lambda>(clusterName, modifiedYaml).
     if validateOnly then say env (''validation successful, cluster name: '' @ clusterName)
     else
       andThen (say env (''preparation successful, cluster name: '' @ clusterName)) (\<lambda>_.
       case modifiedYaml of
         None \<Rightarrow> say env ''manifest is already compliant, no changes necessary''
       | Some yaml \<Rightarrow>
           andThen (say env ''at least one namespace removed, modified YAML:'') (\<lambda>_.
           andThen (say env ''---'') (\<lambda>_. say env yaml))))"

section \<open>Clusters\<close>

record create_flags =
  cf_argocdNs :: string
  cf_arlonNs :: string
  cf_arlonRepoUrl :: url
  cf_arlonRepoRevision :: revision
  cf_arlonRepoPath :: path
  cf_patchRepoUrl :: url
  cf_patchRepoPath :: path
  cf_patchRepoRevision :: revision
  cf_clusterRepoUrl :: url
  cf_repoAlias :: string
  cf_clusterRepoRevision :: revision
  cf_clusterRepoPath :: path
  cf_clusterName :: string
  cf_overridesPath :: path
  cf_outputYaml :: bool
  cf_profileName :: string
  cf_gen2CASEnabled :: bool

text \<open>The directory with the patch, pushed before anything else is checked.\<close>

definition create_overrides ::
  "'w cli_env \<Rightarrow> create_flags \<Rightarrow> 'w application_client \<Rightarrow> 'w rest_config \<Rightarrow> url \<Rightarrow> ('w, bool) io" where
  "create_overrides env fl appIf config clusterRepoUrl =
     (if cf_overridesPath fl = '''' then ret False
      else attempt (appIf_Get appIf (cf_clusterName fl))
        (\<lambda>_. must (ce_ReadFile env (cf_overridesPath fl)) (ErrorCtx ''failed to read patch file: '') (\<lambda>patchContent.
           must (CreatePatchDir (ce_Git env) (ce_Templates env) config (cf_clusterName fl) (cf_patchRepoUrl fl)
               (cf_argocdNs fl) (cf_patchRepoPath fl) (cf_patchRepoRevision fl) (cf_clusterRepoRevision fl)
               patchContent clusterRepoUrl (cf_clusterRepoPath fl))
             (ErrorCtx ''failed to create patch files directory: '') (\<lambda>_. ret True)))
        (\<lambda>_. fail (ErrorText ''arlon cluster already exists'')))"

definition dynamic_profile ::
  "'w rest_config \<Rightarrow> string \<Rightarrow> string \<Rightarrow> ('w, profile option) io" where
  "dynamic_profile config profileName arlonNs =
     (if profileName = '''' then ret None
      else must (profile_Get config profileName arlonNs) (ErrorCtx ''failed to get profile: '') (\<lambda>prof.
        if pf_RepoUrl (prof_spec prof) = ''''
        then fail (ErrorText (''profile '' @ profileName @ '' is not dynamic'')) else ret (Some prof)))"

definition encode_app :: "'w cli_env \<Rightarrow> string \<Rightarrow> application \<Rightarrow> ('w, unit) io" where
  "encode_app env what app = must (ce_EncodeApp env app) (ErrorCtx (''failed to encode '' @ what @ '' app: '')) ret"

definition encode_apps :: "'w cli_env \<Rightarrow> application \<Rightarrow> application \<Rightarrow> application option \<Rightarrow> ('w, unit) io" where
  "encode_apps env arlonApp clusterApp profileApp = must (ce_AddToScheme env) (ErrorCtx ''failed to add scheme: '') (\<lambda>_.
     andThen (encode_app env ''arlon'' arlonApp) (\<lambda>_.
     andThen (say env ''---'') (\<lambda>_.
     andThen (encode_app env ''cluster'' clusterApp) (\<lambda>_.
     case profileApp of None \<Rightarrow> ret ()
     | Some app \<Rightarrow> andThen (say env ''---'') (\<lambda>_. encode_app env ''profile'' app)))))"

definition cmd_create :: "'w cli_env \<Rightarrow> create_flags \<Rightarrow> ('w, unit) io" where
  "cmd_create env fl =
     (let createInArgoCd = (\<not> cf_outputYaml fl) in
      andThen (repo_or_alias env (cf_clusterRepoUrl fl) (cf_repoAlias fl)) (\<lambda>clusterRepoUrl.
      with_argocd env (\<lambda>argoIf. with_applications argoIf (\<lambda>appIf.
      with_config env (\<lambda>config.
      must (GetKubeclientAndRepoCreds config (cf_argocdNs fl) clusterRepoUrl)
        (ErrorCtx ''failed to get repository credentials: '') (\<lambda>(_, creds).
      andThen (create_overrides env fl appIf config clusterRepoUrl) (\<lambda>overridden.
      must (ValidateGitDir (ce_Git env) (ce_Tools env) creds clusterRepoUrl (cf_clusterRepoRevision fl)
          (cf_clusterRepoPath fl))
        (ErrorCtx ''failed to validate cluster template: '') (\<lambda>baseClusterName.
      andThen (dynamic_profile config (cf_profileName fl) (cf_arlonNs fl)) (\<lambda>prof.
      must (cluster_Create (ce_Git env) (ce_ClusterContent env) appIf config (cf_argocdNs fl) (cf_arlonNs fl)
          (cf_clusterName fl) baseClusterName (cf_arlonRepoUrl fl) (cf_arlonRepoRevision fl) (cf_arlonRepoPath fl)
          '''' None createInArgoCd (ce_Host env config) (cf_gen2CASEnabled fl))
        (ErrorCtx ''failed to create arlon app: '') (\<lambda>arlonApp.
      must (if overridden then CreateClusterApp appIf (cf_argocdNs fl) (cf_clusterName fl) baseClusterName
              (cf_patchRepoUrl fl) (cf_patchRepoRevision fl) (cf_patchRepoPath fl) createInArgoCd overridden
            else CreateClusterApp appIf (cf_argocdNs fl) (cf_clusterName fl) baseClusterName clusterRepoUrl
              (cf_clusterRepoRevision fl) (cf_clusterRepoPath fl) createInArgoCd overridden)
        (ErrorCtx ''failed to create cluster app: '') (\<lambda>clusterApp.
      andThen (case prof of None \<Rightarrow> ret None
          | Some p \<Rightarrow> must (CreateProfileApp (cf_clusterName fl @ ''-profile-'' @ om_name (prof_meta p)) appIf
                (cf_argocdNs fl) (cf_clusterName fl) p createInArgoCd)
              (ErrorCtx ''failed to create profile app: '') (\<lambda>app. ret (Some app))) (\<lambda>profileApp.
      if cf_outputYaml fl
      then encode_apps env arlonApp clusterApp profileApp else ret ()))))))))))))"

record deploy_flags =
  df_argocdNs :: string
  df_arlonNs :: string
  df_repoUrl :: url
  df_repoAlias :: string
  df_repoBranch :: revision
  df_basePath :: path
  df_clusterName :: string
  df_clusterSpecName :: string
  df_profileName :: string
  df_outputYaml :: bool

definition encode_root :: "'w cli_env \<Rightarrow> bool \<Rightarrow> application \<Rightarrow> ('w, unit) io" where
  "encode_root env outputYaml rootApp =
     (if outputYaml then
        must (ce_AddToScheme env) (ErrorCtx ''failed to add scheme: '') (\<lambda>_.
        must (ce_EncodeApp env rootApp) (ErrorCtx ''failed to serialize app resource: '') ret)
      else ret ())"

definition cmd_deploy :: "'w cli_env \<Rightarrow> deploy_flags \<Rightarrow> ('w, unit) io" where
  "cmd_deploy env fl =
     andThen (repo_or_alias env (df_repoUrl fl) (df_repoAlias fl)) (\<lambda>repoUrl.
     with_argocd env (\<lambda>argoIf. with_applications argoIf (\<lambda>appIf.
     with_config env (\<lambda>config.
     andThen
       (if df_clusterSpecName fl \<noteq> '''' then
          must (profile_Get config (df_profileName fl) (df_arlonNs fl)) (ErrorCtx ''failed to get profile: '')
            (\<lambda>prof. ret (Some prof))
        else if df_profileName fl \<noteq> '''' then
          fail (ErrorText (''gen2 clusters currently don'' @ [CHR 0x27] @ ''t have profiles (coming soon)''))
        else ret None) (\<lambda>prof.
     must (cluster_Create (ce_Git env) (ce_ClusterContent env) appIf config (df_argocdNs fl) (df_arlonNs fl)
         (df_clusterName fl) '''' repoUrl (df_repoBranch fl) (df_basePath fl) (df_clusterSpecName fl) prof
         (\<not> df_outputYaml fl) (ce_Host env config) False)
       (ErrorCtx ''failed to create cluster: '') (\<lambda>rootApp.
     encode_root env (df_outputYaml fl) rootApp))))))"

record update_flags =
  uf_argocdNs :: string
  uf_arlonNs :: string
  uf_clusterSpecName :: string
  uf_profileName :: string
  uf_outputYaml :: bool

text \<open>The profile of an external cluster is replaced by giving up the cluster and managing it again; the
  profile is looked up in between.\<close>

definition update_external ::
  "'w argocd_client \<Rightarrow> 'w rest_config \<Rightarrow> update_flags \<Rightarrow> string \<Rightarrow> cluster_info \<Rightarrow> ('w, unit) io" where
  "update_external argoIf config fl clusterName clust =
     (if uf_clusterSpecName fl \<noteq> '''' then fail (ErrorText ''external cluster cannot accept a cluster spec'')
      else if uf_profileName fl = '''' then fail (ErrorText ''new profile not specified'')
      else if uf_profileName fl = clu_ProfileName clust then fail (ErrorText ''profile is the same as existing one'')
      else
        must (UnmanageExternal argoIf config (uf_argocdNs fl) clusterName) (ErrorCtx ''failed to unmanage cluster: '') (\<lambda>_.
        must (profile_Get config (uf_profileName fl) (uf_arlonNs fl)) (ErrorCtx ''failed to get profile: '') (\<lambda>prof.
        must (ManageExternal argoIf config (uf_argocdNs fl) clusterName prof)
          (ErrorCtx ''failed to manage cluster: '') ret)))"

definition cmd_update :: "'w cli_env \<Rightarrow> update_flags \<Rightarrow> string \<Rightarrow> ('w, unit) io" where
  "cmd_update env fl clusterName =
     with_argocd env (\<lambda>argoIf. with_applications argoIf (\<lambda>appIf.
     with_config env (\<lambda>config.
     must (cluster_Get appIf config (uf_argocdNs fl) clusterName) (ErrorCtx ''failed to update cluster: '') (\<lambda>clust.
     if clu_IsExternal clust then update_external argoIf config fl clusterName clust
     else
       must (cluster_Update (ce_Git env) (ce_ClusterContent env) appIf config (uf_argocdNs fl) (uf_arlonNs fl)
           clusterName (uf_clusterSpecName fl) (uf_profileName fl) (\<not> uf_outputYaml fl) (ce_Host env config))
         (ErrorCtx ''failed to update cluster: '') (\<lambda>rootApp.
       encode_root env (uf_outputYaml fl) rootApp)))))"

definition cmd_ngupdate :: "'w cli_env \<Rightarrow> update_flags \<Rightarrow> bool \<Rightarrow> string \<Rightarrow> ('w, unit) io" where
  "cmd_ngupdate env fl deleteProfileName name =
     with_argocd env (\<lambda>argoIf. with_applications argoIf (\<lambda>appIf.
     with_config env (\<lambda>config.
     must (appIf_List appIf (''arlon-cluster='' @ name @ '',arlon-type=cluster-app''))
       (ErrorCtx ''failed to list apps related to cluster: '') (\<lambda>apps.
     if length apps = 0 then fail (ErrorText ''failed to get the given cluster'')
     else if \<not> deleteProfileName then
       must (NgUpdate appIf config (uf_argocdNs fl) (uf_arlonNs fl) name (uf_profileName fl) True)
         (ErrorCtx ''error: '') (\<lambda>_. ret ())
     else
       must (DestroyProfileApps appIf name) (\<lambda>_. ErrorText ''failed to delete the profile app'') ret))))"

definition cmd_delete :: "'w cli_env \<Rightarrow> string \<Rightarrow> string \<Rightarrow> ('w, unit) io" where
  "cmd_delete env argocdNs clusterName =
     with_argocd env (\<lambda>argoIf.
     with_config env (\<lambda>config.
     must (cluster_Delete (ce_Git env) argoIf config argocdNs clusterName) (ErrorCtx ''failed to delete cluster: '') ret))"

definition cmd_get :: "'w cli_env \<Rightarrow> string \<Rightarrow> string \<Rightarrow> ('w, unit) io" where
  "cmd_get env argocdNs clusterName =
     with_argocd env (\<lambda>argoIf. with_applications argoIf (\<lambda>appIf.
     with_config env (\<lambda>config.
     must (cluster_Get appIf config argocdNs clusterName) (ErrorCtx ''failed to get cluster: '') (\<lambda>clust.
     say env (cluster_String clust)))))"

definition cluster_row :: "cluster_info \<Rightarrow> string list" where
  "cluster_row c = [clu_Name c, FormatBool (clu_IsExternal c),
     (case clu_BaseCluster c of None \<Rightarrow> '''' | Some b \<Rightarrow> bci_Name b),
     clu_ClusterSpecName c, clu_ProfileName c, print_slice (clu_AppProfiles c)]"

definition cmd_list :: "'w cli_env \<Rightarrow> string \<Rightarrow> ('w, unit) io" where
  "cmd_list env argocdNs =
     with_argocd env (\<lambda>argoIf. with_applications argoIf (\<lambda>appIf.
     with_config env (\<lambda>config.
     must (cluster_List appIf config argocdNs) (ErrorCtx ''failed to list clusters: '') (\<lambda>clist.
     ce_Table env ([''NAME'', ''EXTERNAL'', ''CLUSTERTEMPLATE'', ''CLUSTERSPEC'', ''PROFILE'', ''APPPROFILES'']
       # map cluster_row clist)))))"

definition cmd_manage :: "'w cli_env \<Rightarrow> update_flags \<Rightarrow> string \<Rightarrow> string \<Rightarrow> ('w, unit) io" where
  "cmd_manage env fl clusterName profileName =
     with_argocd env (\<lambda>argoIf.
     with_config env (\<lambda>config.
     must (profile_Get config profileName (uf_arlonNs fl)) (ErrorCtx ''failed to get profile: '') (\<lambda>prof.
     must (ManageExternal argoIf config (uf_argocdNs fl) clusterName prof) (ErrorCtx ''failed to manage cluster: '') ret)))"

definition cmd_unmanage :: "'w cli_env \<Rightarrow> string \<Rightarrow> string \<Rightarrow> ('w, unit) io" where
  "cmd_unmanage env argocdNs clusterName =
     with_argocd env (\<lambda>argoIf.
     with_config env (\<lambda>config.
     must (UnmanageExternal argoIf config argocdNs clusterName) (ErrorCtx ''failed to unmanage cluster: '') ret))"

definition cmd_setappprofiles :: "'w cli_env \<Rightarrow> string \<Rightarrow> string \<Rightarrow> ('w, unit) io" where
  "cmd_setappprofiles env clusterName commaSeparatedAppProfiles =
     with_argocd env (\<lambda>argoIf. with_applications argoIf (\<lambda>appIf.
     must (SetAppProfiles appIf clusterName commaSeparatedAppProfiles)
       (ErrorCtx (''failed to set cluster'' @ [CHR 0x27] @ ''s app profiles list: '')) ret))"

section \<open>Profiles\<close>

text \<open>The triples bundle, key and value of \<open>--overrides\<close>.\<close>

fun processOverrides :: "string list \<Rightarrow> go_error + override list" where
  "processOverrides [] = Inr []"
| "processOverrides (o' # os) =
     (case split_on (CHR '','') o' of
        [b, k, v] \<Rightarrow> (case processOverrides os of
            Inl e \<Rightarrow> Inl e
          | Inr res \<Rightarrow> Inr (\<lparr>ov_Bundle = b, ov_Key = k, ov_Value = v\<rparr> # res))
      | _ \<Rightarrow> Inl (ErrorText ''malformed override parameter, it should be a triple''))"

record profile_flags =
  pfl_argocdNs :: string
  pfl_arlonNs :: string
  pfl_desc :: string
  pfl_bundles :: "string list option"
  pfl_tags :: string
  pfl_repoUrl :: url
  pfl_repoAlias :: string
  pfl_repoBasePath :: path
  pfl_repoBranch :: revision
  pfl_overrides :: "string list"

definition cmd_profile_create :: "'w cli_env \<Rightarrow> profile_flags \<Rightarrow> bool \<Rightarrow> string \<Rightarrow> ('w, unit) io" where
  "cmd_profile_create env fl isStatic profileName =
     andThen (if isStatic then ret (pfl_repoUrl fl) else repo_or_alias env (pfl_repoUrl fl) (pfl_repoAlias fl)) (\<lambda>repoUrl.
     with_config env (\<lambda>config.
     must (lift (processOverrides (pfl_overrides fl))) (ErrorCtx ''failed to process overrides: '') (\<lambda>ovs.
     profile_Create (ce_Git env) (ce_ProfileContent env) config (pfl_argocdNs fl) (pfl_arlonNs fl) profileName
       repoUrl (pfl_repoBasePath fl) (pfl_repoBranch fl) (pfl_bundles fl) (pfl_desc fl) (pfl_tags fl) ovs)))"

text \<open>\<open>--clear\<close> leaves the list of bundles nil, as no \<open>--bundles\<close> at all does.\<close>

definition update_bundles_arg :: "bool \<Rightarrow> string list option \<Rightarrow> go_error + string list option" where
  "update_bundles_arg clear bundles =
     (if clear then
        (if bundles \<noteq> None then Inl (ErrorText ''bundles must not be specified when using --clear'') else Inr None)
      else if bundles \<noteq> None then Inr bundles else Inr None)"

definition cmd_profile_update :: "'w cli_env \<Rightarrow> profile_flags \<Rightarrow> bool \<Rightarrow> string \<Rightarrow> ('w, unit) io" where
  "cmd_profile_update env fl clear profileName =
     with_config env (\<lambda>config.
     andThen (lift (update_bundles_arg clear (pfl_bundles fl))) (\<lambda>bundlesPtr.
     must (lift (processOverrides (pfl_overrides fl))) (ErrorCtx ''failed to process overrides: '') (\<lambda>ovs.
     andThen (profile_Update (ce_Git env) (ce_ProfileContent env) config (pfl_argocdNs fl) (pfl_arlonNs fl) profileName
       bundlesPtr (pfl_desc fl) (pfl_tags fl) ovs) (\<lambda>modified.
     if \<not> modified then say env ''profile not modified'' else ret ()))))"

definition deleteProfile :: "'w rest_config \<Rightarrow> string \<Rightarrow> string \<Rightarrow> ('w, unit) io" where
  "deleteProfile config ns profileName =
     must (rc_NewClient config) (\<lambda>err. ErrorWrap ''failed to get controller client: '' err '''') (\<lambda>ctrl.
     profile_Delete ctrl ns profileName)"

definition deleteProfileLegacy :: "'w rest_config \<Rightarrow> string \<Rightarrow> string \<Rightarrow> ('w, unit) io" where
  "deleteProfileLegacy config ns profileName =
     andThen (NewForConfigOrDie config) (\<lambda>kubeClient. profile_DeleteLegacy kubeClient ns profileName)"

definition cmd_profile_delete :: "'w cli_env \<Rightarrow> string \<Rightarrow> string \<Rightarrow> ('w, unit) io" where
  "cmd_profile_delete env ns profileName =
     with_config env (\<lambda>config.
     attempt (deleteProfile config ns profileName)
       (\<lambda>err. if \<not> IsNotFound err then fail err
          else andThen (say env (profileName @ '' not found, assuming legacy profile'')) (\<lambda>_.
            deleteProfileLegacy config ns profileName)) ret)"

definition profile_row :: "augmented_profile \<Rightarrow> string list" where
  "profile_row p =
     (let spec = prof_spec (aug_Profile p) in
      [om_name (prof_meta (aug_Profile p)), (if aug_Legacy p then ''1'' else ''2''),
       (if pf_RepoUrl spec = '''' then ''static'' else ''dynamic''), print_slice (slice (pf_Bundles spec)),
       (if pf_RepoUrl spec = '''' then ''(N/A)'' else pf_RepoUrl spec),
       (if pf_RepoPath spec = '''' then ''(N/A)'' else pf_RepoPath spec),
       Itoa (int (length (pf_Overrides spec))), print_slice (pf_Tags spec), pf_Description spec])"

definition cmd_profile_list :: "'w cli_env \<Rightarrow> string \<Rightarrow> ('w, unit) io" where
  "cmd_profile_list env ns =
     with_config env (\<lambda>config.
     andThen (profile_List config ns) (\<lambda>plist.
     ce_Table env ([''NAME'', ''GEN'', ''TYPE'', ''BUNDLES'', ''REPO-URL'', ''REPO-PATH'', ''OVRDS'', ''TAGS'', ''DESCRIPTION'']
       # map profile_row plist)))"

section \<open>Bundles\<close>

record bundle_flags =
  bf_ns :: string
  bf_fromFile :: path
  bf_repoUrl :: url
  bf_repoAlias :: string
  bf_repoPath :: path
  bf_repoRevision :: revision
  bf_srcType :: string
  bf_desc :: string
  bf_tags :: string

definition cmd_bundle_create :: "'w cli_env \<Rightarrow> bundle_flags \<Rightarrow> string \<Rightarrow> ('w, unit) io" where
  "cmd_bundle_create env fl bundleName =
     andThen (if bf_fromFile fl = '''' then repo_or_alias env (bf_repoUrl fl) (bf_repoAlias fl) else ret (bf_repoUrl fl))
       (\<lambda>repoUrl.
     with_config env (\<lambda>config.
     andThen (NewForConfigOrDie config) (\<lambda>kubeClient.
     bundle_Create (ce_ReadFile env) (kube_Secrets kubeClient) (bf_ns fl) bundleName (bf_fromFile fl) repoUrl
       (bf_repoPath fl) (bf_repoRevision fl) (bf_srcType fl) (bf_desc fl) (bf_tags fl))))"

definition cmd_bundle_update :: "'w cli_env \<Rightarrow> bundle_flags \<Rightarrow> string \<Rightarrow> ('w, unit) io" where
  "cmd_bundle_update env fl bundleName =
     andThen (if bf_fromFile fl = '''' \<and> bf_repoAlias fl \<noteq> '''' then repo_or_alias env (bf_repoUrl fl) (bf_repoAlias fl)
         else ret (bf_repoUrl fl)) (\<lambda>repoUrl.
     with_config env (\<lambda>config.
     andThen (NewForConfigOrDie config) (\<lambda>kubeClient.
     bundle_Update (ce_ReadFile env) (kube_Secrets kubeClient) (bf_ns fl) bundleName (bf_fromFile fl) repoUrl
       (bf_repoPath fl) (bf_desc fl) (bf_tags fl))))"

definition cmd_bundle_delete :: "'w cli_env \<Rightarrow> string \<Rightarrow> string \<Rightarrow> ('w, unit) io" where
  "cmd_bundle_delete env ns bundleName =
     with_config env (\<lambda>config.
     andThen (NewForConfigOrDie config) (\<lambda>kubeClient. bundle_Delete (kube_Secrets kubeClient) ns bundleName))"

definition dumpBundle :: "'w cli_env \<Rightarrow> 'w rest_config \<Rightarrow> string \<Rightarrow> string \<Rightarrow> ('w, unit) io" where
  "dumpBundle env config ns bundleName =
     (if \<not> IsValidK8sName bundleName then fail (ErrorWrap '''' ErrInvalidName ('': '' @ bundleName))
      else
        andThen (NewForConfigOrDie config) (\<lambda>kubeClient.
        must (api_get (kube_Secrets kubeClient) ns bundleName) (ErrorCtx ''failed to get bundle secret: '') (\<lambda>secret.
        if mget (om_labels (secr_meta secret)) ''arlon-type'' \<noteq> ''config-bundle'' then
          fail (ErrorText ''secret is missing expected label'')
        else if mget (om_labels (secr_meta secret)) ''bundle-type'' \<noteq> ''static'' then
          fail (ErrorText ''bundle is not of static type'')
        else case bytes_get (secr_data secret) ''data'' of
            None \<Rightarrow> fail (ErrorText ''bundle has no data'')
          | Some data \<Rightarrow> must (ce_Print env data) (ErrorCtx ''failed to copy secret data: '') ret)))"

definition cmd_bundle_dump :: "'w cli_env \<Rightarrow> string \<Rightarrow> string \<Rightarrow> ('w, unit) io" where
  "cmd_bundle_dump env ns bundleName = with_config env (\<lambda>config. dumpBundle env config ns bundleName)"

definition bundle_row :: "bundle_list_item \<Rightarrow> string list" where
  "bundle_row b = [li_Name b, li_Type b, li_Tags b, li_Repo b, li_Path b, li_Revision b, li_SrcType b, li_Description b]"

definition cmd_bundle_list :: "'w cli_env \<Rightarrow> string \<Rightarrow> ('w, unit) io" where
  "cmd_bundle_list env ns =
     with_config env (\<lambda>config.
     andThen (bundle_List config ns) (\<lambda>bundles.
     if length bundles = 0 then say env ''no bundles found''
     else ce_Table env ([''NAME'', ''TYPE'', ''TAGS'', ''REPO'', ''PATH'', ''REVISION'', ''SRCTYPE'', ''DESCRIPTION'']
       # map bundle_row bundles)))"


section \<open>Cluster specifications\<close>

record spec_flags =
  sf_arlonNs :: string
  sf_desc :: string
  sf_tags :: string
  sf_apiProvider :: string
  sf_cloudProvider :: string
  sf_clusterType :: string
  sf_kubernetesVersion :: string
  sf_nodeType :: string
  sf_nodeCount :: int
  sf_masterNodeCount :: int
  sf_sshKeyName :: string
  sf_region :: string
  sf_clusterAutoscalerEnabled :: bool
  sf_clusterAutoscalerMinNodes :: int
  sf_clusterAutoscalerMaxNodes :: int

definition cmd_clusterspec_create :: "'w cli_env \<Rightarrow> spec_flags \<Rightarrow> string \<Rightarrow> ('w, unit) io" where
  "cmd_clusterspec_create env fl specName =
     with_config env (\<lambda>config.
     andThen (NewForConfigOrDie config) (\<lambda>kubeClient.
     clusterspec_Create (ce_AwsRegions env) (kube_ConfigMaps kubeClient) (sf_arlonNs fl) specName (sf_apiProvider fl)
       (sf_cloudProvider fl) (sf_clusterType fl) (sf_kubernetesVersion fl) (sf_nodeType fl) (sf_nodeCount fl)
       (sf_masterNodeCount fl) (sf_sshKeyName fl) (sf_region fl) (sf_clusterAutoscalerEnabled fl)
       (sf_clusterAutoscalerMinNodes fl) (sf_clusterAutoscalerMaxNodes fl) (sf_desc fl) (sf_tags fl)))"

text \<open>The pointer that the flags \<open>--enablecas\<close> and \<open>--disablecas\<close> give.\<close>

definition autoscaler_arg :: "bool \<Rightarrow> bool \<Rightarrow> go_error + bool option" where
  "autoscaler_arg enablecas disablecas =
     (if enablecas then
        (if disablecas then Inl (ErrorText ''--disablecas and --enablecas cannot both be set'')
         else Inr (Some enablecas))
      else if disablecas then Inr (Some enablecas)
      else Inr None)"

definition cmd_clusterspec_update :: "'w cli_env \<Rightarrow> spec_flags \<Rightarrow> bool \<Rightarrow> bool \<Rightarrow> string \<Rightarrow> ('w, unit) io" where
  "cmd_clusterspec_update env fl enablecas disablecas specName =
     with_config env (\<lambda>config.
     andThen (NewForConfigOrDie config) (\<lambda>kubeClient.
     andThen (lift (autoscaler_arg enablecas disablecas)) (\<lambda>clusterAutoscalerEnabledPtr.
     andThen (clusterspec_Update (kube_ConfigMaps kubeClient) (sf_arlonNs fl) specName (sf_kubernetesVersion fl)
       (sf_nodeType fl) (sf_nodeCount fl) (sf_masterNodeCount fl) clusterAutoscalerEnabledPtr
       (sf_clusterAutoscalerMinNodes fl) (sf_clusterAutoscalerMaxNodes fl) (sf_desc fl) (sf_tags fl)) (\<lambda>changed.
     if \<not> changed then say env ''no changes were made'' else ret ()))))"

definition cmd_clusterspec_delete :: "'w cli_env \<Rightarrow> string \<Rightarrow> string \<Rightarrow> ('w, unit) io" where
  "cmd_clusterspec_delete env ns clusterspecName =
     with_config env (\<lambda>config.
     andThen (NewForConfigOrDie config) (\<lambda>kubeClient.
     clusterspec_Delete (kube_ConfigMaps kubeClient) ns clusterspecName))"

text \<open>A config map that is not a specification is listed as corrupt.\<close>

definition clusterspec_row :: "config_map \<Rightarrow> string list" where
  "clusterspec_row configMap = (case FromConfigMap configMap of
       Inl _ \<Rightarrow> [cm_name configMap, ''(corrupt data)'']
     | Inr cs \<Rightarrow> [cs_Name cs, cs_ApiProvider cs, cs_CloudProvider cs, cs_Type cs, cs_KubernetesVersion cs, cs_NodeType cs,
         Itoa (cs_NodeCount cs), Itoa (cs_MasterNodeCount cs), cs_SshKeyName cs,
         FormatBool (cs_ClusterAutoscalerEnabled cs), Itoa (cs_ClusterAutoscalerMinNodes cs),
         Itoa (cs_ClusterAutoscalerMaxNodes cs), cs_Tags cs, cs_Description cs])"

definition cmd_clusterspec_list :: "'w cli_env \<Rightarrow> string \<Rightarrow> ('w, unit) io" where
  "cmd_clusterspec_list env ns =
     with_config env (\<lambda>config.
     andThen (NewForConfigOrDie config) (\<lambda>kubeClient.
     must (api_list (kube_ConfigMaps kubeClient) ns ''managed-by=arlon,arlon-type=clusterspec'')
       (ErrorCtx ''failed to list configMaps: '') (\<lambda>configMaps.
     if length configMaps = 0 then say env ''no clusterspecs found''
     else ce_Table env ([''NAME'', ''APIPROV'', ''CLOUDPROV'', ''TYPE'', ''KUBEVERSION'', ''NODETYPE'', ''NODECNT'',
         ''MSTNODECNT'', ''SSHKEY'', ''CAS'', ''CASMIN'', ''CASMAX'', ''TAGS'', ''DESCRIPTION'']
       # map clusterspec_row configMaps))))"

section \<open>Applications and their profiles\<close>

record app_flags =
  af_argocdNs :: string
  af_repoRevision :: revision
  af_destNs :: string
  af_project :: string
  af_outputYaml :: bool
  af_autoSync :: bool
  af_autoPrune :: bool

definition cmd_app_create :: "'w cli_env \<Rightarrow> app_flags \<Rightarrow> string \<Rightarrow> url \<Rightarrow> path \<Rightarrow> ('w, unit) io" where
  "cmd_app_create env fl appName repoUrl repoPath =
     (let app = app_Create (af_argocdNs fl) appName (af_destNs fl) (af_project fl) repoPath repoUrl (af_repoRevision fl)
            (af_autoSync fl) (af_autoPrune fl) in
      if af_outputYaml fl then
        must (ce_AddToScheme env) (ErrorCtx ''failed to add scheme: '') (\<lambda>_.
        must (ce_EncodeAppSet env app) (ErrorCtx ''failed to encode arlon app: '') ret)
      else
        with_config env (\<lambda>config.
        must (ctrlruntimeclient_NewClient config) (ErrorCtx ''failed to get controller runtime client: '') (\<lambda>cli.
        must (api_create (cli_ApplicationSets cli) (af_argocdNs fl) app) (ErrorCtx ''failed to create resource: '')
          (\<lambda>_. ret ()))))"

definition cmd_app_delete :: "'w cli_env \<Rightarrow> string \<Rightarrow> string \<Rightarrow> ('w, unit) io" where
  "cmd_app_delete env argocdNs appName =
     with_config env (\<lambda>config.
     must (app_Delete config argocdNs appName) (ErrorCtx ''failed to delete arlon app: '') ret)"

text \<open>The profiles an application occurs in, one mention for each occurrence.\<close>

definition profiles_of_app :: "app_profile list \<Rightarrow> string \<Rightarrow> string list" where
  "profiles_of_app profiles appName =
     concat (map (\<lambda>p. map (\<lambda>_. om_name (ap_meta p)) (filter (\<lambda>a. a = appName) (ap_AppNames p))) profiles)"

definition app_row :: "app_profile list \<Rightarrow> application_set \<Rightarrow> string list" where
  "app_row profiles app =
     (let src = app_Source (aps_Template_Spec app) in
      [om_name (aps_meta app), src_RepoURL src, src_Path src, src_TargetRevision src,
       print_slice (profiles_of_app profiles (om_name (aps_meta app)))])"

definition cmd_app_list :: "'w cli_env \<Rightarrow> string \<Rightarrow> ('w, unit) io" where
  "cmd_app_list env ns =
     with_config env (\<lambda>config.
     must (app_List config ns) (ErrorCtx ''failed to list apps: '') (\<lambda>apps.
     must (appprofile_List config ''arlon'') (ErrorCtx ''failed to list application profiles: '') (\<lambda>profiles.
     ce_Table env ([''NAME'', ''REPO'', ''PATH'', ''REVISION'', ''APP_PROFILES''] # map (app_row profiles) apps))))"

definition appprofile_row :: "app_profile \<Rightarrow> string list" where
  "appprofile_row p = [om_name (ap_meta p), print_slice (ap_AppNames p), ap_Health p, print_slice (ap_InvalidAppNames p)]"

definition ListToStdout :: "'w cli_env \<Rightarrow> 'w rest_config \<Rightarrow> string \<Rightarrow> ('w, unit) io" where
  "ListToStdout env config ns =
     must (appprofile_List config ns) (ErrorCtx ''failed to list application profiles: '') (\<lambda>profiles.
     ce_Table env ([''NAME'', ''APPS'', ''HEALTH'', ''INVALID_APPS''] # map appprofile_row profiles))"

definition cmd_appprofile_list :: "'w cli_env \<Rightarrow> string \<Rightarrow> ('w, unit) io" where
  "cmd_appprofile_list env ns = with_config env (\<lambda>config. ListToStdout env config ns)"

text \<open>The flag \<open>--clear\<close> of \<open>arlon profile update\<close> makes no difference.\<close>

lemma clear_has_no_effect:
  "pfl_bundles fl = None \<Longrightarrow> cmd_profile_update env fl True name = cmd_profile_update env fl False name"
  by (simp add: cmd_profile_update_def update_bundles_arg_def)

end
