(* ===== verification/Command_Tree.thy ===== *)
theory Command_Tree
  imports Install Commands
begin

text \<open>
  Commands of the library \<open>cobra\<close> with their flags, and the three groups that \<open>arlon init\<close> builds for itself and
  runs as the command line would: \<open>clustertemplate\<close> (\<open>cmd/basecluster\<close>), \<open>git\<close> (\<open>cmd/gitrepo\<close>) and \<open>install\<close>
  (\<open>cmd/install\<close>). A group prints its usage with the parameter \<open>Usage\<close>.
\<close>

section \<open>Commands and flags\<close>

text \<open>A slice of strings may be nil. The name, the shorthand (or the empty text) and the default value.\<close>

datatype flag_value = StringFlag string | IntFlag int | BoolFlag bool | StringsFlag "string list option"

record flag =
  flg_Name :: string
  flg_Shorthand :: string
  flg_Value :: flag_value

definition StringVar :: "string \<Rightarrow> string \<Rightarrow> flag" where
  "StringVar name value = \<lparr>flg_Name = name, flg_Shorthand = '''', flg_Value = StringFlag value\<rparr>"

definition IntVar :: "string \<Rightarrow> int \<Rightarrow> flag" where
  "IntVar name value = \<lparr>flg_Name = name, flg_Shorthand = '''', flg_Value = IntFlag value\<rparr>"

definition BoolVar :: "string \<Rightarrow> bool \<Rightarrow> flag" where
  "BoolVar name value = \<lparr>flg_Name = name, flg_Shorthand = '''', flg_Value = BoolFlag value\<rparr>"

definition BoolVarP :: "string \<Rightarrow> string \<Rightarrow> bool \<Rightarrow> flag" where
  "BoolVarP name shorthand value = \<lparr>flg_Name = name, flg_Shorthand = shorthand, flg_Value = BoolFlag value\<rparr>"

definition StringSliceVar :: "string \<Rightarrow> string list option \<Rightarrow> flag" where
  "StringSliceVar name value = \<lparr>flg_Name = name, flg_Shorthand = '''', flg_Value = StringsFlag value\<rparr>"

definition StringArrayVarP :: "string \<Rightarrow> string \<Rightarrow> string list option \<Rightarrow> flag" where
  "StringArrayVarP name shorthand value = \<lparr>flg_Name = name, flg_Shorthand = shorthand, flg_Value = StringsFlag value\<rparr>"

text \<open>The variables of the flags, by the names of the flags.\<close>

type_synonym flag_values = "string \<rightharpoonup> flag_value"

definition flag_defaults :: "flag list \<Rightarrow> flag_values" where
  "flag_defaults fs = map_of (map (\<lambda>f. (flg_Name f, flg_Value f)) fs)"

definition str :: "flag_values \<Rightarrow> string \<Rightarrow> string" where
  "str v n = (case v n of Some (StringFlag s) \<Rightarrow> s | _ \<Rightarrow> '''')"

definition num :: "flag_values \<Rightarrow> string \<Rightarrow> int" where
  "num v n = (case v n of Some (IntFlag i) \<Rightarrow> i | _ \<Rightarrow> 0)"

definition flg :: "flag_values \<Rightarrow> string \<Rightarrow> bool" where
  "flg v n = (case v n of Some (BoolFlag b) \<Rightarrow> b | _ \<Rightarrow> False)"

definition strs :: "flag_values \<Rightarrow> string \<Rightarrow> string list option" where
  "strs v n = (case v n of Some (StringsFlag s) \<Rightarrow> s | _ \<Rightarrow> None)"

definition elements :: "string list option \<Rightarrow> string list" where
  "elements s = (case s of None \<Rightarrow> [] | Some xs \<Rightarrow> xs)"

text \<open>
  The fields of a \<open>cobra.Command\<close> that are data, \<open>Args: cobra.ExactArgs(n)\<close>, and what is said of its flags.
  \<open>cd_KubectlFlags\<close> tells that \<open>AddKubectlFlagsToCmd\<close> is called on the command.
\<close>

record command_decl =
  cd_Use :: string
  cd_Aliases :: "string list"
  cd_ExactArgs :: "nat option"
  cd_KubectlFlags :: bool
  cd_Flags :: "flag list"
  cd_Required :: "string list"
  cd_MutuallyExclusive :: "string list list"
  cd_RequiredTogether :: "string list list"

definition Use :: "string \<Rightarrow> command_decl" where
  "Use s = \<lparr>cd_Use = s, cd_Aliases = [], cd_ExactArgs = None, cd_KubectlFlags = False, cd_Flags = [],
     cd_Required = [], cd_MutuallyExclusive = [], cd_RequiredTogether = []\<rparr>"

text \<open>
  \<open>AddKubectlFlagsToCmd\<close> adds the persistent flags \<open>kubectl\<close> of the client library, which is a parameter here.
  When a line is parsed, \<open>AddFlagSet\<close> merges them into the flags of the command, except those whose name the
  command has declared itself: these stay out of reach.
\<close>

definition declares :: "command_decl \<Rightarrow> string \<Rightarrow> bool" where
  "declares d n = (n \<in> set (map flg_Name (cd_Flags d)))"

definition line_flags :: "flag list \<Rightarrow> command_decl \<Rightarrow> flag list" where
  "line_flags kubectl d = cd_Flags d @
     (if cd_KubectlFlags d then filter (\<lambda>f. \<not> declares d (flg_Name f)) kubectl else [])"

definition hidden_flags :: "flag list \<Rightarrow> command_decl \<Rightarrow> flag list" where
  "hidden_flags kubectl d = (if cd_KubectlFlags d then filter (\<lambda>f. declares d (flg_Name f)) kubectl else [])"

text \<open>\<open>cmd.Name()\<close> is the first word of \<open>Use\<close>.\<close>

definition command_name :: "command_decl \<Rightarrow> string" where
  "command_name d = takeWhile (\<lambda>c. c \<noteq> CHR '' '') (cd_Use d)"

text \<open>\<open>PersistentPreRun\<close> is called with the name of the command that runs, \<open>Run\<close> with the flags and arguments.\<close>

datatype 'w command = Command (c_decl: command_decl)
  (c_PersistentPreRun: "(string \<Rightarrow> ('w, unit) io) option")
  (c_Run: "flag_values \<Rightarrow> string list \<Rightarrow> ('w, unit) io")
  (c_Commands: "'w command list")

definition with_arg :: "string list \<Rightarrow> nat \<Rightarrow> (string \<Rightarrow> ('w, 'a) io) \<Rightarrow> ('w, 'a) io" where
  "with_arg args i k = (if i < length args then k (args ! i) else panic ''index out of range'')"

text \<open>A group runs nothing but the text of its usage.\<close>

definition group_run :: "(string \<Rightarrow> ('w, unit) io) \<Rightarrow> command_decl \<Rightarrow> flag_values \<Rightarrow> string list \<Rightarrow> ('w, unit) io" where
  "group_run Usage d v args = ignoring (Usage (command_name d)) (ret ())"

definition argocd_flag :: flag where
  "argocd_flag = StringVar ''argocd-ns'' ''argocd''"

definition arlon_flag :: flag where
  "arlon_flag = StringVar ''arlon-ns'' ''arlon''"

section \<open>Cluster templates\<close>

definition template_flags_of :: "flag_values \<Rightarrow> template_flags" where
  "template_flags_of v = \<lparr>tf_argocdNs = str v ''argocd-ns'', tf_repoUrl = str v ''repo-url'',
     tf_repoAlias = str v ''repo-alias'', tf_repoRevision = str v ''repo-revision'', tf_repoPath = str v ''repo-path''\<rparr>"

definition template_flag_list :: "flag list" where
  "template_flag_list = [argocd_flag, StringVar ''repo-url'' '''', StringVar ''repo-alias'' RepoDefaultCtx,
     StringVar ''repo-revision'' ''main'', StringVar ''repo-path'' '''']"

definition cas_flag_list :: "flag list" where
  "cas_flag_list = [IntVar ''cas-min'' 1, IntVar ''cas-max'' 9]"

definition validateBaseCluster_decl :: command_decl where
  "validateBaseCluster_decl = (Use ''validate <filename> [flags]'')\<lparr>cd_ExactArgs := Some 1\<rparr>"

definition validateBaseClusterCommand :: "'w cli_env \<Rightarrow> 'w command" where
  "validateBaseClusterCommand env = Command validateBaseCluster_decl None
     (\<lambda>v args. with_arg args 0 (cmd_validate env)) []"

definition validateGitBaseCluster_decl :: command_decl where
  "validateGitBaseCluster_decl = (Use ''validategit --repo-url repoUrl [--repo-revision revision] [--repo-path path]'')
     \<lparr>cd_KubectlFlags := True, cd_Flags := template_flag_list, cd_MutuallyExclusive := [[''repo-url'', ''repo-alias'']]\<rparr>"

definition validateGitBaseClusterCommand :: "'w cli_env \<Rightarrow> 'w command" where
  "validateGitBaseClusterCommand env = Command validateGitBaseCluster_decl None
     (\<lambda>v args. cmd_validategit env (template_flags_of v)) []"

definition prepareBaseCluster_decl :: command_decl where
  "prepareBaseCluster_decl = (Use ''prepare <filename> [flags]'')\<lparr>cd_ExactArgs := Some 1,
     cd_Flags := cas_flag_list @ [BoolVar ''validate-only'' False]\<rparr>"

definition prepareBaseClusterCommand :: "'w cli_env \<Rightarrow> 'w command" where
  "prepareBaseClusterCommand env = Command prepareBaseCluster_decl None
     (\<lambda>v args. with_arg args 0 (\<lambda>fileName.
       cmd_prepare env fileName (flg v ''validate-only'') (num v ''cas-min'') (num v ''cas-max''))) []"

definition prepareGitBaseCluster_decl :: command_decl where
  "prepareGitBaseCluster_decl = (Use ''preparegit --repo-url repoUrl [--repo-revision revision] [--repo-path path]'')
     \<lparr>cd_KubectlFlags := True, cd_Flags := template_flag_list @ cas_flag_list,
      cd_MutuallyExclusive := [[''repo-url'', ''repo-alias'']]\<rparr>"

definition prepareGitBaseClusterCommand :: "'w cli_env \<Rightarrow> 'w command" where
  "prepareGitBaseClusterCommand env = Command prepareGitBaseCluster_decl None
     (\<lambda>v args. cmd_preparegit env (template_flags_of v) (num v ''cas-min'') (num v ''cas-max'')) []"

definition clustertemplate_decl :: command_decl where
  "clustertemplate_decl = (Use ''clustertemplate'')\<lparr>cd_Aliases := [''basecluster'', ''clustertemplates'', ''baseclusters'']\<rparr>"

definition basecluster_NewCommand :: "'w cli_env \<Rightarrow> (string \<Rightarrow> ('w, unit) io) \<Rightarrow> 'w command" where
  "basecluster_NewCommand env Usage = Command clustertemplate_decl None (group_run Usage clustertemplate_decl)
     [validateBaseClusterCommand env, validateGitBaseClusterCommand env, prepareBaseClusterCommand env,
      prepareGitBaseClusterCommand env]"

section \<open>Repositories and installation\<close>

definition register_decl :: command_decl where
  "register_decl = (Use ''register'')\<lparr>cd_ExactArgs := Some 1,
     cd_Flags := [StringVar ''user'' '''', StringVar ''password'' '''', StringVar ''alias'' RepoDefaultCtx],
     cd_Required := [''user'']\<rparr>"

definition register_command :: "'w gitrepo_env \<Rightarrow> 'w command" where
  "register_command env = Command register_decl None
     (\<lambda>v args. with_arg args 0 (\<lambda>repoUrl.
       gitrepo_register env repoUrl (str v ''user'') (str v ''password'') (str v ''alias''))) []"

definition unregister_decl :: command_decl where
  "unregister_decl = (Use ''unregister'')\<lparr>cd_ExactArgs := Some 1\<rparr>"

definition unregister_command :: "'w gitrepo_env \<Rightarrow> 'w command" where
  "unregister_command env = Command unregister_decl None (\<lambda>v args. with_arg args 0 (gitrepo_unregister env)) []"

definition git_decl :: command_decl where
  "git_decl = Use ''git''"

definition git_NewCommand :: "'w gitrepo_env \<Rightarrow> (string \<Rightarrow> ('w, unit) io) \<Rightarrow> 'w command" where
  "git_NewCommand env Usage = Command git_decl None (group_run Usage git_decl) [register_command env, unregister_command env]"

fun install_go_error :: "install_error \<Rightarrow> go_error" where
  "install_go_error (ErrBootstrap hardFail message) = ErrorText message"
| "install_go_error (OtherError e) = e"

definition install_decl :: command_decl where
  "install_decl = (Use ''install'')\<lparr>
     cd_Flags := [BoolVarP ''no-confirm'' ''y'' False, StringVar ''kubectlPath'' defaultKubectlPath,
       StringVar ''argocdPath'' defaultArgocdPath, StringVar ''kubeconfigPath'' '''',
       StringSliceVar ''infrastructure'' (Some [''aws'', ''docker'']), StringSliceVar ''bootstrap'' None,
       BoolVarP ''tools-only'' ''t'' False, BoolVarP ''capi-only'' ''c'' False],
     cd_MutuallyExclusive := [[''tools-only'', ''capi-only'']]\<rparr>"

definition install_NewCommand :: "'w install_env \<Rightarrow> 'w command" where
  "install_NewCommand env = Command install_decl None
     (\<lambda>v args. andThen (install_command env (str v ''kubectlPath'') (str v ''argocdPath'') (str v ''kubeconfigPath'') ''''
         (elements (strs v ''infrastructure'')) (elements (strs v ''bootstrap''))
         (flg v ''capi-only'') (flg v ''tools-only'') (flg v ''no-confirm''))
       (\<lambda>err. case err of None \<Rightarrow> ret () | Some e \<Rightarrow> fail (install_go_error e))) []"

section \<open>Running a command from the program\<close>

text \<open>\<open>for _, c := range g.Commands() { if c.Name() == n { ... } }\<close>; without one the pointer stays nil.\<close>

definition subcommand :: "'w command \<Rightarrow> string \<Rightarrow> 'w command option" where
  "subcommand g n = find (\<lambda>c. command_name (c_decl c) = n) (c_Commands g)"

text \<open>\<open>c.Flag(n).Value.Set(x)\<close> for some flags, then \<open>c.RunE(c, args)\<close>.\<close>

definition run_with :: "'w command \<Rightarrow> flag_values \<Rightarrow> string list \<Rightarrow> ('w, unit) io" where
  "run_with c settings args = c_Run c (flag_defaults (cd_Flags (c_decl c)) ++ settings) args"

definition run_subcommand :: "'w command \<Rightarrow> string \<Rightarrow> flag_values \<Rightarrow> string list \<Rightarrow> ('w, unit) io" where
  "run_subcommand g n settings args = (case subcommand g n of
     None \<Rightarrow> panic ''nil pointer dereference'' | Some c \<Rightarrow> run_with c settings args)"

end
