(* ===== verification/Initialize.thy ===== *)
theory Initialize
  imports Command_Tree
begin

text \<open>
  \<open>arlon init\<close> (\<open>cmd/initialize\<close>): installing ArgoCD and Arlon on the management cluster, reaching the
  ArgoCD server through a forwarded port, and pushing the example cluster templates. The clients of the
  cluster, the YAML codec, the poll loop of the API machinery, clusterctl and the file system are parameters.
\<close>

section \<open>Constants\<close>

definition argocdManifestURL :: "revision \<Rightarrow> url" where
  "argocdManifestURL tag = ''https://raw.githubusercontent.com/argoproj/argo-cd/'' @ tag @ ''/manifests/install.yaml''"

definition defaultArgoNamespace :: string where "defaultArgoNamespace = ''argocd''"
definition defaultArlonNamespace :: string where "defaultArlonNamespace = ''arlon''"
definition defaultArlonArgoCDUser :: string where "defaultArlonArgoCDUser = ''arlon''"
definition defaultArgoServerDeployment :: string where "defaultArgoServerDeployment = ''argocd-server''"
definition defaultArlonControllerDeployment :: string where "defaultArlonControllerDeployment = ''arlon-controller''"
definition defaultArlonAppProfileControllerDeployment :: string where
  "defaultArlonAppProfileControllerDeployment = ''arlon-appprof-ctrlr''"
definition reasonMinimumReplicasAvailable :: string where
  "reasonMinimumReplicasAvailable = ''MinimumReplicasAvailable''"
definition argoInitialAdminSecret :: string where "argoInitialAdminSecret = ''argocd-initial-admin-secret''"
definition argoServer :: string where "argoServer = ''127.0.0.1:8080''"
definition exampleDir :: path where "exampleDir = ''examples''"
definition baseclusterDir :: path where "baseclusterDir = ''baseclusters''"
definition defaultCtrlPlaneCount :: int where "defaultCtrlPlaneCount = 3"
definition defaultWorkerCount :: int where "defaultWorkerCount = 3"
definition defaultK8sVersion :: string where "defaultK8sVersion = ''v1.23.14''"

section \<open>Decoding manifests\<close>

text \<open>An object whose kind the program does not know: its printed group, version and kind, its name and
  namespace, and the rest.\<close>

record unstructured =
  un_GroupVersionKind :: string
  un_Name :: string
  un_Namespace :: string
  un_Content :: string

definition io_EOF :: go_error where
  "io_EOF = Sentinel ''io.EOF'' ''EOF''"

text \<open>A decoder over a text: each call gives the next document or an error.\<close>

record 'd yaml_decoder =
  yd_New :: "string \<Rightarrow> 'd"
  yd_Decode :: "'d \<Rightarrow> (go_error + unstructured) \<times> 'd"

text \<open>The loop of \<open>decodeResources\<close>; \<open>None\<close> for a loop that never ends.\<close>

partial_function (option) decode_loop ::
  "('d \<Rightarrow> (go_error + unstructured) \<times> 'd) \<Rightarrow> 'd \<Rightarrow> unstructured list \<Rightarrow> (go_error + unstructured list) option"
where
  [code]: "decode_loop decode d resources =
     (case decode d of
        (Inr resource, d') \<Rightarrow> decode_loop decode d' (resources @ [resource])
      | (Inl err, d') \<Rightarrow> Some (if err = io_EOF then Inr resources else Inl err))"

definition decodeResources :: "'d yaml_decoder \<Rightarrow> string \<Rightarrow> (go_error + unstructured list) option" where
  "decodeResources dec manifest = decode_loop (yd_Decode dec) (yd_New dec manifest) []"

text \<open>Its use in a function that talks to the world; \<open>hangs\<close> stands for a call that does not return, which
  the theorem below excludes for a decoder that reads on.\<close>

definition hangs :: "('w, 'a) io" where
  "hangs = panic ''no return''"

definition decoded :: "'d yaml_decoder \<Rightarrow> string \<Rightarrow> ('w, unstructured list) io" where
  "decoded dec manifest = (case decodeResources dec manifest of None \<Rightarrow> hangs | Some r \<Rightarrow> lift r)"

text \<open>The documents a decoder has to offer, up to the error that ends them.\<close>

inductive documents :: "('d \<Rightarrow> (go_error + unstructured) \<times> 'd) \<Rightarrow> 'd \<Rightarrow> unstructured list \<Rightarrow> go_error \<Rightarrow> bool"
  for decode where
  last_document: "decode d = (Inl e, d') \<Longrightarrow> documents decode d [] e"
| next_document: "decode d = (Inr u, d') \<Longrightarrow> documents decode d' us e \<Longrightarrow> documents decode d (u # us) e"

inductive_simps documents_Nil: "documents decode d [] e"
inductive_simps documents_Cons: "documents decode d (u # us) e"

lemma decode_loop_documents:
  "documents decode d us e \<Longrightarrow>
   decode_loop decode d acc = Some (if e = io_EOF then Inr (acc @ us) else Inl e)"
  by (induction arbitrary: acc rule: documents.induct) (simp_all add: decode_loop.simps)

text \<open>A decoder reads on: \<open>left\<close> is what it has not read yet.\<close>

definition reads_on :: "('d \<Rightarrow> nat) \<Rightarrow> 'd yaml_decoder \<Rightarrow> bool" where
  "reads_on left dec \<longleftrightarrow> (\<forall>d u d'. yd_Decode dec d = (Inr u, d') \<longrightarrow> left d' < left d)"

lemma documents_exist: "reads_on left dec \<Longrightarrow> \<exists>us e. documents (yd_Decode dec) d us e \<and> length us \<le> left d"
proof (induction "left d" arbitrary: d rule: less_induct)
  case less
  show ?case
  proof (cases "yd_Decode dec d")
    case (Pair r d')
    show ?thesis
    proof (cases r)
      case (Inl e)
      with Pair show ?thesis by (intro exI [of _ "[]"] exI [of _ e]) (simp add: documents_Nil)
    next
      case (Inr u)
      with Pair less.prems have "left d' < left d" by (simp add: reads_on_def)
      moreover from less.hyps [OF this less.prems] obtain us e
        where "documents (yd_Decode dec) d' us e" "length us \<le> left d'" by blast
      ultimately show ?thesis
        using Pair Inr by (intro exI [of _ "u # us"] exI [of _ e]) (simp add: documents_Cons)
    qed
  qed
qed

text \<open>C37: Decoding a manifest returns, for every text and every decoder that reads on with each document: the
  result is the list of all documents in their order, at most as many as there is text to read, or the first
  error of the decoder other than the end of the input, and then none of them.\<close>

theorem decodeResources_returns:
  assumes "reads_on left dec"
  shows "\<exists>us e. documents (yd_Decode dec) (yd_New dec manifest) us e \<and> length us \<le> left (yd_New dec manifest) \<and>
    decodeResources dec manifest = Some (if e = io_EOF then Inr us else Inl e)"
proof -
  from documents_exist [OF assms] obtain us e where "documents (yd_Decode dec) (yd_New dec manifest) us e"
    "length us \<le> left (yd_New dec manifest)" by blast
  with decode_loop_documents [of "yd_Decode dec" "yd_New dec manifest" us e "[]"] show ?thesis
    by (auto simp: decodeResources_def)
qed

text \<open>A decoder of lines, each the name of a config map.\<close>

definition line_object :: "string \<Rightarrow> unstructured" where
  "line_object l = \<lparr>un_GroupVersionKind = ''/v1, Kind=ConfigMap'', un_Name = l, un_Namespace = '''', un_Content = ''''\<rparr>"

definition line_decoder :: "string list yaml_decoder" where
  "line_decoder = \<lparr>yd_New = split_on newline,
     yd_Decode = (\<lambda>ls. case ls of [] \<Rightarrow> (Inl io_EOF, []) | l # ls \<Rightarrow> (Inr (line_object l), ls))\<rparr>"

lemma line_decoder_reads_on: "reads_on length line_decoder"
  by (auto simp: reads_on_def line_decoder_def split: list.splits)

lemma line_decoder_documents:
  "documents (yd_Decode line_decoder) ls us e \<longleftrightarrow> us = map line_object ls \<and> e = io_EOF"
proof (induction ls arbitrary: us)
  case Nil
  show ?case by (cases us) (auto simp: documents_Nil documents_Cons line_decoder_def)
next
  case (Cons l ls)
  then show ?case by (cases us) (auto simp: documents_Nil documents_Cons line_decoder_def)
qed

theorem decodeResources_returns_witness:
  "decodeResources line_decoder ''ab'' = Some (Inr [line_object ''ab''])"
  using decodeResources_returns [OF line_decoder_reads_on, of "''ab''"]
  unfolding line_decoder_documents by (auto simp: line_decoder_def newline_def)

section \<open>The world of \<open>arlon init\<close>\<close>

record deployment_condition =
  dc_Type :: string
  dc_Reason :: string

record deployment =
  dep_meta :: object_meta
  dep_Conditions :: "deployment_condition list"

record pod =
  pod_meta :: object_meta
  pod_Phase :: string

text \<open>What is created through the generic client.\<close>

datatype client_object = NamespaceObject object_meta | UnstructuredObject unstructured

record context_ref =
  cxr_Name :: string
  cxr_Server :: string
  cxr_User :: string

record argo_server =
  asv_Server :: string
  asv_Insecure :: bool
  asv_GRPCWebRootPath :: string

record argo_user =
  aus_Name :: string
  aus_AuthToken :: string

record local_config =
  lcf_CurrentContext :: string
  lcf_Contexts :: "context_ref list"
  lcf_Servers :: "argo_server list"
  lcf_Users :: "argo_user list"

record 'w account_client =
  acc_CreateToken :: "string \<Rightarrow> nat \<Rightarrow> ('w, string) io"
  acc_Close :: "('w, unit) io"

record 'w http_body =
  hb_ReadAll :: "('w, string) io"
  hb_Close :: "('w, unit) io"

text \<open>A port forwarder: starting it and waiting until it is ready, the local ports, stopping it.\<close>

record 'w forwarder =
  fw_Ready :: "('w, unit) io"
  fw_GetPorts :: "('w, nat list) io"
  fw_Stop :: "('w, unit) io"

record template_options =
  to_ClusterName :: string
  to_KubernetesVersion :: string
  to_ControlPlaneMachineCount :: int
  to_WorkerMachineCount :: int
  to_InfrastructureProvider :: string
  to_Flavor :: string

text \<open>The manifests embedded into the program.\<close>

record embedded_manifests =
  em_CRDProfile :: string
  em_CRDClusterReg :: string
  em_CRDCallHomeConfig :: string
  em_CRDAppProfile :: string
  em_YAMLdeploy :: string
  em_YAMLrbacCHC :: string
  em_YAMLrbacClusterReg :: string
  em_YAMLrbacAppProf :: string

text \<open>
  The clients: \<open>in_Create\<close> is the generic one, \<open>in_PollImmediate\<close> the poll loop (interval and timeout in
  seconds), \<open>in_NewAccountClient\<close> of ArgoCD ends the process when it fails, \<open>in_fs_Stat\<close> asks the file system of
  a working tree, given by its directory.
\<close>

record ('w, 'd) init_env =
  in_Namespaces :: "('w, object_meta) resource_api"
  in_Kube :: "'w kube_client"
  in_Deployments :: "('w, deployment) resource_api"
  in_Pods :: "('w, pod) resource_api"
  in_Create :: "client_object \<Rightarrow> ('w, unit) io"
  in_PollImmediate :: "nat \<Rightarrow> nat \<Rightarrow> ('w, bool) io \<Rightarrow> ('w, unit) io"
  in_NewAccountClient :: "('w, 'w account_client) io"
  in_Marshal :: "local_config \<Rightarrow> go_error + string"
  in_HttpGet :: "url \<Rightarrow> ('w, 'w http_body) io"
  in_Decoder :: "'d yaml_decoder"
  in_Manifests :: embedded_manifests
  in_argocdGitTag :: revision

section \<open>Installing objects\<close>

definition applyObject :: "('w, 'd) init_env \<Rightarrow> unstructured \<Rightarrow> string \<Rightarrow> ('w, unit) io" where
  "applyObject env object namespace =
     (let name = un_Name object;
          object = object\<lparr>un_Namespace := namespace\<rparr> in
      if name = '''' then fail (ErrorText (''object '' @ un_GroupVersionKind object @ '' has no name''))
      else
        let objDesc = ''('' @ un_GroupVersionKind object @ '') '' @ namespace @ ''/'' @ name in
        attempt (in_Create env (UnstructuredObject object))
          (\<lambda>err. if IsAlreadyExists err then ret ()
             else fail (ErrorText (''could not create '' @ objDesc @ ''. Error: '' @ error_string err)))
          (\<lambda>_. ret ()))"

definition downloadManifest :: "('w, 'd) init_env \<Rightarrow> url \<Rightarrow> ('w, string) io" where
  "downloadManifest env link = andThen (in_HttpGet env link) (\<lambda>body. deferring (hb_Close body) (hb_ReadAll body))"

definition apply_all :: "('w, 'd) init_env \<Rightarrow> string \<Rightarrow> unstructured list \<Rightarrow> unit \<Rightarrow> ('w, unit) io" where
  "apply_all env namespace resources _ = forM (\<lambda>obj _. applyObject env obj namespace) resources ()"

definition installArgo :: "('w, 'd) init_env \<Rightarrow> url \<Rightarrow> ('w, unit) io" where
  "installArgo env downloadLink =
     andThen (downloadManifest env downloadLink) (\<lambda>manifest.
     andThen (decoded (in_Decoder env) manifest) (\<lambda>resources.
     apply_all env defaultArgoNamespace resources ()))"

fun getDeploymentCondition :: "deployment_condition list \<Rightarrow> string \<Rightarrow> deployment_condition option" where
  "getDeploymentCondition [] condType = None"
| "getDeploymentCondition (c # cs) condType =
     (if dc_Type c = condType then Some c else getDeploymentCondition cs condType)"

definition is_available :: "deployment \<Rightarrow> bool" where
  "is_available d = (case getDeploymentCondition (dep_Conditions d) ''Available'' of
       None \<Rightarrow> False | Some condition \<Rightarrow> dc_Reason condition = reasonMinimumReplicasAvailable)"

definition deployment_ready :: "('w, 'd) init_env \<Rightarrow> string \<Rightarrow> string \<Rightarrow> ('w, bool) io" where
  "deployment_ready env ns name = andThen (api_get (in_Deployments env) ns name) (\<lambda>d. ret (is_available d))"

definition wait_for_deployment :: "('w, 'd) init_env \<Rightarrow> string \<Rightarrow> string \<Rightarrow> ('w, unit) io" where
  "wait_for_deployment env ns name = in_PollImmediate env 10 (5 * 60) (deployment_ready env ns name)"

text \<open>A creation that counts as done when the object is there already.\<close>

definition unless_exists :: "('w, 'a) io \<Rightarrow> ('w, 'b) io \<Rightarrow> ('w, 'b) io" where
  "unless_exists m k = attempt m (\<lambda>err. if \<not> IsAlreadyExists err then fail err else k) (\<lambda>_. k)"

definition beginArgoCDInstall :: "('w, 'd) init_env \<Rightarrow> ('w, unit) io" where
  "beginArgoCDInstall env =
     unless_exists (in_Create env (NamespaceObject (named_meta defaultArgoNamespace '''')))
       (andThen (installArgo env (argocdManifestURL (in_argocdGitTag env))) (\<lambda>_.
        wait_for_deployment env defaultArgoNamespace defaultArgoServerDeployment))"

definition absent_is_true :: "('w, 'a) io \<Rightarrow> ('w, bool) io" where
  "absent_is_true m = attempt m (\<lambda>err. if IsNotFound err then ret True else fail err) (\<lambda>_. ret False)"

definition canInstallArgocd :: "('w, 'd) init_env \<Rightarrow> string \<Rightarrow> ('w, bool) io" where
  "canInstallArgocd env argoNs = absent_is_true (api_get (in_Deployments env) argoNs defaultArgoServerDeployment)"

definition canInstallArlon :: "('w, 'd) init_env \<Rightarrow> string \<Rightarrow> ('w, bool) io" where
  "canInstallArlon env arlonNs = absent_is_true (api_get (in_Namespaces env) '''' arlonNs)"

definition getArgoAdminPassword :: "('w, 'd) init_env \<Rightarrow> string \<Rightarrow> ('w, string) io" where
  "getArgoAdminPassword env argoNs =
     andThen (api_get (kube_Secrets (in_Kube env)) argoNs argoInitialAdminSecret) (\<lambda>secret.
     ret (mget (secr_data secret) ''password''))"

section \<open>Installing Arlon\<close>

text \<open>The configuration of the in-cluster user.\<close>

definition argo_local_config :: "string \<Rightarrow> string \<Rightarrow> local_config" where
  "argo_local_config argoNamespace token =
     (let defaultInClusterUser = defaultArgoServerDeployment @ ''.'' @ argoNamespace @ ''.svc.cluster.local'' in
      \<lparr>lcf_CurrentContext = defaultInClusterUser,
       lcf_Contexts = [\<lparr>cxr_Name = defaultInClusterUser, cxr_Server = defaultInClusterUser,
         cxr_User = defaultInClusterUser\<rparr>],
       lcf_Servers = [\<lparr>asv_Server = defaultInClusterUser, asv_Insecure = True, asv_GRPCWebRootPath = ''''\<rparr>],
       lcf_Users = [\<lparr>aus_Name = defaultInClusterUser, aus_AuthToken = token\<rparr>]\<rparr>)"

definition argo_creds_secret :: "string \<Rightarrow> string \<Rightarrow> secret" where
  "argo_creds_secret arlonNamespace out =
     \<lparr>secr_meta = named_meta ''argocd-creds'' arlonNamespace, secr_data = mlit [(''config'', out)]\<rparr>"

definition createArgoCreds :: "('w, 'd) init_env \<Rightarrow> string \<Rightarrow> string \<Rightarrow> ('w, secret) io" where
  "createArgoCreds env arlonNamespace argoNamespace =
     andThen (in_NewAccountClient env) (\<lambda>accountClient.
     deferring (acc_Close accountClient)
       (andThen (acc_CreateToken accountClient defaultArlonArgoCDUser 0) (\<lambda>token.
        andThen (lift (in_Marshal env (argo_local_config argoNamespace token))) (\<lambda>out.
        api_create (kube_Secrets (in_Kube env)) arlonNamespace (argo_creds_secret arlonNamespace out)))))"

text \<open>The account of Arlon and its role in ArgoCD: each config map is read, its data replaced and stored.\<close>

definition argocd_account :: gomap where
  "argocd_account = mlit [(''accounts.arlon'', ''apiKey, login'')]"

definition argocd_policy :: gomap where
  "argocd_policy = mlit [(''policy.csv'', ''g, arlon, role:admin'')]"

definition configure_argocd :: "('w, 'd) init_env \<Rightarrow> string \<Rightarrow> ('w, unit) io" where
  "configure_argocd env argoNs =
     (let cms = kube_ConfigMaps (in_Kube env) in
      andThen (api_get cms argoNs ''argocd-cm'') (\<lambda>argoCm.
      andThen (api_get cms argoNs ''argocd-rbac-cm'') (\<lambda>argoRbacCm.
      andThen (api_update cms argoNs (argoCm\<lparr>cm_data := argocd_account\<rparr>)) (\<lambda>_.
      andThen (api_update cms argoNs (argoRbacCm\<lparr>cm_data := argocd_policy\<rparr>)) (\<lambda>_. ret ())))))"

definition decode_all :: "('w, 'd) init_env \<Rightarrow> string list \<Rightarrow> ('w, unstructured list list) io" where
  "decode_all env manifests =
     forM (\<lambda>m acc. andThen (decoded (in_Decoder env) m) (\<lambda>resources. ret (acc @ [resources]))) manifests []"

definition crds :: "embedded_manifests \<Rightarrow> string list" where
  "crds em = [em_CRDProfile em, em_CRDClusterReg em, em_CRDCallHomeConfig em, em_CRDAppProfile em]"

definition deplManifests :: "embedded_manifests \<Rightarrow> string list" where
  "deplManifests em = [em_YAMLdeploy em, em_YAMLrbacCHC em, em_YAMLrbacClusterReg em, em_YAMLrbacAppProf em]"

definition install_manifests :: "('w, 'd) init_env \<Rightarrow> string \<Rightarrow> ('w, unit) io" where
  "install_manifests env arlonNs =
     andThen (decode_all env (crds (in_Manifests env))) (\<lambda>decodedCrds.
     andThen (decode_all env (deplManifests (in_Manifests env))) (\<lambda>decodedDeplManifests.
     andThen (forM (apply_all env arlonNs) decodedCrds ()) (\<lambda>_.
     forM (apply_all env arlonNs) decodedDeplManifests ())))"

definition beginArlonInstall :: "('w, 'd) init_env \<Rightarrow> string \<Rightarrow> string \<Rightarrow> ('w, unit) io" where
  "beginArlonInstall env arlonNs argoNs =
     unless_exists (api_create (in_Namespaces env) '''' (named_meta arlonNs arlonNs))
       (andThen (configure_argocd env argoNs) (\<lambda>_.
        andThen (createArgoCreds env arlonNs argoNs) (\<lambda>_.
        andThen (install_manifests env arlonNs) (\<lambda>_.
        andThen (wait_for_deployment env arlonNs defaultArlonControllerDeployment) (\<lambda>_.
        wait_for_deployment env arlonNs defaultArlonAppProfileControllerDeployment)))))"

section \<open>Reaching the ArgoCD server\<close>

text \<open>What the port forwarding, the login, the examples and the other commands need.\<close>

record ('w, 'd) init_tools =
  it_Env :: "('w, 'd) init_env"
  it_ClientConfig :: "('w, unit) io"
  it_NewClient :: "('w, unit) io"
  it_NewForConfigOrDie :: "('w, unit) io"
  it_AskToProceed :: "string \<Rightarrow> ('w, bool) io"
  it_DefaultLocalConfigPath :: "('w, path) io"
  it_Login :: "path \<Rightarrow> string \<Rightarrow> string \<Rightarrow> string \<Rightarrow> ('w, unit) io"
  it_NewArgocdClientOrDie :: "('w, unit) io"
  it_Host :: string
  it_ParseURL :: "url \<Rightarrow> go_error + url"
  it_RoundTripperFor :: "('w, unit) io"
  it_NewOnAddresses :: "url \<Rightarrow> string list \<Rightarrow> string list \<Rightarrow> ('w, 'w forwarder) io"
  it_Installer :: "'w install_env"
  it_Cli :: "'w cli_env"
  it_Remove :: "path \<Rightarrow> ('w, unit) io"
  it_MkdirAll :: "path \<Rightarrow> ('w, unit) io"
  it_fs_Stat :: "path \<Rightarrow> path \<Rightarrow> ('w, unit) io"
  it_NewClusterctl :: "('w, unit) io"
  it_GetClusterTemplate :: "template_options \<Rightarrow> ('w, string) io"
  it_Yaml :: "string \<Rightarrow> go_error + string"
  it_Usage :: "string \<Rightarrow> ('w, unit) io"

text \<open>\<open>strings.Contains\<close>.\<close>

fun strings_Contains :: "string \<Rightarrow> string \<Rightarrow> bool" where
  "strings_Contains [] sub = (sub = [])"
| "strings_Contains (c # cs) sub = (take (length sub) (c # cs) = sub \<or> strings_Contains cs sub)"

text \<open>The loop over the pods: the index of the first running server, or else of the first pod of all.\<close>

fun running_index :: "pod list \<Rightarrow> nat \<Rightarrow> nat option" where
  "running_index [] idx = None"
| "running_index (p # ps) idx =
     (if strings_Contains (om_name (pod_meta p)) defaultArgoServerDeployment \<and> pod_Phase p = ''Running'' then Some idx
      else running_index ps (idx + 1))"

definition podIdx :: "pod list \<Rightarrow> nat" where
  "podIdx pods = (case running_index pods 0 of None \<Rightarrow> 0 | Some idx \<Rightarrow> idx)"

text \<open>The stop channel is written when the function returns; the error of the forwarding itself is dropped.\<close>

definition runPortForward ::
  "('w, 'd) init_tools \<Rightarrow> nat \<Rightarrow> nat \<Rightarrow> (nat \<Rightarrow> ('w, unit) io) \<Rightarrow> pod \<Rightarrow> string \<Rightarrow> ('w, unit) io" where
  "runPortForward t hostPort remotePort callback p argoNs =
     andThen (lift (it_ParseURL t (it_Host t @ ''/api/v1/namespaces/'' @ argoNs @ ''/pods/''
       @ om_name (pod_meta p) @ ''/portforward''))) (\<lambda>reqUrl.
     andThen (it_RoundTripperFor t) (\<lambda>_.
     andThen (it_NewOnAddresses t reqUrl [''127.0.0.1''] [Itoa (int hostPort) @ '':'' @ Itoa (int remotePort)]) (\<lambda>fw.
     deferring (fw_Stop fw)
       (andThen (fw_Ready fw) (\<lambda>_.
        andThen (fw_GetPorts fw) (\<lambda>ports.
        case ports of [port] \<Rightarrow> callback port | _ \<Rightarrow> fail (ErrorText ''failed to get ports''))))))) "

definition portForward :: "('w, 'd) init_tools \<Rightarrow> nat \<Rightarrow> nat \<Rightarrow> (nat \<Rightarrow> ('w, unit) io) \<Rightarrow> string \<Rightarrow> ('w, unit) io" where
  "portForward t hostPort remotePort callback argoNs =
     andThen (api_list (in_Pods (it_Env t)) argoNs ''app.kubernetes.io/name=argocd-server'') (\<lambda>pods.
     if length pods = 0 then
       fail (StatusError ReasonNotFound (''pod.v1 '' @ quote defaultArgoServerDeployment @ '' not found''))
     else runPortForward t hostPort remotePort callback (pods ! podIdx pods) argoNs)"

section \<open>Examples\<close>

text \<open>The loop over the directories; the result says that one is there and stays.\<close>

fun clear_examples :: "('w, 'd) init_tools \<Rightarrow> path \<Rightarrow> bool \<Rightarrow> path list \<Rightarrow> ('w, bool) io" where
  "clear_examples t tmpDir noConfirm [] = ret False"
| "clear_examples t tmpDir noConfirm (p # ps) =
     (let found =
        andThen (if noConfirm then ret True
          else it_AskToProceed t (''Example directory '' @ p @ '' already exists. Remove and proceed or Exit?[y/n]''))
          (\<lambda>shouldDelete.
            if shouldDelete then
              andThen (os_RemoveAll (ce_Git (it_Cli t)) (path_Join [tmpDir, p])) (\<lambda>_. clear_examples t tmpDir noConfirm ps)
            else ret True) in
      attempt (it_fs_Stat t tmpDir p)
        (\<lambda>err. if os_IsNotExist (ce_Git (it_Cli t)) err then clear_examples t tmpDir noConfirm ps else found)
        (\<lambda>_. found))"

definition clone_main ::
  "('w, 'd) init_tools \<Rightarrow> url \<Rightarrow> string \<Rightarrow> string \<Rightarrow> ('w, 'w repository \<times> path \<times> basic_auth) io" where
  "clone_main t repoUrl user password =
     CloneRepo (ce_Git (it_Cli t)) \<lparr>rcr_Url = repoUrl, rcr_Username = user, rcr_Password = password\<rparr> repoUrl ''main''"

definition push_cleared :: "'w repository \<Rightarrow> 'w worktree \<Rightarrow> basic_auth \<Rightarrow> ('w, bool) io" where
  "push_cleared repo wt auth =
     must (wt_Status wt) (\<lambda>err. ErrorWrap ''failed to get worktree status: '' err '''') (\<lambda>status.
     andThen (forM (\<lambda>(file, _) _. ignoring (wt_Add wt file) (ret ())) status ()) (\<lambda>_.
     must (wt_Commit wt ''clearing examples'' arlon_author) (\<lambda>err. ErrorWrap ''failed to commit change: '' err '''') (\<lambda>_.
     andThen (repo_Push repo auth) (\<lambda>_. ret False))))"

definition checkExamples ::
  "('w, 'd) init_tools \<Rightarrow> url \<Rightarrow> string \<Rightarrow> string \<Rightarrow> path list \<Rightarrow> bool \<Rightarrow> ('w, bool) io" where
  "checkExamples t repoUrl gitUser password baseClusterPaths noConfirm =
     andThen (clone_main t repoUrl gitUser password) (\<lambda>(repo, tmpDir, auth).
     deferring (os_RemoveAll (ce_Git (it_Cli t)) tmpDir)
       (andThen (repo_Worktree repo) (\<lambda>wt.
        andThen (clear_examples t tmpDir noConfirm baseClusterPaths) (\<lambda>exists.
        if exists then ret True else push_cleared repo wt auth))))"

definition runGenerateClusterTemplate ::
  "('w, 'd) init_tools \<Rightarrow> string \<Rightarrow> string \<Rightarrow> string \<Rightarrow> string \<Rightarrow> ('w, string) io" where
  "runGenerateClusterTemplate t clusterName k8sVersion infraProvider flavor =
     andThen (it_NewClusterctl t) (\<lambda>_.
     andThen (it_GetClusterTemplate t
         \<lparr>to_ClusterName = clusterName, to_KubernetesVersion = k8sVersion,
          to_ControlPlaneMachineCount = defaultCtrlPlaneCount, to_WorkerMachineCount = defaultWorkerCount,
          to_InfrastructureProvider = infraProvider, to_Flavor = flavor\<rparr>) (\<lambda>templ.
     andThen (lift (it_Yaml t templ)) (\<lambda>out. ret (out @ [newline]))))"

definition pushManifests ::
  "('w, 'd) init_tools \<Rightarrow> url \<Rightarrow> string \<Rightarrow> string \<Rightarrow> path \<Rightarrow> string \<Rightarrow> string \<Rightarrow> ('w, unit) io" where
  "pushManifests t repoUrl user password repoPath manifestData manifestName =
     (let file = path_Join [repoPath, manifestName] in
      andThen (clone_main t repoUrl user password) (\<lambda>(repo, tmpDir, auth).
      deferring (os_RemoveAll (ce_Git (it_Cli t)) tmpDir)
        (andThen (repo_Worktree repo) (\<lambda>wt.
         andThen (it_MkdirAll t (path_Join [tmpDir, repoPath])) (\<lambda>_.
         andThen (wt_OpenTrunc wt file) (\<lambda>_.
         deferring (wt_Close wt file)
           (andThen (wt_Write wt file manifestData) (\<lambda>_.
            andThen (CommitChanges (ce_Git (it_Cli t)) tmpDir wt (''add '' @ file)) (\<lambda>changed.
            if \<not> changed then ret () else repo_Push repo auth))))))))) "

section \<open>The command\<close>

text \<open>A question that counts as answered with yes under \<open>--no-confirm\<close>.\<close>

definition confirmed :: "('w, 'd) init_tools \<Rightarrow> bool \<Rightarrow> string \<Rightarrow> ('w, bool) io" where
  "confirmed t noConfirm question = (if \<not> noConfirm then it_AskToProceed t question else ret True)"

definition init_argocd :: "('w, 'd) init_tools \<Rightarrow> bool \<Rightarrow> ('w, unit) io" where
  "init_argocd t noConfirm =
     andThen (canInstallArgocd (it_Env t) defaultArgoNamespace) (\<lambda>canInstallArgo.
     if canInstallArgo then
       andThen (confirmed t noConfirm ''ArgoCD not found, possibly not installed. Proceed to install? [y/n]'')
         (\<lambda>shouldInstallArgo. if shouldInstallArgo then beginArgoCDInstall (it_Env t) else ret ())
     else ret ())"

definition login_and_install :: "('w, 'd) init_tools \<Rightarrow> path \<Rightarrow> nat \<Rightarrow> ('w, unit) io" where
  "login_and_install t argoCfg localPort =
     andThen (getArgoAdminPassword (it_Env t) defaultArgoNamespace) (\<lambda>password.
     andThen (it_Login t argoCfg ''admin'' password argoServer) (\<lambda>_.
     andThen (it_NewArgocdClientOrDie t) (\<lambda>_.
     beginArlonInstall (it_Env t) defaultArlonNamespace defaultArgoNamespace)))"

definition init_arlon :: "('w, 'd) init_tools \<Rightarrow> bool \<Rightarrow> path \<Rightarrow> ('w, unit) io" where
  "init_arlon t noConfirm argoCfg =
     andThen (canInstallArlon (it_Env t) defaultArlonNamespace) (\<lambda>canInstallArlonController.
     if canInstallArlonController then
       andThen (confirmed t noConfirm ''arlon namespace not found. Install arlon controller?[y/n]'')
         (\<lambda>shouldInstallArlon.
            if shouldInstallArlon
            then portForward t 8080 8080 (login_and_install t argoCfg) defaultArgoNamespace else ret ())
     else ret ())"

text \<open>Cluster API is installed by a command \<open>arlon install\<close> of its own, with two flags set.\<close>

definition init_capi :: "('w, 'd) init_tools \<Rightarrow> bool \<Rightarrow> ('w, unit) io" where
  "init_capi t noConfirm = run_with (install_NewCommand (it_Installer t))
     [''capi-only'' \<mapsto> BoolFlag True, ''no-confirm'' \<mapsto> BoolFlag noConfirm] []"

text \<open>The file of aliases is removed before the repository of the examples is registered. The flags of the
  sub-command are set when there is one; without one the process would end there.\<close>

definition register_examples ::
  "('w, 'd) init_tools \<Rightarrow> url \<Rightarrow> string \<Rightarrow> string \<Rightarrow> nat \<Rightarrow> ('w, unit) io" where
  "register_examples t repoUrl gitUser password localPort =
     (let cli = it_Cli t;
          gitrepoCmd = git_NewCommand (ce_Gitrepo cli) (it_Usage t);
          rest = (if length repoUrl = 0 then fail (ErrorText ''repoUrl not set'')
            else run_subcommand gitrepoCmd ''register''
              [''user'' \<mapsto> StringFlag gitUser, ''password'' \<mapsto> StringFlag password] [repoUrl]) in
      andThen (GetRepoCfgPath (ce_Gitrepo cli)) (\<lambda>path.
      attempt (it_Remove t path) (\<lambda>err. if \<not> os_IsNotExist (ce_Git cli) err then fail err else rest) (\<lambda>_. rest)))"

record example_template =
  et_repoPath :: path
  et_name :: string
  et_manifestFileName :: string
  et_provider :: string
  et_flavor :: string

definition baseClusterArgs :: "example_template list" where
  "baseClusterArgs =
     [\<lparr>et_repoPath = path_Join [exampleDir, baseclusterDir, ''docker''], et_name = ''docker-example'',
       et_manifestFileName = ''capd.yaml'', et_provider = ''docker'', et_flavor = ''development''\<rparr>,
      \<lparr>et_repoPath = path_Join [exampleDir, baseclusterDir, ''aws''], et_name = ''aws-example'',
       et_manifestFileName = ''capa.yaml'', et_provider = ''aws'', et_flavor = ''''\<rparr>,
      \<lparr>et_repoPath = path_Join [exampleDir, baseclusterDir, ''aws-eks''], et_name = ''aws-eks-example'',
       et_manifestFileName = ''capa-eks.yaml'', et_provider = ''aws'', et_flavor = ''eks''\<rparr>]"

text \<open>Each example is generated, pushed and prepared in git by a command \<open>preparegit\<close> of its own.\<close>

definition push_example :: "('w, 'd) init_tools \<Rightarrow> url \<Rightarrow> string \<Rightarrow> string \<Rightarrow> example_template \<Rightarrow> unit \<Rightarrow> ('w, unit) io" where
  "push_example t repoUrl gitUser password b _ =
     andThen (runGenerateClusterTemplate t (et_name b) defaultK8sVersion (et_provider b) (et_flavor b)) (\<lambda>manifest.
     andThen (pushManifests t repoUrl gitUser password (et_repoPath b) manifest (et_manifestFileName b)) (\<lambda>_.
     run_subcommand (basecluster_NewCommand (it_Cli t) (it_Usage t)) ''preparegit''
       [''repo-path'' \<mapsto> StringFlag (et_repoPath b)] []))"

definition init_examples :: "('w, 'd) init_tools \<Rightarrow> bool \<Rightarrow> url \<Rightarrow> string \<Rightarrow> string \<Rightarrow> ('w, unit) io" where
  "init_examples t noConfirm repoUrl gitUser password =
     andThen (portForward t 8080 8080 (register_examples t repoUrl gitUser password) defaultArgoNamespace) (\<lambda>_.
     andThen (checkExamples t repoUrl gitUser password (map et_repoPath baseClusterArgs) noConfirm) (\<lambda>exists.
     if exists then ret () else forM (push_example t repoUrl gitUser password) baseClusterArgs ()))"

definition init_command ::
  "('w, 'd) init_tools \<Rightarrow> bool \<Rightarrow> bool \<Rightarrow> string \<Rightarrow> string \<Rightarrow> url \<Rightarrow> ('w, unit) io" where
  "init_command t noConfirm addExamples gitUser password repoUrl =
     andThen (it_ClientConfig t) (\<lambda>_.
     andThen (it_NewClient t) (\<lambda>_.
     CheckError (it_NewForConfigOrDie t) (\<lambda>_.
     andThen (init_argocd t noConfirm) (\<lambda>_.
     andThen (it_DefaultLocalConfigPath t) (\<lambda>argoCfg.
     andThen (init_arlon t noConfirm argoCfg) (\<lambda>_.
     andThen (init_capi t noConfirm) (\<lambda>_.
     if \<not> addExamples then ret () else init_examples t noConfirm repoUrl gitUser password)))))))"

end
