(* ===== verification/Initialize_Correct.thy ===== *)
theory Initialize_Correct
  imports Initialize
begin

text \<open>
  What \<open>arlon init\<close> leaves on the management cluster: the objects of an installation that succeeded, and
  why one that failed is not taken up again. \<open>init_state\<close> is the part of the cluster this is about.
\<close>

section \<open>The cluster\<close>

record init_state =
  is_Namespaces :: "string set"
  is_ConfigMaps :: "string \<times> string \<rightharpoonup> gomap"
  is_Secrets :: "string \<times> string \<rightharpoonup> gomap"
  is_Objects :: "(string \<times> string \<times> string) set"

definition object_key :: "unstructured \<Rightarrow> string \<times> string \<times> string" where
  "object_key o' = (un_GroupVersionKind o', un_Namespace o', un_Name o')"

text \<open>\<open>grows s s'\<close>: what was there is there and unchanged.\<close>

definition grows :: "init_state \<Rightarrow> init_state \<Rightarrow> bool" where
  "grows s s' \<longleftrightarrow> is_Namespaces s \<subseteq> is_Namespaces s' \<and> is_ConfigMaps s \<subseteq>\<^sub>m is_ConfigMaps s' \<and>
     is_Secrets s \<subseteq>\<^sub>m is_Secrets s' \<and> is_Objects s \<subseteq> is_Objects s'"

lemma grows_refl [simp, intro]: "grows s s"
  by (simp add: grows_def)

lemma grows_lookup:
  assumes "grows s s'"
  shows "n \<in> is_Namespaces s \<Longrightarrow> n \<in> is_Namespaces s'"
    and "is_ConfigMaps s k = Some c \<Longrightarrow> is_ConfigMaps s' k = Some c"
    and "is_Secrets s k = Some d \<Longrightarrow> is_Secrets s' k = Some d"
  using assms by (cases k; auto simp: grows_def map_le_def dom_def)+

lemma grows_trans [trans]: "grows s s' \<Longrightarrow> grows s' s'' \<Longrightarrow> grows s s''"
  unfolding grows_def by (blast intro: map_le_trans)

text \<open>
  What the clients promise. A read changes nothing and tells what is stored; a failed write may have been
  carried out; a creation never changes an object that exists, and reports exactly such an object. The poll
  loop calls its condition and waits: it changes nothing if the condition does not, and ends without an error
  only when the condition held. Documented behaviour of the API server and of \<open>wait.PollImmediate\<close>.
\<close>

definition put_config_map :: "string \<Rightarrow> config_map \<Rightarrow> init_state \<Rightarrow> init_state" where
  "put_config_map ns cm s = s\<lparr>is_ConfigMaps := (is_ConfigMaps s)((ns, cm_name cm) \<mapsto> cm_data cm)\<rparr>"

definition put_secret :: "string \<Rightarrow> secret \<Rightarrow> init_state \<Rightarrow> init_state" where
  "put_secret ns secr s = s\<lparr>is_Secrets := (is_Secrets s)((ns, secr_name secr) \<mapsto> secr_data secr)\<rparr>"

definition put_namespace :: "string \<Rightarrow> init_state \<Rightarrow> init_state" where
  "put_namespace n s = s\<lparr>is_Namespaces := insert n (is_Namespaces s)\<rparr>"

text \<open>The outcome of a write that turns \<open>s\<close> into \<open>t\<close>.\<close>

definition wrote :: "'a result \<Rightarrow> init_state \<Rightarrow> init_state \<Rightarrow> init_state \<Rightarrow> bool" where
  "wrote r s t s' \<longleftrightarrow> (case r of Inr _ \<Rightarrow> s' = t | Inl _ \<Rightarrow> s' = s \<or> s' = t)"

definition lawful_namespaces :: "('w \<Rightarrow> init_state) \<Rightarrow> ('w, object_meta) resource_api \<Rightarrow> bool" where
  "lawful_namespaces V api \<longleftrightarrow>
     (\<forall>m w r w'. api_create api '''' m w = (r, w') \<longrightarrow> wrote r (V w) (put_namespace (om_name m) (V w)) (V w') \<and>
        (\<forall>e. r = Inl (Err e) \<longrightarrow> IsAlreadyExists e \<longrightarrow> om_name m \<in> is_Namespaces (V w))) \<and>
     (\<forall>n w r w'. api_get api '''' n w = (r, w') \<longrightarrow> V w' = V w \<and>
        (\<forall>m. r = Inr m \<longrightarrow> n \<in> is_Namespaces (V w)) \<and>
        (\<forall>e. r = Inl (Err e) \<longrightarrow> IsNotFound e \<longrightarrow> n \<notin> is_Namespaces (V w)))"

definition lawful_kube :: "('w \<Rightarrow> init_state) \<Rightarrow> 'w kube_client \<Rightarrow> bool" where
  "lawful_kube V kc \<longleftrightarrow>
     (\<forall>ns n w r w'. api_get (kube_ConfigMaps kc) ns n w = (r, w') \<longrightarrow> V w' = V w \<and>
        (\<forall>cm. r = Inr cm \<longrightarrow> cm_name cm = n)) \<and>
     (\<forall>ns cm w r w'. api_update (kube_ConfigMaps kc) ns cm w = (r, w') \<longrightarrow>
        wrote r (V w) (put_config_map ns cm (V w)) (V w')) \<and>
     (\<forall>ns n. steady V (api_get (kube_Secrets kc) ns n)) \<and>
     (\<forall>ns secr w r w'. api_create (kube_Secrets kc) ns secr w = (r, w') \<longrightarrow>
        (is_Secrets (V w) (ns, secr_name secr) \<noteq> None \<longrightarrow> V w' = V w \<and> (\<forall>x. r \<noteq> Inr x)) \<and>
        (is_Secrets (V w) (ns, secr_name secr) = None \<longrightarrow> wrote r (V w) (put_secret ns secr (V w)) (V w')))"

definition lawful_init :: "('w \<Rightarrow> init_state) \<Rightarrow> ('w, 'd) init_env \<Rightarrow> bool" where
  "lawful_init V env \<longleftrightarrow> lawful_namespaces V (in_Namespaces env) \<and> lawful_kube V (in_Kube env) \<and>
     (\<forall>o' w r w'. in_Create env (UnstructuredObject o') w = (r, w') \<longrightarrow> grows (V w) (V w') \<and>
        (\<forall>u. r = Inr u \<longrightarrow> object_key o' \<in> is_Objects (V w')) \<and>
        (\<forall>e. r = Inl (Err e) \<longrightarrow> IsAlreadyExists e \<longrightarrow> object_key o' \<in> is_Objects (V w'))) \<and>
     (\<forall>ns n. steady V (api_get (in_Deployments env) ns n)) \<and>
     (\<forall>i t c. steady V c \<longrightarrow> steady V (in_PollImmediate env i t c)) \<and>
     (\<forall>i t c w w'. in_PollImmediate env i t c w = (Inr (), w') \<longrightarrow> (\<exists>w1 w2. c w1 = (Inr True, w2))) \<and>
     steady V (in_NewAccountClient env) \<and>
     (\<forall>ac. returns (in_NewAccountClient env) ac \<longrightarrow> steady V (acc_Close ac) \<and> (\<forall>n t. steady V (acc_CreateToken ac n t)))"

lemma lawful_initD:
  assumes "lawful_init V env"
  shows lawful_init_namespaces: "lawful_namespaces V (in_Namespaces env)"
    and lawful_init_kube: "lawful_kube V (in_Kube env)"
    and lawful_init_deployments: "steady V (api_get (in_Deployments env) ns n)"
    and lawful_init_poll: "steady V c \<Longrightarrow> steady V (in_PollImmediate env i t c)"
  using assms by (simp_all add: lawful_init_def)

lemma lawful_init_poll_ends:
  assumes "lawful_init V env" "in_PollImmediate env i t c w = (Inr (), w')"
  shows "\<exists>w1 w2. c w1 = (Inr True, w2)"
proof -
  from assms(1) have "\<forall>i t c w w'. in_PollImmediate env i t c w = (Inr (), w') \<longrightarrow> (\<exists>w1 w2. c w1 = (Inr True, w2))"
    unfolding lawful_init_def by (elim conjE) assumption
  with assms(2) show ?thesis by metis
qed

lemma lawful_namespaces_create:
  assumes "lawful_namespaces V api" "api_create api '''' m w = (r, w')"
  shows "wrote r (V w) (put_namespace (om_name m) (V w)) (V w')"
    and "r = Inl (Err e) \<Longrightarrow> IsAlreadyExists e \<Longrightarrow> om_name m \<in> is_Namespaces (V w)"
  by (insert assms, unfold lawful_namespaces_def, elim conjE, blast)+

lemma lawful_namespaces_get:
  assumes "lawful_namespaces V api" "api_get api '''' n w = (r, w')"
  shows "V w' = V w" "r = Inr m \<Longrightarrow> n \<in> is_Namespaces (V w)"
    "r = Inl (Err e) \<Longrightarrow> IsNotFound e \<Longrightarrow> n \<notin> is_Namespaces (V w)"
  by (insert assms, unfold lawful_namespaces_def, elim conjE, blast)+

section \<open>Installing objects\<close>

lemma applyObject_ok:
  assumes "lawful_init V env" "applyObject env u ns w = (Inr (), w')"
  shows "grows (V w) (V w') \<and> un_Name u \<noteq> '''' \<and> (un_GroupVersionKind u, ns, un_Name u) \<in> is_Objects (V w')"
proof -
  have law: "in_Create env (UnstructuredObject o') w = (r, w') \<Longrightarrow> grows (V w) (V w') \<and>
        (\<forall>u. r = Inr u \<longrightarrow> object_key o' \<in> is_Objects (V w')) \<and>
        (\<forall>e. r = Inl (Err e) \<longrightarrow> IsAlreadyExists e \<longrightarrow> object_key o' \<in> is_Objects (V w'))" for o' r
    using assms(1) unfolding lawful_init_def by blast
  from assms(2) show ?thesis
    by (auto simp: applyObject_def Let_def attempt_ok ok_iff object_key_def dest!: law split: if_splits)
qed

text \<open>A loop of installations, each of which makes its condition true.\<close>

lemma forM_grows:
  assumes "forM f xs () w = (Inr (), w')"
    and step: "\<And>x w w'. f x () w = (Inr (), w') \<Longrightarrow> grows (V w) (V w') \<and> P x (V w')"
    and mono: "\<And>x s s'. P x s \<Longrightarrow> grows s s' \<Longrightarrow> P x s'"
  shows "grows (V w) (V w') \<and> (\<forall>x \<in> set xs. P x (V w'))"
  using assms(1)
proof (induction xs arbitrary: w)
  case (Cons x xs)
  then obtain w1 where x: "f x () w = (Inr (), w1)" and xs: "forM f xs () w1 = (Inr (), w')"
    by (auto simp: ok_iff)
  from step [OF x] Cons.IH [OF xs] have "grows (V w) (V w')" and "P x (V w')"
    by (blast intro: grows_trans mono)+
  with Cons.IH [OF xs] show ?case by simp
qed (simp add: ok_iff)

definition installed_in :: "string \<Rightarrow> unstructured \<Rightarrow> init_state \<Rightarrow> bool" where
  "installed_in ns u s \<longleftrightarrow> un_Name u \<noteq> '''' \<and> (un_GroupVersionKind u, ns, un_Name u) \<in> is_Objects s"

lemma installed_in_grows: "installed_in ns u s \<Longrightarrow> grows s s' \<Longrightarrow> installed_in ns u s'"
  by (auto simp: installed_in_def grows_def)

lemma applyObject_installed:
  "lawful_init V env \<Longrightarrow> applyObject env u ns w = (Inr (), w') \<Longrightarrow> grows (V w) (V w') \<and> installed_in ns u (V w')"
  using applyObject_ok by (fastforce simp: installed_in_def)

lemma apply_all_ok:
  assumes "lawful_init V env" "apply_all env ns us x w = (Inr (), w')"
  shows "grows (V w) (V w') \<and> (\<forall>u \<in> set us. installed_in ns u (V w'))"
  using assms(2) unfolding apply_all_def
  by (rule forM_grows) (auto dest: applyObject_installed [OF assms(1)] installed_in_grows)

lemma apply_lists_ok:
  assumes "lawful_init V env" "forM (apply_all env ns) uss () w = (Inr (), w')"
  shows "grows (V w) (V w') \<and> (\<forall>us \<in> set uss. \<forall>u \<in> set us. installed_in ns u (V w'))"
  using assms(2) by (rule forM_grows) (auto dest: apply_all_ok [OF assms(1)] installed_in_grows)

lemma decoded_ok: "decoded dec m w = (Inr us, w') \<longleftrightarrow> decodeResources dec m = Some (Inr us) \<and> w' = w"
  by (auto simp: decoded_def hangs_def ok_iff split: option.splits)

lemma decode_all_ok:
  assumes "decode_all env ms w = (Inr uss, w')"
  shows "w' = w \<and> map (decodeResources (in_Decoder env)) ms = map (\<lambda>us. Some (Inr us)) uss"
proof -
  have "w' = w \<and> (\<exists>new. uss = acc @ new \<and> map (decodeResources (in_Decoder env)) ms = map (\<lambda>us. Some (Inr us)) new)"
    if "forM (\<lambda>m acc. andThen (decoded (in_Decoder env) m) (\<lambda>us. ret (acc @ [us]))) ms acc w = (Inr uss, w')" for acc w
    using that by (induction ms arbitrary: acc w) (fastforce simp: ok_iff decoded_ok)+
  from this [of "[]" w] assms show ?thesis unfolding decode_all_def by simp
qed

text \<open>Every object of the embedded manifests.\<close>

definition all_installed :: "('w, 'd) init_env \<Rightarrow> string \<Rightarrow> init_state \<Rightarrow> bool" where
  "all_installed env ns s \<longleftrightarrow> (\<forall>m \<in> set (crds (in_Manifests env) @ deplManifests (in_Manifests env)).
     \<exists>us. decodeResources (in_Decoder env) m = Some (Inr us) \<and> (\<forall>u \<in> set us. installed_in ns u s))"

lemma decoded_all_installed:
  assumes "map (decodeResources dec) ms = map (\<lambda>us. Some (Inr us)) uss" "m \<in> set ms"
  shows "\<exists>us \<in> set uss. decodeResources dec m = Some (Inr us)"
proof -
  have "decodeResources dec m \<in> set (map (\<lambda>us. Some (Inr us)) uss)"
    using assms by (metis image_eqI set_map)
  then show ?thesis by auto
qed

lemma install_manifests_ok:
  assumes "lawful_init V env" "install_manifests env ns w = (Inr (), w')"
  shows "grows (V w) (V w') \<and> all_installed env ns (V w')"
proof -
  from assms(2) obtain cs ds w1 where c: "map (decodeResources (in_Decoder env)) (crds (in_Manifests env)) = map (\<lambda>us. Some (Inr us)) cs"
    and d: "map (decodeResources (in_Decoder env)) (deplManifests (in_Manifests env)) = map (\<lambda>us. Some (Inr us)) ds"
    and ac: "forM (apply_all env ns) cs () w = (Inr (), w1)" and ad: "forM (apply_all env ns) ds () w1 = (Inr (), w')"
    by (auto simp: install_manifests_def ok_iff dest!: decode_all_ok)
  note A = apply_lists_ok [OF assms(1) ac] and B = apply_lists_ok [OF assms(1) ad]
  from A B have "\<forall>us \<in> set cs \<union> set ds. \<forall>u \<in> set us. installed_in ns u (V w')" by (blast intro: installed_in_grows)
  with decoded_all_installed [OF c] decoded_all_installed [OF d] have "all_installed env ns (V w')"
    unfolding all_installed_def by (metis Un_iff set_append)
  with A B show ?thesis by (blast intro: grows_trans)
qed

section \<open>An installation of Arlon that succeeds\<close>

lemma kube_update_ok:
  assumes "lawful_kube V kc" "api_update (kube_ConfigMaps kc) ns cm w = (Inr y, w')"
  shows "V w' = put_config_map ns cm (V w)"
proof -
  from assms have "wrote (Inr y) (V w) (put_config_map ns cm (V w)) (V w')" unfolding lawful_kube_def by blast
  then show ?thesis by (simp add: wrote_def)
qed

lemma kube_get_ok:
  assumes "lawful_kube V kc" "api_get (kube_ConfigMaps kc) ns n w = (Inr cm, w')"
  shows "V w' = V w \<and> cm_name cm = n"
  using assms unfolding lawful_kube_def by blast

lemma kube_create_secret_ok:
  assumes "lawful_kube V kc" "api_create (kube_Secrets kc) ns secr w = (Inr y, w')"
  shows "is_Secrets (V w) (ns, secr_name secr) = None \<and> V w' = put_secret ns secr (V w)"
proof -
  from assms have "is_Secrets (V w) (ns, secr_name secr) = None" unfolding lawful_kube_def by blast
  moreover from this assms have "wrote (Inr y) (V w) (put_secret ns secr (V w)) (V w')"
    unfolding lawful_kube_def by blast
  ultimately show ?thesis by (simp add: wrote_def)
qed

lemma configure_argocd_ok:
  assumes "lawful_init V env" "configure_argocd env argoNs w = (Inr (), w')"
  shows "V w' = (V w)\<lparr>is_ConfigMaps := (is_ConfigMaps (V w))
    ((argoNs, ''argocd-cm'') \<mapsto> argocd_account, (argoNs, ''argocd-rbac-cm'') \<mapsto> argocd_policy)\<rparr>"
proof -
  let ?cms = "kube_ConfigMaps (in_Kube env)"
  from assms(2) obtain a w1 b w2 w3 y z where g: "api_get ?cms argoNs ''argocd-cm'' w = (Inr a, w1)"
    "api_get ?cms argoNs ''argocd-rbac-cm'' w1 = (Inr b, w2)"
    and u: "api_update ?cms argoNs (a\<lparr>cm_data := argocd_account\<rparr>) w2 = (Inr y, w3)"
    "api_update ?cms argoNs (b\<lparr>cm_data := argocd_policy\<rparr>) w3 = (Inr z, w')"
    by (auto simp: configure_argocd_def Let_def ok_iff)
  have kube: "lawful_kube V (in_Kube env)" using assms(1) by (simp add: lawful_init_def)
  from kube_get_ok [OF kube g(1)] kube_get_ok [OF kube g(2)] kube_update_ok [OF kube u(1)] kube_update_ok [OF kube u(2)]
  show ?thesis by (simp add: put_config_map_def)
qed

lemma createArgoCreds_ok:
  assumes "lawful_init V env" "createArgoCreds env arlonNs argoNs w = (Inr secr, w')"
  shows "\<exists>token out. in_Marshal env (argo_local_config argoNs token) = Inr out \<and>
    is_Secrets (V w) (arlonNs, ''argocd-creds'') = None \<and>
    V w' = (V w)\<lparr>is_Secrets := (is_Secrets (V w))((arlonNs, ''argocd-creds'') \<mapsto> mlit [(''config'', out)])\<rparr>"
proof -
  from assms(2) obtain ac w1 token w2 out w3 where ac: "in_NewAccountClient env w = (Inr ac, w1)"
    and t: "acc_CreateToken ac defaultArlonArgoCDUser 0 w1 = (Inr token, w2)"
    and out: "in_Marshal env (argo_local_config argoNs token) = Inr out"
    and c: "api_create (kube_Secrets (in_Kube env)) arlonNs (argo_creds_secret arlonNs out) w2 = (Inr secr, w3)"
    and cl: "w' = snd (acc_Close ac w3)"
    by (auto simp: createArgoCreds_def ok_iff)
  from assms(1) have st: "steady V (in_NewAccountClient env)" and kube: "lawful_kube V (in_Kube env)"
    and acl: "returns (in_NewAccountClient env) ac \<Longrightarrow> steady V (acc_Close ac) \<and> steady V (acc_CreateToken ac n t)" for n t
    by (auto simp: lawful_init_def)
  have r: "returns (in_NewAccountClient env) ac" using ac by (auto simp: returns_def)
  have v: "V w2 = V w" "V w' = V w3"
    using steadyD [OF st ac] steadyD [OF conjunct2 [OF acl [OF r]] t] conjunct1 [OF acl [OF r]] cl
    by (simp_all add: steady_def)
  from kube_create_secret_ok [OF kube c] v out show ?thesis
    by (intro exI [of _ token] exI [of _ out]) (simp add: put_secret_def argo_creds_secret_def named_meta_def)
qed


lemma wait_for_deployment_ok:
  assumes "lawful_init V env" "wait_for_deployment env ns n w = (Inr (), w')"
  shows "V w' = V w \<and> (\<exists>d. returns (api_get (in_Deployments env) ns n) d \<and> is_available d)"
proof -
  have "steady V (deployment_ready env ns n)"
    unfolding deployment_ready_def by (intro steady_andThen lawful_init_deployments [OF assms(1)] steady_ret)
  then have "steady V (wait_for_deployment env ns n)"
    unfolding wait_for_deployment_def by (rule lawful_init_poll [OF assms(1)])
  then have "V w' = V w" using assms(2) by (rule steadyD)
  moreover from lawful_init_poll_ends [OF assms(1) assms(2) [unfolded wait_for_deployment_def]]
  obtain w1 w2 where "deployment_ready env ns n w1 = (Inr True, w2)" by blast
  then have "\<exists>d. returns (api_get (in_Deployments env) ns n) d \<and> is_available d"
    by (auto simp: deployment_ready_def ok_iff returns_def)
  ultimately show ?thesis by simp
qed

lemma create_namespace_ok:
  assumes "lawful_init V env"
    and "unless_exists (api_create (in_Namespaces env) '''' (named_meta n n)) k w = (Inr x, w')"
  shows "\<exists>w1. k w1 = (Inr x, w') \<and> n \<in> is_Namespaces (V w1) \<and> is_ConfigMaps (V w1) = is_ConfigMaps (V w) \<and>
    is_Secrets (V w1) = is_Secrets (V w)"
proof -
  have n: "om_name (named_meta n n) = n" by (simp add: named_meta_def)
  note law = lawful_namespaces_create [OF lawful_init_namespaces [OF assms(1)], of "named_meta n n", unfolded n]
  from assms(2) consider y w1 where "api_create (in_Namespaces env) '''' (named_meta n n) w = (Inr y, w1)" "k w1 = (Inr x, w')"
    | e w1 where "api_create (in_Namespaces env) '''' (named_meta n n) w = (Inl (Err e), w1)" "IsAlreadyExists e" "k w1 = (Inr x, w')"
    unfolding unless_exists_def attempt_ok by (auto simp: fail_ok split: if_splits)
  then show ?thesis
  proof cases
    case 1
    with law(1) [OF 1(1)] show ?thesis by (auto simp: wrote_def put_namespace_def)
  next
    case 2
    with law(1) [OF 2(1)] law(2) [OF 2(1) refl] show ?thesis by (auto simp: wrote_def put_namespace_def)
  qed
qed

text \<open>C4: An installation of Arlon that reports success has left on the cluster: its namespace; ArgoCD's two config
  maps, each with exactly the one entry of Arlon (whatever else they held is gone); a new secret with the
  configuration of Arlon's user and its token; every object of the eight embedded manifests, all of which decode
  and have a name; and both controllers have been seen available. It does not succeed where the secret already
  existed.\<close>

theorem beginArlonInstall_installs:
  assumes "lawful_init V env" "beginArlonInstall env arlonNs argoNs w = (Inr (), w')"
  shows "arlonNs \<in> is_Namespaces (V w') \<and>
    is_ConfigMaps (V w') (argoNs, ''argocd-cm'') = Some argocd_account \<and>
    is_ConfigMaps (V w') (argoNs, ''argocd-rbac-cm'') = Some argocd_policy \<and>
    is_Secrets (V w) (arlonNs, ''argocd-creds'') = None \<and>
    (\<exists>token out. in_Marshal env (argo_local_config argoNs token) = Inr out \<and>
      is_Secrets (V w') (arlonNs, ''argocd-creds'') = Some (mlit [(''config'', out)])) \<and>
    all_installed env arlonNs (V w') \<and>
    (\<forall>n \<in> {defaultArlonControllerDeployment, defaultArlonAppProfileControllerDeployment}.
      \<exists>d. returns (api_get (in_Deployments env) arlonNs n) d \<and> is_available d)"
proof -
  from create_namespace_ok [OF assms(1)] assms(2) obtain w1 w2 s w3 w4 w5 where
    w1: "arlonNs \<in> is_Namespaces (V w1)" "is_Secrets (V w1) = is_Secrets (V w)"
    and conf: "configure_argocd env argoNs w1 = (Inr (), w2)" and creds: "createArgoCreds env arlonNs argoNs w2 = (Inr s, w3)"
    and inst: "install_manifests env arlonNs w3 = (Inr (), w4)"
    and wait1: "wait_for_deployment env arlonNs defaultArlonControllerDeployment w4 = (Inr (), w5)"
    and wait2: "wait_for_deployment env arlonNs defaultArlonAppProfileControllerDeployment w5 = (Inr (), w')"
    unfolding beginArlonInstall_def by (auto simp: ok_iff dest!: create_namespace_ok [OF assms(1)])
  note conf = configure_argocd_ok [OF assms(1) conf]
  from createArgoCreds_ok [OF assms(1) creds] obtain token out where
    out: "in_Marshal env (argo_local_config argoNs token) = Inr out" "is_Secrets (V w2) (arlonNs, ''argocd-creds'') = None"
      "V w3 = (V w2)\<lparr>is_Secrets := (is_Secrets (V w2))((arlonNs, ''argocd-creds'') \<mapsto> mlit [(''config'', out)])\<rparr>"
    by blast
  note inst = install_manifests_ok [OF assms(1) inst]
  note wait1 = wait_for_deployment_ok [OF assms(1) wait1]
    and wait2 = wait_for_deployment_ok [OF assms(1) wait2]
  from inst wait1 wait2 have g: "grows (V w3) (V w')" by simp
  have cm: "is_ConfigMaps (V w3) (argoNs, ''argocd-cm'') = Some argocd_account"
    "is_ConfigMaps (V w3) (argoNs, ''argocd-rbac-cm'') = Some argocd_policy"
    and se: "is_Secrets (V w3) (arlonNs, ''argocd-creds'') = Some (mlit [(''config'', out)])"
    and ns: "arlonNs \<in> is_Namespaces (V w3)" and none: "is_Secrets (V w) (arlonNs, ''argocd-creds'') = None"
    using w1 out conf by simp_all
  show ?thesis
  proof (intro conjI exI)
    show "all_installed env arlonNs (V w')" using inst wait1 wait2 by simp
    show "\<forall>n \<in> {defaultArlonControllerDeployment, defaultArlonAppProfileControllerDeployment}.
        \<exists>d. returns (api_get (in_Deployments env) arlonNs n) d \<and> is_available d" using wait1 wait2 by simp
  qed (rule grows_lookup(1) [OF g ns] grows_lookup(2) [OF g cm(1)] grows_lookup(2) [OF g cm(2)]
      grows_lookup(3) [OF g se] none out(1))+
qed

section \<open>An installation that fails\<close>

text \<open>No step of an installation removes a namespace.\<close>

abbreviation keeps_namespace :: "('w \<Rightarrow> init_state) \<Rightarrow> string \<Rightarrow> ('w, 'a) io \<Rightarrow> bool" where
  "keeps_namespace V n \<equiv> keeps (\<lambda>w. n \<in> is_Namespaces (V w))"

lemma steady_keeps_namespace: "steady V m \<Longrightarrow> keeps_namespace V n m"
  by (simp add: steady_def keeps_def)

lemma keepsI: "(\<And>w r w'. m w = (r, w') \<Longrightarrow> I w \<Longrightarrow> I w') \<Longrightarrow> keeps I m"
  unfolding keeps_def by (metis prod.collapse)

lemma wrote_namespaces:
  "wrote r s t s' \<Longrightarrow> is_Namespaces t = is_Namespaces s \<Longrightarrow> is_Namespaces s' = is_Namespaces s"
  by (auto simp: wrote_def split: sum.splits)

lemma put_namespaces [simp]:
  "is_Namespaces (put_config_map ns cm s) = is_Namespaces s" "is_Namespaces (put_secret ns secr s) = is_Namespaces s"
  by (simp_all add: put_config_map_def put_secret_def)

lemma keeps_namespace_kube:
  assumes "lawful_kube V kc"
  shows "keeps_namespace V n (api_get (kube_ConfigMaps kc) ns x)"
    "keeps_namespace V n (api_update (kube_ConfigMaps kc) ns cm)"
    "keeps_namespace V n (api_create (kube_Secrets kc) ns secr)"
proof -
  have "V w' = V w" if "api_get (kube_ConfigMaps kc) ns x w = (r, w')" for w r w'
    using assms that unfolding lawful_kube_def by blast
  then show "keeps_namespace V n (api_get (kube_ConfigMaps kc) ns x)" by (intro keepsI) simp
  have "wrote r (V w) (put_config_map ns cm (V w)) (V w')"
    if "api_update (kube_ConfigMaps kc) ns cm w = (r, w')" for w r w'
    using assms that unfolding lawful_kube_def by blast
  then show "keeps_namespace V n (api_update (kube_ConfigMaps kc) ns cm)"
    by (intro keepsI) (metis wrote_namespaces put_namespaces(1))
  have "V w' = V w \<or> wrote r (V w) (put_secret ns secr (V w)) (V w')"
    if "api_create (kube_Secrets kc) ns secr w = (r, w')" for w r w'
    using assms that unfolding lawful_kube_def by blast
  then show "keeps_namespace V n (api_create (kube_Secrets kc) ns secr)"
    by (intro keepsI) (metis wrote_namespaces put_namespaces(2))
qed

lemma keeps_namespace_configure:
  assumes "lawful_init V env"
  shows "keeps_namespace V n (configure_argocd env ns)"
  unfolding configure_argocd_def Let_def
  by (intro keeps_intros keeps_namespace_kube lawful_init_kube [OF assms])

lemma keeps_andThen_returns:
  assumes "keeps I m" "\<And>x. returns m x \<Longrightarrow> keeps I (k x)"
  shows "keeps I (andThen m k)"
proof -
  have "I (snd (andThen m k w))" if "I w" for w
  proof (cases "m w")
    case (Pair r w1)
    with assms(1) that have "I w1" unfolding keeps_def by (metis snd_conv)
    with Pair assms(2) show ?thesis
      by (cases r) (auto simp: andThen_def attempt_def fail_def keeps_def returns_def split: fault.splits)
  qed
  then show ?thesis by (simp add: keeps_def)
qed

lemma keeps_namespace_creds:
  assumes "lawful_init V env"
  shows "keeps_namespace V n (createArgoCreds env ans ns)"
proof -
  have acc: "steady V (in_NewAccountClient env)" and rest: "returns (in_NewAccountClient env) ac \<Longrightarrow>
      steady V (acc_Close ac) \<and> (\<forall>n t. steady V (acc_CreateToken ac n t))" for ac
    using assms by (simp_all add: lawful_init_def)
  show ?thesis
    unfolding createArgoCreds_def
  proof (rule keeps_andThen_returns)
    fix ac assume "returns (in_NewAccountClient env) ac"
    note st = rest [OF this]
    show "keeps_namespace V n (deferring (acc_Close ac) (andThen (acc_CreateToken ac defaultArlonArgoCDUser 0) (\<lambda>token.
        andThen (lift (in_Marshal env (argo_local_config ns token))) (\<lambda>out.
        api_create (kube_Secrets (in_Kube env)) ans (argo_creds_secret ans out)))))"
      using st by (intro keeps_deferring keeps_andThen keeps_lift keeps_namespace_kube(3) lawful_init_kube [OF assms]
          steady_keeps_namespace) simp_all
  qed (rule steady_keeps_namespace [OF acc])
qed


lemma keeps_namespace_apply:
  assumes "lawful_init V env"
  shows "keeps_namespace V n (applyObject env u ns)"
proof -
  have "grows (V w) (V w')" if "in_Create env (UnstructuredObject o') w = (r, w')" for o' w r w'
    using assms that unfolding lawful_init_def by blast
  then have "keeps_namespace V n (in_Create env (UnstructuredObject o'))" for o'
    by (intro keepsI) (rule grows_lookup(1))
  then show ?thesis unfolding applyObject_def Let_def by (intro keeps_intros)
qed

lemma keeps_namespace_manifests:
  assumes "lawful_init V env"
  shows "keeps_namespace V n (install_manifests env ns)"
proof -
  have d: "keeps_namespace V n (decoded dec m)" for dec :: "'c yaml_decoder" and m
    by (simp add: decoded_def hangs_def keeps_lift keeps_panic split: option.splits)
  show ?thesis
    unfolding install_manifests_def decode_all_def apply_all_def
    by (intro keeps_intros d keeps_namespace_apply [OF assms])
qed

lemma steady_wait_for_deployment:
  assumes "lawful_init V env"
  shows "steady V (wait_for_deployment env ns n)"
  unfolding wait_for_deployment_def deployment_ready_def
  by (intro lawful_init_poll [OF assms] steady_andThen lawful_init_deployments [OF assms] steady_ret)

lemma beginArlonInstall_namespace:
  assumes "lawful_init V env" "beginArlonInstall env arlonNs argoNs w = (r, w')"
  shows "V w' = V w \<or> arlonNs \<in> is_Namespaces (V w')"
proof -
  let ?rest = "andThen (configure_argocd env argoNs) (\<lambda>_. andThen (createArgoCreds env arlonNs argoNs) (\<lambda>_.
        andThen (install_manifests env arlonNs) (\<lambda>_.
        andThen (wait_for_deployment env arlonNs defaultArlonControllerDeployment) (\<lambda>_.
        wait_for_deployment env arlonNs defaultArlonAppProfileControllerDeployment))))"
  have rest: "keeps_namespace V arlonNs ?rest"
    by (intro keeps_andThen keeps_namespace_configure keeps_namespace_creds keeps_namespace_manifests
        steady_keeps_namespace steady_wait_for_deployment assms(1))
  obtain r1 w1 where c: "api_create (in_Namespaces env) '''' (named_meta arlonNs arlonNs) w = (r1, w1)" by fastforce
  note law = lawful_namespaces_create [OF lawful_init_namespaces [OF assms(1)] c, unfolded named_meta_def object_meta.simps]
  have "arlonNs \<in> is_Namespaces (V w1) \<Longrightarrow> arlonNs \<in> is_Namespaces (V (snd (?rest w1)))"
    using rest unfolding keeps_def by blast
  moreover have "arlonNs \<in> is_Namespaces (V w1) \<or> r1 = Inl f \<and> V w1 = V w" if "r1 = Inl f" for f
    using law(1) that by (auto simp: wrote_def put_namespace_def)
  moreover have "arlonNs \<in> is_Namespaces (V w1)" if "r1 = Inr m" for m
    using law(1) that by (auto simp: wrote_def put_namespace_def)
  moreover note law(2)
  ultimately show ?thesis
    using assms(2) c by (auto simp: beginArlonInstall_def unless_exists_def attempt_def fail_def
        split: sum.splits fault.splits if_splits)
qed

text \<open>C38: Whatever stops an installation of Arlon once it has changed the cluster, a later \<open>arlon init\<close> does not
  take it up again: finding the namespace it skips the installation, changes nothing and goes on, without an
  error, even when nothing but the namespace was installed.\<close>

theorem failed_install_is_not_resumed:
  assumes "lawful_init V (it_Env t)"
    and "beginArlonInstall (it_Env t) defaultArlonNamespace argoNs w = (r, w1)" "V w1 \<noteq> V w"
    and "init_arlon t noConfirm argoCfg w2 = (r2, w3)" "V w2 = V w1"
  shows "V w3 = V w2 \<and> (\<forall>m. fst (api_get (in_Namespaces (it_Env t)) '''' defaultArlonNamespace w2) = Inr m \<longrightarrow> r2 = Inr ())"
proof -
  from beginArlonInstall_namespace [OF assms(1,2)] assms(3,5) have ns: "defaultArlonNamespace \<in> is_Namespaces (V w2)" by simp
  obtain g w4 where get: "api_get (in_Namespaces (it_Env t)) '''' defaultArlonNamespace w2 = (g, w4)" by fastforce
  note law = lawful_namespaces_get [OF lawful_init_namespaces [OF assms(1)] get]
  from ns law(3) have "\<not> (\<exists>e. g = Inl (Err e) \<and> IsNotFound e)" by blast
  with assms(4) get law(1) show ?thesis
    by (auto simp: init_arlon_def canInstallArlon_def absent_is_true_def andThen_def attempt_def ret_def fail_def
        split: sum.splits fault.splits if_splits)
qed

section \<open>A cluster in memory\<close>

definition state_api ::
  "('s \<Rightarrow> string \<times> string \<Rightarrow> 'o option) \<Rightarrow> ('s \<Rightarrow> string \<times> string \<Rightarrow> 'o \<Rightarrow> 's) \<Rightarrow> ('o \<Rightarrow> string) \<Rightarrow> ('s, 'o) resource_api" where
  "state_api look put key = absent_api\<lparr>
     api_get := (\<lambda>ns n s. case look s (ns, n) of None \<Rightarrow> (Inl (Err (not_found n)), s) | Some x \<Rightarrow> (Inr x, s)),
     api_create := (\<lambda>ns x s. case look s (ns, key x) of
         None \<Rightarrow> (Inr x, put s (ns, key x) x)
       | Some _ \<Rightarrow> (Inl (Err (StatusError ReasonAlreadyExists (key x))), s)),
     api_update := (\<lambda>ns x s. case look s (ns, key x) of
         None \<Rightarrow> (Inl (Err (not_found (key x))), s) | Some _ \<Rightarrow> (Inr x, put s (ns, key x) x))\<rparr>"

definition demo_create :: "client_object \<Rightarrow> (init_state, unit) io" where
  "demo_create obj s = (case obj of
       NamespaceObject m \<Rightarrow> (Inr (), put_namespace (om_name m) s)
     | UnstructuredObject u \<Rightarrow>
         if object_key u \<in> is_Objects s then (Inl (Err (StatusError ReasonAlreadyExists (un_Name u))), s)
         else (Inr (), s\<lparr>is_Objects := insert (object_key u) (is_Objects s)\<rparr>))"

definition demo_available :: deployment where
  "demo_available = \<lparr>dep_meta = named_meta ''d'' ''arlon'',
     dep_Conditions = [\<lparr>dc_Type = ''Available'', dc_Reason = reasonMinimumReplicasAvailable\<rparr>]\<rparr>"

text \<open>The one manifest that differs: its lines are the names of its objects.\<close>

definition demo_init_env :: "string \<Rightarrow> (init_state, string list) init_env" where
  "demo_init_env deploy =
     \<lparr>in_Namespaces = state_api (\<lambda>s (_, n). if n \<in> is_Namespaces s then Some (named_meta n n) else None)
        (\<lambda>s (_, n) _. put_namespace n s) om_name,
      in_Kube = \<lparr>kube_ConfigMaps = state_api
          (\<lambda>s (ns, n). map_option (\<lambda>d. \<lparr>cm_meta = named_meta n ns, cm_data = d\<rparr>) (is_ConfigMaps s (ns, n)))
          (\<lambda>s (ns, n) cm. put_config_map ns cm s) cm_name,
        kube_Secrets = state_api
          (\<lambda>s (ns, n). map_option (\<lambda>d. \<lparr>secr_meta = named_meta n ns, secr_data = d\<rparr>) (is_Secrets s (ns, n)))
          (\<lambda>s (ns, n) secr. put_secret ns secr s) secr_name\<rparr>,
      in_Deployments = absent_api\<lparr>api_get := (\<lambda>ns n. ret demo_available)\<rparr>,
      in_Pods = absent_api, in_Create = demo_create,
      in_PollImmediate = (\<lambda>i t c. andThen c (\<lambda>b. if b then ret () else fail (ErrorText ''timed out''))),
      in_NewAccountClient = ret \<lparr>acc_CreateToken = (\<lambda>n t. ret ''token''), acc_Close = ret ()\<rparr>,
      in_Marshal = (\<lambda>c. Inr (lcf_CurrentContext c)), in_HttpGet = (\<lambda>u. failing), in_Decoder = line_decoder,
      in_Manifests = \<lparr>em_CRDProfile = ''p'', em_CRDClusterReg = ''r'', em_CRDCallHomeConfig = ''c'', em_CRDAppProfile = ''a'',
        em_YAMLdeploy = deploy, em_YAMLrbacCHC = ''x'', em_YAMLrbacClusterReg = ''y'', em_YAMLrbacAppProf = ''z''\<rparr>,
      in_argocdGitTag = ''stable''\<rparr>"

text \<open>ArgoCD is there and has an account of its own.\<close>

definition demo_init_state :: init_state where
  "demo_init_state = \<lparr>is_Namespaces = {''argocd''},
     is_ConfigMaps = [(''argocd'', ''argocd-cm'') \<mapsto> mlit [(''accounts.alice'', ''login'')],
       (''argocd'', ''argocd-rbac-cm'') \<mapsto> mlit []],
     is_Secrets = Map.empty, is_Objects = {}\<rparr>"

lemma demo_kube_lawful: "lawful_kube (\<lambda>s. s) (in_Kube (demo_init_env d))"
  unfolding lawful_kube_def demo_init_env_def
  by (auto simp: state_api_def absent_api_def named_meta_def wrote_def steady_def split: option.splits)

lemma demo_namespaces_lawful: "lawful_namespaces (\<lambda>s. s) (in_Namespaces (demo_init_env d))"
  unfolding lawful_namespaces_def demo_init_env_def
  by (auto simp: state_api_def absent_api_def wrote_def not_found_def split: option.splits if_splits)

lemma demo_poll_steady:
  "steady V c \<Longrightarrow> steady V (andThen c (\<lambda>b. if b then ret () else fail e))"
  by (intro steady_andThen steady_if steady_ret steady_fail)

lemma demo_init_lawful: "lawful_init (\<lambda>s. s) (demo_init_env d)"
  unfolding lawful_init_def
proof (intro conjI demo_kube_lawful demo_namespaces_lawful)
  show "\<forall>o' w r w'. in_Create (demo_init_env d) (UnstructuredObject o') w = (r, w') \<longrightarrow> grows w w' \<and>
      (\<forall>u. r = Inr u \<longrightarrow> object_key o' \<in> is_Objects w') \<and>
      (\<forall>e. r = Inl (Err e) \<longrightarrow> IsAlreadyExists e \<longrightarrow> object_key o' \<in> is_Objects w')"
    by (auto simp: demo_init_env_def demo_create_def grows_def split: if_splits)
  show "\<forall>i t c w w'. in_PollImmediate (demo_init_env d) i t c w = (Inr (), w') \<longrightarrow> (\<exists>w1 w2. c w1 = (Inr True, w2))"
    by (auto simp: demo_init_env_def ok_iff split: if_splits)
qed (auto simp: demo_init_env_def demo_poll_steady absent_api_def steady_ret)

text \<open>The entry of ArgoCD's own account is lost.\<close>

theorem beginArlonInstall_installs_witness:
  "is_ConfigMaps demo_init_state (''argocd'', ''argocd-cm'') = Some (mlit [(''accounts.alice'', ''login'')]) \<and>
   is_ConfigMaps (snd (beginArlonInstall (demo_init_env ''deploy'') ''arlon'' ''argocd'' demo_init_state))
     (''argocd'', ''argocd-cm'') = Some argocd_account"
proof -
  obtain run where run: "run = beginArlonInstall (demo_init_env ''deploy'') ''arlon'' ''argocd'' demo_init_state" by simp
  have "fst run = Inr ()" unfolding run by code_simp
  then have "beginArlonInstall (demo_init_env ''deploy'') ''arlon'' ''argocd'' demo_init_state = (Inr (), snd run)"
    unfolding run by (simp add: prod_eq_iff)
  from beginArlonInstall_installs [OF demo_init_lawful this] run show ?thesis by (simp add: demo_init_state_def)
qed


text \<open>Tools of a machine that reaches nothing but its cluster.\<close>

definition idle_installer :: "'w install_env" where
  "idle_installer = \<lparr>ie_Getenv = (\<lambda>k. failing), ie_Setenv = (\<lambda>k x. failing), ie_AskToProceed = (\<lambda>m. failing),
     ie_Yellow = (\<lambda>s. s), ie_GetArgs = failing, ie_SetArgs = (\<lambda>a. failing), ie_ParseFlags = failing,
     ie_Clusterawsadm = failing, ie_NewAWSCredential = (\<lambda>r. failing), ie_RenderProfile = (\<lambda>c. failing),
     ie_NewClusterctl = failing, ie_NewConfig = failing, ie_GetDefaultProviderName = failing,
     ie_Init = (\<lambda>opts. failing), ie_LookPath = (\<lambda>p. failing), ie_Exec = (\<lambda>p a. failing), ie_GOOS = ''linux''\<rparr>"

definition idle_cli :: "'w cli_env" where
  "idle_cli = \<lparr>ce_ClientConfig = failing, ce_Host = (\<lambda>c. ''''),
     ce_Gitrepo = \<lparr>gr_DefaultConfigDir = failing, gr_Stat = (\<lambda>p. failing), gr_MkdirAll = (\<lambda>p. failing),
       gr_OpenFile = (\<lambda>p. failing), gr_Unmarshal = (\<lambda>s. Inl io_EOF), gr_MarshalIndent = (\<lambda>c. Inl io_EOF),
       gr_NewRepoClient = failing, gr_PromptPassword = failing\<rparr>,
     ce_Git = \<lparr>os_MkdirTemp = failing, os_RemoveAll = (\<lambda>p. failing), os_Lstat = (\<lambda>p. failing), os_Stat = (\<lambda>p. failing),
       os_IsNotExist = (\<lambda>e. False), git_PlainClone = (\<lambda>d c. failing)\<rparr>,
     ce_Templates = \<lparr>yaml_Marshal = (\<lambda>k. Inl io_EOF), parse_template = (\<lambda>s. Inl io_EOF)\<rparr>,
     ce_Tools = \<lparr>mt_Infos = (\<lambda>f. failing), mt_Convert = (\<lambda>r. Inl io_EOF), mt_Encode = (\<lambda>ds r. Inl io_EOF)\<rparr>,
     ce_NewArgocdClient = failing, ce_ReadFile = (\<lambda>p. failing), ce_AddToScheme = failing,
     ce_EncodeApp = (\<lambda>a. failing), ce_EncodeAppSet = (\<lambda>a. failing), ce_Table = (\<lambda>t. failing), ce_Print = (\<lambda>s. failing),
     ce_ClusterContent = [], ce_ProfileContent = [], ce_AwsRegions = []\<rparr>"

definition idle_tools :: "('w, 'd) init_env \<Rightarrow> ('w, 'd) init_tools" where
  "idle_tools env = \<lparr>it_Env = env, it_ClientConfig = failing, it_NewClient = failing, it_NewForConfigOrDie = failing,
     it_AskToProceed = (\<lambda>m. failing), it_DefaultLocalConfigPath = failing, it_Login = (\<lambda>c u p s. failing),
     it_NewArgocdClientOrDie = failing, it_Host = '''', it_ParseURL = (\<lambda>u. Inl io_EOF), it_RoundTripperFor = failing,
     it_NewOnAddresses = (\<lambda>u a p. failing), it_Installer = idle_installer, it_Cli = idle_cli, it_Remove = (\<lambda>p. failing),
     it_MkdirAll = (\<lambda>p. failing), it_fs_Stat = (\<lambda>d p. failing), it_NewClusterctl = failing,
     it_GetClusterTemplate = (\<lambda>opts. failing), it_Yaml = (\<lambda>s. Inl io_EOF),
     it_Usage = (\<lambda>n. failing)\<rparr>"

text \<open>The deployment manifest has an object without a name: the installation stops before any controller is
  deployed, and the next run skips it.\<close>

theorem failed_install_is_not_resumed_witness:
  "let failed = beginArlonInstall (demo_init_env '''') defaultArlonNamespace ''argocd'' demo_init_state;
       again = init_arlon (idle_tools (demo_init_env '''')) True ''cfg'' (snd failed) in
   fst failed \<noteq> Inr () \<and> again = (Inr (), snd failed)"
proof -
  let ?env = "demo_init_env ''''"
  obtain failed where failed: "failed = beginArlonInstall ?env defaultArlonNamespace ''argocd'' demo_init_state" by simp
  obtain again where again: "again = init_arlon (idle_tools ?env) True ''cfg'' (snd failed)" by simp
  have env: "it_Env (idle_tools ?env) = ?env" by (simp add: idle_tools_def)
  have f: "fst failed \<noteq> Inr ()" unfolding failed by code_simp
  have "case fst (api_get (in_Namespaces ?env) '''' defaultArlonNamespace (snd failed)) of Inr m \<Rightarrow> True | Inl f \<Rightarrow> False"
    unfolding failed by code_simp
  then have n: "\<exists>m. fst (api_get (in_Namespaces ?env) '''' defaultArlonNamespace (snd failed)) = Inr m"
    by (auto split: sum.splits)
  have "defaultArlonNamespace \<in> is_Namespaces (snd failed)" "defaultArlonNamespace \<notin> is_Namespaces demo_init_state"
    unfolding failed by code_simp+
  then have "snd failed \<noteq> demo_init_state" by metis
  with failed_install_is_not_resumed [of "\<lambda>s. s" "idle_tools ?env" "''argocd''" demo_init_state "fst failed" "snd failed"
      True "''cfg''" "snd failed" "fst again" "snd again"] demo_init_lawful n failed again env
  have "snd again = snd failed \<and> fst again = Inr ()" by simp
  with f failed again show ?thesis by (simp add: Let_def prod_eq_iff)
qed

end
