(* ===== verification/External_Correct.thy ===== *)
theory External_Correct
  imports Commands Quiet Status
begin

text \<open>
  Clusters that Arlon did not create: managing one puts a label and two annotations on its secret in ArgoCD
  and deploys a profile, giving it up undoes this. What holds of the two calls in sequence, and of the
  command that replaces the profile by a call of each.
\<close>

section \<open>Secrets of clusters\<close>

definition is_cluster_secret :: "secret \<Rightarrow> bool" where
  "is_cluster_secret s \<longleftrightarrow> matches [(''argocd.argoproj.io/secret-type'', ''cluster'')] (om_labels (secr_meta s))"

definition is_external :: "secret \<Rightarrow> bool" where
  "is_external s \<longleftrightarrow> matches [(''argocd.argoproj.io/secret-type'', ''cluster''),
     (''arlon.io/cluster-type'', ''external'')] (om_labels (secr_meta s))"

abbreviation cluster_of :: "secret \<Rightarrow> string" where
  "cluster_of s \<equiv> mget (secr_data s) ''name''"

definition mput :: "gomap \<Rightarrow> string \<Rightarrow> string \<Rightarrow> gomap" where
  "mput m k v = map_option (\<lambda>f. f(k \<mapsto> v)) m"

text \<open>The secret of a managed cluster, and of one that was given up.\<close>

definition managed :: "string \<Rightarrow> string \<Rightarrow> secret \<Rightarrow> secret" where
  "managed profName appName s = with_labels s (mput (om_labels (secr_meta s)) clusterTypeLabelKey ''external'')
     (mput (mput (om_annotations (secr_meta s)) ProfileAnnotationKey profName) ProfileAppAnnotationKey appName)"

definition unmanaged :: "secret \<Rightarrow> secret" where
  "unmanaged s = with_labels s (mdelete (om_labels (secr_meta s)) clusterTypeLabelKey)
     (mdelete (mdelete (om_annotations (secr_meta s)) ProfileAnnotationKey) ProfileAppAnnotationKey)"





lemma labels_fields [simp]:
  "secr_data (with_labels s l a) = secr_data s" "secr_name (with_labels s l a) = secr_name s"
  "om_namespace (secr_meta (with_labels s l a)) = om_namespace (secr_meta s)"
  "om_labels (secr_meta (with_labels s l a)) = l" "om_annotations (secr_meta (with_labels s l a)) = a"
  by (simp_all add: with_labels_def)

lemma with_own_labels [simp]: "with_labels s (om_labels (secr_meta s)) (om_annotations (secr_meta s)) = s"
  by (simp add: with_labels_def)

lemma with_labels_twice [simp]: "with_labels (with_labels s l a) l' a' = with_labels s l' a'"
  by (simp add: with_labels_def)



section \<open>What is relied on\<close>

text \<open>
  \<open>V\<close> are the secrets of the management cluster, \<open>A\<close> the names of the applications in ArgoCD. Listing with the
  two selectors of the program returns the secrets with these labels; deleting an application may take effect
  later.
\<close>

type_synonym 'w secrets_view = "'w \<Rightarrow> string \<Rightarrow> string \<Rightarrow> secret option"

definition lawful_listing :: "'w secrets_view \<Rightarrow> (secret \<Rightarrow> bool) \<Rightarrow> string \<Rightarrow> ('w, secret) resource_api \<Rightarrow> bool" where
  "lawful_listing V P sel api \<longleftrightarrow> (\<forall>ns w xs w'. api_list api ns sel w = (Inr xs, w') \<longrightarrow>
     (\<forall>x. x \<in> set xs \<longleftrightarrow> P x \<and> (\<exists>k. V w ns k = Some x)))"

definition secrets_law :: "'w secrets_view \<Rightarrow> ('w \<Rightarrow> 'v) \<Rightarrow> ('w, secret) resource_api \<Rightarrow> bool" where
  "secrets_law V A api \<longleftrightarrow> lawful_read V A api
     \<and> (\<forall>ns sel. steady (\<lambda>w. (V w, A w)) (api_list api ns sel))
     \<and> lawful_listing V is_cluster_secret argoClusterSecretTypeLabel api
     \<and> lawful_listing V is_external external_selector api"

definition apps_law :: "'w secrets_view \<Rightarrow> ('w \<Rightarrow> string set) \<Rightarrow> 'w application_client \<Rightarrow> bool" where
  "apps_law V A appIf \<longleftrightarrow>
     (\<forall>n. steady (\<lambda>w. (V w, A w)) (appIf_Get appIf n)) \<and> (\<forall>q. steady (\<lambda>w. (V w, A w)) (appIf_List appIf q))
     \<and> (\<forall>a w y w'. appIf_Create appIf a w = (Inr y, w') \<longrightarrow> V w' = V w \<and> A w' = insert (app_name a) (A w))
     \<and> (\<forall>n b w y w'. appIf_Delete appIf n b w = (Inr y, w') \<longrightarrow>
          V w' = V w \<and> A w' \<subseteq> A w \<and> A w - {n} \<subseteq> A w')"

definition external_laws ::
  "'w secrets_view \<Rightarrow> ('w \<Rightarrow> string set) \<Rightarrow> 'w argocd_client \<Rightarrow> 'w rest_config \<Rightarrow> bool" where
  "external_laws V A argoIf config \<longleftrightarrow> (let st = (\<lambda>w. (V w, A w)) in
     steady st (argo_NewApplicationClient argoIf) \<and> steady st (argo_NewClusterClient argoIf) \<and>
     steady st (rc_NewForConfig config) \<and> steady st (rc_NewClient config) \<and>
     (\<forall>appIf. returns (argo_NewApplicationClient argoIf) appIf \<longrightarrow> apps_law V A appIf) \<and>
     (\<forall>c n. returns (argo_NewClusterClient argoIf) c \<longrightarrow> steady st (clIf_Get c n)) \<and>
     (\<forall>kc. returns (rc_NewForConfig config) kc \<longrightarrow> secrets_law V A (kube_Secrets kc) \<and>
        (\<forall>ns n. steady st (api_get (kube_ConfigMaps kc) ns n))) \<and>
     (\<forall>cli. returns (rc_NewClient config) cli \<longrightarrow> lawful_patch V A secr_name Some (cli_Secrets cli) \<and>
        (\<forall>ns n. steady st (api_get (cli_Profiles cli) ns n))))"

text \<open>Objects are stored under their names.\<close>

definition well_named :: "(string \<Rightarrow> string \<Rightarrow> secret option) \<Rightarrow> bool" where
  "well_named m \<longleftrightarrow> (\<forall>ns k x. m ns k = Some x \<longrightarrow> secr_name x = k \<and> om_namespace (secr_meta x) = ns)"

lemma external_lawsD:
  assumes "external_laws V A argoIf config"
  shows "steady (\<lambda>w. (V w, A w)) (argo_NewApplicationClient argoIf)"
    "steady (\<lambda>w. (V w, A w)) (argo_NewClusterClient argoIf)"
    "steady (\<lambda>w. (V w, A w)) (rc_NewForConfig config)" "steady (\<lambda>w. (V w, A w)) (rc_NewClient config)"
    "returns (argo_NewApplicationClient argoIf) appIf \<Longrightarrow> apps_law V A appIf"
    "returns (argo_NewClusterClient argoIf) c \<Longrightarrow> steady (\<lambda>w. (V w, A w)) (clIf_Get c n)"
    "returns (rc_NewForConfig config) kc \<Longrightarrow> secrets_law V A (kube_Secrets kc)"
    "returns (rc_NewForConfig config) kc \<Longrightarrow> steady (\<lambda>w. (V w, A w)) (api_get (kube_ConfigMaps kc) ns n)"
    "returns (rc_NewClient config) cli \<Longrightarrow> lawful_patch V A secr_name Some (cli_Secrets cli)"
    "returns (rc_NewClient config) cli \<Longrightarrow> steady (\<lambda>w. (V w, A w)) (api_get (cli_Profiles cli) ns n)"
  using assms by (simp_all add: external_laws_def Let_def)

lemma secrets_lawD:
  assumes "secrets_law V A api"
  shows "lawful_read V A api" "steady (\<lambda>w. (V w, A w)) (api_list api ns sel)"
    "lawful_listing V is_cluster_secret argoClusterSecretTypeLabel api"
    "lawful_listing V is_external external_selector api"
  using assms by (simp_all add: secrets_law_def)

lemma apps_lawD:
  assumes "apps_law V A appIf"
  shows "steady (\<lambda>w. (V w, A w)) (appIf_Get appIf n)" "steady (\<lambda>w. (V w, A w)) (appIf_List appIf q)"
    "appIf_Create appIf a w = (Inr y, w') \<Longrightarrow> V w' = V w \<and> A w' = insert (app_name a) (A w)"
    "appIf_Delete appIf n b w = (Inr u, w') \<Longrightarrow> V w' = V w \<and> A w' \<subseteq> A w \<and> A w - {n} \<subseteq> A w'"
  using assms by (simp_all add: apps_law_def)

text \<open>A call that leaves both alone and returned.\<close>

lemma steady_returned:
  "steady (\<lambda>w. (V w, A w)) m \<Longrightarrow> m w = (r, w') \<Longrightarrow> V w' = V w \<and> A w' = A w"
  by (drule (1) steadyD) simp

lemma returnsI: "m w = (Inr x, w') \<Longrightarrow> returns m x"
  by (auto simp: returns_def)

lemma external_ran:
  assumes "external_laws V A argoIf config"
  shows "argo_NewApplicationClient argoIf w = (Inr appIf, w') \<Longrightarrow> apps_law V A appIf"
    "argo_NewClusterClient argoIf w = (Inr c, w') \<Longrightarrow> steady (\<lambda>w. (V w, A w)) (clIf_Get c n)"
    "rc_NewForConfig config w = (Inr kc, w') \<Longrightarrow> secrets_law V A (kube_Secrets kc)"
    "rc_NewClient config w = (Inr cli, w') \<Longrightarrow> lawful_patch V A secr_name Some (cli_Secrets cli)"
  by (auto intro: external_lawsD [OF assms] dest: returnsI)

lemma lawful_listing_set:
  "lawful_listing V P sel api \<Longrightarrow> api_list api ns sel w = (Inr xs, w') \<Longrightarrow>
   x \<in> set xs \<longleftrightarrow> P x \<and> (\<exists>k. V w ns k = Some x)"
  unfolding lawful_listing_def by blast

section \<open>Looking a cluster up\<close>

lemma find_external_Some:
  "find_external n xs = Some c \<Longrightarrow> \<exists>s \<in> set xs. cluster_of s = n \<and> c = external_cluster_of n s"
  by (induction xs) (auto split: if_splits)

lemma not_external_fields [simp]:
  "clu_IsExternal (gen1_cluster_of a) = False" "clu_IsExternal (gen2_cluster_of a p) = False"
  "clu_SecretName (external_cluster_of n s) = secr_name s" "clu_Name (external_cluster_of n s) = n"
  by (simp_all add: gen1_cluster_of_def gen2_cluster_of_def plain_cluster_def external_cluster_of_def Let_def)

lemma steady_getMatchingProfileName:
  "apps_law V A appIf \<Longrightarrow> steady (\<lambda>w. (V w, A w)) (getMatchingProfileName appIf n)"
  by (auto simp: getMatchingProfileName_def apps_lawD intro!: steady_intros split: list.splits)

lemma steady_cluster_Get:
  assumes "external_laws V A argoIf config" "apps_law V A appIf"
  shows "steady (\<lambda>w. (V w, A w)) (cluster_Get appIf config ns n)"
  unfolding cluster_Get_def
  by (intro steady_intros external_lawsD(3) [OF assms(1)] secrets_lawD(2) external_lawsD(7) [OF assms(1)]
      apps_lawD(1) [OF assms(2)] steady_getMatchingProfileName [OF assms(2)])


lemma cluster_Get_external:
  assumes laws: "external_laws V A argoIf config" "well_named (V w)"
    and run: "cluster_Get appIf config ns n w = (Inr c, w')" and ext: "clu_IsExternal c"
  shows "\<exists>s. V w ns (clu_SecretName c) = Some s \<and> is_external s \<and> cluster_of s = n"
proof -
  from run obtain kc w1 secrs w2 where kc: "rc_NewForConfig config w = (Inr kc, w1)"
    and list: "api_list (kube_Secrets kc) ns external_selector w1 = (Inr secrs, w2)"
    and rest: "(case find_external n secrs of Some cl \<Rightarrow> ret cl
        | None \<Rightarrow> must (appIf_Get appIf n) (ErrorCtx ''failed to get argocd application: '') (\<lambda>app.
            let typ = mget (om_labels (app_meta app)) ''arlon-type'' in
            if typ = ''cluster'' then ret (gen1_cluster_of app)
            else if typ = ''cluster-app'' then
              must (getMatchingProfileName appIf (app_name app))
                (ErrorCtx ''failed to matching profile name: '')
                (\<lambda>profileName. ret (gen2_cluster_of app profileName))
            else fail (ErrorText ''not an arlon cluster''))) w2 = (Inr c, w')"
    by (auto simp: cluster_Get_def must_ok)
  have "find_external n secrs = Some c"
    using rest ext by (cases "find_external n secrs") (auto simp: ok_iff Let_def split: if_splits)
  then obtain s where s: "s \<in> set secrs" "cluster_of s = n" "c = external_cluster_of n s"
    using find_external_Some by blast
  have "V w1 = V w" using steady_returned [OF external_lawsD(3) [OF laws(1)] kc] by simp
  moreover have "is_external s \<and> (\<exists>k. V w1 ns k = Some s)"
    using s(1) lawful_listing_set [OF secrets_lawD(4) [OF external_ran(3) [OF laws(1) kc]] list]
    by simp
  ultimately show ?thesis using s laws(2) by (auto simp: well_named_def)
qed

section \<open>Giving a cluster up\<close>

lemma UnmanageExternal_ok:
  assumes laws: "external_laws V A argoIf config" "well_named (V w)"
    and run: "UnmanageExternal argoIf config ns n w = (Inr (), w')"
  shows "\<exists>k s. V w ns k = Some s \<and> is_external s \<and> cluster_of s = n \<and> V w' = stored (V w) ns k (Some (unmanaged s)) \<and>
    A w' \<subseteq> A w \<and> A w - {mget (om_annotations (secr_meta s)) ProfileAppAnnotationKey} \<subseteq> A w'"
proof -
  from run obtain appIf w1 c w2 kc w3 s w4 cli w5 w6 where
    a: "argo_NewApplicationClient argoIf w = (Inr appIf, w1)"
    and get: "cluster_Get appIf config ns n w1 = (Inr c, w2)" and ext: "clu_IsExternal c"
    and kc: "rc_NewForConfig config w2 = (Inr kc, w3)"
    and s: "api_get (kube_Secrets kc) ns (clu_SecretName c) w3 = (Inr s, w4)"
    and cli: "rc_NewClient config w4 = (Inr cli, w5)"
    and del: "appIf_Delete appIf (mget (om_annotations (secr_meta s)) ProfileAppAnnotationKey) True w5 = (Inr (), w6)"
    and patch: "api_patch (cli_Secrets cli) (om_namespace (secr_meta s)) s (unmanaged s) w6 = (Inr (), w')"
    by (auto simp: UnmanageExternal_def must_ok ret_ok fail_ok Let_def ctrlruntimeclient_NewClient_def
        unmanaged_def split: if_splits)
  note law = laws(1)
  have apps: "apps_law V A appIf" by (rule external_ran(1) [OF law a])
  have 1: "V w1 = V w \<and> A w1 = A w" by (rule steady_returned [OF external_lawsD(1) [OF law] a])
  have 2: "V w2 = V w1 \<and> A w2 = A w1" by (rule steady_returned [OF steady_cluster_Get [OF law apps] get])
  have 3: "V w3 = V w2 \<and> A w3 = A w2" by (rule steady_returned [OF external_lawsD(3) [OF law] kc])
  have 4: "V w4 = V w3 \<and> A w4 = A w3 \<and> V w3 ns (clu_SecretName c) = Some s"
    using secrets_lawD(1) [OF external_ran(3) [OF law kc], unfolded lawful_read_def, rule_format, OF s]
    by simp
  have 5: "V w5 = V w4 \<and> A w5 = A w4" by (rule steady_returned [OF external_lawsD(4) [OF law] cli])
  have 6: "V w6 = V w5 \<and> A w6 \<subseteq> A w5 \<and>
      A w5 - {mget (om_annotations (secr_meta s)) ProfileAppAnnotationKey} \<subseteq> A w6"
    by (rule apps_lawD(4) [OF apps del])
  have name: "secr_name s = clu_SecretName c" "om_namespace (secr_meta s) = ns"
    using laws(2) 1 2 3 4 by (auto simp: well_named_def)
  with 1 2 3 4 5 6 have stored: "V w6 (om_namespace (secr_meta s)) (secr_name s) = Some s" by simp
  have 7: "A w' = A w6 \<and> V w' = stored (V w6) ns (clu_SecretName c) (Some (unmanaged s))"
    using external_ran(4) [OF law cli, unfolded lawful_patch_def, rule_format, OF patch stored] name
    by simp
  have "\<exists>s. V w1 ns (clu_SecretName c) = Some s \<and> is_external s \<and> cluster_of s = n"
    by (rule cluster_Get_external [OF law _ get ext]) (use laws(2) 1 in simp)
  with 1 2 3 4 5 6 7 show ?thesis
    by (intro exI [of _ "clu_SecretName c"] exI [of _ s]) simp
qed

section \<open>Managing a cluster\<close>



lemma app_name_constructProfileApp [simp]: "app_name (constructProfileApp a ns c p) = a"
  by (simp add: constructProfileApp_def Let_def)



section \<open>Both in sequence\<close>


lemma stored_twice [simp]: "stored (stored m ns k x) ns k y = stored m ns k y"
  by (simp add: stored_def)


lemma managed_fields [simp]:
  "secr_data (managed p a s) = secr_data s" "secr_name (managed p a s) = secr_name s"
  "om_namespace (secr_meta (managed p a s)) = om_namespace (secr_meta s)"
  "om_annotations (secr_meta s) \<noteq> None \<Longrightarrow>
     mget (om_annotations (secr_meta (managed p a s))) ProfileAppAnnotationKey = a"
  by (auto simp: managed_def mput_def)


section \<open>Replacing the profile\<close>

lemma must_err:
  "must m c k w = (Inl (Err e), w') \<longleftrightarrow>
     (\<exists>e'. m w = (Inl (Err e'), w') \<and> e = c e') \<or> (\<exists>x w1. m w = (Inr x, w1) \<and> k x w1 = (Inl (Err e), w'))"
  by (auto simp: must_def attempt_def fail_def split: prod.splits sum.splits fault.splits)

lemma CheckError_err:
  "CheckError m k w = (Inl (Err e), w') \<longleftrightarrow> (\<exists>x w1. m w = (Inr x, w1) \<and> k x w1 = (Inl (Err e), w'))"
  by (auto simp: CheckError_def attempt_def panic_def split: prod.splits sum.splits fault.splits)

lemma ret_err: "ret x w \<noteq> (Inl f, w')" and fail_err: "fail e' w = (Inl (Err e), w') \<longleftrightarrow> e = e' \<and> w' = w"
  by (auto simp: ret_def fail_def)

lemma steady_profile_Get:
  assumes "external_laws V A argoIf config"
  shows "steady (\<lambda>w. (V w, A w)) (profile_Get config p ns)"
  unfolding profile_Get_def getProfileConfigMap_def ctrlruntimeclient_NewClient_def
  by (intro steady_intros external_lawsD(3,4,8,10) [OF assms])

text \<open>The libraries of a command.\<close>

definition cli_laws :: "'w secrets_view \<Rightarrow> ('w \<Rightarrow> string set) \<Rightarrow> 'w cli_env \<Rightarrow> bool" where
  "cli_laws V A env \<longleftrightarrow> steady (\<lambda>w. (V w, A w)) (ce_NewArgocdClient env) \<and>
     steady (\<lambda>w. (V w, A w)) (ce_ClientConfig env) \<and>
     (\<forall>argoIf config. returns (ce_NewArgocdClient env) argoIf \<longrightarrow> returns (ce_ClientConfig env) config \<longrightarrow>
        external_laws V A argoIf config)"

lemma cli_lawsD:
  assumes "cli_laws V A env"
  shows "ce_NewArgocdClient env w = (Inr argoIf, w1) \<Longrightarrow> V w1 = V w \<and> A w1 = A w"
    "ce_ClientConfig env w = (Inr config, w1) \<Longrightarrow> V w1 = V w \<and> A w1 = A w"
  using assms unfolding cli_laws_def by (auto dest: steady_returned)

lemma cli_external_laws:
  "cli_laws V A env \<Longrightarrow> ce_NewArgocdClient env w = (Inr argoIf, w1) \<Longrightarrow>
   ce_ClientConfig env w2 = (Inr config, w3) \<Longrightarrow> external_laws V A argoIf config"
  unfolding cli_laws_def returns_def by blast

lemma not_external_unmanaged: "\<not> is_external (unmanaged s)"
  by (cases "om_labels (secr_meta s)")
    (simp_all add: is_external_def unmanaged_def matches_def mdelete_def clusterTypeLabelKey_def)

lemma update_external_no_profile:
  assumes "update_external argoIf config fl n clust w = (Inl (Err (ErrorCtx ''failed to get profile: '' e)), w')"
  shows "\<exists>w1 e'. UnmanageExternal argoIf config (uf_argocdNs fl) n w = (Inr (), w1) \<and>
    profile_Get config (uf_profileName fl) (uf_arlonNs fl) w1 = (Inl (Err e'), w')"
  using assms by (auto simp: update_external_def must_err fail_err ret_err split: if_splits)

lemma cmd_update_no_profile:
  assumes "cmd_update env fl n w = (Inl (Err (ErrorCtx ''failed to get profile: '' e)), w')"
  shows "\<exists>argoIf w1 appIf w2 config w3 clust w4. ce_NewArgocdClient env w = (Inr argoIf, w1) \<and>
    argo_NewApplicationClient argoIf w1 = (Inr appIf, w2) \<and> ce_ClientConfig env w2 = (Inr config, w3) \<and>
    cluster_Get appIf config (uf_argocdNs fl) n w3 = (Inr clust, w4) \<and>
    update_external argoIf config fl n clust w4 = (Inl (Err (ErrorCtx ''failed to get profile: '' e)), w')"
proof -
  have encode: "encode_root env b a w1 \<noteq> (Inl (Err (ErrorCtx ''failed to get profile: '' e)), w')" for b a w1
    by (auto simp: encode_root_def must_err ret_err split: if_splits)
  show ?thesis
    using assms unfolding cmd_update_def with_argocd_def with_applications_def with_config_def
    by (auto simp: CheckError_err must_err encode split: if_splits)
qed

text \<open>The update of a cluster that Arlon did not create is not atomic: when the command fails because it
  does not find the new profile, it has already given the cluster up. Its secret lost Arlon's label and
  annotations, so it is not among the external clusters any more, and its profile application was deleted;
  nothing else was touched.\<close>

theorem failed_update_gives_up:
  assumes laws: "cli_laws V A env" "well_named (V w)"
    and run: "cmd_update env fl n w = (Inl (Err (ErrorCtx ''failed to get profile: '' e)), w')"
  shows "\<exists>k s. V w (uf_argocdNs fl) k = Some s \<and> is_external s \<and> cluster_of s = n \<and>
    V w' = stored (V w) (uf_argocdNs fl) k (Some (unmanaged s)) \<and> \<not> is_external (unmanaged s) \<and>
    A w' \<subseteq> A w \<and> A w - {mget (om_annotations (secr_meta s)) ProfileAppAnnotationKey} \<subseteq> A w'"
proof -
  from cmd_update_no_profile [OF run] obtain argoIf w1 appIf w2 config w3 clust w4 where
    1: "ce_NewArgocdClient env w = (Inr argoIf, w1)" and 2: "argo_NewApplicationClient argoIf w1 = (Inr appIf, w2)"
    and 3: "ce_ClientConfig env w2 = (Inr config, w3)"
    and 4: "cluster_Get appIf config (uf_argocdNs fl) n w3 = (Inr clust, w4)"
    and upd: "update_external argoIf config fl n clust w4 = (Inl (Err (ErrorCtx ''failed to get profile: '' e)), w')"
    by blast
  have law: "external_laws V A argoIf config" by (rule cli_external_laws [OF laws(1) 1 3])
  have same: "V w4 = V w" "A w4 = A w"
    using cli_lawsD(1) [OF laws(1) 1] steady_returned [OF external_lawsD(1) [OF law] 2] cli_lawsD(2) [OF laws(1) 3]
      steady_returned [OF steady_cluster_Get [OF law external_ran(1) [OF law 2]] 4] by simp_all
  from update_external_no_profile [OF upd] obtain w5 e' where
    5: "UnmanageExternal argoIf config (uf_argocdNs fl) n w4 = (Inr (), w5)"
    and 6: "profile_Get config (uf_profileName fl) (uf_arlonNs fl) w5 = (Inl (Err e'), w')" by blast
  have "V w' = V w5 \<and> A w' = A w5" by (rule steady_returned [OF steady_profile_Get [OF law] 6])
  with UnmanageExternal_ok [OF law _ 5] laws(2) same not_external_unmanaged show ?thesis by (metis (no_types))
qed

section \<open>A concrete run\<close>

text \<open>A management cluster with the secrets in an association list and the applications of ArgoCD.\<close>

record external_world =
  xw_secrets :: "secret store"
  xw_apps :: "string list"

definition xw_selects :: "string \<Rightarrow> secret \<Rightarrow> bool" where
  "xw_selects q s \<longleftrightarrow> (if q = external_selector then is_external s else is_cluster_secret s)"

definition xw_secret_api :: "(external_world, secret) resource_api" where
  "xw_secret_api =
     (mem_api xw_secrets (\<lambda>s w. w\<lparr>xw_secrets := s\<rparr>) secr_name xw_selects)
     \<lparr>api_list := (\<lambda>ns q w. (Inr (map snd (filter (\<lambda>((ns', n), x). ns' = ns \<and> xw_selects q x)
        (AList.clearjunk (xw_secrets w)))), w)),
      api_patch := (\<lambda>ns b c w. case map_of (xw_secrets w) (ns, secr_name b) of
         None \<Rightarrow> (Inl (Err (not_found (secr_name b))), w)
       | Some x \<Rightarrow> (Inr (), w\<lparr>xw_secrets := AList.update (ns, secr_name b) c (xw_secrets w)\<rparr>))\<rparr>"

definition empty_api :: "('w, 'o) resource_api" where
  "empty_api = absent_api\<lparr>api_get := (\<lambda>ns n. fail (not_found n))\<rparr>"

definition xw_config :: "external_world rest_config" where
  "xw_config = \<lparr>rc_NewForConfig = ret \<lparr>kube_ConfigMaps = empty_api, kube_Secrets = xw_secret_api\<rparr>,
     rc_NewClient = ret \<lparr>cli_Profiles = empty_api, cli_AppProfiles = empty_api, cli_ApplicationSets = empty_api,
       cli_Clusters = empty_api, cli_Secrets = xw_secret_api\<rparr>\<rparr>"

definition xw_appIf :: "external_world application_client" where
  "xw_appIf = \<lparr>appIf_Get = (\<lambda>n. fail (GrpcStatus grpc_NotFound n)), appIf_List = (\<lambda>_. ret []),
     appIf_Create = (\<lambda>a w. (Inr a, w\<lparr>xw_apps := app_name a # xw_apps w\<rparr>)), appIf_Update = ret,
     appIf_Delete = (\<lambda>n b w. (Inr (), w\<lparr>xw_apps := removeAll n (xw_apps w)\<rparr>))\<rparr>"

definition xw_argo :: "external_world argocd_client" where
  "xw_argo = \<lparr>argo_NewApplicationClient = ret xw_appIf,
     argo_NewClusterClient = ret \<lparr>clIf_Get = (\<lambda>n. ret \<lparr>acl_Name = n, acl_Server = '''', acl_Annotations = None\<rparr>),
       clIf_List = ret [], clIf_Update = (\<lambda>c _. ret c), clIf_Delete = (\<lambda>_ _. ret ()), clIf_Create = (\<lambda>c _. ret c)\<rparr>\<rparr>"

abbreviation xw_view :: "external_world secrets_view" where
  "xw_view \<equiv> store_view xw_secrets (\<lambda>s. s)"

abbreviation xw_names :: "external_world \<Rightarrow> string set" where
  "xw_names \<equiv> \<lambda>w. set (xw_apps w)"

lemma xw_listing: "lawful_listing xw_view (xw_selects q) q xw_secret_api"
proof -
  have stored: "p \<in> set (AList.clearjunk m) \<longleftrightarrow> map_of m (fst p) = Some (snd p)"
    for p :: "(string \<times> string) \<times> secret" and m
    using map_of_eq_Some_iff [OF distinct_clearjunk, of m "fst p" "snd p"] by (simp add: map_of_clearjunk)
  have "x \<in> snd ` {p \<in> set (AList.clearjunk m). fst (fst p) = ns \<and> xw_selects q (snd p)} \<longleftrightarrow>
      xw_selects q x \<and> (\<exists>k :: string. map_of m (ns, k) = Some x)" for x m and ns :: string
    by (auto simp: image_iff Bex_def stored)
  then show ?thesis
    by (simp add: lawful_listing_def xw_secret_api_def store_view_def case_prod_beta)
qed

lemma xw_secrets_law: "secrets_law xw_view xw_names xw_secret_api"
proof -
  have selectors: "xw_selects argoClusterSecretTypeLabel = is_cluster_secret" "xw_selects external_selector = is_external"
    by (auto simp: fun_eq_iff xw_selects_def argoClusterSecretTypeLabel_def external_selector_def
        externalClusterTypeLabel_def)
  show ?thesis
    using xw_listing [of argoClusterSecretTypeLabel] xw_listing [of external_selector]
    by (simp add: secrets_law_def selectors lawful_read_def steady_def xw_secret_api_def mem_api_def store_view_def
        not_found_def split: option.splits)
qed

lemma xw_patch_law: "lawful_patch xw_view xw_names secr_name Some xw_secret_api"
  by (auto simp: lawful_patch_def xw_secret_api_def mem_api_def store_view_def fun_eq_iff AList.update_conv'
      split: option.splits)

lemma xw_apps_law: "apps_law xw_view xw_names xw_appIf"
  by (auto simp: apps_law_def xw_appIf_def steady_ret steady_fail store_view_def)

lemma xw_laws: "external_laws xw_view xw_names xw_argo xw_config"
  using xw_secrets_law xw_patch_law xw_apps_law
  by (simp add: external_laws_def xw_argo_def xw_config_def steady_ret steady_fail empty_api_def)

definition xw_secret :: secret where
  "xw_secret = \<lparr>secr_meta = \<lparr>om_name = ''secret1'', om_namespace = ''argocd'',
     om_labels = mlit [(''argocd.argoproj.io/secret-type'', ''cluster'')], om_annotations = mlit [],
     om_finalizers = [], om_deletion = None\<rparr>, secr_data = mlit [(''name'', ''workload'')]\<rparr>"

definition xw_start :: external_world where
  "xw_start = \<lparr>xw_secrets = [((''argocd'', ''secret1''), xw_secret)], xw_apps = [''other'']\<rparr>"

definition xw_profile :: profile where
  "xw_profile = \<lparr>prof_meta = named_meta ''p1'' ''arlon'', prof_spec = \<lparr>pf_Description = '''', pf_Tags = [],
     pf_Bundles = None, pf_Overrides = [], pf_RepoUrl = ''https://git/x'', pf_RepoPath = ''profiles/p1'',
     pf_RepoRevision = ''main''\<rparr>, prof_state = ''''\<rparr>"

definition xw_managed :: external_world where
  "xw_managed = snd (ManageExternal xw_argo xw_config ''argocd'' ''workload'' xw_profile xw_start)"

lemma xw_runs:
  "fst (ManageExternal xw_argo xw_config ''argocd'' ''workload'' xw_profile xw_start) = Inr ()"
  "fst (UnmanageExternal xw_argo xw_config ''argocd'' ''workload'' xw_managed) = Inr ()"
  "xw_apps xw_managed = [''workload-profile-p1'', ''other'']"
  "map fst (xw_secrets xw_managed) = [(''argocd'', ''secret1'')]"
  "is_external (snd (hd (xw_secrets xw_managed)))"
  by code_simp+




definition xw_cli :: "external_world cli_env \<Rightarrow> external_world cli_env" where
  "xw_cli env = env\<lparr>ce_ClientConfig := ret xw_config, ce_NewArgocdClient := ret xw_argo\<rparr>"

lemma xw_cli_laws: "cli_laws xw_view xw_names (xw_cli env)"
  by (simp add: cli_laws_def xw_cli_def steady_ret xw_laws)

lemma xw_managed_named: "well_named (xw_view xw_managed)"
proof -
  obtain s where s: "xw_secrets xw_managed = [((''argocd'', ''secret1''), s)]"
    using xw_runs(4) by (cases "xw_secrets xw_managed") auto
  have "secr_name (snd (hd (xw_secrets xw_managed))) = ''secret1''"
    "om_namespace (secr_meta (snd (hd (xw_secrets xw_managed)))) = ''argocd''"
    by code_simp+
  with s show ?thesis by (simp add: well_named_def store_view_def)
qed

definition xw_update :: update_flags where
  "xw_update = \<lparr>uf_argocdNs = ''argocd'', uf_arlonNs = ''arlon'', uf_clusterSpecName = '''',
     uf_profileName = ''p2'', uf_outputYaml = False\<rparr>"

text \<open>The new profile does not exist; the other libraries of the command do not matter.\<close>

definition xw_updated :: "unit result \<times> external_world" where
  "xw_updated = andThen (cluster_Get xw_appIf xw_config ''argocd'' ''workload'')
     (update_external xw_argo xw_config xw_update ''workload'') xw_managed"

lemma xw_update_runs:
  "(case fst (cluster_Get xw_appIf xw_config ''argocd'' ''workload'' xw_managed) of
     Inr c \<Rightarrow> clu_IsExternal c | Inl f \<Rightarrow> False)"
  "(case fst xw_updated of Inl (Err (ErrorCtx t e)) \<Rightarrow> t = ''failed to get profile: '' | _ \<Rightarrow> False)"
  by code_simp+

lemma xw_update_run:
  "\<exists>e. cmd_update (xw_cli env) xw_update ''workload'' xw_managed =
     (Inl (Err (ErrorCtx ''failed to get profile: '' e)), snd xw_updated)"
proof -
  obtain c w where c: "cluster_Get xw_appIf xw_config ''argocd'' ''workload'' xw_managed = (Inr c, w)" "clu_IsExternal c"
    using xw_update_runs(1)
    by (cases "cluster_Get xw_appIf xw_config ''argocd'' ''workload'' xw_managed") (auto split: sum.splits)
  obtain e where "xw_updated = (Inl (Err (ErrorCtx ''failed to get profile: '' e)), snd xw_updated)"
    using xw_update_runs(2) by (auto simp: prod_eq_iff split: sum.splits fault.splits go_error.splits)
  moreover have "cmd_update (xw_cli env) xw_update ''workload'' xw_managed =
      update_external xw_argo xw_config xw_update ''workload'' c w"
    using c by (simp add: cmd_update_def with_argocd_def with_applications_def with_config_def CheckError_def
        xw_cli_def attempt_def must_def ret_def xw_argo_def xw_update_def)
  ultimately show ?thesis using c by (auto simp: xw_updated_def andThen_def attempt_def)
qed

theorem failed_update_gives_up_witness:
  "\<forall>env. \<exists>e w. cmd_update (xw_cli env) xw_update ''workload'' xw_managed =
     (Inl (Err (ErrorCtx ''failed to get profile: '' e)), w) \<and> (\<forall>k s. xw_view w ''argocd'' k = Some s \<longrightarrow> \<not> is_external s)"
proof
  fix env
  obtain e w where run: "cmd_update (xw_cli env) xw_update ''workload'' xw_managed =
      (Inl (Err (ErrorCtx ''failed to get profile: '' e)), w)"
    using xw_update_run by blast
  obtain s1 where s1: "xw_secrets xw_managed = [((''argocd'', ''secret1''), s1)]"
    using xw_runs(4) by (cases "xw_secrets xw_managed") auto
  have ns: "uf_argocdNs xw_update = ''argocd''" by (simp add: xw_update_def)
  obtain k s where s: "xw_view xw_managed ''argocd'' k = Some s" "\<not> is_external (unmanaged s)"
    and w: "xw_view w = stored (xw_view xw_managed) ''argocd'' k (Some (unmanaged s))"
    using failed_update_gives_up [OF xw_cli_laws xw_managed_named run] unfolding ns by blast
  have "xw_view xw_managed ''argocd'' k' = Some s' \<Longrightarrow> k' = ''secret1''" for k' s'
    using s1 by (simp add: store_view_def split: if_splits)
  then have "\<forall>k' s'. xw_view w ''argocd'' k' = Some s' \<longrightarrow> \<not> is_external s'"
    using s by (auto simp: w split: if_splits)
  with run show "\<exists>e w. cmd_update (xw_cli env) xw_update ''workload'' xw_managed =
     (Inl (Err (ErrorCtx ''failed to get profile: '' e)), w) \<and> (\<forall>k s. xw_view w ''argocd'' k = Some s \<longrightarrow> \<not> is_external s)"
    by blast
qed

end
