(* ===== verification/Create_Correct.thy ===== *)
theory Create_Correct
  imports External_Correct Cluster_Controller
begin

text \<open>
  The commands that create, show and delete a cluster, one after the other: what \<open>arlon cluster create\<close> left
  in ArgoCD is what \<open>arlon cluster get\<close> finds and what \<open>arlon cluster delete\<close> takes away.
\<close>

section \<open>Label selectors\<close>

definition plain_label :: "string \<Rightarrow> bool" where
  "plain_label s \<longleftrightarrow> CHR '','' \<notin> set s \<and> CHR ''='' \<notin> set s"

definition plain_selector :: "(string \<times> string) list \<Rightarrow> bool" where
  "plain_selector kvs \<longleftrightarrow> kvs \<noteq> [] \<and> (\<forall>(k, v) \<in> set kvs. plain_label k \<and> plain_label v)"

definition cluster_labels :: "string \<Rightarrow> (string \<times> string) list" where
  "cluster_labels n = [(''arlon-cluster'', n)]"

definition profile_app_labels :: "string \<Rightarrow> (string \<times> string) list" where
  "profile_app_labels n = [(''managed-by'', ''arlon''), (''arlon-type'', ''profile-app''), (''arlon-cluster'', n)]"

lemma selectors:
  "''arlon-cluster='' @ n = selector (cluster_labels n)"
  "''managed-by=arlon,arlon-type=profile-app,arlon-cluster='' @ n = selector (profile_app_labels n)"
  by (simp_all add: selector_def cluster_labels_def profile_app_labels_def)

lemma plain_selectors:
  "plain_label n \<Longrightarrow> plain_selector (cluster_labels n)"
  "plain_label n \<Longrightarrow> plain_selector (profile_app_labels n)"
  by (auto simp: plain_selector_def cluster_labels_def profile_app_labels_def plain_label_def)

section \<open>What is relied on\<close>

text \<open>
  \<open>L\<close> are the applications in ArgoCD by name, each with its labels and annotations and whether it is being
  deleted. Creating an application keeps its labels and annotations; deleting one removes it or marks it.
\<close>

type_synonym app_entry = "gomap \<times> gomap \<times> bool"
type_synonym 'w apps_view = "'w \<Rightarrow> string \<Rightarrow> app_entry option"

definition entry :: "application \<Rightarrow> bool \<Rightarrow> app_entry" where
  "entry a d = (om_labels (app_meta a), om_annotations (app_meta a), d)"

definition gone :: "(string \<Rightarrow> app_entry option) \<Rightarrow> string \<Rightarrow> bool" where
  "gone m n \<longleftrightarrow> (case m n of None \<Rightarrow> True | Some (l, a, d) \<Rightarrow> d)"

definition listed :: "(string \<times> string) list \<Rightarrow> (string \<Rightarrow> app_entry option) \<Rightarrow> string set" where
  "listed kvs m = {k. \<exists>l a d. m k = Some (l, a, d) \<and> matches kvs l}"

definition catalogue_law :: "'w secrets_view \<Rightarrow> 'w apps_view \<Rightarrow> 'w application_client \<Rightarrow> bool" where
  "catalogue_law V L appIf \<longleftrightarrow> (let v = (\<lambda>w. (V w, L w)) in
     (\<forall>n. steady v (appIf_Get appIf n)) \<and> (\<forall>q. steady v (appIf_List appIf q)) \<and>
     (\<forall>n w a w'. appIf_Get appIf n w = (Inr a, w') \<longrightarrow> app_name a = n \<and> (\<exists>d. L w n = Some (entry a d))) \<and>
     (\<forall>kvs w xs w'. plain_selector kvs \<longrightarrow> appIf_List appIf (selector kvs) w = (Inr xs, w') \<longrightarrow>
        app_name ` set xs = listed kvs (L w) \<and> (\<forall>a \<in> set xs. \<exists>d. L w (app_name a) = Some (entry a d))) \<and>
     (\<forall>a w y w'. appIf_Create appIf a w = (Inr y, w') \<longrightarrow> V w' = V w \<and> L w' = (L w)(app_name a \<mapsto> entry a False)) \<and>
     (\<forall>n b w y w'. appIf_Delete appIf n b w = (Inr y, w') \<longrightarrow>
        V w' = V w \<and> (\<forall>k. k \<noteq> n \<longrightarrow> L w' k = L w k) \<and> gone (L w') n))"

definition quiet_files :: "('w \<Rightarrow> 'v) \<Rightarrow> 'w gitrepo_env \<Rightarrow> bool" where
  "quiet_files v env \<longleftrightarrow> steady v (gr_DefaultConfigDir env) \<and>
     (\<forall>p. steady v (gr_Stat env p) \<and> steady v (gr_MkdirAll env p) \<and> steady v (gr_OpenFile env p) \<and>
       (\<forall>f. returns (gr_OpenFile env p) f \<longrightarrow> steady v (fl_ReadAll f) \<and> steady v (fl_Close f)))"

definition config_law :: "'w secrets_view \<Rightarrow> 'w apps_view \<Rightarrow> 'w rest_config \<Rightarrow> bool" where
  "config_law V L config \<longleftrightarrow> (let v = (\<lambda>w. (V w, L w)) in
     quiet_config v config \<and> steady v (rc_NewClient config) \<and>
     (\<forall>kc. returns (rc_NewForConfig config) kc \<longrightarrow>
        lawful_listing V is_external external_selector (kube_Secrets kc) \<and>
        (\<forall>ns n. steady v (api_get (kube_ConfigMaps kc) ns n)) \<and>
        (\<forall>ns n w x w'. api_get (kube_ConfigMaps kc) ns n w = (Inr x, w') \<longrightarrow> om_name (cm_meta x) = n)) \<and>
     (\<forall>cli. returns (rc_NewClient config) cli \<longrightarrow> (\<forall>ns n. steady v (api_get (cli_Profiles cli) ns n)) \<and>
        (\<forall>ns n w x w'. api_get (cli_Profiles cli) ns n w = (Inr x, w') \<longrightarrow> om_name (prof_meta x) = n)))"

definition create_laws :: "'w secrets_view \<Rightarrow> 'w apps_view \<Rightarrow> 'w cli_env \<Rightarrow> bool" where
  "create_laws V L env \<longleftrightarrow> (let v = (\<lambda>w. (V w, L w)) in
     quiet_env v (ce_Git env) \<and> quiet_files v (ce_Gitrepo env) \<and>
     (\<forall>f. steady v (mt_Infos (ce_Tools env) f)) \<and> (\<forall>p. steady v (ce_ReadFile env p)) \<and>
     steady v (ce_NewArgocdClient env) \<and> steady v (ce_ClientConfig env) \<and>
     (\<forall>argoIf. returns (ce_NewArgocdClient env) argoIf \<longrightarrow> steady v (argo_NewApplicationClient argoIf) \<and>
        (\<forall>appIf. returns (argo_NewApplicationClient argoIf) appIf \<longrightarrow> catalogue_law V L appIf)) \<and>
     (\<forall>config. returns (ce_ClientConfig env) config \<longrightarrow> config_law V L config))"

lemma catalogue_lawD:
  assumes "catalogue_law V L appIf"
  shows "steady (\<lambda>w. (V w, L w)) (appIf_Get appIf n)" "steady (\<lambda>w. (V w, L w)) (appIf_List appIf q)"
    "appIf_Get appIf n w = (Inr a, w') \<Longrightarrow> app_name a = n \<and> (\<exists>d. L w n = Some (entry a d))"
    "plain_selector kvs \<Longrightarrow> appIf_List appIf (selector kvs) w = (Inr xs, w') \<Longrightarrow>
     app_name ` set xs = listed kvs (L w) \<and> (\<forall>a \<in> set xs. \<exists>d. L w (app_name a) = Some (entry a d))"
    "appIf_Create appIf a w = (Inr y, w') \<Longrightarrow> V w' = V w \<and> L w' = (L w)(app_name a \<mapsto> entry a False)"
    "appIf_Delete appIf n b w = (Inr u, w') \<Longrightarrow>
     V w' = V w \<and> (\<forall>k. k \<noteq> n \<longrightarrow> L w' k = L w k) \<and> gone (L w') n"
proof -
  note law = assms [unfolded catalogue_law_def Let_def]
  show "steady (\<lambda>w. (V w, L w)) (appIf_Get appIf n)"
    by (rule law [THEN conjunct1, rule_format])
  show "steady (\<lambda>w. (V w, L w)) (appIf_List appIf q)"
    by (rule law [THEN conjunct2, THEN conjunct1, rule_format])
  show "app_name a = n \<and> (\<exists>d. L w n = Some (entry a d))"
    if "appIf_Get appIf n w = (Inr a, w')"
    by (rule law [THEN conjunct2, THEN conjunct2, THEN conjunct1, rule_format, OF that])
  show "app_name ` set xs = listed kvs (L w) \<and> (\<forall>a \<in> set xs. \<exists>d. L w (app_name a) = Some (entry a d))"
    if "plain_selector kvs" and "appIf_List appIf (selector kvs) w = (Inr xs, w')"
    by (rule law [THEN conjunct2, THEN conjunct2, THEN conjunct2, THEN conjunct1, rule_format, OF that])
  show "V w' = V w \<and> L w' = (L w)(app_name a \<mapsto> entry a False)"
    if "appIf_Create appIf a w = (Inr y, w')"
    by (rule law [THEN conjunct2, THEN conjunct2, THEN conjunct2, THEN conjunct2, THEN conjunct1, rule_format, OF that])
  show "V w' = V w \<and> (\<forall>k. k \<noteq> n \<longrightarrow> L w' k = L w k) \<and> gone (L w') n"
    if "appIf_Delete appIf n b w = (Inr u, w')"
    by (rule law [THEN conjunct2, THEN conjunct2, THEN conjunct2, THEN conjunct2, THEN conjunct2, rule_format, OF that])
qed

lemma config_lawD:
  assumes "config_law V L config"
  shows "quiet_config (\<lambda>w. (V w, L w)) config" "steady (\<lambda>w. (V w, L w)) (rc_NewClient config)"
    "returns (rc_NewForConfig config) kc \<Longrightarrow> lawful_listing V is_external external_selector (kube_Secrets kc)"
    "returns (rc_NewForConfig config) kc \<Longrightarrow> steady (\<lambda>w. (V w, L w)) (api_get (kube_ConfigMaps kc) ns n)"
    "returns (rc_NewClient config) cli \<Longrightarrow> steady (\<lambda>w. (V w, L w)) (api_get (cli_Profiles cli) ns n)"
  using assms unfolding config_law_def Let_def by blast+

text \<open>A profile is found under its own name.\<close>

lemma profile_Get_name:
  assumes "config_law V L config" "profile_Get config p ns w = (Inr prof, w')"
  shows "om_name (prof_meta prof) = p"
proof -
  from assms(2) obtain cli w1 where cli: "rc_NewClient config w = (Inr cli, w1)"
    and found: "api_get (cli_Profiles cli) ns p w1 = (Inr prof, w') \<or>
      (\<exists>w2 kc w3 cm. rc_NewForConfig config w2 = (Inr kc, w3) \<and> api_get (kube_ConfigMaps kc) ns p w3 = (Inr cm, w') \<and>
         profile_FromConfigMap cm = Inr prof)"
    by (auto simp: profile_Get_def getProfileConfigMap_def ctrlruntimeclient_NewClient_def must_ok attempt_ok ret_ok
        fail_ok lift_ok split: if_splits)
  from found show ?thesis
  proof
    assume "api_get (cli_Profiles cli) ns p w1 = (Inr prof, w')"
    with cli assms(1) show ?thesis unfolding config_law_def Let_def returns_def by blast
  next
    assume "\<exists>w2 kc w3 cm. rc_NewForConfig config w2 = (Inr kc, w3) \<and> api_get (kube_ConfigMaps kc) ns p w3 = (Inr cm, w') \<and>
         profile_FromConfigMap cm = Inr prof"
    then obtain cm where "om_name (cm_meta cm) = p" "profile_FromConfigMap cm = Inr prof"
      using assms(1) unfolding config_law_def Let_def returns_def by blast
    then show ?thesis by (auto simp: profile_FromConfigMap_def Let_def named_meta_def split: if_splits sum.splits option.splits)
  qed
qed

lemma create_lawsD:
  assumes "create_laws V L env"
  shows "quiet_env (\<lambda>w. (V w, L w)) (ce_Git env)" "quiet_files (\<lambda>w. (V w, L w)) (ce_Gitrepo env)"
    "steady (\<lambda>w. (V w, L w)) (mt_Infos (ce_Tools env) f)" "steady (\<lambda>w. (V w, L w)) (ce_ReadFile env p)"
    "steady (\<lambda>w. (V w, L w)) (ce_NewArgocdClient env)" "steady (\<lambda>w. (V w, L w)) (ce_ClientConfig env)"
    "ce_NewArgocdClient env w = (Inr argoIf, w') \<Longrightarrow> steady (\<lambda>w. (V w, L w)) (argo_NewApplicationClient argoIf)"
    "ce_NewArgocdClient env w = (Inr argoIf, w') \<Longrightarrow> argo_NewApplicationClient argoIf w1 = (Inr appIf, w2) \<Longrightarrow>
     catalogue_law V L appIf"
    "ce_ClientConfig env w = (Inr config, w') \<Longrightarrow> config_law V L config"
  using assms unfolding create_laws_def Let_def returns_def by blast+

section \<open>What leaves the applications alone\<close>

lemma steady_GetRepoUrl:
  assumes "quiet_files v env"
  shows "steady v (GetRepoUrl env a)"
proof -
  have open_file: "returns (ReadDefaultConfig env) f \<Longrightarrow> steady v (fl_ReadAll f) \<and> steady v (fl_Close f)" for f
  proof -
    assume "returns (ReadDefaultConfig env) f"
    then obtain w w' where "ReadDefaultConfig env w = (Inr f, w')" by (auto simp: returns_def)
    then obtain p w1 w2 where "gr_OpenFile env p w1 = (Inr f, w2)"
      by (auto simp: ReadDefaultConfig_def Let_def andThen_ok must_ok attempt_ok ret_ok)
    with assms show ?thesis unfolding quiet_files_def returns_def by blast
  qed
  have "steady v (ReadDefaultConfig env)"
    unfolding ReadDefaultConfig_def GetRepoCfgPath_def
    by (intro steady_intros) (use assms in \<open>simp_all add: quiet_files_def\<close>)
  then show ?thesis
    unfolding GetRepoUrl_def getAlias_def LoadRepoCfg_def
    by (intro steady_intros) (simp_all add: open_file)
qed

lemma steady_profile_lookup:
  assumes "config_law V L config"
  shows "steady (\<lambda>w. (V w, L w)) (profile_Get config p ns)"
proof -
  have kube: "steady (\<lambda>w. (V w, L w)) (rc_NewForConfig config)"
    by (rule quiet_config_simps(1) [OF config_lawD(1) [OF assms]])
  show ?thesis
    unfolding profile_Get_def getProfileConfigMap_def ctrlruntimeclient_NewClient_def
    by (intro steady_intros kube config_lawD(2,4,5) [OF assms])
qed

section \<open>Creating\<close>

text \<open>What the commands put into ArgoCD.\<close>

definition arlon_entry :: "string \<Rightarrow> string \<Rightarrow> app_entry" where
  "arlon_entry ns n = (om_labels (root_app_meta ns n '''' True ''no-profile-for-gen2''),
     om_annotations (root_app_meta ns n '''' True ''no-profile-for-gen2''), False)"

text \<open>Where the manifest of the cluster comes from: the template, or the patch of it.\<close>

definition template_source :: "create_flags \<Rightarrow> url \<Rightarrow> url \<times> revision \<times> path" where
  "template_source fl clusterRepoUrl =
     (if cf_overridesPath fl = '''' then (clusterRepoUrl, cf_clusterRepoRevision fl, cf_clusterRepoPath fl)
      else (cf_patchRepoUrl fl, cf_patchRepoRevision fl, cf_patchRepoPath fl))"

definition cluster_application :: "create_flags \<Rightarrow> string \<Rightarrow> url \<Rightarrow> application" where
  "cluster_application fl base clusterRepoUrl = (case template_source fl clusterRepoUrl of (u, rv, p) \<Rightarrow>
     constructClusterApp (cf_argocdNs fl) (cf_clusterName fl) base u rv p (cf_overridesPath fl \<noteq> ''''))"

definition profile_application :: "create_flags \<Rightarrow> profile \<Rightarrow> application" where
  "profile_application fl p = constructProfileApp (cf_clusterName fl @ ''-profile-'' @ om_name (prof_meta p))
     (cf_argocdNs fl) (cf_clusterName fl) p"

definition created_apps ::
  "create_flags \<Rightarrow> string \<Rightarrow> url \<Rightarrow> profile option \<Rightarrow> (string \<Rightarrow> app_entry option) \<Rightarrow> (string \<Rightarrow> app_entry option)"
where
  "created_apps fl base clusterRepoUrl prof m =
     (let m1 = m(arlonAppName (cf_clusterName fl) \<mapsto> arlon_entry (cf_argocdNs fl) (cf_clusterName fl),
          cf_clusterName fl \<mapsto> entry (cluster_application fl base clusterRepoUrl) False) in
      case prof of None \<Rightarrow> m1
      | Some p \<Rightarrow> m1(app_name (profile_application fl p) \<mapsto> entry (profile_application fl p) False))"

lemma ConstructRootApp_meta:
  "ConstructRootApp ns n inner u b p '''' None prof url cas = Inr app \<Longrightarrow>
   app_meta app = root_app_meta ns n '''' True prof"
  by (auto simp: ConstructRootApp_def split: sum.splits if_splits)

lemma root_app_name: "om_name (root_app_meta ns n '''' True prof) = arlonAppName n"
  by (simp add: root_app_meta_def arlonAppName_def)

lemma cluster_app_name [simp]: "app_name (constructClusterApp ns n b u rv p ov) = n"
  by (simp add: constructClusterApp_def)

lemma no_such_app_ok:
  "no_such_app appIf n k w = (Inr y, w') \<Longrightarrow> \<exists>e w1. appIf_Get appIf n w = (Inl e, w1) \<and> k w1 = (Inr y, w')"
  by (auto simp: no_such_app_def attempt_ok fail_ok split: option.splits if_splits)

lemma cluster_Create_ok:
  assumes laws: "catalogue_law V L appIf" "config_law V L config"
    and run: "cluster_Create env content appIf config ns ans n base u rv p '''' None True host cas w = (Inr a, w')"
  shows "V w' = V w \<and> L w' = (L w)(arlonAppName n \<mapsto> arlon_entry ns n)"
proof -
  from run obtain kc w1 where 1: "rc_NewForConfig config w = (Inr kc, w1)"
    and run1: "no_such_app appIf n (must (lift (ConstructRootApp ns n base u rv p '''' None
        ''no-profile-for-gen2'' host cas)) (ErrorCtx ''failed to construct root app: '') (\<lambda>rootApp.
      must (appIf_Create appIf rootApp) (ErrorCtx ''failed to create ArgoCD root application: '')
        (\<lambda>_. ret rootApp))) w1 = (Inr a, w')"
    by (auto simp: cluster_Create_def must_ok andThen_def attempt_def ret_def)
  obtain e w2 where 2: "appIf_Get appIf n w1 = (Inl e, w2)"
    and run2: "must (lift (ConstructRootApp ns n base u rv p '''' None ''no-profile-for-gen2'' host cas))
        (ErrorCtx ''failed to construct root app: '') (\<lambda>rootApp.
      must (appIf_Create appIf rootApp) (ErrorCtx ''failed to create ArgoCD root application: '')
        (\<lambda>_. ret rootApp)) w2 = (Inr a, w')"
    using no_such_app_ok [OF run1] by blast
  from run2 obtain app y where app: "ConstructRootApp ns n base u rv p '''' None ''no-profile-for-gen2'' host cas = Inr app"
    and 3: "appIf_Create appIf app w2 = (Inr y, w')"
    by (auto simp: must_ok lift_ok ret_ok)
  have same: "V w2 = V w \<and> L w2 = L w"
    using steady_returned [OF quiet_config_simps(1) [OF config_lawD(1) [OF laws(2)]] 1]
      steady_returned [OF catalogue_lawD(1) [OF laws(1)] 2] by simp
  show ?thesis
    using catalogue_lawD(5) [OF laws(1) 3] same ConstructRootApp_meta [OF app]
    by (simp add: arlon_entry_def entry_def root_app_name)
qed

lemma CreateClusterApp_ok:
  assumes "catalogue_law V L appIf" "CreateClusterApp appIf ns n b u rv p True ov w = (Inr a, w')"
  shows "V w' = V w \<and> L w' = (L w)(n \<mapsto> entry (constructClusterApp ns n b u rv p ov) False)"
proof -
  from assms(2) obtain y where "appIf_Create appIf (constructClusterApp ns n b u rv p ov) w = (Inr y, w')"
    by (auto simp: CreateClusterApp_def must_ok ret_ok Let_def)
  from catalogue_lawD(5) [OF assms(1) this] show ?thesis by simp
qed

lemma CreateProfileApp_ok:
  assumes "catalogue_law V L appIf" "CreateProfileApp a appIf ns n p True w = (Inr x, w')"
  shows "V w' = V w \<and> L w' = (L w)(a \<mapsto> entry (constructProfileApp a ns n p) False)"
proof -
  from assms(2) obtain y where "appIf_Create appIf (constructProfileApp a ns n p) w = (Inr y, w')"
    by (auto simp: CreateProfileApp_def must_ok ret_ok Let_def)
  from catalogue_lawD(5) [OF assms(1) this] show ?thesis by simp
qed

lemma create_overrides_ok:
  assumes laws: "create_laws V L env" "catalogue_law V L appIf" "config_law V L config"
    and run: "create_overrides env fl appIf config u w = (Inr ov, w')"
  shows "V w' = V w \<and> L w' = L w \<and> ov = (cf_overridesPath fl \<noteq> '''')"
proof -
  have "steady (\<lambda>w. (V w, L w)) (create_overrides env fl appIf config u)"
    unfolding create_overrides_def
    by (intro steady_intros catalogue_lawD(1) [OF laws(2)] create_lawsD(4) [OF laws(1)] steady_CreatePatchDir
        create_lawsD(1) [OF laws(1)] config_lawD(1) [OF laws(3)])
  from steady_returned [OF this run] have "V w' = V w \<and> L w' = L w" .
  moreover have "ov = (cf_overridesPath fl \<noteq> '''')"
    using run by (auto simp: create_overrides_def attempt_ok must_ok ret_ok fail_ok split: if_splits)
  ultimately show ?thesis by simp
qed

text \<open>No profile for an empty name, the profile with the name otherwise.\<close>

definition prof_named :: "string \<Rightarrow> profile option \<Rightarrow> bool" where
  "prof_named p prof \<longleftrightarrow> (case prof of None \<Rightarrow> p = '''' | Some x \<Rightarrow> p \<noteq> '''' \<and> om_name (prof_meta x) = p)"

lemma dynamic_profile_ok:
  assumes "config_law V L config" "dynamic_profile config p ns w = (Inr prof, w')"
  shows "V w' = V w \<and> L w' = L w \<and> prof_named p prof"
proof -
  have "steady (\<lambda>w. (V w, L w)) (dynamic_profile config p ns)"
    unfolding dynamic_profile_def by (intro steady_intros steady_profile_lookup [OF assms(1)])
  from steady_returned [OF this assms(2)] have "V w' = V w \<and> L w' = L w" .
  moreover have "prof_named p prof"
    using assms(2) profile_Get_name [OF assms(1)]
    by (auto simp: dynamic_profile_def prof_named_def must_ok ret_ok fail_ok split: if_splits)
  ultimately show ?thesis by simp
qed

lemma CheckError_ok:
  "CheckError m k w = (Inr y, w') \<longleftrightarrow> (\<exists>x w1. m w = (Inr x, w1) \<and> k x w1 = (Inr y, w'))"
  by (auto simp: CheckError_def attempt_ok panic_ok)

lemmas command_ok = CheckError_ok must_ok andThen_ok ret_ok

text \<open>The calls before the first application is created leave the applications and secrets alone.\<close>

lemma cmd_create_steps:
  assumes run: "cmd_create env fl w = (Inr (), w')" and yaml: "\<not> cf_outputYaml fl"
  obtains url w1 argoIf w2 appIf w3 config w4 kc creds w5 ov w6 base w7 prof w8 arlon w9 clust w10 profs where
    "repo_or_alias env (cf_clusterRepoUrl fl) (cf_repoAlias fl) w = (Inr url, w1)"
    "ce_NewArgocdClient env w1 = (Inr argoIf, w2)" "argo_NewApplicationClient argoIf w2 = (Inr appIf, w3)"
    "ce_ClientConfig env w3 = (Inr config, w4)"
    "GetKubeclientAndRepoCreds config (cf_argocdNs fl) url w4 = (Inr (kc, creds), w5)"
    "create_overrides env fl appIf config url w5 = (Inr ov, w6)"
    "ValidateGitDir (ce_Git env) (ce_Tools env) creds url (cf_clusterRepoRevision fl) (cf_clusterRepoPath fl) w6
       = (Inr base, w7)"
    "dynamic_profile config (cf_profileName fl) (cf_arlonNs fl) w7 = (Inr prof, w8)"
    "cluster_Create (ce_Git env) (ce_ClusterContent env) appIf config (cf_argocdNs fl) (cf_arlonNs fl)
       (cf_clusterName fl) base (cf_arlonRepoUrl fl) (cf_arlonRepoRevision fl) (cf_arlonRepoPath fl)
       '''' None True (ce_Host env config) (cf_gen2CASEnabled fl) w8 = (Inr arlon, w9)"
    "(if ov then CreateClusterApp appIf (cf_argocdNs fl) (cf_clusterName fl) base (cf_patchRepoUrl fl)
         (cf_patchRepoRevision fl) (cf_patchRepoPath fl) True ov
       else CreateClusterApp appIf (cf_argocdNs fl) (cf_clusterName fl) base url (cf_clusterRepoRevision fl)
         (cf_clusterRepoPath fl) True ov) w9 = (Inr clust, w10)"
    "(case prof of None \<Rightarrow> ret None | Some p \<Rightarrow> must (CreateProfileApp (cf_clusterName fl @ ''-profile-'' @ om_name (prof_meta p))
         appIf (cf_argocdNs fl) (cf_clusterName fl) p True) (ErrorCtx ''failed to create profile app: '')
         (\<lambda>app. ret (Some app))) w10 = (Inr profs, w')"
  using run
  unfolding cmd_create_def with_argocd_def with_applications_def with_config_def Let_def command_ok split_paired_Ex
    prod.case eqTrueI [OF yaml] if_not_P [OF yaml]
  by (elim exE conjE) (hypsubst, rule that, assumption+)

lemma cmd_create_ok:
  assumes laws: "create_laws V L env" and run: "cmd_create env fl w = (Inr (), w')" "\<not> cf_outputYaml fl"
  shows "\<exists>url base prof. V w' = V w \<and> L w' = created_apps fl base url prof (L w) \<and>
    (cf_clusterRepoUrl fl \<noteq> '''' \<longrightarrow> url = cf_clusterRepoUrl fl) \<and> prof_named (cf_profileName fl) prof"
proof (rule cmd_create_steps [OF run], goal_cases)
  case (1 url w1 argoIf w2 appIf w3 config w4 kc creds w5 ov w6 base w7 prof w8 arlon w9 clust w10 profs)
  have cat: "catalogue_law V L appIf" by (rule create_lawsD(8) [OF laws 1(2,3)])
  have conf: "config_law V L config" by (rule create_lawsD(9) [OF laws 1(4)])
  have "steady (\<lambda>w. (V w, L w)) (repo_or_alias env (cf_clusterRepoUrl fl) (cf_repoAlias fl))"
    unfolding repo_or_alias_def by (intro steady_intros steady_GetRepoUrl create_lawsD(2) [OF laws])
  from steady_returned [OF this 1(1)] have same1: "V w1 = V w \<and> L w1 = L w" .
  have same2: "V w2 = V w1 \<and> L w2 = L w1" by (rule steady_returned [OF create_lawsD(5) [OF laws] 1(2)])
  have same3: "V w3 = V w2 \<and> L w3 = L w2" by (rule steady_returned [OF create_lawsD(7) [OF laws 1(2)] 1(3)])
  have same4: "V w4 = V w3 \<and> L w4 = L w3" by (rule steady_returned [OF create_lawsD(6) [OF laws] 1(4)])
  have same5: "V w5 = V w4 \<and> L w5 = L w4"
    by (rule steady_returned [OF steady_GetKubeclientAndRepoCreds [OF config_lawD(1) [OF conf]] 1(5)])
  have ov: "V w6 = V w5 \<and> L w6 = L w5 \<and> ov = (cf_overridesPath fl \<noteq> '''')"
    by (rule create_overrides_ok [OF laws cat conf 1(6)])
  have same7: "V w7 = V w6 \<and> L w7 = L w6"
    by (rule steady_returned [OF steady_ValidateGitDir [OF create_lawsD(1) [OF laws] create_lawsD(3) [OF laws]] 1(7)])
  have prof: "V w8 = V w7 \<and> L w8 = L w7 \<and> prof_named (cf_profileName fl) prof"
    by (rule dynamic_profile_ok [OF conf 1(8)])
  have arlon: "V w9 = V w8 \<and> L w9 = (L w8)(arlonAppName (cf_clusterName fl) \<mapsto>
      arlon_entry (cf_argocdNs fl) (cf_clusterName fl))"
    by (rule cluster_Create_ok [OF cat conf 1(9)])
  have clust: "V w10 = V w9 \<and> L w10 = (L w9)(cf_clusterName fl \<mapsto> entry (cluster_application fl base url) False)"
    using 1(10) ov CreateClusterApp_ok [OF cat]
    by (auto simp: cluster_application_def template_source_def split: if_splits)
  have profs: "V w' = V w10 \<and> L w' = (case prof of None \<Rightarrow> L w10
      | Some p \<Rightarrow> (L w10)(app_name (profile_application fl p) \<mapsto> entry (profile_application fl p) False))"
    using 1(11) CreateProfileApp_ok [OF cat]
    by (auto simp: profile_application_def command_ok split: option.splits)
  have "cf_clusterRepoUrl fl \<noteq> '''' \<longrightarrow> url = cf_clusterRepoUrl fl"
    using 1(1) by (auto simp: repo_or_alias_def ret_ok)
  then show ?case
    using same1 same2 same3 same4 same5 ov same7 prof arlon clust profs
    by - (rule exI [of _ url], rule exI [of _ base], rule exI [of _ prof], cases prof, simp_all add: created_apps_def Let_def)
qed

section \<open>Looking up what was created\<close>

definition app_names_of :: "create_flags \<Rightarrow> string set" where
  "app_names_of fl = {cf_clusterName fl, arlonAppName (cf_clusterName fl)}
     \<union> (if cf_profileName fl = '''' then {} else {profile_app_name (cf_clusterName fl) (cf_profileName fl)})"

definition unlabelled :: "string \<Rightarrow> (string \<Rightarrow> app_entry option) \<Rightarrow> bool" where
  "unlabelled n m \<longleftrightarrow> listed (cluster_labels n) m = {}"

lemma profile_application_name [simp]:
  "app_name (profile_application fl p) = profile_app_name (cf_clusterName fl) (om_name (prof_meta p))"
  by (simp add: profile_application_def profile_app_name_def)

lemma labels_created:
  "om_labels (app_meta (cluster_application fl b u)) =
     mlit [(''managed-by'', ''arlon''), (''arlon-type'', ''cluster-app''), (''arlon-cluster'', cf_clusterName fl)]"
  "om_labels (app_meta (profile_application fl p)) =
     mlit [(''managed-by'', ''arlon''), (''arlon-type'', ''profile-app''), (''arlon-cluster'', cf_clusterName fl),
       (''arlon-profile'', om_name (prof_meta p))]"
  "fst (arlon_entry ns n) = mlit [(''managed-by'', ''arlon''), (''arlon-type'', ''arlon-app''), (''arlon-cluster'', n)]"
  by (simp_all add: cluster_application_def constructClusterApp_def profile_application_def constructProfileApp_def
      arlon_entry_def root_app_meta_def Let_def split: prod.splits)

lemma listed_update [simp]:
  "listed kvs (m(k \<mapsto> e)) = (if matches kvs (fst e) then insert k (listed kvs m) else listed kvs m - {k})"
  by (cases e) (auto simp: listed_def split: if_splits)

lemma fst_entry [simp]: "fst (entry a d) = om_labels (app_meta a)"
  by (simp add: entry_def)

lemma listed_created:
  assumes "unlabelled (cf_clusterName fl) m" "prof_named (cf_profileName fl) prof"
  shows "listed (cluster_labels (cf_clusterName fl)) (created_apps fl b u prof m) = app_names_of fl"
    "listed (profile_app_labels (cf_clusterName fl)) (created_apps fl b u prof m) =
       app_names_of fl - {cf_clusterName fl, arlonAppName (cf_clusterName fl)}"
proof -
  have sub: "listed (profile_app_labels n) m \<subseteq> listed (cluster_labels n) m" for n
    by (auto simp: listed_def matches_def profile_app_labels_def cluster_labels_def)
  show "listed (cluster_labels (cf_clusterName fl)) (created_apps fl b u prof m) = app_names_of fl"
    using assms
    by (auto simp: created_apps_def Let_def app_names_of_def prof_named_def unlabelled_def labels_created
        cluster_labels_def matches_def mlit_def split: option.splits)
  have "listed (profile_app_labels (cf_clusterName fl)) m = {}"
    using sub [of "cf_clusterName fl"] assms(1) by (simp add: unlabelled_def)
  then show "listed (profile_app_labels (cf_clusterName fl)) (created_apps fl b u prof m) =
       app_names_of fl - {cf_clusterName fl, arlonAppName (cf_clusterName fl)}"
    using assms(2)
    by (auto simp: created_apps_def Let_def app_names_of_def prof_named_def labels_created profile_app_name_def
        profile_app_labels_def matches_def mlit_def arlonAppName_def split: option.splits)
qed

definition no_external :: "(string \<Rightarrow> string \<Rightarrow> secret option) \<Rightarrow> string \<Rightarrow> string \<Rightarrow> bool" where
  "no_external m ns n \<longleftrightarrow> (\<forall>k s. m ns k = Some s \<longrightarrow> is_external s \<longrightarrow> cluster_of s \<noteq> n)"

lemma getMatchingProfileName_ok:
  assumes "catalogue_law V L appIf" "plain_label n" "getMatchingProfileName appIf n w = (Inr p, w')"
  shows "(listed (profile_app_labels n) (L w) = {} \<and> p = '''') \<or>
    (\<exists>k e. k \<in> listed (profile_app_labels n) (L w) \<and> L w k = Some e \<and> p = mget (fst e) ''arlon-profile'')"
proof -
  from assms(3) obtain xs w1 where xs: "appIf_List appIf (selector (profile_app_labels n)) w = (Inr xs, w1)"
    and p: "(case xs of [] \<Rightarrow> ret '''' | a # _ \<Rightarrow> ret (mget (om_labels (app_meta a)) ''arlon-profile'')) w1 = (Inr p, w')"
    unfolding getMatchingProfileName_def selectors must_ok by blast
  note law = catalogue_lawD(4) [OF assms(1) plain_selectors(2) [OF assms(2)] xs]
  show ?thesis
  proof (cases xs)
    case Nil
    with law p show ?thesis by (simp add: ret_ok)
  next
    case (Cons a as)
    with law obtain d where "app_name a \<in> listed (profile_app_labels n) (L w)" "L w (app_name a) = Some (entry a d)"
      by auto
    with Cons p show ?thesis by (intro disjI2 exI [of _ "app_name a"] exI [of _ "entry a d"]) (simp add: ret_ok)
  qed
qed

lemma steady_matching: "catalogue_law V L appIf \<Longrightarrow> steady (\<lambda>w. (V w, L w)) (getMatchingProfileName appIf n)"
  unfolding getMatchingProfileName_def
  by (intro steady_intros catalogue_lawD(2)) (auto intro!: steady_intros split: list.splits)

lemma steady_lookup:
  assumes "catalogue_law V L appIf" "config_law V L config"
  shows "steady (\<lambda>w. (V w, L w)) (cluster_Get appIf config ns n)"
  unfolding cluster_Get_def
  by (intro steady_intros quiet_config_simps [OF config_lawD(1) [OF assms(2)]] catalogue_lawD(1) [OF assms(1)]
      steady_matching [OF assms(1)])

lemma cluster_Get_app:
  assumes laws: "catalogue_law V L appIf" "config_law V L config" and none: "no_external (V w) ns n"
    and run: "cluster_Get appIf config ns n w = (Inr c, w')"
  shows "\<exists>app d w1. L w n = Some (entry app d) \<and> app_name app = n \<and> V w1 = V w \<and> L w1 = L w \<and>
    (mget (om_labels (app_meta app)) ''arlon-type'' = ''cluster-app'' \<longrightarrow>
      (\<exists>p w2. getMatchingProfileName appIf n w1 = (Inr p, w2) \<and> c = gen2_cluster_of app p))"
proof -
  let ?fetch = "must (appIf_Get appIf n) (ErrorCtx ''failed to get argocd application: '') (\<lambda>app.
      let typ = mget (om_labels (app_meta app)) ''arlon-type'' in
      if typ = ''cluster'' then ret (gen1_cluster_of app)
      else if typ = ''cluster-app'' then
        must (getMatchingProfileName appIf (app_name app)) (ErrorCtx ''failed to matching profile name: '')
          (\<lambda>profileName. ret (gen2_cluster_of app profileName))
      else fail (ErrorText ''not an arlon cluster''))"
  from run obtain kc w1 secrs w2 where kc: "rc_NewForConfig config w = (Inr kc, w1)"
    and list: "api_list (kube_Secrets kc) ns external_selector w1 = (Inr secrs, w2)"
    and rest: "(case find_external n secrs of Some cl \<Rightarrow> ret cl | None \<Rightarrow> ?fetch) w2 = (Inr c, w')"
    unfolding cluster_Get_def must_ok by blast
  have same1: "V w1 = V w \<and> L w1 = L w"
    by (rule steady_returned [OF quiet_config_simps(1) [OF config_lawD(1) [OF laws(2)]] kc])
  have same2: "V w2 = V w1 \<and> L w2 = L w1"
    by (rule steady_returned [OF quiet_config_simps(2) [OF config_lawD(1) [OF laws(2)] returnsI [where m = "rc_NewForConfig config", OF kc]] list])
  note law = config_lawD(3) [OF laws(2) returnsI [where m = "rc_NewForConfig config", OF kc]]
  have "find_external n secrs = None"
  proof (cases "find_external n secrs")
    case (Some cl)
    then obtain s where "s \<in> set secrs" "cluster_of s = n" using find_external_Some by blast
    with lawful_listing_set [OF law list, of s] none same1 show ?thesis by (auto simp: no_external_def)
  qed
  with rest obtain app w3 where get: "appIf_Get appIf n w2 = (Inr app, w3)"
    and "mget (om_labels (app_meta app)) ''arlon-type'' = ''cluster-app'' \<longrightarrow>
      (\<exists>p w4. getMatchingProfileName appIf (app_name app) w3 = (Inr p, w4) \<and> c = gen2_cluster_of app p)"
    by (auto simp: must_ok Let_def ret_ok fail_ok split: if_splits)
  moreover have "V w3 = V w2 \<and> L w3 = L w2" by (rule steady_returned [OF catalogue_lawD(1) [OF laws(1)] get])
  moreover note catalogue_lawD(3) [OF laws(1) get] same1 same2
  ultimately show ?thesis by (metis (no_types, lifting))
qed

lemma created_own_app:
  "created_apps fl b u prof m (cf_clusterName fl) = Some (entry (cluster_application fl b u) False)"
  by (simp add: created_apps_def Let_def profile_app_name_def split: option.splits)

lemma created_profile_app:
  assumes "k \<in> app_names_of fl - {cf_clusterName fl, arlonAppName (cf_clusterName fl)}" "prof_named (cf_profileName fl) prof"
  shows "\<exists>e. created_apps fl b u prof m k = Some e \<and> mget (fst e) ''arlon-profile'' = cf_profileName fl"
proof (cases prof)
  case None
  with assms show ?thesis by (simp add: prof_named_def app_names_of_def)
next
  case (Some p)
  with assms have "k = app_name (profile_application fl p)" "om_name (prof_meta p) = cf_profileName fl"
    by (auto simp: prof_named_def app_names_of_def split: if_splits)
  with Some show ?thesis by (simp add: created_apps_def labels_created)
qed

lemma annotations_created:
  "om_annotations (app_meta (cluster_application fl b u)) = (case template_source fl u of (u, rv, p) \<Rightarrow>
     mlit [(baseClusterNameAnnotation, b), (baseClusterRepoUrlAnnotation, u), (baseClusterRepoRevisionAnnotation, rv),
       (baseClusterRepoPathAnnotation, p), (baseClusterOverridden, FormatBool (cf_overridesPath fl \<noteq> ''''))])"
  by (simp add: cluster_application_def constructClusterApp_def split: prod.splits)

lemma distinct_annotations [simp]:
  "baseClusterRepoUrlAnnotation \<noteq> baseClusterNameAnnotation" "baseClusterRepoRevisionAnnotation \<noteq> baseClusterNameAnnotation"
  "baseClusterRepoPathAnnotation \<noteq> baseClusterNameAnnotation" "baseClusterRepoRevisionAnnotation \<noteq> baseClusterRepoUrlAnnotation"
  "baseClusterRepoPathAnnotation \<noteq> baseClusterRepoUrlAnnotation" "baseClusterRepoPathAnnotation \<noteq> baseClusterRepoRevisionAnnotation"
  by (simp_all add: baseClusterNameAnnotation_def baseClusterRepoUrlAnnotation_def
      baseClusterRepoRevisionAnnotation_def baseClusterRepoPathAnnotation_def)

text \<open>C40: What \<open>arlon cluster create\<close> created is what a lookup of the cluster then finds: a cluster of the second
  generation under its name, with the profile that was asked for, and with the repository, revision and path it
  was created from, which are those of the patch when there is one.\<close>

theorem create_then_get:
  assumes laws: "create_laws V L env" "catalogue_law V L appIf" "config_law V L config"
    and create: "cmd_create env fl w = (Inr (), w1)" "\<not> cf_outputYaml fl" "cf_clusterRepoUrl fl \<noteq> ''''"
    and fresh: "plain_label (cf_clusterName fl)" "unlabelled (cf_clusterName fl) (L w)"
      "no_external (V w) (cf_argocdNs fl) (cf_clusterName fl)"
    and get: "cluster_Get appIf config (cf_argocdNs fl) (cf_clusterName fl) w1 = (Inr c, w2)"
  shows "clu_Name c = cf_clusterName fl \<and> \<not> clu_IsExternal c \<and> clu_ProfileName c = cf_profileName fl \<and>
    (\<exists>base. clu_BaseCluster c = (case template_source fl (cf_clusterRepoUrl fl) of (u, rv, p) \<Rightarrow>
       Some \<lparr>bci_Name = base, bci_RepoUrl = u, bci_RepoRevision = rv, bci_RepoPath = p, bci_Overridden = ''''\<rparr>))"
proof -
  let ?n = "cf_clusterName fl" and ?u = "cf_clusterRepoUrl fl"
  from cmd_create_ok [OF laws(1) create(1,2)] create(3) obtain base prof where
    w1: "V w1 = V w" "L w1 = created_apps fl base ?u prof (L w)" "prof_named (cf_profileName fl) prof" by blast
  from fresh(3) w1(1) have "no_external (V w1) (cf_argocdNs fl) ?n" by simp
  from cluster_Get_app [OF laws(2,3) this get] obtain app d w3 where
    app: "L w1 ?n = Some (entry app d)" "app_name app = ?n" "L w3 = L w1"
    and c: "mget (om_labels (app_meta app)) ''arlon-type'' = ''cluster-app'' \<longrightarrow>
      (\<exists>p w4. getMatchingProfileName appIf ?n w3 = (Inr p, w4) \<and> c = gen2_cluster_of app p)" by blast
  have meta: "om_labels (app_meta app) = om_labels (app_meta (cluster_application fl base ?u))"
    "om_annotations (app_meta app) = om_annotations (app_meta (cluster_application fl base ?u))"
    using app(1) created_own_app [of fl base ?u prof "L w"] by (simp_all add: w1(2) entry_def)
  with c obtain p w4 where p: "getMatchingProfileName appIf ?n w3 = (Inr p, w4)" "c = gen2_cluster_of app p"
    by (auto simp: labels_created)
  have "p = cf_profileName fl"
    using getMatchingProfileName_ok [OF laws(2) fresh(1) p(1)] listed_created(2) [OF fresh(2) w1(3), of base ?u]
      created_profile_app [OF _ w1(3), of _ base ?u "L w"]
    by (auto simp: app(3) w1(2) app_names_of_def profile_app_name_def arlonAppName_def split: if_splits)
  then show ?thesis
    by (auto simp: p(2) gen2_cluster_of_def plain_cluster_def Let_def app(2) meta(2) annotations_created
        split: prod.splits)
qed

section \<open>Deleting\<close>

lemma delete_related_app_ok:
  assumes "catalogue_law V L appIf" "quiet_env (\<lambda>w. (V w, L w)) git"
    and "\<And>ns sel. steady (\<lambda>w. (V w, L w)) (api_list (kube_Secrets kc) ns sel)"
    and run: "delete_related_app git appIf kc ns n app w = (Inr (), w')"
  shows "V w' = V w \<and> (\<forall>k. k \<noteq> app_name app \<longrightarrow> L w' k = L w k) \<and> gone (L w') (app_name app)"
proof -
  let ?overrides = "if mget (om_labels (app_meta app)) ''arlon-type'' = ''cluster-app''
         \<and> mget (om_annotations (app_meta app)) baseClusterOverridden = ''true''
       then must (DeleteOverridesDir git app kc ns n) (ErrorCtx ''failed to delete the overrides directory: '') ret
       else ret ()"
  from run obtain w1 u where 1: "?overrides w = (Inr (), w1)" and 2: "appIf_Delete appIf (app_name app) True w1 = (Inr u, w')"
    by (auto simp: delete_related_app_def andThen_ok must_ok ret_ok)
  have "steady (\<lambda>w. (V w, L w)) ?overrides"
    by (intro steady_intros steady_DeleteOverridesDir assms(2,3))
  from steady_returned [OF this 1] have "V w1 = V w \<and> L w1 = L w" .
  with catalogue_lawD(6) [OF assms(1) 2] show ?thesis by simp
qed

lemma delete_apps_ok:
  assumes "catalogue_law V L appIf" "quiet_env (\<lambda>w. (V w, L w)) git"
    and "\<And>ns sel. steady (\<lambda>w. (V w, L w)) (api_list (kube_Secrets kc) ns sel)"
    and run: "forM (\<lambda>app _. delete_related_app git appIf kc ns n app) apps () w = (Inr (), w')"
  shows "(\<forall>k \<in> app_name ` set apps. gone (L w') k) \<and> (\<forall>k. k \<notin> app_name ` set apps \<longrightarrow> L w' k = L w k)"
proof -
  let ?I = "\<lambda>done s w'. (\<forall>k \<in> app_name ` set done. gone (L w') k) \<and>
      (\<forall>k. k \<notin> app_name ` set done \<longrightarrow> L w' k = L w k)"
  have "?I ([] @ apps) () w'"
  proof (rule forM_ok_prefix [OF run, where I = ?I])
    fix ds app s w1 s' w2
    assume I: "?I ds s w1" and del: "delete_related_app git appIf kc ns n app w1 = (Inr s', w2)"
    have step: "\<And>k. k \<noteq> app_name app \<Longrightarrow> L w2 k = L w1 k" "gone (L w2) (app_name app)"
      using delete_related_app_ok [OF assms(1-3)] del by auto
    then have "gone (L w2) k" if "gone (L w1) k" for k
      using that by (cases "k = app_name app") (simp_all add: gone_def)
    with I step show "?I (ds @ [app]) s' w2" by auto
  qed simp
  then show ?thesis by simp
qed

lemma gen2_fields [simp]: "clu_BaseCluster (gen2_cluster_of app p) \<noteq> None"
  by (simp add: gen2_cluster_of_def plain_cluster_def Let_def)

lemma cluster_Delete_gen2:
  assumes laws: "catalogue_law V L appIf" "config_law V L config" "quiet_env (\<lambda>w. (V w, L w)) git"
    and n: "plain_label n" "no_external (V w) ns n"
    and own: "\<And>app d. L w n = Some (entry app d) \<Longrightarrow> mget (om_labels (app_meta app)) ''arlon-type'' = ''cluster-app''"
    and run: "must (cluster_Get appIf config ns n) (ErrorCtx ''failed to get existing cluster: '') (\<lambda>clust.
       if clu_IsExternal clust then k1 else if clu_BaseCluster clust = None then k2 else
         must (appIf_List appIf (''arlon-cluster='' @ n)) (ErrorCtx ''failed to list apps related to cluster: '') (\<lambda>apps.
         forM (\<lambda>app _. delete_related_app git appIf kc ns n app) apps ())) w = (Inr (), w')"
    and kc: "\<And>ns sel. steady (\<lambda>w. (V w, L w)) (api_list (kube_Secrets kc) ns sel)"
  shows "(\<forall>k \<in> listed (cluster_labels n) (L w). gone (L w') k) \<and>
    (\<forall>k. k \<notin> listed (cluster_labels n) (L w) \<longrightarrow> L w' k = L w k)"
proof -
  from run obtain c w1 where get: "cluster_Get appIf config ns n w = (Inr c, w1)"
    and rest: "(if clu_IsExternal c then k1 else if clu_BaseCluster c = None then k2 else
         must (appIf_List appIf (''arlon-cluster='' @ n)) (ErrorCtx ''failed to list apps related to cluster: '') (\<lambda>apps.
         forM (\<lambda>app _. delete_related_app git appIf kc ns n app) apps ())) w1 = (Inr (), w')"
    unfolding must_ok by blast
  from cluster_Get_app [OF laws(1,2) n(2) get] own obtain app p where "c = gen2_cluster_of app p" by blast
  then have "\<not> clu_IsExternal c" "clu_BaseCluster c \<noteq> None" by simp_all
  with rest obtain apps w2 where list: "appIf_List appIf (selector (cluster_labels n)) w1 = (Inr apps, w2)"
    and del: "forM (\<lambda>app _. delete_related_app git appIf kc ns n app) apps () w2 = (Inr (), w')"
    unfolding selectors by (simp only: if_False must_ok) blast
  have same1: "V w1 = V w \<and> L w1 = L w" by (rule steady_returned [OF steady_lookup [OF laws(1,2)] get])
  have same2: "V w2 = V w1 \<and> L w2 = L w1" by (rule steady_returned [OF catalogue_lawD(2) [OF laws(1)] list])
  show ?thesis
    using catalogue_lawD(4) [OF laws(1) plain_selectors(1) [OF n(1)] list] delete_apps_ok [OF laws(1,3) kc del] same1 same2
    by auto
qed

text \<open>C7: Deleting a cluster undoes creating it: after both commands every application that the first one created
  is gone or being deleted, the application of the profile included, and all others are untouched.\<close>

theorem create_then_delete:
  assumes laws: "create_laws V L env"
    and create: "cmd_create env fl w = (Inr (), w1)" "\<not> cf_outputYaml fl"
    and fresh: "plain_label (cf_clusterName fl)" "unlabelled (cf_clusterName fl) (L w)"
      "no_external (V w) (cf_argocdNs fl) (cf_clusterName fl)"
    and delete: "cmd_delete env (cf_argocdNs fl) (cf_clusterName fl) w1 = (Inr (), w2)"
  shows "(\<forall>k \<in> app_names_of fl. gone (L w2) k) \<and> (\<forall>k. k \<notin> app_names_of fl \<longrightarrow> L w2 k = L w k)"
proof -
  let ?n = "cf_clusterName fl"
  from cmd_create_ok [OF laws create] obtain url base prof where
    w1: "V w1 = V w" "L w1 = created_apps fl base url prof (L w)" "prof_named (cf_profileName fl) prof" by blast
  from delete obtain argoIf w3 config w4 kc w5 appIf w6 k1 k2 where
    a: "ce_NewArgocdClient env w1 = (Inr argoIf, w3)" and b: "ce_ClientConfig env w3 = (Inr config, w4)"
    and c: "rc_NewForConfig config w4 = (Inr kc, w5)" and d: "argo_NewApplicationClient argoIf w5 = (Inr appIf, w6)"
    and run: "must (cluster_Get appIf config (cf_argocdNs fl) ?n) (ErrorCtx ''failed to get existing cluster: '') (\<lambda>clust.
       if clu_IsExternal clust then k1 else if clu_BaseCluster clust = None then k2 else
         must (appIf_List appIf (''arlon-cluster='' @ ?n)) (ErrorCtx ''failed to list apps related to cluster: '') (\<lambda>apps.
         forM (\<lambda>app _. delete_related_app (ce_Git env) appIf kc (cf_argocdNs fl) ?n app) apps ())) w6 = (Inr (), w2)"
    unfolding cmd_delete_def with_argocd_def with_config_def cluster_Delete_def command_ok by blast
  have cat: "catalogue_law V L appIf" by (rule create_lawsD(8) [OF laws a d])
  have conf: "config_law V L config" by (rule create_lawsD(9) [OF laws b])
  have same: "V w6 = V w1 \<and> L w6 = L w1"
    using steady_returned [OF create_lawsD(5) [OF laws] a] steady_returned [OF create_lawsD(6) [OF laws] b]
      steady_returned [OF quiet_config_simps(1) [OF config_lawD(1) [OF conf]] c]
      steady_returned [OF create_lawsD(7) [OF laws a] d] by simp
  have own: "mget (om_labels (app_meta app)) ''arlon-type'' = ''cluster-app''"
    if "L w6 ?n = Some (entry app d)" for app d
  proof -
    have "om_labels (app_meta app) = om_labels (app_meta (cluster_application fl base url))"
      using that created_own_app [of fl base url prof "L w"] by (simp add: same w1(2) entry_def)
    then show ?thesis by (simp add: labels_created)
  qed
  have "no_external (V w6) (cf_argocdNs fl) ?n" using fresh(3) same w1(1) by simp
  from cluster_Delete_gen2 [OF cat conf create_lawsD(1) [OF laws] fresh(1) this own run
      quiet_config_simps(2) [OF config_lawD(1) [OF conf] returnsI [where m = "rc_NewForConfig config", OF c]]]
  have deleted: "(\<forall>k \<in> app_names_of fl. gone (L w2) k) \<and> (\<forall>k. k \<notin> app_names_of fl \<longrightarrow> L w2 k = L w1 k)"
    by (simp add: same w1(2) listed_created(1) [OF fresh(2) w1(3)])
  moreover have "L w1 k = L w k" if "k \<notin> app_names_of fl" for k
    using that w1(3) by (auto simp: w1(2) created_apps_def Let_def app_names_of_def prof_named_def split: option.splits if_splits)
  ultimately show ?thesis by simp
qed

section \<open>A concrete run\<close>

text \<open>A world of applications; listing them parses the selector.\<close>

record create_world =
  cw_apps :: "application list"

definition cw_view :: "create_world apps_view" where
  "cw_view w n = map_option (\<lambda>a. entry a False) (find (\<lambda>a. app_name a = n) (cw_apps w))"

abbreviation cw_secrets :: "create_world secrets_view" where
  "cw_secrets \<equiv> (\<lambda>w ns n. None)"

definition parse_selector :: "string \<Rightarrow> (string \<times> string) list" where
  "parse_selector q = map (\<lambda>p. case split_on (CHR ''='') p of [k, v] \<Rightarrow> (k, v) | _ \<Rightarrow> (p, ''''))
     (split_on (CHR '','') q)"

lemma parse_selector_selector:
  assumes "plain_selector kvs"
  shows "parse_selector (selector kvs) = kvs"
proof -
  have "split_on (CHR '','') (selector kvs) = map (\<lambda>(k, v). k @ ''='' @ v) kvs"
    unfolding selector_def using assms
    by (intro split_join) (auto simp: plain_selector_def plain_label_def)
  moreover have "split_on (CHR ''='') (k @ ''='' @ v) = [k, v]"
    if "(k, v) \<in> set kvs" for k v
    using assms that by (auto simp: plain_selector_def plain_label_def split_on_append_sep split_on_plain)
  ultimately show ?thesis
    by (auto simp: parse_selector_def intro!: map_idI)
qed

fun first_of_name :: "application list \<Rightarrow> application list" where
  "first_of_name [] = []"
| "first_of_name (a # as) = a # filter (\<lambda>b. app_name b \<noteq> app_name a) (first_of_name as)"

lemma first_of_name_iff: "a \<in> set (first_of_name xs) \<longleftrightarrow> find (\<lambda>b. app_name b = app_name a) xs = Some a"
  by (induction xs) auto

definition cw_appIf :: "create_world application_client" where
  "cw_appIf = \<lparr>
     appIf_Get = (\<lambda>n w. (case find (\<lambda>a. app_name a = n) (cw_apps w) of
        None \<Rightarrow> (Inl (Err (GrpcStatus grpc_NotFound n)), w) | Some a \<Rightarrow> (Inr a, w))),
     appIf_List = (\<lambda>q w. (Inr (filter (\<lambda>a. matches (parse_selector q) (om_labels (app_meta a)))
        (first_of_name (cw_apps w))), w)),
     appIf_Create = (\<lambda>a w. (Inr a, w\<lparr>cw_apps := a # cw_apps w\<rparr>)),
     appIf_Update = ret,
     appIf_Delete = (\<lambda>n b w. (Inr (), w\<lparr>cw_apps := filter (\<lambda>a. app_name a \<noteq> n) (cw_apps w)\<rparr>))\<rparr>"

lemma find_filter_name:
  "find (\<lambda>a. app_name a = k) (filter (\<lambda>a. app_name a \<noteq> n) xs) = (if k = n then None else find (\<lambda>a. app_name a = k) xs)"
  by (induction xs) auto

lemma cw_listed:
  "app_name ` {a \<in> set (first_of_name (cw_apps w)). matches kvs (om_labels (app_meta a))} = listed kvs (cw_view w)"
proof -
  have "k \<in> app_name ` {a \<in> set (first_of_name (cw_apps w)). matches kvs (om_labels (app_meta a))} \<longleftrightarrow>
      (\<exists>a. find (\<lambda>b. app_name b = k) (cw_apps w) = Some a \<and> matches kvs (om_labels (app_meta a)))" for k
  proof
    assume "k \<in> app_name ` {a \<in> set (first_of_name (cw_apps w)). matches kvs (om_labels (app_meta a))}"
    then show "\<exists>a. find (\<lambda>b. app_name b = k) (cw_apps w) = Some a \<and> matches kvs (om_labels (app_meta a))"
      by (auto simp: first_of_name_iff)
  next
    assume "\<exists>a. find (\<lambda>b. app_name b = k) (cw_apps w) = Some a \<and> matches kvs (om_labels (app_meta a))"
    then obtain a where a: "find (\<lambda>b. app_name b = k) (cw_apps w) = Some a" "matches kvs (om_labels (app_meta a))"
      by blast
    then have "app_name a = k" by (blast dest: find_Some_sat)
    with a show "k \<in> app_name ` {a \<in> set (first_of_name (cw_apps w)). matches kvs (om_labels (app_meta a))}"
      by (auto simp: first_of_name_iff)
  qed
  moreover have "k \<in> listed kvs (cw_view w) \<longleftrightarrow>
      (\<exists>a. find (\<lambda>b. app_name b = k) (cw_apps w) = Some a \<and> matches kvs (om_labels (app_meta a)))" for k
    by (auto simp: listed_def cw_view_def entry_def)
  ultimately show ?thesis by (simp only: set_eq_iff) simp
qed

lemma cw_catalogue: "catalogue_law cw_secrets cw_view cw_appIf"
proof -
  have steady: "steady (\<lambda>w. (cw_secrets w, cw_view w)) (appIf_Get cw_appIf n)"
    "steady (\<lambda>w. (cw_secrets w, cw_view w)) (appIf_List cw_appIf q)" for n q
    by (simp_all add: cw_appIf_def steady_def split: option.splits)
  have get: "app_name a = n \<and> (\<exists>d. cw_view w n = Some (entry a d))" if "appIf_Get cw_appIf n w = (Inr a, w')" for n w a w'
    using that by (auto simp: cw_appIf_def cw_view_def find_Some_iff split: option.splits)
  have list: "app_name ` set xs = listed kvs (cw_view w) \<and> (\<forall>a \<in> set xs. \<exists>d. cw_view w (app_name a) = Some (entry a d))"
    if "plain_selector kvs" "appIf_List cw_appIf (selector kvs) w = (Inr xs, w')" for kvs w xs w'
  proof -
    have xs: "set xs = {a \<in> set (first_of_name (cw_apps w)). matches kvs (om_labels (app_meta a))}"
      using that by (auto simp: cw_appIf_def parse_selector_selector)
    then have "\<exists>d. cw_view w (app_name a) = Some (entry a d)" if "a \<in> set xs" for a
      using that by (auto simp: cw_view_def first_of_name_iff)
    with xs show ?thesis by (simp add: cw_listed)
  qed
  have create: "cw_view w' = (cw_view w)(app_name a \<mapsto> entry a False)" if "appIf_Create cw_appIf a w = (Inr y, w')" for a w y w'
    using that by (auto simp: cw_appIf_def cw_view_def fun_eq_iff)
  have delete: "(\<forall>k. k \<noteq> n \<longrightarrow> cw_view w' k = cw_view w k) \<and> gone (cw_view w') n"
    if "appIf_Delete cw_appIf n b w = (Inr y, w')" for n b w y w'
    using that by (auto simp: cw_appIf_def cw_view_def find_filter_name gone_def)
  show ?thesis
    unfolding catalogue_law_def Let_def
    by (intro conjI allI impI; (rule steady refl | blast dest: get list create delete))
qed

definition cw_wt :: "create_world worktree" where
  "cw_wt = \<lparr>wt_Lstat = (\<lambda>_. failing), wt_Remove = (\<lambda>_. ret ()), wt_MkdirAll = (\<lambda>_. ret ()), wt_Create = (\<lambda>_. ret ()),
     wt_OpenTrunc = (\<lambda>_. ret ()), wt_Write = (\<lambda>_ _. ret ()), wt_Close = (\<lambda>_. ret ()),
     wt_ReadDir = (\<lambda>_. ret template_dir), wt_Status = ret [], wt_Add = (\<lambda>_. ret ()), wt_Commit = (\<lambda>_ _. ret ())\<rparr>"

definition cw_git :: "create_world git_env" where
  "cw_git = \<lparr>os_MkdirTemp = ret ''/tmp/arlon'', os_RemoveAll = (\<lambda>_. ret ()), os_Lstat = (\<lambda>_. ret False),
     os_Stat = (\<lambda>_. ret ()), os_IsNotExist = (\<lambda>_. False),
     git_PlainClone = (\<lambda>_ _. ret \<lparr>repo_Worktree = ret cw_wt, repo_Push = (\<lambda>_. ret ())\<rparr>)\<rparr>"

definition cw_repo_secret :: secret where
  "cw_repo_secret = \<lparr>secr_meta = named_meta ''repo'' ''argocd'', secr_data = mlit [(''url'', ''https://git/t'')]\<rparr>"

definition cw_profile :: "string \<Rightarrow> profile" where
  "cw_profile n = xw_profile\<lparr>prof_meta := named_meta n ''arlon''\<rparr>"

definition cw_config :: "create_world rest_config" where
  "cw_config = \<lparr>rc_NewForConfig = ret \<lparr>kube_ConfigMaps = empty_api, kube_Secrets = absent_api
       \<lparr>api_list := (\<lambda>_ q. ret (if q = external_selector then [] else [cw_repo_secret]))\<rparr>\<rparr>,
     rc_NewClient = ret \<lparr>cli_Profiles = absent_api\<lparr>api_get := (\<lambda>ns n. ret (cw_profile n))\<rparr>,
       cli_AppProfiles = absent_api, cli_ApplicationSets = absent_api, cli_Clusters = absent_api,
       cli_Secrets = absent_api\<rparr>\<rparr>"

definition cw_env :: "create_world cli_env" where
  "cw_env = \<lparr>ce_ClientConfig = ret cw_config, ce_Host = (\<lambda>_. ''https://host''),
     ce_Gitrepo = \<lparr>gr_DefaultConfigDir = failing, gr_Stat = (\<lambda>_. failing), gr_MkdirAll = (\<lambda>_. failing),
       gr_OpenFile = (\<lambda>_. failing), gr_Unmarshal = (\<lambda>_. Inr no_cfg), gr_MarshalIndent = (\<lambda>_. Inr ''''),
       gr_NewRepoClient = failing, gr_PromptPassword = failing\<rparr>,
     ce_Git = cw_git, ce_Templates = \<lparr>yaml_Marshal = (\<lambda>_. Inr ''''), parse_template = (\<lambda>_. Inr (Inr ''''))\<rparr>,
     ce_Tools = mem_tools (\<lambda>_. Inr [capi_cluster '''']),
     ce_NewArgocdClient = ret \<lparr>argo_NewApplicationClient = ret cw_appIf, argo_NewClusterClient = failing\<rparr>,
     ce_ReadFile = (\<lambda>_. failing), ce_AddToScheme = ret (), ce_EncodeApp = (\<lambda>_. ret ()), ce_EncodeAppSet = (\<lambda>_. ret ()),
     ce_Table = (\<lambda>_. ret ()), ce_Print = (\<lambda>_. ret ()), ce_ClusterContent = [], ce_ProfileContent = [],
     ce_AwsRegions = []\<rparr>"

definition cw_flags :: create_flags where
  "cw_flags = \<lparr>cf_argocdNs = ''argocd'', cf_arlonNs = ''arlon'', cf_arlonRepoUrl = ''https://git/arlon'',
     cf_arlonRepoRevision = ''main'', cf_arlonRepoPath = ''charts'', cf_patchRepoUrl = '''', cf_patchRepoPath = '''',
     cf_patchRepoRevision = '''', cf_clusterRepoUrl = ''https://git/t'', cf_repoAlias = '''',
     cf_clusterRepoRevision = ''main'', cf_clusterRepoPath = ''templates/a'', cf_clusterName = ''c1'',
     cf_overridesPath = '''', cf_outputYaml = False, cf_profileName = ''p1'', cf_gen2CASEnabled = False\<rparr>"

definition cw_start :: create_world where
  "cw_start = \<lparr>cw_apps = [constructClusterApp ''argocd'' ''other'' ''capi'' ''https://git/t'' ''main'' ''templates/a'' False]\<rparr>"

definition cw_created :: create_world where
  "cw_created = snd (cmd_create cw_env cw_flags cw_start)"

lemma cw_runs:
  "fst (cmd_create cw_env cw_flags cw_start) = Inr ()"
  "fst (cmd_delete cw_env ''argocd'' ''c1'' cw_created) = Inr ()"
  "case fst (cluster_Get cw_appIf cw_config ''argocd'' ''c1'' cw_created) of Inr c \<Rightarrow> True | Inl f \<Rightarrow> False"
  "map app_name (cw_apps cw_created) = [''c1-profile-p1'', ''c1'', ''c1-arlon'', ''other'']"
  by code_simp+

lemma cw_config_law: "config_law cw_secrets cw_view cw_config"
  by (auto simp: config_law_def Let_def quiet_config_def cw_config_def steady_ret steady_fail empty_api_def failing_def
      absent_api_def lawful_listing_def ret_def fail_def cw_profile_def named_meta_def steady_def returns_def)

lemma returns_fail [simp]: "\<not> returns (fail e) x"
  by (simp add: returns_def fail_ok)

lemma cw_git_quiet: "quiet_env v cw_git"
  by (simp add: quiet_env_def cw_git_def quiet_repository_def quiet_worktree_def cw_wt_def steady_ret failing_def
      steady_fail)

lemma cw_laws: "create_laws cw_secrets cw_view cw_env"
  using cw_config_law cw_catalogue
  by (simp add: create_laws_def Let_def cw_env_def quiet_files_def steady_ret steady_fail failing_def
      mem_tools_def steady_lift cw_git_quiet)

lemma cw_fresh: "plain_label ''c1''" "unlabelled ''c1'' (cw_view cw_start)" "no_external (cw_secrets cw_start) ns ''c1''"
  by (auto simp: plain_label_def unlabelled_def listed_def cw_view_def cw_start_def constructClusterApp_def entry_def
      cluster_labels_def matches_def mlit_def no_external_def)

lemma cw_create_run: "cmd_create cw_env cw_flags cw_start = (Inr (), cw_created)"
  using cw_runs(1) by (simp add: cw_created_def prod_eq_iff)

lemma cw_flags_simps [simp]:
  "cf_clusterName cw_flags = ''c1''" "cf_argocdNs cw_flags = ''argocd''" "cf_profileName cw_flags = ''p1''"
  "\<not> cf_outputYaml cw_flags" "cf_clusterRepoUrl cw_flags \<noteq> ''''"
  by (simp_all add: cw_flags_def)

theorem create_then_get_witness:
  "\<exists>c w. cluster_Get cw_appIf cw_config ''argocd'' ''c1'' cw_created = (Inr c, w) \<and>
     clu_Name c = ''c1'' \<and> clu_ProfileName c = ''p1''"
proof -
  obtain c w where get: "cluster_Get cw_appIf cw_config ''argocd'' ''c1'' cw_created = (Inr c, w)"
    using cw_runs(3) by (cases "cluster_Get cw_appIf cw_config ''argocd'' ''c1'' cw_created") (auto split: sum.splits)
  have "clu_Name c = cf_clusterName cw_flags \<and> clu_ProfileName c = cf_profileName cw_flags"
    using create_then_get [OF cw_laws cw_catalogue cw_config_law cw_create_run, of c w] cw_fresh get by simp
  with get show ?thesis by simp
qed

theorem create_then_delete_witness:
  "\<exists>w. cmd_delete cw_env ''argocd'' ''c1'' cw_created = (Inr (), w) \<and>
     gone (cw_view w) ''c1-profile-p1'' \<and> cw_view w ''other'' = cw_view cw_start ''other''"
proof -
  obtain w where del: "cmd_delete cw_env ''argocd'' ''c1'' cw_created = (Inr (), w)"
    using cw_runs(2) by (cases "cmd_delete cw_env ''argocd'' ''c1'' cw_created") auto
  have names: "''c1-profile-p1'' \<in> app_names_of cw_flags" "''other'' \<notin> app_names_of cw_flags"
    by (simp_all add: app_names_of_def profile_app_name_def arlonAppName_def)
  have "(\<forall>k \<in> app_names_of cw_flags. gone (cw_view w) k) \<and>
      (\<forall>k. k \<notin> app_names_of cw_flags \<longrightarrow> cw_view w k = cw_view cw_start k)"
    by (rule create_then_delete [OF cw_laws cw_create_run]) (use cw_fresh del in simp_all)
  with names del show ?thesis by blast
qed

end
