(* ===== verification/Deepcopy.thy ===== *)
theory Deepcopy
  imports Api
begin

text \<open>
  The deep copies of the resource types (\<open>api/v1/zz_generated.deepcopy.go\<close>) over an explicit memory, because
  what they promise is about sharing: the copy has the contents of the original and no memory in common with
  it. The other theories have values for resources and take a copy to be the value itself, which this theory
  justifies. The memory is a list of blocks, an address its index; new blocks go to the end. A pointer is an
  address or nil, a slice the part of a block that it shows, or nil. \<open>DeepCopyInto\<close> is a function from the
  struct at \<open>in\<close> and the memory to the struct at \<open>out\<close> and the memory. \<open>ObjectMeta\<close> and \<open>ListMeta\<close> are a
  library's types, with their own copy functions, blocks and law.
\<close>

section \<open>Memory\<close>

type_synonym addr = nat
type_synonym 'b memory = "'b list"
type_synonym pointer = "addr option"

text \<open>The block, where the slice begins in it, and the length.\<close>

type_synonym slice = "(addr \<times> nat \<times> nat) option"

definition alloc :: "'b \<Rightarrow> 'b memory \<Rightarrow> addr \<times> 'b memory" where
  "alloc b h = (length h, h @ [b])"

definition deref :: "('b \<Rightarrow> 'x option) \<Rightarrow> 'b memory \<Rightarrow> addr \<Rightarrow> 'x option" where
  "deref get h a = (if a < length h then get (h ! a) else None)"

definition view :: "('b \<Rightarrow> 'x list option) \<Rightarrow> 'b memory \<Rightarrow> addr \<times> nat \<times> nat \<Rightarrow> 'x list option" where
  "view get h = (\<lambda>(a, off, n). case deref get h a of
       None \<Rightarrow> None | Some xs \<Rightarrow> if off + n \<le> length xs then Some (take n (drop off xs)) else None)"

section \<open>The types in memory\<close>

text \<open>
  A struct with pointers is a record over what stands for its pointers: slices and addresses in memory, the
  lists and structs that they lead to in its contents. Structs without pointers are those of \<open>Api\<close>.
\<close>

record type_meta =
  tm_Kind :: string
  tm_APIVersion :: string

record 's app_profile_spec_at =
  apa_AppNames :: 's

record 's app_profile_status_at =
  apt_Health :: string
  apt_InvalidAppNames :: 's

record ('m, 's) app_profile_at =
  ap_at_TypeMeta :: type_meta
  ap_at_ObjectMeta :: 'm
  ap_at_Spec :: "'s app_profile_spec_at"
  ap_at_Status :: "'s app_profile_status_at"

record ('s, 'o) profile_spec_at =
  psa_Description :: string
  psa_Tags :: 's
  psa_Bundles :: 's
  psa_Overrides :: 'o
  psa_RepoUrl :: string
  psa_RepoPath :: string
  psa_RepoRevision :: string

record ('m, 's, 'o) profile_at =
  pr_at_TypeMeta :: type_meta
  pr_at_ObjectMeta :: 'm
  pr_at_Spec :: "('s, 'o) profile_spec_at"
  pr_at_Status :: string

record ('o, 'a, 'r) cluster_spec_at =
  csa_ClusterTemplate :: repo_spec
  csa_Override :: 'o
  csa_Autoscaler :: 'a
  csa_ArlonHelmChart :: 'r

record ('m, 'o, 'a, 'r) cluster_at =
  cl_at_TypeMeta :: type_meta
  cl_at_ObjectMeta :: 'm
  cl_at_Spec :: "('o, 'a, 'r) cluster_spec_at"
  cl_at_Status :: cluster_status

record 'm cluster_registration_at =
  cr_at_TypeMeta :: type_meta
  cr_at_ObjectMeta :: 'm
  cr_at_Spec :: cluster_registration_spec
  cr_at_Status :: state_message

record 'm call_home_config_at =
  ch_at_TypeMeta :: type_meta
  ch_at_ObjectMeta :: 'm
  ch_at_Spec :: call_home_config_spec
  ch_at_Status :: state_message

text \<open>\<open>AppProfileList\<close>, \<open>CallHomeConfigList\<close>, \<open>ClusterList\<close>, \<open>ClusterRegistrationList\<close>, \<open>ProfileList\<close>.\<close>

record ('l, 'i) list_at =
  li_at_TypeMeta :: type_meta
  li_at_ListMeta :: 'l
  li_at_Items :: 'i

type_synonym 'm mem_app_profile = "('m, slice) app_profile_at"
type_synonym 'm mem_profile = "('m, slice, slice) profile_at"
type_synonym 'm mem_cluster = "('m, pointer, pointer, pointer) cluster_at"
type_synonym 'l mem_list = "('l, slice) list_at"

text \<open>A block is a struct or an array that was allocated, zero at first; \<open>Foreign\<close> is the library's.\<close>

datatype (discs_sels) ('m, 'l, 'c) block = Zeroed
  | StringArray "string list" | OverrideArray "override list"
  | OverrideB override | OverrideSpecB override_spec | AutoscalerSpecB autoscaler_spec | RepoSpecB repo_spec
  | AppProfileSpecB "slice app_profile_spec_at" | AppProfileStatusB "slice app_profile_status_at"
  | ProfileSpecB "(slice, slice) profile_spec_at" | ProfileStatusB string
  | ClusterSpecB "(pointer, pointer, pointer) cluster_spec_at" | ClusterStatusB cluster_status
  | ClusterRegistrationSpecB cluster_registration_spec | ClusterRegistrationStatusB state_message
  | CallHomeConfigSpecB call_home_config_spec | CallHomeConfigStatusB state_message
  | AppProfileB "'m mem_app_profile" | AppProfileArray "'m mem_app_profile list" | AppProfileListB "'l mem_list"
  | ProfileB "'m mem_profile" | ProfileArray "'m mem_profile list" | ProfileListB "'l mem_list"
  | ClusterB "'m mem_cluster" | ClusterArray "'m mem_cluster list" | ClusterListB "'l mem_list"
  | ClusterRegistrationB "'m cluster_registration_at" | ClusterRegistrationArray "'m cluster_registration_at list"
  | ClusterRegistrationListB "'l mem_list"
  | CallHomeConfigB "'m call_home_config_at" | CallHomeConfigArray "'m call_home_config_at list"
  | CallHomeConfigListB "'l mem_list"
  | Foreign 'c


definition typed :: "('b \<Rightarrow> bool) \<Rightarrow> ('b \<Rightarrow> 'x) \<Rightarrow> 'b \<Rightarrow> 'x option" where
  "typed is_x un_x b = (if is_x b then Some (un_x b) else None)"

lemma typed_eq [simp]: "is_x b \<Longrightarrow> typed is_x un_x b = Some (un_x b)"
  by (simp add: typed_def)

section \<open>How the parts are copied\<close>

text \<open>
  \<open>if in.F != nil { *out = make([]T, len( *in)); copy( *out, *in) }\<close>. A pointer or slice that leads nowhere,
  which Go does not have, is left as it is.
\<close>

definition copy_slice :: "('x list \<Rightarrow> 'b) \<Rightarrow> ('b \<Rightarrow> 'x list option) \<Rightarrow> slice \<Rightarrow> 'b memory \<Rightarrow> slice \<times> 'b memory" where
  "copy_slice put get s h = (case s of None \<Rightarrow> (s, h)
     | Some sl \<Rightarrow> (case view get h sl of None \<Rightarrow> (s, h)
       | Some xs \<Rightarrow> (let (b, h1) = alloc (put xs) h in (Some (b, 0, length xs), h1))))"

text \<open>\<open>if in.F != nil { *out = new(T); **out = **in }\<close>.\<close>

definition copy_struct :: "('x \<Rightarrow> 'b) \<Rightarrow> ('b \<Rightarrow> 'x option) \<Rightarrow> pointer \<Rightarrow> 'b memory \<Rightarrow> pointer \<times> 'b memory" where
  "copy_struct put get p h = (case p of None \<Rightarrow> (p, h)
     | Some a \<Rightarrow> (case deref get h a of None \<Rightarrow> (p, h)
       | Some x \<Rightarrow> (let (b, h1) = alloc (put x) h in (Some b, h1))))"

text \<open>\<open>for i := range *in { ( *in)[i].DeepCopyInto(&( *out)[i]) }\<close>.\<close>

fun copy_each :: "('x \<Rightarrow> 'b memory \<Rightarrow> 'x \<times> 'b memory) \<Rightarrow> 'x list \<Rightarrow> 'b memory \<Rightarrow> 'x list \<times> 'b memory" where
  "copy_each into [] h = ([], h)"
| "copy_each into (x # xs) h =
     (let (y, h1) = into x h; (ys, h2) = copy_each into xs h1 in (y # ys, h2))"

definition copy_items :: "'b \<Rightarrow> ('x list \<Rightarrow> 'b) \<Rightarrow> ('b \<Rightarrow> 'x list option) \<Rightarrow>
    ('x \<Rightarrow> 'b memory \<Rightarrow> 'x \<times> 'b memory) \<Rightarrow> slice \<Rightarrow> 'b memory \<Rightarrow> slice \<times> 'b memory" where
  "copy_items zero put get into s h = (case s of None \<Rightarrow> (s, h)
     | Some sl \<Rightarrow> (case view get h sl of None \<Rightarrow> (s, h)
       | Some xs \<Rightarrow>
           (let (b, h1) = alloc zero h; (ys, h2) = copy_each into xs h1
            in (Some (b, 0, length xs), h2[b := put ys]))))"

text \<open>\<open>DeepCopy\<close>: nil for nil, otherwise a new struct that \<open>DeepCopyInto\<close> writes.\<close>

definition copy_new :: "'b \<Rightarrow> ('x \<Rightarrow> 'b) \<Rightarrow> ('b \<Rightarrow> 'x option) \<Rightarrow> ('x \<Rightarrow> 'b memory \<Rightarrow> 'x \<times> 'b memory) \<Rightarrow>
    pointer \<Rightarrow> 'b memory \<Rightarrow> pointer \<times> 'b memory" where
  "copy_new zero put get into p h = (case p of None \<Rightarrow> (None, h)
     | Some a \<Rightarrow> (case deref get h a of None \<Rightarrow> (p, h)
       | Some x \<Rightarrow> (let (b, h1) = alloc zero h; (out, h2) = into x h1 in (Some b, h2[b := put out]))))"

text \<open>\<open>DeepCopyObject\<close>: an interface that is nil when the copy is.\<close>

definition copy_object :: "(pointer \<Rightarrow> 'b memory \<Rightarrow> pointer \<times> 'b memory) \<Rightarrow> pointer \<Rightarrow> 'b memory \<Rightarrow> pointer \<times> 'b memory" where
  "copy_object DeepCopy p h = (let (c, h1) = DeepCopy p h in if c \<noteq> None then (c, h1) else (None, h1))"

text \<open>\<open>*out = *in\<close>, all there is to do for a struct without pointers.\<close>

definition copy_plain :: "'x \<Rightarrow> 'b memory \<Rightarrow> 'x \<times> 'b memory" where
  "copy_plain x h = (x, h)"

section \<open>The functions of each type\<close>

type_synonym ('m, 'l, 'c, 'x) copier = "'x \<Rightarrow> ('m, 'l, 'c) block memory \<Rightarrow> 'x \<times> ('m, 'l, 'c) block memory"

abbreviation copy_strings :: "('m, 'l, 'c, slice) copier" where
  "copy_strings \<equiv> copy_slice StringArray (typed is_StringArray un_StringArray)"

subsection \<open>Application profiles\<close>

definition AppProfileSpec_DeepCopyInto :: "('m, 'l, 'c, slice app_profile_spec_at) copier" where
  "AppProfileSpec_DeepCopyInto inn h =
     (let out = inn;
          (names, h1) = copy_strings (apa_AppNames inn) h
      in (out\<lparr>apa_AppNames := names\<rparr>, h1))"

definition AppProfileSpec_DeepCopy :: "('m, 'l, 'c, pointer) copier" where
  "AppProfileSpec_DeepCopy = copy_new Zeroed AppProfileSpecB (typed is_AppProfileSpecB un_AppProfileSpecB) AppProfileSpec_DeepCopyInto"

definition AppProfileStatus_DeepCopyInto :: "('m, 'l, 'c, slice app_profile_status_at) copier" where
  "AppProfileStatus_DeepCopyInto inn h =
     (let out = inn;
          (names, h1) = copy_strings (apt_InvalidAppNames inn) h
      in (out\<lparr>apt_InvalidAppNames := names\<rparr>, h1))"

definition AppProfileStatus_DeepCopy :: "('m, 'l, 'c, pointer) copier" where
  "AppProfileStatus_DeepCopy = copy_new Zeroed AppProfileStatusB (typed is_AppProfileStatusB un_AppProfileStatusB) AppProfileStatus_DeepCopyInto"

definition AppProfile_DeepCopyInto :: "('m, 'l, 'c, 'm) copier \<Rightarrow> ('m, 'l, 'c, 'm mem_app_profile) copier" where
  "AppProfile_DeepCopyInto ObjectMeta_DeepCopyInto inn h =
     (let out = inn;
          (om, h1) = ObjectMeta_DeepCopyInto (ap_at_ObjectMeta inn) h;
          (spec, h2) = AppProfileSpec_DeepCopyInto (ap_at_Spec inn) h1;
          (status, h3) = AppProfileStatus_DeepCopyInto (ap_at_Status inn) h2
      in (out\<lparr>ap_at_TypeMeta := ap_at_TypeMeta inn, ap_at_ObjectMeta := om, ap_at_Spec := spec, ap_at_Status := status\<rparr>, h3))"

definition AppProfile_DeepCopy :: "('m, 'l, 'c, 'm) copier \<Rightarrow> ('m, 'l, 'c, pointer) copier" where
  "AppProfile_DeepCopy om = copy_new Zeroed AppProfileB (typed is_AppProfileB un_AppProfileB) (AppProfile_DeepCopyInto om)"

definition AppProfile_DeepCopyObject :: "('m, 'l, 'c, 'm) copier \<Rightarrow> ('m, 'l, 'c, pointer) copier" where
  "AppProfile_DeepCopyObject om = copy_object (AppProfile_DeepCopy om)"

text \<open>The five types of lists differ in the blocks of their items.\<close>

definition list_into :: "('m, 'l, 'c, 'l) copier \<Rightarrow> ('m, 'l, 'c, slice) copier \<Rightarrow> ('m, 'l, 'c, 'l mem_list) copier" where
  "list_into ListMeta_DeepCopyInto items inn h =
     (let out = inn;
          (lm, h1) = ListMeta_DeepCopyInto (li_at_ListMeta inn) h;
          (is, h2) = items (li_at_Items inn) h1
      in (out\<lparr>li_at_TypeMeta := li_at_TypeMeta inn, li_at_ListMeta := lm, li_at_Items := is\<rparr>, h2))"

definition AppProfileList_DeepCopyInto ::
  "('m, 'l, 'c, 'm) copier \<Rightarrow> ('m, 'l, 'c, 'l) copier \<Rightarrow> ('m, 'l, 'c, 'l mem_list) copier" where
  "AppProfileList_DeepCopyInto om lm = list_into lm
     (copy_items Zeroed AppProfileArray (typed is_AppProfileArray un_AppProfileArray) (AppProfile_DeepCopyInto om))"

definition AppProfileList_DeepCopy :: "('m, 'l, 'c, 'm) copier \<Rightarrow> ('m, 'l, 'c, 'l) copier \<Rightarrow> ('m, 'l, 'c, pointer) copier" where
  "AppProfileList_DeepCopy om lm =
     copy_new Zeroed AppProfileListB (typed is_AppProfileListB un_AppProfileListB) (AppProfileList_DeepCopyInto om lm)"

definition AppProfileList_DeepCopyObject :: "('m, 'l, 'c, 'm) copier \<Rightarrow> ('m, 'l, 'c, 'l) copier \<Rightarrow> ('m, 'l, 'c, pointer) copier" where
  "AppProfileList_DeepCopyObject om lm = copy_object (AppProfileList_DeepCopy om lm)"


subsection \<open>Profiles\<close>

definition Override_DeepCopyInto :: "('m, 'l, 'c, override) copier" where
  "Override_DeepCopyInto = copy_plain"

definition Override_DeepCopy :: "('m, 'l, 'c, pointer) copier" where
  "Override_DeepCopy = copy_new Zeroed OverrideB (typed is_OverrideB un_OverrideB) Override_DeepCopyInto"

abbreviation copy_overrides :: "('m, 'l, 'c, slice) copier" where
  "copy_overrides \<equiv> copy_slice OverrideArray (typed is_OverrideArray un_OverrideArray)"

definition ProfileSpec_DeepCopyInto :: "('m, 'l, 'c, (slice, slice) profile_spec_at) copier" where
  "ProfileSpec_DeepCopyInto inn h =
     (let out = inn;
          (tags, h1) = copy_strings (psa_Tags inn) h; out = out\<lparr>psa_Tags := tags\<rparr>;
          (bundles, h2) = copy_strings (psa_Bundles inn) h1; out = out\<lparr>psa_Bundles := bundles\<rparr>;
          (overrides, h3) = copy_overrides (psa_Overrides inn) h2; out = out\<lparr>psa_Overrides := overrides\<rparr>
      in (out, h3))"

definition ProfileSpec_DeepCopy :: "('m, 'l, 'c, pointer) copier" where
  "ProfileSpec_DeepCopy = copy_new Zeroed ProfileSpecB (typed is_ProfileSpecB un_ProfileSpecB) ProfileSpec_DeepCopyInto"

definition ProfileStatus_DeepCopyInto :: "('m, 'l, 'c, string) copier" where
  "ProfileStatus_DeepCopyInto = copy_plain"

definition ProfileStatus_DeepCopy :: "('m, 'l, 'c, pointer) copier" where
  "ProfileStatus_DeepCopy = copy_new Zeroed ProfileStatusB (typed is_ProfileStatusB un_ProfileStatusB) ProfileStatus_DeepCopyInto"

definition Profile_DeepCopyInto :: "('m, 'l, 'c, 'm) copier \<Rightarrow> ('m, 'l, 'c, 'm mem_profile) copier" where
  "Profile_DeepCopyInto ObjectMeta_DeepCopyInto inn h =
     (let out = inn;
          (om, h1) = ObjectMeta_DeepCopyInto (pr_at_ObjectMeta inn) h;
          (spec, h2) = ProfileSpec_DeepCopyInto (pr_at_Spec inn) h1
      in (out\<lparr>pr_at_TypeMeta := pr_at_TypeMeta inn, pr_at_ObjectMeta := om, pr_at_Spec := spec,
            pr_at_Status := pr_at_Status inn\<rparr>, h2))"

definition Profile_DeepCopy :: "('m, 'l, 'c, 'm) copier \<Rightarrow> ('m, 'l, 'c, pointer) copier" where
  "Profile_DeepCopy om = copy_new Zeroed ProfileB (typed is_ProfileB un_ProfileB) (Profile_DeepCopyInto om)"

definition Profile_DeepCopyObject :: "('m, 'l, 'c, 'm) copier \<Rightarrow> ('m, 'l, 'c, pointer) copier" where
  "Profile_DeepCopyObject om = copy_object (Profile_DeepCopy om)"

definition ProfileList_DeepCopyInto ::
  "('m, 'l, 'c, 'm) copier \<Rightarrow> ('m, 'l, 'c, 'l) copier \<Rightarrow> ('m, 'l, 'c, 'l mem_list) copier" where
  "ProfileList_DeepCopyInto om lm = list_into lm
     (copy_items Zeroed ProfileArray (typed is_ProfileArray un_ProfileArray) (Profile_DeepCopyInto om))"

definition ProfileList_DeepCopy :: "('m, 'l, 'c, 'm) copier \<Rightarrow> ('m, 'l, 'c, 'l) copier \<Rightarrow> ('m, 'l, 'c, pointer) copier" where
  "ProfileList_DeepCopy om lm =
     copy_new Zeroed ProfileListB (typed is_ProfileListB un_ProfileListB) (ProfileList_DeepCopyInto om lm)"

definition ProfileList_DeepCopyObject :: "('m, 'l, 'c, 'm) copier \<Rightarrow> ('m, 'l, 'c, 'l) copier \<Rightarrow> ('m, 'l, 'c, pointer) copier" where
  "ProfileList_DeepCopyObject om lm = copy_object (ProfileList_DeepCopy om lm)"

subsection \<open>Clusters\<close>

definition RepoSpec_DeepCopyInto :: "('m, 'l, 'c, repo_spec) copier" where
  "RepoSpec_DeepCopyInto = copy_plain"

definition RepoSpec_DeepCopy :: "('m, 'l, 'c, pointer) copier" where
  "RepoSpec_DeepCopy = copy_new Zeroed RepoSpecB (typed is_RepoSpecB un_RepoSpecB) RepoSpec_DeepCopyInto"

definition AutoscalerSpec_DeepCopyInto :: "('m, 'l, 'c, autoscaler_spec) copier" where
  "AutoscalerSpec_DeepCopyInto = copy_plain"

definition AutoscalerSpec_DeepCopy :: "('m, 'l, 'c, pointer) copier" where
  "AutoscalerSpec_DeepCopy = copy_new Zeroed AutoscalerSpecB (typed is_AutoscalerSpecB un_AutoscalerSpecB) AutoscalerSpec_DeepCopyInto"

definition OverrideSpec_DeepCopyInto :: "('m, 'l, 'c, override_spec) copier" where
  "OverrideSpec_DeepCopyInto inn h = (let out = inn in (out\<lparr>os_Repo := os_Repo inn\<rparr>, h))"

definition OverrideSpec_DeepCopy :: "('m, 'l, 'c, pointer) copier" where
  "OverrideSpec_DeepCopy = copy_new Zeroed OverrideSpecB (typed is_OverrideSpecB un_OverrideSpecB) OverrideSpec_DeepCopyInto"

definition ClusterSpec_DeepCopyInto :: "('m, 'l, 'c, (pointer, pointer, pointer) cluster_spec_at) copier" where
  "ClusterSpec_DeepCopyInto inn h =
     (let out = inn\<lparr>csa_ClusterTemplate := csa_ClusterTemplate inn\<rparr>;
          (ov, h1) = copy_struct OverrideSpecB (typed is_OverrideSpecB un_OverrideSpecB) (csa_Override inn) h;
          out = out\<lparr>csa_Override := ov\<rparr>;
          (as, h2) = copy_struct AutoscalerSpecB (typed is_AutoscalerSpecB un_AutoscalerSpecB) (csa_Autoscaler inn) h1;
          out = out\<lparr>csa_Autoscaler := as\<rparr>;
          (chart, h3) = copy_struct RepoSpecB (typed is_RepoSpecB un_RepoSpecB) (csa_ArlonHelmChart inn) h2;
          out = out\<lparr>csa_ArlonHelmChart := chart\<rparr>
      in (out, h3))"

definition ClusterSpec_DeepCopy :: "('m, 'l, 'c, pointer) copier" where
  "ClusterSpec_DeepCopy = copy_new Zeroed ClusterSpecB (typed is_ClusterSpecB un_ClusterSpecB) ClusterSpec_DeepCopyInto"

definition ClusterStatus_DeepCopyInto :: "('m, 'l, 'c, cluster_status) copier" where
  "ClusterStatus_DeepCopyInto = copy_plain"

definition ClusterStatus_DeepCopy :: "('m, 'l, 'c, pointer) copier" where
  "ClusterStatus_DeepCopy = copy_new Zeroed ClusterStatusB (typed is_ClusterStatusB un_ClusterStatusB) ClusterStatus_DeepCopyInto"

definition Cluster_DeepCopyInto :: "('m, 'l, 'c, 'm) copier \<Rightarrow> ('m, 'l, 'c, 'm mem_cluster) copier" where
  "Cluster_DeepCopyInto ObjectMeta_DeepCopyInto inn h =
     (let out = inn;
          (om, h1) = ObjectMeta_DeepCopyInto (cl_at_ObjectMeta inn) h;
          (spec, h2) = ClusterSpec_DeepCopyInto (cl_at_Spec inn) h1
      in (out\<lparr>cl_at_TypeMeta := cl_at_TypeMeta inn, cl_at_ObjectMeta := om, cl_at_Spec := spec,
            cl_at_Status := cl_at_Status inn\<rparr>, h2))"

definition Cluster_DeepCopy :: "('m, 'l, 'c, 'm) copier \<Rightarrow> ('m, 'l, 'c, pointer) copier" where
  "Cluster_DeepCopy om = copy_new Zeroed ClusterB (typed is_ClusterB un_ClusterB) (Cluster_DeepCopyInto om)"

definition Cluster_DeepCopyObject :: "('m, 'l, 'c, 'm) copier \<Rightarrow> ('m, 'l, 'c, pointer) copier" where
  "Cluster_DeepCopyObject om = copy_object (Cluster_DeepCopy om)"

definition ClusterList_DeepCopyInto ::
  "('m, 'l, 'c, 'm) copier \<Rightarrow> ('m, 'l, 'c, 'l) copier \<Rightarrow> ('m, 'l, 'c, 'l mem_list) copier" where
  "ClusterList_DeepCopyInto om lm = list_into lm
     (copy_items Zeroed ClusterArray (typed is_ClusterArray un_ClusterArray) (Cluster_DeepCopyInto om))"

definition ClusterList_DeepCopy :: "('m, 'l, 'c, 'm) copier \<Rightarrow> ('m, 'l, 'c, 'l) copier \<Rightarrow> ('m, 'l, 'c, pointer) copier" where
  "ClusterList_DeepCopy om lm =
     copy_new Zeroed ClusterListB (typed is_ClusterListB un_ClusterListB) (ClusterList_DeepCopyInto om lm)"

definition ClusterList_DeepCopyObject :: "('m, 'l, 'c, 'm) copier \<Rightarrow> ('m, 'l, 'c, 'l) copier \<Rightarrow> ('m, 'l, 'c, pointer) copier" where
  "ClusterList_DeepCopyObject om lm = copy_object (ClusterList_DeepCopy om lm)"

subsection \<open>Registrations and call-home configurations\<close>

definition ClusterRegistrationSpec_DeepCopyInto :: "('m, 'l, 'c, cluster_registration_spec) copier" where
  "ClusterRegistrationSpec_DeepCopyInto = copy_plain"

definition ClusterRegistrationSpec_DeepCopy :: "('m, 'l, 'c, pointer) copier" where
  "ClusterRegistrationSpec_DeepCopy = copy_new Zeroed ClusterRegistrationSpecB (typed is_ClusterRegistrationSpecB un_ClusterRegistrationSpecB) ClusterRegistrationSpec_DeepCopyInto"

definition ClusterRegistrationStatus_DeepCopyInto :: "('m, 'l, 'c, state_message) copier" where
  "ClusterRegistrationStatus_DeepCopyInto = copy_plain"

definition ClusterRegistrationStatus_DeepCopy :: "('m, 'l, 'c, pointer) copier" where
  "ClusterRegistrationStatus_DeepCopy = copy_new Zeroed ClusterRegistrationStatusB (typed is_ClusterRegistrationStatusB un_ClusterRegistrationStatusB) ClusterRegistrationStatus_DeepCopyInto"

definition ClusterRegistration_DeepCopyInto :: "('m, 'l, 'c, 'm) copier \<Rightarrow> ('m, 'l, 'c, 'm cluster_registration_at) copier" where
  "ClusterRegistration_DeepCopyInto ObjectMeta_DeepCopyInto inn h =
     (let out = inn;
          (om, h1) = ObjectMeta_DeepCopyInto (cr_at_ObjectMeta inn) h
      in (out\<lparr>cr_at_TypeMeta := cr_at_TypeMeta inn, cr_at_ObjectMeta := om, cr_at_Spec := cr_at_Spec inn,
            cr_at_Status := cr_at_Status inn\<rparr>, h1))"

definition ClusterRegistration_DeepCopy :: "('m, 'l, 'c, 'm) copier \<Rightarrow> ('m, 'l, 'c, pointer) copier" where
  "ClusterRegistration_DeepCopy om = copy_new Zeroed ClusterRegistrationB (typed is_ClusterRegistrationB un_ClusterRegistrationB) (ClusterRegistration_DeepCopyInto om)"

definition ClusterRegistration_DeepCopyObject :: "('m, 'l, 'c, 'm) copier \<Rightarrow> ('m, 'l, 'c, pointer) copier" where
  "ClusterRegistration_DeepCopyObject om = copy_object (ClusterRegistration_DeepCopy om)"

definition ClusterRegistrationList_DeepCopyInto ::
  "('m, 'l, 'c, 'm) copier \<Rightarrow> ('m, 'l, 'c, 'l) copier \<Rightarrow> ('m, 'l, 'c, 'l mem_list) copier" where
  "ClusterRegistrationList_DeepCopyInto om lm = list_into lm
     (copy_items Zeroed ClusterRegistrationArray (typed is_ClusterRegistrationArray un_ClusterRegistrationArray) (ClusterRegistration_DeepCopyInto om))"

definition ClusterRegistrationList_DeepCopy :: "('m, 'l, 'c, 'm) copier \<Rightarrow> ('m, 'l, 'c, 'l) copier \<Rightarrow> ('m, 'l, 'c, pointer) copier" where
  "ClusterRegistrationList_DeepCopy om lm =
     copy_new Zeroed ClusterRegistrationListB (typed is_ClusterRegistrationListB un_ClusterRegistrationListB) (ClusterRegistrationList_DeepCopyInto om lm)"

definition ClusterRegistrationList_DeepCopyObject :: "('m, 'l, 'c, 'm) copier \<Rightarrow> ('m, 'l, 'c, 'l) copier \<Rightarrow> ('m, 'l, 'c, pointer) copier" where
  "ClusterRegistrationList_DeepCopyObject om lm = copy_object (ClusterRegistrationList_DeepCopy om lm)"

definition CallHomeConfigSpec_DeepCopyInto :: "('m, 'l, 'c, call_home_config_spec) copier" where
  "CallHomeConfigSpec_DeepCopyInto = copy_plain"

definition CallHomeConfigSpec_DeepCopy :: "('m, 'l, 'c, pointer) copier" where
  "CallHomeConfigSpec_DeepCopy = copy_new Zeroed CallHomeConfigSpecB (typed is_CallHomeConfigSpecB un_CallHomeConfigSpecB) CallHomeConfigSpec_DeepCopyInto"

definition CallHomeConfigStatus_DeepCopyInto :: "('m, 'l, 'c, state_message) copier" where
  "CallHomeConfigStatus_DeepCopyInto = copy_plain"

definition CallHomeConfigStatus_DeepCopy :: "('m, 'l, 'c, pointer) copier" where
  "CallHomeConfigStatus_DeepCopy = copy_new Zeroed CallHomeConfigStatusB (typed is_CallHomeConfigStatusB un_CallHomeConfigStatusB) CallHomeConfigStatus_DeepCopyInto"

definition CallHomeConfig_DeepCopyInto :: "('m, 'l, 'c, 'm) copier \<Rightarrow> ('m, 'l, 'c, 'm call_home_config_at) copier" where
  "CallHomeConfig_DeepCopyInto ObjectMeta_DeepCopyInto inn h =
     (let out = inn;
          (om, h1) = ObjectMeta_DeepCopyInto (ch_at_ObjectMeta inn) h
      in (out\<lparr>ch_at_TypeMeta := ch_at_TypeMeta inn, ch_at_ObjectMeta := om, ch_at_Spec := ch_at_Spec inn,
            ch_at_Status := ch_at_Status inn\<rparr>, h1))"

definition CallHomeConfig_DeepCopy :: "('m, 'l, 'c, 'm) copier \<Rightarrow> ('m, 'l, 'c, pointer) copier" where
  "CallHomeConfig_DeepCopy om = copy_new Zeroed CallHomeConfigB (typed is_CallHomeConfigB un_CallHomeConfigB) (CallHomeConfig_DeepCopyInto om)"

definition CallHomeConfig_DeepCopyObject :: "('m, 'l, 'c, 'm) copier \<Rightarrow> ('m, 'l, 'c, pointer) copier" where
  "CallHomeConfig_DeepCopyObject om = copy_object (CallHomeConfig_DeepCopy om)"

definition CallHomeConfigList_DeepCopyInto ::
  "('m, 'l, 'c, 'm) copier \<Rightarrow> ('m, 'l, 'c, 'l) copier \<Rightarrow> ('m, 'l, 'c, 'l mem_list) copier" where
  "CallHomeConfigList_DeepCopyInto om lm = list_into lm
     (copy_items Zeroed CallHomeConfigArray (typed is_CallHomeConfigArray un_CallHomeConfigArray) (CallHomeConfig_DeepCopyInto om))"

definition CallHomeConfigList_DeepCopy :: "('m, 'l, 'c, 'm) copier \<Rightarrow> ('m, 'l, 'c, 'l) copier \<Rightarrow> ('m, 'l, 'c, pointer) copier" where
  "CallHomeConfigList_DeepCopy om lm =
     copy_new Zeroed CallHomeConfigListB (typed is_CallHomeConfigListB un_CallHomeConfigListB) (CallHomeConfigList_DeepCopyInto om lm)"

definition CallHomeConfigList_DeepCopyObject :: "('m, 'l, 'c, 'm) copier \<Rightarrow> ('m, 'l, 'c, 'l) copier \<Rightarrow> ('m, 'l, 'c, pointer) copier" where
  "CallHomeConfigList_DeepCopyObject om lm = copy_object (CallHomeConfigList_DeepCopy om lm)"

end
