(* ===== verification/Deepcopy_Correct.thy ===== *)
theory Deepcopy_Correct
  imports Deepcopy
begin

text \<open>
  What the deep copies promise. \<open>contents h s\<close> is what a struct, slice or pointer \<open>s\<close> stands for in the memory
  \<open>h\<close> and the set of blocks it leads to, or \<open>None\<close> if it leads out of the memory. The locale \<open>deep_copy\<close> is the
  contract of a copy function; it is interpreted on the functions of all types whose structs have only blocks
  of their own, and is a lemma over the contract of \<open>ObjectMeta\<close> and \<open>ListMeta\<close> for the others.
\<close>

section \<open>The contract\<close>

definition agree :: "addr set \<Rightarrow> 'b memory \<Rightarrow> 'b memory \<Rightarrow> bool" where
  "agree A h h' \<longleftrightarrow> (\<forall>a \<in> A. a < length h' \<and> h' ! a = h ! a)"

text \<open>A later memory in which, of the blocks there were, at most those of \<open>W\<close> have been written.\<close>

definition writes :: "addr set \<Rightarrow> 'b memory \<Rightarrow> 'b memory \<Rightarrow> bool" where
  "writes W h h' \<longleftrightarrow> length h \<le> length h' \<and> (\<forall>a < length h. a \<notin> W \<longrightarrow> h' ! a = h ! a)"

lemma agree_append: "A \<subseteq> {..<length h} \<Longrightarrow> agree A h (h @ new)"
  by (auto simp: agree_def nth_append)

lemma agree_subset: "agree B h h' \<Longrightarrow> A \<subseteq> B \<Longrightarrow> agree A h h'"
  by (auto simp: agree_def)

lemma agree_update: "a \<notin> A \<Longrightarrow> A \<subseteq> {..<length h} \<Longrightarrow> agree A h (h[a := b])"
  by (auto simp: agree_def) (metis nth_list_update_neq)

locale deep_copy =
  fixes contents :: "'b memory \<Rightarrow> 's \<Rightarrow> ('v \<times> addr set) option"
    and copy :: "'s \<Rightarrow> 'b memory \<Rightarrow> 's \<times> 'b memory"
  assumes bounded: "contents h s = Some (v, A) \<Longrightarrow> A \<subseteq> {..<length h}"
    and frame: "contents h s = Some (v, A) \<Longrightarrow> agree A h h' \<Longrightarrow> contents h' s = Some (v, A)"
    and fresh: "contents h s = Some (v, A) \<Longrightarrow> copy s h = (s', h') \<Longrightarrow>
      \<exists>new A'. h' = h @ new \<and> contents h' s' = Some (v, A') \<and> A' \<subseteq> {length h..}"
begin

lemma extended: "contents h s = Some (v, A) \<Longrightarrow> contents (h @ new) s = Some (v, A)"
  by (rule frame, assumption) (rule agree_append, rule bounded)

text \<open>One step of a function that has copied other parts before.\<close>

lemma step:
  assumes "contents h s = Some (v, A)" "copy s (h @ new) = (s', h')"
  obtains new' A' where "h' = h @ new @ new'" "contents h' s' = Some (v, A')" "A' \<subseteq> {length (h @ new)..}"
proof -
  from fresh [OF extended [OF assms(1)] assms(2)]
  obtain new' A' where n: "h' = (h @ new) @ new'" "contents h' s' = Some (v, A')" "A' \<subseteq> {length (h @ new)..}"
    by blast
  then show thesis by (intro that) simp_all
qed

end

section \<open>The contents of the parts\<close>

definition plain_contents :: "'b memory \<Rightarrow> 'x \<Rightarrow> ('x \<times> addr set) option" where
  "plain_contents h x = Some (x, {})"

definition pair_contents where
  "pair_contents c1 c2 h = (\<lambda>(x, y). case c1 h x of None \<Rightarrow> None
     | Some (v, A) \<Rightarrow> (case c2 h y of None \<Rightarrow> None | Some (w, B) \<Rightarrow> Some ((v, w), A \<union> B)))"

definition slice_contents :: "('b \<Rightarrow> 'x list option) \<Rightarrow> 'b memory \<Rightarrow> slice \<Rightarrow> ('x list option \<times> addr set) option" where
  "slice_contents get h s = (case s of None \<Rightarrow> Some (None, {})
     | Some sl \<Rightarrow> (case view get h sl of None \<Rightarrow> None | Some xs \<Rightarrow> Some (Some xs, {fst sl})))"

definition pointer_contents where
  "pointer_contents get c h p = (case p of None \<Rightarrow> Some (None, {})
     | Some a \<Rightarrow> (case deref get h a of None \<Rightarrow> None
       | Some x \<Rightarrow> (case c h x of None \<Rightarrow> None | Some (v, A) \<Rightarrow> Some (Some v, insert a A))))"

fun each_contents :: "('b memory \<Rightarrow> 'x \<Rightarrow> ('v \<times> addr set) option) \<Rightarrow> 'b memory \<Rightarrow> 'x list \<Rightarrow> ('v list \<times> addr set) option" where
  "each_contents c h [] = Some ([], {})"
| "each_contents c h (x # xs) = (case c h x of None \<Rightarrow> None
     | Some (v, A) \<Rightarrow> (case each_contents c h xs of None \<Rightarrow> None | Some (vs, B) \<Rightarrow> Some (v # vs, A \<union> B)))"

definition items_contents where
  "items_contents get c h s = (case s of None \<Rightarrow> Some (None, {})
     | Some sl \<Rightarrow> (case view get h sl of None \<Rightarrow> None
       | Some xs \<Rightarrow> (case each_contents c h xs of None \<Rightarrow> None | Some (vs, A) \<Rightarrow> Some (Some vs, insert (fst sl) A))))"

lemma deref_Some: "deref get h a = Some x \<longleftrightarrow> a < length h \<and> get (h ! a) = Some x"
  by (simp add: deref_def)

lemma deref_new [simp]: "deref get (h @ [b]) (length h) = get b"
  by (simp add: deref_def)

lemma deref_agree: "deref get h a = Some x \<Longrightarrow> a \<in> A \<Longrightarrow> agree A h h' \<Longrightarrow> deref get h' a = Some x"
  by (auto simp: deref_def agree_def split: if_splits)

lemma view_Some: "view get h sl = Some xs \<longleftrightarrow> (\<exists>a off n ys. sl = (a, off, n) \<and> deref get h a = Some ys
    \<and> off + n \<le> length ys \<and> xs = take n (drop off ys))"
  by (cases sl) (auto simp: view_def split: option.splits)

lemma view_agree: "view get h sl = Some xs \<Longrightarrow> fst sl \<in> A \<Longrightarrow> agree A h h' \<Longrightarrow> view get h' sl = Some xs"
  unfolding view_Some by (elim exE conjE) (auto dest: deref_agree)

lemma view_bounded: "view get h sl = Some xs \<Longrightarrow> fst sl < length h"
  by (auto simp: view_Some deref_Some)

lemma view_whole: "deref get h a = Some xs \<Longrightarrow> view get h (a, 0, length xs) = Some xs"
  by (simp add: view_def)

lemma pair_contents_Some: "pair_contents c1 c2 h p = Some (v, A) \<longleftrightarrow>
    (\<exists>x y w1 w2 A1 A2. p = (x, y) \<and> c1 h x = Some (w1, A1) \<and> c2 h y = Some (w2, A2) \<and> v = (w1, w2) \<and> A = A1 \<union> A2)"
  by (cases p) (auto simp: pair_contents_def split: option.splits)

lemma slice_contents_Some: "slice_contents get h s = Some (v, A) \<longleftrightarrow> s = None \<and> v = None \<and> A = {}
    \<or> (\<exists>sl xs. s = Some sl \<and> view get h sl = Some xs \<and> v = Some xs \<and> A = {fst sl})"
  by (auto simp: slice_contents_def split: option.splits)

lemma pointer_contents_Some: "pointer_contents get c h p = Some (v, A) \<longleftrightarrow> p = None \<and> v = None \<and> A = {}
    \<or> (\<exists>a x w B. p = Some a \<and> deref get h a = Some x \<and> c h x = Some (w, B) \<and> v = Some w \<and> A = insert a B)"
  by (auto simp: pointer_contents_def split: option.splits)

lemma items_contents_Some: "items_contents get c h s = Some (v, A) \<longleftrightarrow> s = None \<and> v = None \<and> A = {}
    \<or> (\<exists>sl xs ws B. s = Some sl \<and> view get h sl = Some xs \<and> each_contents c h xs = Some (ws, B) \<and> v = Some ws
         \<and> A = insert (fst sl) B)"
  by (auto simp: items_contents_def split: option.splits)

lemma each_contents_Cons: "each_contents c h (x # xs) = Some (vs, A) \<longleftrightarrow>
    (\<exists>w ws B1 B2. c h x = Some (w, B1) \<and> each_contents c h xs = Some (ws, B2) \<and> vs = w # ws \<and> A = B1 \<union> B2)"
  by (auto split: option.splits)

section \<open>The contract of the parts\<close>

interpretation plain: deep_copy plain_contents copy_plain
  by unfold_locales (auto simp: plain_contents_def copy_plain_def)

text \<open>A new block that is filled after what it leads to was copied: what came before it and between stays.\<close>

lemma fill_new_block:
  assumes "h2 = (h @ [zero]) @ new"
  shows "h2[length h := b] = h @ [b] @ new" "deref get (h2[length h := b]) (length h) = get b"
    "A \<subseteq> {length (h @ [zero])..} \<Longrightarrow> A \<subseteq> {..<length h2} \<Longrightarrow> agree A h2 (h2[length h := b])"
proof -
  show eq: "h2[length h := b] = h @ [b] @ new" unfolding assms by (simp add: list_update_append)
  show "deref get (h2[length h := b]) (length h) = get b" unfolding eq by (simp add: deref_def)
qed (auto intro: agree_update)

lemma deep_slice:
  assumes "\<And>xs. get (put xs) = Some xs"
  shows "deep_copy (slice_contents get) (copy_slice put get)"
proof
  fix h :: "'b list" and s v A
  assume c: "slice_contents get h s = Some (v, A)"
  then show "A \<subseteq> {..<length h}" by (auto simp: slice_contents_Some dest!: view_bounded)
  show "slice_contents get h' s = Some (v, A)" if "agree A h h'" for h'
  proof (cases s)
    case (Some sl)
    with c obtain xs where xs: "view get h sl = Some xs" "v = Some xs" "A = {fst sl}" by (auto simp: slice_contents_Some)
    then have "view get h' sl = Some xs" by (intro view_agree [OF xs(1) _ that]) simp
    with Some xs show ?thesis by (simp add: slice_contents_def)
  qed (use c in \<open>simp add: slice_contents_def\<close>)
  show "\<exists>new A'. h' = h @ new \<and> slice_contents get h' s' = Some (v, A') \<and> A' \<subseteq> {length h..}"
    if "copy_slice put get s h = (s', h')" for s' h'
    using c that assms by (auto simp: slice_contents_Some copy_slice_def alloc_def view_whole)
qed

lemma deep_struct:
  assumes "\<And>x. get (put x) = Some x"
  shows "deep_copy (pointer_contents get plain_contents) (copy_struct put get)"
proof
  fix h :: "'b list" and p v A
  assume c: "pointer_contents get plain_contents h p = Some (v, A)"
  then show "A \<subseteq> {..<length h}" by (auto simp: pointer_contents_Some plain_contents_def deref_Some)
  show "pointer_contents get plain_contents h' p = Some (v, A)" if "agree A h h'" for h'
    using c that by (auto simp: pointer_contents_Some plain_contents_def intro: deref_agree)
  show "\<exists>new A'. h' = h @ new \<and> pointer_contents get plain_contents h' s' = Some (v, A') \<and> A' \<subseteq> {length h..}"
    if "copy_struct put get p h = (s', h')" for s' h'
    using c that assms by (auto simp: pointer_contents_Some plain_contents_def copy_struct_def alloc_def)
qed

lemma deep_new:
  assumes deep: "deep_copy c into" and put: "\<And>x. get (put x) = Some x"
  shows "deep_copy (pointer_contents get c) (copy_new zero put get into)"
proof
  fix h p v A
  assume "pointer_contents get c h p = Some (v, A)"
  then consider "p = None" "v = None" "A = {}" | a x w B where "p = Some a" "deref get h a = Some x"
      "c h x = Some (w, B)" "v = Some w" "A = insert a B"
    by (auto simp: pointer_contents_Some)
  note cases = this
  show "A \<subseteq> {..<length h}"
    by (rule cases) (auto simp: deref_Some dest: deep_copy.bounded [OF deep])
  show "pointer_contents get c h' p = Some (v, A)" if agr: "agree A h h'" for h'
  proof (rule cases)
    fix a x w B
    assume p: "p = Some a" "deref get h a = Some x" "c h x = Some (w, B)" "v = Some w" "A = insert a B"
    with agr have "c h' x = Some (w, B)" by (intro deep_copy.frame [OF deep p(3)]) (auto intro: agree_subset)
    moreover have "deref get h' a = Some x" by (rule deref_agree [OF p(2) _ agr]) (simp add: p(5))
    ultimately show ?thesis using p by (simp add: pointer_contents_def)
  qed (simp add: pointer_contents_Some)
  show "\<exists>new A'. h' = h @ new \<and> pointer_contents get c h' s' = Some (v, A') \<and> A' \<subseteq> {length h..}"
    if run: "copy_new zero put get into p h = (s', h')" for s' h'
  proof (rule cases)
    fix a x w B
    assume p: "p = Some a" "deref get h a = Some x" "c h x = Some (w, B)" "v = Some w"
    obtain out h2 where into: "into x (h @ [zero]) = (out, h2)" by fastforce
    from deep_copy.step [OF deep p(3) into] obtain new A' where
      h2: "h2 = (h @ [zero]) @ new" "c h2 out = Some (w, A')" "A' \<subseteq> {length (h @ [zero])..}" by auto
    from run into p have h': "s' = Some (length h)" "h' = h2[length h := put out]"
      by (auto simp: copy_new_def alloc_def)
    note fill = fill_new_block [where b = "put out", OF h2(1)]
    have "c h' out = Some (w, A')"
      unfolding h' by (rule deep_copy.frame [OF deep h2(2) fill(3)]) (use h2 deep_copy.bounded [OF deep h2(2)] in auto)
    then have "pointer_contents get c h' s' = Some (v, insert (length h) A')"
      using p(4) fill(2) [of get] put unfolding h' by (simp add: pointer_contents_Some)
    with fill(1) h2(3) h' show ?thesis by (intro exI conjI) auto
  qed (use run in \<open>auto simp: copy_new_def pointer_contents_Some\<close>)
qed

lemma each_contents_frame:
  assumes deep: "deep_copy c into" and "each_contents c h xs = Some (vs, A)"
  shows "A \<subseteq> {..<length h}" "agree A h h' \<Longrightarrow> each_contents c h' xs = Some (vs, A)"
proof -
  show "A \<subseteq> {..<length h}"
    using assms(2)
  proof (induction xs arbitrary: vs A)
    case (Cons x xs)
    then show ?case
      by (auto simp: each_contents_Cons simp del: each_contents.simps(2) dest!: deep_copy.bounded [OF deep])
  qed simp
  show "each_contents c h' xs = Some (vs, A)" if "agree A h h'"
    using assms(2) that
  proof (induction xs arbitrary: vs A)
    case (Cons x xs)
    then obtain w ws B1 B2 where xs: "c h x = Some (w, B1)" "each_contents c h xs = Some (ws, B2)"
        "vs = w # ws" "A = B1 \<union> B2" by (auto simp: each_contents_Cons simp del: each_contents.simps(2))
    with Cons.prems(2) have agr: "agree B1 h h'" "agree B2 h h'" by (auto simp: agree_def)
    from deep_copy.frame [OF deep xs(1) agr(1)] Cons.IH [OF xs(2) agr(2)] xs(3,4) show ?case by simp
  qed simp
qed

lemma each_contents_extended:
  assumes "deep_copy c into" "each_contents c h xs = Some (vs, A)"
  shows "each_contents c (h @ new) xs = Some (vs, A)"
  by (rule each_contents_frame(2) [OF assms]) (rule agree_append, rule each_contents_frame(1) [OF assms])

lemma deep_each:
  assumes deep: "deep_copy c into"
  shows "deep_copy (each_contents c) (copy_each into)"
proof
  fix h xs vs A
  assume c: "each_contents c h xs = Some (vs, A)"
  then show "A \<subseteq> {..<length h}" by (rule each_contents_frame [OF deep])
  show "each_contents c h' xs = Some (vs, A)" if "agree A h h'" for h'
    using c that by (rule each_contents_frame [OF deep])
next
  show "\<exists>new A'. h' = h @ new \<and> each_contents c h' ys = Some (vs, A') \<and> A' \<subseteq> {length h..}"
    if "each_contents c h xs = Some (vs, A)" "copy_each into xs h = (ys, h')" for h xs vs A ys h'
    using that
  proof (induction xs arbitrary: h vs A ys h')
    case (Cons x xs)
    then obtain w ws B1 B2 where xs: "c h x = Some (w, B1)" "each_contents c h xs = Some (ws, B2)" "vs = w # ws"
      by (auto simp: each_contents_Cons simp del: each_contents.simps(2))
    from Cons.prems(2) obtain y h1 zs where run: "into x h = (y, h1)" "copy_each into xs h1 = (zs, h')" "ys = y # zs"
      by (auto split: prod.splits)
    from deep_copy.fresh [OF deep xs(1) run(1)] obtain n1 A1 where
      1: "h1 = h @ n1" "c h1 y = Some (w, A1)" "A1 \<subseteq> {length h..}" by blast
    have "each_contents c h1 xs = Some (ws, B2)" unfolding 1(1) by (rule each_contents_extended [OF deep xs(2)])
    from Cons.IH [OF this run(2)] obtain n2 A2 where
      2: "h' = h1 @ n2" "each_contents c h' zs = Some (ws, A2)" "A2 \<subseteq> {length h1..}" by blast
    with 1 deep_copy.extended [OF deep 1(2), of n2] xs(3) run(3)
    show ?case by (intro exI [of _ "n1 @ n2"] exI [of _ "A1 \<union> A2"]) auto
  qed simp
qed

lemma copy_each_length: "copy_each into xs h = (ys, h') \<Longrightarrow> length ys = length xs"
  by (induction xs arbitrary: h ys) (auto split: prod.splits)

lemma deep_items:
  assumes deep: "deep_copy c into" and put: "\<And>xs. get (put xs) = Some xs"
  shows "deep_copy (items_contents get c) (copy_items zero put get into)"
proof
  note each = deep_each [OF deep]
  fix h s v A
  assume "items_contents get c h s = Some (v, A)"
  then consider "s = None" "v = None" "A = {}" | sl xs ws B where "s = Some sl" "view get h sl = Some xs"
      "each_contents c h xs = Some (ws, B)" "v = Some ws" "A = insert (fst sl) B"
    by (auto simp: items_contents_Some)
  note cases = this
  show "A \<subseteq> {..<length h}"
    by (rule cases) (auto dest!: view_bounded deep_copy.bounded [OF each])
  show "items_contents get c h' s = Some (v, A)" if agr: "agree A h h'" for h'
  proof (rule cases)
    fix sl xs ws B
    assume p: "s = Some sl" "view get h sl = Some xs" "each_contents c h xs = Some (ws, B)" "v = Some ws"
      "A = insert (fst sl) B"
    with agr have "each_contents c h' xs = Some (ws, B)"
      by (intro deep_copy.frame [OF each p(3)]) (auto simp: agree_def)
    moreover have "view get h' sl = Some xs" by (rule view_agree [OF p(2) _ agr]) (simp add: p(5))
    ultimately show ?thesis using p by (simp add: items_contents_def)
  qed (simp add: items_contents_Some)
  show "\<exists>new A'. h' = h @ new \<and> items_contents get c h' s' = Some (v, A') \<and> A' \<subseteq> {length h..}"
    if run: "copy_items zero put get into s h = (s', h')" for s' h'
  proof (rule cases)
    fix sl xs ws B
    assume p: "s = Some sl" "view get h sl = Some xs" "each_contents c h xs = Some (ws, B)" "v = Some ws"
    obtain ys h2 where into: "copy_each into xs (h @ [zero]) = (ys, h2)" by fastforce
    from deep_copy.step [OF each p(3) into] obtain new A' where
      h2: "h2 = (h @ [zero]) @ new" "each_contents c h2 ys = Some (ws, A')" "A' \<subseteq> {length (h @ [zero])..}" by auto
    from run into p have h': "s' = Some (length h, 0, length xs)" "h' = h2[length h := put ys]"
      by (auto simp: copy_items_def alloc_def)
    note fill = fill_new_block [where b = "put ys", OF h2(1)]
    have "each_contents c h' ys = Some (ws, A')"
      unfolding h' by (rule deep_copy.frame [OF each h2(2) fill(3)]) (use h2 deep_copy.bounded [OF each h2(2)] in auto)
    moreover have "view get h' (length h, 0, length xs) = Some ys"
      using fill(2) [of get] put copy_each_length [OF into] unfolding h' by (simp add: view_def)
    ultimately have "items_contents get c h' s' = Some (v, insert (length h) A')"
      using p(4) h'(1) by (simp add: items_contents_def)
    with fill(1) h2(3) h' show ?thesis by (intro exI conjI) auto
  qed (use run in \<open>auto simp: copy_items_def items_contents_Some\<close>)
qed


lemma deep_pair:
  assumes deep: "deep_copy c1 k1" "deep_copy c2 k2"
  shows "deep_copy (pair_contents c1 c2) (\<lambda>(x, y) h. let (x', h1) = k1 x h; (y', h2) = k2 y h1 in ((x', y'), h2))"
proof
  fix h p v A
  assume "pair_contents c1 c2 h p = Some (v, A)"
  then obtain x y w1 w2 A1 A2 where p: "p = (x, y)" "c1 h x = Some (w1, A1)" "c2 h y = Some (w2, A2)"
    "v = (w1, w2)" "A = A1 \<union> A2" by (auto simp: pair_contents_Some)
  from p show "A \<subseteq> {..<length h}"
    using deep_copy.bounded [OF deep(1) p(2)] deep_copy.bounded [OF deep(2) p(3)] by simp
  show "pair_contents c1 c2 h' p = Some (v, A)" if "agree A h h'" for h'
  proof -
    have "agree A1 h h'" "agree A2 h h'" using that p(5) by (auto simp: agree_def)
    from deep_copy.frame [OF deep(1) p(2) this(1)] deep_copy.frame [OF deep(2) p(3) this(2)] p(1,4,5)
    show ?thesis by (simp add: pair_contents_def)
  qed
  show "\<exists>new A'. h' = h @ new \<and> pair_contents c1 c2 h' s' = Some (v, A') \<and> A' \<subseteq> {length h..}"
    if run: "(\<lambda>(x, y) h. let (x', h1) = k1 x h; (y', h2) = k2 y h1 in ((x', y'), h2)) p h = (s', h')" for s' h'
  proof -
    from run obtain x' h1 y' where k: "k1 x h = (x', h1)" "k2 y h1 = (y', h')" "s' = (x', y')"
      by (auto simp: p(1) split: prod.splits)
    from deep_copy.fresh [OF deep(1) p(2) k(1)] obtain n1 A1' where
      1: "h1 = h @ n1" "c1 h1 x' = Some (w1, A1')" "A1' \<subseteq> {length h..}" by blast
    from deep_copy.step [OF deep(2) p(3) k(2) [unfolded 1(1)]] obtain n2 A2' where
      2: "h' = h @ n1 @ n2" "c2 h' y' = Some (w2, A2')" "A2' \<subseteq> {length (h @ n1)..}" .
    from deep_copy.extended [OF deep(1) 1(2), of n2] 1(1) 2(1) have "c1 h' x' = Some (w1, A1')" by simp
    with 2 1(3) k(3) p(4) show ?thesis
      by (intro exI [of _ "n1 @ n2"] exI [of _ "A1' \<union> A2'"]) (auto simp: pair_contents_def)
  qed
qed

text \<open>A struct is copied by copying the tuple of the fields that are not plain.\<close>

definition struct_contents where
  "struct_contents fds mk c h s = map_option (\<lambda>(v, A). (mk s v, A)) (c h (fds s))"

lemma deep_fields:
  assumes deep: "deep_copy c k" and upd: "\<And>s x. fds (upd s x) = x" "\<And>s x v. mk (upd s x) v = mk s v"
    and into: "\<And>s h. into s h = (let (x, h1) = k (fds s) h in (upd s x, h1))"
  shows "deep_copy (struct_contents fds mk c) into"
proof
  fix h s v A
  assume "struct_contents fds mk c h s = Some (v, A)"
  then obtain w where c: "c h (fds s) = Some (w, A)" "v = mk s w" by (auto simp: struct_contents_def)
  show "A \<subseteq> {..<length h}" by (rule deep_copy.bounded [OF deep c(1)])
  show "struct_contents fds mk c h' s = Some (v, A)" if "agree A h h'" for h'
    using deep_copy.frame [OF deep c(1) that] c(2) by (simp add: struct_contents_def)
  show "\<exists>new A'. h' = h @ new \<and> struct_contents fds mk c h' s' = Some (v, A') \<and> A' \<subseteq> {length h..}"
    if run: "into s h = (s', h')" for s' h'
  proof -
    from run obtain x where k: "k (fds s) h = (x, h')" "s' = upd s x" by (auto simp: into split: prod.splits)
    from deep_copy.fresh [OF deep c(1) k(1)] c(2) upd k(2) show ?thesis by (auto simp: struct_contents_def)
  qed
qed

section \<open>The contract of the types without metadata\<close>

abbreviation strings_contents :: "('m, 'l, 'c) block memory \<Rightarrow> slice \<Rightarrow> (string list option \<times> addr set) option" where
  "strings_contents \<equiv> slice_contents (typed is_StringArray un_StringArray)"

lemmas deep_strings = deep_slice [where get = "typed is_StringArray un_StringArray" and put = StringArray, simplified]

definition app_profile_spec_contents where
  "app_profile_spec_contents = struct_contents apa_AppNames (\<lambda>s n. \<lparr>apa_AppNames = n\<rparr>) strings_contents"

interpretation app_profile_spec: deep_copy app_profile_spec_contents AppProfileSpec_DeepCopyInto
  unfolding app_profile_spec_contents_def
  by (rule deep_fields [OF deep_strings, where upd = "\<lambda>s x. s\<lparr>apa_AppNames := x\<rparr>"])
    (simp_all add: AppProfileSpec_DeepCopyInto_def)

definition app_profile_status_contents where
  "app_profile_status_contents =
     struct_contents apt_InvalidAppNames (\<lambda>s n. \<lparr>apt_Health = apt_Health s, apt_InvalidAppNames = n\<rparr>) strings_contents"

interpretation app_profile_status: deep_copy app_profile_status_contents AppProfileStatus_DeepCopyInto
  unfolding app_profile_status_contents_def
  by (rule deep_fields [OF deep_strings, where upd = "\<lambda>s x. s\<lparr>apt_InvalidAppNames := x\<rparr>"])
    (simp_all add: AppProfileStatus_DeepCopyInto_def)

lemmas deep_overrides = deep_slice [where get = "typed is_OverrideArray un_OverrideArray" and put = OverrideArray, simplified]

definition profile_spec_contents where
  "profile_spec_contents = struct_contents (\<lambda>s. (psa_Tags s, psa_Bundles s, psa_Overrides s))
     (\<lambda>s (t, b, ov). \<lparr>psa_Description = psa_Description s, psa_Tags = t, psa_Bundles = b, psa_Overrides = ov,
        psa_RepoUrl = psa_RepoUrl s, psa_RepoPath = psa_RepoPath s, psa_RepoRevision = psa_RepoRevision s\<rparr>)
     (pair_contents strings_contents (pair_contents strings_contents
        (slice_contents (typed is_OverrideArray un_OverrideArray))))"

interpretation profile_spec: deep_copy profile_spec_contents ProfileSpec_DeepCopyInto
  unfolding profile_spec_contents_def
  by (rule deep_fields [OF deep_pair [OF deep_strings deep_pair [OF deep_strings deep_overrides]],
        where upd = "\<lambda>s (t, b, ov). s\<lparr>psa_Tags := t, psa_Bundles := b, psa_Overrides := ov\<rparr>"])
    (auto simp: ProfileSpec_DeepCopyInto_def split: prod.splits)

lemmas deep_override_spec =
  deep_struct [where get = "typed is_OverrideSpecB un_OverrideSpecB" and put = OverrideSpecB, simplified]
lemmas deep_autoscaler_spec =
  deep_struct [where get = "typed is_AutoscalerSpecB un_AutoscalerSpecB" and put = AutoscalerSpecB, simplified]
lemmas deep_repo_spec =
  deep_struct [where get = "typed is_RepoSpecB un_RepoSpecB" and put = RepoSpecB, simplified]

definition cluster_spec_contents where
  "cluster_spec_contents = struct_contents (\<lambda>s. (csa_Override s, csa_Autoscaler s, csa_ArlonHelmChart s))
     (\<lambda>s (ov, as, chart). \<lparr>csa_ClusterTemplate = csa_ClusterTemplate s, csa_Override = ov, csa_Autoscaler = as,
        csa_ArlonHelmChart = chart\<rparr>)
     (pair_contents (pointer_contents (typed is_OverrideSpecB un_OverrideSpecB) plain_contents)
       (pair_contents (pointer_contents (typed is_AutoscalerSpecB un_AutoscalerSpecB) plain_contents)
         (pointer_contents (typed is_RepoSpecB un_RepoSpecB) plain_contents)))"

interpretation cluster_spec: deep_copy cluster_spec_contents ClusterSpec_DeepCopyInto
  unfolding cluster_spec_contents_def
  by (rule deep_fields [OF deep_pair [OF deep_override_spec deep_pair [OF deep_autoscaler_spec deep_repo_spec]],
        where upd = "\<lambda>s (ov, as, chart). s\<lparr>csa_Override := ov, csa_Autoscaler := as, csa_ArlonHelmChart := chart\<rparr>"])
    (auto simp: ClusterSpec_DeepCopyInto_def split: prod.splits)


section \<open>The contract of the types with metadata\<close>

lemma copy_object_eq: "copy_object k = k"
  by (rule ext)+ (auto simp: copy_object_def split: prod.splits)

definition app_profile_contents where
  "app_profile_contents om_c = struct_contents (\<lambda>s. (ap_at_ObjectMeta s, ap_at_Spec s, ap_at_Status s))
     (\<lambda>s (om, spec, status). \<lparr>ap_at_TypeMeta = ap_at_TypeMeta s, ap_at_ObjectMeta = om, ap_at_Spec = spec, ap_at_Status = status\<rparr>)
     (pair_contents om_c (pair_contents app_profile_spec_contents app_profile_status_contents))"

lemma deep_app_profile:
  assumes "deep_copy om_c om_copy"
  shows "deep_copy (app_profile_contents om_c) (AppProfile_DeepCopyInto om_copy)"
  unfolding app_profile_contents_def
  by (rule deep_fields [OF deep_pair [OF assms deep_pair [OF app_profile_spec.deep_copy_axioms app_profile_status.deep_copy_axioms]], where upd = "\<lambda>s (om, spec, status). s\<lparr>ap_at_ObjectMeta := om, ap_at_Spec := spec, ap_at_Status := status\<rparr>"])
    (auto simp: AppProfile_DeepCopyInto_def split: prod.splits)

definition app_profile_object where
  "app_profile_object om_c = pointer_contents (typed is_AppProfileB un_AppProfileB) (app_profile_contents om_c)"

lemma deep_app_profile_object:
  assumes "deep_copy om_c om_copy"
  shows "deep_copy (app_profile_object om_c) (AppProfile_DeepCopyObject om_copy)"
  unfolding app_profile_object_def AppProfile_DeepCopyObject_def copy_object_eq AppProfile_DeepCopy_def
  by (intro deep_new deep_app_profile assms) simp

definition call_home_config_contents where
  "call_home_config_contents om_c = struct_contents ch_at_ObjectMeta
     (\<lambda>s om. \<lparr>ch_at_TypeMeta = ch_at_TypeMeta s, ch_at_ObjectMeta = om, ch_at_Spec = ch_at_Spec s, ch_at_Status = ch_at_Status s\<rparr>)
     om_c"

lemma deep_call_home_config:
  assumes "deep_copy om_c om_copy"
  shows "deep_copy (call_home_config_contents om_c) (CallHomeConfig_DeepCopyInto om_copy)"
  unfolding call_home_config_contents_def
  by (rule deep_fields [OF assms, where upd = "\<lambda>s om. s\<lparr>ch_at_ObjectMeta := om\<rparr>"])
    (auto simp: CallHomeConfig_DeepCopyInto_def split: prod.splits)

definition call_home_config_object where
  "call_home_config_object om_c = pointer_contents (typed is_CallHomeConfigB un_CallHomeConfigB) (call_home_config_contents om_c)"

lemma deep_call_home_config_object:
  assumes "deep_copy om_c om_copy"
  shows "deep_copy (call_home_config_object om_c) (CallHomeConfig_DeepCopyObject om_copy)"
  unfolding call_home_config_object_def CallHomeConfig_DeepCopyObject_def copy_object_eq CallHomeConfig_DeepCopy_def
  by (intro deep_new deep_call_home_config assms) simp

definition cluster_contents where
  "cluster_contents om_c = struct_contents (\<lambda>s. (cl_at_ObjectMeta s, cl_at_Spec s))
     (\<lambda>s (om, spec). \<lparr>cl_at_TypeMeta = cl_at_TypeMeta s, cl_at_ObjectMeta = om, cl_at_Spec = spec, cl_at_Status = cl_at_Status s\<rparr>)
     (pair_contents om_c cluster_spec_contents)"

lemma deep_cluster:
  assumes "deep_copy om_c om_copy"
  shows "deep_copy (cluster_contents om_c) (Cluster_DeepCopyInto om_copy)"
  unfolding cluster_contents_def
  by (rule deep_fields [OF deep_pair [OF assms cluster_spec.deep_copy_axioms], where upd = "\<lambda>s (om, spec). s\<lparr>cl_at_ObjectMeta := om, cl_at_Spec := spec\<rparr>"])
    (auto simp: Cluster_DeepCopyInto_def split: prod.splits)

definition cluster_object where
  "cluster_object om_c = pointer_contents (typed is_ClusterB un_ClusterB) (cluster_contents om_c)"

lemma deep_cluster_object:
  assumes "deep_copy om_c om_copy"
  shows "deep_copy (cluster_object om_c) (Cluster_DeepCopyObject om_copy)"
  unfolding cluster_object_def Cluster_DeepCopyObject_def copy_object_eq Cluster_DeepCopy_def
  by (intro deep_new deep_cluster assms) simp

definition cluster_registration_contents where
  "cluster_registration_contents om_c = struct_contents cr_at_ObjectMeta
     (\<lambda>s om. \<lparr>cr_at_TypeMeta = cr_at_TypeMeta s, cr_at_ObjectMeta = om, cr_at_Spec = cr_at_Spec s, cr_at_Status = cr_at_Status s\<rparr>)
     om_c"

lemma deep_cluster_registration:
  assumes "deep_copy om_c om_copy"
  shows "deep_copy (cluster_registration_contents om_c) (ClusterRegistration_DeepCopyInto om_copy)"
  unfolding cluster_registration_contents_def
  by (rule deep_fields [OF assms, where upd = "\<lambda>s om. s\<lparr>cr_at_ObjectMeta := om\<rparr>"])
    (auto simp: ClusterRegistration_DeepCopyInto_def split: prod.splits)

definition cluster_registration_object where
  "cluster_registration_object om_c = pointer_contents (typed is_ClusterRegistrationB un_ClusterRegistrationB) (cluster_registration_contents om_c)"

lemma deep_cluster_registration_object:
  assumes "deep_copy om_c om_copy"
  shows "deep_copy (cluster_registration_object om_c) (ClusterRegistration_DeepCopyObject om_copy)"
  unfolding cluster_registration_object_def ClusterRegistration_DeepCopyObject_def copy_object_eq ClusterRegistration_DeepCopy_def
  by (intro deep_new deep_cluster_registration assms) simp

definition profile_contents where
  "profile_contents om_c = struct_contents (\<lambda>s. (pr_at_ObjectMeta s, pr_at_Spec s))
     (\<lambda>s (om, spec). \<lparr>pr_at_TypeMeta = pr_at_TypeMeta s, pr_at_ObjectMeta = om, pr_at_Spec = spec, pr_at_Status = pr_at_Status s\<rparr>)
     (pair_contents om_c profile_spec_contents)"

lemma deep_profile:
  assumes "deep_copy om_c om_copy"
  shows "deep_copy (profile_contents om_c) (Profile_DeepCopyInto om_copy)"
  unfolding profile_contents_def
  by (rule deep_fields [OF deep_pair [OF assms profile_spec.deep_copy_axioms], where upd = "\<lambda>s (om, spec). s\<lparr>pr_at_ObjectMeta := om, pr_at_Spec := spec\<rparr>"])
    (auto simp: Profile_DeepCopyInto_def split: prod.splits)

definition profile_object where
  "profile_object om_c = pointer_contents (typed is_ProfileB un_ProfileB) (profile_contents om_c)"

lemma deep_profile_object:
  assumes "deep_copy om_c om_copy"
  shows "deep_copy (profile_object om_c) (Profile_DeepCopyObject om_copy)"
  unfolding profile_object_def Profile_DeepCopyObject_def copy_object_eq Profile_DeepCopy_def
  by (intro deep_new deep_profile assms) simp

text \<open>The lists: all of them are records of the same shape, over the items of their type.\<close>

definition list_contents where
  "list_contents lm_c items_c = struct_contents (\<lambda>s. (li_at_ListMeta s, li_at_Items s))
     (\<lambda>s (lm, is). \<lparr>li_at_TypeMeta = li_at_TypeMeta s, li_at_ListMeta = lm, li_at_Items = is\<rparr>)
     (pair_contents lm_c items_c)"

lemma deep_list:
  assumes "deep_copy lm_c lm_copy" "deep_copy items_c items"
  shows "deep_copy (list_contents lm_c items_c) (list_into lm_copy items)"
  unfolding list_contents_def
  by (rule deep_fields [OF deep_pair [OF assms], where upd = "\<lambda>s (lm, is). s\<lparr>li_at_ListMeta := lm, li_at_Items := is\<rparr>"])
    (auto simp: list_into_def split: prod.splits)

definition app_profile_list_object where
  "app_profile_list_object om_c lm_c = pointer_contents (typed is_AppProfileListB un_AppProfileListB)
     (list_contents lm_c (items_contents (typed is_AppProfileArray un_AppProfileArray) (app_profile_contents om_c)))"

lemma deep_app_profile_list_object:
  assumes "deep_copy om_c om_copy" "deep_copy lm_c lm_copy"
  shows "deep_copy (app_profile_list_object om_c lm_c) (AppProfileList_DeepCopyObject om_copy lm_copy)"
  unfolding app_profile_list_object_def AppProfileList_DeepCopyObject_def copy_object_eq AppProfileList_DeepCopy_def AppProfileList_DeepCopyInto_def
  by (intro deep_new deep_list deep_items deep_app_profile assms) simp_all

definition call_home_config_list_object where
  "call_home_config_list_object om_c lm_c = pointer_contents (typed is_CallHomeConfigListB un_CallHomeConfigListB)
     (list_contents lm_c (items_contents (typed is_CallHomeConfigArray un_CallHomeConfigArray) (call_home_config_contents om_c)))"

lemma deep_call_home_config_list_object:
  assumes "deep_copy om_c om_copy" "deep_copy lm_c lm_copy"
  shows "deep_copy (call_home_config_list_object om_c lm_c) (CallHomeConfigList_DeepCopyObject om_copy lm_copy)"
  unfolding call_home_config_list_object_def CallHomeConfigList_DeepCopyObject_def copy_object_eq CallHomeConfigList_DeepCopy_def CallHomeConfigList_DeepCopyInto_def
  by (intro deep_new deep_list deep_items deep_call_home_config assms) simp_all

definition cluster_list_object where
  "cluster_list_object om_c lm_c = pointer_contents (typed is_ClusterListB un_ClusterListB)
     (list_contents lm_c (items_contents (typed is_ClusterArray un_ClusterArray) (cluster_contents om_c)))"

lemma deep_cluster_list_object:
  assumes "deep_copy om_c om_copy" "deep_copy lm_c lm_copy"
  shows "deep_copy (cluster_list_object om_c lm_c) (ClusterList_DeepCopyObject om_copy lm_copy)"
  unfolding cluster_list_object_def ClusterList_DeepCopyObject_def copy_object_eq ClusterList_DeepCopy_def ClusterList_DeepCopyInto_def
  by (intro deep_new deep_list deep_items deep_cluster assms) simp_all

definition cluster_registration_list_object where
  "cluster_registration_list_object om_c lm_c = pointer_contents (typed is_ClusterRegistrationListB un_ClusterRegistrationListB)
     (list_contents lm_c (items_contents (typed is_ClusterRegistrationArray un_ClusterRegistrationArray) (cluster_registration_contents om_c)))"

lemma deep_cluster_registration_list_object:
  assumes "deep_copy om_c om_copy" "deep_copy lm_c lm_copy"
  shows "deep_copy (cluster_registration_list_object om_c lm_c) (ClusterRegistrationList_DeepCopyObject om_copy lm_copy)"
  unfolding cluster_registration_list_object_def ClusterRegistrationList_DeepCopyObject_def copy_object_eq ClusterRegistrationList_DeepCopy_def ClusterRegistrationList_DeepCopyInto_def
  by (intro deep_new deep_list deep_items deep_cluster_registration assms) simp_all

definition profile_list_object where
  "profile_list_object om_c lm_c = pointer_contents (typed is_ProfileListB un_ProfileListB)
     (list_contents lm_c (items_contents (typed is_ProfileArray un_ProfileArray) (profile_contents om_c)))"

lemma deep_profile_list_object:
  assumes "deep_copy om_c om_copy" "deep_copy lm_c lm_copy"
  shows "deep_copy (profile_list_object om_c lm_c) (ProfileList_DeepCopyObject om_copy lm_copy)"
  unfolding profile_list_object_def ProfileList_DeepCopyObject_def copy_object_eq ProfileList_DeepCopy_def ProfileList_DeepCopyInto_def
  by (intro deep_new deep_list deep_items deep_profile assms) simp_all

section \<open>Isolation\<close>

text \<open>
  The copy has the contents of the original, in blocks that are all new. Nothing that was there is written.
  Whatever is later written to the blocks of the one, or to blocks that are newer, the other does not show it.
\<close>

definition isolated_copy :: "('b memory \<Rightarrow> 's \<Rightarrow> ('v \<times> addr set) option) \<Rightarrow> ('s \<Rightarrow> 'b memory \<Rightarrow> 's \<times> 'b memory) \<Rightarrow> bool" where
  "isolated_copy contents copy \<longleftrightarrow> (\<forall>h s v A s' h'. contents h s = Some (v, A) \<longrightarrow> copy s h = (s', h') \<longrightarrow>
     writes {} h h' \<and> (\<exists>A'. contents h' s' = Some (v, A') \<and> A \<inter> A' = {} \<and>
       (\<forall>h''. writes A' h' h'' \<longrightarrow> contents h'' s = Some (v, A)) \<and>
       (\<forall>h''. writes A h' h'' \<longrightarrow> contents h'' s' = Some (v, A'))))"

lemma writes_agree: "writes W h h' \<Longrightarrow> A \<inter> W = {} \<Longrightarrow> A \<subseteq> {..<length h} \<Longrightarrow> agree A h h'"
  by (auto simp: writes_def agree_def)

lemma writes_update: "a \<in> W \<Longrightarrow> writes W h (h[a := b])"
  by (auto simp: writes_def) (metis nth_list_update_neq)

context deep_copy
begin

lemma isolated: "isolated_copy contents copy"
  unfolding isolated_copy_def
proof (intro allI impI conjI)
  fix h s v A s' h'
  assume c: "contents h s = Some (v, A)" and run: "copy s h = (s', h')"
  from fresh [OF c run] obtain new A' where
    new: "h' = h @ new" "contents h' s' = Some (v, A')" "A' \<subseteq> {length h..}" by blast
  from new(1) show "writes {} h h'" by (simp add: writes_def nth_append)
  have c': "contents h' s = Some (v, A)" unfolding new(1) by (rule extended [OF c])
  have disj: "A \<inter> A' = {}" using bounded [OF c] new(3) by force
  have "contents h'' s = Some (v, A)" if "writes A' h' h''" for h''
    by (rule frame [OF c' writes_agree [OF that disj bounded [OF c']]])
  moreover have "contents h'' s' = Some (v, A')" if "writes A h' h''" for h''
    by (rule frame [OF new(2) writes_agree [OF that _ bounded [OF new(2)]]]) (use disj in blast)
  ultimately show "\<exists>A'. contents h' s' = Some (v, A') \<and> A \<inter> A' = {} \<and>
      (\<forall>h''. writes A' h' h'' \<longrightarrow> contents h'' s = Some (v, A)) \<and>
      (\<forall>h''. writes A h' h'' \<longrightarrow> contents h'' s' = Some (v, A'))"
    using new(2) disj by blast
qed

end

text \<open>C12: The deep copy of a resource, and of a list of resources, has the contents of the original and shares no
  memory with it, for each of the five types of resources: what is written through the one afterwards is never
  seen through the other. The library's copies of \<open>ObjectMeta\<close> and \<open>ListMeta\<close> are taken to be as good.\<close>

theorem deep_copies_are_isolated:
  assumes "deep_copy om_c ObjectMeta_DeepCopyInto" "deep_copy lm_c ListMeta_DeepCopyInto"
  shows "isolated_copy (app_profile_object om_c) (AppProfile_DeepCopyObject ObjectMeta_DeepCopyInto) \<and>
    isolated_copy (app_profile_list_object om_c lm_c) (AppProfileList_DeepCopyObject ObjectMeta_DeepCopyInto ListMeta_DeepCopyInto) \<and>
    isolated_copy (call_home_config_object om_c) (CallHomeConfig_DeepCopyObject ObjectMeta_DeepCopyInto) \<and>
    isolated_copy (call_home_config_list_object om_c lm_c) (CallHomeConfigList_DeepCopyObject ObjectMeta_DeepCopyInto ListMeta_DeepCopyInto) \<and>
    isolated_copy (cluster_object om_c) (Cluster_DeepCopyObject ObjectMeta_DeepCopyInto) \<and>
    isolated_copy (cluster_list_object om_c lm_c) (ClusterList_DeepCopyObject ObjectMeta_DeepCopyInto ListMeta_DeepCopyInto) \<and>
    isolated_copy (cluster_registration_object om_c) (ClusterRegistration_DeepCopyObject ObjectMeta_DeepCopyInto) \<and>
    isolated_copy (cluster_registration_list_object om_c lm_c) (ClusterRegistrationList_DeepCopyObject ObjectMeta_DeepCopyInto ListMeta_DeepCopyInto) \<and>
    isolated_copy (profile_object om_c) (Profile_DeepCopyObject ObjectMeta_DeepCopyInto) \<and>
    isolated_copy (profile_list_object om_c lm_c) (ProfileList_DeepCopyObject ObjectMeta_DeepCopyInto ListMeta_DeepCopyInto)"
  by (intro conjI deep_copy.isolated deep_app_profile_object deep_app_profile_list_object deep_call_home_config_object deep_call_home_config_list_object deep_cluster_object deep_cluster_list_object deep_cluster_registration_object deep_cluster_registration_list_object deep_profile_object deep_profile_list_object assms)


text \<open>A profile whose metadata are a name and a map of labels: changing the tags of the original in place changes
  the original, not the copy.\<close>

type_synonym demo_meta = "string \<times> pointer"
type_synonym demo_block = "(demo_meta, unit, gomap) block"

definition demo_om_contents :: "demo_block memory \<Rightarrow> demo_meta \<Rightarrow> ((string \<times> gomap option) \<times> addr set) option" where
  "demo_om_contents = pair_contents plain_contents (pointer_contents (typed is_Foreign un_Foreign) plain_contents)"

definition demo_om_copy :: "demo_meta \<Rightarrow> demo_block memory \<Rightarrow> demo_meta \<times> demo_block memory" where
  "demo_om_copy = (\<lambda>(x, y) h. let (x', h1) = copy_plain x h;
     (y', h2) = copy_struct Foreign (typed is_Foreign un_Foreign) y h1 in ((x', y'), h2))"

lemma demo_om: "deep_copy demo_om_contents demo_om_copy"
  unfolding demo_om_contents_def demo_om_copy_def
  by (intro deep_pair plain.deep_copy_axioms deep_struct) simp

definition demo_memory :: "demo_block memory" where
  "demo_memory = [Foreign (mlit [(''team'', ''a'')]), StringArray [''prod'', ''eu''],
     ProfileB \<lparr>pr_at_TypeMeta = \<lparr>tm_Kind = ''Profile'', tm_APIVersion = ''core.arlon.io/v1''\<rparr>,
       pr_at_ObjectMeta = (''p1'', Some 0), pr_at_Spec = \<lparr>psa_Description = '''', psa_Tags = Some (1, 0, 2),
         psa_Bundles = None, psa_Overrides = None, psa_RepoUrl = '''', psa_RepoPath = '''', psa_RepoRevision = ''''\<rparr>,
       pr_at_Status = ''synced''\<rparr>]"

definition tags_of :: "demo_block memory \<Rightarrow> pointer \<Rightarrow> string list option" where
  "tags_of h p = (case profile_object demo_om_contents h p of Some (Some pr, A) \<Rightarrow> psa_Tags (pr_at_Spec pr) | _ \<Rightarrow> None)"

theorem deep_copies_are_isolated_witness:
  "let (c, h) = Profile_DeepCopyObject demo_om_copy (Some 2) demo_memory; h' = h[1 := StringArray [''test'', ''eu'']]
   in tags_of h' (Some 2) = Some [''test'', ''eu''] \<and> tags_of h' c = Some [''prod'', ''eu'']"
proof -
  obtain c h where run: "Profile_DeepCopyObject demo_om_copy (Some 2) demo_memory = (c, h)" by fastforce
  let ?h' = "h[1 := StringArray [''test'', ''eu'']]"
  have "case profile_object demo_om_contents demo_memory (Some 2) of
      Some (Some pr, A) \<Rightarrow> 1 \<in> A \<and> psa_Tags (pr_at_Spec pr) = Some [''prod'', ''eu''] | _ \<Rightarrow> False"
    by code_simp
  then obtain pr A where pr: "profile_object demo_om_contents demo_memory (Some 2) = Some (Some pr, A)" "1 \<in> A"
      "psa_Tags (pr_at_Spec pr) = Some [''prod'', ''eu'']"
    by (auto split: option.splits)
  have "deep_copy (\<lambda>h (u :: unit). Some (u, {})) (\<lambda>u (h :: demo_block memory). (u, h))"
    by unfold_locales auto
  note isolated = deep_copies_are_isolated [OF demo_om this, THEN conjunct2, THEN conjunct2, THEN conjunct2, THEN conjunct2,
      THEN conjunct2, THEN conjunct2, THEN conjunct2, THEN conjunct2, THEN conjunct1]
  have "writes A h ?h'" by (rule writes_update [OF pr(2)])
  with isolated [unfolded isolated_copy_def, rule_format, OF pr(1) run]
  obtain A' where "profile_object demo_om_contents ?h' c = Some (Some pr, A')" by blast
  then have "tags_of ?h' c = Some [''prod'', ''eu'']" by (simp add: tags_of_def pr(3))
  moreover have "tags_of ((snd (Profile_DeepCopyObject demo_om_copy (Some 2) demo_memory))[1 := StringArray [''test'', ''eu'']])
      (Some 2) = Some [''test'', ''eu'']"
    by code_simp
  ultimately show ?thesis by (simp add: run)
qed

end
