(* ===== verification/Startup.thy ===== *)
theory Startup
  imports Cluster_Controller Controllers Webhook Commands
begin

text \<open>
  How the long-running parts of the program are started (\<open>main.go\<close>, \<open>pkg/controller\<close>,
  \<open>pkg/webhook/start.go\<close>, the \<open>NewCommand\<close> of the controllers): the scheme, the manager with its options,
  the controllers that are set up with it, its health checks; the construction of an ArgoCD client; and the
  two remaining commands, \<open>listclusters\<close> and \<open>version check\<close>. The manager of \<open>controller-runtime\<close>, the
  HTTP client and the comparison of semantic versions are parameters. A fatal error that is logged before
  \<open>os.Exit(1)\<close> ends the process, here with the logged message.
\<close>

section \<open>Clients\<close>

text \<open>The groups of types that are registered in a scheme; a scheme is the list of them.\<close>

datatype type_group = ClientGoTypes | ArlonTypes | ArgoTypes | AdmissionTypes | AdmissionRegistrationTypes
  | ClusterApiTypes

type_synonym scheme = "type_group list"

text \<open>\<open>utilruntime.Must\<close> panics with the error.\<close>

definition Must :: "go_error + unit \<Rightarrow> ('w, unit) io" where
  "Must r = (case r of Inl e \<Rightarrow> panic (error_string e) | Inr _ \<Rightarrow> ret ())"

definition build_scheme :: "(type_group \<Rightarrow> go_error + unit) \<Rightarrow> type_group list \<Rightarrow> ('w, scheme) io" where
  "build_scheme AddToScheme groups =
     forM (\<lambda>g scheme. andThen (Must (AddToScheme g)) (\<lambda>_. ret (scheme @ [g]))) groups []"

definition controller_init :: "(type_group \<Rightarrow> go_error + unit) \<Rightarrow> ('w, scheme) io" where
  "controller_init AddToScheme = build_scheme AddToScheme [ClientGoTypes, ArlonTypes, ArgoTypes, ArgoTypes]"

definition ctrlruntimeclient_init :: "(type_group \<Rightarrow> go_error + unit) \<Rightarrow> ('w, scheme) io" where
  "ctrlruntimeclient_init AddToScheme = build_scheme AddToScheme [ClientGoTypes, ArlonTypes, ArgoTypes]"

definition NewArgocdClient ::
  "('w, path) io \<Rightarrow> (path \<Rightarrow> ('w, 'w argocd_client) io) \<Rightarrow> path \<Rightarrow> ('w, 'w argocd_client) io" where
  "NewArgocdClient DefaultLocalConfigPath NewClient argocdConfigPath =
     andThen (if argocdConfigPath = '''' then DefaultLocalConfigPath else ret argocdConfigPath) NewClient"

definition NewArgocdClientOrDie ::
  "('w, path) io \<Rightarrow> (path \<Rightarrow> ('w, 'w argocd_client) io) \<Rightarrow> path \<Rightarrow> ('w, 'w argocd_client) io" where
  "NewArgocdClientOrDie DefaultLocalConfigPath NewClient argocdConfigPath =
     CheckError (NewArgocdClient DefaultLocalConfigPath NewClient argocdConfigPath) ret"

section \<open>The manager\<close>

datatype api_type = ClusterRegistrationType | CallHomeConfigType | AppProfileType | ApplicationSetType
  | ApplicationType | ClusterType | ProfileType | SecretType | ServiceAccountType

datatype checker = PingChecker | WebhookStartedChecker

record manager_options =
  mo_Scheme :: scheme
  mo_MetricsBindAddress :: string
  mo_Port :: nat
  mo_HealthProbeBindAddress :: string
  mo_LeaderElection :: bool
  mo_LeaderElectionID :: string
  mo_ClientDisableCacheFor :: "api_type list"

text \<open>
  \<open>mgr_Complete\<close> is \<open>ctrl.NewControllerManagedBy(mgr).For(t).Complete(r)\<close>, with the reconciler as its
  function from the namespace and the name of a request.
\<close>

record 'w manager =
  mgr_Client :: "'w controller_client"
  mgr_Complete :: "api_type \<Rightarrow> (string \<Rightarrow> string \<Rightarrow> ('w, ctrl_result) io) \<Rightarrow> ('w, unit) io"
  mgr_AddHealthzCheck :: "string \<Rightarrow> checker \<Rightarrow> ('w, unit) io"
  mgr_AddReadyzCheck :: "string \<Rightarrow> checker \<Rightarrow> ('w, unit) io"
  mgr_RegisterWebhook :: "path \<Rightarrow> webhook \<Rightarrow> ('w, unit) io"
  mgr_Start :: "('w, unit) io"

text \<open>What the controllers are given besides the flags: the libraries and the parameters of the reconcilers.\<close>

record 'w start_env =
  se_AddToScheme :: "type_group \<Rightarrow> go_error + unit"
  se_GetConfigOrDie :: "('w, 'w rest_config) io"
  se_ClientNew :: "'w rest_config \<Rightarrow> scheme \<Rightarrow> ('w, 'w controller_client) io"
  se_NewManager :: "'w rest_config \<Rightarrow> manager_options \<Rightarrow> ('w, 'w manager) io"
  se_DefaultLocalConfigPath :: "('w, path) io"
  se_NewArgocdClient :: "path \<Rightarrow> ('w, 'w argocd_client) io"
  se_RegistrationHelper :: "cluster_registration \<Rightarrow> ('w, unit) io"
  se_ClusterHelper :: "cluster_res \<Rightarrow> ('w, unit) io"
  se_Access :: "'w cluster_access"
  se_Unmarshal :: json_decoder
  se_Iter :: "string set \<Rightarrow> string list"
  se_Git :: "'w git_env"
  se_Tools :: "'w manifest_tools"
  se_Templates :: template_env
  se_ClusterContent :: "(string \<times> embed_node) list"
  se_Webhook :: "scheme \<Rightarrow> webhook"

definition NewClient :: "'w start_env \<Rightarrow> scheme \<Rightarrow> 'w rest_config \<Rightarrow> ('w, 'w controller_client) io" where
  "NewClient env scheme config = se_ClientNew env config scheme"

text \<open>\<open>setupLog.Error\<close> and \<open>os.Exit(1)\<close> when the operation fails.\<close>

definition or_exit :: "string \<Rightarrow> ('w, 'a) io \<Rightarrow> ('a \<Rightarrow> ('w, 'b) io) \<Rightarrow> ('w, 'b) io" where
  "or_exit msg m k = attempt m (\<lambda>_. panic msg) k"

section \<open>Setting the controllers up with the manager\<close>

definition registration_SetupWithManager :: "'w manager \<Rightarrow> 'w registration_reconciler \<Rightarrow> ('w, unit) io" where
  "registration_SetupWithManager mgr r = mgr_Complete mgr ClusterRegistrationType (registration_Reconcile r)"

definition callhome_SetupWithManager :: "'w manager \<Rightarrow> 'w callhome_reconciler \<Rightarrow> ('w, unit) io" where
  "callhome_SetupWithManager mgr r = mgr_Complete mgr CallHomeConfigType (callhome_Reconcile r)"

definition cluster_SetupWithManager :: "'w manager \<Rightarrow> 'w cluster_reconciler \<Rightarrow> ('w, unit) io" where
  "cluster_SetupWithManager mgr r = mgr_Complete mgr ClusterType (cluster_Reconcile r)"

definition appprofile_SetupWithManager :: "'w start_env \<Rightarrow> 'w manager \<Rightarrow> 'w argocd_client \<Rightarrow> ('w, unit) io" where
  "appprofile_SetupWithManager env mgr argocli = mgr_Complete mgr AppProfileType
     (appprofile_Reconcile (ctrl_client.truncate (mgr_Client mgr)) argocli (se_Unmarshal env) (se_Iter env))"

definition applicationset_SetupWithManager :: "'w start_env \<Rightarrow> 'w manager \<Rightarrow> 'w argocd_client \<Rightarrow> ('w, unit) io" where
  "applicationset_SetupWithManager env mgr argocli = mgr_Complete mgr ApplicationSetType
     (reconcileApplicationSet (mgr_Client mgr) argocli (se_Unmarshal env) (se_Iter env))"

definition application_SetupWithManager :: "'w start_env \<Rightarrow> 'w manager \<Rightarrow> 'w argocd_client \<Rightarrow> ('w, unit) io" where
  "application_SetupWithManager env mgr argocli = mgr_Complete mgr ApplicationType
     (reconcileApplication (mgr_Client mgr) argocli (se_Unmarshal env) (se_Iter env))"

definition profile_SetupWithManager :: "'w manager \<Rightarrow> ('w, unit) io" where
  "profile_SetupWithManager mgr = mgr_Complete mgr ProfileType (\<lambda>_ _. profile_Reconcile)"

section \<open>Starting the controllers\<close>

record controller_flags =
  ctf_argocdConfigPath :: path
  ctf_metricsAddr :: string
  ctf_probeAddr :: string
  ctf_enableLeaderElection :: bool

definition controller_options :: "scheme \<Rightarrow> controller_flags \<Rightarrow> string \<Rightarrow> api_type list \<Rightarrow> manager_options" where
  "controller_options scheme fl electionID uncached =
     \<lparr>mo_Scheme = scheme, mo_MetricsBindAddress = ctf_metricsAddr fl, mo_Port = 9443,
      mo_HealthProbeBindAddress = ctf_probeAddr fl, mo_LeaderElection = ctf_enableLeaderElection fl,
      mo_LeaderElectionID = electionID, mo_ClientDisableCacheFor = uncached\<rparr>"

text \<open>The health checks and the start of the manager, the end of every \<open>Start\<close> function.\<close>

definition run_manager :: "'w manager \<Rightarrow> ('w, unit) io" where
  "run_manager mgr =
     or_exit ''unable to set up health check'' (mgr_AddHealthzCheck mgr ''healthz'' PingChecker) (\<lambda>_.
     or_exit ''unable to set up ready check'' (mgr_AddReadyzCheck mgr ''readyz'' PingChecker) (\<lambda>_.
     or_exit ''problem running manager'' (mgr_Start mgr) ret))"

definition with_manager ::
  "'w start_env \<Rightarrow> manager_options \<Rightarrow> ('w manager \<Rightarrow> ('w, unit) io) \<Rightarrow> ('w, unit) io" where
  "with_manager env opts k =
     andThen (se_GetConfigOrDie env) (\<lambda>config.
     or_exit ''unable to start manager'' (se_NewManager env config opts) k)"

definition StartController :: "'w start_env \<Rightarrow> scheme \<Rightarrow> controller_flags \<Rightarrow> ('w, unit) io" where
  "StartController env scheme fl =
     andThen (NewArgocdClientOrDie (se_DefaultLocalConfigPath env) (se_NewArgocdClient env) (ctf_argocdConfigPath fl)) (\<lambda>argocdClient.
     with_manager env (controller_options scheme fl ''d4242dee.arlon.io'' [SecretType, ServiceAccountType]) (\<lambda>mgr.
     or_exit ''unable to create controller''
       (registration_SetupWithManager mgr \<lparr>crr_Client = mgr_Client mgr, crr_NewHelper = se_RegistrationHelper env,
          crr_ArgocdClient = argocdClient, crr_Access = se_Access env\<rparr>) (\<lambda>_.
     or_exit ''unable to create controller''
       (callhome_SetupWithManager mgr \<lparr>chr_Client = mgr_Client mgr, chr_Access = se_Access env\<rparr>) (\<lambda>_.
     run_manager mgr))))"

definition StartCallHomeController :: "'w start_env \<Rightarrow> scheme \<Rightarrow> controller_flags \<Rightarrow> ('w, unit) io" where
  "StartCallHomeController env scheme fl =
     with_manager env (controller_options scheme fl ''d5252dee.arlon.io'' [SecretType, ServiceAccountType]) (\<lambda>mgr.
     or_exit ''unable to create controller''
       (callhome_SetupWithManager mgr \<lparr>chr_Client = mgr_Client mgr, chr_Access = se_Access env\<rparr>) (\<lambda>_.
     run_manager mgr))"

definition StartAppProfileController :: "'w start_env \<Rightarrow> scheme \<Rightarrow> controller_flags \<Rightarrow> ('w, unit) io" where
  "StartAppProfileController env scheme fl =
     andThen (NewArgocdClientOrDie (se_DefaultLocalConfigPath env) (se_NewArgocdClient env) (ctf_argocdConfigPath fl)) (\<lambda>argocdClient.
     with_manager env (controller_options scheme fl ''d5252dee.arlon.io'' []) (\<lambda>mgr.
     or_exit ''unable to set up controller'' (appprofile_SetupWithManager env mgr argocdClient) (\<lambda>_.
     or_exit ''unable to set up controller'' (applicationset_SetupWithManager env mgr argocdClient) (\<lambda>_.
     or_exit ''unable to set up controller'' (application_SetupWithManager env mgr argocdClient) (\<lambda>_.
     run_manager mgr)))))"

text \<open>The namespaces of ArgoCD and Arlon are left empty.\<close>

definition StartClusterController ::
  "'w start_env \<Rightarrow> scheme \<Rightarrow> 'w rest_config \<Rightarrow> controller_flags \<Rightarrow> ('w, unit) io" where
  "StartClusterController env scheme config fl =
     andThen (NewArgocdClientOrDie (se_DefaultLocalConfigPath env) (se_NewArgocdClient env) (ctf_argocdConfigPath fl)) (\<lambda>argocdClient.
     with_manager env (controller_options scheme fl ''d5252dee.arlon.io'' []) (\<lambda>mgr.
     or_exit ''unable to set up controller''
       (cluster_SetupWithManager mgr \<lparr>clr_Client = ctrl_client.truncate (mgr_Client mgr),
          clr_NewHelper = se_ClusterHelper env, clr_ArgocdClient = argocdClient, clr_Config = config,
          clr_ArgoCdNs = '''', clr_ArlonNs = '''', clr_Env = se_Git env, clr_Tools = se_Tools env,
          clr_Templates = se_Templates env, clr_Content = se_ClusterContent env\<rparr>) (\<lambda>_.
     run_manager mgr)))"

definition clustercontroller_command ::
  "'w start_env \<Rightarrow> scheme \<Rightarrow> ('w, 'w rest_config) io \<Rightarrow> controller_flags \<Rightarrow> ('w, unit) io" where
  "clustercontroller_command env scheme ClientConfig fl =
     andThen ClientConfig (\<lambda>config. StartClusterController env scheme config fl)"

section \<open>Starting the webhook\<close>

definition webhook_scheme :: "'w start_env \<Rightarrow> ('w, scheme) io" where
  "webhook_scheme env = build_scheme (se_AddToScheme env)
     [ClientGoTypes, AdmissionTypes, AdmissionRegistrationTypes, ClusterApiTypes]"

definition newWebhook :: "'w start_env \<Rightarrow> scheme \<Rightarrow> webhook" where
  "newWebhook env scheme = se_Webhook env scheme"

definition webhook_Start :: "'w start_env \<Rightarrow> scheme \<Rightarrow> nat \<Rightarrow> ('w, unit) io" where
  "webhook_Start env controllerScheme port =
     andThen (webhook_scheme env) (\<lambda>scheme.
     andThen (se_GetConfigOrDie env) (\<lambda>cfg.
     must (NewClient env controllerScheme cfg) (ErrorCtx ''failed to get new kubernetes client: '') (\<lambda>cli.
     must (se_NewManager env cfg \<lparr>mo_Scheme = scheme, mo_MetricsBindAddress = '''', mo_Port = port,
         mo_HealthProbeBindAddress = '''', mo_LeaderElection = False, mo_LeaderElectionID = '''',
         mo_ClientDisableCacheFor = []\<rparr>)
       (ErrorCtx ''failed to get new manager: '') (\<lambda>mgr.
     andThen (mgr_RegisterWebhook mgr ''/rewrite'' (newWebhook env scheme)) (\<lambda>_.
     must (mgr_AddHealthzCheck mgr ''healthz'' WebhookStartedChecker) (ErrorCtx ''failed to set up health check: '') (\<lambda>_.
     must (mgr_AddReadyzCheck mgr ''readyz'' WebhookStartedChecker) (ErrorCtx ''failed to set up ready check: '') (\<lambda>_.
     must (mgr_Start mgr) (ErrorCtx ''failed to start manager: '') ret)))))))"

section \<open>Commands without a package of their own\<close>

text \<open>
  The check of the main program, before a command without a check of its own group: it tries the token out
  when the command that runs is called \<open>cluster\<close> or \<open>listclusters\<close>.
\<close>

definition checkForArgocd :: "'w start_env \<Rightarrow> string \<Rightarrow> ('w, unit) io" where
  "checkForArgocd env name =
     (if name = ''cluster'' \<or> name = ''listclusters'' then
        andThen (NewArgocdClientOrDie (se_DefaultLocalConfigPath env) (se_NewArgocdClient env) '''') (\<lambda>argocdClient.
        CheckError (argo_NewApplicationClient argocdClient) (\<lambda>appIf.
        or_exit ''ArgoCD auth token has expired....Login to ArgoCD again''
          (appIf_List appIf ''managed-by=arlon,arlon-type=cluster'') (\<lambda>_. ret ())))
      else ret ())"

text \<open>What a listed cluster says about itself beyond the fields that the program keeps.\<close>

record cluster_details =
  cdt_Namespaces :: "string list"
  cdt_ServerVersion :: string
  cdt_Status :: string
  cdt_Message :: string

definition argo_cluster_row :: "(argo_cluster \<Rightarrow> cluster_details) \<Rightarrow> argo_cluster \<Rightarrow> string list" where
  "argo_cluster_row details c =
     (let d = details c in
      [if length (cdt_Namespaces d) > 0
       then acl_Server c @ '' ('' @ Itoa (int (length (cdt_Namespaces d))) @ '' namespaces)'' else acl_Server c,
       acl_Name c, cdt_ServerVersion d, cdt_Status d, cdt_Message d])"

definition listClusters ::
  "'w start_env \<Rightarrow> (argo_cluster \<Rightarrow> cluster_details) \<Rightarrow> (string list list \<Rightarrow> ('w, unit) io) \<Rightarrow> ('w, unit) io" where
  "listClusters env details table =
     andThen (NewArgocdClientOrDie (se_DefaultLocalConfigPath env) (se_NewArgocdClient env) '''') (\<lambda>argocdClient.
     CheckError (argo_NewClusterClient argocdClient) (\<lambda>clusterIf.
     CheckError (clIf_List clusterIf) (\<lambda>clusters.
     table ([''SERVER'', ''NAME'', ''VERSION'', ''STATUS'', ''MESSAGE''] # map (argo_cluster_row details) clusters))))"

text \<open>
  The patch of a release is looked up in the branch that its first two numbers name. Semantic versions are a
  library's; a text without a dot has no two parts, and taking them is out of the slice's bounds.
\<close>

record ('w, 'v) version_env =
  ve_NewRequest :: "url \<Rightarrow> go_error + unit"
  ve_Do :: "url \<Rightarrow> ('w, unit) io"
  ve_ReadAll :: "('w, string) io"
  ve_Parse :: "string \<Rightarrow> go_error + 'v"
  ve_Compare :: "'v \<Rightarrow> 'v \<Rightarrow> int"
  ve_String :: "'v \<Rightarrow> string"
  ve_Print :: "string \<Rightarrow> ('w, unit) io"

text \<open>\<open>strings.TrimSpace\<close> on texts of ASCII characters.\<close>

definition is_space :: "char \<Rightarrow> bool" where
  "is_space c = (c \<in> set [CHR 0x09, CHR 0x0A, CHR 0x0B, CHR 0x0C, CHR 0x0D, CHR 0x20])"

definition TrimSpace :: "string \<Rightarrow> string" where
  "TrimSpace s = rev (dropWhile is_space (rev (dropWhile is_space s)))"

definition version_url :: "string \<Rightarrow> url option" where
  "version_url cliVersion =
     (case split_on (CHR ''.'') cliVersion of
        major # minor # _ \<Rightarrow> Some (''https://raw.githubusercontent.com/arlonproj/arlon/v''
          @ join_with ''.'' [major, minor] @ ''/version'')
      | _ \<Rightarrow> None)"

definition version_check :: "('w, 'v) version_env \<Rightarrow> string \<Rightarrow> ('w, unit) io" where
  "version_check env cliVersion =
     (case version_url cliVersion of
        None \<Rightarrow> panic ''slice bounds out of range''
      | Some reqUrl \<Rightarrow>
          andThen (lift (ve_NewRequest env reqUrl)) (\<lambda>_.
          andThen (ve_Do env reqUrl) (\<lambda>_.
          andThen (ve_ReadAll env) (\<lambda>version.
          andThen (lift (ve_Parse env (TrimSpace version))) (\<lambda>ver.
          andThen (lift (ve_Parse env cliVersion)) (\<lambda>currentVersion.
          if ve_Compare env ver currentVersion = 1
          then ve_Print env (''Arlon CLI version '' @ cliVersion @ '' is outdated. New patch '' @ ve_String env ver
            @ '' available'')
          else ve_Print env (''Arlon CLI version '' @ cliVersion @ '' is up-to-date'')))))))"

section \<open>The bounds of the version\<close>

lemma split_on_single_iff: "length (split_on c s) = 1 \<longleftrightarrow> c \<notin> set s"
proof
  assume one: "length (split_on c s) = 1"
  show "c \<notin> set s"
  proof
    assume "c \<in> set s"
    then obtain a r where "s = a @ c # r" "c \<notin> set a" by (meson split_list_first)
    with one split_on_not_Nil [of c r] show False by (simp add: split_on_append_sep)
  qed
qed (simp add: split_on_plain)

lemma version_url_None: "version_url v = None \<longleftrightarrow> CHR ''.'' \<notin> set v"
proof -
  have "version_url v = None \<longleftrightarrow> length (split_on (CHR ''.'') v) = 1"
    using split_on_not_Nil [of "CHR ''.''" v]
    by (cases "split_on (CHR ''.'') v" rule: list.exhaust [case_names Nil Cons])
      (simp_all add: version_url_def split: list.splits)
  then show ?thesis by (simp only: split_on_single_iff)
qed

text \<open>The branch of a release.\<close>

definition release_url :: "string \<Rightarrow> string \<Rightarrow> url" where
  "release_url major minor =
     ''https://raw.githubusercontent.com/arlonproj/arlon/v'' @ major @ ''.'' @ minor @ ''/version''"

lemma version_url_release:
  assumes "CHR ''.'' \<notin> set major" "CHR ''.'' \<notin> set minor"
  shows "version_url (join_with ''.'' (major # minor # parts)) = Some (release_url major minor)"
proof (cases parts)
  case Nil
  with assms show ?thesis
    by (simp add: version_url_def release_url_def split_on_append_sep split_on_plain)
next
  case (Cons p ps)
  with assms show ?thesis
    by (simp add: version_url_def release_url_def split_on_append_sep)
qed

text \<open>The libraries for the request and the printing do not panic themselves.\<close>

definition calm :: "('w, 'a) io \<Rightarrow> bool" where
  "calm m \<longleftrightarrow> (\<forall>w s w'. m w \<noteq> (Inl (Panic s), w'))"

lemma calm_lift: "calm (lift r)"
  by (cases r) (simp_all add: calm_def lift_def ret_def fail_def)

lemma calm_andThen:
  assumes "calm m" "\<And>x. calm (k x)"
  shows "calm (andThen m k)"
  unfolding calm_def
proof (intro allI)
  fix w s w'
  obtain r w1 where m: "m w = (r, w1)" by (cases "m w")
  show "andThen m k w \<noteq> (Inl (Panic s), w')"
  proof (cases r)
    case (Inl f)
    with m assms(1) show ?thesis by (cases f) (auto simp: calm_def io_defs)
  next
    case (Inr x)
    with m assms(2) [of x] show ?thesis by (simp add: calm_def io_defs)
  qed
qed

definition calm_version_env :: "('w, 'v) version_env \<Rightarrow> bool" where
  "calm_version_env env \<longleftrightarrow> (\<forall>u. calm (ve_Do env u)) \<and> calm (ve_ReadAll env) \<and> (\<forall>t. calm (ve_Print env t))"

text \<open>The same libraries with other answers to requests for other URLs.\<close>

definition answering_elsewhere :: "url \<Rightarrow> (url \<Rightarrow> go_error + unit) \<Rightarrow> (url \<Rightarrow> ('w, unit) io) \<Rightarrow> ('w, 'v) version_env \<Rightarrow>
    ('w, 'v) version_env" where
  "answering_elsewhere url new_request do_request env = env\<lparr>
     ve_NewRequest := (\<lambda>u. if u = url then ve_NewRequest env u else new_request u),
     ve_Do := (\<lambda>u. if u = url then ve_Do env u else do_request u)\<rparr>"

lemma version_check_panics:
  assumes "calm_version_env env"
  shows "(\<exists>s. fst (version_check env v w) = Inl (Panic s)) \<longleftrightarrow> CHR ''.'' \<notin> set v"
proof (cases "version_url v")
  case None
  then show ?thesis by (simp add: version_check_def panic_def version_url_None [symmetric])
next
  case (Some u)
  have "calm (version_check env v)"
    unfolding version_check_def Some option.case
    by (intro calm_andThen calm_lift) (use assms in \<open>simp_all add: calm_version_env_def\<close>)
  then have "fst (version_check env v w) \<noteq> Inl (Panic s)" for s
    unfolding calm_def by (metis prod.collapse)
  with Some show ?thesis by (simp add: version_url_None [symmetric])
qed

lemma answering_elsewhere_sel [simp]:
  "ve_NewRequest (answering_elsewhere url n d env) url = ve_NewRequest env url" "ve_Do (answering_elsewhere url n d env) url = ve_Do env url"
  "ve_ReadAll (answering_elsewhere url n d env) = ve_ReadAll env" "ve_Parse (answering_elsewhere url n d env) = ve_Parse env"
  "ve_Compare (answering_elsewhere url n d env) = ve_Compare env" "ve_String (answering_elsewhere url n d env) = ve_String env"
  "ve_Print (answering_elsewhere url n d env) = ve_Print env"
  by (simp_all add: answering_elsewhere_def)

lemma version_check_asks:
  assumes "version_url v = Some url"
  shows "version_check (answering_elsewhere url n d env) v = version_check env v"
    and "ve_NewRequest env url = Inr () \<Longrightarrow> ve_Do env url w = (Inl f, w1) \<Longrightarrow> version_check env v w = (Inl f, w1)"
proof -
  show "version_check (answering_elsewhere url n d env) v = version_check env v"
    unfolding version_check_def assms option.case answering_elsewhere_sel ..
  show "version_check env v w = (Inl f, w1)"
    if "ve_NewRequest env url = Inr ()" "ve_Do env url w = (Inl f, w1)"
    using that by (cases f) (simp_all add: version_check_def assms io_defs)
qed

text \<open>C39: Checking the version panics exactly when the version has no dot (such as the empty one of a build
  that was not stamped), before anything is asked or printed, provided the HTTP library and the
  printing do not panic. A version with at least two parts is looked up on the branch that these name,
  however many parts follow: what the server would answer for any other URL makes no difference, and
  a failing request for that one is what the check returns.\<close>

theorem version_check_bounds:
  assumes "calm_version_env env" "CHR ''.'' \<notin> set major" "CHR ''.'' \<notin> set minor"
  shows "((\<exists>s. fst (version_check env v w) = Inl (Panic s)) \<longleftrightarrow> CHR ''.'' \<notin> set v)
   \<and> (CHR ''.'' \<in> set v \<or> snd (version_check env v w) = w)
   \<and> version_check (answering_elsewhere (release_url major minor) n d env) (join_with ''.'' (major # minor # parts))
       = version_check env (join_with ''.'' (major # minor # parts))
   \<and> (ve_NewRequest env (release_url major minor) = Inr () \<longrightarrow> ve_Do env (release_url major minor) w = (Inl f, w1) \<longrightarrow>
        version_check env (join_with ''.'' (major # minor # parts)) w = (Inl f, w1))"
proof (intro conjI impI)
  show "CHR ''.'' \<in> set v \<or> snd (version_check env v w) = w"
    using version_url_None [of v] by (auto simp: version_check_def panic_def)
qed (use version_check_panics [OF assms(1)] version_check_asks [OF version_url_release [OF assms(2,3)]] in auto)

definition demo_version_env :: "(string list, string) version_env" where
  "demo_version_env = \<lparr>ve_NewRequest = (\<lambda>_. Inr ()), ve_Do = (\<lambda>u w. (Inr (), w @ [u])),
     ve_ReadAll = ret (''0.10.1'' @ [CHR 0x0A]), ve_Parse = Inr,
     ve_Compare = (\<lambda>a b. if a = b then 0 else 1), ve_String = (\<lambda>v. v), ve_Print = (\<lambda>s w. (Inr (), w @ [s]))\<rparr>"

text \<open>The same with a server that answers nothing.\<close>

definition deaf_version_env :: "(string list, string) version_env" where
  "deaf_version_env = demo_version_env\<lparr>ve_Do := (\<lambda>u w. (Inl (Err (ErrorText ''timeout'')), w @ [u]))\<rparr>"

lemma demo_version_env_calm: "calm_version_env demo_version_env" "calm_version_env deaf_version_env"
  by (simp_all add: calm_version_env_def calm_def demo_version_env_def deaf_version_env_def ret_def)

lemma version_check_bounds_witness:
  "(\<exists>s. version_check demo_version_env '''' [] = (Inl (Panic s), []))
   \<and> version_check (answering_elsewhere (release_url ''0'' ''10'') (\<lambda>u. Inl (ErrorText ''no'')) (\<lambda>u w. (Inl (Err (ErrorText ''no'')), w)) demo_version_env) ''0.10.0'' [] = (Inr (),
       [release_url ''0'' ''10'', ''Arlon CLI version 0.10.0 is outdated. New patch 0.10.1 available''])
   \<and> version_check deaf_version_env ''0.10.0'' []
       = (Inl (Err (ErrorText ''timeout'')), [release_url ''0'' ''10''])"
proof (intro conjI)
  have dots: "CHR ''.'' \<notin> set ''0''" "CHR ''.'' \<notin> set ''10''" by simp_all
  note facts = version_check_bounds [OF _ dots]
  show "\<exists>s. version_check demo_version_env '''' [] = (Inl (Panic s), [])"
    using facts [OF demo_version_env_calm(1), where v = "''''" and w = "[]"] by (auto simp: prod_eq_iff)
  have "version_check demo_version_env ''0.10.0'' [] = (Inr (),
       [release_url ''0'' ''10'', ''Arlon CLI version 0.10.0 is outdated. New patch 0.10.1 available''])"
    by code_simp
  then show "version_check (answering_elsewhere (release_url ''0'' ''10'') (\<lambda>u. Inl (ErrorText ''no'')) (\<lambda>u w. (Inl (Err (ErrorText ''no'')), w)) demo_version_env) ''0.10.0'' []
      = (Inr (), [release_url ''0'' ''10'', ''Arlon CLI version 0.10.0 is outdated. New patch 0.10.1 available''])"
    using facts [OF demo_version_env_calm(1), THEN conjunct2, THEN conjunct2, THEN conjunct1,
        of "\<lambda>u. Inl (ErrorText ''no'')" "\<lambda>u w. (Inl (Err (ErrorText ''no'')), w)" "[''0'']"] by simp
  show "version_check deaf_version_env ''0.10.0'' [] = (Inl (Err (ErrorText ''timeout'')), [release_url ''0'' ''10''])"
    using version_check_bounds [OF demo_version_env_calm(2) dots, where parts = "[''0'']" and w = "[]"
        and f = "Err (ErrorText ''timeout'')" and ?w1.0 = "[release_url ''0'' ''10'']"]
    by (simp add: deaf_version_env_def demo_version_env_def)
qed

end
