(* ===== verification/Cli.thy ===== *)
theory Cli
  imports Startup Initialize
begin

text \<open>
  The tree of commands that \<open>main.go\<close> puts together from the \<open>NewCommand\<close> functions of the packages under
  \<open>cmd\<close>: what each command is called, the flags it declares with their default values, how many arguments it
  takes, what runs before it and what it runs. The library \<open>cobra\<close> finds the command that a command line
  names, parses its flags and calls it; what is relied on of it is the predicate \<open>cobra_law\<close>. The flags that
  \<open>AddKubectlFlagsToCmd\<close> adds determine the client configuration, which is a parameter of each command. The
  groups that \<open>arlon init\<close> uses as well are in \<open>Command_Tree\<close>.
\<close>

section \<open>Controllers and the webhook\<close>

definition controller_flag_list :: "flag list" where
  "controller_flag_list = [StringVar ''metrics-bind-address'' '':8080'',
     StringVar ''health-probe-bind-address'' '':8081'', BoolVar ''leader-elect'' False]"

definition controller_flags_of :: "flag_values \<Rightarrow> controller_flags" where
  "controller_flags_of v = \<lparr>ctf_argocdConfigPath = str v ''argocd-config-path'',
     ctf_metricsAddr = str v ''metrics-bind-address'', ctf_probeAddr = str v ''health-probe-bind-address'',
     ctf_enableLeaderElection = flg v ''leader-elect''\<rparr>"

definition controller_decl :: command_decl where
  "controller_decl = (Use ''controller'')\<lparr>cd_Flags := StringVar ''argocd-config-path'' '''' # controller_flag_list\<rparr>"

definition controller_NewCommand :: "'w start_env \<Rightarrow> scheme \<Rightarrow> 'w command" where
  "controller_NewCommand env scheme = Command controller_decl None
     (\<lambda>v args. StartController env scheme (controller_flags_of v)) []"

definition callhomecontroller_decl :: command_decl where
  "callhomecontroller_decl = (Use ''callhomecontroller'')\<lparr>cd_Flags := controller_flag_list\<rparr>"

definition callhomecontroller_NewCommand :: "'w start_env \<Rightarrow> scheme \<Rightarrow> 'w command" where
  "callhomecontroller_NewCommand env scheme = Command callhomecontroller_decl None
     (\<lambda>v args. StartCallHomeController env scheme (controller_flags_of v)) []"

definition appprofilecontroller_decl :: command_decl where
  "appprofilecontroller_decl = (Use ''appprofilecontroller'')\<lparr>cd_Flags :=
     StringVar ''argocd-config-path'' '''' # controller_flag_list\<rparr>"

definition appprofilecontroller_NewCommand :: "'w start_env \<Rightarrow> scheme \<Rightarrow> 'w command" where
  "appprofilecontroller_NewCommand env scheme = Command appprofilecontroller_decl None
     (\<lambda>v args. StartAppProfileController env scheme (controller_flags_of v)) []"

definition clustercontroller_decl :: command_decl where
  "clustercontroller_decl = (Use ''clustercontroller'')\<lparr>cd_KubectlFlags := True,
     cd_Flags := StringVar ''argocd-config-path'' '''' # controller_flag_list\<rparr>"

definition clustercontroller_NewCommand :: "'w start_env \<Rightarrow> scheme \<Rightarrow> ('w, 'w rest_config) io \<Rightarrow> 'w command" where
  "clustercontroller_NewCommand env scheme ClientConfig = Command clustercontroller_decl None
     (\<lambda>v args. clustercontroller_command env scheme ClientConfig (controller_flags_of v)) []"

text \<open>\<open>--port\<close> is registered with the global flags of the program, not with those of the command.\<close>

definition webhook_decl :: command_decl where
  "webhook_decl = Use ''webhook''"

definition webhook_NewCommand :: "'w start_env \<Rightarrow> scheme \<Rightarrow> nat \<Rightarrow> 'w command" where
  "webhook_NewCommand env scheme port = Command webhook_decl None (\<lambda>v args. webhook_Start env scheme port) []"

definition listclusters_decl :: command_decl where
  "listclusters_decl = Use ''listclusters''"

definition list_clusters_NewCommand ::
  "'w start_env \<Rightarrow> (argo_cluster \<Rightarrow> cluster_details) \<Rightarrow> (string list list \<Rightarrow> ('w, unit) io) \<Rightarrow> 'w command" where
  "list_clusters_NewCommand env details table = Command listclusters_decl None (\<lambda>v args. listClusters env details table) []"


section \<open>Bundles and profiles\<close>

definition bundle_flags_of :: "flag_values \<Rightarrow> bundle_flags" where
  "bundle_flags_of v = \<lparr>bf_ns = str v ''ns'', bf_fromFile = str v ''from-file'', bf_repoUrl = str v ''repo-url'',
     bf_repoAlias = str v ''repo-alias'', bf_repoPath = str v ''repo-path'', bf_repoRevision = str v ''repo-revision'',
     bf_srcType = str v ''srctype'', bf_desc = str v ''desc'', bf_tags = str v ''tags''\<rparr>"

definition createBundle_decl :: command_decl where
  "createBundle_decl = (Use ''create'')\<lparr>cd_ExactArgs := Some 1, cd_KubectlFlags := True,
     cd_Flags := [StringVar ''ns'' ''arlon'', StringVar ''from-file'' '''', StringVar ''repo-url'' '''',
       StringVar ''repo-alias'' RepoDefaultCtx, StringVar ''repo-path'' '''', StringVar ''repo-revision'' '''',
       StringVar ''srctype'' '''', StringVar ''desc'' '''', StringVar ''tags'' ''''],
     cd_MutuallyExclusive := [[''repo-alias'', ''repo-url'', ''from-file'']]\<rparr>"

definition createBundleCommand :: "'w cli_env \<Rightarrow> 'w command" where
  "createBundleCommand env = Command createBundle_decl None
     (\<lambda>v args. with_arg args 0 (cmd_bundle_create env (bundle_flags_of v))) []"

definition updateBundle_decl :: command_decl where
  "updateBundle_decl = (Use ''update'')\<lparr>cd_ExactArgs := Some 1, cd_KubectlFlags := True,
     cd_Flags := [StringVar ''ns'' ''arlon'', StringVar ''from-file'' '''', StringVar ''repo-url'' '''',
       StringVar ''repo-alias'' '''', StringVar ''repo-path'' '''', StringVar ''desc'' '''', StringVar ''tags'' ''''],
     cd_MutuallyExclusive := [[''from-file'', ''repo-alias'', ''repo-url'']]\<rparr>"

definition updateBundleCommand :: "'w cli_env \<Rightarrow> 'w command" where
  "updateBundleCommand env = Command updateBundle_decl None
     (\<lambda>v args. with_arg args 0 (cmd_bundle_update env (bundle_flags_of v))) []"

definition one_name_decl :: "string \<Rightarrow> string \<Rightarrow> string \<Rightarrow> command_decl" where
  "one_name_decl use ns value = (Use use)\<lparr>cd_ExactArgs := Some 1, cd_KubectlFlags := True, cd_Flags := [StringVar ns value]\<rparr>"

definition listing_decl :: "string \<Rightarrow> string \<Rightarrow> command_decl" where
  "listing_decl ns value = (Use ''list'')\<lparr>cd_KubectlFlags := True, cd_Flags := [StringVar ns value]\<rparr>"

definition deleteBundleCommand :: "'w cli_env \<Rightarrow> 'w command" where
  "deleteBundleCommand env = Command (one_name_decl ''delete'' ''ns'' ''arlon'') None
     (\<lambda>v args. with_arg args 0 (cmd_bundle_delete env (str v ''ns''))) []"

definition dumpBundleCommand :: "'w cli_env \<Rightarrow> 'w command" where
  "dumpBundleCommand env = Command (one_name_decl ''dump'' ''ns'' ''arlon'') None
     (\<lambda>v args. with_arg args 0 (cmd_bundle_dump env (str v ''ns''))) []"

definition listBundlesCommand :: "'w cli_env \<Rightarrow> 'w command" where
  "listBundlesCommand env = Command (listing_decl ''ns'' ''arlon'') None (\<lambda>v args. cmd_bundle_list env (str v ''ns'')) []"

definition bundle_decl :: command_decl where
  "bundle_decl = (Use ''bundle'')\<lparr>cd_Aliases := [''bundles'']\<rparr>"

definition bundle_NewCommand :: "'w cli_env \<Rightarrow> (string \<Rightarrow> ('w, unit) io) \<Rightarrow> 'w command" where
  "bundle_NewCommand env Usage = Command bundle_decl None (group_run Usage bundle_decl)
     [listBundlesCommand env, dumpBundleCommand env, createBundleCommand env, deleteBundleCommand env,
      updateBundleCommand env]"

definition profile_flags_of :: "flag_values \<Rightarrow> profile_flags" where
  "profile_flags_of v = \<lparr>pfl_argocdNs = str v ''argocd-ns'', pfl_arlonNs = str v ''arlon-ns'', pfl_desc = str v ''desc'',
     pfl_bundles = strs v ''bundles'', pfl_tags = str v ''tags'', pfl_repoUrl = str v ''repo-url'',
     pfl_repoAlias = str v ''repo-alias'', pfl_repoBasePath = str v ''repo-base-path'',
     pfl_repoBranch = str v ''repo-branch'', pfl_overrides = elements (strs v ''param'')\<rparr>"

definition createProfile_decl :: command_decl where
  "createProfile_decl = (Use ''create'')\<lparr>cd_ExactArgs := Some 1, cd_KubectlFlags := True,
     cd_Flags := [StringVar ''arlon-ns'' ''arlon'', StringVar ''argocd-ns'' ''argocd'', StringVar ''desc'' '''',
       StringSliceVar ''bundles'' None, StringVar ''tags'' '''', StringVar ''repo-url'' '''', BoolVar ''static'' False,
       StringVar ''repo-alias'' RepoDefaultCtx, StringVar ''repo-base-path'' ''profiles'', StringVar ''repo-branch'' ''main'',
       StringArrayVarP ''param'' ''p'' None],
     cd_MutuallyExclusive := [[''static'', ''repo-url'', ''repo-alias'']], cd_Required := [''bundles'']\<rparr>"

definition createProfileCommand :: "'w cli_env \<Rightarrow> 'w command" where
  "createProfileCommand env = Command createProfile_decl None
     (\<lambda>v args. with_arg args 0 (cmd_profile_create env (profile_flags_of v) (flg v ''static''))) []"

definition updateProfile_decl :: command_decl where
  "updateProfile_decl = (Use ''update'')\<lparr>cd_ExactArgs := Some 1, cd_KubectlFlags := True,
     cd_Flags := [StringVar ''arlon-ns'' ''arlon'', StringVar ''argocd-ns'' ''argocd'', StringVar ''desc'' '''',
       StringSliceVar ''bundles'' None, StringVar ''tags'' '''', BoolVar ''clear'' False,
       StringArrayVarP ''param'' ''p'' None]\<rparr>"

definition updateProfileCommand :: "'w cli_env \<Rightarrow> 'w command" where
  "updateProfileCommand env = Command updateProfile_decl None
     (\<lambda>v args. with_arg args 0 (cmd_profile_update env (profile_flags_of v) (flg v ''clear''))) []"

definition deleteProfileCommand :: "'w cli_env \<Rightarrow> 'w command" where
  "deleteProfileCommand env = Command (one_name_decl ''delete'' ''ns'' ''arlon'') None
     (\<lambda>v args. with_arg args 0 (cmd_profile_delete env (str v ''ns''))) []"

definition listProfilesCommand :: "'w cli_env \<Rightarrow> 'w command" where
  "listProfilesCommand env = Command (listing_decl ''ns'' ''arlon'') None (\<lambda>v args. cmd_profile_list env (str v ''ns'')) []"

definition profile_decl :: command_decl where
  "profile_decl = (Use ''profile'')\<lparr>cd_Aliases := [''profiles'']\<rparr>"

definition profile_NewCommand :: "'w cli_env \<Rightarrow> (string \<Rightarrow> ('w, unit) io) \<Rightarrow> 'w command" where
  "profile_NewCommand env Usage = Command profile_decl None (group_run Usage profile_decl)
     [listProfilesCommand env, createProfileCommand env, deleteProfileCommand env, updateProfileCommand env]"


section \<open>Clusters\<close>

text \<open>The group tries the token out before any of its commands.\<close>

definition cluster_checkForArgocd :: "'w start_env \<Rightarrow> string \<Rightarrow> ('w, unit) io" where
  "cluster_checkForArgocd env name =
     andThen (NewArgocdClientOrDie (se_DefaultLocalConfigPath env) (se_NewArgocdClient env) '''') (\<lambda>argocdClient.
     CheckError (argo_NewApplicationClient argocdClient) (\<lambda>appIf.
     or_exit ''ArgoCD auth token has expired....Login to ArgoCD again''
       (appIf_List appIf ''managed-by=arlon,arlon-type=cluster'') (\<lambda>_. ret ())))"

definition create_flags_of :: "flag_values \<Rightarrow> create_flags" where
  "create_flags_of v = \<lparr>cf_argocdNs = str v ''argocd-ns'', cf_arlonNs = str v ''arlon-ns'',
     cf_arlonRepoUrl = str v ''arlon-repo-url'', cf_arlonRepoRevision = str v ''arlon-repo-revision'',
     cf_arlonRepoPath = str v ''arlon-repo-path'', cf_patchRepoUrl = str v ''patch-repo-url'',
     cf_patchRepoPath = str v ''patch-repo-path'', cf_patchRepoRevision = str v ''patch-repo-revision'',
     cf_clusterRepoUrl = str v ''repo-url'', cf_repoAlias = str v ''repo-alias'',
     cf_clusterRepoRevision = str v ''repo-revision'', cf_clusterRepoPath = str v ''repo-path'',
     cf_clusterName = str v ''cluster-name'', cf_overridesPath = str v ''overrides-path'',
     cf_outputYaml = flg v ''output-yaml'', cf_profileName = str v ''profile'',
     cf_gen2CASEnabled = flg v ''autoscaler''\<rparr>"

definition createCluster_decl :: command_decl where
  "createCluster_decl = (Use ''create'')\<lparr>cd_KubectlFlags := True,
     cd_Flags := [argocd_flag, arlon_flag, StringVar ''arlon-repo-url'' ''https://github.com/arlonproj/arlon.git'',
       StringVar ''arlon-repo-revision'' ''v0.10.0'', StringVar ''arlon-repo-path'' ''pkg/cluster/manifests'',
       StringVar ''patch-repo-url'' '''', StringVar ''patch-repo-path'' '''', StringVar ''repo-url'' '''',
       StringVar ''repo-alias'' RepoDefaultCtx, StringVar ''repo-revision'' ''main'',
       StringVar ''patch-repo-revision'' ''main'', StringVar ''repo-path'' '''', StringVar ''cluster-name'' '''',
       StringVar ''overrides-path'' '''', BoolVar ''output-yaml'' False, StringVar ''profile'' '''',
       BoolVar ''autoscaler'' False],
     cd_Required := [''cluster-name''], cd_MutuallyExclusive := [[''repo-url'', ''repo-alias'']]\<rparr>"

definition createClusterCommand :: "'w cli_env \<Rightarrow> 'w command" where
  "createClusterCommand env = Command createCluster_decl None (\<lambda>v args. cmd_create env (create_flags_of v)) []"

definition deploy_flags_of :: "flag_values \<Rightarrow> deploy_flags" where
  "deploy_flags_of v = \<lparr>df_argocdNs = str v ''argocd-ns'', df_arlonNs = str v ''arlon-ns'', df_repoUrl = str v ''repo-url'',
     df_repoAlias = str v ''repo-alias'', df_repoBranch = str v ''repo-branch'', df_basePath = str v ''repo-path'',
     df_clusterName = str v ''cluster-name'', df_clusterSpecName = str v ''cluster-spec'',
     df_profileName = str v ''profile'', df_outputYaml = flg v ''output-yaml''\<rparr>"

definition deployCluster_decl :: command_decl where
  "deployCluster_decl = (Use ''deploy'')\<lparr>cd_KubectlFlags := True,
     cd_Flags := [argocd_flag, arlon_flag, StringVar ''repo-url'' '''', StringVar ''repo-alias'' RepoDefaultCtx,
       StringVar ''repo-branch'' ''main'', StringVar ''cluster-name'' '''', StringVar ''profile'' '''',
       StringVar ''cluster-spec'' '''', StringVar ''repo-path'' ''clusters'', BoolVar ''output-yaml'' False],
     cd_Required := [''cluster-name''], cd_MutuallyExclusive := [[''repo-url'', ''repo-alias'']]\<rparr>"

definition deployClusterCommand :: "'w cli_env \<Rightarrow> 'w command" where
  "deployClusterCommand env = Command deployCluster_decl None (\<lambda>v args. cmd_deploy env (deploy_flags_of v)) []"

text \<open>The flags of four commands; one that a command does not declare is empty.\<close>

definition update_flags_of :: "flag_values \<Rightarrow> update_flags" where
  "update_flags_of v = \<lparr>uf_argocdNs = str v ''argocd-ns'', uf_arlonNs = str v ''arlon-ns'',
     uf_clusterSpecName = str v ''cluster-spec'', uf_profileName = str v ''profile'', uf_outputYaml = flg v ''output-yaml''\<rparr>"

definition updateCluster_decl :: command_decl where
  "updateCluster_decl = (Use ''update <clustername> [flags]'')\<lparr>cd_ExactArgs := Some 1, cd_KubectlFlags := True,
     cd_Flags := [argocd_flag, arlon_flag, StringVar ''profile'' '''', StringVar ''cluster-spec'' '''',
       BoolVar ''output-yaml'' False]\<rparr>"

definition updateClusterCommand :: "'w cli_env \<Rightarrow> 'w command" where
  "updateClusterCommand env = Command updateCluster_decl None
     (\<lambda>v args. with_arg args 0 (cmd_update env (update_flags_of v))) []"

definition ngupdateCluster_decl :: command_decl where
  "ngupdateCluster_decl = (Use ''ngupdate <clustername> [flags]'')\<lparr>cd_ExactArgs := Some 1, cd_KubectlFlags := True,
     cd_Flags := [argocd_flag, arlon_flag, StringVar ''profile'' '''', BoolVar ''delete-profile'' False]\<rparr>"

definition ngupdateClusterCommand :: "'w cli_env \<Rightarrow> 'w command" where
  "ngupdateClusterCommand env = Command ngupdateCluster_decl None
     (\<lambda>v args. with_arg args 0 (cmd_ngupdate env (update_flags_of v) (flg v ''delete-profile''))) []"

definition deleteCluster_decl :: command_decl where
  "deleteCluster_decl = (Use ''delete <clustername> [flags]'')\<lparr>cd_ExactArgs := Some 1, cd_KubectlFlags := True,
     cd_Flags := [argocd_flag, arlon_flag]\<rparr>"

definition deleteClusterCommand :: "'w cli_env \<Rightarrow> 'w command" where
  "deleteClusterCommand env = Command deleteCluster_decl None
     (\<lambda>v args. with_arg args 0 (cmd_delete env (str v ''argocd-ns''))) []"

definition getCluster_decl :: command_decl where
  "getCluster_decl = (Use ''get <clustername> [flags]'')\<lparr>cd_ExactArgs := Some 1, cd_KubectlFlags := True,
     cd_Flags := [argocd_flag, arlon_flag]\<rparr>"

definition getClusterCommand :: "'w cli_env \<Rightarrow> 'w command" where
  "getClusterCommand env = Command getCluster_decl None
     (\<lambda>v args. with_arg args 0 (cmd_get env (str v ''argocd-ns''))) []"

definition listClustersCommand :: "'w cli_env \<Rightarrow> 'w command" where
  "listClustersCommand env = Command (listing_decl ''argocd-ns'' ''argocd'') None
     (\<lambda>v args. cmd_list env (str v ''argocd-ns'')) []"

definition manageCluster_decl :: command_decl where
  "manageCluster_decl = (Use ''manage <clustername> <profilename> [flags]'')\<lparr>cd_ExactArgs := Some 2,
     cd_KubectlFlags := True, cd_Flags := [argocd_flag, arlon_flag]\<rparr>"

definition manageClusterCommand :: "'w cli_env \<Rightarrow> 'w command" where
  "manageClusterCommand env = Command manageCluster_decl None
     (\<lambda>v args. with_arg args 0 (\<lambda>clusterName. with_arg args 1 (cmd_manage env (update_flags_of v) clusterName))) []"

definition unmanageClusterCommand :: "'w cli_env \<Rightarrow> 'w command" where
  "unmanageClusterCommand env =
     Command (one_name_decl ''unmanage <clustername> [flags]'' ''argocd-ns'' ''argocd'') None
       (\<lambda>v args. with_arg args 0 (cmd_unmanage env (str v ''argocd-ns''))) []"

definition setAppProfiles_decl :: command_decl where
  "setAppProfiles_decl = (Use ''setappprofiles <clustername> <comma_separated_app_profiles>'')\<lparr>cd_ExactArgs := Some 2\<rparr>"

definition setAppProfilesCommand :: "'w cli_env \<Rightarrow> 'w command" where
  "setAppProfilesCommand env = Command setAppProfiles_decl None
     (\<lambda>v args. with_arg args 0 (\<lambda>clusterName. with_arg args 1 (cmd_setappprofiles env clusterName))) []"

text \<open>\<open>deploy\<close> and \<open>update\<close> are declared but not added.\<close>

definition cluster_decl :: command_decl where
  "cluster_decl = (Use ''cluster'')\<lparr>cd_Aliases := [''clusters'']\<rparr>"

definition cluster_NewCommand :: "'w start_env \<Rightarrow> 'w cli_env \<Rightarrow> (string \<Rightarrow> ('w, unit) io) \<Rightarrow> 'w command" where
  "cluster_NewCommand start env Usage = Command cluster_decl (Some (cluster_checkForArgocd start)) (group_run Usage cluster_decl)
     [listClustersCommand env, manageClusterCommand env, unmanageClusterCommand env, createClusterCommand env,
      getClusterCommand env, deleteClusterCommand env, ngupdateClusterCommand env, setAppProfilesCommand env]"


section \<open>Cluster specifications\<close>

definition spec_flags_of :: "flag_values \<Rightarrow> spec_flags" where
  "spec_flags_of v = \<lparr>sf_arlonNs = str v ''arlon-ns'', sf_desc = str v ''desc'', sf_tags = str v ''tags'',
     sf_apiProvider = str v ''api'', sf_cloudProvider = str v ''cloud'', sf_clusterType = str v ''type'',
     sf_kubernetesVersion = str v ''kubeversion'', sf_nodeType = str v ''nodetype'', sf_nodeCount = num v ''nodecount'',
     sf_masterNodeCount = num v ''masternodecount'', sf_sshKeyName = str v ''sshkey'', sf_region = str v ''region'',
     sf_clusterAutoscalerEnabled = flg v ''casenabled'', sf_clusterAutoscalerMinNodes = num v ''casmin'',
     sf_clusterAutoscalerMaxNodes = num v ''casmax''\<rparr>"

definition createClusterspec_decl :: command_decl where
  "createClusterspec_decl = (Use ''create'')\<lparr>cd_ExactArgs := Some 1, cd_KubectlFlags := True,
     cd_Flags := [arlon_flag, StringVar ''desc'' '''', StringVar ''api'' ''capi'', StringVar ''tags'' '''',
       StringVar ''cloud'' ''aws'', StringVar ''type'' ''eks'', StringVar ''kubeversion'' ''v1.18.16'',
       StringVar ''nodetype'' ''t3.large'', StringVar ''sshkey'' '''', StringVar ''region'' '''', IntVar ''nodecount'' 2,
       IntVar ''masternodecount'' 3, BoolVar ''casenabled'' False, IntVar ''casmin'' 1, IntVar ''casmax'' 9],
     cd_Required := [''sshkey'', ''region'']\<rparr>"

definition createClusterspecCommand :: "'w cli_env \<Rightarrow> 'w command" where
  "createClusterspecCommand env = Command createClusterspec_decl None
     (\<lambda>v args. with_arg args 0 (cmd_clusterspec_create env (spec_flags_of v))) []"

definition updateClusterspec_decl :: command_decl where
  "updateClusterspec_decl = (Use ''update <clusterspec name> [flags]'')\<lparr>cd_ExactArgs := Some 1, cd_KubectlFlags := True,
     cd_Flags := [arlon_flag, StringVar ''desc'' '''', StringVar ''tags'' '''', StringVar ''kubeversion'' '''',
       StringVar ''nodetype'' '''', IntVar ''nodecount'' 0, IntVar ''masternodecount'' 0, BoolVar ''disablecas'' False,
       BoolVar ''enablecas'' False, IntVar ''casmin'' 1, IntVar ''casmax'' 9]\<rparr>"

definition updateClusterspecCommand :: "'w cli_env \<Rightarrow> 'w command" where
  "updateClusterspecCommand env = Command updateClusterspec_decl None
     (\<lambda>v args. with_arg args 0
       (cmd_clusterspec_update env (spec_flags_of v) (flg v ''enablecas'') (flg v ''disablecas''))) []"

definition deleteClusterspecCommand :: "'w cli_env \<Rightarrow> 'w command" where
  "deleteClusterspecCommand env = Command (one_name_decl ''delete'' ''ns'' ''arlon'') None
     (\<lambda>v args. with_arg args 0 (cmd_clusterspec_delete env (str v ''ns''))) []"

definition listClusterspecsCommand :: "'w cli_env \<Rightarrow> 'w command" where
  "listClusterspecsCommand env = Command (listing_decl ''ns'' ''arlon'') None
     (\<lambda>v args. cmd_clusterspec_list env (str v ''ns'')) []"

text \<open>A group of the first generation that the main program does not add.\<close>

definition clusterspec_decl :: command_decl where
  "clusterspec_decl = Use ''clusterspec''"

definition clusterspec_NewCommand :: "'w cli_env \<Rightarrow> (string \<Rightarrow> ('w, unit) io) \<Rightarrow> 'w command" where
  "clusterspec_NewCommand env Usage = Command clusterspec_decl None (group_run Usage clusterspec_decl)
     [listClusterspecsCommand env, createClusterspecCommand env, updateClusterspecCommand env,
      deleteClusterspecCommand env]"

section \<open>Applications and their profiles\<close>

definition app_flags_of :: "flag_values \<Rightarrow> app_flags" where
  "app_flags_of v = \<lparr>af_argocdNs = str v ''argocd-ns'', af_repoRevision = str v ''repo-revision'',
     af_destNs = str v ''dest-ns'', af_project = str v ''project'', af_outputYaml = flg v ''output-yaml'',
     af_autoSync = flg v ''autosync'', af_autoPrune = flg v ''autoprune''\<rparr>"

definition createApp_decl :: command_decl where
  "createApp_decl = (Use (''create appName repoUrl repoPath [--repo-revision revision]''
       @ ''[--output-yaml][--autosync][--autoprune][other flags]''))\<lparr>cd_ExactArgs := Some 3, cd_KubectlFlags := True,
     cd_Flags := [argocd_flag, StringVar ''repo-revision'' ''HEAD'', StringVar ''dest-ns'' ''default'',
       StringVar ''project'' ''default'', BoolVar ''output-yaml'' False, BoolVar ''autosync'' True, BoolVar ''autoprune'' True]\<rparr>"

definition createAppCommand :: "'w cli_env \<Rightarrow> 'w command" where
  "createAppCommand env = Command createApp_decl None
     (\<lambda>v args. with_arg args 0 (\<lambda>appName. with_arg args 1 (\<lambda>repoUrl. with_arg args 2
       (cmd_app_create env (app_flags_of v) appName repoUrl)))) []"

definition deleteAppCommand :: "'w cli_env \<Rightarrow> 'w command" where
  "deleteAppCommand env = Command (one_name_decl ''delete appName'' ''argocd-ns'' ''argocd'') None
     (\<lambda>v args. with_arg args 0 (cmd_app_delete env (str v ''argocd-ns''))) []"

definition listAppsCommand :: "'w cli_env \<Rightarrow> 'w command" where
  "listAppsCommand env = Command (listing_decl ''ns'' ''argocd'') None (\<lambda>v args. cmd_app_list env (str v ''ns'')) []"

definition app_decl :: command_decl where
  "app_decl = (Use ''app'')\<lparr>cd_Aliases := [''apps'']\<rparr>"

definition app_NewCommand :: "'w cli_env \<Rightarrow> (string \<Rightarrow> ('w, unit) io) \<Rightarrow> 'w command" where
  "app_NewCommand env Usage = Command app_decl None (group_run Usage app_decl)
     [listAppsCommand env, createAppCommand env, deleteAppCommand env]"

definition listAppProfilesCommand :: "'w cli_env \<Rightarrow> 'w command" where
  "listAppProfilesCommand env = Command (listing_decl ''ns'' ''arlon'') None
     (\<lambda>v args. cmd_appprofile_list env (str v ''ns'')) []"

definition appprofile_decl :: command_decl where
  "appprofile_decl = (Use ''appprofile'')\<lparr>cd_Aliases := [''appprofiles'']\<rparr>"

definition appprofile_NewCommand :: "'w cli_env \<Rightarrow> (string \<Rightarrow> ('w, unit) io) \<Rightarrow> 'w command" where
  "appprofile_NewCommand env Usage = Command appprofile_decl None (group_run Usage appprofile_decl)
     [listAppProfilesCommand env]"

section \<open>Installation, version\<close>

definition verify_decl :: command_decl where
  "verify_decl = (Use ''verify'')\<lparr>cd_KubectlFlags := True\<rparr>"

definition verify_NewCommand :: "'w verify_env \<Rightarrow> 'w command" where
  "verify_NewCommand env = Command verify_decl None (\<lambda>v args. andThen (verify env) (\<lambda>installed. ret ())) []"

definition init_decl :: command_decl where
  "init_decl = (Use ''init'')\<lparr>cd_KubectlFlags := True,
     cd_Flags := [BoolVarP ''no-confirm'' ''y'' False, BoolVarP ''examples'' ''e'' False, StringVar ''username'' '''',
       StringVar ''password'' '''', StringVar ''repoUrl'' ''''],
     cd_RequiredTogether := [[''examples'', ''username'', ''password'', ''repoUrl'']]\<rparr>"

definition init_NewCommand :: "('w, 'd) init_tools \<Rightarrow> 'w command" where
  "init_NewCommand t = Command init_decl None
     (\<lambda>v args. init_command t (flg v ''no-confirm'') (flg v ''examples'') (str v ''username'') (str v ''password'')
       (str v ''repoUrl'')) []"

definition check_decl :: command_decl where
  "check_decl = Use ''check''"

definition check_command :: "('w, 'v) version_env \<Rightarrow> string \<Rightarrow> 'w command" where
  "check_command env cliVersion = Command check_decl None (\<lambda>v args. version_check env cliVersion) []"

definition version_decl :: command_decl where
  "version_decl = Use ''version''"

definition version_NewCommand :: "('w, 'v) version_env \<Rightarrow> string \<Rightarrow> 'w command" where
  "version_NewCommand env cliVersion = Command version_decl None
     (\<lambda>v args. ve_Print env (''Arlon CLI Version: '' @ cliVersion)) [check_command env cliVersion]"


section \<open>The tree of the program\<close>

text \<open>The worlds of the commands; \<open>ar_Usage\<close> prints the usage of the command of that name.\<close>

record ('w, 'd, 'v) arlon_env =
  ar_Cli :: "'w cli_env"
  ar_Start :: "'w start_env"
  ar_Init :: "('w, 'd) init_tools"
  ar_Installer :: "'w install_env"
  ar_Verify :: "'w verify_env"
  ar_Version :: "('w, 'v) version_env"
  ar_cliVersion :: string
  ar_Details :: "argo_cluster \<Rightarrow> cluster_details"
  ar_Usage :: "string \<Rightarrow> ('w, unit) io"

definition arlon_decl :: command_decl where
  "arlon_decl = Use ''arlon''"

definition arlon_command :: "('w, 'd, 'v) arlon_env \<Rightarrow> scheme \<Rightarrow> nat \<Rightarrow> 'w command" where
  "arlon_command env scheme port =
     Command arlon_decl (Some (checkForArgocd (ar_Start env))) (group_run (ar_Usage env) arlon_decl)
       [controller_NewCommand (ar_Start env) scheme, callhomecontroller_NewCommand (ar_Start env) scheme,
        appprofilecontroller_NewCommand (ar_Start env) scheme,
        clustercontroller_NewCommand (ar_Start env) scheme (ce_ClientConfig (ar_Cli env)),
        list_clusters_NewCommand (ar_Start env) (ar_Details env) (ce_Table (ar_Cli env)),
        bundle_NewCommand (ar_Cli env) (ar_Usage env), profile_NewCommand (ar_Cli env) (ar_Usage env),
        cluster_NewCommand (ar_Start env) (ar_Cli env) (ar_Usage env), webhook_NewCommand (ar_Start env) scheme port,
        basecluster_NewCommand (ar_Cli env) (ar_Usage env), git_NewCommand (ce_Gitrepo (ar_Cli env)) (ar_Usage env),
        verify_NewCommand (ar_Verify env), install_NewCommand (ar_Installer env),
        app_NewCommand (ar_Cli env) (ar_Usage env), appprofile_NewCommand (ar_Cli env) (ar_Usage env),
        init_NewCommand (ar_Init env), version_NewCommand (ar_Version env) (ar_cliVersion env)]"

section \<open>The global flags\<close>

text \<open>
  The main program parses the flags in front of the name of a command with the standard library: some flags
  are registered by libraries, \<open>--port\<close> by the webhook. \<open>gl_IsBool\<close> tells the registered names and which are
  boolean, \<open>gl_Set\<close> sets one, \<open>gl_Defaults\<close> are the values before.
\<close>

record 'g global_flags =
  gl_IsBool :: "string \<Rightarrow> bool option"
  gl_Set :: "string \<Rightarrow> string \<Rightarrow> 'g \<Rightarrow> go_error + 'g"
  gl_Defaults :: 'g
  gl_Port :: "'g \<Rightarrow> nat"

datatype flag_failure = HelpRequested | BadSyntax string | NotDefined string | NeedsArgument string
  | InvalidValue string string go_error

text \<open>\<open>name=value\<close>, cut at the first \<open>=\<close>.\<close>

definition cut_value :: "string \<Rightarrow> string \<times> string option" where
  "cut_value s = (takeWhile (\<lambda>c. c \<noteq> CHR ''='') s,
     (case dropWhile (\<lambda>c. c \<noteq> CHR ''='') s of [] \<Rightarrow> None | _ # v \<Rightarrow> Some v))"

definition flag_Set :: "'g global_flags \<Rightarrow> string \<Rightarrow> string \<Rightarrow> 'g \<Rightarrow> flag_failure + 'g" where
  "flag_Set gl name v g = (case gl_Set gl name v g of Inl e \<Rightarrow> Inl (InvalidValue name v e) | Inr g' \<Rightarrow> Inr g')"

text \<open>\<open>flag.Parse\<close>: it stops before the first word that is no flag, and after \<open>--\<close>.\<close>

fun flag_Parse :: "'g global_flags \<Rightarrow> 'g \<Rightarrow> string list \<Rightarrow> flag_failure + 'g \<times> string list" where
  "flag_Parse gl g [] = Inr (g, [])"
| "flag_Parse gl g (s # args) =
     (if length s < 2 \<or> hd s \<noteq> CHR ''-'' then Inr (g, s # args)
      else if s = ''--'' then Inr (g, args)
      else
        let text = (if s ! 1 = CHR ''-'' then drop 2 s else drop 1 s) in
        if text = '''' \<or> hd text = CHR ''-'' \<or> hd text = CHR ''='' then Inl (BadSyntax s)
        else
          let (name, value) = cut_value text in
          (case gl_IsBool gl name of
             None \<Rightarrow> Inl (if name = ''help'' \<or> name = ''h'' then HelpRequested else NotDefined name)
           | Some True \<Rightarrow>
               (case flag_Set gl name (case value of None \<Rightarrow> ''true'' | Some v \<Rightarrow> v) g of
                  Inl e \<Rightarrow> Inl e | Inr g' \<Rightarrow> flag_Parse gl g' args)
           | Some False \<Rightarrow>
               (case (value, args) of
                  (Some v, _) \<Rightarrow> (case flag_Set gl name v g of Inl e \<Rightarrow> Inl e | Inr g' \<Rightarrow> flag_Parse gl g' args)
                | (None, v # rest) \<Rightarrow> (case flag_Set gl name v g of Inl e \<Rightarrow> Inl e | Inr g' \<Rightarrow> flag_Parse gl g' rest)
                | (None, []) \<Rightarrow> Inl (NeedsArgument name))))"

section \<open>Running a command line\<close>

definition called :: "string \<Rightarrow> 'w command \<Rightarrow> bool" where
  "called w c = (w = command_name (c_decl c) \<or> w \<in> set (cd_Aliases (c_decl c)))"

text \<open>The commands from the root to the one that the words name, by their names or aliases.\<close>

fun walk :: "'w command \<Rightarrow> string list \<Rightarrow> 'w command list option" where
  "walk c [] = Some [c]"
| "walk c (w # ws) = (case find (called w) (c_Commands c) of
     None \<Rightarrow> None | Some d \<Rightarrow> map_option ((#) c) (walk d ws))"

text \<open>The nearest \<open>PersistentPreRun\<close> on the way back to the root.\<close>

fun inherited :: "'w command list \<Rightarrow> (string \<Rightarrow> ('w, unit) io) option" where
  "inherited [] = None"
| "inherited (c # cs) = (case inherited cs of Some p \<Rightarrow> Some p | None \<Rightarrow> c_PersistentPreRun c)"

definition rules_ok :: "command_decl \<Rightarrow> string list \<Rightarrow> bool" where
  "rules_ok d changed \<longleftrightarrow>
     list_all (\<lambda>f. f \<in> set changed) (cd_Required d) \<and>
     list_all (\<lambda>g. length (filter (\<lambda>f. f \<in> set changed) g) \<le> 1) (cd_MutuallyExclusive d) \<and>
     list_all (\<lambda>g. filter (\<lambda>f. f \<in> set changed) g \<in> set [[], g]) (cd_RequiredTogether d)"

definition takes_args :: "command_decl \<Rightarrow> string list \<Rightarrow> bool" where
  "takes_args d args = (case cd_ExactArgs d of None \<Rightarrow> True | Some n \<Rightarrow> length args = n)"

fun same_kind :: "flag_value \<Rightarrow> flag_value \<Rightarrow> bool" where
  "same_kind (StringFlag _) (StringFlag _) = True"
| "same_kind (IntFlag _) (IntFlag _) = True"
| "same_kind (BoolFlag _) (BoolFlag _) = True"
| "same_kind (StringsFlag _) (StringsFlag _) = True"
| "same_kind _ _ = False"

text \<open>A flag that the line does not set has its default value, one that it sets has a value of its kind.\<close>

definition values_for :: "command_decl \<Rightarrow> string list \<Rightarrow> flag_values \<Rightarrow> bool" where
  "values_for d changed v \<longleftrightarrow> list_all (\<lambda>f. case v (flg_Name f) of
       None \<Rightarrow> False
     | Some x \<Rightarrow> same_kind x (flg_Value f) \<and> (flg_Name f \<notin> set changed \<longrightarrow> x = flg_Value f)) (cd_Flags d)"

text \<open>
  What \<open>cobra\<close> makes of a line: the words that name the command, the flags that the line sets, the values of
  the flags, the arguments. \<open>None\<close> is a line that it rejects, or answers with a help text, without running a
  command. The law is its documentation: the arguments are validated first; the nearest \<open>PersistentPreRun\<close>
  is called; then the rules about flags are checked; then the command runs. A line of words without flags
  is resolved with the default values.
\<close>

record resolution =
  rs_Path :: "string list"
  rs_Changed :: "string list"
  rs_Values :: flag_values
  rs_Args :: "string list"

record 'w cobra =
  cob_Resolve :: "'w command \<Rightarrow> string list \<Rightarrow> resolution option"
  cob_Execute :: "'w command \<Rightarrow> string list \<Rightarrow> ('w, unit) io"

definition before :: "'w command list \<Rightarrow> ('w, unit) io" where
  "before chain = (case inherited chain of None \<Rightarrow> ret () | Some p \<Rightarrow> p (command_name (c_decl (last chain))))"

definition run_resolved :: "'w command \<Rightarrow> resolution \<Rightarrow> go_error \<Rightarrow> ('w, unit) io" where
  "run_resolved c r e =
     (if rules_ok (c_decl c) (rs_Changed r) then c_Run c (rs_Values r) (rs_Args r) else fail e)"

definition called_with :: "'w command list \<Rightarrow> resolution \<Rightarrow> go_error \<Rightarrow> ('w, unit) io" where
  "called_with chain r e = andThen (before chain) (\<lambda>_. run_resolved (last chain) r e)"

definition plain_line :: "'w command \<Rightarrow> string list \<Rightarrow> string list \<Rightarrow> bool" where
  "plain_line c path args \<longleftrightarrow> path \<noteq> [] \<and> list_all (\<lambda>s. s \<noteq> '''' \<and> hd s \<noteq> CHR ''-'') (path @ args) \<and>
     (case walk c path of None \<Rightarrow> False
      | Some chain \<Rightarrow> takes_args (c_decl (last chain)) args \<and>
          (args = [] \<or> find (called (hd args)) (c_Commands (last chain)) = None))"

definition plain_resolution :: "'w command list \<Rightarrow> string list \<Rightarrow> string list \<Rightarrow> resolution" where
  "plain_resolution chain path args = \<lparr>rs_Path = path, rs_Changed = [],
     rs_Values = flag_defaults (cd_Flags (c_decl (last chain))), rs_Args = args\<rparr>"

definition cobra_law :: "('w \<Rightarrow> 'v) \<Rightarrow> 'w cobra \<Rightarrow> 'w command \<Rightarrow> bool" where
  "cobra_law V cob root \<longleftrightarrow>
     (\<forall>line. case cob_Resolve cob root line of
        None \<Rightarrow> steady V (cob_Execute cob root line)
      | Some r \<Rightarrow> \<exists>chain e. walk root (rs_Path r) = Some chain \<and> takes_args (c_decl (last chain)) (rs_Args r) \<and>
          values_for (c_decl (last chain)) (rs_Changed r) (rs_Values r) \<and>
          cob_Execute cob root line = called_with chain r e) \<and>
     (\<forall>path args. plain_line root path args \<longrightarrow>
        cob_Resolve cob root (path @ args) = Some (plain_resolution (the (walk root path)) path args))"

text \<open>\<open>main\<close>, after the packages have registered their types in the schemes.\<close>

definition main :: "('w, 'd, 'v) arlon_env \<Rightarrow> 'w cobra \<Rightarrow> 'g global_flags \<Rightarrow> string list \<Rightarrow> ('w, unit) io" where
  "main env cob gl argv =
     andThen (ctrlruntimeclient_init (se_AddToScheme (ar_Start env))) (\<lambda>_.
     andThen (controller_init (se_AddToScheme (ar_Start env))) (\<lambda>scheme.
     let g = (case gl_Set gl ''zap-log-level'' ''info'' (gl_Defaults gl) of Inl _ \<Rightarrow> gl_Defaults gl | Inr g \<Rightarrow> g) in
     case flag_Parse gl g argv of
       Inl HelpRequested \<Rightarrow> panic ''exit status 0''
     | Inl _ \<Rightarrow> panic ''exit status 2''
     | Inr (g, args) \<Rightarrow>
         attempt (cob_Execute cob (arlon_command env scheme (gl_Port gl g)) args) (\<lambda>_. panic ''exit status 1'') ret))"

end
