(* ===== verification/Flags.thy ===== *)
theory Flags
  imports Commands Startup Initialize_Correct
begin

text \<open>
  What the commands are given when no flag is: the default values of the flags that each \<open>NewCommand\<close>
  function declares, as a record of the flags of its command. The library parses the command line into
  such a record. A flag that a command does not have is empty here.
\<close>

section \<open>Cluster templates and clusters\<close>

definition template_defaults :: template_flags where
  "template_defaults = \<lparr>tf_argocdNs = ''argocd'', tf_repoUrl = '''', tf_repoAlias = RepoDefaultCtx,
     tf_repoRevision = ''main'', tf_repoPath = ''''\<rparr>"

text \<open>The defaults of \<open>--cas-min\<close> and \<open>--cas-max\<close>.\<close>

definition cas_defaults :: "int \<times> int" where
  "cas_defaults = (1, 9)"

definition create_defaults :: create_flags where
  "create_defaults = \<lparr>cf_argocdNs = ''argocd'', cf_arlonNs = ''arlon'',
     cf_arlonRepoUrl = ''https://github.com/arlonproj/arlon.git'', cf_arlonRepoRevision = ''v0.10.0'',
     cf_arlonRepoPath = ''pkg/cluster/manifests'', cf_patchRepoUrl = '''', cf_patchRepoPath = '''',
     cf_patchRepoRevision = ''main'', cf_clusterRepoUrl = '''', cf_repoAlias = RepoDefaultCtx,
     cf_clusterRepoRevision = ''main'', cf_clusterRepoPath = '''', cf_clusterName = '''', cf_overridesPath = '''',
     cf_outputYaml = False, cf_profileName = '''', cf_gen2CASEnabled = False\<rparr>"

definition deploy_defaults :: deploy_flags where
  "deploy_defaults = \<lparr>df_argocdNs = ''argocd'', df_arlonNs = ''arlon'', df_repoUrl = '''', df_repoAlias = RepoDefaultCtx,
     df_repoBranch = ''main'', df_basePath = ''clusters'', df_clusterName = '''', df_clusterSpecName = '''',
     df_profileName = '''', df_outputYaml = False\<rparr>"

definition update_defaults :: update_flags where
  "update_defaults = \<lparr>uf_argocdNs = ''argocd'', uf_arlonNs = ''arlon'', uf_clusterSpecName = '''',
     uf_profileName = '''', uf_outputYaml = False\<rparr>"

section \<open>Profiles and bundles\<close>

definition profile_create_defaults :: profile_flags where
  "profile_create_defaults = \<lparr>pfl_argocdNs = ''argocd'', pfl_arlonNs = ''arlon'', pfl_desc = '''', pfl_bundles = None,
     pfl_tags = '''', pfl_repoUrl = '''', pfl_repoAlias = RepoDefaultCtx, pfl_repoBasePath = ''profiles'',
     pfl_repoBranch = ''main'', pfl_overrides = []\<rparr>"

definition profile_update_defaults :: profile_flags where
  "profile_update_defaults = \<lparr>pfl_argocdNs = ''argocd'', pfl_arlonNs = ''arlon'', pfl_desc = '''', pfl_bundles = None,
     pfl_tags = '''', pfl_repoUrl = '''', pfl_repoAlias = '''', pfl_repoBasePath = '''', pfl_repoBranch = '''',
     pfl_overrides = []\<rparr>"

definition bundle_create_defaults :: bundle_flags where
  "bundle_create_defaults = \<lparr>bf_ns = ''arlon'', bf_fromFile = '''', bf_repoUrl = '''', bf_repoAlias = RepoDefaultCtx,
     bf_repoPath = '''', bf_repoRevision = '''', bf_srcType = '''', bf_desc = '''', bf_tags = ''''\<rparr>"

definition bundle_update_defaults :: bundle_flags where
  "bundle_update_defaults = \<lparr>bf_ns = ''arlon'', bf_fromFile = '''', bf_repoUrl = '''', bf_repoAlias = '''',
     bf_repoPath = '''', bf_repoRevision = '''', bf_srcType = '''', bf_desc = '''', bf_tags = ''''\<rparr>"

section \<open>Cluster specifications\<close>

definition spec_create_defaults :: spec_flags where
  "spec_create_defaults = \<lparr>sf_arlonNs = ''arlon'', sf_desc = '''', sf_tags = '''', sf_apiProvider = ''capi'',
     sf_cloudProvider = ''aws'', sf_clusterType = ''eks'', sf_kubernetesVersion = ''v1.18.16'', sf_nodeType = ''t3.large'',
     sf_nodeCount = 2, sf_masterNodeCount = 3, sf_sshKeyName = '''', sf_region = '''', sf_clusterAutoscalerEnabled = False,
     sf_clusterAutoscalerMinNodes = 1, sf_clusterAutoscalerMaxNodes = 9\<rparr>"

definition spec_update_defaults :: spec_flags where
  "spec_update_defaults = \<lparr>sf_arlonNs = ''arlon'', sf_desc = '''', sf_tags = '''', sf_apiProvider = '''',
     sf_cloudProvider = '''', sf_clusterType = '''', sf_kubernetesVersion = '''', sf_nodeType = '''',
     sf_nodeCount = 0, sf_masterNodeCount = 0, sf_sshKeyName = '''', sf_region = '''', sf_clusterAutoscalerEnabled = False,
     sf_clusterAutoscalerMinNodes = 1, sf_clusterAutoscalerMaxNodes = 9\<rparr>"

section \<open>Applications, controllers\<close>

definition app_defaults :: app_flags where
  "app_defaults = \<lparr>af_argocdNs = ''argocd'', af_repoRevision = ''HEAD'', af_destNs = ''default'', af_project = ''default'',
     af_outputYaml = False, af_autoSync = True, af_autoPrune = True\<rparr>"

definition controller_defaults :: controller_flags where
  "controller_defaults = \<lparr>ctf_argocdConfigPath = '''', ctf_metricsAddr = '':8080'', ctf_probeAddr = '':8081'',
     ctf_enableLeaderElection = False\<rparr>"

section \<open>What follows from the defaults\<close>

text \<open>With a region of AWS, the defaults of a new specification are valid.\<close>

lemma spec_create_defaults_valid:
  "ValidApiProvider (sf_apiProvider spec_create_defaults) = None"
  "ValidCloudProviderAndClusterType (sf_cloudProvider spec_create_defaults) (sf_clusterType spec_create_defaults) = None"
  "region \<in> set regions \<Longrightarrow> ValidateRegionByProvider regions (sf_cloudProvider spec_create_defaults) region = None"
  by (simp_all add: spec_create_defaults_def ValidApiProvider_None ValidCloudProviderAndClusterType_None
      ValidateRegionByProvider_None cloud_types_def)

text \<open>Of an update only the bounds of the autoscaler have defaults that mean a change.\<close>

lemma spec_update_defaults_change:
  "updated_spec cs (sf_kubernetesVersion spec_update_defaults) (sf_nodeType spec_update_defaults)
     (sf_nodeCount spec_update_defaults) (sf_masterNodeCount spec_update_defaults) None
     (sf_clusterAutoscalerMinNodes spec_update_defaults) (sf_clusterAutoscalerMaxNodes spec_update_defaults)
     (sf_desc spec_update_defaults) (sf_tags spec_update_defaults)
   = cs\<lparr>cs_ClusterAutoscalerMinNodes := 1, cs_ClusterAutoscalerMaxNodes := 9\<rparr>"
  by (simp add: updated_spec_def spec_update_defaults_def keep_or_def)

text \<open>The world of a command over a store of specifications.\<close>

definition spec_world :: "('w \<Rightarrow> string \<Rightarrow> string \<Rightarrow> (go_error + cluster_spec) option) \<Rightarrow> 'w cli_env \<Rightarrow> bool" where
  "spec_world v env \<longleftrightarrow> steady v (ce_ClientConfig env) \<and>
     (\<forall>w config w'. ce_ClientConfig env w = (Inr config, w') \<longrightarrow> steady v (rc_NewForConfig config) \<and>
       (\<forall>w kc w'. rc_NewForConfig config w = (Inr kc, w') \<longrightarrow> spec_client v (kube_ConfigMaps kc)))"

lemma cmd_clusterspec_update_ok:
  assumes "spec_world v env" "cmd_clusterspec_update env fl en dis n w = (Inr (), w')"
  obtains ptr changed api w1 w2 where "spec_client v api" "v w1 = v w"
    "clusterspec_Update api (sf_arlonNs fl) n (sf_kubernetesVersion fl) (sf_nodeType fl) (sf_nodeCount fl)
       (sf_masterNodeCount fl) ptr (sf_clusterAutoscalerMinNodes fl) (sf_clusterAutoscalerMaxNodes fl)
       (sf_desc fl) (sf_tags fl) w1 = (Inr changed, w2)"
    "autoscaler_arg en dis = Inr ptr" "(if \<not> changed then say env ''no changes were made'' else ret ()) w2 = (Inr (), w')"
proof -
  from assms(2) obtain config w0 kc w1 ptr changed w2 where
    1: "ce_ClientConfig env w = (Inr config, w0)" and 2: "rc_NewForConfig config w0 = (Inr kc, w1)"
    and rest: "autoscaler_arg en dis = Inr ptr" "clusterspec_Update (kube_ConfigMaps kc) (sf_arlonNs fl) n
       (sf_kubernetesVersion fl) (sf_nodeType fl) (sf_nodeCount fl) (sf_masterNodeCount fl) ptr
       (sf_clusterAutoscalerMinNodes fl) (sf_clusterAutoscalerMaxNodes fl) (sf_desc fl) (sf_tags fl) w1 = (Inr changed, w2)"
      "(if \<not> changed then say env ''no changes were made'' else ret ()) w2 = (Inr (), w')"
    by (auto simp only: cmd_clusterspec_update_def with_config_def NewForConfigOrDie_def must_ok andThen_ok attempt_ok
        ok_iff)
  note law = assms(1) [unfolded spec_world_def]
  note conf = law [THEN conjunct2, rule_format, OF 1]
  have "v w1 = v w"
    using steadyD [OF law [THEN conjunct1] 1] steadyD [OF conf [THEN conjunct1] 2] by simp
  with conf [THEN conjunct2, rule_format, OF 2] rest show ?thesis by (intro that)
qed

text \<open>Whatever flags \<open>arlon clusterspec update\<close> is given, when \<open>--casmin\<close> and \<open>--casmax\<close> are not
  among them it still replaces the bounds of the autoscaler by their defaults 1 and 9; without any flag
  that is all it does. So no update reports that there was nothing to change.\<close>

theorem update_resets_autoscaler:
  assumes world: "spec_world v env" and old: "v w (sf_arlonNs fl) n = Some (Inr cs)" "cs_Name cs = n"
    and fl: "sf_clusterAutoscalerMinNodes fl = sf_clusterAutoscalerMinNodes spec_update_defaults"
      "sf_clusterAutoscalerMaxNodes fl = sf_clusterAutoscalerMaxNodes spec_update_defaults"
      "int64 (sf_nodeCount fl)" "int64 (sf_masterNodeCount fl)"
    and run: "cmd_clusterspec_update env fl en dis n w = (Inr (), w')"
  shows "(\<exists>cs'. v w' (sf_arlonNs fl) n = Some (Inr cs') \<and>
       cs_ClusterAutoscalerMinNodes cs' = 1 \<and> cs_ClusterAutoscalerMaxNodes cs' = 9) \<and>
    (fl = spec_update_defaults \<longrightarrow> \<not> en \<longrightarrow> \<not> dis \<longrightarrow> v w' (sf_arlonNs fl) n =
       Some (Inr (cs\<lparr>cs_ClusterAutoscalerMinNodes := 1, cs_ClusterAutoscalerMaxNodes := 9\<rparr>)))"
proof -
  from world run obtain ptr changed api w1 w2 where client: "spec_client v api" and same: "v w1 = v w"
    and upd: "clusterspec_Update api (sf_arlonNs fl) n (sf_kubernetesVersion fl) (sf_nodeType fl) (sf_nodeCount fl)
       (sf_masterNodeCount fl) ptr (sf_clusterAutoscalerMinNodes fl) (sf_clusterAutoscalerMaxNodes fl)
       (sf_desc fl) (sf_tags fl) w1 = (Inr changed, w2)"
    and ptr: "autoscaler_arg en dis = Inr ptr"
    and last: "(if \<not> changed then say env ''no changes were made'' else ret ()) w2 = (Inr (), w')"
    by (rule cmd_clusterspec_update_ok)
  have bounds: "sf_clusterAutoscalerMinNodes fl = 1" "sf_clusterAutoscalerMaxNodes fl = 9"
    using fl by (simp_all add: spec_update_defaults_def)
  let ?new = "updated_spec cs (sf_kubernetesVersion fl) (sf_nodeType fl) (sf_nodeCount fl) (sf_masterNodeCount fl) ptr
      (sf_clusterAutoscalerMinNodes fl) (sf_clusterAutoscalerMaxNodes fl) (sf_desc fl) (sf_tags fl)"
  have old1: "v w1 (sf_arlonNs fl) n = Some (Inr cs)" using old same by simp
  have int: "int64 (sf_clusterAutoscalerMinNodes fl)" "int64 (sf_clusterAutoscalerMaxNodes fl)"
    unfolding bounds by (rule int64_small)+
  from wpD [OF wp_clusterspec_Update [OF client fl(3,4) int old1 old(2)] upd]
  have changed and v2: "v w2 (sf_arlonNs fl) n = Some (Inr ?new)"
    by (simp_all add: nothing_to_update_def bounds stored_def)
  with last have "w' = w2" by (simp add: ret_def)
  with v2 have "v w' (sf_arlonNs fl) n = Some (Inr ?new)" by simp
  moreover have "cs_ClusterAutoscalerMinNodes ?new = 1" "cs_ClusterAutoscalerMaxNodes ?new = 9"
    by (simp_all add: updated_spec_def keep_or_def bounds)
  moreover have "ptr = None" if "\<not> en" "\<not> dis" using ptr that by (simp add: autoscaler_arg_def)
  ultimately show ?thesis by (auto simp: spec_update_defaults_change)
qed

text \<open>A specification whose autoscaler may add up to twenty nodes gets a description.\<close>

definition spec_env :: "config_map store cli_env" where
  "spec_env = idle_cli\<lparr>ce_ClientConfig := ret \<lparr>rc_NewForConfig = ret \<lparr>kube_ConfigMaps = mem_configmaps,
     kube_Secrets = absent_api\<rparr>, rc_NewClient = failing\<rparr>\<rparr>"

definition spec_of_twenty :: config_map where
  "spec_of_twenty = ToConfigMap ''one'' ''capi'' ''aws'' ''eks'' ''v1.21'' ''t2'' 3 3 ''us-west-2'' '''' ''key'' True 4 20 '''' ''''"

definition described :: spec_flags where
  "described = spec_update_defaults\<lparr>sf_desc := ''demo''\<rparr>"

theorem update_resets_autoscaler_witness:
  "\<exists>w'. cmd_clusterspec_update spec_env described False False ''one'' [((''arlon'', ''one''), spec_of_twenty)] = (Inr (), w')
    \<and> (\<exists>cs. store_view (\<lambda>s. s) FromConfigMap w' ''arlon'' ''one'' = Some (Inr cs) \<and> cs_ClusterAutoscalerMaxNodes cs = 9)"
proof -
  obtain cs where cs: "FromConfigMap spec_of_twenty = Inr cs" "cs_Name cs = ''one''"
    by (simp add: spec_of_twenty_def FromConfigMap_ToConfigMap int64_def)
  have flags: "sf_arlonNs described = ''arlon''" "sf_nodeCount described = 0" "sf_masterNodeCount described = 0"
    "sf_clusterAutoscalerMinNodes described = sf_clusterAutoscalerMinNodes spec_update_defaults"
    "sf_clusterAutoscalerMaxNodes described = sf_clusterAutoscalerMaxNodes spec_update_defaults"
    by (simp_all add: described_def spec_update_defaults_def)
  obtain w' where run: "cmd_clusterspec_update spec_env described False False ''one''
      [((''arlon'', ''one''), spec_of_twenty)] = (Inr (), w')"
    by (simp add: cmd_clusterspec_update_def with_config_def NewForConfigOrDie_def spec_env_def io_defs lift_def
        autoscaler_arg_def clusterspec_Update_def clusterspec_Get_def mem_configmaps_def mem_api_def cs Let_def
        described_def spec_update_defaults_def)
  have "spec_world (store_view (\<lambda>s. s) FromConfigMap) spec_env"
    by (auto simp: spec_world_def spec_env_def steady_ret ret_ok mem_spec_client)
  from update_resets_autoscaler [OF this _ cs(2) flags(4,5) _ _ run]
  have "\<exists>cs. store_view (\<lambda>s. s) FromConfigMap w' ''arlon'' ''one'' = Some (Inr cs) \<and> cs_ClusterAutoscalerMaxNodes cs = 9"
    by (auto simp: flags store_view_def cs int64_def)
  with run show ?thesis by blast
qed

end
