(* ===== verification/Cli_Correct.thy ===== *)
theory Cli_Correct
  imports Cli Flags Quiet
begin

text \<open>
  What the tree of commands of \<open>Cli\<close> promises: its declarations are consistent, so that building it does not
  panic and every command can be called; the check of the ArgoCD token guards the commands about clusters;
  \<open>arlon init\<close> finds the commands that it runs, and runs them with their defaults.
\<close>

section \<open>The declarations of a tree\<close>

text \<open>A tree without its functions; the flag tells whether a command has a \<open>PersistentPreRun\<close>.\<close>

datatype decl_tree = Decls (t_decl: command_decl) (t_checks: bool) (t_subs: "decl_tree list")

primrec decl_tree_of :: "'w command \<Rightarrow> decl_tree" where
  "decl_tree_of (Command d p r cs) = Decls d (\<not> Option.is_none p) (map decl_tree_of cs)"

lemma t_decl_of [simp]: "t_decl (decl_tree_of c) = c_decl c"
  by (cases c) simp

lemma t_checks_of: "t_checks (decl_tree_of c) \<longleftrightarrow> c_PersistentPreRun c \<noteq> None"
  by (cases c) (simp add: Option.is_none_def)

lemma t_subs_of: "t_subs (decl_tree_of c) = map decl_tree_of (c_Commands c)"
  by (cases c) simp

definition names :: "command_decl \<Rightarrow> string list" where
  "names d = command_name d # cd_Aliases d"

lemma called_names: "called w c \<longleftrightarrow> w \<in> set (names (c_decl c))"
  by (simp add: called_def names_def)

text \<open>The library panics on a flag that is declared twice and on a rule about a flag that is not declared.\<close>

definition wf_decl :: "command_decl \<Rightarrow> bool" where
  "wf_decl d \<longleftrightarrow> command_name d \<noteq> '''' \<and> distinct (map flg_Name (cd_Flags d)) \<and>
     distinct (filter (\<lambda>s. s \<noteq> '''') (map flg_Shorthand (cd_Flags d))) \<and>
     list_all (\<lambda>f. f \<in> set (map flg_Name (cd_Flags d)))
       (cd_Required d @ concat (cd_MutuallyExclusive d) @ concat (cd_RequiredTogether d))"

text \<open>No two commands of a group share a name or an alias.\<close>

fun wf_tree :: "decl_tree \<Rightarrow> bool" where
  "wf_tree (Decls d p ts) \<longleftrightarrow> wf_decl d \<and> distinct (concat (map (\<lambda>t. names (t_decl t)) ts)) \<and> list_all wf_tree ts"

text \<open>What the words of a line may mean: from a command to any below it that has the next word as a name or alias.\<close>

inductive spells :: "'w command \<Rightarrow> string list \<Rightarrow> 'w command list \<Rightarrow> bool" where
  here: "spells c [] [c]"
| below: "d \<in> set (c_Commands c) \<Longrightarrow> called w d \<Longrightarrow> spells d ws chain \<Longrightarrow> spells c (w # ws) (c # chain)"

inductive_cases spells_NilE: "spells c [] chain"
inductive_cases spells_ConsE: "spells c (w # ws) chain"

lemma walk_spells: "walk c ws = Some chain \<Longrightarrow> spells c ws chain"
proof (induction c ws arbitrary: chain rule: walk.induct)
  case (1 c)
  then show ?case by (auto intro: spells.here)
next
  case (2 c w ws)
  from "2.prems" obtain d rest where d: "find (called w) (c_Commands c) = Some d" "walk d ws = Some rest" "chain = c # rest"
    by (auto split: option.splits)
  from d(1) have "d \<in> set (c_Commands c)" "called w d" by (auto simp: find_Some_iff)
  with 2 d show ?case by (auto intro: spells.below)
qed

lemma distinct_called:
  assumes "distinct (concat (map (\<lambda>c. names (c_decl c)) cs))" "c \<in> set cs" "called w c"
  shows "find (called w) cs = Some c"
  using assms
proof (induction cs)
  case (Cons a cs)
  show ?case
  proof (cases "called w a")
    case True
    have "a = c"
    proof (rule ccontr)
      assume "a \<noteq> c"
      with Cons.prems have "w \<in> set (names (c_decl a))" "w \<in> set (concat (map (\<lambda>c. names (c_decl c)) cs))"
        using True by (auto simp: called_names)
      with Cons.prems(1) show False by auto
    qed
    with True show ?thesis by simp
  next
    case False
    with Cons show ?thesis by auto
  qed
qed simp

lemma spells_walk:
  "spells c ws chain \<Longrightarrow> wf_tree (decl_tree_of c) \<Longrightarrow> walk c ws = Some chain"
proof (induction rule: spells.induct)
  case (below d c w ws chain)
  from below.prems have "distinct (concat (map (\<lambda>c. names (c_decl c)) (c_Commands c)))"
    and "wf_tree (decl_tree_of d)" using below.hyps(1)
    by (cases c; auto simp: list_all_iff comp_def)+
  with below show ?case by (simp add: distinct_called)
qed simp

text \<open>In a consistent tree the words of a line mean at most one command, and that is the one that is found.\<close>

lemma walk_iff_spells: "wf_tree (decl_tree_of c) \<Longrightarrow> walk c ws = Some chain \<longleftrightarrow> spells c ws chain"
  by (blast intro: walk_spells spells_walk)

section \<open>The tree of the program\<close>

lemmas command_defs = controller_NewCommand_def callhomecontroller_NewCommand_def appprofilecontroller_NewCommand_def
  clustercontroller_NewCommand_def list_clusters_NewCommand_def webhook_NewCommand_def
  createBundleCommand_def updateBundleCommand_def deleteBundleCommand_def dumpBundleCommand_def listBundlesCommand_def
  bundle_NewCommand_def createProfileCommand_def updateProfileCommand_def deleteProfileCommand_def
  listProfilesCommand_def profile_NewCommand_def createClusterCommand_def deployClusterCommand_def
  updateClusterCommand_def ngupdateClusterCommand_def deleteClusterCommand_def getClusterCommand_def
  listClustersCommand_def manageClusterCommand_def unmanageClusterCommand_def setAppProfilesCommand_def
  cluster_NewCommand_def createAppCommand_def deleteAppCommand_def listAppsCommand_def app_NewCommand_def
  listAppProfilesCommand_def appprofile_NewCommand_def validateBaseClusterCommand_def
  validateGitBaseClusterCommand_def prepareBaseClusterCommand_def prepareGitBaseClusterCommand_def
  basecluster_NewCommand_def register_command_def unregister_command_def git_NewCommand_def verify_NewCommand_def
  install_NewCommand_def init_NewCommand_def check_command_def version_NewCommand_def

definition cluster_tree :: decl_tree where
  "cluster_tree = Decls cluster_decl True
     [Decls (listing_decl ''argocd-ns'' ''argocd'') False [], Decls manageCluster_decl False [],
      Decls (one_name_decl ''unmanage <clustername> [flags]'' ''argocd-ns'' ''argocd'') False [],
      Decls createCluster_decl False [], Decls getCluster_decl False [], Decls deleteCluster_decl False [],
      Decls ngupdateCluster_decl False [], Decls setAppProfiles_decl False []]"

definition bundle_tree :: decl_tree where
  "bundle_tree = Decls bundle_decl False
     [Decls (listing_decl ''ns'' ''arlon'') False [], Decls (one_name_decl ''dump'' ''ns'' ''arlon'') False [],
      Decls createBundle_decl False [], Decls (one_name_decl ''delete'' ''ns'' ''arlon'') False [],
      Decls updateBundle_decl False []]"

definition profile_tree :: decl_tree where
  "profile_tree = Decls profile_decl False
     [Decls (listing_decl ''ns'' ''arlon'') False [], Decls createProfile_decl False [],
      Decls (one_name_decl ''delete'' ''ns'' ''arlon'') False [], Decls updateProfile_decl False []]"

definition clustertemplate_tree :: decl_tree where
  "clustertemplate_tree = Decls clustertemplate_decl False
     [Decls validateBaseCluster_decl False [], Decls validateGitBaseCluster_decl False [],
      Decls prepareBaseCluster_decl False [], Decls prepareGitBaseCluster_decl False []]"

definition app_tree :: decl_tree where
  "app_tree = Decls app_decl False
     [Decls (listing_decl ''ns'' ''argocd'') False [], Decls createApp_decl False [],
      Decls (one_name_decl ''delete appName'' ''argocd-ns'' ''argocd'') False []]"

definition arlon_tree :: decl_tree where
  "arlon_tree = Decls arlon_decl True
     [Decls controller_decl False [], Decls callhomecontroller_decl False [], Decls appprofilecontroller_decl False [],
      Decls clustercontroller_decl False [], Decls listclusters_decl False [], bundle_tree, profile_tree, cluster_tree,
      Decls webhook_decl False [], clustertemplate_tree,
      Decls git_decl False [Decls register_decl False [], Decls unregister_decl False []],
      Decls verify_decl False [], Decls install_decl False [], app_tree,
      Decls appprofile_decl False [Decls (listing_decl ''ns'' ''arlon'') False []],
      Decls init_decl False [], Decls version_decl False [Decls check_decl False []]]"

lemma arlon_subtrees: "map decl_tree_of (c_Commands (arlon_command env scheme port)) = t_subs arlon_tree"
  by (simp add: arlon_command_def arlon_tree_def command_defs bundle_tree_def profile_tree_def cluster_tree_def
      clustertemplate_tree_def app_tree_def)

lemma arlon_tree: "decl_tree_of (arlon_command env scheme port) = arlon_tree"
  using arlon_subtrees [of env scheme port] by (simp add: arlon_command_def arlon_tree_def)

lemma arlon_tree_wf: "wf_tree arlon_tree"
  by code_simp

text \<open>Commands about clusters: they are behind the check of their group, \<open>listclusters\<close> behind that of the program.\<close>

fun silent :: "decl_tree \<Rightarrow> bool" where
  "silent (Decls d p ts) \<longleftrightarrow> \<not> p \<and> list_all silent ts"

fun elsewhere :: "decl_tree \<Rightarrow> bool" where
  "elsewhere (Decls d p ts) \<longleftrightarrow> \<not> p \<and> command_name d \<notin> set [''cluster'', ''listclusters''] \<and> list_all elsewhere ts"

definition about_clusters :: "string \<Rightarrow> bool" where
  "about_clusters w \<longleftrightarrow> w \<in> set [''cluster'', ''clusters'', ''listclusters'']"

definition guarded_group :: "decl_tree \<Rightarrow> bool" where
  "guarded_group t \<longleftrightarrow>
     (if t_checks t then names (t_decl t) = [''cluster'', ''clusters''] \<and> list_all silent (t_subs t)
      else if command_name (t_decl t) = ''listclusters'' then cd_Aliases (t_decl t) = [] \<and> length (t_subs t) = 0
      else elsewhere t \<and> list_all (\<lambda>n. \<not> about_clusters n) (names (t_decl t)))"

lemma arlon_groups: "list_all guarded_group (t_subs arlon_tree)"
  by code_simp


section \<open>What runs before a command\<close>

lemma walk_Cons:
  assumes "walk c (w # ws) = Some chain"
  obtains d rest where "d \<in> set (c_Commands c)" "called w d" "walk d ws = Some rest" "chain = c # rest"
proof -
  from assms obtain d rest where "find (called w) (c_Commands c) = Some d" "walk d ws = Some rest" "chain = c # rest"
    by (auto split: option.splits)
  moreover from this(1) have "d \<in> set (c_Commands c)" "called w d" by (auto simp: find_Some_iff)
  ultimately show ?thesis by (intro that)
qed

lemma walk_not_Nil: "walk c ws = Some chain \<Longrightarrow> chain \<noteq> []"
  by (cases ws) (auto split: option.splits)

lemma silent_inherited: "silent (decl_tree_of c) \<Longrightarrow> walk c ws = Some chain \<Longrightarrow> inherited chain = None"
proof (induction ws arbitrary: c chain)
  case Nil
  then show ?case by (cases c) (auto simp: Option.is_none_def)
next
  case (Cons w ws)
  from Cons.prems(2) obtain d rest where d: "d \<in> set (c_Commands c)" "walk d ws = Some rest" "chain = c # rest"
    by (rule walk_Cons)
  from Cons.prems(1) d(1) have "silent (decl_tree_of d)" "c_PersistentPreRun c = None"
    by (cases c; simp add: list_all_iff Option.is_none_def)+
  with Cons.IH d(2,3) show ?case by simp
qed

lemma elsewhere_silent: "elsewhere t \<Longrightarrow> silent t"
  by (induction t rule: elsewhere.induct) (auto simp: list_all_iff)

lemma elsewhere_last:
  "elsewhere (decl_tree_of c) \<Longrightarrow> walk c ws = Some chain \<Longrightarrow>
     command_name (c_decl (last chain)) \<noteq> ''cluster'' \<and> command_name (c_decl (last chain)) \<noteq> ''listclusters''"
proof (induction ws arbitrary: c chain)
  case Nil
  then show ?case by (cases c) auto
next
  case (Cons w ws)
  from Cons.prems(2) obtain d rest where d: "d \<in> set (c_Commands c)" "walk d ws = Some rest" "chain = c # rest"
    by (rule walk_Cons)
  from Cons.prems(1) d(1) have "elsewhere (decl_tree_of d)" by (cases c) (simp add: list_all_iff)
  with Cons.IH d(2,3) walk_not_Nil [OF d(2)] show ?case by simp
qed

text \<open>The two checks are the same.\<close>

lemma checkForArgocd_eq:
  "checkForArgocd start name =
     (if name = ''cluster'' \<or> name = ''listclusters'' then cluster_checkForArgocd start name else ret ())"
  by (simp only: checkForArgocd_def cluster_checkForArgocd_def)

lemma cluster_checkForArgocd_name: "cluster_checkForArgocd start name = cluster_checkForArgocd start ''''"
  by (simp only: cluster_checkForArgocd_def)

lemma arlon_group:
  assumes "d \<in> set (c_Commands (arlon_command env scheme port))"
  shows "guarded_group (decl_tree_of d)"
proof -
  from assms have "decl_tree_of d \<in> set (t_subs arlon_tree)"
    unfolding arlon_subtrees [symmetric, of env scheme port] by simp
  with arlon_groups show ?thesis by (simp add: list_all_iff)
qed

lemma arlon_checks:
  "d \<in> set (c_Commands (arlon_command env scheme port)) \<Longrightarrow>
     c_PersistentPreRun d = None \<or> c_PersistentPreRun d = Some (cluster_checkForArgocd (ar_Start env))"
  by (auto simp: arlon_command_def command_defs)

lemma arlon_pre: "c_PersistentPreRun (arlon_command env scheme port) = Some (checkForArgocd (ar_Start env))"
  by (simp add: arlon_command_def)

text \<open>The commands about clusters are behind the check, and no others.\<close>

lemma before_arlon:
  assumes "walk (arlon_command env scheme port) path = Some chain"
  shows "before chain = (if path \<noteq> [] \<and> about_clusters (hd path) then cluster_checkForArgocd (ar_Start env) '''' else ret ())"
proof (cases path)
  case Nil
  with assms have "chain = [arlon_command env scheme port]" by simp
  with Nil show ?thesis
    by (simp add: before_def arlon_command_def arlon_decl_def command_name_def Use_def checkForArgocd_eq)
next
  case (Cons w ws)
  from assms [unfolded Cons] obtain d rest where d: "d \<in> set (c_Commands (arlon_command env scheme port))"
    "called w d" "walk d ws = Some rest" "chain = arlon_command env scheme port # rest" by (rule walk_Cons)
  have root: "inherited chain = (case inherited rest of Some p \<Rightarrow> Some p | None \<Rightarrow> Some (checkForArgocd (ar_Start env)))"
    using d(4) by (simp add: arlon_pre split: option.split)
  have last: "last chain = last rest" using d(4) walk_not_Nil [OF d(3)] by simp
  note group = arlon_group [OF d(1), unfolded guarded_group_def]
  have w: "w \<in> set (names (c_decl d))" using d(2) by (simp only: called_names)
  show ?thesis
  proof (cases "t_checks (decl_tree_of d)")
    case True
    with group w have about: "about_clusters w" by (auto simp: about_clusters_def)
    from True arlon_checks [OF d(1)] have p: "c_PersistentPreRun d = Some (cluster_checkForArgocd (ar_Start env))"
      by (auto simp: t_checks_of)
    have "inherited rest = Some (cluster_checkForArgocd (ar_Start env))"
    proof (cases ws)
      case Nil
      with d(3) p show ?thesis by auto
    next
      case (Cons u us)
      from d(3) [unfolded Cons] obtain d' rest' where d': "d' \<in> set (c_Commands d)" "walk d' us = Some rest'" "rest = d # rest'"
        by (rule walk_Cons)
      from group True d'(1) have "silent (decl_tree_of d')" by (simp add: t_subs_of list_all_iff)
      from silent_inherited [OF this d'(2)] d'(3) p show ?thesis by simp
    qed
    with root about Cons show ?thesis by (simp add: before_def) (rule cluster_checkForArgocd_name)
  next
    case False
    show ?thesis
    proof (cases "command_name (c_decl d) = ''listclusters''")
      case True
      with group False w d(3) have "rest = [d]" "about_clusters w"
        by (cases ws; auto simp: t_subs_of names_def about_clusters_def)+
      with root False True Cons last show ?thesis
        by (simp add: before_def t_checks_of checkForArgocd_eq) (rule cluster_checkForArgocd_name)
    next
      case other: False
      with group False w have e: "elsewhere (decl_tree_of d)" "\<not> about_clusters w" by (auto simp: list_all_iff)
      from elsewhere_last [OF e(1) d(3)] silent_inherited [OF elsewhere_silent [OF e(1)] d(3)] root e(2) Cons last
      show ?thesis by (simp add: before_def checkForArgocd_eq)
    qed
  qed
qed

section \<open>An expired token\<close>

text \<open>The connections are made, but listing the applications fails, and neither changes what \<open>V\<close> reads.\<close>

definition expired :: "('w \<Rightarrow> 'v) \<Rightarrow> 'w start_env \<Rightarrow> bool" where
  "expired V start \<longleftrightarrow> steady V (se_DefaultLocalConfigPath start) \<and> (\<forall>p. steady V (se_NewArgocdClient start p)) \<and>
     (\<forall>p a. returns (se_NewArgocdClient start p) a \<longrightarrow> steady V (argo_NewApplicationClient a) \<and>
       (\<forall>appIf. returns (argo_NewApplicationClient a) appIf \<longrightarrow>
          (\<forall>s. steady V (appIf_List appIf s)) \<and> (\<forall>s x. \<not> returns (appIf_List appIf s) x)))"

lemma returns_attempt: "returns (attempt m h k) y \<Longrightarrow> (\<exists>x. returns m x \<and> returns (k x) y) \<or> (\<exists>e. returns (h e) y)"
proof -
  assume "returns (attempt m h k) y"
  then obtain w w' where run: "attempt m h k w = (Inr y, w')" by (auto simp: returns_def)
  obtain r w1 where m: "m w = (r, w1)" by (cases "m w")
  with run show ?thesis
    by (cases r) (auto simp: returns_def attempt_def split: fault.splits)
qed

lemma not_returns_panic [simp]: "\<not> returns (panic s) y"
  by (simp add: returns_def panic_def)

lemma returns_CheckError: "returns (CheckError m k) y \<Longrightarrow> \<exists>x. returns m x \<and> returns (k x) y"
  by (auto simp: CheckError_def dest: returns_attempt)

lemma returns_or_exit: "returns (or_exit msg m k) y \<Longrightarrow> \<exists>x. returns m x \<and> returns (k x) y"
  by (auto simp: or_exit_def dest: returns_attempt)

lemma steady_CheckError:
  "steady V m \<Longrightarrow> (\<And>x. returns m x \<Longrightarrow> steady V (k x)) \<Longrightarrow> steady V (CheckError m k)"
  by (simp add: CheckError_def steady_attempt steady_panic)

lemma steady_or_exit:
  "steady V m \<Longrightarrow> (\<And>x. returns m x \<Longrightarrow> steady V (k x)) \<Longrightarrow> steady V (or_exit msg m k)"
  by (simp add: or_exit_def steady_attempt steady_panic)

lemma NewArgocdClientOrDie_returns:
  "returns (NewArgocdClientOrDie dir new p) a \<Longrightarrow> \<exists>q. returns (new q) a"
  by (auto simp: NewArgocdClientOrDie_def NewArgocdClient_def dest!: returns_CheckError returns_andThen)

lemma NewArgocdClientOrDie_steady:
  "steady V dir \<Longrightarrow> (\<And>q. steady V (new q)) \<Longrightarrow> steady V (NewArgocdClientOrDie dir new p)"
  unfolding NewArgocdClientOrDie_def NewArgocdClient_def
  by (intro steady_CheckError steady_andThen steady_if steady_ret)

lemma expired_check:
  assumes "expired V start"
  shows "steady V (cluster_checkForArgocd start n)" "\<not> returns (cluster_checkForArgocd start n) u"
proof -
  have app: "steady V (argo_NewApplicationClient a)"
    if "returns (NewArgocdClientOrDie (se_DefaultLocalConfigPath start) (se_NewArgocdClient start) '''') a" for a
    using assms NewArgocdClientOrDie_returns [OF that] by (auto simp: expired_def)
  have list: "steady V (appIf_List appIf s)" "\<not> returns (appIf_List appIf s) x"
    if "returns (NewArgocdClientOrDie (se_DefaultLocalConfigPath start) (se_NewArgocdClient start) '''') a"
      "returns (argo_NewApplicationClient a) appIf" for a appIf s x
    using assms NewArgocdClientOrDie_returns [OF that(1)] that(2) by (auto simp: expired_def)
  show "steady V (cluster_checkForArgocd start n)"
    unfolding cluster_checkForArgocd_def using assms
    by (intro steady_andThen NewArgocdClientOrDie_steady steady_CheckError steady_or_exit steady_ret app list)
      (auto simp: expired_def)
  show "\<not> returns (cluster_checkForArgocd start n) u"
    unfolding cluster_checkForArgocd_def
    by (auto dest!: returns_andThen returns_CheckError returns_or_exit dest: list(2))
qed

text \<open>C13: While the ArgoCD token is expired, no line that names a command of the group \<open>cluster\<close>, or \<open>listclusters\<close>,
  however it is spelt, changes anything: it ends with a fault before the command runs. Every other line runs
  its command without asking for the token.\<close>

theorem expired_token_stops_cluster_commands:
  assumes "cobra_law V cob (arlon_command env scheme port)" "expired V (ar_Start env)"
    and "cob_Resolve cob (arlon_command env scheme port) line = Some r"
  shows "if rs_Path r \<noteq> [] \<and> about_clusters (hd (rs_Path r))
    then \<exists>f w'. cob_Execute cob (arlon_command env scheme port) line w = (Inl f, w') \<and> V w' = V w
    else \<exists>chain e. walk (arlon_command env scheme port) (rs_Path r) = Some chain \<and>
      cob_Execute cob (arlon_command env scheme port) line w = run_resolved (last chain) r e w"
proof -
  from assms(1,3) obtain chain e where walk: "walk (arlon_command env scheme port) (rs_Path r) = Some chain"
    and run: "cob_Execute cob (arlon_command env scheme port) line = called_with chain r e"
    unfolding cobra_law_def by (auto dest!: spec [of _ line])
  show ?thesis
  proof (cases "rs_Path r \<noteq> [] \<and> about_clusters (hd (rs_Path r))")
    case True
    with before_arlon [OF walk] have "before chain = cluster_checkForArgocd (ar_Start env) ''''" by simp
    moreover obtain f w' where "cluster_checkForArgocd (ar_Start env) '''' w = (Inl f, w')" "V w' = V w"
    proof (cases "cluster_checkForArgocd (ar_Start env) '''' w")
      case (Pair x w')
      with expired_check [OF assms(2)] that show ?thesis
        by (cases x) (auto simp: returns_def dest: steadyD)
    qed
    ultimately have "called_with chain r e w = (Inl f, w')" "V w' = V w"
      by (auto simp: called_with_def andThen_def attempt_def fail_def split: fault.splits)
    with True run show ?thesis by auto
  next
    case False
    with before_arlon [OF walk] have "before chain = ret ()" by (simp only: if_False)
    then have "called_with chain r e w = run_resolved (last chain) r e w"
      by (simp add: called_with_def andThen_def attempt_def ret_def)
    with False run walk show ?thesis by (simp only: if_False) blast
  qed
qed


section \<open>A library that follows the law\<close>

text \<open>As many words as name a command, then its arguments; flags are not supported.\<close>

fun greedy :: "'w command \<Rightarrow> string list \<Rightarrow> string list \<times> string list" where
  "greedy c [] = ([], [])"
| "greedy c (w # ws) = (case find (called w) (c_Commands c) of
     None \<Rightarrow> ([], w # ws) | Some d \<Rightarrow> (let (path, args) = greedy d ws in (w # path, args)))"

definition words_resolve :: "'w command \<Rightarrow> string list \<Rightarrow> resolution option" where
  "words_resolve root line = (let (path, args) = greedy root line in
     case walk root path of None \<Rightarrow> None
     | Some chain \<Rightarrow> if takes_args (c_decl (last chain)) args then Some (plain_resolution chain path args) else None)"

definition words_cobra :: "'w cobra" where
  "words_cobra = \<lparr>cob_Resolve = words_resolve,
     cob_Execute = (\<lambda>root line. case words_resolve root line of None \<Rightarrow> ret ()
       | Some r \<Rightarrow> called_with (the (walk root (rs_Path r))) r (ErrorText ''required flag(s) not set''))\<rparr>"

lemma greedy_append:
  "walk c path = Some chain \<Longrightarrow> args = [] \<or> find (called (hd args)) (c_Commands (last chain)) = None \<Longrightarrow>
     greedy c (path @ args) = (path, args)"
proof (induction path arbitrary: c chain)
  case Nil
  then show ?case by (cases args) auto
next
  case (Cons w ws)
  from Cons.prems(1) obtain d rest where d: "find (called w) (c_Commands c) = Some d" "walk d ws = Some rest" "chain = c # rest"
    by (auto split: option.splits)
  with Cons walk_not_Nil [OF d(2)] show ?case by simp
qed

lemma wf_walk: "wf_tree (decl_tree_of c) \<Longrightarrow> walk c ws = Some chain \<Longrightarrow> wf_decl (c_decl (last chain))"
proof (induction ws arbitrary: c chain)
  case Nil
  then show ?case by (cases c) auto
next
  case (Cons w ws)
  from Cons.prems(2) obtain d rest where d: "d \<in> set (c_Commands c)" "walk d ws = Some rest" "chain = c # rest"
    by (rule walk_Cons)
  from Cons.prems(1) d(1) have "wf_tree (decl_tree_of d)" by (cases c) (simp add: list_all_iff)
  with Cons.IH d(2,3) walk_not_Nil [OF d(2)] show ?case by simp
qed

lemma same_kind_refl [simp]: "same_kind x x"
  by (cases x) simp_all

lemma default_value:
  "distinct (map flg_Name fs) \<Longrightarrow> f \<in> set fs \<Longrightarrow> flag_defaults fs (flg_Name f) = Some (flg_Value f)"
  by (auto simp: flag_defaults_def comp_def intro!: map_of_is_SomeI)

lemma values_for_defaults: "wf_decl d \<Longrightarrow> values_for d [] (flag_defaults (cd_Flags d))"
  by (simp add: wf_decl_def values_for_def list_all_iff default_value)

lemma words_cobra_law:
  assumes "wf_tree (decl_tree_of root)"
  shows "cobra_law V words_cobra root"
  unfolding cobra_law_def
proof (intro conjI allI impI)
  fix line
  show "case cob_Resolve words_cobra root line of None \<Rightarrow> steady V (cob_Execute words_cobra root line)
    | Some r \<Rightarrow> \<exists>chain e. walk root (rs_Path r) = Some chain \<and> takes_args (c_decl (last chain)) (rs_Args r) \<and>
        values_for (c_decl (last chain)) (rs_Changed r) (rs_Values r) \<and>
        cob_Execute words_cobra root line = called_with chain r e"
  proof (cases "words_resolve root line")
    case None
    then show ?thesis by (simp add: words_cobra_def steady_ret)
  next
    case (Some r)
    obtain path args where g: "greedy root line = (path, args)" by (cases "greedy root line")
    with Some obtain chain where "walk root path = Some chain" "takes_args (c_decl (last chain)) args"
      "r = plain_resolution chain path args"
      by (auto simp: words_resolve_def split: option.splits if_splits)
    with Some values_for_defaults [OF wf_walk [OF assms]] show ?thesis
      by (auto simp: words_cobra_def plain_resolution_def)
  qed
next
  fix path args
  assume plain: "plain_line root path args"
  then obtain chain where chain: "walk root path = Some chain" "takes_args (c_decl (last chain)) args"
    "args = [] \<or> find (called (hd args)) (c_Commands (last chain)) = None"
    by (auto simp: plain_line_def split: option.splits)
  from greedy_append [OF chain(1,3)] chain(1,2)
  show "cob_Resolve words_cobra root (path @ args) = Some (plain_resolution (the (walk root path)) path args)"
    by (simp add: words_cobra_def words_resolve_def)
qed

text \<open>The walk over the declarations alone, which can be evaluated.\<close>

fun twalk :: "decl_tree \<Rightarrow> string list \<Rightarrow> decl_tree list option" where
  "twalk t [] = Some [t]"
| "twalk t (w # ws) = (case find (\<lambda>u. w \<in> set (names (t_decl u))) (t_subs t) of
     None \<Rightarrow> None | Some u \<Rightarrow> map_option ((#) t) (twalk u ws))"

lemma find_map: "find P (map f xs) = map_option f (find (\<lambda>x. P (f x)) xs)"
  by (induction xs) simp_all

lemma find_called_tree:
  "find (\<lambda>u. w \<in> set (names (t_decl u))) (t_subs (decl_tree_of c)) = map_option decl_tree_of (find (called w) (c_Commands c))"
  by (simp add: t_subs_of find_map called_names [abs_def])

lemma twalk_eq: "twalk (decl_tree_of c) ws = map_option (map decl_tree_of) (walk c ws)"
proof (induction ws arbitrary: c)
  case (Cons w ws)
  then show ?case
    by (simp add: find_called_tree option.map_comp comp_def split: option.split)
qed simp

lemma plain_line_tree:
  "plain_line c path args \<longleftrightarrow> path \<noteq> [] \<and> list_all (\<lambda>s. s \<noteq> '''' \<and> hd s \<noteq> CHR ''-'') (path @ args) \<and>
     (case twalk (decl_tree_of c) path of None \<Rightarrow> False
      | Some ts \<Rightarrow> takes_args (t_decl (last ts)) args \<and>
          (args = [] \<or> find (\<lambda>u. hd args \<in> set (names (t_decl u))) (t_subs (last ts)) = None))"
  by (auto simp: plain_line_def twalk_eq last_map walk_not_Nil find_called_tree split: option.split dest: walk_not_Nil)

text \<open>A machine with a stale token.\<close>

definition stale_start :: "'w start_env" where
  "stale_start = \<lparr>se_AddToScheme = (\<lambda>g. Inr ()), se_GetConfigOrDie = failing, se_ClientNew = (\<lambda>c s. failing),
     se_NewManager = (\<lambda>c opts. failing), se_DefaultLocalConfigPath = ret ''/root/.config/argocd/config'',
     se_NewArgocdClient = (\<lambda>p. ret \<lparr>
       argo_NewApplicationClient = ret \<lparr>appIf_Get = (\<lambda>n. failing), appIf_List = (\<lambda>s. fail (GrpcStatus 16 ''token is expired'')),
         appIf_Create = (\<lambda>a. failing), appIf_Update = (\<lambda>a. failing), appIf_Delete = (\<lambda>n c. failing)\<rparr>,
       argo_NewClusterClient = failing\<rparr>),
     se_RegistrationHelper = (\<lambda>c. failing), se_ClusterHelper = (\<lambda>c. failing),
     se_Access = \<lparr>RESTConfigFromKubeConfig = (\<lambda>s. Inl io_EOF), WriteKubeconfig = (\<lambda>k. Inl io_EOF),
       InstallClusterManagerRBAC = (\<lambda>k n. failing),
       NewCluster = (\<lambda>n c t. \<lparr>acl_Name = n, acl_Server = '''', acl_Annotations = None\<rparr>)\<rparr>,
     se_Unmarshal = (\<lambda>s. Inl io_EOF), se_Iter = (\<lambda>s. []), se_Git = ce_Git idle_cli, se_Tools = ce_Tools idle_cli,
     se_Templates = ce_Templates (idle_cli :: 'w cli_env), se_ClusterContent = [], se_Webhook = (\<lambda>s. demo_webhook)\<rparr>"

definition stale_arlon :: "(init_state, string list, string) arlon_env" where
  "stale_arlon = \<lparr>ar_Cli = idle_cli, ar_Start = stale_start, ar_Init = idle_tools (demo_init_env ''d''),
     ar_Installer = idle_installer,
     ar_Verify = \<lparr>ve_ClientConfig = failing, ve_Getenv = (\<lambda>k. failing), ve_LookPath = (\<lambda>p. failing),
       ve_Exec = (\<lambda>p a. failing), ve_BuildConfig = (\<lambda>p. failing), ve_NewForConfig = (\<lambda>c. failing)\<rparr>,
     ar_Version = \<lparr>ve_NewRequest = (\<lambda>u. Inr ()), ve_Do = (\<lambda>u. failing), ve_ReadAll = failing, ve_Parse = Inr,
       ve_Compare = (\<lambda>a b. 0), ve_String = (\<lambda>v. v), ve_Print = (\<lambda>s. ret ())\<rparr>,
     ar_cliVersion = ''0.10.0'', ar_Details = (\<lambda>c. \<lparr>cdt_Namespaces = [], cdt_ServerVersion = '''', cdt_Status = '''',
       cdt_Message = ''''\<rparr>), ar_Usage = (\<lambda>n. ret ())\<rparr>"

lemma expired_stale: "expired V stale_start"
  by (simp add: expired_def stale_start_def steady_ret steady_fail) (simp add: returns_def fail_def)

definition stale_root :: "init_state command" where
  "stale_root = arlon_command stale_arlon [] 9443"

lemma stale_lines:
  "plain_line stale_root [''clusters'', ''list''] []" "plain_line stale_root [''bundle'', ''list''] []"
  unfolding plain_line_tree stale_root_def arlon_tree by code_simp+

lemma stale_law: "cobra_law V words_cobra stale_root"
  by (rule words_cobra_law) (simp only: stale_root_def arlon_tree arlon_tree_wf)


lemma resolves_plain:
  "cobra_law V cob root \<Longrightarrow> plain_line root path args \<Longrightarrow>
     cob_Resolve cob root (path @ args) = Some (plain_resolution (the (walk root path)) path args)"
  by (simp add: cobra_law_def)

theorem expired_token_stops_cluster_commands_witness:
  "(\<exists>f. cob_Execute words_cobra stale_root [''clusters'', ''list''] demo_init_state = (Inl f, demo_init_state)) \<and>
   (\<exists>chain e. walk stale_root [''bundle'', ''list''] = Some chain \<and> cob_Execute words_cobra stale_root [''bundle'', ''list''] demo_init_state =
      run_resolved (last chain) (plain_resolution (the (walk stale_root [''bundle'', ''list''])) [''bundle'', ''list''] []) e demo_init_state)"
proof -
  have start: "expired (\<lambda>w. w) (ar_Start stale_arlon)" by (simp add: stale_arlon_def expired_stale)
  note law = stale_law [of "\<lambda>w. w", unfolded stale_root_def]
  note stopped = expired_token_stops_cluster_commands [OF law start, folded stale_root_def]
  note plain = resolves_plain [OF stale_law stale_lines(1)] resolves_plain [OF stale_law stale_lines(2)]
  from stopped [OF plain(1) [simplified append_Nil2], of demo_init_state] stopped [OF plain(2) [simplified append_Nil2], of demo_init_state]
  show ?thesis by (simp add: plain_resolution_def about_clusters_def)
qed

section \<open>The tree is consistent\<close>

lemma walk_None_tree: "twalk (decl_tree_of c) ws = None \<Longrightarrow> walk c ws = None"
  by (simp add: twalk_eq)

lemma arlon_unknown:
  "twalk arlon_tree (''clusterspec'' # ws) = None"
  "twalk arlon_tree (''cluster'' # ''deploy'' # ws) = None"
  "twalk arlon_tree (''cluster'' # ''update'' # ws) = None"
proof -
  have none: "find (\<lambda>u. ''clusterspec'' \<in> set (names (t_decl u))) (t_subs arlon_tree) = None"
    "find (\<lambda>u. ''deploy'' \<in> set (names (t_decl u))) (t_subs cluster_tree) = None"
    "find (\<lambda>u. ''update'' \<in> set (names (t_decl u))) (t_subs cluster_tree) = None"
    by code_simp+
  have group: "find (\<lambda>u. ''cluster'' \<in> set (names (t_decl u))) (t_subs arlon_tree) = Some cluster_tree"
    by code_simp
  show "twalk arlon_tree (''clusterspec'' # ws) = None" by (simp only: twalk.simps none option.case)
  show "twalk arlon_tree (''cluster'' # ''deploy'' # ws) = None"
    "twalk arlon_tree (''cluster'' # ''update'' # ws) = None"
    by (simp_all only: twalk.simps none group option.case option.map)
qed

text \<open>In the tree of the program no command declares a flag or a shorthand twice or has a rule about a flag
  that it does not declare (on either of which the library panics while the tree is built), and no two
  commands of a group share a name or an alias, so that the command found for the words of a line is the
  only one that they spell. The commands of the first generation are not in it.\<close>

lemma command_tree_is_consistent:
  "wf_tree (decl_tree_of (arlon_command env scheme port))"
  "walk (arlon_command env scheme port) ws = Some chain \<longleftrightarrow> spells (arlon_command env scheme port) ws chain"
  "walk (arlon_command env scheme port) (''clusterspec'' # ws) = None"
  "walk (arlon_command env scheme port) (''cluster'' # ''deploy'' # ws) = None"
  "walk (arlon_command env scheme port) (''cluster'' # ''update'' # ws) = None"
proof -
  show wf: "wf_tree (decl_tree_of (arlon_command env scheme port))" by (simp only: arlon_tree arlon_tree_wf)
  show "walk (arlon_command env scheme port) ws = Some chain \<longleftrightarrow> spells (arlon_command env scheme port) ws chain"
    by (rule walk_iff_spells [OF wf])
qed (rule walk_None_tree, simp only: arlon_tree arlon_unknown)+

text \<open>A line for a consistent command has each flag once, those of the client library included; what the
  command hides of these it declares itself.\<close>

lemma line_flags_distinct:
  "wf_decl d \<Longrightarrow> distinct (map flg_Name kubectl) \<Longrightarrow> distinct (map flg_Name (line_flags kubectl d))"
proof -
  assume "wf_decl d" and all: "distinct (map flg_Name kubectl)"
  then have own: "distinct (map flg_Name (cd_Flags d))" by (simp add: wf_decl_def)
  let ?new = "filter (\<lambda>f. \<not> declares d (flg_Name f)) kubectl"
  have "distinct (map flg_Name ?new)" by (rule distinct_map_filter [OF all])
  moreover have "set (map flg_Name (cd_Flags d)) \<inter> set (map flg_Name ?new) = {}" by (auto simp: declares_def) (metis image_eqI)
  ultimately show ?thesis using own by (simp only: line_flags_def map_append distinct_append split: if_splits) simp
qed

lemma line_or_hidden:
  "cd_KubectlFlags d \<Longrightarrow> f \<in> set kubectl \<Longrightarrow> f \<in> set (line_flags kubectl d) \<or> f \<in> set (hidden_flags kubectl d)"
  by (auto simp: line_flags_def hidden_flags_def)

text \<open>\<open>init\<close> declares a user name and a password for git: the flags of these names of the client library, for the
  API server, cannot be given to it. It is the only command of the program with such a clash.\<close>

fun all_decls :: "decl_tree \<Rightarrow> command_decl list" where
  "all_decls (Decls d p ts) = d # concat (map all_decls ts)"

definition clashes :: "string list \<Rightarrow> command_decl \<Rightarrow> bool" where
  "clashes ns d = (cd_KubectlFlags d \<and> list_ex (declares d) ns)"

definition credential_flags :: "string list" where
  "credential_flags = [''username'', ''password'', ''token'', ''user'', ''cluster'', ''context'', ''namespace'', ''server'',
     ''kubeconfig'']"

lemma only_init_clashes: "map cd_Use (filter (clashes credential_flags) (all_decls arlon_tree)) = [''init'']"
  by code_simp

lemma init_hides:
  "f \<in> set kubectl \<Longrightarrow> flg_Name f \<in> {''username'', ''password''} \<Longrightarrow> f \<in> set (hidden_flags kubectl init_decl)"
  "f \<in> set (line_flags kubectl init_decl) \<Longrightarrow> flg_Name f \<in> {''username'', ''password''} \<Longrightarrow>
     f \<in> set (cd_Flags init_decl)"
  by (auto simp: hidden_flags_def line_flags_def declares_def init_decl_def StringVar_def BoolVarP_def)

section \<open>What \<open>arlon init\<close> runs of other commands\<close>

lemma name_simps: "command_name register_decl = ''register''" "command_name unregister_decl = ''unregister''"
  "command_name validateBaseCluster_decl = ''validate''" "command_name validateGitBaseCluster_decl = ''validategit''"
  "command_name prepareBaseCluster_decl = ''prepare''" "command_name prepareGitBaseCluster_decl = ''preparegit''"
  by code_simp+

lemma subcommand_register:
  "subcommand (git_NewCommand env Usage) ''register'' = Some (register_command env)"
  by (simp add: subcommand_def git_NewCommand_def register_command_def name_simps)

lemma subcommand_preparegit:
  "subcommand (basecluster_NewCommand env Usage) ''preparegit'' = Some (prepareGitBaseClusterCommand env)"
  by (simp add: subcommand_def basecluster_NewCommand_def validateBaseClusterCommand_def
      validateGitBaseClusterCommand_def prepareBaseClusterCommand_def prepareGitBaseClusterCommand_def name_simps)

lemmas flag_list_defs = flag_defaults_def StringVar_def IntVar_def BoolVar_def BoolVarP_def StringSliceVar_def
  StringArrayVarP_def argocd_flag_def arlon_flag_def Use_def str_def num_def flg_def strs_def elements_def

lemma run_register:
  "run_with (register_command env) [''user'' \<mapsto> StringFlag user, ''password'' \<mapsto> StringFlag password] [url] =
     gitrepo_register env url user password RepoDefaultCtx"
  by (simp add: run_with_def register_command_def register_decl_def with_arg_def flag_list_defs)

lemma run_preparegit:
  "run_with (prepareGitBaseClusterCommand env) [''repo-path'' \<mapsto> StringFlag path] [] =
     cmd_preparegit env (template_defaults\<lparr>tf_repoPath := path\<rparr>) 1 9"
  by (simp add: run_with_def prepareGitBaseClusterCommand_def prepareGitBaseCluster_decl_def template_flags_of_def
      template_flag_list_def cas_flag_list_def template_defaults_def flag_list_defs)

text \<open>With the declared defaults of all the flags that it does not set: both sub-commands are found, the repository
  is registered under the alias \<open>default\<close>, the examples are prepared with the default group sizes, and
  Cluster API is installed with the providers \<open>aws\<close> and \<open>docker\<close>.\<close>

lemma init_capi_runs:
  "init_capi t noConfirm =
     andThen (install_command (it_Installer t) defaultKubectlPath defaultArgocdPath '''' '''' [''aws'', ''docker''] []
         True False noConfirm)
       (\<lambda>err. case err of None \<Rightarrow> ret () | Some e \<Rightarrow> fail (install_go_error e))"
  by (simp add: init_capi_def run_with_def install_NewCommand_def install_decl_def flag_list_defs)

lemma register_examples_runs:
  "run_subcommand (git_NewCommand (ce_Gitrepo (it_Cli t)) (it_Usage t)) ''register''
     [''user'' \<mapsto> StringFlag gitUser, ''password'' \<mapsto> StringFlag password] [repoUrl] =
   gitrepo_register (ce_Gitrepo (it_Cli t)) repoUrl gitUser password RepoDefaultCtx"
  by (simp only: run_subcommand_def subcommand_register option.case run_register)

lemma push_example_runs:
  "push_example t repoUrl gitUser password b u =
     andThen (runGenerateClusterTemplate t (et_name b) defaultK8sVersion (et_provider b) (et_flavor b)) (\<lambda>manifest.
     andThen (pushManifests t repoUrl gitUser password (et_repoPath b) manifest (et_manifestFileName b)) (\<lambda>_.
     cmd_preparegit (it_Cli t) (template_defaults\<lparr>tf_repoPath := et_repoPath b\<rparr>) (fst cas_defaults) (snd cas_defaults)))"
  by (simp only: push_example_def run_subcommand_def subcommand_preparegit option.case run_preparegit cas_defaults_def
      fst_conv snd_conv)

section \<open>Default values and global flags\<close>

text \<open>The defaults that the commands declare are the records of \<open>Flags\<close>.\<close>

lemma declared_defaults:
  "create_flags_of (flag_defaults (cd_Flags createCluster_decl)) = create_defaults"
  "deploy_flags_of (flag_defaults (cd_Flags deployCluster_decl)) = deploy_defaults"
  "update_flags_of (flag_defaults (cd_Flags updateCluster_decl)) = update_defaults"
  "update_flags_of (flag_defaults (cd_Flags ngupdateCluster_decl)) = update_defaults"
  "update_flags_of (flag_defaults (cd_Flags manageCluster_decl)) = update_defaults"
  "template_flags_of (flag_defaults (cd_Flags validateGitBaseCluster_decl)) = template_defaults"
  "template_flags_of (flag_defaults (cd_Flags prepareGitBaseCluster_decl)) = template_defaults"
  "profile_flags_of (flag_defaults (cd_Flags createProfile_decl)) = profile_create_defaults"
  "profile_flags_of (flag_defaults (cd_Flags updateProfile_decl)) = profile_update_defaults"
  "bundle_flags_of (flag_defaults (cd_Flags createBundle_decl)) = bundle_create_defaults"
  "bundle_flags_of (flag_defaults (cd_Flags updateBundle_decl)) = bundle_update_defaults"
  "spec_flags_of (flag_defaults (cd_Flags createClusterspec_decl)) = spec_create_defaults"
  "spec_flags_of (flag_defaults (cd_Flags updateClusterspec_decl)) = spec_update_defaults"
  "app_flags_of (flag_defaults (cd_Flags createApp_decl)) = app_defaults"
  "controller_flags_of (flag_defaults (cd_Flags controller_decl)) = controller_defaults"
  by code_simp+

text \<open>The global flags end at the name of the command, what follows is left to the library.\<close>

lemma flag_Parse_command: "s \<noteq> '''' \<Longrightarrow> hd s \<noteq> CHR ''-'' \<Longrightarrow> flag_Parse gl g (s # args) = Inr (g, s # args)"
  by simp

definition started_globals :: "'g global_flags \<Rightarrow> 'g" where
  "started_globals gl = (case gl_Set gl ''zap-log-level'' ''info'' (gl_Defaults gl) of Inl _ \<Rightarrow> gl_Defaults gl | Inr g \<Rightarrow> g)"

text \<open>So \<open>arlon webhook --port N\<close> leaves the port as it is, and \<open>webhook\<close> has no such flag.\<close>

lemma webhook_port_not_read:
  "main env cob gl (''webhook'' # args) =
     andThen (ctrlruntimeclient_init (se_AddToScheme (ar_Start env))) (\<lambda>_.
     andThen (controller_init (se_AddToScheme (ar_Start env))) (\<lambda>scheme.
     attempt (cob_Execute cob (arlon_command env scheme (gl_Port gl (started_globals gl))) (''webhook'' # args))
       (\<lambda>_. panic ''exit status 1'') ret))"
  "cd_Flags webhook_decl = []"
  by (simp_all add: main_def started_globals_def webhook_decl_def Use_def Let_def)

text \<open>A flag in front of it is read.\<close>

lemma webhook_port_in_front:
  assumes "gl_IsBool gl ''port'' = Some False" "gl_Set gl ''port'' v g = Inr g'"
  shows "flag_Parse gl g (''--port'' # v # ''webhook'' # args) = Inr (g', ''webhook'' # args)"
  using assms by (simp add: cut_value_def flag_Set_def)

end
