(* ===== verification/Spec2Isabelle.thy ===== *)
theory Spec2Isabelle
  imports Appprofile_Correct Cluster_Lifecycle Registration_Correct Callhome_Correct Gitrepo Webhook
    Initialize_Correct External_Correct Create_Correct Deepcopy_Correct Cli_Correct
begin

text \<open>
  Arlon deploys and configures Kubernetes clusters through ArgoCD. It is a command line tool (\<open>main.go\<close>,
  \<open>cmd\<close>) and a set of controllers (\<open>controllers\<close>, started by \<open>pkg/controller\<close>) over the same packages
  (\<open>pkg\<close>). Its state lives elsewhere: resources, config maps and secrets in a management cluster, applications
  and clusters in ArgoCD, manifests in git repositories, and one configuration file in the home directory.
  This library models that code and proves what it does to that state.

  \<^bold>\<open>How code is modelled.\<close> A Go function that talks to the outside is a function of type \<open>('w, 'a) io\<close>: it takes
  the world and returns a result and the next world (theory \<open>Prelude\<close>). A result is a value, an error or a
  panic, so every early return, dereferenced nil pointer, nil map write and \<open>os.Exit\<close> is a branch of the model.
  The type \<open>'w\<close> of worlds is arbitrary: the API server, ArgoCD, git, the file system, the terminal and the
  libraries are records of operations over it (\<open>resource_api\<close>, \<open>application_client\<close>, \<open>git_env\<close>, \<open>cli_env\<close>,
  ...), the parameters of the definitions. What the program relies on of them is stated by predicates (named
  \<open>lawful\<close>, \<open>laws\<close>, \<open>quiet\<close>, \<open>steady\<close>): they say what an operation does to a view of the world when it succeeds,
  that it may fail, and that it leaves other views alone. Every one of them is shown to hold of a concrete
  world in memory by the witness of the property that uses it. Structs are records, enumerations datatypes,
  \<open>map[string]string\<close> with its nil value is \<open>gomap\<close>, strings are lists of characters (bytes), \<open>int\<close> values
  of configurations are kept within 64 bits where they are parsed (\<open>Atoi\<close> fails out of range), and loops over
  slices are \<open>forM\<close>, \<open>foldl\<close> or structural recursion.

  \<^bold>\<open>The parts of the program and their theories.\<close>
  \<^item> \<open>Prelude\<close>: errors, panics, control flow, weakest preconditions (\<open>wp\<close>), preservation (\<open>keeps\<close>, \<open>steady\<close>),
    inversion of successful runs (\<open>ok_iff\<close>), and the locale \<open>reconciler\<close>. \<open>Go_Std\<close>, \<open>Go_Regexp\<close>: what is used of
    \<open>strconv\<close>, \<open>strings\<close>, \<open>path\<close> and \<open>regexp\<close>, with the locale \<open>codec\<close> for pairs of printers and parsers.
    \<open>Kube\<close>, \<open>Api\<close>, \<open>Argocd\<close>: the clients, the resource types (\<open>api/v1\<close>, \<open>pkg/common\<close>), credentials and clones
    (\<open>pkg/argocd\<close>). \<open>Deepcopy\<close>: the copies of the resource types over an explicit memory, and in
    \<open>Deepcopy_Correct\<close> the locale \<open>deep_copy\<close>. \<open>Quiet\<close>, \<open>Status\<close>: which routines leave Kubernetes and ArgoCD alone, and the locale
    \<open>status_writer\<close> of the controllers that write a state into the status of a resource.
  \<^item> \<open>Clusterspec\<close> (\<open>pkg/clusterspec\<close>), \<open>Bundle\<close> (\<open>pkg/bundle\<close>), \<open>Profile\<close> (\<open>pkg/profile\<close>): specifications, bundles and
    profiles stored as config maps, secrets and resources; creating, updating, listing, deleting them.
  \<^item> \<open>Gitutils\<close> (\<open>pkg/gitutils\<close>), \<open>Basecluster\<close> (\<open>pkg/basecluster\<close>): writing manifests into a working tree; validating
    and preparing cluster templates.
  \<^item> \<open>Cluster_Apps\<close>, \<open>Cluster_Ops\<close>, \<open>Cluster_Manage\<close> (\<open>pkg/cluster\<close>), \<open>App\<close> (\<open>pkg/app\<close>), \<open>Appprofile\<close>
    (\<open>pkg/appprofile\<close>): the ArgoCD applications of a cluster, deploying, updating, deleting and listing clusters,
    managing clusters of others, applications and application profiles.
  \<^item> \<open>Cluster_Controller\<close>, \<open>Controllers\<close> (\<open>controllers\<close>), \<open>Webhook\<close> (\<open>pkg/webhook\<close>), \<open>Startup\<close> (\<open>pkg/controller\<close>,
    \<open>main.go\<close>, \<open>cmd/version\<close>, \<open>cmd/list_clusters\<close> and the commands that start a controller): one reconciliation of
    each resource, the admission webhook, how they are started.
  \<^item> \<open>Gitrepo\<close> (\<open>pkg/gitrepo\<close>, \<open>cmd/gitrepo\<close>), \<open>Install\<close> (\<open>pkg/install\<close>, \<open>cmd/install\<close>, \<open>cmd/verify\<close>), \<open>Commands\<close>
    (the other \<open>cmd\<close> packages), \<open>Initialize\<close> (\<open>cmd/initialize\<close>): what the commands of the command line
    tool do. \<open>Flags\<close>: the default values of their flags. \<open>Command_Tree\<close>: commands with their flags, and the groups
    that \<open>arlon init\<close> builds and runs itself. \<open>Cli\<close>: the tree of commands that the \<open>NewCommand\<close> functions and
    \<open>main.go\<close> build, and \<open>main\<close>.
  \<^item> \<open>Appprofile_Correct\<close>, \<open>Cluster_Lifecycle\<close>, \<open>Registration_Correct\<close>, \<open>Callhome_Correct\<close>, \<open>External_Correct\<close>,
    \<open>Create_Correct\<close>, \<open>Initialize_Correct\<close>, \<open>Cli_Correct\<close>: the proofs about the larger components; the smaller ones have theirs in the same theory.

  \<^bold>\<open>What the theorems show.\<close>
  \<^item> Resources: the generated deep copies have the contents of the original and share no memory with it, which
    is why the other theories may have values in their place.
  \<^item> Application profiles: a successful reconciliation is one application of the function \<open>reconciled\<close>; it deploys
    every application to exactly the clusters that want it, marks invalid profiles, copies the annotations,
    and is a fixed point after one round (an instance of \<open>reconciler\<close>).
  \<^item> Clusters: the controller takes a resource through the stages of \<open>phase\<close>, a linear order, one per
    reconciliation that asks for no retry, and five bring it up; the finalizer outlives both applications. Two
    defects are proved: a lost Arlon application is never recreated, and a resource without annotations
    loses the ones that its override is later found by.
  \<^item> Registrations and call-home configurations: \<open>complete\<close> means what it says, final states are final until the
    deletion is requested, deletion takes the registered cluster along when ArgoCD finds it (but not when the
    lookup fails, nor that of a registration without a cluster name).
  \<^item> The command line: what \<open>arlon cluster create\<close> created is what a lookup finds and what deleting takes away;
    \<open>arlon clusterspec update\<close> always resets the bounds of the autoscaler, because of the defaults of its flags.
    An expired token stops the commands about clusters and no others. Lemmas say that the tree of commands is
    consistent, which flags of the client library \<open>arlon init\<close> hides, and what the commands that it runs come to.
  \<^item> Clusters of others: managing and giving up are inverse to each other; updating is not atomic.
  \<^item> Specifications, bundles, profiles, aliases: functional correctness of create and update on all branches,
    round trips of the stored forms, well-formedness of what is stored, refinement of maps.
  \<^item> Git: the working tree after processing bundles is exactly the plan; a directory is a template exactly when
    it has the required files and its clusters are as the validation counts them; the stream of documents that
    preparing writes validates when it is read back, and preparing it again changes nothing.
  \<^item> Installation: Cluster API is initialised at most once and only after the prerequisites were met; a
    successful \<open>arlon init\<close> left every object; one that failed half-way is never resumed.

  \<^bold>\<open>Loops and their bounds.\<close> All loops but two are bounded by the data they run over. \<open>decode_loop\<close> of \<open>Initialize\<close>
  reads documents until the decoder reports the end and may run for ever, so it is a partial function into
  \<open>option\<close>; \<open>decodeResources_returns\<close> shows that it returns for every decoder that has finitely many documents.
  The reconciliations of a controller are unbounded: \<open>rounds\<close> and \<open>registration_runs\<close> are inductive relations
  over any number of them. Waiting for a deployment is a library's poll loop, a parameter that ends because of
  its timeout; \<open>hangs\<close> of \<open>Initialize\<close> stands for a decoder that never stops, which the theorem above excludes.
  The wait for a forwarded port is an operation of the library's forwarder. No model uses fuel.

  \<^bold>\<open>Not modelled.\<close> How \<open>cobra\<close> parses a line into a command, its flags and arguments (a parameter,
  with its documentation as the law \<open>cobra_law\<close>), and help texts; log messages and the
  progress messages of the installing commands; layout of the printed tables beyond their cells; the closing of connections and files when nothing depends on it; the contents of the embedded YAML and
  Helm files, which are a parameter; concurrency of two controllers on the same resource, which Kubernetes
  resolves by its resource versions: a reconciliation is one sequence of calls here. The mutex of
  \<open>pkg/appprofile\<close> serialises the reconciliations of that package, so their interleaving does not arise.
\<close>

end
